(* ===== verification/Prelude.thy ===== *)
theory Prelude
  imports Main "HOL-Library.Word"
begin

text \<open>
  Shared vocabulary of the development: Rust results (with the panic that a plain sum type
  would hide), machine integers and their little-endian bytes, decimal printing and parsing as
  Rust's \<^verbatim>\<open>to_string\<close> and \<^verbatim>\<open>parse\<close> do it, and the string operations of the standard library that the
  SDK uses.  A string is the list of its UTF-8 bytes; functions that classify characters
  (\<^verbatim>\<open>trim\<close>, \<^verbatim>\<open>is_whitespace\<close>) are modelled on ASCII text, which is what HTTP header values hold.
\<close>

named_theorems result_simps \<open>how Ok arises from the combinators on results\<close>
named_theorems word_facts \<open>machine words read as natural numbers\<close>

section \<open>Results\<close>

text \<open>
  \<^verbatim>\<open>Result<T, E>\<close>, with a third outcome: the thread panics (an overflow with overflow checks
  on, a poisoned mutex, an \<^verbatim>\<open>unwrap\<close> of nothing).
\<close>

datatype ('a, 'e) result = Ok 'a | Err 'e | Panic

text \<open>The \<^verbatim>\<open>?\<close> operator.\<close>

fun rbind :: "('a, 'e) result \<Rightarrow> ('a \<Rightarrow> ('b, 'e) result) \<Rightarrow> ('b, 'e) result" where
  "rbind (Ok x) f = f x"
| "rbind (Err e) f = Err e"
| "rbind Panic f = Panic"

fun map_err :: "('e \<Rightarrow> 'f) \<Rightarrow> ('a, 'e) result \<Rightarrow> ('a, 'f) result" where
  "map_err h (Ok x) = Ok x"
| "map_err h (Err e) = Err (h e)"
| "map_err h Panic = Panic"

definition ok_or :: "'a option \<Rightarrow> 'e \<Rightarrow> ('a, 'e) result" where
  "ok_or v e = (case v of None \<Rightarrow> Err e | Some x \<Rightarrow> Ok x)"

text \<open>\<^verbatim>\<open>result.ok()\<close>, for results that cannot panic.\<close>

definition ok_value :: "('a, 'e) result \<Rightarrow> 'a option" where
  "ok_value r = (case r of Ok x \<Rightarrow> Some x | _ \<Rightarrow> None)"

definition is_ok :: "('a, 'e) result \<Rightarrow> bool" where
  "is_ok r = (case r of Ok _ \<Rightarrow> True | _ \<Rightarrow> False)"

definition is_panic :: "('a, 'e) result \<Rightarrow> bool" where
  "is_panic r = (case r of Panic \<Rightarrow> True | _ \<Rightarrow> False)"

lemma rbind_eq_Ok [simp, result_simps]:
  "rbind m f = Ok y \<longleftrightarrow> (\<exists>x. m = Ok x \<and> f x = Ok y)"
  by (cases m) auto

lemma map_err_eq_Ok [simp, result_simps]: "map_err h m = Ok y \<longleftrightarrow> m = Ok y"
  by (cases m) auto

lemma map_err_eq_Panic [simp]: "map_err h m = Panic \<longleftrightarrow> m = Panic"
  by (cases m) auto

lemma ok_or_eq_Ok [simp, result_simps]: "ok_or v e = Ok x \<longleftrightarrow> v = Some x"
  by (cases v) (auto simp: ok_or_def)

lemma ok_or_simps [simp]: "ok_or None e = Err e" "ok_or (Some x) e = Ok x"
  by (auto simp: ok_or_def)

lemma ok_value_simps [simp]:
  "ok_value (Ok x) = Some x" "ok_value (Err e) = None" "ok_value Panic = None"
  by (auto simp: ok_value_def)

lemma is_ok_iff [result_simps]: "is_ok r \<longleftrightarrow> (\<exists>x. r = Ok x)"
  by (cases r) (auto simp: is_ok_def)

lemma is_ok_simps [simp]: "is_ok (Ok x)" "\<not> is_ok (Err e)" "\<not> is_ok Panic"
  by (auto simp: is_ok_def)

lemma is_ok_rbind_Ok: "is_ok (rbind m (\<lambda>x. Ok (g x))) \<longleftrightarrow> is_ok m"
  by (cases m) simp_all

text \<open>\<^verbatim>\<open>iter().map(f).collect::<Result<Vec<_>>>()\<close>: stops at the first error.\<close>

fun collect_results :: "('a \<Rightarrow> ('b, 'e) result) \<Rightarrow> 'a list \<Rightarrow> ('b list, 'e) result" where
  "collect_results f [] = Ok []"
| "collect_results f (x # xs) =
     rbind (f x) (\<lambda>y. rbind (collect_results f xs) (\<lambda>ys. Ok (y # ys)))"

lemma collect_results_Ok:
  "collect_results f xs = Ok ys \<longleftrightarrow> list_all2 (\<lambda>x y. f x = Ok y) xs ys"
  by (induction xs arbitrary: ys) (auto simp: list_all2_Cons1)

section \<open>Machine integers\<close>

type_synonym byte = "8 word"
type_synonym u16 = "16 word"
type_synonym u32 = "32 word"
type_synonym u64 = "64 word"

text \<open>An \<^verbatim>\<open>i64\<close> is kept as its 64 bits; comparisons are the signed ones (\<open>word_sle\<close>, \<open>word_sless\<close>).\<close>

type_synonym i64 = "64 word"

text \<open>
  How the crate was compiled.  Rust checks integer overflow in debug builds and wraps in
  release builds; the SDK sets neither, so both are modelled.
\<close>

datatype build = Debug_Build | Release_Build

definition add_u64 :: "build \<Rightarrow> u64 \<Rightarrow> u64 \<Rightarrow> (u64, 'e) result" where
  "add_u64 b x y =
     (if unat x + unat y < 2 ^ 64 then Ok (x + y)
      else case b of Debug_Build \<Rightarrow> Panic | Release_Build \<Rightarrow> Ok (x + y))"

fun sum_u64 :: "build \<Rightarrow> u64 \<Rightarrow> u64 list \<Rightarrow> (u64, 'e) result" where
  "sum_u64 b acc [] = Ok acc"
| "sum_u64 b acc (x # xs) = rbind (add_u64 b acc x) (\<lambda>acc'. sum_u64 b acc' xs)"

definition checked_sub_u64 :: "u64 \<Rightarrow> u64 \<Rightarrow> u64 option" where
  "checked_sub_u64 x y = (if y \<le> x then Some (x - y) else None)"

lemma unat_lt: "unat (x :: 'a::len word) < 2 ^ LENGTH('a)"
  by (rule unsigned_less)

lemma unat_add_small [word_facts]:
  "unat (x :: u64) + unat y < 2 ^ 64 \<Longrightarrow> unat (x + y) = unat x + unat y"
  by (simp add: unat_word_ariths)

lemma unat_sub_small [word_facts]:
  "(y :: u64) \<le> x \<Longrightarrow> unat (x - y) = unat x - unat y"
  by (simp add: unat_sub)

lemma add_u64_exact: "unat x + unat y < 2 ^ 64 \<Longrightarrow> add_u64 b x y = Ok (x + y)"
  by (simp add: add_u64_def)

lemma add_u64_Debug:
  "add_u64 Debug_Build x y = Ok z \<Longrightarrow> unat z = unat x + unat y"
  by (auto simp: add_u64_def unat_add_small split: if_splits)

lemma add_u64_not_Err [simp]: "add_u64 b x y \<noteq> Err e"
  by (cases b) (auto simp: add_u64_def)

lemma add_u64_Release [simp]: "add_u64 Release_Build x y = Ok (x + y)"
  by (simp add: add_u64_def)

lemma sum_u64_not_Err [simp]: "sum_u64 b acc xs \<noteq> Err e"
  by (induction xs arbitrary: acc) (auto split: result.splits, metis add_u64_not_Err rbind.simps result.exhaust)

lemma sum_u64_exact:
  "unat acc + sum_list (map unat xs) < 2 ^ 64 \<Longrightarrow>
   \<exists>z. sum_u64 b acc xs = (Ok z :: (u64, 'e) result) \<and> unat z = unat acc + sum_list (map unat xs)"
proof (induction xs arbitrary: acc)
  case Nil
  then show ?case by simp
next
  case (Cons x xs)
  then have small: "unat acc + unat x < 2 ^ 64" by simp
  then have sum: "unat (acc + x) = unat acc + unat x" by (rule unat_add_small)
  have "\<exists>z. sum_u64 b (acc + x) xs = (Ok z :: (u64, 'e) result) \<and>
      unat z = unat (acc + x) + sum_list (map unat xs)"
    by (rule Cons.IH) (use Cons.prems in \<open>simp add: sum\<close>)
  with small show ?case by (auto simp: add_u64_exact sum)
qed

lemma sum_u64_Debug:
  "sum_u64 Debug_Build acc xs = Ok z \<Longrightarrow> unat z = unat acc + sum_list (map unat xs)"
  by (induction xs arbitrary: acc) (auto dest!: add_u64_Debug)

text \<open>The value of a sum that does not overflow, in either build.\<close>

lemma add_u64_value:
  "add_u64 b x y = Ok z \<Longrightarrow> unat x + unat y < 2 ^ 64 \<Longrightarrow> unat z = unat x + unat y"
  using unat_add_small [of x y] by (auto simp: add_u64_def)

lemma sum_u64_value:
  assumes "sum_u64 b acc xs = (Ok z :: (u64, 'e) result)"
    and "unat acc + sum_list (map unat xs) < 2 ^ 64"
  shows "unat z = unat acc + sum_list (map unat xs)"
  using sum_u64_exact [OF assms(2), of b, where 'e = 'e] assms(1) by auto

text \<open>\<^verbatim>\<open>to_le_bytes\<close> of a k-byte integer and its inverse.\<close>

fun le_of_nat :: "nat \<Rightarrow> nat \<Rightarrow> byte list" where
  "le_of_nat 0 n = []"
| "le_of_nat (Suc k) n = of_nat (n mod 256) # le_of_nat k (n div 256)"

fun nat_of_le :: "byte list \<Rightarrow> nat" where
  "nat_of_le [] = 0"
| "nat_of_le (b # bs) = unat b + 256 * nat_of_le bs"

lemma length_le_of_nat [simp]: "length (le_of_nat k n) = k"
  by (induction k n rule: le_of_nat.induct) auto

lemma nat_of_le_of_nat: "nat_of_le (le_of_nat k n) = n mod 256 ^ k"
proof (induction k n rule: le_of_nat.induct)
  case (1 n)
  show ?case by simp
next
  case (2 k n)
  have "unat (of_nat (n mod 256) :: byte) = n mod 256"
    by (simp add: unat_of_nat)
  with 2 show ?case by (simp add: mod_mult2_eq mult.commute add.commute)
qed

lemma nat_of_le_bound: "nat_of_le bs < 256 ^ length bs"
proof (induction bs)
  case Nil
  show ?case by simp
next
  case (Cons b bs)
  have "unat b < 256" using unat_lt [of b] by simp
  with Cons show ?case by simp
qed

definition u16_le :: "u16 \<Rightarrow> byte list" where
  "u16_le x = le_of_nat 2 (unat x)"

definition u32_le :: "u32 \<Rightarrow> byte list" where
  "u32_le x = le_of_nat 4 (unat x)"

definition u64_le :: "u64 \<Rightarrow> byte list" where
  "u64_le x = le_of_nat 8 (unat x)"

definition u32_from_le :: "byte list \<Rightarrow> u32" where
  "u32_from_le bs = of_nat (nat_of_le bs)"

definition u64_from_le :: "byte list \<Rightarrow> u64" where
  "u64_from_le bs = of_nat (nat_of_le bs)"

lemma length_le [simp]:
  "length (u16_le a) = 2" "length (u32_le b) = 4" "length (u64_le c) = 8"
  by (simp_all add: u16_le_def u32_le_def u64_le_def)

lemma u64_from_le_inverse [simp]: "u64_from_le (u64_le x) = x"
proof -
  have "unat x mod 256 ^ 8 = unat x"
    using unat_lt [of x] by simp
  then show ?thesis by (simp add: u64_from_le_def u64_le_def nat_of_le_of_nat)
qed

lemma u32_from_le_inverse [simp]: "u32_from_le (u32_le x) = x"
proof -
  have "unat x mod 256 ^ 4 = unat x"
    using unat_lt [of x] by simp
  then show ?thesis by (simp add: u32_from_le_def u32_le_def nat_of_le_of_nat)
qed

lemma u16_le_inj: "u16_le x = u16_le y \<longleftrightarrow> x = y"
proof
  assume "u16_le x = u16_le y"
  then have "nat_of_le (u16_le x) = nat_of_le (u16_le y)" by simp
  moreover have "unat z mod 256 ^ 2 = unat z" for z :: u16
    using unat_lt [of z] by simp
  ultimately show "x = y" by (simp add: u16_le_def nat_of_le_of_nat word_unat_eq_iff)
qed simp

lemma u64_le_inj: "u64_le x = u64_le y \<longleftrightarrow> x = y"
  by (metis u64_from_le_inverse)

lemma u32_le_inj: "u32_le x = u32_le y \<longleftrightarrow> x = y"
  by (metis u32_from_le_inverse)

section \<open>Runs of a state machine\<close>

text \<open>
  The states a machine reaches from \<open>s\<close> by events that are allowed where they happen, and the two
  ways to reason about them: an invariant, and a relation every step respects.
\<close>

inductive reaches :: "('e \<Rightarrow> 's \<Rightarrow> 's) \<Rightarrow> ('e \<Rightarrow> 's \<Rightarrow> bool) \<Rightarrow> 's \<Rightarrow> 's \<Rightarrow> bool"
  for step :: "'e \<Rightarrow> 's \<Rightarrow> 's" and allowed :: "'e \<Rightarrow> 's \<Rightarrow> bool" and s :: 's where
  reaches_refl: "reaches step allowed s s"
| reaches_step: "reaches step allowed s t \<Longrightarrow> allowed e t \<Longrightarrow> reaches step allowed s (step e t)"

inductive_cases reaches_cases: "reaches step allowed s t"

lemma reaches_invariant:
  assumes "reaches step allowed s t" and "P s"
    and "\<And>e u. P u \<Longrightarrow> allowed e u \<Longrightarrow> P (step e u)"
  shows "P t"
  using assms(1) by induction (use assms(2,3) in auto)

lemma reaches_weaken:
  assumes "reaches step allowed s t" and "\<And>e u. allowed e u \<Longrightarrow> allowed' e u"
  shows "reaches step allowed' s t"
  using assms(1) by induction (auto intro: reaches.intros assms(2))

text \<open>A run given by the list of its events, which a concrete example can evaluate.\<close>

fun run_events :: "('e \<Rightarrow> 's \<Rightarrow> 's) \<Rightarrow> 'e list \<Rightarrow> 's \<Rightarrow> 's" where
  "run_events step [] s = s"
| "run_events step (e # es) s = run_events step es (step e s)"

fun all_allowed :: "('e \<Rightarrow> 's \<Rightarrow> 's) \<Rightarrow> ('e \<Rightarrow> 's \<Rightarrow> bool) \<Rightarrow> 'e list \<Rightarrow> 's \<Rightarrow> bool" where
  "all_allowed step allowed [] s = True"
| "all_allowed step allowed (e # es) s =
     (allowed e s \<and> all_allowed step allowed es (step e s))"

lemma run_events_append: "run_events step (es @ fs) s = run_events step fs (run_events step es s)"
  by (induction es arbitrary: s) auto

lemma reaches_head:
  assumes "reaches step allowed (step e s) t" and "allowed e s"
  shows "reaches step allowed s t"
  using assms(1) by induction (auto intro: reaches.intros assms(2))

lemma reaches_run:
  "all_allowed step allowed es s \<Longrightarrow> reaches step allowed s (run_events step es s)"
  by (induction es arbitrary: s) (auto intro: reaches_refl reaches_head)

end
