(* ===== verification/Errors.thy ===== *)
theory Errors
  imports Rust_Strings
begin

text \<open>
  The SDK's two error enums with their messages (\<^verbatim>\<open>rust/src/error.rs\<close> and the \<^verbatim>\<open>StoreError\<close> of
  \<^verbatim>\<open>rust/src/store.rs\<close>), and the record of third-party functions that the models take as a
  parameter.
\<close>

section \<open>Error enums\<close>

datatype error =
    Rpc string
  | TransactionNotFound
  | TransactionFailed string
  | NoTransferInstruction
  | AmountMismatch string string
  | RecipientMismatch string string
  | MintMismatch string string
  | AtaMismatch
  | SignatureConsumed
  | SimulationFailed string
  | MissingTransaction
  | MissingSignature
  | InvalidPayloadType string
  | SplitsExceedAmount
  | TooManySplits
  | InvalidConfig string
  | ChallengeExpired string
  | ChallengeMismatch
  | Other string

fun error_display :: "error \<Rightarrow> string" where
  "error_display (Rpc m) = ''RPC error: '' @ m"
| "error_display TransactionNotFound = ''Transaction not found or not yet confirmed''"
| "error_display (TransactionFailed m) = ''Transaction failed on-chain: '' @ m"
| "error_display NoTransferInstruction = ''No matching transfer instruction found''"
| "error_display (AmountMismatch e a) = ''Amount mismatch: expected '' @ e @ '', got '' @ a"
| "error_display (RecipientMismatch e a) = ''Recipient mismatch: expected '' @ e @ '', got '' @ a"
| "error_display (MintMismatch e a) = ''Token mint mismatch: expected '' @ e @ '', got '' @ a"
| "error_display AtaMismatch = ''Destination ATA does not belong to expected recipient''"
| "error_display SignatureConsumed = ''Transaction signature already consumed''"
| "error_display (SimulationFailed m) = ''Simulation failed: '' @ m"
| "error_display MissingTransaction = ''Missing transaction data in credential payload''"
| "error_display MissingSignature = ''Missing signature in credential payload''"
| "error_display (InvalidPayloadType m) = ''Invalid payload type: '' @ m"
| "error_display SplitsExceedAmount = ''Splits consume the entire amount''"
| "error_display TooManySplits = ''Splits exceed maximum of 8 entries''"
| "error_display (InvalidConfig m) = ''Invalid configuration: '' @ m"
| "error_display (ChallengeExpired m) = ''Challenge expired at '' @ m"
| "error_display ChallengeMismatch =
     ''Challenge ID mismatch '' @ em_dash @ '' not issued by this server''"
| "error_display (Other m) = m"

datatype store_error = Internal string | Serialization string

fun store_error_display :: "store_error \<Rightarrow> string" where
  "store_error_display (Internal m) = ''Store error: '' @ m"
| "store_error_display (Serialization m) = ''Serialization error: '' @ m"

section \<open>Code outside the repository\<close>

text \<open>A Solana public key is its 32 bytes, opaque to the SDK.\<close>

datatype pubkey = Pubkey (pubkey_bytes: "byte list")

text \<open>
  What the session and charge code calls in other crates: \<^verbatim>\<open>bs58\<close>, \<^verbatim>\<open>solana_pubkey\<close> (parsing and PDA
  derivation), \<^verbatim>\<open>blake3\<close>, \<^verbatim>\<open>ed25519_dalek\<close>, the RPC client and the system clock.  Errors of those
  crates are their display texts.  \<^verbatim>\<open>clock n\<close> is the n-th reading of \<^verbatim>\<open>SystemTime::now()\<close> within one
  call, in seconds since the epoch.
\<close>

record externs =
  bs58_decode :: "string \<Rightarrow> (byte list, string) result"
  bs58_encode :: "byte list \<Rightarrow> string"
  pubkey_from_str :: "string \<Rightarrow> (pubkey, string) result"
  find_program_address :: "byte list list \<Rightarrow> pubkey \<Rightarrow> pubkey \<times> byte"
  blake3_hash :: "byte list \<Rightarrow> byte list"
  ed25519_key_from_bytes :: "byte list \<Rightarrow> (unit, string) result"
  ed25519_verify_strict :: "byte list \<Rightarrow> byte list \<Rightarrow> byte list \<Rightarrow> bool"
  parse_tx_signature :: "string \<Rightarrow> (byte list, string) result"
  signature_status ::
    "string \<Rightarrow> byte list \<Rightarrow> ((unit, string) result option, string) result"
  clock :: "nat \<Rightarrow> u64"

text \<open>\<^verbatim>\<open>SolanaSigner\<close> of \<^verbatim>\<open>solana_keychain\<close>: a key held in memory, in hardware or by a service.\<close>

record signer =
  sg_pubkey :: pubkey
  sg_sign :: "byte list \<Rightarrow> (byte list, string) result"

text \<open>\<^verbatim>\<open>Vec<u8>::try_into::<[u8; N]>\<close>.\<close>

definition try_into_array :: "nat \<Rightarrow> byte list \<Rightarrow> byte list option" where
  "try_into_array n bs = (if length bs = n then Some bs else None)"

lemma try_into_array_Some [simp]:
  "try_into_array n bs = Some cs \<longleftrightarrow> cs = bs \<and> length bs = n"
  by (auto simp: try_into_array_def)

end
