(* ===== verification/Payment_Channels.thy ===== *)
theory Payment_Channels
  imports Errors
begin

text \<open>
  \<^verbatim>\<open>rust/src/program/payment_channels.rs\<close> and the parts of the generated Codama client it drives:
  PDA seeds, the signed voucher bytes, the distribution-hash preimage and the instruction
  builders.  Borsh encodes a struct as its fields in order, integers little-endian, a vector as
  its 32-bit length and its elements, an address as its 32 bytes.
\<close>

section \<open>Constants and public keys\<close>

definition PAYMENT_CHANNELS_PROGRAM_ID :: string where
  "PAYMENT_CHANNELS_PROGRAM_ID = ''GuoKrzaBiZnW5DvJ3yZVE7xHqbcBvaX9SH6P6Cn9gNvc''"

definition ED25519_PROGRAM_ID :: string where
  "ED25519_PROGRAM_ID = ''Ed25519SigVerify111111111111111111111111111''"

definition INSTRUCTIONS_SYSVAR_ID :: string where
  "INSTRUCTIONS_SYSVAR_ID = ''Sysvar1nstructions1111111111111111111111111''"

definition RENT_SYSVAR_ID :: string where
  "RENT_SYSVAR_ID = ''SysvarRent111111111111111111111111111111111''"

definition ASSOCIATED_TOKEN_PROGRAM :: string where
  "ASSOCIATED_TOKEN_PROGRAM = ''ATokenGPvbdGVxr1b2hvZbsiqW5xWH25efTNsLJA8knL''"

definition ascii_bytes :: "string \<Rightarrow> byte list" where
  "ascii_bytes s = map (\<lambda>c. of_nat (of_char c)) s"

definition CHANNEL_SEED :: "byte list" where
  "CHANNEL_SEED = ascii_bytes ''channel''"

definition EVENT_AUTHORITY_SEED :: "byte list" where
  "EVENT_AUTHORITY_SEED = ascii_bytes ''event_authority''"

definition TREASURY_OWNER :: "byte list" where
  "TREASURY_OWNER = concat (replicate 16 [0xBE, 0xEF])"

text \<open>\<^verbatim>\<open>Pubkey::from_str(s).expect(_)\<close> panics on a string that is no public key.\<close>

definition expect_pubkey :: "externs \<Rightarrow> string \<Rightarrow> (pubkey, 'e) result" where
  "expect_pubkey X s = (case pubkey_from_str X s of Ok p \<Rightarrow> Ok p | _ \<Rightarrow> Panic)"

definition default_program_id :: "externs \<Rightarrow> (pubkey, 'e) result" where
  "default_program_id X = expect_pubkey X PAYMENT_CHANNELS_PROGRAM_ID"

definition instructions_sysvar_id :: "externs \<Rightarrow> (pubkey, 'e) result" where
  "instructions_sysvar_id X = expect_pubkey X INSTRUCTIONS_SYSVAR_ID"

definition rent_sysvar_id :: "externs \<Rightarrow> (pubkey, 'e) result" where
  "rent_sysvar_id X = expect_pubkey X RENT_SYSVAR_ID"

definition treasury_owner :: pubkey where
  "treasury_owner = Pubkey TREASURY_OWNER"

definition parse_pubkey :: "externs \<Rightarrow> string \<Rightarrow> (pubkey, error) result" where
  "parse_pubkey X value =
     map_err (\<lambda>e. Other (''invalid pubkey '' @ value @ '': '' @ e)) (pubkey_from_str X value)"

definition pubkey_string :: "externs \<Rightarrow> pubkey \<Rightarrow> string" where
  "pubkey_string X p = bs58_encode X (pubkey_bytes p)"

section \<open>Derived addresses\<close>

record distribution =
  dist_recipient :: pubkey
  dist_bps :: u16

record open_channel_params =
  oc_payer :: pubkey
  oc_payee :: pubkey
  oc_mint :: pubkey
  oc_authorized_signer :: pubkey
  oc_salt :: u64
  oc_deposit :: u64
  oc_grace_period :: u32
  oc_recipients :: "distribution list"
  oc_token_program :: pubkey
  oc_program_id :: pubkey

record channel_addresses =
  ca_channel :: pubkey
  ca_payer_token_account :: pubkey
  ca_channel_token_account :: pubkey
  ca_event_authority :: pubkey

definition channel_seeds ::
  "pubkey \<Rightarrow> pubkey \<Rightarrow> pubkey \<Rightarrow> pubkey \<Rightarrow> u64 \<Rightarrow> byte list list" where
  "channel_seeds payer payee mint authorized_signer salt =
     [CHANNEL_SEED, pubkey_bytes payer, pubkey_bytes payee, pubkey_bytes mint,
      pubkey_bytes authorized_signer, u64_le salt]"

definition find_channel_pda ::
  "externs \<Rightarrow> pubkey \<Rightarrow> pubkey \<Rightarrow> pubkey \<Rightarrow> pubkey \<Rightarrow> u64 \<Rightarrow> pubkey \<Rightarrow> pubkey \<times> byte" where
  "find_channel_pda X payer payee mint authorized_signer salt program_id =
     find_program_address X (channel_seeds payer payee mint authorized_signer salt) program_id"

definition find_event_authority_pda :: "externs \<Rightarrow> pubkey \<Rightarrow> pubkey \<times> byte" where
  "find_event_authority_pda X program_id =
     find_program_address X [EVENT_AUTHORITY_SEED] program_id"

definition find_associated_token_address ::
  "externs \<Rightarrow> pubkey \<Rightarrow> pubkey \<Rightarrow> pubkey \<Rightarrow> (pubkey \<times> byte, 'e) result" where
  "find_associated_token_address X owner mint token_program =
     rbind (expect_pubkey X ASSOCIATED_TOKEN_PROGRAM) (\<lambda>ata_program.
       Ok (find_program_address X
             [pubkey_bytes owner, pubkey_bytes token_program, pubkey_bytes mint] ata_program))"

definition derive_channel_addresses ::
  "externs \<Rightarrow> open_channel_params \<Rightarrow> (channel_addresses, 'e) result" where
  "derive_channel_addresses X params =
     (let (channel, _) =
        find_channel_pda X (oc_payer params) (oc_payee params) (oc_mint params)
          (oc_authorized_signer params) (oc_salt params) (oc_program_id params)
      in rbind (find_associated_token_address X (oc_payer params) (oc_mint params)
                  (oc_token_program params)) (\<lambda>(payer_token_account, _).
         rbind (find_associated_token_address X channel (oc_mint params)
                  (oc_token_program params)) (\<lambda>(channel_token_account, _).
         let (event_authority, _) = find_event_authority_pda X (oc_program_id params)
         in Ok \<lparr>ca_channel = channel,
                ca_payer_token_account = payer_token_account,
                ca_channel_token_account = channel_token_account,
                ca_event_authority = event_authority\<rparr>)))"

lemma derived_channel:
  "derive_channel_addresses X params = Ok addresses \<Longrightarrow>
   ca_channel addresses =
     fst (find_program_address X
       (channel_seeds (oc_payer params) (oc_payee params) (oc_mint params)
          (oc_authorized_signer params) (oc_salt params)) (oc_program_id params))"
  by (cases "find_program_address X (channel_seeds (oc_payer params) (oc_payee params)
        (oc_mint params) (oc_authorized_signer params) (oc_salt params)) (oc_program_id params)";
      cases "find_event_authority_pda X (oc_program_id params)")
    (auto simp: derive_channel_addresses_def find_channel_pda_def Let_def)

section \<open>Hashed and signed bytes\<close>

text \<open>The bytes fed to the BLAKE3 hasher.\<close>

definition distribution_entry_bytes :: "distribution \<Rightarrow> byte list" where
  "distribution_entry_bytes d = pubkey_bytes (dist_recipient d) @ u16_le (dist_bps d)"

definition distribution_preimage :: "distribution list \<Rightarrow> byte list" where
  "distribution_preimage recipients =
     u32_le (of_nat (length recipients)) @ concat (map distribution_entry_bytes recipients)"

definition distribution_hash :: "externs \<Rightarrow> distribution list \<Rightarrow> byte list" where
  "distribution_hash X recipients = blake3_hash X (distribution_preimage recipients)"

record voucher_args =
  va_channel_id :: pubkey
  va_cumulative_amount :: u64
  va_expires_at :: i64

definition voucher_args_bytes :: "voucher_args \<Rightarrow> byte list" where
  "voucher_args_bytes v =
     pubkey_bytes (va_channel_id v) @ u64_le (va_cumulative_amount v) @ u64_le (va_expires_at v)"

text \<open>Borsh serialisation of these fixed-size fields into a vector does not fail.\<close>

definition voucher_message_bytes :: "pubkey \<Rightarrow> u64 \<Rightarrow> i64 \<Rightarrow> (byte list, error) result" where
  "voucher_message_bytes channel_id cumulative_amount expires_at =
     Ok (voucher_args_bytes
           \<lparr>va_channel_id = channel_id, va_cumulative_amount = cumulative_amount,
            va_expires_at = expires_at\<rparr>)"

text \<open>Every key that occurs is 32 bytes long: \<^verbatim>\<open>Pubkey\<close> is an array of that length.\<close>

definition wf_pubkey :: "pubkey \<Rightarrow> bool" where
  "wf_pubkey p = (length (pubkey_bytes p) = 32)"

lemma voucher_args_bytes_inj:
  assumes "wf_pubkey (va_channel_id v)" and "wf_pubkey (va_channel_id w)"
    and "voucher_args_bytes v = voucher_args_bytes w"
  shows "v = w"
proof -
  have key: "pubkey_bytes (va_channel_id v) = pubkey_bytes (va_channel_id w)"
    and rest: "u64_le (va_cumulative_amount v) @ u64_le (va_expires_at v) =
      u64_le (va_cumulative_amount w) @ u64_le (va_expires_at w)"
    using assms by (simp_all add: voucher_args_bytes_def wf_pubkey_def)
  from rest have "u64_le (va_cumulative_amount v) = u64_le (va_cumulative_amount w)"
    and "u64_le (va_expires_at v) = u64_le (va_expires_at w)" by simp_all
  with key show ?thesis by (simp add: u64_le_inj pubkey.expand)
qed

lemma length_voucher_args_bytes:
  "wf_pubkey (va_channel_id v) \<Longrightarrow> length (voucher_args_bytes v) = 48"
  by (simp add: voucher_args_bytes_def wf_pubkey_def)

lemma distribution_entry_inj:
  assumes "wf_pubkey (dist_recipient d)" and "wf_pubkey (dist_recipient e)"
    and "distribution_entry_bytes d @ xs = distribution_entry_bytes e @ ys"
  shows "d = e \<and> xs = ys"
  using assms
  by (auto simp: distribution_entry_bytes_def wf_pubkey_def u16_le_inj pubkey.expand)

lemma distribution_entries_inj:
  assumes "\<forall>d \<in> set ds. wf_pubkey (dist_recipient d)"
    and "\<forall>d \<in> set es. wf_pubkey (dist_recipient d)"
    and "length ds = length es"
    and "concat (map distribution_entry_bytes ds) = concat (map distribution_entry_bytes es)"
  shows "ds = es"
  using assms(3,1,2,4)
  by (induction ds es rule: list_induct2) (auto dest: distribution_entry_inj)

lemma distribution_preimage_inj:
  assumes wf: "\<forall>d \<in> set ds \<union> set es. wf_pubkey (dist_recipient d)"
    and small: "length ds < 2 ^ 32" "length es < 2 ^ 32"
    and eq: "distribution_preimage ds = distribution_preimage es"
  shows "ds = es"
proof -
  from eq have heads: "u32_le (of_nat (length ds)) = u32_le (of_nat (length es))"
    and tails: "concat (map distribution_entry_bytes ds) =
      concat (map distribution_entry_bytes es)"
    by (simp_all add: distribution_preimage_def)
  from heads have "unat (of_nat (length ds) :: u32) = unat (of_nat (length es) :: u32)"
    by (simp add: u32_le_inj)
  with small have "length ds = length es" by (simp add: unat_of_nat)
  with tails wf show ?thesis by (auto intro: distribution_entries_inj)
qed

end
