(* ===== verification/Json.thy ===== *)
theory Json
  imports Errors
begin

text \<open>
  JSON values as the SDK handles them (\<^verbatim>\<open>serde_json::Value\<close>) with the accessors it calls.  An object
  is the list of its members; reading a member takes the first with that key.  Parsing and
  printing JSON text belong to \<^verbatim>\<open>serde_json\<close> and are parameters where they are used.
\<close>

datatype json_number = PosInt u64 | NegInt i64 | Float string

datatype json =
    JNull
  | JBool bool
  | JNumber json_number
  | JString string
  | JArray "json list"
  | JObject "(string \<times> json) list"

definition json_get :: "json \<Rightarrow> string \<Rightarrow> json option" where
  "json_get v key = (case v of JObject ms \<Rightarrow> map_of ms key | _ \<Rightarrow> None)"

definition as_str :: "json \<Rightarrow> string option" where
  "as_str v = (case v of JString s \<Rightarrow> Some s | _ \<Rightarrow> None)"

definition as_object :: "json \<Rightarrow> (string \<times> json) list option" where
  "as_object v = (case v of JObject ms \<Rightarrow> Some ms | _ \<Rightarrow> None)"

definition as_array :: "json \<Rightarrow> json list option" where
  "as_array v = (case v of JArray xs \<Rightarrow> Some xs | _ \<Rightarrow> None)"

definition number_as_u64 :: "json_number \<Rightarrow> u64 option" where
  "number_as_u64 n = (case n of PosInt x \<Rightarrow> Some x | _ \<Rightarrow> None)"

definition as_u64 :: "json \<Rightarrow> u64 option" where
  "as_u64 v = (case v of JNumber n \<Rightarrow> number_as_u64 n | _ \<Rightarrow> None)"

definition as_bool :: "json \<Rightarrow> bool option" where
  "as_bool v = (case v of JBool b \<Rightarrow> Some b | _ \<Rightarrow> None)"

section \<open>Derived Serialize and Deserialize\<close>

text \<open>
  What serde derives for a struct: members in field order, an absent option skipped.  Reading
  takes an object, or an array with one element per field in order; it refuses a missing or
  mistyped field, takes a missing or null option as \<^verbatim>\<open>None\<close>, and ignores unknown members.  The
  wording of serde's messages is not modelled.
\<close>

definition opt_member :: "string \<Rightarrow> string option \<Rightarrow> (string \<times> json) list" where
  "opt_member key v = (case v of Some s \<Rightarrow> [(key, JString s)] | None \<Rightarrow> [])"

definition struct_members :: "string list \<Rightarrow> json \<Rightarrow> ((string \<times> json) list, string) result" where
  "struct_members names v =
     (case v of
        JObject ms \<Rightarrow> Ok ms
      | JArray xs \<Rightarrow> if length xs = length names then Ok (zip names xs) else Err ''invalid length''
      | _ \<Rightarrow> Err ''invalid type'')"

definition member_str :: "(string \<times> json) list \<Rightarrow> string \<Rightarrow> (string, string) result" where
  "member_str ms key =
     (case map_of ms key of
        None \<Rightarrow> Err (''missing field '' @ key)
      | Some (JString s) \<Rightarrow> Ok s
      | Some _ \<Rightarrow> Err ''invalid type: expected a string'')"

text \<open>A required field of any type, given how its value is read.\<close>

definition member_req ::
  "(json \<Rightarrow> ('a, string) result) \<Rightarrow> (string \<times> json) list \<Rightarrow> string \<Rightarrow> ('a, string) result" where
  "member_req read ms key =
     (case map_of ms key of None \<Rightarrow> Err (''missing field '' @ key) | Some v \<Rightarrow> read v)"

text \<open>An optional field of any type, given how its value is read.\<close>

definition member_opt ::
  "(json \<Rightarrow> ('a, string) result) \<Rightarrow> (string \<times> json) list \<Rightarrow> string \<Rightarrow> ('a option, string) result" where
  "member_opt read ms key =
     (case map_of ms key of
        None \<Rightarrow> Ok None
      | Some JNull \<Rightarrow> Ok None
      | Some v \<Rightarrow> rbind (read v) (\<lambda>x. Ok (Some x)))"

definition json_str :: "json \<Rightarrow> (string, string) result" where
  "json_str v = ok_or (as_str v) ''invalid type: expected a string''"

definition json_bool :: "json \<Rightarrow> (bool, string) result" where
  "json_bool v = ok_or (as_bool v) ''invalid type: expected a boolean''"

definition json_u8 :: "json \<Rightarrow> (byte, string) result" where
  "json_u8 v =
     (case as_u64 v of
        None \<Rightarrow> Err ''invalid type: expected u8''
      | Some n \<Rightarrow> if n < 256 then Ok (ucast n) else Err ''invalid value: expected u8'')"

definition json_u64 :: "json \<Rightarrow> (u64, string) result" where
  "json_u64 v = ok_or (as_u64 v) ''invalid type: expected u64''"

text \<open>A signed integer is a nonnegative number of at most 63 bits or a negative one.\<close>

definition json_i64 :: "json \<Rightarrow> (i64, string) result" where
  "json_i64 v =
     (case v of
        JNumber (PosInt n) \<Rightarrow> if unat n < 2 ^ 63 then Ok n else Err ''invalid value: expected i64''
      | JNumber (NegInt n) \<Rightarrow> Ok n
      | _ \<Rightarrow> Err ''invalid type: expected i64'')"

definition i64_number :: "i64 \<Rightarrow> json" where
  "i64_number n = JNumber (if unat n < 2 ^ 63 then PosInt n else NegInt n)"

lemma json_i64_number [simp]: "json_i64 (i64_number n) = Ok n"
  by (simp add: json_i64_def i64_number_def)

lemma json_u64_number [simp]: "json_u64 (JNumber (PosInt n)) = Ok n"
  by (simp add: json_u64_def as_u64_def number_as_u64_def)

lemma json_str_string [simp]: "json_str (JString s) = Ok s"
  by (simp add: json_str_def as_str_def)

abbreviation member_opt_str :: "(string \<times> json) list \<Rightarrow> string \<Rightarrow> (string option, string) result" where
  "member_opt_str \<equiv> member_opt json_str"

end
