(* ===== verification/Session_Types.thy ===== *)
theory Session_Types
  imports Payment_Channels Json
begin

text \<open>
  \<^verbatim>\<open>rust/src/protocol/intents/session.rs\<close>: the session challenge, the five client actions with
  their constructors and accessors, metering directives, receipts and vouchers.
\<close>

definition DEFAULT_SESSION_EXPIRES_AT :: i64 where
  "DEFAULT_SESSION_EXPIRES_AT = 4102444800"

section \<open>Salt on the wire\<close>

text \<open>
  A salt is written as a decimal string and read from a string or an unsigned number; \<^verbatim>\<open>None\<close> as
  the input is a missing member.
\<close>

definition serialize_optional_u64_as_string :: "u64 option \<Rightarrow> json" where
  "serialize_optional_u64_as_string value =
     (case value of Some v \<Rightarrow> JString (show_u64 v) | None \<Rightarrow> JNull)"

definition deserialize_optional_u64_from_string_or_number ::
  "json option \<Rightarrow> (u64 option, string) result" where
  "deserialize_optional_u64_from_string_or_number value =
     (case value of
        None \<Rightarrow> Ok None
      | Some JNull \<Rightarrow> Ok None
      | Some (JString s) \<Rightarrow>
          (case parse_u64 s of Some v \<Rightarrow> Ok (Some v) | None \<Rightarrow> Err ''invalid integer'')
      | Some (JNumber n) \<Rightarrow>
          (case number_as_u64 n of
             Some v \<Rightarrow> Ok (Some v)
           | None \<Rightarrow> Err ''salt must be an unsigned 64-bit integer'')
      | Some _ \<Rightarrow> Err ''salt must be a decimal string or unsigned 64-bit integer'')"

section \<open>Challenge\<close>

datatype session_mode = Push | Pull

definition session_mode_debug :: "session_mode \<Rightarrow> string" where
  "session_mode_debug m = (case m of Push \<Rightarrow> ''Push'' | Pull \<Rightarrow> ''Pull'')"

datatype pull_voucher_strategy = ClientVoucher | OperatedVoucher

record session_split =
  ss_recipient :: string
  ss_bps :: u16

record session_request =
  sr_cap :: string
  sr_currency :: string
  sr_decimals :: "byte option"
  sr_network :: "string option"
  sr_operator :: string
  sr_recipient :: string
  sr_splits :: "session_split list"
  sr_program_id :: "string option"
  sr_description :: "string option"
  sr_external_id :: "string option"
  sr_min_voucher_delta :: "string option"
  sr_modes :: "session_mode list"
  sr_pull_voucher_strategy :: "pull_voucher_strategy option"
  sr_recent_blockhash :: "string option"

section \<open>Open\<close>

record open_payload =
  op_mode :: session_mode
  op_channel_id :: "string option"
  op_deposit :: "string option"
  op_payer :: "string option"
  op_payee :: "string option"
  op_mint :: "string option"
  op_salt :: "u64 option"
  op_grace_period :: "u32 option"
  op_transaction :: "string option"
  op_token_account :: "string option"
  op_approved_amount :: "string option"
  op_owner :: "string option"
  op_init_multi_delegate_tx :: "string option"
  op_update_delegation_tx :: "string option"
  op_authorized_signer :: string
  op_signature :: string

definition open_push :: "string \<Rightarrow> string \<Rightarrow> string \<Rightarrow> string \<Rightarrow> open_payload" where
  "open_push channel_id deposit authorized_signer signature =
     \<lparr>op_mode = Push, op_channel_id = Some channel_id, op_deposit = Some deposit,
      op_payer = None, op_payee = None, op_mint = None, op_salt = None, op_grace_period = None,
      op_transaction = None, op_token_account = None, op_approved_amount = None,
      op_owner = None, op_init_multi_delegate_tx = None, op_update_delegation_tx = None,
      op_authorized_signer = authorized_signer, op_signature = signature\<rparr>"

definition open_payment_channel_with_mode ::
  "session_mode \<Rightarrow> string \<Rightarrow> string \<Rightarrow> string \<Rightarrow> string \<Rightarrow> string \<Rightarrow> u64 \<Rightarrow> u32 \<Rightarrow> string \<Rightarrow> string \<Rightarrow>
   open_payload" where
  "open_payment_channel_with_mode mode channel_id deposit payer payee mint salt grace_period
     authorized_signer signature =
     \<lparr>op_mode = mode, op_channel_id = Some channel_id, op_deposit = Some deposit,
      op_payer = Some payer, op_payee = Some payee, op_mint = Some mint, op_salt = Some salt,
      op_grace_period = Some grace_period, op_transaction = None, op_token_account = None,
      op_approved_amount = None, op_owner = None, op_init_multi_delegate_tx = None,
      op_update_delegation_tx = None, op_authorized_signer = authorized_signer,
      op_signature = signature\<rparr>"

definition open_payment_channel ::
  "string \<Rightarrow> string \<Rightarrow> string \<Rightarrow> string \<Rightarrow> string \<Rightarrow> u64 \<Rightarrow> u32 \<Rightarrow> string \<Rightarrow> string \<Rightarrow> open_payload" where
  "open_payment_channel channel_id deposit payer payee mint salt grace_period
     authorized_signer signature =
     open_payment_channel_with_mode Push channel_id deposit payer payee mint salt grace_period
       authorized_signer signature"

definition with_transaction :: "open_payload \<Rightarrow> string \<Rightarrow> open_payload" where
  "with_transaction p tx = p\<lparr>op_transaction := Some tx\<rparr>"

definition open_pull :: "string \<Rightarrow> string \<Rightarrow> string \<Rightarrow> string \<Rightarrow> string \<Rightarrow> open_payload" where
  "open_pull token_account approved_amount owner authorized_signer signature =
     \<lparr>op_mode = Pull, op_channel_id = None, op_deposit = None, op_payer = None,
      op_payee = None, op_mint = None, op_salt = None, op_grace_period = None,
      op_transaction = None, op_token_account = Some token_account,
      op_approved_amount = Some approved_amount, op_owner = Some owner,
      op_init_multi_delegate_tx = None, op_update_delegation_tx = None,
      op_authorized_signer = authorized_signer, op_signature = signature\<rparr>"

definition with_init_tx :: "open_payload \<Rightarrow> string \<Rightarrow> open_payload" where
  "with_init_tx p tx = p\<lparr>op_init_multi_delegate_tx := Some tx\<rparr>"

definition with_update_tx :: "open_payload \<Rightarrow> string \<Rightarrow> open_payload" where
  "with_update_tx p tx = p\<lparr>op_update_delegation_tx := Some tx\<rparr>"

definition session_id :: "open_payload \<Rightarrow> (string, error) result" where
  "session_id p =
     (case op_channel_id p of
        Some channel_id \<Rightarrow> Ok channel_id
      | None \<Rightarrow>
          (case op_mode p of
             Push \<Rightarrow> Err (Other ''push open missing channelId'')
           | Pull \<Rightarrow> ok_or (op_token_account p)
                      (Other ''pull open missing channelId or tokenAccount'')))"

definition deposit_amount :: "open_payload \<Rightarrow> (u64, error) result" where
  "deposit_amount p =
     rbind
       (case op_deposit p of
          Some deposit \<Rightarrow> Ok deposit
        | None \<Rightarrow>
            (case op_mode p of
               Push \<Rightarrow> Err (Other ''push open missing deposit'')
             | Pull \<Rightarrow> ok_or (op_approved_amount p)
                        (Other ''pull open missing deposit or approvedAmount'')))
       (\<lambda>raw. ok_or (parse_u64 raw) (Other (''invalid deposit amount: '' @ raw)))"

section \<open>Vouchers\<close>

record voucher_data =
  vd_channel_id :: string
  vd_cumulative :: string
  vd_expires_at :: i64
  vd_nonce :: "u64 option"

record signed_voucher =
  sv_data :: voucher_data
  sv_signature :: string

definition message_bytes :: "externs \<Rightarrow> voucher_data \<Rightarrow> (byte list, error) result" where
  "message_bytes X data =
     rbind (parse_pubkey X (vd_channel_id data)) (\<lambda>channel_id.
     rbind (ok_or (parse_u64 (vd_cumulative data)) (Other ''invalid voucher cumulative''))
       (\<lambda>cumulative.
       voucher_message_bytes channel_id cumulative (vd_expires_at data)))"

section \<open>Metering\<close>

record voucher_payload =
  vp_voucher :: signed_voucher

record metering_directive =
  mdv_delivery_id :: string
  mdv_session_id :: string
  mdv_amount :: string
  mdv_currency :: string
  mdv_sequence :: u64
  mdv_expires_at :: i64
  mdv_commit_url :: "string option"
  mdv_proof :: "string option"

definition directive_amount_base_units :: "metering_directive \<Rightarrow> (u64, error) result" where
  "directive_amount_base_units d =
     ok_or (parse_u64 (mdv_amount d)) (Other (''invalid metering amount: '' @ mdv_amount d))"

record metering_usage =
  mu_delivery_id :: string
  mu_amount :: string

definition usage_amount_base_units :: "metering_usage \<Rightarrow> (u64, error) result" where
  "usage_amount_base_units u =
     ok_or (parse_u64 (mu_amount u)) (Other (''invalid metering usage amount: '' @ mu_amount u))"

record 'a metered_envelope =
  me_payload :: 'a
  me_metering :: metering_directive

record commit_payload =
  cp_delivery_id :: string
  cp_voucher :: signed_voucher

datatype commit_status = Committed | Replayed

record commit_receipt =
  cr_delivery_id :: string
  cr_session_id :: string
  cr_amount :: string
  cr_cumulative :: string
  cr_status :: commit_status

record top_up_payload =
  tu_channel_id :: string
  tu_new_deposit :: string
  tu_signature :: string

record close_payload =
  cl_channel_id :: string
  cl_voucher :: "signed_voucher option"

datatype session_action =
    OpenAction open_payload
  | VoucherAction voucher_payload
  | CommitAction commit_payload
  | TopUpAction top_up_payload
  | CloseAction close_payload

section \<open>Wire facts\<close>

lemma salt_roundtrip:
  "deserialize_optional_u64_from_string_or_number
     (Some (serialize_optional_u64_as_string salt)) = Ok salt"
  by (simp add: serialize_optional_u64_as_string_def
      deserialize_optional_u64_from_string_or_number_def split: option.splits)

lemma session_id_channel [simp]:
  "op_channel_id p = Some c \<Longrightarrow> session_id p = Ok c"
  by (simp add: session_id_def)

lemma deposit_amount_shown [simp]:
  "op_deposit p = Some (show_u64 d) \<Longrightarrow> deposit_amount p = Ok d"
  by (simp add: deposit_amount_def)

lemma message_bytes_Ok:
  assumes "message_bytes X data = Ok bytes"
  obtains p c where "parse_pubkey X (vd_channel_id data) = Ok p"
    and "parse_u64 (vd_cumulative data) = Some c"
    and "bytes = voucher_args_bytes
      \<lparr>va_channel_id = p, va_cumulative_amount = c, va_expires_at = vd_expires_at data\<rparr>"
  using assms by (auto simp: message_bytes_def voucher_message_bytes_def)

text \<open>
  What a signature over the message bytes binds: two vouchers with the same bytes authorise the
  same amount, on the same channel key, until the same time.
\<close>

lemma message_bytes_binding:
  assumes "message_bytes X v = Ok bytes" and "message_bytes X w = Ok bytes"
    and keys: "\<And>s p. pubkey_from_str X s = Ok p \<Longrightarrow> wf_pubkey p"
  shows "pubkey_from_str X (vd_channel_id v) = pubkey_from_str X (vd_channel_id w)"
    and "parse_u64 (vd_cumulative v) = parse_u64 (vd_cumulative w)"
    and "vd_expires_at v = vd_expires_at w"
proof -
  from assms(1) obtain p c where v: "parse_pubkey X (vd_channel_id v) = Ok p"
    "parse_u64 (vd_cumulative v) = Some c"
    "bytes = voucher_args_bytes
      \<lparr>va_channel_id = p, va_cumulative_amount = c, va_expires_at = vd_expires_at v\<rparr>"
    by (rule message_bytes_Ok)
  from assms(2) obtain q d where w: "parse_pubkey X (vd_channel_id w) = Ok q"
    "parse_u64 (vd_cumulative w) = Some d"
    "bytes = voucher_args_bytes
      \<lparr>va_channel_id = q, va_cumulative_amount = d, va_expires_at = vd_expires_at w\<rparr>"
    by (rule message_bytes_Ok)
  have p: "pubkey_from_str X (vd_channel_id v) = Ok p"
    and q: "pubkey_from_str X (vd_channel_id w) = Ok q"
    using v(1) w(1) by (simp_all add: parse_pubkey_def)
  have "wf_pubkey p" "wf_pubkey q" using keys p q by blast+
  with v(3) w(3) have "p = q \<and> c = d \<and> vd_expires_at v = vd_expires_at w"
    using voucher_args_bytes_inj
      [of "\<lparr>va_channel_id = p, va_cumulative_amount = c, va_expires_at = vd_expires_at v\<rparr>"
        "\<lparr>va_channel_id = q, va_cumulative_amount = d, va_expires_at = vd_expires_at w\<rparr>"]
    by simp
  with p q v(2) w(2)
  show "pubkey_from_str X (vd_channel_id v) = pubkey_from_str X (vd_channel_id w)"
    and "parse_u64 (vd_cumulative v) = parse_u64 (vd_cumulative w)"
    and "vd_expires_at v = vd_expires_at w" by simp_all
qed

end
