(* ===== verification/Channel_Store.thy ===== *)
theory Channel_Store
  imports Errors
begin

text \<open>
  The channel store of \<^verbatim>\<open>rust/src/store.rs\<close>: the persisted state of a payment channel, the trait
  \<^verbatim>\<open>ChannelStore\<close> as a record of operations, the in-memory implementation, and the contract of the
  trait as a locale over the abstract map from channel ids to states.
\<close>

section \<open>Persisted state\<close>

record pending_delivery =
  pd_delivery_id :: string
  pd_amount :: u64
  pd_sequence :: u64
  pd_expires_at :: i64

record committed_delivery =
  cd_delivery_id :: string
  cd_amount :: u64
  cd_cumulative :: u64
  cd_voucher_signature :: string

record channel_state =
  cs_channel_id :: string
  cs_authorized_signer :: string
  cs_deposit :: u64
  cs_cumulative :: u64
  cs_finalized :: bool
  cs_highest_voucher_signature :: "string option"
  cs_highest_voucher_expires_at :: "i64 option"
  cs_close_requested_at :: "u64 option"
  cs_operator :: "string option"
  cs_next_delivery_sequence :: u64
  cs_pending_deliveries :: "pending_delivery list"
  cs_committed_deliveries :: "committed_delivery list"

section \<open>The trait\<close>

text \<open>
  An updater closure receives the current state and returns the new one or an error.  Closures
  of the session server also write their outcome to a cell they share with the caller
  (\<^verbatim>\<open>Arc<Mutex<Option<_>>>\<close>), so an updater threads the cell's content, of type \<^verbatim>\<open>'c\<close>.
\<close>

type_synonym 'c updater =
  "'c \<Rightarrow> channel_state option \<Rightarrow> 'c \<times> (channel_state, store_error) result"

record ('s, 'c) channel_store =
  op_get_channel :: "'s \<Rightarrow> string \<Rightarrow> (channel_state option, store_error) result"
  op_put_channel :: "'s \<Rightarrow> string \<Rightarrow> channel_state \<Rightarrow> 's \<times> (unit, store_error) result"
  op_update_channel ::
    "'s \<Rightarrow> string \<Rightarrow> 'c updater \<Rightarrow> 'c \<Rightarrow> 's \<times> 'c \<times> (channel_state, store_error) result"
  op_advance_cumulative :: "'s \<Rightarrow> string \<Rightarrow> u64 \<Rightarrow> u64 \<Rightarrow> 's \<times> (bool, store_error) result"
  op_update_deposit :: "'s \<Rightarrow> string \<Rightarrow> u64 \<Rightarrow> 's \<times> (unit, store_error) result"
  op_mark_finalized :: "'s \<Rightarrow> string \<Rightarrow> 's \<times> (unit, store_error) result"

section \<open>MemoryChannelStore\<close>

text \<open>A mutex around a map.  A panic while the lock is held poisons it.\<close>

record memory_channel_store =
  mcs_data :: "string \<rightharpoonup> channel_state"
  mcs_poisoned :: bool

definition memory_channel_store_new :: memory_channel_store where
  "memory_channel_store_new = \<lparr>mcs_data = Map.empty, mcs_poisoned = False\<rparr>"

definition mem_get_channel ::
  "memory_channel_store \<Rightarrow> string \<Rightarrow> (channel_state option, store_error) result" where
  "mem_get_channel s cid = (if mcs_poisoned s then Panic else Ok (mcs_data s cid))"

definition mem_put_channel ::
  "memory_channel_store \<Rightarrow> string \<Rightarrow> channel_state \<Rightarrow>
   memory_channel_store \<times> (unit, store_error) result" where
  "mem_put_channel s cid st =
     (if mcs_poisoned s then (s, Panic)
      else (s\<lparr>mcs_data := (mcs_data s)(cid \<mapsto> st)\<rparr>, Ok ()))"

definition mem_update_channel ::
  "memory_channel_store \<Rightarrow> string \<Rightarrow> 'c updater \<Rightarrow> 'c \<Rightarrow>
   memory_channel_store \<times> 'c \<times> (channel_state, store_error) result" where
  "mem_update_channel s cid updater cell =
     (if mcs_poisoned s then (s, cell, Panic)
      else let current = mcs_data s cid in
           case updater cell current of
             (cell', Ok new_state) \<Rightarrow>
               (s\<lparr>mcs_data := (mcs_data s)(cid \<mapsto> new_state)\<rparr>, cell', Ok new_state)
           | (cell', Err e) \<Rightarrow> (s, cell', Err e)
           | (cell', Panic) \<Rightarrow> (s\<lparr>mcs_poisoned := True\<rparr>, cell', Panic))"

definition channel_not_found :: store_error where
  "channel_not_found = Internal ''Channel not found''"

definition mem_advance_cumulative ::
  "memory_channel_store \<Rightarrow> string \<Rightarrow> u64 \<Rightarrow> u64 \<Rightarrow>
   memory_channel_store \<times> (bool, store_error) result" where
  "mem_advance_cumulative s cid expected new =
     (if mcs_poisoned s then (s, Panic)
      else case mcs_data s cid of
             Some st \<Rightarrow>
               if cs_cumulative st = expected
               then (s\<lparr>mcs_data := (mcs_data s)(cid \<mapsto> st\<lparr>cs_cumulative := new\<rparr>)\<rparr>, Ok True)
               else (s, Ok False)
           | None \<Rightarrow> (s, Err channel_not_found))"

definition mem_update_deposit ::
  "memory_channel_store \<Rightarrow> string \<Rightarrow> u64 \<Rightarrow>
   memory_channel_store \<times> (unit, store_error) result" where
  "mem_update_deposit s cid new_deposit =
     (if mcs_poisoned s then (s, Panic)
      else case mcs_data s cid of
             Some st \<Rightarrow>
               (s\<lparr>mcs_data := (mcs_data s)(cid \<mapsto> st\<lparr>cs_deposit := new_deposit\<rparr>)\<rparr>, Ok ())
           | None \<Rightarrow> (s, Err channel_not_found))"

definition mem_mark_finalized ::
  "memory_channel_store \<Rightarrow> string \<Rightarrow> memory_channel_store \<times> (unit, store_error) result" where
  "mem_mark_finalized s cid =
     (if mcs_poisoned s then (s, Panic)
      else case mcs_data s cid of
             Some st \<Rightarrow>
               (s\<lparr>mcs_data := (mcs_data s)(cid \<mapsto> st\<lparr>cs_finalized := True\<rparr>)\<rparr>, Ok ())
           | None \<Rightarrow> (s, Err channel_not_found))"

definition memory_channel_ops :: "(memory_channel_store, 'c) channel_store" where
  "memory_channel_ops =
     \<lparr>op_get_channel = mem_get_channel,
      op_put_channel = mem_put_channel,
      op_update_channel = mem_update_channel,
      op_advance_cumulative = mem_advance_cumulative,
      op_update_deposit = mem_update_deposit,
      op_mark_finalized = mem_mark_finalized\<rparr>"

section \<open>The contract of the trait\<close>

text \<open>
  What the trait's documentation promises, over an abstract map \<open>view\<close>: a read returns the
  mapped state, \<^verbatim>\<open>put\<close> and \<^verbatim>\<open>update\<close> change one key only, \<^verbatim>\<open>update\<close> is one atomic
  read-modify-write whose closure sees the current state, \<^verbatim>\<open>advance_cumulative\<close> is a
  compare-and-swap, and errors change nothing.  The laws hold in a \<open>healthy\<close> store (one whose
  lock is not poisoned); a closure that panics makes the store unhealthy.
\<close>

locale channel_contract =
  fixes ops :: "('s, 'c) channel_store"
    and view :: "'s \<Rightarrow> string \<rightharpoonup> channel_state"
    and healthy :: "'s \<Rightarrow> bool"
  assumes get_law: "healthy s \<Longrightarrow> op_get_channel ops s k = Ok (view s k)"
    and put_law:
      "healthy s \<Longrightarrow> op_put_channel ops s k c = (s', ru) \<Longrightarrow>
         ru = Ok () \<and> view s' = (view s)(k \<mapsto> c) \<and> healthy s'"
    and update_law:
      "healthy s \<Longrightarrow> op_update_channel ops s k u x = (s', y, r) \<Longrightarrow>
         (y, r) = u x (view s k) \<and>
         (case r of
            Ok c \<Rightarrow> view s' = (view s)(k \<mapsto> c) \<and> healthy s'
          | Err e \<Rightarrow> s' = s
          | Panic \<Rightarrow> view s' = view s \<and> \<not> healthy s')"
    and finalize_law:
      "healthy s \<Longrightarrow> op_mark_finalized ops s k = (s', ru) \<Longrightarrow>
         (case view s k of
            None \<Rightarrow> ru = Err channel_not_found \<and> s' = s
          | Some c \<Rightarrow>
              ru = Ok () \<and> view s' = (view s)(k \<mapsto> c\<lparr>cs_finalized := True\<rparr>) \<and> healthy s')"
    and advance_law:
      "healthy s \<Longrightarrow> op_advance_cumulative ops s k e n = (s', rb) \<Longrightarrow>
         (case view s k of
            None \<Rightarrow> rb = Err channel_not_found \<and> s' = s
          | Some c \<Rightarrow>
              if cs_cumulative c = e
              then rb = Ok True \<and> view s' = (view s)(k \<mapsto> c\<lparr>cs_cumulative := n\<rparr>) \<and> healthy s'
              else rb = Ok False \<and> s' = s)"
    and unhealthy_get: "\<not> healthy s \<Longrightarrow> op_get_channel ops s k = Panic"
    and unhealthy_update:
      "\<not> healthy s \<Longrightarrow> op_update_channel ops s k u x = (s', y, r) \<Longrightarrow> r = Panic \<and> s' = s"
    and unhealthy_put:
      "\<not> healthy s \<Longrightarrow> op_put_channel ops s k c = (s', ru) \<Longrightarrow> ru = Panic \<and> s' = s"
    and unhealthy_finalize:
      "\<not> healthy s \<Longrightarrow> op_mark_finalized ops s k = (s', ru) \<Longrightarrow> ru = Panic \<and> s' = s"
begin

text \<open>An update that succeeds: the closure accepted the current state, and only its key moved.\<close>

lemma update_Ok:
  assumes "op_update_channel ops s k u x = (s', y, Ok c)"
  shows "healthy s" and "u x (view s k) = (y, Ok c)"
    and "view s' = (view s)(k \<mapsto> c)" and "healthy s'"
proof -
  show "healthy s" using assms unhealthy_update by blast
  then show "u x (view s k) = (y, Ok c)" "view s' = (view s)(k \<mapsto> c)" "healthy s'"
    using update_law [OF _ assms] by simp_all
qed

lemma update_not_Ok:
  assumes "op_update_channel ops s k u x = (s', y, r)" and "\<not> is_ok r"
  shows "view s' = view s"
proof (cases "healthy s")
  case True
  with update_law [OF True assms(1)] assms(2) show ?thesis
    by (cases r) auto
next
  case False
  with assms(1) show ?thesis by (auto dest: unhealthy_update)
qed

text \<open>Whatever an update returns, the other channels keep their states.\<close>

lemma update_frame:
  assumes "op_update_channel ops s k u x = (s', y, r)" and "k' \<noteq> k"
  shows "view s' k' = view s k'"
proof (cases r)
  case (Ok c)
  with update_Ok(3) [of s k u x s' y c] assms show ?thesis by simp
qed (use assms update_not_Ok [of s k u x s' y r] in auto)

text \<open>Two compare-and-swaps from the same expected value cannot both succeed.\<close>

lemma advance_once:
  assumes h: "healthy s" and first: "op_advance_cumulative ops s k e n = (s', Ok True)"
    and moved: "n \<noteq> e" and second: "op_advance_cumulative ops s' k e n' = (s'', r)"
  shows "r = Ok False \<and> s'' = s'"
proof -
  from advance_law [OF h first] obtain c where
    "view s' = (view s)(k \<mapsto> c\<lparr>cs_cumulative := n\<rparr>)" "healthy s'"
    by (auto split: option.splits if_splits)
  with advance_law [OF _ second] moved show ?thesis by simp
qed

end

text \<open>The in-memory store meets the contract, at every type of cell.\<close>

interpretation mem_channels: channel_contract memory_channel_ops mcs_data "\<lambda>s. \<not> mcs_poisoned s"
  by unfold_locales
    (auto simp: memory_channel_ops_def mem_get_channel_def mem_put_channel_def
      mem_update_channel_def mem_mark_finalized_def mem_advance_cumulative_def Let_def
      split: result.splits option.splits if_splits prod.splits)

end
