(* ===== verification/Borsh.thy ===== *)
theory Borsh
  imports Payment_Channels
begin

text \<open>
  The Borsh encoding of the values that the program client (\<^verbatim>\<open>rust/payment_channels_client\<close>) reads and writes:
  integers little-endian, an address as its 32 bytes, a vector as its 32-bit length and its elements, a struct
  as its fields in order.  A reader returns the value and the bytes it left; errors are their texts.
  The contract of a codec is a locale: what is written is read back, and what is read was written.
\<close>

section \<open>Readers\<close>

definition INPUT_TOO_SHORT :: string where
  "INPUT_TOO_SHORT = ''Unexpected length of input''"

definition take_bytes :: "nat \<Rightarrow> byte list \<Rightarrow> (byte list \<times> byte list, string) result" where
  "take_bytes n bs = (if length bs < n then Err INPUT_TOO_SHORT else Ok (take n bs, drop n bs))"

definition read_u8 :: "byte list \<Rightarrow> (byte \<times> byte list, string) result" where
  "read_u8 bs = (case bs of [] \<Rightarrow> Err INPUT_TOO_SHORT | b # rest \<Rightarrow> Ok (b, rest))"

definition u16_from_le :: "byte list \<Rightarrow> u16" where
  "u16_from_le bs = of_nat (nat_of_le bs)"

definition read_u16 :: "byte list \<Rightarrow> (u16 \<times> byte list, string) result" where
  "read_u16 bs = rbind (take_bytes 2 bs) (\<lambda>(xs, rest). Ok (u16_from_le xs, rest))"

definition read_u32 :: "byte list \<Rightarrow> (u32 \<times> byte list, string) result" where
  "read_u32 bs = rbind (take_bytes 4 bs) (\<lambda>(xs, rest). Ok (u32_from_le xs, rest))"

definition read_u64 :: "byte list \<Rightarrow> (u64 \<times> byte list, string) result" where
  "read_u64 bs = rbind (take_bytes 8 bs) (\<lambda>(xs, rest). Ok (u64_from_le xs, rest))"

definition read_address :: "byte list \<Rightarrow> (pubkey \<times> byte list, string) result" where
  "read_address bs = rbind (take_bytes 32 bs) (\<lambda>(xs, rest). Ok (Pubkey xs, rest))"

definition read_hash :: "byte list \<Rightarrow> (byte list \<times> byte list, string) result" where
  "read_hash bs = take_bytes 32 bs"

primrec read_n ::
  "(byte list \<Rightarrow> ('a \<times> byte list, string) result) \<Rightarrow> nat \<Rightarrow> byte list \<Rightarrow> ('a list \<times> byte list, string) result" where
  "read_n de 0 bs = Ok ([], bs)"
| "read_n de (Suc n) bs =
     rbind (de bs) (\<lambda>(v, rest). rbind (read_n de n rest) (\<lambda>(vs, rest'). Ok (v # vs, rest')))"

definition read_vec ::
  "(byte list \<Rightarrow> ('a \<times> byte list, string) result) \<Rightarrow> byte list \<Rightarrow> ('a list \<times> byte list, string) result" where
  "read_vec de bs = rbind (read_u32 bs) (\<lambda>(n, rest). read_n de (unat n) rest)"

section \<open>Writers\<close>

definition vec_bytes :: "('a \<Rightarrow> byte list) \<Rightarrow> 'a list \<Rightarrow> byte list" where
  "vec_bytes ser vs = u32_le (of_nat (length vs)) @ concat (map ser vs)"

text \<open>Writing a vector whose length is no \<^verbatim>\<open>u32\<close> fails.\<close>

definition write_vec :: "('a \<Rightarrow> byte list) \<Rightarrow> 'a list \<Rightarrow> (byte list, string) result" where
  "write_vec ser vs = (if length vs < 2 ^ 32 then Ok (vec_bytes ser vs) else Err ''invalid data'')"

text \<open>\<^verbatim>\<open>Result::unwrap\<close>\<close>

definition unwrap_result :: "('a, 'e) result \<Rightarrow> ('a, 'f) result" where
  "unwrap_result r = (case r of Ok v \<Rightarrow> Ok v | _ \<Rightarrow> Panic)"

lemma unwrap_result_simps [simp]:
  "unwrap_result (Ok v) = Ok v" "unwrap_result (Err e) = Panic" "unwrap_result Panic = Panic"
  by (simp_all add: unwrap_result_def)

section \<open>Codecs\<close>

locale borsh_codec =
  fixes wf :: "'a \<Rightarrow> bool"
    and ser :: "'a \<Rightarrow> byte list"
    and de :: "byte list \<Rightarrow> ('a \<times> byte list, string) result"
  assumes de_ser: "wf v \<Longrightarrow> de (ser v @ rest) = Ok (v, rest)"
    and ser_de: "de bs = Ok (v, rest) \<Longrightarrow> wf v \<and> bs = ser v @ rest"
begin

lemma de_all: "wf v \<Longrightarrow> de (ser v) = Ok (v, [])"
  using de_ser [of v "[]"] by simp

lemma de_Ok_iff: "de bs = Ok (v, rest) \<longleftrightarrow> wf v \<and> bs = ser v @ rest"
  using de_ser ser_de by blast

lemma ser_prefix_free:
  assumes "wf v" and "wf w" and "ser v @ xs = ser w @ ys"
  shows "v = w \<and> xs = ys"
proof -
  have "de (ser w @ ys) = Ok (v, xs)" using de_ser [OF assms(1), of xs] assms(3) by simp
  then show ?thesis using de_ser [OF assms(2), of ys] by simp
qed

lemma read_n_ser:
  "\<forall>v \<in> set vs. wf v \<Longrightarrow> read_n de (length vs) (concat (map ser vs) @ rest) = Ok (vs, rest)"
  by (induction vs) (simp_all add: de_ser)

lemma ser_read_n:
  "read_n de n bs = Ok (vs, rest) \<Longrightarrow>
   length vs = n \<and> (\<forall>v \<in> set vs. wf v) \<and> bs = concat (map ser vs) @ rest"
proof (induction n arbitrary: bs vs)
  case 0
  then show ?case by simp
next
  case (Suc n)
  from Suc.prems obtain v ws mid where "de bs = Ok (v, mid)" and "read_n de n mid = Ok (ws, rest)"
    and "vs = v # ws" by auto
  then show ?case using ser_de [of bs v mid] Suc.IH [of mid ws] by auto
qed

end

text \<open>Integers and addresses.\<close>

lemma le_of_nat_of_le: "le_of_nat (length bs) (nat_of_le bs) = bs"
proof (induction bs)
  case Nil
  show ?case by simp
next
  case (Cons b bs)
  have b: "unat b < 256" using unat_lt [of b] by simp
  then have "(unat b + 256 * nat_of_le bs) div 256 = nat_of_le bs" by simp
  with b show ?case using Cons by simp
qed

lemma le_from_le:
  "length bs = 2 \<Longrightarrow> u16_le (u16_from_le bs) = bs"
  "length bs = 4 \<Longrightarrow> u32_le (u32_from_le bs) = bs"
  "length bs = 8 \<Longrightarrow> u64_le (u64_from_le bs) = bs"
  using nat_of_le_bound [of bs] le_of_nat_of_le [of bs]
  by (simp_all add: u16_le_def u16_from_le_def u32_le_def u32_from_le_def u64_le_def u64_from_le_def
      unat_of_nat)

lemma u16_from_le_inverse [simp]: "u16_from_le (u16_le x) = x"
  using unat_lt [of x] by (simp add: u16_from_le_def u16_le_def nat_of_le_of_nat)

lemma take_bytes_append: "length xs = n \<Longrightarrow> take_bytes n (xs @ rest) = Ok (xs, rest)"
  by (simp add: take_bytes_def)

lemma take_bytes_Ok: "take_bytes n bs = Ok (xs, rest) \<longleftrightarrow> length xs = n \<and> bs = xs @ rest"
  by (auto simp: take_bytes_def)

lemma u8_codec: "borsh_codec (\<lambda>_. True) (\<lambda>b. [b]) read_u8"
  by unfold_locales (auto simp: read_u8_def split: list.splits)

lemma u16_codec: "borsh_codec (\<lambda>_. True) u16_le read_u16"
  by unfold_locales (auto simp: read_u16_def take_bytes_append take_bytes_Ok le_from_le)

lemma u32_codec: "borsh_codec (\<lambda>_. True) u32_le read_u32"
  by unfold_locales (auto simp: read_u32_def take_bytes_append take_bytes_Ok le_from_le)

lemma u64_codec: "borsh_codec (\<lambda>_. True) u64_le read_u64"
  by unfold_locales (auto simp: read_u64_def take_bytes_append take_bytes_Ok le_from_le)

lemma address_codec: "borsh_codec wf_pubkey pubkey_bytes read_address"
  by unfold_locales
    (auto simp: read_address_def wf_pubkey_def take_bytes_append take_bytes_Ok)

lemma hash_codec: "borsh_codec (\<lambda>bs. length bs = 32) (\<lambda>bs. bs) read_hash"
  by unfold_locales (auto simp: read_hash_def take_bytes_append take_bytes_Ok)

interpretation u8: borsh_codec "\<lambda>_. True" "\<lambda>b. [b]" read_u8 by (rule u8_codec)

interpretation u16: borsh_codec "\<lambda>_. True" u16_le read_u16 by (rule u16_codec)

interpretation u32: borsh_codec "\<lambda>_. True" u32_le read_u32 by (rule u32_codec)

interpretation u64: borsh_codec "\<lambda>_. True" u64_le read_u64 by (rule u64_codec)

interpretation address: borsh_codec wf_pubkey pubkey_bytes read_address by (rule address_codec)

interpretation hash: borsh_codec "\<lambda>bs. length bs = 32" "\<lambda>bs. bs" read_hash by (rule hash_codec)

lemmas reads_written = u8.de_ser [OF TrueI] u16.de_ser [OF TrueI] u32.de_ser [OF TrueI] u64.de_ser [OF TrueI]
  address.de_ser hash.de_ser

lemmas reads_iff = u8.de_Ok_iff u16.de_Ok_iff u32.de_Ok_iff u64.de_Ok_iff address.de_Ok_iff hash.de_Ok_iff

text \<open>A vector of values with a codec has one.\<close>

context borsh_codec
begin

lemma vec_codec:
  "borsh_codec (\<lambda>vs. length vs < 2 ^ 32 \<and> (\<forall>v \<in> set vs. wf v)) (vec_bytes ser) (read_vec de)"
proof
  fix vs :: "'a list" and rest
  assume "length vs < 2 ^ 32 \<and> (\<forall>v \<in> set vs. wf v)"
  then show "read_vec de (vec_bytes ser vs @ rest) = Ok (vs, rest)"
    by (simp add: read_vec_def vec_bytes_def u32.de_ser unat_of_nat read_n_ser)
next
  fix bs and vs :: "'a list" and rest
  assume "read_vec de bs = Ok (vs, rest)"
  then obtain n mid where "bs = u32_le n @ mid" and "read_n de (unat n) mid = Ok (vs, rest)"
    by (auto simp: read_vec_def u32.de_Ok_iff)
  then show "(length vs < 2 ^ 32 \<and> (\<forall>v \<in> set vs. wf v)) \<and> bs = vec_bytes ser vs @ rest"
    using ser_read_n [of "unat n" mid vs rest] unat_lt [of n] by (auto simp: vec_bytes_def)
qed

end

end
