(* ===== verification/Program_Types.thy ===== *)
theory Program_Types
  imports Borsh
begin

text \<open>
  The types of the program client (\<^verbatim>\<open>rust/payment_channels_client/src/generated/types\<close>) with their derived Borsh
  writers and readers.  Each codec is an interpretation of \<^verbatim>\<open>borsh_codec\<close>.
\<close>

section \<open>Arguments\<close>

record distribution_entry =
  den_recipient :: pubkey
  den_bps :: u16

definition entry_bytes :: "distribution_entry \<Rightarrow> byte list" where
  "entry_bytes e = pubkey_bytes (den_recipient e) @ u16_le (den_bps e)"

definition read_entry :: "byte list \<Rightarrow> (distribution_entry \<times> byte list, string) result" where
  "read_entry bs =
     rbind (read_address bs) (\<lambda>(recipient, bs).
     rbind (read_u16 bs) (\<lambda>(bps, bs).
       Ok (\<lparr>den_recipient = recipient, den_bps = bps\<rparr>, bs)))"

record open_args =
  oga_salt :: u64
  oga_deposit :: u64
  oga_grace_period :: u32
  oga_recipients :: "distribution_entry list"

definition open_args_bytes :: "open_args \<Rightarrow> byte list" where
  "open_args_bytes a =
     u64_le (oga_salt a) @ u64_le (oga_deposit a) @ u32_le (oga_grace_period a) @
     vec_bytes entry_bytes (oga_recipients a)"

definition write_open_args :: "open_args \<Rightarrow> (byte list, string) result" where
  "write_open_args a =
     rbind (write_vec entry_bytes (oga_recipients a)) (\<lambda>recipients.
       Ok (u64_le (oga_salt a) @ u64_le (oga_deposit a) @ u32_le (oga_grace_period a) @ recipients))"

definition read_open_args :: "byte list \<Rightarrow> (open_args \<times> byte list, string) result" where
  "read_open_args bs =
     rbind (read_u64 bs) (\<lambda>(salt, bs).
     rbind (read_u64 bs) (\<lambda>(deposit, bs).
     rbind (read_u32 bs) (\<lambda>(grace_period, bs).
     rbind (read_vec read_entry bs) (\<lambda>(recipients, bs).
       Ok (\<lparr>oga_salt = salt, oga_deposit = deposit, oga_grace_period = grace_period,
            oga_recipients = recipients\<rparr>, bs)))))"

record distribute_args =
  dga_recipients :: "distribution_entry list"

definition write_distribute_args :: "distribute_args \<Rightarrow> (byte list, string) result" where
  "write_distribute_args a = write_vec entry_bytes (dga_recipients a)"

definition read_distribute_args :: "byte list \<Rightarrow> (distribute_args \<times> byte list, string) result" where
  "read_distribute_args bs =
     rbind (read_vec read_entry bs) (\<lambda>(recipients, bs). Ok (\<lparr>dga_recipients = recipients\<rparr>, bs))"

record top_up_args =
  tua_amount :: u64

definition top_up_args_bytes :: "top_up_args \<Rightarrow> byte list" where
  "top_up_args_bytes a = u64_le (tua_amount a)"

definition read_top_up_args :: "byte list \<Rightarrow> (top_up_args \<times> byte list, string) result" where
  "read_top_up_args bs = rbind (read_u64 bs) (\<lambda>(amount, bs). Ok (\<lparr>tua_amount = amount\<rparr>, bs))"

definition read_voucher_args :: "byte list \<Rightarrow> (voucher_args \<times> byte list, string) result" where
  "read_voucher_args bs =
     rbind (read_address bs) (\<lambda>(channel_id, bs).
     rbind (read_u64 bs) (\<lambda>(cumulative_amount, bs).
     rbind (read_u64 bs) (\<lambda>(expires_at, bs).
       Ok (\<lparr>va_channel_id = channel_id, va_cumulative_amount = cumulative_amount,
            va_expires_at = expires_at\<rparr>, bs))))"

record settle_args =
  sea_voucher :: voucher_args

definition settle_args_bytes :: "settle_args \<Rightarrow> byte list" where
  "settle_args_bytes a = voucher_args_bytes (sea_voucher a)"

definition read_settle_args :: "byte list \<Rightarrow> (settle_args \<times> byte list, string) result" where
  "read_settle_args bs = rbind (read_voucher_args bs) (\<lambda>(voucher, bs). Ok (\<lparr>sea_voucher = voucher\<rparr>, bs))"

record settle_and_finalize_args =
  sfa_voucher :: voucher_args
  sfa_has_voucher :: byte

definition settle_and_finalize_args_bytes :: "settle_and_finalize_args \<Rightarrow> byte list" where
  "settle_and_finalize_args_bytes a = voucher_args_bytes (sfa_voucher a) @ [sfa_has_voucher a]"

definition read_settle_and_finalize_args ::
  "byte list \<Rightarrow> (settle_and_finalize_args \<times> byte list, string) result" where
  "read_settle_and_finalize_args bs =
     rbind (read_voucher_args bs) (\<lambda>(voucher, bs).
     rbind (read_u8 bs) (\<lambda>(has_voucher, bs).
       Ok (\<lparr>sfa_voucher = voucher, sfa_has_voucher = has_voucher\<rparr>, bs)))"

text \<open>The event of an opened channel.\<close>

record opened =
  opd_channel :: pubkey

definition opened_bytes :: "opened \<Rightarrow> byte list" where
  "opened_bytes e = pubkey_bytes (opd_channel e)"

definition read_opened :: "byte list \<Rightarrow> (opened \<times> byte list, string) result" where
  "read_opened bs = rbind (read_address bs) (\<lambda>(channel, bs). Ok (\<lparr>opd_channel = channel\<rparr>, bs))"

section \<open>Enums\<close>

datatype account_discriminator = ChannelAccount | ClosedChannelAccount

datatype channel_status = OpenStatus | FinalizedStatus | ClosingStatus

definition account_discriminator_tag :: "account_discriminator \<Rightarrow> byte" where
  "account_discriminator_tag d = (case d of ChannelAccount \<Rightarrow> 0 | ClosedChannelAccount \<Rightarrow> 1)"

definition channel_status_tag :: "channel_status \<Rightarrow> byte" where
  "channel_status_tag s = (case s of OpenStatus \<Rightarrow> 0 | FinalizedStatus \<Rightarrow> 1 | ClosingStatus \<Rightarrow> 2)"

definition bad_variant :: "byte \<Rightarrow> string" where
  "bad_variant tag = ''Unexpected variant index: '' @ show_nat (unat tag)"

definition read_account_discriminator ::
  "byte list \<Rightarrow> (account_discriminator \<times> byte list, string) result" where
  "read_account_discriminator bs =
     rbind (read_u8 bs) (\<lambda>(tag, bs).
       if tag = 0 then Ok (ChannelAccount, bs)
       else if tag = 1 then Ok (ClosedChannelAccount, bs)
       else Err (bad_variant tag))"

definition read_channel_status :: "byte list \<Rightarrow> (channel_status \<times> byte list, string) result" where
  "read_channel_status bs =
     rbind (read_u8 bs) (\<lambda>(tag, bs).
       if tag = 0 then Ok (OpenStatus, bs)
       else if tag = 1 then Ok (FinalizedStatus, bs)
       else if tag = 2 then Ok (ClosingStatus, bs)
       else Err (bad_variant tag))"

text \<open>\<^verbatim>\<open>FromPrimitive::from_u64\<close>\<close>

definition account_discriminator_from_u64 :: "u64 \<Rightarrow> account_discriminator option" where
  "account_discriminator_from_u64 n =
     (if n = 0 then Some ChannelAccount else if n = 1 then Some ClosedChannelAccount else None)"

definition channel_status_from_u64 :: "u64 \<Rightarrow> channel_status option" where
  "channel_status_from_u64 n =
     (if n = 0 then Some OpenStatus else if n = 1 then Some FinalizedStatus
      else if n = 2 then Some ClosingStatus else None)"

section \<open>The codecs\<close>

definition wf_entry :: "distribution_entry \<Rightarrow> bool" where
  "wf_entry e \<longleftrightarrow> wf_pubkey (den_recipient e)"

definition wf_entries :: "distribution_entry list \<Rightarrow> bool" where
  "wf_entries es \<longleftrightarrow> length es < 2 ^ 32 \<and> (\<forall>e \<in> set es. wf_entry e)"

definition wf_voucher_args :: "voucher_args \<Rightarrow> bool" where
  "wf_voucher_args v \<longleftrightarrow> wf_pubkey (va_channel_id v)"

interpretation entry: borsh_codec wf_entry entry_bytes read_entry
  by unfold_locales
    (auto simp: wf_entry_def entry_bytes_def read_entry_def reads_written reads_iff)

interpretation entries: borsh_codec wf_entries "vec_bytes entry_bytes" "read_vec read_entry"
  using entry.vec_codec by (simp add: wf_entries_def [abs_def])

interpretation voucher: borsh_codec wf_voucher_args voucher_args_bytes read_voucher_args
  by unfold_locales
    (auto simp: wf_voucher_args_def voucher_args_bytes_def read_voucher_args_def reads_written reads_iff)

interpretation open_args: borsh_codec "\<lambda>a. wf_entries (oga_recipients a)" open_args_bytes read_open_args
  by unfold_locales
    (auto simp: open_args_bytes_def read_open_args_def reads_written reads_iff entries.de_ser entries.de_Ok_iff)

interpretation distribute_args: borsh_codec "\<lambda>a. wf_entries (dga_recipients a)"
  "\<lambda>a. vec_bytes entry_bytes (dga_recipients a)" read_distribute_args
  by unfold_locales (auto simp: read_distribute_args_def entries.de_ser entries.de_Ok_iff)

interpretation top_up_args: borsh_codec "\<lambda>_. True" top_up_args_bytes read_top_up_args
  by unfold_locales (auto simp: top_up_args_bytes_def read_top_up_args_def reads_written reads_iff)

interpretation settle_args: borsh_codec "\<lambda>a. wf_voucher_args (sea_voucher a)" settle_args_bytes read_settle_args
  by unfold_locales
    (auto simp: settle_args_bytes_def read_settle_args_def voucher.de_ser voucher.de_Ok_iff)

interpretation settle_and_finalize_args: borsh_codec "\<lambda>a. wf_voucher_args (sfa_voucher a)"
  settle_and_finalize_args_bytes read_settle_and_finalize_args
  by unfold_locales
    (auto simp: settle_and_finalize_args_bytes_def read_settle_and_finalize_args_def voucher.de_ser
      voucher.de_Ok_iff reads_iff u8.de_ser [simplified])

interpretation opened: borsh_codec "\<lambda>e. wf_pubkey (opd_channel e)" opened_bytes read_opened
  by unfold_locales (auto simp: opened_bytes_def read_opened_def reads_written reads_iff)

interpretation account_discriminator: borsh_codec "\<lambda>_. True" "\<lambda>d. [account_discriminator_tag d]"
  read_account_discriminator
  by unfold_locales
    (auto simp: account_discriminator_tag_def read_account_discriminator_def reads_iff read_u8_def
      split: account_discriminator.splits if_splits list.splits)

interpretation channel_status: borsh_codec "\<lambda>_. True" "\<lambda>s. [channel_status_tag s]" read_channel_status
  by unfold_locales
    (auto simp: channel_status_tag_def read_channel_status_def reads_iff read_u8_def
      split: channel_status.splits if_splits list.splits)

lemma write_open_args_eq:
  "write_open_args a =
     (if length (oga_recipients a) < 2 ^ 32 then Ok (open_args_bytes a) else Err ''invalid data'')"
  by (simp add: write_open_args_def write_vec_def open_args_bytes_def)

end
