(* ===== verification/Program_Instructions.thy ===== *)
theory Program_Instructions
  imports Program_Types
begin

text \<open>
  The instruction constructors of the program client
  (\<^verbatim>\<open>rust/payment_channels_client/src/generated/instructions\<close>): for each instruction the accounts it names,
  its discriminator, its arguments and the instruction they make, with the accounts in their on-chain order.
\<close>

record account_meta =
  am_pubkey :: pubkey
  am_is_signer :: bool
  am_is_writable :: bool

record instruction =
  ix_program_id :: pubkey
  ix_accounts :: "account_meta list"
  ix_data :: "byte list"

text \<open>\<^verbatim>\<open>AccountMeta::new\<close> is writable, \<^verbatim>\<open>AccountMeta::new_readonly\<close> is not.\<close>

definition meta_new :: "pubkey \<Rightarrow> bool \<Rightarrow> account_meta" where
  "meta_new p signer = \<lparr>am_pubkey = p, am_is_signer = signer, am_is_writable = True\<rparr>"

definition meta_readonly :: "pubkey \<Rightarrow> bool \<Rightarrow> account_meta" where
  "meta_readonly p signer = \<lparr>am_pubkey = p, am_is_signer = signer, am_is_writable = False\<rparr>"

definition system_program_key :: pubkey where
  "system_program_key = Pubkey (replicate 32 0)"

text \<open>\<^verbatim>\<open>programs.rs\<close>: the base58 literal is decoded by a macro when the crate is compiled.\<close>

definition PAYMENT_CHANNELS_ID :: pubkey where
  "PAYMENT_CHANNELS_ID = Pubkey
     [0xEC, 0x65, 0xE2, 0xD3, 0xCF, 0xA5, 0x56, 0xD6, 0x36, 0x6A, 0x0C, 0xD1, 0x8A, 0x5B, 0x12, 0x24, 0x28, 0xCF,
      0x46, 0x01, 0xBE, 0x11, 0x2F, 0x65, 0x78, 0x3F, 0x4C, 0x35, 0x1C, 0x17, 0x6B, 0x11]"

text \<open>The discriminator comes before the arguments.\<close>

record instruction_data =
  id_discriminator :: byte

definition instruction_data_bytes :: "instruction_data \<Rightarrow> byte list" where
  "instruction_data_bytes d = [id_discriminator d]"

section \<open>Open\<close>

definition OPEN_DISCRIMINATOR :: byte where
  "OPEN_DISCRIMINATOR = 1"

record open_keys =
  oi_payer :: pubkey
  oi_payee :: pubkey
  oi_mint :: pubkey
  oi_authorized_signer :: pubkey
  oi_channel :: pubkey
  oi_payer_token_account :: pubkey
  oi_channel_token_account :: pubkey
  oi_token_program :: pubkey
  oi_system_program :: pubkey
  oi_rent :: pubkey
  oi_associated_token_program :: pubkey
  oi_event_authority :: pubkey
  oi_self_program :: pubkey

record open_instruction_args =
  oi_open_args :: open_args

definition write_open_instruction_args :: "open_instruction_args \<Rightarrow> (byte list, string) result" where
  "write_open_instruction_args args = write_open_args (oi_open_args args)"

definition open_instruction_data_new :: instruction_data where
  "open_instruction_data_new = \<lparr>id_discriminator = 1\<rparr>"

definition open_instruction_with_remaining_accounts ::
  "open_keys \<Rightarrow> open_instruction_args \<Rightarrow> account_meta list \<Rightarrow> (instruction, 'e) result" where
  "open_instruction_with_remaining_accounts self args remaining_accounts =
     rbind (unwrap_result (write_open_instruction_args args)) (\<lambda>args_bytes.
       Ok \<lparr>ix_program_id = PAYMENT_CHANNELS_ID,
           ix_accounts =
             [meta_new (oi_payer self) True, meta_readonly (oi_payee self) False,
              meta_readonly (oi_mint self) False, meta_readonly (oi_authorized_signer self) False,
              meta_new (oi_channel self) False, meta_new (oi_payer_token_account self) False,
              meta_new (oi_channel_token_account self) False, meta_readonly (oi_token_program self) False,
              meta_readonly (oi_system_program self) False, meta_readonly (oi_rent self) False,
              meta_readonly (oi_associated_token_program self) False,
              meta_readonly (oi_event_authority self) False,
              meta_readonly (oi_self_program self) False] @ remaining_accounts,
           ix_data = instruction_data_bytes open_instruction_data_new @ args_bytes\<rparr>)"

definition open_instruction ::
  "open_keys \<Rightarrow> open_instruction_args \<Rightarrow> (instruction, 'e) result" where
  "open_instruction self args = open_instruction_with_remaining_accounts self args []"

section \<open>Settle\<close>

definition SETTLE_DISCRIMINATOR :: byte where
  "SETTLE_DISCRIMINATOR = 2"

record settle_keys =
  si_channel :: pubkey
  si_instructions_sysvar :: pubkey

record settle_instruction_args =
  si_settle_args :: settle_args

definition settle_instruction_args_bytes :: "settle_instruction_args \<Rightarrow> byte list" where
  "settle_instruction_args_bytes args = settle_args_bytes (si_settle_args args)"

definition settle_instruction_data_new :: instruction_data where
  "settle_instruction_data_new = \<lparr>id_discriminator = 2\<rparr>"

definition settle_instruction_with_remaining_accounts ::
  "settle_keys \<Rightarrow> settle_instruction_args \<Rightarrow> account_meta list \<Rightarrow> instruction" where
  "settle_instruction_with_remaining_accounts self args remaining_accounts =
     \<lparr>ix_program_id = PAYMENT_CHANNELS_ID,
      ix_accounts =
        [meta_new (si_channel self) False,
         meta_readonly (si_instructions_sysvar self) False] @ remaining_accounts,
      ix_data = instruction_data_bytes settle_instruction_data_new @ settle_instruction_args_bytes args\<rparr>"

definition settle_instruction :: "settle_keys \<Rightarrow> settle_instruction_args \<Rightarrow> instruction" where
  "settle_instruction self args = settle_instruction_with_remaining_accounts self args []"

section \<open>TopUp\<close>

definition TOP_UP_DISCRIMINATOR :: byte where
  "TOP_UP_DISCRIMINATOR = 3"

record top_up_keys =
  ti_payer :: pubkey
  ti_channel :: pubkey
  ti_payer_token_account :: pubkey
  ti_channel_token_account :: pubkey
  ti_mint :: pubkey
  ti_token_program :: pubkey

record top_up_instruction_args =
  ti_top_up_args :: top_up_args

definition top_up_instruction_args_bytes :: "top_up_instruction_args \<Rightarrow> byte list" where
  "top_up_instruction_args_bytes args = top_up_args_bytes (ti_top_up_args args)"

definition top_up_instruction_data_new :: instruction_data where
  "top_up_instruction_data_new = \<lparr>id_discriminator = 3\<rparr>"

definition top_up_instruction_with_remaining_accounts ::
  "top_up_keys \<Rightarrow> top_up_instruction_args \<Rightarrow> account_meta list \<Rightarrow> instruction" where
  "top_up_instruction_with_remaining_accounts self args remaining_accounts =
     \<lparr>ix_program_id = PAYMENT_CHANNELS_ID,
      ix_accounts =
        [meta_new (ti_payer self) True, meta_new (ti_channel self) False,
         meta_new (ti_payer_token_account self) False, meta_new (ti_channel_token_account self) False,
         meta_readonly (ti_mint self) False, meta_readonly (ti_token_program self) False] @ remaining_accounts,
      ix_data = instruction_data_bytes top_up_instruction_data_new @ top_up_instruction_args_bytes args\<rparr>"

definition top_up_instruction :: "top_up_keys \<Rightarrow> top_up_instruction_args \<Rightarrow> instruction" where
  "top_up_instruction self args = top_up_instruction_with_remaining_accounts self args []"

section \<open>SettleAndFinalize\<close>

definition SETTLE_AND_FINALIZE_DISCRIMINATOR :: byte where
  "SETTLE_AND_FINALIZE_DISCRIMINATOR = 4"

record settle_and_finalize_keys =
  sfi_merchant :: pubkey
  sfi_channel :: pubkey
  sfi_instructions_sysvar :: pubkey

record settle_and_finalize_instruction_args =
  sfi_settle_and_finalize_args :: settle_and_finalize_args

definition settle_and_finalize_instruction_args_bytes ::
  "settle_and_finalize_instruction_args \<Rightarrow> byte list" where
  "settle_and_finalize_instruction_args_bytes args = settle_and_finalize_args_bytes (sfi_settle_and_finalize_args args)"

definition settle_and_finalize_instruction_data_new :: instruction_data where
  "settle_and_finalize_instruction_data_new = \<lparr>id_discriminator = 4\<rparr>"

definition settle_and_finalize_instruction_with_remaining_accounts ::
  "settle_and_finalize_keys \<Rightarrow> settle_and_finalize_instruction_args \<Rightarrow> account_meta list \<Rightarrow> instruction" where
  "settle_and_finalize_instruction_with_remaining_accounts self args remaining_accounts =
     \<lparr>ix_program_id = PAYMENT_CHANNELS_ID,
      ix_accounts =
        [meta_readonly (sfi_merchant self) True, meta_new (sfi_channel self) False,
         meta_readonly (sfi_instructions_sysvar self) False] @ remaining_accounts,
      ix_data = instruction_data_bytes settle_and_finalize_instruction_data_new @ settle_and_finalize_instruction_args_bytes args\<rparr>"

definition settle_and_finalize_instruction ::
  "settle_and_finalize_keys \<Rightarrow> settle_and_finalize_instruction_args \<Rightarrow> instruction" where
  "settle_and_finalize_instruction self args = settle_and_finalize_instruction_with_remaining_accounts self args []"

section \<open>RequestClose\<close>

definition REQUEST_CLOSE_DISCRIMINATOR :: byte where
  "REQUEST_CLOSE_DISCRIMINATOR = 5"

record request_close_keys =
  rci_payer :: pubkey
  rci_channel :: pubkey

definition request_close_instruction_data_new :: instruction_data where
  "request_close_instruction_data_new = \<lparr>id_discriminator = 5\<rparr>"

definition request_close_instruction_with_remaining_accounts ::
  "request_close_keys \<Rightarrow> account_meta list \<Rightarrow> instruction" where
  "request_close_instruction_with_remaining_accounts self remaining_accounts =
     \<lparr>ix_program_id = PAYMENT_CHANNELS_ID,
      ix_accounts =
        [meta_readonly (rci_payer self) True, meta_new (rci_channel self) False] @ remaining_accounts,
      ix_data = instruction_data_bytes request_close_instruction_data_new\<rparr>"

definition request_close_instruction :: "request_close_keys \<Rightarrow> instruction" where
  "request_close_instruction self = request_close_instruction_with_remaining_accounts self []"

section \<open>Finalize\<close>

definition FINALIZE_DISCRIMINATOR :: byte where
  "FINALIZE_DISCRIMINATOR = 6"

record finalize_keys =
  fi_channel :: pubkey

definition finalize_instruction_data_new :: instruction_data where
  "finalize_instruction_data_new = \<lparr>id_discriminator = 6\<rparr>"

definition finalize_instruction_with_remaining_accounts ::
  "finalize_keys \<Rightarrow> account_meta list \<Rightarrow> instruction" where
  "finalize_instruction_with_remaining_accounts self remaining_accounts =
     \<lparr>ix_program_id = PAYMENT_CHANNELS_ID,
      ix_accounts =
        [meta_new (fi_channel self) False] @ remaining_accounts,
      ix_data = instruction_data_bytes finalize_instruction_data_new\<rparr>"

definition finalize_instruction :: "finalize_keys \<Rightarrow> instruction" where
  "finalize_instruction self = finalize_instruction_with_remaining_accounts self []"

section \<open>Distribute\<close>

definition DISTRIBUTE_DISCRIMINATOR :: byte where
  "DISTRIBUTE_DISCRIMINATOR = 7"

record distribute_keys =
  di_channel :: pubkey
  di_payer :: pubkey
  di_channel_token_account :: pubkey
  di_payer_token_account :: pubkey
  di_payee_token_account :: pubkey
  di_treasury_token_account :: pubkey
  di_mint :: pubkey
  di_token_program :: pubkey

record distribute_instruction_args =
  di_distribute_args :: distribute_args

definition write_distribute_instruction_args ::
  "distribute_instruction_args \<Rightarrow> (byte list, string) result" where
  "write_distribute_instruction_args args = write_distribute_args (di_distribute_args args)"

definition distribute_instruction_data_new :: instruction_data where
  "distribute_instruction_data_new = \<lparr>id_discriminator = 7\<rparr>"

definition distribute_instruction_with_remaining_accounts ::
  "distribute_keys \<Rightarrow> distribute_instruction_args \<Rightarrow> account_meta list \<Rightarrow> (instruction, 'e) result" where
  "distribute_instruction_with_remaining_accounts self args remaining_accounts =
     rbind (unwrap_result (write_distribute_instruction_args args)) (\<lambda>args_bytes.
       Ok \<lparr>ix_program_id = PAYMENT_CHANNELS_ID,
           ix_accounts =
             [meta_new (di_channel self) False, meta_new (di_payer self) False,
              meta_new (di_channel_token_account self) False, meta_new (di_payer_token_account self) False,
              meta_new (di_payee_token_account self) False, meta_new (di_treasury_token_account self) False,
              meta_readonly (di_mint self) False,
              meta_readonly (di_token_program self) False] @ remaining_accounts,
           ix_data = instruction_data_bytes distribute_instruction_data_new @ args_bytes\<rparr>)"

definition distribute_instruction ::
  "distribute_keys \<Rightarrow> distribute_instruction_args \<Rightarrow> (instruction, 'e) result" where
  "distribute_instruction self args = distribute_instruction_with_remaining_accounts self args []"

section \<open>WithdrawPayer\<close>

definition WITHDRAW_PAYER_DISCRIMINATOR :: byte where
  "WITHDRAW_PAYER_DISCRIMINATOR = 8"

record withdraw_payer_keys =
  wi_payer :: pubkey
  wi_channel :: pubkey
  wi_channel_token_account :: pubkey
  wi_payer_token_account :: pubkey
  wi_mint :: pubkey
  wi_token_program :: pubkey

definition withdraw_payer_instruction_data_new :: instruction_data where
  "withdraw_payer_instruction_data_new = \<lparr>id_discriminator = 8\<rparr>"

definition withdraw_payer_instruction_with_remaining_accounts ::
  "withdraw_payer_keys \<Rightarrow> account_meta list \<Rightarrow> instruction" where
  "withdraw_payer_instruction_with_remaining_accounts self remaining_accounts =
     \<lparr>ix_program_id = PAYMENT_CHANNELS_ID,
      ix_accounts =
        [meta_readonly (wi_payer self) True, meta_new (wi_channel self) False,
         meta_new (wi_channel_token_account self) False, meta_new (wi_payer_token_account self) False,
         meta_readonly (wi_mint self) False, meta_readonly (wi_token_program self) False] @ remaining_accounts,
      ix_data = instruction_data_bytes withdraw_payer_instruction_data_new\<rparr>"

definition withdraw_payer_instruction :: "withdraw_payer_keys \<Rightarrow> instruction" where
  "withdraw_payer_instruction self = withdraw_payer_instruction_with_remaining_accounts self []"

section \<open>EmitEvent\<close>

definition EMIT_EVENT_DISCRIMINATOR :: byte where
  "EMIT_EVENT_DISCRIMINATOR = 228"

record emit_event_keys =
  ei_event_authority :: pubkey

definition emit_event_instruction_data_new :: instruction_data where
  "emit_event_instruction_data_new = \<lparr>id_discriminator = 228\<rparr>"

definition emit_event_instruction_with_remaining_accounts ::
  "emit_event_keys \<Rightarrow> account_meta list \<Rightarrow> instruction" where
  "emit_event_instruction_with_remaining_accounts self remaining_accounts =
     \<lparr>ix_program_id = PAYMENT_CHANNELS_ID,
      ix_accounts =
        [meta_readonly (ei_event_authority self) True] @ remaining_accounts,
      ix_data = instruction_data_bytes emit_event_instruction_data_new\<rparr>"

definition emit_event_instruction :: "emit_event_keys \<Rightarrow> instruction" where
  "emit_event_instruction self = emit_event_instruction_with_remaining_accounts self []"

end
