(* ===== verification/Program_Builders.thy ===== *)
theory Program_Builders
  imports Program_Instructions
begin

text \<open>
  The instruction builders of the program client: every account is set on its own, accounts with a known
  address have a default, and an instruction without one of the others panics.
\<close>

text \<open>\<^verbatim>\<open>Option::expect\<close>\<close>

definition expect_some :: "'a option \<Rightarrow> ('a, 'e) result" where
  "expect_some v = (case v of None \<Rightarrow> Panic | Some x \<Rightarrow> Ok x)"

lemma expect_some_simps [simp]: "expect_some None = Panic" "expect_some (Some x) = Ok x"
  by (simp_all add: expect_some_def)

text \<open>A chain of method calls on a builder.\<close>

definition chained :: "'b \<Rightarrow> ('b \<Rightarrow> 'b) list \<Rightarrow> 'b" where
  "chained b setters = fold (\<lambda>set_field b. set_field b) setters b"

lemma chained_simps [simp]: "chained b [] = b" "chained b (f # fs) = chained (f b) fs"
  by (simp_all add: chained_def)

section \<open>Open\<close>

record open_builder =
  oib_payer :: "pubkey option"
  oib_payee :: "pubkey option"
  oib_mint :: "pubkey option"
  oib_authorized_signer :: "pubkey option"
  oib_channel :: "pubkey option"
  oib_payer_token_account :: "pubkey option"
  oib_channel_token_account :: "pubkey option"
  oib_token_program :: "pubkey option"
  oib_system_program :: "pubkey option"
  oib_rent :: "pubkey option"
  oib_associated_token_program :: "pubkey option"
  oib_event_authority :: "pubkey option"
  oib_self_program :: "pubkey option"
  oib_open_args :: "open_args option"
  oib_remaining_accounts :: "account_meta list"

definition open_builder_new :: open_builder where
  "open_builder_new =
     \<lparr>oib_payer = None, oib_payee = None, oib_mint = None, oib_authorized_signer = None,
      oib_channel = None, oib_payer_token_account = None, oib_channel_token_account = None,
      oib_token_program = None, oib_system_program = None, oib_rent = None, oib_associated_token_program = None,
      oib_event_authority = None, oib_self_program = None, oib_open_args = None,
      oib_remaining_accounts = []\<rparr>"

definition open_builder_payer :: "pubkey \<Rightarrow> open_builder \<Rightarrow> open_builder" where
  "open_builder_payer payer self = self\<lparr>oib_payer := Some payer\<rparr>"

definition open_builder_payee :: "pubkey \<Rightarrow> open_builder \<Rightarrow> open_builder" where
  "open_builder_payee payee self = self\<lparr>oib_payee := Some payee\<rparr>"

definition open_builder_mint :: "pubkey \<Rightarrow> open_builder \<Rightarrow> open_builder" where
  "open_builder_mint mint self = self\<lparr>oib_mint := Some mint\<rparr>"

definition open_builder_authorized_signer :: "pubkey \<Rightarrow> open_builder \<Rightarrow> open_builder" where
  "open_builder_authorized_signer authorized_signer self =
     self\<lparr>oib_authorized_signer := Some authorized_signer\<rparr>"

definition open_builder_channel :: "pubkey \<Rightarrow> open_builder \<Rightarrow> open_builder" where
  "open_builder_channel channel self = self\<lparr>oib_channel := Some channel\<rparr>"

definition open_builder_payer_token_account :: "pubkey \<Rightarrow> open_builder \<Rightarrow> open_builder" where
  "open_builder_payer_token_account payer_token_account self =
     self\<lparr>oib_payer_token_account := Some payer_token_account\<rparr>"

definition open_builder_channel_token_account :: "pubkey \<Rightarrow> open_builder \<Rightarrow> open_builder" where
  "open_builder_channel_token_account channel_token_account self =
     self\<lparr>oib_channel_token_account := Some channel_token_account\<rparr>"

definition open_builder_token_program :: "pubkey \<Rightarrow> open_builder \<Rightarrow> open_builder" where
  "open_builder_token_program token_program self = self\<lparr>oib_token_program := Some token_program\<rparr>"

definition open_builder_system_program :: "pubkey \<Rightarrow> open_builder \<Rightarrow> open_builder" where
  "open_builder_system_program system_program self = self\<lparr>oib_system_program := Some system_program\<rparr>"

definition open_builder_rent :: "pubkey \<Rightarrow> open_builder \<Rightarrow> open_builder" where
  "open_builder_rent rent self = self\<lparr>oib_rent := Some rent\<rparr>"

definition open_builder_associated_token_program ::
  "pubkey \<Rightarrow> open_builder \<Rightarrow> open_builder" where
  "open_builder_associated_token_program associated_token_program self =
     self\<lparr>oib_associated_token_program := Some associated_token_program\<rparr>"

definition open_builder_event_authority :: "pubkey \<Rightarrow> open_builder \<Rightarrow> open_builder" where
  "open_builder_event_authority event_authority self = self\<lparr>oib_event_authority := Some event_authority\<rparr>"

definition open_builder_self_program :: "pubkey \<Rightarrow> open_builder \<Rightarrow> open_builder" where
  "open_builder_self_program self_program self = self\<lparr>oib_self_program := Some self_program\<rparr>"

definition open_builder_open_args :: "open_args \<Rightarrow> open_builder \<Rightarrow> open_builder" where
  "open_builder_open_args open_args self = self\<lparr>oib_open_args := Some open_args\<rparr>"

definition open_builder_add_remaining_account ::
  "account_meta \<Rightarrow> open_builder \<Rightarrow> open_builder" where
  "open_builder_add_remaining_account account self =
     self\<lparr>oib_remaining_accounts := oib_remaining_accounts self @ [account]\<rparr>"

definition open_builder_add_remaining_accounts ::
  "account_meta list \<Rightarrow> open_builder \<Rightarrow> open_builder" where
  "open_builder_add_remaining_accounts accounts self =
     self\<lparr>oib_remaining_accounts := oib_remaining_accounts self @ accounts\<rparr>"

definition open_builder_instruction :: "open_builder \<Rightarrow> (instruction, 'e) result" where
  "open_builder_instruction self =
     rbind (expect_some (oib_payer self)) (\<lambda>payer.
     rbind (expect_some (oib_payee self)) (\<lambda>payee.
     rbind (expect_some (oib_mint self)) (\<lambda>mint.
     rbind (expect_some (oib_authorized_signer self)) (\<lambda>authorized_signer.
     rbind (expect_some (oib_channel self)) (\<lambda>channel.
     rbind (expect_some (oib_payer_token_account self)) (\<lambda>payer_token_account.
     rbind (expect_some (oib_channel_token_account self)) (\<lambda>channel_token_account.
     rbind (expect_some (oib_token_program self)) (\<lambda>token_program.
     rbind (expect_some (oib_rent self)) (\<lambda>rent.
     rbind (expect_some (oib_associated_token_program self)) (\<lambda>associated_token_program.
     rbind (expect_some (oib_event_authority self)) (\<lambda>event_authority.
     rbind (expect_some (oib_open_args self)) (\<lambda>open_args.
       open_instruction_with_remaining_accounts
         \<lparr>oi_payer = payer, oi_payee = payee, oi_mint = mint, oi_authorized_signer = authorized_signer,
          oi_channel = channel, oi_payer_token_account = payer_token_account,
          oi_channel_token_account = channel_token_account, oi_token_program = token_program,
          oi_system_program = case_option system_program_key id (oib_system_program self), oi_rent = rent,
          oi_associated_token_program = associated_token_program, oi_event_authority = event_authority,
          oi_self_program = case_option PAYMENT_CHANNELS_ID id (oib_self_program self)\<rparr>
         \<lparr>oi_open_args = open_args\<rparr> (oib_remaining_accounts self)))))))))))))"

lemmas open_builder_defs =
  open_builder_new_def open_builder_payer_def open_builder_payee_def open_builder_mint_def
  open_builder_authorized_signer_def open_builder_channel_def open_builder_payer_token_account_def
  open_builder_channel_token_account_def open_builder_token_program_def open_builder_system_program_def
  open_builder_rent_def open_builder_associated_token_program_def open_builder_event_authority_def
  open_builder_self_program_def open_builder_open_args_def open_builder_add_remaining_account_def
  open_builder_add_remaining_accounts_def open_builder_instruction_def
  open_instruction_with_remaining_accounts_def

section \<open>Settle\<close>

record settle_builder =
  sib_channel :: "pubkey option"
  sib_instructions_sysvar :: "pubkey option"
  sib_settle_args :: "settle_args option"
  sib_remaining_accounts :: "account_meta list"

definition settle_builder_new :: settle_builder where
  "settle_builder_new =
     \<lparr>sib_channel = None, sib_instructions_sysvar = None, sib_settle_args = None,
      sib_remaining_accounts = []\<rparr>"

definition settle_builder_channel :: "pubkey \<Rightarrow> settle_builder \<Rightarrow> settle_builder" where
  "settle_builder_channel channel self = self\<lparr>sib_channel := Some channel\<rparr>"

definition settle_builder_instructions_sysvar ::
  "pubkey \<Rightarrow> settle_builder \<Rightarrow> settle_builder" where
  "settle_builder_instructions_sysvar instructions_sysvar self =
     self\<lparr>sib_instructions_sysvar := Some instructions_sysvar\<rparr>"

definition settle_builder_settle_args :: "settle_args \<Rightarrow> settle_builder \<Rightarrow> settle_builder" where
  "settle_builder_settle_args settle_args self = self\<lparr>sib_settle_args := Some settle_args\<rparr>"

definition settle_builder_add_remaining_account ::
  "account_meta \<Rightarrow> settle_builder \<Rightarrow> settle_builder" where
  "settle_builder_add_remaining_account account self =
     self\<lparr>sib_remaining_accounts := sib_remaining_accounts self @ [account]\<rparr>"

definition settle_builder_add_remaining_accounts ::
  "account_meta list \<Rightarrow> settle_builder \<Rightarrow> settle_builder" where
  "settle_builder_add_remaining_accounts accounts self =
     self\<lparr>sib_remaining_accounts := sib_remaining_accounts self @ accounts\<rparr>"

definition settle_builder_instruction :: "settle_builder \<Rightarrow> (instruction, 'e) result" where
  "settle_builder_instruction self =
     rbind (expect_some (sib_channel self)) (\<lambda>channel.
     rbind (expect_some (sib_instructions_sysvar self)) (\<lambda>instructions_sysvar.
     rbind (expect_some (sib_settle_args self)) (\<lambda>settle_args.
       Ok (settle_instruction_with_remaining_accounts
         \<lparr>si_channel = channel, si_instructions_sysvar = instructions_sysvar\<rparr>
         \<lparr>si_settle_args = settle_args\<rparr> (sib_remaining_accounts self)))))"

lemmas settle_builder_defs =
  settle_builder_new_def settle_builder_channel_def settle_builder_instructions_sysvar_def
  settle_builder_settle_args_def settle_builder_add_remaining_account_def
  settle_builder_add_remaining_accounts_def settle_builder_instruction_def
  settle_instruction_with_remaining_accounts_def

section \<open>TopUp\<close>

record top_up_builder =
  tib_payer :: "pubkey option"
  tib_channel :: "pubkey option"
  tib_payer_token_account :: "pubkey option"
  tib_channel_token_account :: "pubkey option"
  tib_mint :: "pubkey option"
  tib_token_program :: "pubkey option"
  tib_top_up_args :: "top_up_args option"
  tib_remaining_accounts :: "account_meta list"

definition top_up_builder_new :: top_up_builder where
  "top_up_builder_new =
     \<lparr>tib_payer = None, tib_channel = None, tib_payer_token_account = None,
      tib_channel_token_account = None, tib_mint = None, tib_token_program = None, tib_top_up_args = None,
      tib_remaining_accounts = []\<rparr>"

definition top_up_builder_payer :: "pubkey \<Rightarrow> top_up_builder \<Rightarrow> top_up_builder" where
  "top_up_builder_payer payer self = self\<lparr>tib_payer := Some payer\<rparr>"

definition top_up_builder_channel :: "pubkey \<Rightarrow> top_up_builder \<Rightarrow> top_up_builder" where
  "top_up_builder_channel channel self = self\<lparr>tib_channel := Some channel\<rparr>"

definition top_up_builder_payer_token_account ::
  "pubkey \<Rightarrow> top_up_builder \<Rightarrow> top_up_builder" where
  "top_up_builder_payer_token_account payer_token_account self =
     self\<lparr>tib_payer_token_account := Some payer_token_account\<rparr>"

definition top_up_builder_channel_token_account ::
  "pubkey \<Rightarrow> top_up_builder \<Rightarrow> top_up_builder" where
  "top_up_builder_channel_token_account channel_token_account self =
     self\<lparr>tib_channel_token_account := Some channel_token_account\<rparr>"

definition top_up_builder_mint :: "pubkey \<Rightarrow> top_up_builder \<Rightarrow> top_up_builder" where
  "top_up_builder_mint mint self = self\<lparr>tib_mint := Some mint\<rparr>"

definition top_up_builder_token_program :: "pubkey \<Rightarrow> top_up_builder \<Rightarrow> top_up_builder" where
  "top_up_builder_token_program token_program self = self\<lparr>tib_token_program := Some token_program\<rparr>"

definition top_up_builder_top_up_args :: "top_up_args \<Rightarrow> top_up_builder \<Rightarrow> top_up_builder" where
  "top_up_builder_top_up_args top_up_args self = self\<lparr>tib_top_up_args := Some top_up_args\<rparr>"

definition top_up_builder_add_remaining_account ::
  "account_meta \<Rightarrow> top_up_builder \<Rightarrow> top_up_builder" where
  "top_up_builder_add_remaining_account account self =
     self\<lparr>tib_remaining_accounts := tib_remaining_accounts self @ [account]\<rparr>"

definition top_up_builder_add_remaining_accounts ::
  "account_meta list \<Rightarrow> top_up_builder \<Rightarrow> top_up_builder" where
  "top_up_builder_add_remaining_accounts accounts self =
     self\<lparr>tib_remaining_accounts := tib_remaining_accounts self @ accounts\<rparr>"

definition top_up_builder_instruction :: "top_up_builder \<Rightarrow> (instruction, 'e) result" where
  "top_up_builder_instruction self =
     rbind (expect_some (tib_payer self)) (\<lambda>payer.
     rbind (expect_some (tib_channel self)) (\<lambda>channel.
     rbind (expect_some (tib_payer_token_account self)) (\<lambda>payer_token_account.
     rbind (expect_some (tib_channel_token_account self)) (\<lambda>channel_token_account.
     rbind (expect_some (tib_mint self)) (\<lambda>mint.
     rbind (expect_some (tib_token_program self)) (\<lambda>token_program.
     rbind (expect_some (tib_top_up_args self)) (\<lambda>top_up_args.
       Ok (top_up_instruction_with_remaining_accounts
         \<lparr>ti_payer = payer, ti_channel = channel, ti_payer_token_account = payer_token_account,
          ti_channel_token_account = channel_token_account, ti_mint = mint,
          ti_token_program = token_program\<rparr>
         \<lparr>ti_top_up_args = top_up_args\<rparr> (tib_remaining_accounts self)))))))))"

lemmas top_up_builder_defs =
  top_up_builder_new_def top_up_builder_payer_def top_up_builder_channel_def
  top_up_builder_payer_token_account_def top_up_builder_channel_token_account_def top_up_builder_mint_def
  top_up_builder_token_program_def top_up_builder_top_up_args_def top_up_builder_add_remaining_account_def
  top_up_builder_add_remaining_accounts_def top_up_builder_instruction_def
  top_up_instruction_with_remaining_accounts_def

section \<open>SettleAndFinalize\<close>

record settle_and_finalize_builder =
  sfib_merchant :: "pubkey option"
  sfib_channel :: "pubkey option"
  sfib_instructions_sysvar :: "pubkey option"
  sfib_settle_and_finalize_args :: "settle_and_finalize_args option"
  sfib_remaining_accounts :: "account_meta list"

definition settle_and_finalize_builder_new :: settle_and_finalize_builder where
  "settle_and_finalize_builder_new =
     \<lparr>sfib_merchant = None, sfib_channel = None, sfib_instructions_sysvar = None,
      sfib_settle_and_finalize_args = None, sfib_remaining_accounts = []\<rparr>"

definition settle_and_finalize_builder_merchant ::
  "pubkey \<Rightarrow> settle_and_finalize_builder \<Rightarrow> settle_and_finalize_builder" where
  "settle_and_finalize_builder_merchant merchant self = self\<lparr>sfib_merchant := Some merchant\<rparr>"

definition settle_and_finalize_builder_channel ::
  "pubkey \<Rightarrow> settle_and_finalize_builder \<Rightarrow> settle_and_finalize_builder" where
  "settle_and_finalize_builder_channel channel self = self\<lparr>sfib_channel := Some channel\<rparr>"

definition settle_and_finalize_builder_instructions_sysvar ::
  "pubkey \<Rightarrow> settle_and_finalize_builder \<Rightarrow> settle_and_finalize_builder" where
  "settle_and_finalize_builder_instructions_sysvar instructions_sysvar self =
     self\<lparr>sfib_instructions_sysvar := Some instructions_sysvar\<rparr>"

definition settle_and_finalize_builder_settle_and_finalize_args ::
  "settle_and_finalize_args \<Rightarrow> settle_and_finalize_builder \<Rightarrow> settle_and_finalize_builder" where
  "settle_and_finalize_builder_settle_and_finalize_args settle_and_finalize_args self =
     self\<lparr>sfib_settle_and_finalize_args := Some settle_and_finalize_args\<rparr>"

definition settle_and_finalize_builder_add_remaining_account ::
  "account_meta \<Rightarrow> settle_and_finalize_builder \<Rightarrow> settle_and_finalize_builder" where
  "settle_and_finalize_builder_add_remaining_account account self =
     self\<lparr>sfib_remaining_accounts := sfib_remaining_accounts self @ [account]\<rparr>"

definition settle_and_finalize_builder_add_remaining_accounts ::
  "account_meta list \<Rightarrow> settle_and_finalize_builder \<Rightarrow> settle_and_finalize_builder" where
  "settle_and_finalize_builder_add_remaining_accounts accounts self =
     self\<lparr>sfib_remaining_accounts := sfib_remaining_accounts self @ accounts\<rparr>"

definition settle_and_finalize_builder_instruction ::
  "settle_and_finalize_builder \<Rightarrow> (instruction, 'e) result" where
  "settle_and_finalize_builder_instruction self =
     rbind (expect_some (sfib_merchant self)) (\<lambda>merchant.
     rbind (expect_some (sfib_channel self)) (\<lambda>channel.
     rbind (expect_some (sfib_instructions_sysvar self)) (\<lambda>instructions_sysvar.
     rbind (expect_some (sfib_settle_and_finalize_args self)) (\<lambda>settle_and_finalize_args.
       Ok (settle_and_finalize_instruction_with_remaining_accounts
         \<lparr>sfi_merchant = merchant, sfi_channel = channel,
          sfi_instructions_sysvar = instructions_sysvar\<rparr>
         \<lparr>sfi_settle_and_finalize_args = settle_and_finalize_args\<rparr> (sfib_remaining_accounts self))))))"

lemmas settle_and_finalize_builder_defs =
  settle_and_finalize_builder_new_def settle_and_finalize_builder_merchant_def
  settle_and_finalize_builder_channel_def settle_and_finalize_builder_instructions_sysvar_def
  settle_and_finalize_builder_settle_and_finalize_args_def settle_and_finalize_builder_add_remaining_account_def
  settle_and_finalize_builder_add_remaining_accounts_def settle_and_finalize_builder_instruction_def
  settle_and_finalize_instruction_with_remaining_accounts_def

section \<open>RequestClose\<close>

record request_close_builder =
  rcib_payer :: "pubkey option"
  rcib_channel :: "pubkey option"
  rcib_remaining_accounts :: "account_meta list"

definition request_close_builder_new :: request_close_builder where
  "request_close_builder_new =
     \<lparr>rcib_payer = None, rcib_channel = None, rcib_remaining_accounts = []\<rparr>"

definition request_close_builder_payer ::
  "pubkey \<Rightarrow> request_close_builder \<Rightarrow> request_close_builder" where
  "request_close_builder_payer payer self = self\<lparr>rcib_payer := Some payer\<rparr>"

definition request_close_builder_channel ::
  "pubkey \<Rightarrow> request_close_builder \<Rightarrow> request_close_builder" where
  "request_close_builder_channel channel self = self\<lparr>rcib_channel := Some channel\<rparr>"

definition request_close_builder_add_remaining_account ::
  "account_meta \<Rightarrow> request_close_builder \<Rightarrow> request_close_builder" where
  "request_close_builder_add_remaining_account account self =
     self\<lparr>rcib_remaining_accounts := rcib_remaining_accounts self @ [account]\<rparr>"

definition request_close_builder_add_remaining_accounts ::
  "account_meta list \<Rightarrow> request_close_builder \<Rightarrow> request_close_builder" where
  "request_close_builder_add_remaining_accounts accounts self =
     self\<lparr>rcib_remaining_accounts := rcib_remaining_accounts self @ accounts\<rparr>"

definition request_close_builder_instruction :: "request_close_builder \<Rightarrow> (instruction, 'e) result" where
  "request_close_builder_instruction self =
     rbind (expect_some (rcib_payer self)) (\<lambda>payer.
     rbind (expect_some (rcib_channel self)) (\<lambda>channel.
       Ok (request_close_instruction_with_remaining_accounts
         \<lparr>rci_payer = payer, rci_channel = channel\<rparr> (rcib_remaining_accounts self))))"

lemmas request_close_builder_defs =
  request_close_builder_new_def request_close_builder_payer_def request_close_builder_channel_def
  request_close_builder_add_remaining_account_def request_close_builder_add_remaining_accounts_def
  request_close_builder_instruction_def request_close_instruction_with_remaining_accounts_def

section \<open>Finalize\<close>

record finalize_builder =
  fib_channel :: "pubkey option"
  fib_remaining_accounts :: "account_meta list"

definition finalize_builder_new :: finalize_builder where
  "finalize_builder_new =
     \<lparr>fib_channel = None, fib_remaining_accounts = []\<rparr>"

definition finalize_builder_channel :: "pubkey \<Rightarrow> finalize_builder \<Rightarrow> finalize_builder" where
  "finalize_builder_channel channel self = self\<lparr>fib_channel := Some channel\<rparr>"

definition finalize_builder_add_remaining_account ::
  "account_meta \<Rightarrow> finalize_builder \<Rightarrow> finalize_builder" where
  "finalize_builder_add_remaining_account account self =
     self\<lparr>fib_remaining_accounts := fib_remaining_accounts self @ [account]\<rparr>"

definition finalize_builder_add_remaining_accounts ::
  "account_meta list \<Rightarrow> finalize_builder \<Rightarrow> finalize_builder" where
  "finalize_builder_add_remaining_accounts accounts self =
     self\<lparr>fib_remaining_accounts := fib_remaining_accounts self @ accounts\<rparr>"

definition finalize_builder_instruction :: "finalize_builder \<Rightarrow> (instruction, 'e) result" where
  "finalize_builder_instruction self =
     rbind (expect_some (fib_channel self)) (\<lambda>channel.
       Ok (finalize_instruction_with_remaining_accounts
         \<lparr>fi_channel = channel\<rparr> (fib_remaining_accounts self)))"

lemmas finalize_builder_defs =
  finalize_builder_new_def finalize_builder_channel_def finalize_builder_add_remaining_account_def
  finalize_builder_add_remaining_accounts_def finalize_builder_instruction_def
  finalize_instruction_with_remaining_accounts_def

section \<open>Distribute\<close>

record distribute_builder =
  dib_channel :: "pubkey option"
  dib_payer :: "pubkey option"
  dib_channel_token_account :: "pubkey option"
  dib_payer_token_account :: "pubkey option"
  dib_payee_token_account :: "pubkey option"
  dib_treasury_token_account :: "pubkey option"
  dib_mint :: "pubkey option"
  dib_token_program :: "pubkey option"
  dib_distribute_args :: "distribute_args option"
  dib_remaining_accounts :: "account_meta list"

definition distribute_builder_new :: distribute_builder where
  "distribute_builder_new =
     \<lparr>dib_channel = None, dib_payer = None, dib_channel_token_account = None,
      dib_payer_token_account = None, dib_payee_token_account = None, dib_treasury_token_account = None,
      dib_mint = None, dib_token_program = None, dib_distribute_args = None, dib_remaining_accounts = []\<rparr>"

definition distribute_builder_channel ::
  "pubkey \<Rightarrow> distribute_builder \<Rightarrow> distribute_builder" where
  "distribute_builder_channel channel self = self\<lparr>dib_channel := Some channel\<rparr>"

definition distribute_builder_payer ::
  "pubkey \<Rightarrow> distribute_builder \<Rightarrow> distribute_builder" where
  "distribute_builder_payer payer self = self\<lparr>dib_payer := Some payer\<rparr>"

definition distribute_builder_channel_token_account ::
  "pubkey \<Rightarrow> distribute_builder \<Rightarrow> distribute_builder" where
  "distribute_builder_channel_token_account channel_token_account self =
     self\<lparr>dib_channel_token_account := Some channel_token_account\<rparr>"

definition distribute_builder_payer_token_account ::
  "pubkey \<Rightarrow> distribute_builder \<Rightarrow> distribute_builder" where
  "distribute_builder_payer_token_account payer_token_account self =
     self\<lparr>dib_payer_token_account := Some payer_token_account\<rparr>"

definition distribute_builder_payee_token_account ::
  "pubkey \<Rightarrow> distribute_builder \<Rightarrow> distribute_builder" where
  "distribute_builder_payee_token_account payee_token_account self =
     self\<lparr>dib_payee_token_account := Some payee_token_account\<rparr>"

definition distribute_builder_treasury_token_account ::
  "pubkey \<Rightarrow> distribute_builder \<Rightarrow> distribute_builder" where
  "distribute_builder_treasury_token_account treasury_token_account self =
     self\<lparr>dib_treasury_token_account := Some treasury_token_account\<rparr>"

definition distribute_builder_mint :: "pubkey \<Rightarrow> distribute_builder \<Rightarrow> distribute_builder" where
  "distribute_builder_mint mint self = self\<lparr>dib_mint := Some mint\<rparr>"

definition distribute_builder_token_program ::
  "pubkey \<Rightarrow> distribute_builder \<Rightarrow> distribute_builder" where
  "distribute_builder_token_program token_program self = self\<lparr>dib_token_program := Some token_program\<rparr>"

definition distribute_builder_distribute_args ::
  "distribute_args \<Rightarrow> distribute_builder \<Rightarrow> distribute_builder" where
  "distribute_builder_distribute_args distribute_args self =
     self\<lparr>dib_distribute_args := Some distribute_args\<rparr>"

definition distribute_builder_add_remaining_account ::
  "account_meta \<Rightarrow> distribute_builder \<Rightarrow> distribute_builder" where
  "distribute_builder_add_remaining_account account self =
     self\<lparr>dib_remaining_accounts := dib_remaining_accounts self @ [account]\<rparr>"

definition distribute_builder_add_remaining_accounts ::
  "account_meta list \<Rightarrow> distribute_builder \<Rightarrow> distribute_builder" where
  "distribute_builder_add_remaining_accounts accounts self =
     self\<lparr>dib_remaining_accounts := dib_remaining_accounts self @ accounts\<rparr>"

definition distribute_builder_instruction :: "distribute_builder \<Rightarrow> (instruction, 'e) result" where
  "distribute_builder_instruction self =
     rbind (expect_some (dib_channel self)) (\<lambda>channel.
     rbind (expect_some (dib_payer self)) (\<lambda>payer.
     rbind (expect_some (dib_channel_token_account self)) (\<lambda>channel_token_account.
     rbind (expect_some (dib_payer_token_account self)) (\<lambda>payer_token_account.
     rbind (expect_some (dib_payee_token_account self)) (\<lambda>payee_token_account.
     rbind (expect_some (dib_treasury_token_account self)) (\<lambda>treasury_token_account.
     rbind (expect_some (dib_mint self)) (\<lambda>mint.
     rbind (expect_some (dib_token_program self)) (\<lambda>token_program.
     rbind (expect_some (dib_distribute_args self)) (\<lambda>distribute_args.
       distribute_instruction_with_remaining_accounts
         \<lparr>di_channel = channel, di_payer = payer, di_channel_token_account = channel_token_account,
          di_payer_token_account = payer_token_account, di_payee_token_account = payee_token_account,
          di_treasury_token_account = treasury_token_account, di_mint = mint,
          di_token_program = token_program\<rparr>
         \<lparr>di_distribute_args = distribute_args\<rparr> (dib_remaining_accounts self))))))))))"

lemmas distribute_builder_defs =
  distribute_builder_new_def distribute_builder_channel_def distribute_builder_payer_def
  distribute_builder_channel_token_account_def distribute_builder_payer_token_account_def
  distribute_builder_payee_token_account_def distribute_builder_treasury_token_account_def
  distribute_builder_mint_def distribute_builder_token_program_def distribute_builder_distribute_args_def
  distribute_builder_add_remaining_account_def distribute_builder_add_remaining_accounts_def
  distribute_builder_instruction_def distribute_instruction_with_remaining_accounts_def

section \<open>WithdrawPayer\<close>

record withdraw_payer_builder =
  wib_payer :: "pubkey option"
  wib_channel :: "pubkey option"
  wib_channel_token_account :: "pubkey option"
  wib_payer_token_account :: "pubkey option"
  wib_mint :: "pubkey option"
  wib_token_program :: "pubkey option"
  wib_remaining_accounts :: "account_meta list"

definition withdraw_payer_builder_new :: withdraw_payer_builder where
  "withdraw_payer_builder_new =
     \<lparr>wib_payer = None, wib_channel = None, wib_channel_token_account = None,
      wib_payer_token_account = None, wib_mint = None, wib_token_program = None,
      wib_remaining_accounts = []\<rparr>"

definition withdraw_payer_builder_payer ::
  "pubkey \<Rightarrow> withdraw_payer_builder \<Rightarrow> withdraw_payer_builder" where
  "withdraw_payer_builder_payer payer self = self\<lparr>wib_payer := Some payer\<rparr>"

definition withdraw_payer_builder_channel ::
  "pubkey \<Rightarrow> withdraw_payer_builder \<Rightarrow> withdraw_payer_builder" where
  "withdraw_payer_builder_channel channel self = self\<lparr>wib_channel := Some channel\<rparr>"

definition withdraw_payer_builder_channel_token_account ::
  "pubkey \<Rightarrow> withdraw_payer_builder \<Rightarrow> withdraw_payer_builder" where
  "withdraw_payer_builder_channel_token_account channel_token_account self =
     self\<lparr>wib_channel_token_account := Some channel_token_account\<rparr>"

definition withdraw_payer_builder_payer_token_account ::
  "pubkey \<Rightarrow> withdraw_payer_builder \<Rightarrow> withdraw_payer_builder" where
  "withdraw_payer_builder_payer_token_account payer_token_account self =
     self\<lparr>wib_payer_token_account := Some payer_token_account\<rparr>"

definition withdraw_payer_builder_mint ::
  "pubkey \<Rightarrow> withdraw_payer_builder \<Rightarrow> withdraw_payer_builder" where
  "withdraw_payer_builder_mint mint self = self\<lparr>wib_mint := Some mint\<rparr>"

definition withdraw_payer_builder_token_program ::
  "pubkey \<Rightarrow> withdraw_payer_builder \<Rightarrow> withdraw_payer_builder" where
  "withdraw_payer_builder_token_program token_program self =
     self\<lparr>wib_token_program := Some token_program\<rparr>"

definition withdraw_payer_builder_add_remaining_account ::
  "account_meta \<Rightarrow> withdraw_payer_builder \<Rightarrow> withdraw_payer_builder" where
  "withdraw_payer_builder_add_remaining_account account self =
     self\<lparr>wib_remaining_accounts := wib_remaining_accounts self @ [account]\<rparr>"

definition withdraw_payer_builder_add_remaining_accounts ::
  "account_meta list \<Rightarrow> withdraw_payer_builder \<Rightarrow> withdraw_payer_builder" where
  "withdraw_payer_builder_add_remaining_accounts accounts self =
     self\<lparr>wib_remaining_accounts := wib_remaining_accounts self @ accounts\<rparr>"

definition withdraw_payer_builder_instruction :: "withdraw_payer_builder \<Rightarrow> (instruction, 'e) result" where
  "withdraw_payer_builder_instruction self =
     rbind (expect_some (wib_payer self)) (\<lambda>payer.
     rbind (expect_some (wib_channel self)) (\<lambda>channel.
     rbind (expect_some (wib_channel_token_account self)) (\<lambda>channel_token_account.
     rbind (expect_some (wib_payer_token_account self)) (\<lambda>payer_token_account.
     rbind (expect_some (wib_mint self)) (\<lambda>mint.
     rbind (expect_some (wib_token_program self)) (\<lambda>token_program.
       Ok (withdraw_payer_instruction_with_remaining_accounts
         \<lparr>wi_payer = payer, wi_channel = channel, wi_channel_token_account = channel_token_account,
          wi_payer_token_account = payer_token_account, wi_mint = mint, wi_token_program = token_program\<rparr> (wib_remaining_accounts self))))))))"

lemmas withdraw_payer_builder_defs =
  withdraw_payer_builder_new_def withdraw_payer_builder_payer_def withdraw_payer_builder_channel_def
  withdraw_payer_builder_channel_token_account_def withdraw_payer_builder_payer_token_account_def
  withdraw_payer_builder_mint_def withdraw_payer_builder_token_program_def
  withdraw_payer_builder_add_remaining_account_def withdraw_payer_builder_add_remaining_accounts_def
  withdraw_payer_builder_instruction_def withdraw_payer_instruction_with_remaining_accounts_def

section \<open>EmitEvent\<close>

record emit_event_builder =
  eib_event_authority :: "pubkey option"
  eib_remaining_accounts :: "account_meta list"

definition emit_event_builder_new :: emit_event_builder where
  "emit_event_builder_new =
     \<lparr>eib_event_authority = None, eib_remaining_accounts = []\<rparr>"

definition emit_event_builder_event_authority ::
  "pubkey \<Rightarrow> emit_event_builder \<Rightarrow> emit_event_builder" where
  "emit_event_builder_event_authority event_authority self =
     self\<lparr>eib_event_authority := Some event_authority\<rparr>"

definition emit_event_builder_add_remaining_account ::
  "account_meta \<Rightarrow> emit_event_builder \<Rightarrow> emit_event_builder" where
  "emit_event_builder_add_remaining_account account self =
     self\<lparr>eib_remaining_accounts := eib_remaining_accounts self @ [account]\<rparr>"

definition emit_event_builder_add_remaining_accounts ::
  "account_meta list \<Rightarrow> emit_event_builder \<Rightarrow> emit_event_builder" where
  "emit_event_builder_add_remaining_accounts accounts self =
     self\<lparr>eib_remaining_accounts := eib_remaining_accounts self @ accounts\<rparr>"

definition emit_event_builder_instruction :: "emit_event_builder \<Rightarrow> (instruction, 'e) result" where
  "emit_event_builder_instruction self =
     rbind (expect_some (eib_event_authority self)) (\<lambda>event_authority.
       Ok (emit_event_instruction_with_remaining_accounts
         \<lparr>ei_event_authority = event_authority\<rparr> (eib_remaining_accounts self)))"

lemmas emit_event_builder_defs =
  emit_event_builder_new_def emit_event_builder_event_authority_def emit_event_builder_add_remaining_account_def
  emit_event_builder_add_remaining_accounts_def emit_event_builder_instruction_def
  emit_event_instruction_with_remaining_accounts_def

end
