(* ===== verification/Channel_Instructions.thy ===== *)
theory Channel_Instructions
  imports Program_Builders
begin

text \<open>
  The instruction builders of \<^verbatim>\<open>rust/src/program/payment_channels.rs\<close>: they derive the addresses, fill the builders
  of the program client and name the deployed program.
\<close>

definition distribution_entry_of :: "distribution \<Rightarrow> distribution_entry" where
  "distribution_entry_of d = \<lparr>den_recipient = dist_recipient d, den_bps = dist_bps d\<rparr>"

section \<open>Open and top-up\<close>

definition build_open_instruction ::
  "externs \<Rightarrow> open_channel_params \<Rightarrow> (instruction, 'e) result" where
  "build_open_instruction X params =
     rbind (derive_channel_addresses X params) (\<lambda>addresses.
     rbind (rent_sysvar_id X) (\<lambda>rent.
     rbind (expect_pubkey X ASSOCIATED_TOKEN_PROGRAM) (\<lambda>ata_program.
     rbind (open_builder_instruction (chained open_builder_new
              [open_builder_payer (oc_payer params),
               open_builder_payee (oc_payee params),
               open_builder_mint (oc_mint params),
               open_builder_authorized_signer (oc_authorized_signer params),
               open_builder_channel (ca_channel addresses),
               open_builder_payer_token_account (ca_payer_token_account addresses),
               open_builder_channel_token_account (ca_channel_token_account addresses),
               open_builder_token_program (oc_token_program params),
               open_builder_rent rent,
               open_builder_associated_token_program ata_program,
               open_builder_event_authority (ca_event_authority addresses),
               open_builder_self_program (oc_program_id params),
               open_builder_open_args
                 \<lparr>oga_salt = oc_salt params, oga_deposit = oc_deposit params,
                  oga_grace_period = oc_grace_period params,
                  oga_recipients = map distribution_entry_of (oc_recipients params)\<rparr>])) (\<lambda>ix.
       Ok (ix\<lparr>ix_program_id := oc_program_id params\<rparr>)))))"

definition build_top_up_instruction ::
  "externs \<Rightarrow> pubkey \<Rightarrow> pubkey \<Rightarrow> pubkey \<Rightarrow> u64 \<Rightarrow> pubkey \<Rightarrow> pubkey \<Rightarrow>
   (instruction, 'e) result" where
  "build_top_up_instruction X payer channel mint amount token_program program_id =
     rbind (find_associated_token_address X payer mint token_program) (\<lambda>(payer_account, _).
     rbind (find_associated_token_address X channel mint token_program) (\<lambda>(channel_account, _).
     rbind (top_up_builder_instruction (chained top_up_builder_new
              [top_up_builder_payer payer,
               top_up_builder_channel channel,
               top_up_builder_payer_token_account payer_account,
               top_up_builder_channel_token_account channel_account,
               top_up_builder_mint mint,
               top_up_builder_token_program token_program,
               top_up_builder_top_up_args \<lparr>tua_amount = amount\<rparr>])) (\<lambda>ix.
       Ok (ix\<lparr>ix_program_id := program_id\<rparr>))))"

section \<open>Settlement\<close>

text \<open>
  The precompile instruction of Ed25519: one signature, then for each of signature, key and
  message its offset in this instruction's data; \<^verbatim>\<open>u16::MAX\<close> names the current instruction.
\<close>

definition build_ed25519_verify_instruction ::
  "externs \<Rightarrow> pubkey \<Rightarrow> byte list \<Rightarrow> byte list \<Rightarrow> (instruction, 'e) result" where
  "build_ed25519_verify_instruction X authorized_signer signature message =
     (let public_key_offset = (16 :: u16);
          signature_offset = public_key_offset + 32;
          message_data_offset = signature_offset + 64;
          current_instruction = (0xFFFF :: u16)
      in if length message < 2 ^ 16
         then rbind (expect_pubkey X ED25519_PROGRAM_ID) (\<lambda>program_id.
           Ok \<lparr>ix_program_id = program_id,
               ix_accounts = [],
               ix_data =
                 [1, 0] @ u16_le signature_offset @ u16_le current_instruction @
                 u16_le public_key_offset @ u16_le current_instruction @
                 u16_le message_data_offset @ u16_le (of_nat (length message)) @
                 u16_le current_instruction @
                 pubkey_bytes authorized_signer @ signature @ message\<rparr>)
         else Panic)"

definition build_settle_instructions ::
  "externs \<Rightarrow> pubkey \<Rightarrow> pubkey \<Rightarrow> byte list \<Rightarrow> u64 \<Rightarrow> i64 \<Rightarrow> pubkey \<Rightarrow>
   (instruction list, error) result" where
  "build_settle_instructions X channel authorized_signer signature cumulative_amount expires_at
     program_id =
     rbind (voucher_message_bytes channel cumulative_amount expires_at) (\<lambda>message.
     rbind (build_ed25519_verify_instruction X authorized_signer signature message) (\<lambda>verify.
     rbind (instructions_sysvar_id X) (\<lambda>sysvar.
     rbind (settle_builder_instruction (chained settle_builder_new
              [settle_builder_channel channel,
               settle_builder_instructions_sysvar sysvar,
               settle_builder_settle_args
                 \<lparr>sea_voucher =
                    \<lparr>va_channel_id = channel, va_cumulative_amount = cumulative_amount,
                     va_expires_at = expires_at\<rparr>\<rparr>])) (\<lambda>settle.
       Ok [verify, settle\<lparr>ix_program_id := program_id\<rparr>]))))"

definition build_settle_and_finalize_instructions ::
  "externs \<Rightarrow> pubkey \<Rightarrow> pubkey \<Rightarrow> pubkey \<Rightarrow> byte list option \<Rightarrow> u64 \<Rightarrow> i64 \<Rightarrow> pubkey \<Rightarrow>
   (instruction list, error) result" where
  "build_settle_and_finalize_instructions X merchant channel authorized_signer signature
     cumulative_amount expires_at program_id =
     rbind
       (case signature of
          Some sig \<Rightarrow>
            rbind (voucher_message_bytes channel cumulative_amount expires_at) (\<lambda>message.
            rbind (build_ed25519_verify_instruction X authorized_signer sig message) (\<lambda>verify.
              Ok ([verify], 1 :: byte)))
        | None \<Rightarrow> Ok ([], 0)) (\<lambda>(instructions, has_voucher).
     rbind (instructions_sysvar_id X) (\<lambda>sysvar.
     rbind (settle_and_finalize_builder_instruction (chained settle_and_finalize_builder_new
              [settle_and_finalize_builder_merchant merchant,
               settle_and_finalize_builder_channel channel,
               settle_and_finalize_builder_instructions_sysvar sysvar,
               settle_and_finalize_builder_settle_and_finalize_args
                 \<lparr>sfa_voucher =
                    \<lparr>va_channel_id = channel, va_cumulative_amount = cumulative_amount,
                     va_expires_at = expires_at\<rparr>,
                  sfa_has_voucher = has_voucher\<rparr>])) (\<lambda>settle_and_finalize.
       Ok (instructions @ [settle_and_finalize\<lparr>ix_program_id := program_id\<rparr>]))))"

definition build_request_close_instruction :: "pubkey \<Rightarrow> pubkey \<Rightarrow> pubkey \<Rightarrow> (instruction, 'e) result" where
  "build_request_close_instruction payer channel program_id =
     rbind (request_close_builder_instruction (chained request_close_builder_new
              [request_close_builder_payer payer, request_close_builder_channel channel])) (\<lambda>ix.
       Ok (ix\<lparr>ix_program_id := program_id\<rparr>))"

definition build_finalize_instruction :: "pubkey \<Rightarrow> pubkey \<Rightarrow> (instruction, 'e) result" where
  "build_finalize_instruction channel program_id =
     rbind (finalize_builder_instruction (chained finalize_builder_new [finalize_builder_channel channel]))
       (\<lambda>ix. Ok (ix\<lparr>ix_program_id := program_id\<rparr>))"

definition build_distribute_instruction ::
  "externs \<Rightarrow> pubkey \<Rightarrow> pubkey \<Rightarrow> pubkey \<Rightarrow> pubkey \<Rightarrow> pubkey \<Rightarrow> distribution list \<Rightarrow> pubkey \<Rightarrow>
   pubkey \<Rightarrow> (instruction, 'e) result" where
  "build_distribute_instruction X channel payer payee treasury mint recipients token_program
     program_id =
     rbind (find_associated_token_address X channel mint token_program) (\<lambda>(channel_account, _).
     rbind (find_associated_token_address X payer mint token_program) (\<lambda>(payer_account, _).
     rbind (find_associated_token_address X payee mint token_program) (\<lambda>(payee_account, _).
     rbind (find_associated_token_address X treasury mint token_program)
       (\<lambda>(treasury_account, _).
     rbind (collect_results (\<lambda>entry.
              rbind (find_associated_token_address X (dist_recipient entry) mint token_program)
                (\<lambda>(token_account, _). Ok (meta_new token_account False))) recipients)
       (\<lambda>recipient_accounts.
     rbind (distribute_builder_instruction (chained distribute_builder_new
              [distribute_builder_channel channel,
               distribute_builder_payer payer,
               distribute_builder_channel_token_account channel_account,
               distribute_builder_payer_token_account payer_account,
               distribute_builder_payee_token_account payee_account,
               distribute_builder_treasury_token_account treasury_account,
               distribute_builder_mint mint,
               distribute_builder_token_program token_program,
               distribute_builder_add_remaining_accounts recipient_accounts,
               distribute_builder_distribute_args
                 \<lparr>dga_recipients = map distribution_entry_of recipients\<rparr>])) (\<lambda>ix.
       Ok (ix\<lparr>ix_program_id := program_id\<rparr>)))))))"

section \<open>What the builders put on the wire\<close>

text \<open>The Ed25519 offsets read back exactly the key, the signature and the message.\<close>

definition data_at :: "byte list \<Rightarrow> nat \<Rightarrow> nat \<Rightarrow> byte list" where
  "data_at data off len = take len (drop off data)"

definition u16_at :: "byte list \<Rightarrow> nat \<Rightarrow> nat" where
  "u16_at data off = nat_of_le (data_at data off 2)"

lemma nat_of_u16_le: "nat_of_le (u16_le x) = unat x"
  using unat_lt [of x] by (simp add: u16_le_def nat_of_le_of_nat)

lemma data_at_skip:
  "length xs \<le> off \<Longrightarrow> data_at (xs @ ys) off len = data_at ys (off - length xs) len"
  by (simp add: data_at_def)

lemma data_at_here: "length xs = len \<Longrightarrow> data_at (xs @ ys) 0 len = xs"
  by (simp add: data_at_def)

lemma data_at_all: "length xs = len \<Longrightarrow> data_at xs 0 len = xs"
  by (simp add: data_at_def)

lemma ed25519_layout:
  assumes build: "build_ed25519_verify_instruction X key sig msg = Ok ix"
    and key: "wf_pubkey key" and sig: "length sig = 64"
  shows "data_at (ix_data ix) (u16_at (ix_data ix) 6) 32 = pubkey_bytes key"
    and "data_at (ix_data ix) (u16_at (ix_data ix) 2) 64 = sig"
    and "data_at (ix_data ix) (u16_at (ix_data ix) 10) (u16_at (ix_data ix) 12) = msg"
proof -
  obtain p where data: "ix_data ix =
      [1, 0] @ u16_le 48 @ u16_le 0xFFFF @ u16_le 16 @ u16_le 0xFFFF @ u16_le 112 @
      u16_le (of_nat (length msg)) @ u16_le 0xFFFF @ pubkey_bytes key @ sig @ msg"
    and small: "length msg < 2 ^ 16"
    using build by (auto simp: build_ed25519_verify_instruction_def Let_def split: if_splits)
  note skip = data_at_skip data_at_here data_at_all
  have k32: "length (pubkey_bytes key) = 32" using key by (simp add: wf_pubkey_def)
  have offs: "u16_at (ix_data ix) 2 = 48" "u16_at (ix_data ix) 6 = 16"
    "u16_at (ix_data ix) 10 = 112" "u16_at (ix_data ix) 12 = length msg"
    using small
    by (simp_all add: u16_at_def data skip nat_of_u16_le unat_of_nat del: append_Cons)
  show "data_at (ix_data ix) (u16_at (ix_data ix) 6) 32 = pubkey_bytes key"
    using k32 by (simp add: offs) (simp add: data skip del: append_Cons)
  show "data_at (ix_data ix) (u16_at (ix_data ix) 2) 64 = sig"
    using k32 sig by (simp add: offs) (simp add: data skip del: append_Cons)
  show "data_at (ix_data ix) (u16_at (ix_data ix) 10) (u16_at (ix_data ix) 12) = msg"
    using k32 sig by (simp add: offs) (simp add: data skip del: append_Cons)
qed

lemma ed25519_fields:
  assumes build: "build_ed25519_verify_instruction X key sig msg = (Ok ix :: (instruction, 'e) result)"
    and key: "wf_pubkey key" and sig: "length sig = 64"
  shows "expect_pubkey X ED25519_PROGRAM_ID = (Ok (ix_program_id ix) :: (pubkey, 'e) result)"
    and "length (ix_data ix) = 112 + length msg" and "ix_data ix ! 0 = 1"
    and "u16_at (ix_data ix) 2 = 48" and "u16_at (ix_data ix) 4 = 65535"
    and "u16_at (ix_data ix) 6 = 16" and "u16_at (ix_data ix) 8 = 65535"
    and "u16_at (ix_data ix) 10 = 112" and "u16_at (ix_data ix) 12 = length msg"
    and "u16_at (ix_data ix) 14 = 65535"
proof -
  have data: "ix_data ix =
      [1, 0] @ u16_le 48 @ u16_le 0xFFFF @ u16_le 16 @ u16_le 0xFFFF @ u16_le 112 @
      u16_le (of_nat (length msg)) @ u16_le 0xFFFF @ pubkey_bytes key @ sig @ msg"
    and small: "length msg < 2 ^ 16"
    and program: "expect_pubkey X ED25519_PROGRAM_ID = (Ok (ix_program_id ix) :: (pubkey, 'e) result)"
    using build by (auto simp: build_ed25519_verify_instruction_def Let_def split: if_splits)
  show "expect_pubkey X ED25519_PROGRAM_ID = (Ok (ix_program_id ix) :: (pubkey, 'e) result)" by (rule program)
  show "length (ix_data ix) = 112 + length msg"
    using key sig by (simp add: data wf_pubkey_def)
  show "ix_data ix ! 0 = 1" by (simp add: data)
  note skip = data_at_skip data_at_here data_at_all
  show "u16_at (ix_data ix) 2 = 48" "u16_at (ix_data ix) 4 = 65535" "u16_at (ix_data ix) 6 = 16"
    "u16_at (ix_data ix) 8 = 65535" "u16_at (ix_data ix) 10 = 112" "u16_at (ix_data ix) 12 = length msg"
    "u16_at (ix_data ix) 14 = 65535"
    using small by (simp_all add: u16_at_def data skip nat_of_u16_le unat_of_nat del: append_Cons)
qed

end
