(* ===== verification/Solana.thy ===== *)
theory Solana
  imports Errors
begin

text \<open>
  \<^verbatim>\<open>rust/src/protocol/solana.rs\<close>: well-known addresses, stablecoin resolution and the Solana part
  of a charge request.
\<close>

section \<open>Well-known addresses\<close>

definition TOKEN_PROGRAM :: string where
  "TOKEN_PROGRAM = ''TokenkegQfeZyiNwAJbNbGKPFXCWuBvf9Ss623VQ5DA''"

definition TOKEN_2022_PROGRAM :: string where
  "TOKEN_2022_PROGRAM = ''TokenzQdBNbLqP5VEhdkAS6EPFLC1PHnBqCXEpPxuEb''"

definition COMPUTE_BUDGET_PROGRAM :: string where
  "COMPUTE_BUDGET_PROGRAM = ''ComputeBudget111111111111111111111111111111''"

definition MEMO_PROGRAM :: string where
  "MEMO_PROGRAM = ''MemoSq4gqABAXKb96qnH8TysNcWxMyWCqXgDLGmfcHr''"

definition SYSTEM_PROGRAM :: string where
  "SYSTEM_PROGRAM = ''11111111111111111111111111111111''"

definition USDC_MAINNET :: string where
  "USDC_MAINNET = ''EPjFWdd5AufqSSqeM2qN1xzybapC8G4wEGGkZwyTDt1v''"

definition USDC_DEVNET :: string where
  "USDC_DEVNET = ''4zMMC9srt5Ri5X14GAgXhaHii3GnPAEERYPJgZJDncDU''"

definition USDC_TESTNET :: string where
  "USDC_TESTNET = USDC_DEVNET"

definition USDT_MAINNET :: string where
  "USDT_MAINNET = ''Es9vMFrzaCERmJfrF4H2FYD4KCoNkY11McCe8BenwNYB''"

definition USDG_MAINNET :: string where
  "USDG_MAINNET = ''2u1tszSeqZ3qBWF3uNGPFc8TzMk2tdiwknnRMWGWjGWH''"

definition USDG_DEVNET :: string where
  "USDG_DEVNET = ''4F6PM96JJxngmHnZLBh9n58RH4aTVNWvDs2nuwrT5BP7''"

definition USDG_TESTNET :: string where
  "USDG_TESTNET = USDG_DEVNET"

definition PYUSD_MAINNET :: string where
  "PYUSD_MAINNET = ''2b1kV6DkPAnxd5ixfnxCpjxmKwqjjaYmCZfHsFu24GXo''"

definition PYUSD_DEVNET :: string where
  "PYUSD_DEVNET = ''CXk2AMBfi3TwaEL2468s6zP8xq9NxTXjp9gjMgzeUynM''"

definition PYUSD_TESTNET :: string where
  "PYUSD_TESTNET = PYUSD_DEVNET"

definition CASH_MAINNET :: string where
  "CASH_MAINNET = ''CASHx9KJUStyftLFWGvEVf59SGeG9sh5FfcnZMVPCASH''"

definition default_rpc_url :: "string \<Rightarrow> string" where
  "default_rpc_url network =
     (if network = ''devnet'' then ''https://api.devnet.solana.com''
      else if network = ''localnet'' then ''http://localhost:8899''
      else ''https://api.mainnet-beta.solana.com'')"

section \<open>Stablecoins\<close>

definition resolve_stablecoin_mint :: "string \<Rightarrow> string option \<Rightarrow> string option" where
  "resolve_stablecoin_mint currency network =
     (let symbol = to_uppercase currency in
      if symbol = ''SOL'' then None
      else if symbol = ''USDC'' then
        Some (if network = Some ''devnet'' then USDC_DEVNET
              else if network = Some ''testnet'' then USDC_TESTNET else USDC_MAINNET)
      else if symbol = ''USDT'' then Some USDT_MAINNET
      else if symbol = ''USDG'' then
        Some (if network = Some ''devnet'' then USDG_DEVNET
              else if network = Some ''testnet'' then USDG_TESTNET else USDG_MAINNET)
      else if symbol = ''PYUSD'' then
        Some (if network = Some ''devnet'' then PYUSD_DEVNET
              else if network = Some ''testnet'' then PYUSD_TESTNET else PYUSD_MAINNET)
      else if symbol = ''CASH'' then Some CASH_MAINNET
      else Some currency)"

definition stablecoin_uses_token_2022 :: "string \<Rightarrow> bool" where
  "stablecoin_uses_token_2022 mint =
     (mint \<in> {PYUSD_MAINNET, PYUSD_DEVNET, USDG_MAINNET, USDG_DEVNET, CASH_MAINNET})"

definition default_token_program_for_currency :: "string \<Rightarrow> string option \<Rightarrow> string" where
  "default_token_program_for_currency currency network =
     (case resolve_stablecoin_mint currency network of
        Some mint \<Rightarrow> if stablecoin_uses_token_2022 mint then TOKEN_2022_PROGRAM else TOKEN_PROGRAM
      | None \<Rightarrow> TOKEN_PROGRAM)"

section \<open>Method details\<close>

record split =
  sp_recipient :: string
  sp_amount :: string
  sp_ata_creation_required :: "bool option"
  sp_label :: "string option"
  sp_memo :: "string option"

record method_details =
  md_network :: "string option"
  md_decimals :: "byte option"
  md_token_program :: "string option"
  md_fee_payer :: "bool option"
  md_fee_payer_key :: "string option"
  md_splits :: "split list option"
  md_recent_blockhash :: "string option"

definition method_details_default :: method_details where
  "method_details_default =
     \<lparr>md_network = None, md_decimals = None, md_token_program = None, md_fee_payer = None,
      md_fee_payer_key = None, md_splits = None, md_recent_blockhash = None\<rparr>"

text \<open>What the client sends: a signed transaction to broadcast, or the signature of one already sent.\<close>

datatype credential_payload = Transaction string | Signature string

text \<open>Resolution is idempotent: a mint that a currency resolves to resolves to itself.\<close>

lemma resolve_stablecoin_mint_cases:
  assumes "resolve_stablecoin_mint currency network = Some mint"
  shows "mint = currency \<and>
       to_uppercase currency \<notin> {''SOL'', ''USDC'', ''USDT'', ''USDG'', ''PYUSD'', ''CASH''} \<or>
     mint \<in> {USDC_MAINNET, USDC_DEVNET, USDT_MAINNET, USDG_MAINNET, USDG_DEVNET,
             PYUSD_MAINNET, PYUSD_DEVNET, CASH_MAINNET}"
  using assms
  by (simp add: resolve_stablecoin_mint_def Let_def USDC_TESTNET_def USDG_TESTNET_def
      PYUSD_TESTNET_def split: if_splits; blast)

lemma length_to_uppercase [simp]: "length (to_uppercase s) = length s"
  by (simp add: to_uppercase_def)

lemma resolve_long:
  assumes "5 < length currency"
  shows "resolve_stablecoin_mint currency network = Some currency"
proof -
  have "\<forall>t \<in> {''SOL'', ''USDC'', ''USDT'', ''USDG'', ''PYUSD'', ''CASH''}. length t \<le> 5" by simp
  with assms have "to_uppercase currency \<notin> {''SOL'', ''USDC'', ''USDT'', ''USDG'', ''PYUSD'', ''CASH''}"
    by (metis length_to_uppercase not_le)
  then show ?thesis by (simp add: resolve_stablecoin_mint_def)
qed

lemma well_known_mints_long:
  "mint \<in> {USDC_MAINNET, USDC_DEVNET, USDT_MAINNET, USDG_MAINNET, USDG_DEVNET,
             PYUSD_MAINNET, PYUSD_DEVNET, CASH_MAINNET} \<Longrightarrow> 5 < length mint"
  by (auto simp: USDC_MAINNET_def USDC_DEVNET_def USDT_MAINNET_def USDG_MAINNET_def
      USDG_DEVNET_def PYUSD_MAINNET_def PYUSD_DEVNET_def CASH_MAINNET_def)

lemma resolve_stablecoin_mint_idem:
  assumes "resolve_stablecoin_mint currency network = Some mint"
  shows "resolve_stablecoin_mint mint network' = Some mint"
proof -
  from resolve_stablecoin_mint_cases [OF assms] show ?thesis
  proof
    assume "mint = currency \<and>
       to_uppercase currency \<notin> {''SOL'', ''USDC'', ''USDT'', ''USDG'', ''PYUSD'', ''CASH''}"
    then show ?thesis by (simp add: resolve_stablecoin_mint_def)
  next
    assume "mint \<in> {USDC_MAINNET, USDC_DEVNET, USDT_MAINNET, USDG_MAINNET, USDG_DEVNET,
             PYUSD_MAINNET, PYUSD_DEVNET, CASH_MAINNET}"
    then have "5 < length mint" by (rule well_known_mints_long)
    then show ?thesis by (rule resolve_long)
  qed
qed

end
