(* ===== verification/Session_Server.thy ===== *)
theory Session_Server
  imports Session_Types Channel_Store Channel_Instructions Solana
begin

text \<open>
  \<^verbatim>\<open>rust/src/server/session.rs\<close>: the session server, one definition per method, over any channel
  store given as its record of operations.  Every method takes the store's state and returns the
  new one with its result.  The closures that the methods hand to \<^verbatim>\<open>update_channel\<close> are definitions
  of their own, because they are the atomic steps of the protocol: what a method checks before
  its closure runs may be stale by then.
\<close>

section \<open>Configuration and parameters\<close>

record config_split =
  sl_recipient :: pubkey
  sl_bps :: u16

record session_config =
  sc_operator :: string
  sc_recipient :: string
  sc_splits :: "config_split list"
  sc_max_cap :: u64
  sc_currency :: string
  sc_decimals :: byte
  sc_network :: string
  sc_program_id :: "pubkey option"
  sc_min_voucher_delta :: u64
  sc_modes :: "session_mode list"
  sc_pull_voucher_strategy :: "pull_voucher_strategy option"
  sc_rpc_url :: "string option"

definition session_config_default :: session_config where
  "session_config_default =
     \<lparr>sc_operator = [], sc_recipient = [], sc_splits = [], sc_max_cap = 10000000,
      sc_currency = ''USDC'', sc_decimals = 6, sc_network = ''mainnet-beta'',
      sc_program_id = None, sc_min_voucher_delta = 0, sc_modes = [Push],
      sc_pull_voucher_strategy = None, sc_rpc_url = None\<rparr>"

record finalize_parameters =
  fp_channel_id :: pubkey
  fp_authorized_signer :: "pubkey option"
  fp_payer :: "pubkey option"
  fp_mint :: "pubkey option"
  fp_program_id :: pubkey
  fp_settled :: u64
  fp_voucher_signature :: "string option"
  fp_voucher_expires_at :: "i64 option"
  fp_recipient :: pubkey
  fp_splits :: "config_split list"
  fp_distribution_hash :: "byte list"

record delivery_request =
  dr_session_id :: string
  dr_amount :: u64
  dr_delivery_id :: "string option"
  dr_commit_url :: "string option"
  dr_proof :: "string option"
  dr_expires_at :: "i64 option"

definition delivery_request_new :: "string \<Rightarrow> u64 \<Rightarrow> delivery_request" where
  "delivery_request_new sid amount =
     \<lparr>dr_session_id = sid, dr_amount = amount, dr_delivery_id = None,
      dr_commit_url = None, dr_proof = None, dr_expires_at = None\<rparr>"

text \<open>
  The cell that a closure shares with its method: empty, a directive (\<^verbatim>\<open>directive_out\<close>) or the
  outcome of a commit (\<^verbatim>\<open>commit_outcome\<close>).
\<close>

datatype cell = NoOutput | DirectiveOut metering_directive | CommitOutcome u64 u64 commit_status

section \<open>Helpers\<close>

definition store_err :: "store_error \<Rightarrow> error" where
  "store_err e = Other (store_error_display e)"

definition session_parse_pubkey :: "externs \<Rightarrow> string \<Rightarrow> (pubkey, error) result" where
  "session_parse_pubkey X s =
     rbind (map_err (\<lambda>e. Other (''Invalid pubkey '' @ s @ '': '' @ e)) (bs58_decode X s)) (\<lambda>bytes.
     rbind (ok_or (try_into_array 32 bytes) (Other (''Pubkey '' @ s @ '' is not 32 bytes'')))
       (\<lambda>arr. Ok (Pubkey arr)))"

definition parse_pubkey_field :: "externs \<Rightarrow> string \<Rightarrow> string \<Rightarrow> (pubkey, error) result" where
  "parse_pubkey_field X value field =
     map_err
       (\<lambda>e. Other (''invalid payment-channel '' @ field @ '': '' @ error_display e))
       (session_parse_pubkey X value)"

definition parse_payload_pubkey ::
  "externs \<Rightarrow> string option \<Rightarrow> string \<Rightarrow> (pubkey, error) result" where
  "parse_payload_pubkey X v field =
     rbind (ok_or v (Other (''payment-channel open missing '' @ field)))
       (\<lambda>value. parse_pubkey_field X value field)"

definition expected_payment_channel_mint ::
  "externs \<Rightarrow> session_config \<Rightarrow> (pubkey, error) result" where
  "expected_payment_channel_mint X config =
     rbind (ok_or (resolve_stablecoin_mint (sc_currency config) (Some (sc_network config)))
              (Other ''payment-channel sessions require an SPL token''))
       (\<lambda>mint. parse_pubkey_field X mint ''currency'')"

text \<open>\<^verbatim>\<open>rpc_url\<close> selects the node that is asked for the status of a transaction.\<close>

definition verify_open_signature :: "externs \<Rightarrow> string \<Rightarrow> string \<Rightarrow> (unit, error) result" where
  "verify_open_signature X sig_str rpc_url =
     rbind (map_err (\<lambda>e. Other (''invalid open tx signature '' @ [CHR 39] @ sig_str @ [CHR 39] @ '': '' @ e))
              (parse_tx_signature X sig_str)) (\<lambda>sig.
     rbind (map_err (\<lambda>e. Other (''RPC error verifying open tx: '' @ e))
              (signature_status X rpc_url sig)) (\<lambda>status.
       case status of
         Some (Ok _) \<Rightarrow> Ok ()
       | Some (Err e) \<Rightarrow> Err (Other (''open tx was rejected on-chain: '' @ e))
       | Some Panic \<Rightarrow> Panic
       | None \<Rightarrow>
           Err (Other (''open tx '' @ [CHR 39] @ sig_str @ [CHR 39] @ '' not found '' @ em_dash @
                       '' not yet confirmed or does not exist''))))"

text \<open>
  \<^verbatim>\<open>verify_signature\<close> reads the clock itself; \<open>n\<close> says which of the method's readings that is.  The
  cast of the seconds to \<^verbatim>\<open>i64\<close> keeps the bits, and the expiry is compared as a signed number.
\<close>

definition verify_signature ::
  "externs \<Rightarrow> nat \<Rightarrow> signed_voucher \<Rightarrow> string \<Rightarrow> (unit, error) result" where
  "verify_signature X n voucher authorized_signer =
     (let now = clock X n in
      if vd_expires_at (sv_data voucher) \<le>s now then Err (Other ''Voucher has expired'')
      else
        rbind (message_bytes X (sv_data voucher)) (\<lambda>message.
        rbind (map_err (\<lambda>e. Other (''Invalid signature encoding: '' @ e))
                 (bs58_decode X (sv_signature voucher))) (\<lambda>sig_bytes.
        rbind (map_err (\<lambda>e. Other (''Invalid authorized_signer: '' @ e))
                 (bs58_decode X authorized_signer)) (\<lambda>key_bytes.
        rbind (ok_or (try_into_array 32 key_bytes) (Other ''Pubkey is not 32 bytes'')) (\<lambda>key_arr.
        rbind (ok_or (try_into_array 64 sig_bytes) (Other ''Signature is not 64 bytes'')) (\<lambda>sig_arr.
        rbind (map_err (\<lambda>e. Other (''Invalid authorized_signer key: '' @ e))
                 (ed25519_key_from_bytes X key_arr)) (\<lambda>_.
        if ed25519_verify_strict X key_arr message sig_arr then Ok ()
        else Err (Other ''Voucher signature verification failed''))))))))"

definition compute_distribution_hash ::
  "externs \<Rightarrow> pubkey \<Rightarrow> (pubkey \<times> u16) list \<Rightarrow> byte list" where
  "compute_distribution_hash X recipient splits =
     distribution_hash X
       (map (\<lambda>(recipient, bps). \<lparr>dist_recipient = recipient, dist_bps = bps\<rparr>) splits)"

definition config_recipients :: "session_config \<Rightarrow> distribution list" where
  "config_recipients config =
     map (\<lambda>s. \<lparr>dist_recipient = sl_recipient s, dist_bps = sl_bps s\<rparr>) (sc_splits config)"

definition config_program_id :: "externs \<Rightarrow> session_config \<Rightarrow> (pubkey, error) result" where
  "config_program_id X config =
     (case sc_program_id config of Some p \<Rightarrow> Ok p | None \<Rightarrow> default_program_id X)"

section \<open>Challenge and on-chain open parameters\<close>

definition build_challenge_request :: "externs \<Rightarrow> session_config \<Rightarrow> u64 \<Rightarrow> session_request" where
  "build_challenge_request X config cap =
     (let effective_cap = min cap (sc_max_cap config) in
      \<lparr>sr_cap = show_u64 effective_cap,
       sr_currency = sc_currency config,
       sr_decimals = Some (sc_decimals config),
       sr_network = Some (sc_network config),
       sr_operator = sc_operator config,
       sr_recipient = sc_recipient config,
       sr_splits =
         map (\<lambda>s. \<lparr>ss_recipient = bs58_encode X (pubkey_bytes (sl_recipient s)), ss_bps = sl_bps s\<rparr>)
           (sc_splits config),
       sr_program_id = map_option (\<lambda>p. bs58_encode X (pubkey_bytes p)) (sc_program_id config),
       sr_description = None,
       sr_external_id = None,
       sr_min_voucher_delta =
         (if 0 < sc_min_voucher_delta config then Some (show_u64 (sc_min_voucher_delta config))
          else None),
       sr_modes = (if sc_modes config = [Push] then [] else sc_modes config),
       sr_pull_voucher_strategy =
         (if Pull \<in> set (sc_modes config) then sc_pull_voucher_strategy config else None),
       sr_recent_blockhash = None\<rparr>)"

definition payment_channel_open_params ::
  "externs \<Rightarrow> session_config \<Rightarrow> open_payload \<Rightarrow> (open_channel_params, error) result" where
  "payment_channel_open_params X config payload =
     rbind (parse_payload_pubkey X (op_payer payload) ''payer'') (\<lambda>payer.
     rbind (parse_payload_pubkey X (op_payee payload) ''payee'') (\<lambda>payee.
     rbind (parse_payload_pubkey X (op_mint payload) ''mint'') (\<lambda>mint.
     rbind (parse_pubkey_field X (op_authorized_signer payload) ''authorizedSigner'')
       (\<lambda>authorized_signer.
     rbind (ok_or (op_salt payload) (Other ''payment-channel open missing salt'')) (\<lambda>salt.
     rbind (ok_or (op_grace_period payload) (Other ''payment-channel open missing gracePeriod''))
       (\<lambda>grace_period.
     rbind (deposit_amount payload) (\<lambda>deposit.
     rbind (parse_pubkey_field X
              (default_token_program_for_currency (sc_currency config) (Some (sc_network config)))
              ''token program'') (\<lambda>token_program.
     rbind (config_program_id X config) (\<lambda>program_id.
     rbind (parse_pubkey_field X (sc_recipient config) ''recipient'') (\<lambda>expected_payee.
     rbind (expected_payment_channel_mint X config) (\<lambda>expected_mint.
     if payee \<noteq> expected_payee then
       Err (Other ''payment-channel open payee does not match challenge recipient'')
     else if mint \<noteq> expected_mint then
       Err (Other ''payment-channel open mint does not match challenge currency'')
     else
       let params =
         \<lparr>oc_payer = payer, oc_payee = payee, oc_mint = mint,
          oc_authorized_signer = authorized_signer, oc_salt = salt, oc_deposit = deposit,
          oc_grace_period = grace_period, oc_recipients = config_recipients config,
          oc_token_program = token_program, oc_program_id = program_id\<rparr>
       in
       rbind (derive_channel_addresses X params) (\<lambda>addresses.
       rbind (parse_payload_pubkey X (op_channel_id payload) ''channelId'') (\<lambda>channel.
       if channel \<noteq> ca_channel addresses then
         Err (Other ''payment-channel open channelId does not match derived channel PDA'')
       else Ok params)))))))))))))"

definition payment_channel_open_instruction ::
  "externs \<Rightarrow> session_config \<Rightarrow> open_payload \<Rightarrow> (instruction, error) result" where
  "payment_channel_open_instruction X config payload =
     rbind (payment_channel_open_params X config payload) (build_open_instruction X)"

section \<open>Open\<close>

definition supports_mode :: "session_config \<Rightarrow> session_mode \<Rightarrow> bool" where
  "supports_mode config mode =
     (if sc_modes config = [] then mode = Push else mode \<in> set (sc_modes config))"

definition process_open_checks ::
  "externs \<Rightarrow> session_config \<Rightarrow> open_payload \<Rightarrow> (channel_state, error) result" where
  "process_open_checks X config payload =
     (if \<not> supports_mode config (op_mode payload) then
        Err (Other (''Session mode '' @ session_mode_debug (op_mode payload) @
                    '' is not supported by this challenge''))
      else
        rbind (session_id payload) (\<lambda>sid.
        rbind (deposit_amount payload) (\<lambda>deposit.
        if deposit = 0 then Err (Other ''Deposit must be greater than zero'')
        else if sc_max_cap config < deposit then
          Err (Other (''Deposit '' @ show_u64 deposit @ '' exceeds max cap '' @
                      show_u64 (sc_max_cap config)))
        else
          rbind (if op_mode payload = Push then
                   (case sc_rpc_url config of
                      Some rpc_url \<Rightarrow> verify_open_signature X (op_signature payload) rpc_url
                    | None \<Rightarrow> Ok ())
                 else Ok ()) (\<lambda>_.
          Ok \<lparr>cs_channel_id = sid,
              cs_authorized_signer = op_authorized_signer payload,
              cs_deposit = deposit,
              cs_cumulative = 0,
              cs_finalized = False,
              cs_highest_voucher_signature = None,
              cs_highest_voucher_expires_at = None,
              cs_close_requested_at = None,
              cs_operator = (case op_owner payload of Some o' \<Rightarrow> Some o' | None \<Rightarrow> op_payer payload),
              cs_next_delivery_sequence = 0,
              cs_pending_deliveries = [],
              cs_committed_deliveries = []\<rparr>))))"

definition process_open ::
  "('s, cell) channel_store \<Rightarrow> externs \<Rightarrow> session_config \<Rightarrow> 's \<Rightarrow> open_payload \<Rightarrow>
   's \<times> (channel_state, error) result" where
  "process_open ops X config s payload =
     (case process_open_checks X config payload of
        Ok state \<Rightarrow>
          (case op_put_channel ops s (cs_channel_id state) state of
             (s', r) \<Rightarrow> (s', rbind (map_err store_err r) (\<lambda>_. Ok state)))
      | Err e \<Rightarrow> (s, Err e)
      | Panic \<Rightarrow> (s, Panic))"

section \<open>Vouchers\<close>

text \<open>
  Steps 2 to 9 of \<^verbatim>\<open>verify_voucher\<close>, on the state it read: \<open>Ok (Some c)\<close> is the answer to a replay,
  \<open>Ok None\<close> goes on to the update.
\<close>

definition verify_voucher_checks ::
  "externs \<Rightarrow> session_config \<Rightarrow> signed_voucher \<Rightarrow> u64 \<Rightarrow> channel_state \<Rightarrow>
   (u64 option, error) result" where
  "verify_voucher_checks X config voucher new_cumulative state =
     (if cs_finalized state then Err (Other ''Channel is already finalized'')
      else if cs_close_requested_at state \<noteq> None then
        Err (Other (''Channel close is pending '' @ em_dash @ '' no further vouchers accepted''))
      else if new_cumulative = cs_cumulative state \<and>
              cs_highest_voucher_signature state = Some (sv_signature voucher) then
        rbind (verify_signature X 0 voucher (cs_authorized_signer state))
          (\<lambda>_. Ok (Some new_cumulative))
      else if new_cumulative \<le> cs_cumulative state then
        Err (Other (''Voucher cumulative '' @ show_u64 new_cumulative @
                    '' must exceed watermark '' @ show_u64 (cs_cumulative state)))
      else if cs_deposit state < new_cumulative then
        Err (Other (''Voucher cumulative '' @ show_u64 new_cumulative @
                    '' exceeds deposit '' @ show_u64 (cs_deposit state)))
      else
        let delta = new_cumulative - cs_cumulative state;
            min_delta = sc_min_voucher_delta config in
        if 0 < min_delta \<and> delta < min_delta then
          Err (Other (''Voucher delta '' @ show_u64 delta @ '' is below minimum '' @
                      show_u64 min_delta))
        else
          rbind (verify_signature X 0 voucher (cs_authorized_signer state)) (\<lambda>_. Ok None))"

definition verify_voucher_update :: "u64 \<Rightarrow> string \<Rightarrow> i64 \<Rightarrow> cell updater" where
  "verify_voucher_update new_cumulative sig expires_at cell state_opt =
     (cell,
      case state_opt of
        None \<Rightarrow> Err (Internal ''Channel not found'')
      | Some state \<Rightarrow>
          if cs_finalized state then Err (Internal ''Channel is already finalized'')
          else if cs_close_requested_at state \<noteq> None then
            Err (Internal (''Channel close is pending '' @ em_dash @
                           '' no further vouchers accepted''))
          else if new_cumulative = cs_cumulative state \<and>
                  cs_highest_voucher_signature state = Some sig then Ok state
          else if new_cumulative \<le> cs_cumulative state then
            Err (Internal ''Concurrent update: watermark advanced'')
          else Ok (state\<lparr>cs_cumulative := new_cumulative,
                         cs_highest_voucher_signature := Some sig,
                         cs_highest_voucher_expires_at := Some expires_at\<rparr>))"

text \<open>The read of the channel that \<^verbatim>\<open>verify_voucher\<close>, \<^verbatim>\<open>process_commit\<close> and \<^verbatim>\<open>finalize_params\<close> share.\<close>

definition read_channel ::
  "('s, cell) channel_store \<Rightarrow> 's \<Rightarrow> string \<Rightarrow> (channel_state, error) result" where
  "read_channel ops s cid =
     rbind (map_err store_err (op_get_channel ops s cid)) (\<lambda>found.
       ok_or found (Other (''Channel '' @ cid @ '' not found'')))"

definition verify_voucher_read ::
  "('s, cell) channel_store \<Rightarrow> externs \<Rightarrow> session_config \<Rightarrow> 's \<Rightarrow> signed_voucher \<Rightarrow>
   (u64 \<times> u64 option, error) result" where
  "verify_voucher_read ops X config s voucher =
     rbind (ok_or (parse_u64 (vd_cumulative (sv_data voucher)))
              (Other ''Invalid cumulative in voucher'')) (\<lambda>new_cumulative.
     rbind (read_channel ops s (vd_channel_id (sv_data voucher))) (\<lambda>state.
     rbind (verify_voucher_checks X config voucher new_cumulative state) (\<lambda>replay.
       Ok (new_cumulative, replay))))"

definition verify_voucher ::
  "('s, cell) channel_store \<Rightarrow> externs \<Rightarrow> session_config \<Rightarrow> 's \<Rightarrow> voucher_payload \<Rightarrow>
   's \<times> (u64, error) result" where
  "verify_voucher ops X config s payload =
     (let voucher = vp_voucher payload in
      case verify_voucher_read ops X config s voucher of
        Err e \<Rightarrow> (s, Err e)
      | Panic \<Rightarrow> (s, Panic)
      | Ok (new_cumulative, replay) \<Rightarrow>
          (case replay of
             Some c \<Rightarrow> (s, Ok c)
           | None \<Rightarrow>
               (case op_update_channel ops s (vd_channel_id (sv_data voucher))
                       (verify_voucher_update new_cumulative (sv_signature voucher)
                          (vd_expires_at (sv_data voucher))) NoOutput of
                  (s', _, r) \<Rightarrow>
                    (s', rbind (map_err store_err r) (\<lambda>new_state. Ok (cs_cumulative new_state))))))"

section \<open>Top-up\<close>

definition process_topup_update :: "string \<Rightarrow> u64 \<Rightarrow> u64 \<Rightarrow> cell updater" where
  "process_topup_update cid new_deposit max_cap cell state_opt =
     (cell,
      case state_opt of
        None \<Rightarrow> Err (Internal (''Channel '' @ cid @ '' not found''))
      | Some state \<Rightarrow>
          if new_deposit \<le> cs_deposit state then
            Err (Internal (''New deposit '' @ show_u64 new_deposit @
                           '' must exceed current deposit '' @ show_u64 (cs_deposit state)))
          else if max_cap < new_deposit then
            Err (Internal (''New deposit '' @ show_u64 new_deposit @ '' exceeds max cap '' @
                           show_u64 max_cap))
          else Ok (state\<lparr>cs_deposit := new_deposit\<rparr>))"

definition process_topup ::
  "('s, cell) channel_store \<Rightarrow> session_config \<Rightarrow> 's \<Rightarrow> top_up_payload \<Rightarrow>
   's \<times> (channel_state, error) result" where
  "process_topup ops config s payload =
     (case parse_u64 (tu_new_deposit payload) of
        None \<Rightarrow> (s, Err (Other ''Invalid new_deposit''))
      | Some new_deposit \<Rightarrow>
          (case op_update_channel ops s (tu_channel_id payload)
                  (process_topup_update (tu_channel_id payload) new_deposit (sc_max_cap config))
                  NoOutput of
             (s', _, r) \<Rightarrow> (s', map_err store_err r)))"

section \<open>Metered deliveries\<close>

text \<open>
  The closure of \<^verbatim>\<open>begin_delivery\<close>.  The three sums are plain \<^verbatim>\<open>u64\<close> arithmetic, so the build decides
  what an overflow does, and the sequence number is incremented the same way.
\<close>

definition begin_delivery_update ::
  "build \<Rightarrow> session_config \<Rightarrow> delivery_request \<Rightarrow> cell updater" where
  "begin_delivery_update b config request cell state_opt =
     (let sid = dr_session_id request;
          amount = dr_amount request;
          expires_at = (case dr_expires_at request of Some t \<Rightarrow> t
                        | None \<Rightarrow> DEFAULT_SESSION_EXPIRES_AT) in
      case rbind (ok_or state_opt (Internal (''Channel '' @ sid @ '' not found''))) (\<lambda>state.
           if cs_finalized state then Err (Internal ''Channel is already finalized'')
           else if cs_close_requested_at state \<noteq> None then
             Err (Internal (''Channel close is pending '' @ em_dash @
                            '' no further deliveries accepted''))
           else
             rbind (sum_u64 b 0 (map pd_amount (cs_pending_deliveries state))) (\<lambda>pending_total.
             rbind (add_u64 b (cs_cumulative state) pending_total) (\<lambda>committed.
             rbind (add_u64 b committed amount) (\<lambda>total.
             if cs_deposit state < total then
               Err (Internal (''Delivery amount '' @ show_u64 amount @
                              '' exceeds available deposit''))
             else
               rbind (add_u64 b (cs_next_delivery_sequence state) 1) (\<lambda>sequence.
               let did = (case dr_delivery_id request of Some i \<Rightarrow> i
                          | None \<Rightarrow> sid @ '':'' @ show_u64 sequence) in
               if did \<in> pd_delivery_id ` set (cs_pending_deliveries state) \<or>
                  did \<in> cd_delivery_id ` set (cs_committed_deliveries state) then
                 Err (Internal (''Delivery '' @ did @ '' already exists''))
               else
                 Ok (state\<lparr>cs_next_delivery_sequence := sequence,
                          cs_pending_deliveries :=
                            cs_pending_deliveries state @
                            [\<lparr>pd_delivery_id = did, pd_amount = amount,
                              pd_sequence = sequence, pd_expires_at = expires_at\<rparr>]\<rparr>,
                     \<lparr>mdv_delivery_id = did, mdv_session_id = sid,
                      mdv_amount = show_u64 amount, mdv_currency = sc_currency config,
                      mdv_sequence = sequence, mdv_expires_at = expires_at,
                      mdv_commit_url = dr_commit_url request,
                      mdv_proof = dr_proof request\<rparr>)))))) of
        Ok (state', directive) \<Rightarrow> (DirectiveOut directive, Ok state')
      | Err e \<Rightarrow> (cell, Err e)
      | Panic \<Rightarrow> (cell, Panic))"

definition begin_delivery ::
  "build \<Rightarrow> ('s, cell) channel_store \<Rightarrow> session_config \<Rightarrow> 's \<Rightarrow> delivery_request \<Rightarrow>
   's \<times> (metering_directive, error) result" where
  "begin_delivery b ops config s request =
     (if dr_amount request = 0 then
        (s, Err (Other ''Delivery amount must be greater than zero''))
      else
        case op_update_channel ops s (dr_session_id request)
               (begin_delivery_update b config request) NoOutput of
          (s', cell, r) \<Rightarrow>
            (s', rbind (map_err store_err r) (\<lambda>_.
                 case cell of
                   DirectiveOut directive \<Rightarrow> Ok directive
                 | _ \<Rightarrow> Err (Other ''Delivery reservation did not produce directive''))))"

text \<open>
  \<^verbatim>\<open>process_commit\<close> reads the channel, checks, and updates.  \<open>Inl\<close> is the receipt of a replay that
  the read already answers, \<open>Inr now\<close> the clock reading the closure compares expiries with.
\<close>

definition process_commit_checks ::
  "externs \<Rightarrow> commit_payload \<Rightarrow> u64 \<Rightarrow> channel_state \<Rightarrow> (commit_receipt + i64, error) result" where
  "process_commit_checks X payload new_cumulative state =
     (let voucher = cp_voucher payload;
          did = cp_delivery_id payload in
      case find (\<lambda>d. cd_delivery_id d = did) (cs_committed_deliveries state) of
        Some committed \<Rightarrow>
          if cd_cumulative committed = new_cumulative \<and>
             cd_voucher_signature committed = sv_signature voucher then
            rbind (verify_signature X 0 voucher (cs_authorized_signer state)) (\<lambda>_.
              Ok (Inl \<lparr>cr_delivery_id = did,
                       cr_session_id = vd_channel_id (sv_data voucher),
                       cr_amount = show_u64 (cd_amount committed),
                       cr_cumulative = show_u64 (cd_cumulative committed),
                       cr_status = Replayed\<rparr>))
          else Err (Other (''Delivery '' @ did @
                           '' was already committed with different voucher''))
      | None \<Rightarrow>
          rbind (ok_or (find (\<lambda>d. pd_delivery_id d = did) (cs_pending_deliveries state))
                   (Other (''Delivery '' @ did @ '' not found''))) (\<lambda>pending.
          let now = clock X 0 in
          if pd_expires_at pending \<le>s now then
            Err (Other (''Delivery '' @ did @ '' has expired''))
          else if new_cumulative \<le> cs_cumulative state then
            Err (Other (''Commit cumulative '' @ show_u64 new_cumulative @
                        '' must exceed watermark '' @ show_u64 (cs_cumulative state)))
          else
            rbind (verify_signature X 1 voucher (cs_authorized_signer state))
              (\<lambda>_. Ok (Inr now))))"

text \<open>\<^verbatim>\<open>position\<close> and \<^verbatim>\<open>Vec::remove\<close> at that index: the first delivery with the id goes.\<close>

fun remove_delivery :: "string \<Rightarrow> pending_delivery list \<Rightarrow> pending_delivery list" where
  "remove_delivery did [] = []"
| "remove_delivery did (d # ds) =
     (if pd_delivery_id d = did then ds else d # remove_delivery did ds)"

definition process_commit_update ::
  "commit_payload \<Rightarrow> u64 \<Rightarrow> i64 \<Rightarrow> cell updater" where
  "process_commit_update payload new_cumulative now cell state_opt =
     (let voucher = cp_voucher payload;
          did = cp_delivery_id payload;
          sig = sv_signature voucher;
          cid = vd_channel_id (sv_data voucher) in
      case rbind (ok_or state_opt (Internal (''Channel '' @ cid @ '' not found''))) (\<lambda>state.
           if cs_finalized state then Err (Internal ''Channel is already finalized'')
           else if cs_close_requested_at state \<noteq> None then
             Err (Internal (''Channel close is pending '' @ em_dash @
                            '' no further commits accepted''))
           else
             case find (\<lambda>d. cd_delivery_id d = did) (cs_committed_deliveries state) of
               Some committed \<Rightarrow>
                 if cd_cumulative committed = new_cumulative \<and>
                    cd_voucher_signature committed = sig then
                   Ok (state, CommitOutcome (cd_amount committed) (cd_cumulative committed) Replayed)
                 else Err (Internal (''Delivery '' @ did @
                                     '' was already committed with different voucher''))
             | None \<Rightarrow>
                 rbind (ok_or (find (\<lambda>d. pd_delivery_id d = did) (cs_pending_deliveries state))
                          (Internal (''Delivery '' @ did @ '' not found''))) (\<lambda>pending.
                 if pd_expires_at pending \<le>s now then
                   Err (Internal (''Delivery '' @ did @ '' has expired''))
                 else if new_cumulative \<le> cs_cumulative state then
                   Err (Internal (''Commit cumulative '' @ show_u64 new_cumulative @
                                  '' must exceed watermark '' @ show_u64 (cs_cumulative state)))
                 else
                   let actual_amount = new_cumulative - cs_cumulative state in
                   if pd_amount pending < actual_amount then
                     Err (Internal (''Commit amount '' @ show_u64 actual_amount @
                                    '' exceeds reserved amount '' @ show_u64 (pd_amount pending)))
                   else
                     Ok (state\<lparr>cs_pending_deliveries :=
                                 remove_delivery did (cs_pending_deliveries state),
                               cs_cumulative := new_cumulative,
                               cs_highest_voucher_signature := Some sig,
                               cs_highest_voucher_expires_at :=
                                 Some (vd_expires_at (sv_data voucher)),
                               cs_committed_deliveries :=
                                 cs_committed_deliveries state @
                                 [\<lparr>cd_delivery_id = did, cd_amount = actual_amount,
                                   cd_cumulative = new_cumulative,
                                   cd_voucher_signature = sig\<rparr>]\<rparr>,
                         CommitOutcome actual_amount new_cumulative Committed))) of
        Ok (state', outcome) \<Rightarrow> (outcome, Ok state')
      | Err e \<Rightarrow> (cell, Err e)
      | Panic \<Rightarrow> (cell, Panic))"

definition process_commit_read ::
  "('s, cell) channel_store \<Rightarrow> externs \<Rightarrow> 's \<Rightarrow> commit_payload \<Rightarrow>
   (u64 \<times> (commit_receipt + i64), error) result" where
  "process_commit_read ops X s payload =
     (let voucher = cp_voucher payload in
      rbind (ok_or (parse_u64 (vd_cumulative (sv_data voucher)))
               (Other ''Invalid cumulative in commit voucher'')) (\<lambda>new_cumulative.
      rbind (read_channel ops s (vd_channel_id (sv_data voucher))) (\<lambda>state.
      rbind (process_commit_checks X payload new_cumulative state) (\<lambda>answer.
        Ok (new_cumulative, answer)))))"

definition commit_receipt_of :: "commit_payload \<Rightarrow> cell \<Rightarrow> (commit_receipt, error) result" where
  "commit_receipt_of payload cell =
     (case cell of
        CommitOutcome amount cumulative status \<Rightarrow>
          Ok \<lparr>cr_delivery_id = cp_delivery_id payload,
              cr_session_id = vd_channel_id (sv_data (cp_voucher payload)),
              cr_amount = show_u64 amount,
              cr_cumulative = show_u64 cumulative,
              cr_status = status\<rparr>
      | _ \<Rightarrow> Err (Other ''Commit did not produce a receipt''))"

definition process_commit ::
  "('s, cell) channel_store \<Rightarrow> externs \<Rightarrow> 's \<Rightarrow> commit_payload \<Rightarrow>
   's \<times> (commit_receipt, error) result" where
  "process_commit ops X s payload =
     (case process_commit_read ops X s payload of
        Err e \<Rightarrow> (s, Err e)
      | Panic \<Rightarrow> (s, Panic)
      | Ok (new_cumulative, answer) \<Rightarrow>
          (case answer of
             Inl receipt \<Rightarrow> (s, Ok receipt)
           | Inr now \<Rightarrow>
               (case op_update_channel ops s (vd_channel_id (sv_data (cp_voucher payload)))
                       (process_commit_update payload new_cumulative now) NoOutput of
                  (s', cell, r) \<Rightarrow>
                    (s', rbind (map_err store_err r) (\<lambda>_. commit_receipt_of payload cell)))))"

section \<open>Close and finalize\<close>

definition process_close_update ::
  "externs \<Rightarrow> signed_voucher option \<Rightarrow> u64 \<Rightarrow> cell updater" where
  "process_close_update X voucher_opt now cell state_opt =
     (cell,
      rbind (ok_or state_opt (Internal ''Channel not found'')) (\<lambda>state.
      if cs_finalized state then Err (Internal ''Channel is already finalized'')
      else if cs_close_requested_at state \<noteq> None then Err (Internal ''Close already requested'')
      else
        rbind
          (case voucher_opt of
             Some voucher \<Rightarrow>
               rbind (ok_or (parse_u64 (vd_cumulative (sv_data voucher)))
                        (Internal ''Invalid cumulative'')) (\<lambda>cumulative.
               if cumulative \<le> cs_cumulative state then
                 if cumulative = cs_cumulative state \<and>
                    cs_highest_voucher_signature state = Some (sv_signature voucher) then
                   Ok (cs_cumulative state, cs_highest_voucher_signature state,
                       case cs_highest_voucher_expires_at state of
                         Some t \<Rightarrow> Some t
                       | None \<Rightarrow> Some (vd_expires_at (sv_data voucher)))
                 else Err (Internal (''Final voucher cumulative '' @ show_u64 cumulative @
                                     '' must exceed watermark '' @
                                     show_u64 (cs_cumulative state)))
               else if cs_deposit state < cumulative then
                 Err (Internal ''Final voucher exceeds deposit'')
               else
                 rbind (map_err (\<lambda>e. Internal (error_display e))
                          (verify_signature X 1 voucher (cs_authorized_signer state))) (\<lambda>_.
                   Ok (cumulative, Some (sv_signature voucher),
                       Some (vd_expires_at (sv_data voucher)))))
           | None \<Rightarrow>
               Ok (cs_cumulative state, cs_highest_voucher_signature state,
                   cs_highest_voucher_expires_at state))
          (\<lambda>(new_cumulative, new_sig, new_expires_at).
            Ok (state\<lparr>cs_cumulative := new_cumulative,
                      cs_highest_voucher_signature := new_sig,
                      cs_highest_voucher_expires_at := new_expires_at,
                      cs_close_requested_at := Some now\<rparr>))))"

definition finalize_params ::
  "('s, cell) channel_store \<Rightarrow> externs \<Rightarrow> session_config \<Rightarrow> 's \<Rightarrow> string \<Rightarrow>
   (finalize_parameters, error) result" where
  "finalize_params ops X config s cid =
     rbind (read_channel ops s cid) (\<lambda>state.
     rbind (session_parse_pubkey X cid) (\<lambda>channel_pubkey.
     rbind (session_parse_pubkey X (sc_recipient config)) (\<lambda>recipient_pubkey.
     rbind (config_program_id X config) (\<lambda>program_id.
       Ok \<lparr>fp_channel_id = channel_pubkey,
           fp_authorized_signer = ok_value (session_parse_pubkey X (cs_authorized_signer state)),
           fp_payer = Option.bind (cs_operator state) (\<lambda>payer. ok_value (session_parse_pubkey X payer)),
           fp_mint = ok_value (expected_payment_channel_mint X config),
           fp_program_id = program_id,
           fp_settled = cs_cumulative state,
           fp_voucher_signature = cs_highest_voucher_signature state,
           fp_voucher_expires_at = cs_highest_voucher_expires_at state,
           fp_recipient = recipient_pubkey,
           fp_splits = sc_splits config,
           fp_distribution_hash = distribution_hash X (config_recipients config)\<rparr>))))"

definition process_close ::
  "('s, cell) channel_store \<Rightarrow> externs \<Rightarrow> session_config \<Rightarrow> 's \<Rightarrow> close_payload \<Rightarrow>
   's \<times> (finalize_parameters, error) result" where
  "process_close ops X config s payload =
     (case op_update_channel ops s (cl_channel_id payload)
             (process_close_update X (cl_voucher payload) (clock X 0)) NoOutput of
        (s', _, r) \<Rightarrow>
          (s', rbind (map_err store_err r) (\<lambda>_.
               finalize_params ops X config s' (cl_channel_id payload))))"

definition mark_finalized ::
  "('s, cell) channel_store \<Rightarrow> 's \<Rightarrow> string \<Rightarrow> 's \<times> (unit, error) result" where
  "mark_finalized ops s cid =
     (case op_mark_finalized ops s cid of (s', r) \<Rightarrow> (s', map_err store_err r))"

end
