(* ===== verification/Session_Steps.thy ===== *)
theory Session_Steps
  imports Session_Server "HOL-Library.Sublist"
begin

text \<open>
  What one atomic step of the session server does to one channel.  For every closure of
  \<^verbatim>\<open>rust/src/server/session.rs\<close>: an inversion lemma (when it succeeds, and with what), and then the
  facts the runs of the server rest on: \<open>progress\<close> (the watermark and the deposit only grow, a
  closed channel is frozen), \<open>backed\<close> (the watermark is covered by a valid signature), \<open>ledger\<close>
  (delivery ids are unique and the committed amounts are covered by the watermark) and the
  conservation of reservations.
\<close>

named_theorems step_inversion \<open>when an updater closure succeeds, and its result\<close>
named_theorems progress_intros \<open>closures of the server make progress\<close>

section \<open>Inversion of the closures\<close>

lemma verify_voucher_update_Ok [step_inversion]:
  "verify_voucher_update n sig e x so = (y, Ok st') \<longleftrightarrow>
     y = x \<and>
     (\<exists>st. so = Some st \<and> \<not> cs_finalized st \<and> cs_close_requested_at st = None \<and>
       (n = cs_cumulative st \<and> cs_highest_voucher_signature st = Some sig \<and> st' = st \<or>
        cs_cumulative st < n \<and>
        st' = st\<lparr>cs_cumulative := n, cs_highest_voucher_signature := Some sig,
                cs_highest_voucher_expires_at := Some e\<rparr>))"
  by (auto simp: verify_voucher_update_def split: option.splits if_splits)

lemma process_topup_update_Ok [step_inversion]:
  "process_topup_update cid d cap x so = (y, Ok st') \<longleftrightarrow>
     y = x \<and>
     (\<exists>st. so = Some st \<and> cs_deposit st < d \<and> d \<le> cap \<and> st' = st\<lparr>cs_deposit := d\<rparr>)"
  by (auto simp: process_topup_update_def split: option.splits if_splits)

definition reservation_id :: "delivery_request \<Rightarrow> u64 \<Rightarrow> string" where
  "reservation_id request sequence =
     (case dr_delivery_id request of
        Some i \<Rightarrow> i
      | None \<Rightarrow> dr_session_id request @ '':'' @ show_u64 sequence)"

definition reservation_expiry :: "delivery_request \<Rightarrow> i64" where
  "reservation_expiry request =
     (case dr_expires_at request of Some t \<Rightarrow> t | None \<Rightarrow> DEFAULT_SESSION_EXPIRES_AT)"

lemma begin_delivery_update_Ok:
  assumes "begin_delivery_update b config request x so = (y, Ok st')"
  obtains st pending_total committed total sequence where
    "so = Some st" and "\<not> cs_finalized st" and "cs_close_requested_at st = None"
    and "sum_u64 b 0 (map pd_amount (cs_pending_deliveries st)) =
      (Ok pending_total :: (u64, store_error) result)"
    and "add_u64 b (cs_cumulative st) pending_total = (Ok committed :: (u64, store_error) result)"
    and "add_u64 b committed (dr_amount request) = (Ok total :: (u64, store_error) result)"
    and "total \<le> cs_deposit st"
    and "add_u64 b (cs_next_delivery_sequence st) 1 = (Ok sequence :: (u64, store_error) result)"
    and "reservation_id request sequence \<notin> pd_delivery_id ` set (cs_pending_deliveries st)"
    and "reservation_id request sequence \<notin> cd_delivery_id ` set (cs_committed_deliveries st)"
    and "st' = st\<lparr>cs_next_delivery_sequence := sequence,
        cs_pending_deliveries := cs_pending_deliveries st @
          [\<lparr>pd_delivery_id = reservation_id request sequence, pd_amount = dr_amount request,
            pd_sequence = sequence, pd_expires_at = reservation_expiry request\<rparr>]\<rparr>"
    and "y = DirectiveOut
        \<lparr>mdv_delivery_id = reservation_id request sequence,
         mdv_session_id = dr_session_id request, mdv_amount = show_u64 (dr_amount request),
         mdv_currency = sc_currency config, mdv_sequence = sequence,
         mdv_expires_at = reservation_expiry request, mdv_commit_url = dr_commit_url request,
         mdv_proof = dr_proof request\<rparr>"
proof (cases so)
  case None
  with assms show ?thesis by (simp add: begin_delivery_update_def Let_def)
next
  case (Some st)
  with assms show ?thesis
    apply (simp add: begin_delivery_update_def Let_def not_less
        flip: reservation_id_def reservation_expiry_def
        split: result.splits if_splits prod.splits)
    apply (rule that)
    apply auto
    done
qed

lemma process_commit_update_Ok:
  assumes "process_commit_update payload n now x so = (y, Ok st')"
  obtains
    (replay) st committed where "so = Some st" and "\<not> cs_finalized st"
      and "cs_close_requested_at st = None" and "st' = st"
      and "find (\<lambda>d. cd_delivery_id d = cp_delivery_id payload) (cs_committed_deliveries st) =
        Some committed"
      and "cd_cumulative committed = n"
      and "cd_voucher_signature committed = sv_signature (cp_voucher payload)"
      and "y = CommitOutcome (cd_amount committed) n Replayed"
  | (fresh) st pending where "so = Some st" and "\<not> cs_finalized st"
      and "cs_close_requested_at st = None"
      and "find (\<lambda>d. cd_delivery_id d = cp_delivery_id payload) (cs_committed_deliveries st) = None"
      and "find (\<lambda>d. pd_delivery_id d = cp_delivery_id payload) (cs_pending_deliveries st) =
        Some pending"
      and "\<not> pd_expires_at pending \<le>s now"
      and "cs_cumulative st < n" and "n - cs_cumulative st \<le> pd_amount pending"
      and "y = CommitOutcome (n - cs_cumulative st) n Committed"
      and "st' = st\<lparr>cs_pending_deliveries :=
                    remove_delivery (cp_delivery_id payload) (cs_pending_deliveries st),
                  cs_cumulative := n,
                  cs_highest_voucher_signature := Some (sv_signature (cp_voucher payload)),
                  cs_highest_voucher_expires_at :=
                    Some (vd_expires_at (sv_data (cp_voucher payload))),
                  cs_committed_deliveries := cs_committed_deliveries st @
                    [\<lparr>cd_delivery_id = cp_delivery_id payload,
                      cd_amount = n - cs_cumulative st, cd_cumulative = n,
                      cd_voucher_signature = sv_signature (cp_voucher payload)\<rparr>]\<rparr>"
proof (cases so)
  case None
  with assms show ?thesis by (simp add: process_commit_update_def Let_def)
next
  case (Some st)
  with assms replay fresh show ?thesis
    by (auto simp: process_commit_update_def Let_def ok_or_def not_less not_le
        split: result.splits if_splits prod.splits option.splits)
qed

lemma process_close_update_Ok:
  assumes "process_close_update X voucher_opt now x so = (y, Ok st')"
  obtains st where "so = Some st" and "\<not> cs_finalized st" and "cs_close_requested_at st = None"
    and "y = x"
    and "(voucher_opt = None \<and> st' = st\<lparr>cs_close_requested_at := Some now\<rparr>) \<or>
      (\<exists>voucher. voucher_opt = Some voucher \<and>
         parse_u64 (vd_cumulative (sv_data voucher)) = Some (cs_cumulative st) \<and>
         cs_highest_voucher_signature st = Some (sv_signature voucher) \<and>
         st' = st\<lparr>cs_highest_voucher_expires_at :=
                   (case cs_highest_voucher_expires_at st of
                      Some t \<Rightarrow> Some t | None \<Rightarrow> Some (vd_expires_at (sv_data voucher))),
                 cs_close_requested_at := Some now\<rparr>) \<or>
      (\<exists>voucher n. voucher_opt = Some voucher \<and>
         parse_u64 (vd_cumulative (sv_data voucher)) = Some n \<and>
         cs_cumulative st < n \<and> n \<le> cs_deposit st \<and>
         verify_signature X 1 voucher (cs_authorized_signer st) = Ok () \<and>
         st' = st\<lparr>cs_cumulative := n,
                 cs_highest_voucher_signature := Some (sv_signature voucher),
                 cs_highest_voucher_expires_at := Some (vd_expires_at (sv_data voucher)),
                 cs_close_requested_at := Some now\<rparr>)"
proof (cases so)
  case None
  with assms show ?thesis by (simp add: process_close_update_def)
next
  case (Some st)
  with assms show ?thesis
    by (auto simp: process_close_update_def not_less not_le
        intro!: that
        split: if_splits prod.splits option.splits)
qed

section \<open>Progress\<close>

definition closed :: "channel_state \<Rightarrow> bool" where
  "closed c = (cs_finalized c \<or> cs_close_requested_at c \<noteq> None)"

text \<open>What no operation but another open may undo.\<close>

definition progress :: "channel_state \<Rightarrow> channel_state \<Rightarrow> bool" where
  "progress c d =
     (cs_channel_id d = cs_channel_id c \<and>
      cs_authorized_signer d = cs_authorized_signer c \<and>
      cs_operator d = cs_operator c \<and>
      cs_cumulative c \<le> cs_cumulative d \<and>
      cs_deposit c \<le> cs_deposit d \<and>
      prefix (cs_committed_deliveries c) (cs_committed_deliveries d) \<and>
      (cs_finalized c \<longrightarrow> cs_finalized d) \<and>
      (cs_close_requested_at c \<noteq> None \<longrightarrow> cs_close_requested_at d = cs_close_requested_at c) \<and>
      (closed c \<longrightarrow>
        cs_cumulative d = cs_cumulative c \<and>
        cs_highest_voucher_signature d = cs_highest_voucher_signature c \<and>
        cs_highest_voucher_expires_at d = cs_highest_voucher_expires_at c \<and>
        cs_pending_deliveries d = cs_pending_deliveries c \<and>
        cs_committed_deliveries d = cs_committed_deliveries c))"

lemma progress_refl [simp, progress_intros]: "progress c c"
  by (simp add: progress_def)

lemma progress_trans: "progress c d \<Longrightarrow> progress d e \<Longrightarrow> progress c e"
  unfolding progress_def closed_def
  by (elim conjE, intro conjI) (auto intro: prefix_order.trans order_trans)

lemma closed_open_iff: "\<not> closed c \<longleftrightarrow> \<not> cs_finalized c \<and> cs_close_requested_at c = None"
  by (auto simp: closed_def)

lemma verify_voucher_progress [progress_intros]:
  "verify_voucher_update n sig e x (Some c) = (y, Ok d) \<Longrightarrow> progress c d"
  by (auto simp: verify_voucher_update_Ok progress_def closed_def)

lemma process_topup_progress [progress_intros]:
  "process_topup_update cid dep cap x (Some c) = (y, Ok d) \<Longrightarrow> progress c d"
  by (auto simp: process_topup_update_Ok progress_def closed_def)

lemma begin_delivery_progress [progress_intros]:
  assumes "begin_delivery_update b config request x (Some c) = (y, Ok d)"
  shows "progress c d"
  using assms by (rule begin_delivery_update_Ok) (auto simp: progress_def closed_def)

lemma process_commit_progress [progress_intros]:
  assumes "process_commit_update payload n now x (Some c) = (y, Ok d)"
  shows "progress c d"
  using assms by (cases rule: process_commit_update_Ok) (auto simp: progress_def closed_def)

lemma process_close_progress [progress_intros]:
  assumes "process_close_update X voucher_opt now x (Some c) = (y, Ok d)"
  shows "progress c d"
  using assms by (rule process_close_update_Ok) (auto simp: progress_def closed_def)

lemma finalize_progress [progress_intros]: "progress c (c\<lparr>cs_finalized := True\<rparr>)"
  by (simp add: progress_def closed_def)

section \<open>Signatures behind the watermark\<close>

text \<open>\<^verbatim>\<open>verify_signature\<close> without its clock: what anyone can check later.\<close>

definition signature_valid :: "externs \<Rightarrow> signed_voucher \<Rightarrow> string \<Rightarrow> bool" where
  "signature_valid X voucher signer =
     (\<exists>message sig key.
        message_bytes X (sv_data voucher) = Ok message \<and>
        bs58_decode X (sv_signature voucher) = Ok sig \<and> length sig = 64 \<and>
        bs58_decode X signer = Ok key \<and> length key = 32 \<and>
        is_ok (ed25519_key_from_bytes X key) \<and> ed25519_verify_strict X key message sig)"

lemma verify_signature_Ok:
  "verify_signature X n voucher signer = Ok u \<longleftrightarrow>
     \<not> vd_expires_at (sv_data voucher) \<le>s clock X n \<and> signature_valid X voucher signer"
  by (auto simp: verify_signature_def signature_valid_def Let_def is_ok_iff)

text \<open>
  The highest voucher of a channel: it names the watermark, its signature and expiry are the
  stored ones, and the authorised signer signed it.  The conclusion that it names this very channel
  is for channels no close has been requested on: \<^verbatim>\<open>process_close\<close> does not compare the two ids.
\<close>

definition covers :: "externs \<Rightarrow> string \<Rightarrow> channel_state \<Rightarrow> signed_voucher \<Rightarrow> bool" where
  "covers X cid c voucher =
     (parse_u64 (vd_cumulative (sv_data voucher)) = Some (cs_cumulative c) \<and>
      cs_highest_voucher_signature c = Some (sv_signature voucher) \<and>
      cs_highest_voucher_expires_at c = Some (vd_expires_at (sv_data voucher)) \<and>
      signature_valid X voucher (cs_authorized_signer c) \<and>
      (cs_close_requested_at c = None \<longrightarrow> vd_channel_id (sv_data voucher) = cid))"

definition backed :: "externs \<Rightarrow> string \<Rightarrow> channel_state \<Rightarrow> bool" where
  "backed X cid c =
     (cs_cumulative c = 0 \<and> cs_highest_voucher_signature c = None \<and>
        cs_highest_voucher_expires_at c = None \<or>
      (\<exists>voucher. covers X cid c voucher))"

lemma verify_voucher_backed:
  assumes "verify_voucher_update n (sv_signature v) (vd_expires_at (sv_data v)) x (Some c) = (y, Ok d)"
    and "backed X cid c"
    and "parse_u64 (vd_cumulative (sv_data v)) = Some n"
    and "signature_valid X v (cs_authorized_signer c)" and "vd_channel_id (sv_data v) = cid"
  shows "backed X cid d"
  using assms by (auto simp: verify_voucher_update_Ok backed_def covers_def)

lemma process_topup_backed:
  "process_topup_update k dep cap x (Some c) = (y, Ok d) \<Longrightarrow> backed X cid c \<Longrightarrow> backed X cid d"
  by (auto simp: process_topup_update_Ok backed_def covers_def)

lemma begin_delivery_backed:
  assumes "begin_delivery_update b config request x (Some c) = (y, Ok d)" and "backed X cid c"
  shows "backed X cid d"
  using assms(1) by (rule begin_delivery_update_Ok) (use assms(2) in \<open>auto simp: backed_def covers_def\<close>)

lemma process_commit_backed:
  assumes "process_commit_update payload n now x (Some c) = (y, Ok d)" and "backed X cid c"
    and "parse_u64 (vd_cumulative (sv_data (cp_voucher payload))) = Some n"
    and "signature_valid X (cp_voucher payload) (cs_authorized_signer c)"
    and "vd_channel_id (sv_data (cp_voucher payload)) = cid"
  shows "backed X cid d"
  using assms(1)
  by (cases rule: process_commit_update_Ok) (use assms(2-) in \<open>auto simp: backed_def covers_def\<close>)

lemma process_close_backed:
  assumes "process_close_update X voucher_opt now x (Some c) = (y, Ok d)" and "backed X cid c"
  shows "backed X cid d"
  using assms(1)
  by (rule process_close_update_Ok)
    (use assms(2) in \<open>auto simp: backed_def covers_def verify_signature_Ok\<close>)

lemma finalize_backed: "backed X cid c \<Longrightarrow> backed X cid (c\<lparr>cs_finalized := True\<rparr>)"
  by (simp add: backed_def covers_def)

section \<open>Reservations and the ledger of deliveries\<close>

definition reserved :: "channel_state \<Rightarrow> nat" where
  "reserved c = sum_list (map (unat \<circ> pd_amount) (cs_pending_deliveries c))"

definition billed :: "channel_state \<Rightarrow> nat" where
  "billed c = sum_list (map (unat \<circ> cd_amount) (cs_committed_deliveries c))"

definition delivery_ids :: "channel_state \<Rightarrow> string list" where
  "delivery_ids c =
     map pd_delivery_id (cs_pending_deliveries c) @ map cd_delivery_id (cs_committed_deliveries c)"

text \<open>
  Every delivery id is used once, what was billed is covered by the watermark, every billed
  delivery carries a cumulative up to the watermark.
\<close>

definition ledger :: "channel_state \<Rightarrow> bool" where
  "ledger c =
     (distinct (delivery_ids c) \<and> billed c \<le> unat (cs_cumulative c) \<and>
      (\<forall>d \<in> set (cs_committed_deliveries c). cd_cumulative d \<le> cs_cumulative c))"

lemma find_eq_SomeD: "find P xs = Some x \<Longrightarrow> x \<in> set xs \<and> P x"
  by (induction xs) (auto split: if_splits)

lemma find_eq_NoneD: "find P xs = None \<Longrightarrow> x \<in> set xs \<Longrightarrow> \<not> P x"
  by (induction xs) (auto split: if_splits)

lemma set_remove_delivery: "set (remove_delivery did ds) \<subseteq> set ds"
  by (induction ds) auto

lemma remove_delivery_sum:
  "find (\<lambda>d. pd_delivery_id d = did) ds = Some pending \<Longrightarrow>
   sum_list (map (unat \<circ> pd_amount) (remove_delivery did ds)) + unat (pd_amount pending) =
   sum_list (map (unat \<circ> pd_amount) ds)"
  by (induction ds) (auto split: if_splits)

lemma remove_delivery_distinct:
  assumes "distinct (map pd_delivery_id ds)"
  shows "distinct (map pd_delivery_id (remove_delivery did ds))"
    and "did \<notin> pd_delivery_id ` set (remove_delivery did ds)"
  using assms
  by (induction ds) (auto dest: subsetD [OF set_remove_delivery])

text \<open>
  A commit takes at most what was reserved for it: watermark and reservations together do not
  grow.
\<close>

lemma process_commit_conserves:
  assumes "process_commit_update payload n now x (Some c) = (y, Ok d)"
  shows "unat (cs_cumulative d) + reserved d \<le> unat (cs_cumulative c) + reserved c"
  using assms
proof (cases rule: process_commit_update_Ok)
  case (replay st committed)
  then show ?thesis by simp
next
  case (fresh st pending)
  have "unat (n - cs_cumulative c) = unat n - unat (cs_cumulative c)"
    using fresh by (simp add: unat_sub_small)
  then have "unat n \<le> unat (cs_cumulative c) + unat (pd_amount pending)"
    using fresh by (simp add: word_le_nat_alt)
  moreover have "reserved d + unat (pd_amount pending) = reserved c"
    using fresh remove_delivery_sum [of "cp_delivery_id payload" "cs_pending_deliveries c" pending]
    by (simp add: reserved_def)
  ultimately show ?thesis using fresh by simp
qed

lemma ledger_watermark:
  assumes "ledger c" and "cs_cumulative c \<le> n"
    and "delivery_ids d = delivery_ids c" and "cs_cumulative d = n"
    and "cs_committed_deliveries d = cs_committed_deliveries c"
  shows "ledger d"
  using assms
  by (auto simp: ledger_def billed_def intro: order_trans dest: word_le_nat_alt [THEN iffD1])

lemma verify_voucher_ledger:
  assumes "verify_voucher_update n sig e x (Some c) = (y, Ok d)" and "ledger c"
  shows "ledger d"
  using assms(1) ledger_watermark [OF assms(2), of "cs_cumulative d" d]
  by (auto simp: verify_voucher_update_Ok delivery_ids_def assms(2))

lemma process_topup_ledger:
  "process_topup_update cid dep cap x (Some c) = (y, Ok d) \<Longrightarrow> ledger c \<Longrightarrow> ledger d"
  by (auto simp: process_topup_update_Ok ledger_def billed_def delivery_ids_def)

lemma process_close_ledger:
  assumes "process_close_update X voucher_opt now x (Some c) = (y, Ok d)" and "ledger c"
  shows "ledger d"
  using assms(1)
  by (rule process_close_update_Ok)
    (rule ledger_watermark [OF assms(2), of "cs_cumulative d"]; auto simp: delivery_ids_def)

lemma finalize_ledger: "ledger c \<Longrightarrow> ledger (c\<lparr>cs_finalized := True\<rparr>)"
  by (simp add: ledger_def billed_def delivery_ids_def)

lemma begin_delivery_ledger:
  assumes "begin_delivery_update b config request x (Some c) = (y, Ok d)" and "ledger c"
  shows "ledger d"
  using assms(1)
  by (rule begin_delivery_update_Ok)
    (use assms(2) in \<open>auto simp: ledger_def billed_def delivery_ids_def\<close>)

lemma process_commit_ledger:
  assumes "process_commit_update payload n now x (Some c) = (y, Ok d)" and "ledger c"
  shows "ledger d"
  using assms(1)
proof (cases rule: process_commit_update_Ok)
  case (replay st committed)
  with assms(2) show ?thesis by simp
next
  case (fresh st pending)
  let ?did = "cp_delivery_id payload"
  let ?rest = "remove_delivery ?did (cs_pending_deliveries c)"
  have fresh_id: "?did \<notin> cd_delivery_id ` set (cs_committed_deliveries c)"
    using find_eq_NoneD [OF fresh(4)] fresh(1) by force
  have ids: "distinct (map pd_delivery_id ?rest)" "?did \<notin> pd_delivery_id ` set ?rest"
    using assms(2) remove_delivery_distinct [of "cs_pending_deliveries c" ?did]
    by (simp_all add: ledger_def delivery_ids_def)
  have "distinct (delivery_ids d)"
    using fresh fresh_id ids assms(2) subsetD [OF set_remove_delivery]
    by (fastforce simp: delivery_ids_def ledger_def)
  moreover have "billed d \<le> unat (cs_cumulative d)"
  proof -
    have le: "cs_cumulative c \<le> n" using fresh by simp
    then have "unat (n - cs_cumulative c) = unat n - unat (cs_cumulative c)"
      by (rule unat_sub_small)
    moreover have "unat (cs_cumulative c) \<le> unat n" using le by (simp add: word_le_nat_alt)
    moreover have "billed c \<le> unat (cs_cumulative c)" using assms(2) by (simp add: ledger_def)
    moreover have "billed d = billed c + unat (n - cs_cumulative c)" "cs_cumulative d = n"
      using fresh by (simp_all add: billed_def)
    ultimately show ?thesis by simp
  qed
  moreover have "cd_cumulative e \<le> cs_cumulative d" if "e \<in> set (cs_committed_deliveries d)" for e
    using that fresh assms(2) by (fastforce simp: ledger_def)
  ultimately show ?thesis by (simp add: ledger_def)
qed

text \<open>
  When the sums of a reservation do not overflow (always, in a build with overflow checks), what
  is spent, reserved before and reserved now fits the deposit.
\<close>

definition sums_fit :: "build \<Rightarrow> channel_state \<Rightarrow> u64 \<Rightarrow> bool" where
  "sums_fit b c amount =
     (b = Debug_Build \<or> unat (cs_cumulative c) + reserved c + unat amount < 2 ^ 64)"

lemma begin_delivery_total:
  assumes "begin_delivery_update b config request x (Some c) = (y, Ok d)"
    and fit: "sums_fit b c (dr_amount request)"
  shows "unat (cs_cumulative d) + reserved d \<le> unat (cs_deposit d)"
  using assms(1)
proof (cases rule: begin_delivery_update_Ok)
  case (1 st pending_total committed total sequence)
  then have [simp]: "st = c" by simp
  note sums = 1(4,5,6)
  have "unat total = unat (cs_cumulative c) + reserved c + unat (dr_amount request)"
  proof (cases "b = Debug_Build")
    case True
    with sums show ?thesis
      by (auto simp: reserved_def dest!: sum_u64_Debug add_u64_Debug)
  next
    case False
    with fit have small:
      "unat (cs_cumulative c) + reserved c + unat (dr_amount request) < 2 ^ 64"
      by (simp add: sums_fit_def)
    then have p: "unat pending_total = reserved c"
      using sum_u64_value [OF sums(1)] by (simp add: reserved_def)
    then have "unat committed = unat (cs_cumulative c) + reserved c"
      using add_u64_value [OF sums(2)] small by simp
    then show ?thesis using add_u64_value [OF sums(3)] small by simp
  qed
  moreover have "reserved d = reserved c + unat (dr_amount request)"
    "cs_cumulative d = cs_cumulative c" "cs_deposit d = cs_deposit c"
    using 1 by (simp_all add: reserved_def)
  moreover have "unat total \<le> unat (cs_deposit c)" using 1 by (simp add: word_le_nat_alt)
  ultimately show ?thesis by simp
qed

end
