(* ===== verification/Session_Runs.thy ===== *)
theory Session_Runs
  imports Session_Steps
begin

text \<open>
  Concurrent runs of the session server.  \<^verbatim>\<open>verify_voucher\<close> and \<^verbatim>\<open>process_commit\<close> read the channel,
  check the request and only then run their closure in \<^verbatim>\<open>update_channel\<close>, so other requests come in
  between: a request whose checks have passed is in flight until its closure runs.  The other
  methods are one atomic access to the store.
\<close>

section \<open>The machine\<close>

datatype flight = VoucherFlight signed_voucher u64 | CommitFlight commit_payload u64 i64

fun flight_voucher :: "flight \<Rightarrow> signed_voucher" where
  "flight_voucher (VoucherFlight v n) = v"
| "flight_voucher (CommitFlight p n now) = cp_voucher p"

fun flight_amount :: "flight \<Rightarrow> u64" where
  "flight_amount (VoucherFlight v n) = n"
| "flight_amount (CommitFlight p n now) = n"

fun flight_updater :: "flight \<Rightarrow> cell updater" where
  "flight_updater (VoucherFlight v n) =
     verify_voucher_update n (sv_signature v) (vd_expires_at (sv_data v))"
| "flight_updater (CommitFlight p n now) = process_commit_update p n now"

definition flight_channel :: "flight \<Rightarrow> string" where
  "flight_channel f = vd_channel_id (sv_data (flight_voucher f))"

record 's server_system =
  sys_store :: 's
  sys_flights :: "flight list"

text \<open>Events carry the readings of the clock that the method takes, in order.\<close>

datatype session_event =
    EvOpen open_payload
  | EvVoucherRead u64 voucher_payload
  | EvCommitRead u64 u64 commit_payload
  | EvWrite nat
  | EvTopUp top_up_payload
  | EvBegin delivery_request
  | EvClose u64 u64 close_payload
  | EvFinalize string

definition at_clock :: "externs \<Rightarrow> u64 \<Rightarrow> u64 \<Rightarrow> externs" where
  "at_clock X t0 t1 = X\<lparr>clock := (\<lambda>n. if n = 0 then t0 else t1)\<rparr>"

definition remove_nth :: "nat \<Rightarrow> 'a list \<Rightarrow> 'a list" where
  "remove_nth i xs = take i xs @ drop (Suc i) xs"

fun session_step ::
  "build \<Rightarrow> ('s, cell) channel_store \<Rightarrow> externs \<Rightarrow> session_config \<Rightarrow> session_event \<Rightarrow>
   's server_system \<Rightarrow> 's server_system" where
  "session_step b ops X cfg (EvOpen p) sys =
     sys\<lparr>sys_store := fst (process_open ops X cfg (sys_store sys) p)\<rparr>"
| "session_step b ops X cfg (EvVoucherRead t p) sys =
     (case verify_voucher_read ops (at_clock X t t) cfg (sys_store sys) (vp_voucher p) of
        Ok (n, None) \<Rightarrow> sys\<lparr>sys_flights := sys_flights sys @ [VoucherFlight (vp_voucher p) n]\<rparr>
      | _ \<Rightarrow> sys)"
| "session_step b ops X cfg (EvCommitRead t0 t1 p) sys =
     (case process_commit_read ops (at_clock X t0 t1) (sys_store sys) p of
        Ok (n, Inr now) \<Rightarrow> sys\<lparr>sys_flights := sys_flights sys @ [CommitFlight p n now]\<rparr>
      | _ \<Rightarrow> sys)"
| "session_step b ops X cfg (EvWrite i) sys =
     (if i < length (sys_flights sys) then
        let f = sys_flights sys ! i in
        sys\<lparr>sys_store :=
              fst (op_update_channel ops (sys_store sys) (flight_channel f) (flight_updater f) NoOutput),
            sys_flights := remove_nth i (sys_flights sys)\<rparr>
      else sys)"
| "session_step b ops X cfg (EvTopUp p) sys =
     sys\<lparr>sys_store := fst (process_topup ops cfg (sys_store sys) p)\<rparr>"
| "session_step b ops X cfg (EvBegin r) sys =
     sys\<lparr>sys_store := fst (begin_delivery b ops cfg (sys_store sys) r)\<rparr>"
| "session_step b ops X cfg (EvClose t0 t1 p) sys =
     sys\<lparr>sys_store := fst (process_close ops (at_clock X t0 t1) cfg (sys_store sys) p)\<rparr>"
| "session_step b ops X cfg (EvFinalize cid) sys =
     sys\<lparr>sys_store := fst (mark_finalized ops (sys_store sys) cid)\<rparr>"

text \<open>
  \<^verbatim>\<open>process_open\<close> overwrites whatever is stored under the session id.  Its callers must not let an
  open through for an id that is already known; that is what \<open>fresh_open\<close> says of an event.
\<close>

definition fresh_open :: "('s \<Rightarrow> string \<rightharpoonup> channel_state) \<Rightarrow> session_event \<Rightarrow> 's server_system \<Rightarrow> bool" where
  "fresh_open view e sys =
     (case e of
        EvOpen p \<Rightarrow>
          (case session_id p of Ok sid \<Rightarrow> view (sys_store sys) sid = None | _ \<Rightarrow> True)
      | _ \<Rightarrow> True)"

section \<open>Facts about the reads\<close>

lemma signature_valid_at_clock [simp]: "signature_valid (at_clock X t0 t1) v s = signature_valid X v s"
  by (simp add: signature_valid_def at_clock_def message_bytes_def parse_pubkey_def)

lemma backed_at_clock [simp]: "backed (at_clock X t0 t1) cid c = backed X cid c"
  by (simp add: backed_def covers_def)

lemma verify_voucher_checks_pass:
  assumes "verify_voucher_checks X cfg v n c = Ok None"
  shows "\<not> closed c" and "cs_cumulative c < n" and "n \<le> cs_deposit c"
    and "0 < sc_min_voucher_delta cfg \<Longrightarrow> sc_min_voucher_delta cfg \<le> n - cs_cumulative c"
    and "signature_valid X v (cs_authorized_signer c)"
  using assms
  by (auto simp: verify_voucher_checks_def Let_def closed_def verify_signature_Ok not_le not_less
      split: if_splits)

lemma process_commit_checks_pass:
  assumes "process_commit_checks X p n c = Ok (Inr now)"
  shows "cs_cumulative c < n"
    and "signature_valid X (cp_voucher p) (cs_authorized_signer c)"
    and "cp_delivery_id p \<in> pd_delivery_id ` set (cs_pending_deliveries c)"
  using assms
  by (auto simp: process_commit_checks_def Let_def verify_signature_Ok not_le
      split: if_splits option.splits dest!: find_eq_SomeD
      intro: rev_image_eqI [OF _ sym])

lemma process_open_checks_Ok:
  assumes "process_open_checks X cfg p = Ok c"
  shows "session_id p = Ok (cs_channel_id c)" and "deposit_amount p = Ok (cs_deposit c)"
    and "0 < cs_deposit c" and "cs_deposit c \<le> sc_max_cap cfg"
    and "cs_authorized_signer c = op_authorized_signer p"
    and "cs_cumulative c = 0" and "cs_pending_deliveries c = []" and "cs_committed_deliveries c = []"
    and "\<not> closed c"
    and "cs_highest_voucher_signature c = None" and "cs_highest_voucher_expires_at c = None"
    and "cs_next_delivery_sequence c = 0"
    and "op_mode p = Push \<Longrightarrow> sc_rpc_url cfg = Some url \<Longrightarrow>
      verify_open_signature X (op_signature p) url = Ok ()"
    and "supports_mode cfg (op_mode p)"
  using assms
  by (auto simp: process_open_checks_def closed_def not_less word_neq_0_conv
      split: if_splits option.splits)

section \<open>The abstract channel\<close>

text \<open>
  What an event may do to one channel, with the store abstracted away: the specification the
  server's methods are checked against.  \<open>old\<close> and \<open>new\<close> are the channel before and after.
\<close>

inductive channel_change ::
  "build \<Rightarrow> externs \<Rightarrow> session_config \<Rightarrow> flight list \<Rightarrow> session_event \<Rightarrow> string \<Rightarrow>
   channel_state option \<Rightarrow> channel_state \<Rightarrow> bool"
  for b :: build and X :: externs and cfg :: session_config and fs :: "flight list" where
  change_open:
    "process_open_checks X cfg p = Ok c \<Longrightarrow>
     channel_change b X cfg fs (EvOpen p) (cs_channel_id c) None c"
| change_write:
    "i < length fs \<Longrightarrow> flight_updater (fs ! i) NoOutput (Some c) = (y, Ok d) \<Longrightarrow>
     channel_change b X cfg fs (EvWrite i) (flight_channel (fs ! i)) (Some c) d"
| change_topup:
    "process_topup_update (tu_channel_id p) n (sc_max_cap cfg) NoOutput (Some c) = (y, Ok d) \<Longrightarrow>
     parse_u64 (tu_new_deposit p) = Some n \<Longrightarrow>
     channel_change b X cfg fs (EvTopUp p) (tu_channel_id p) (Some c) d"
| change_begin:
    "begin_delivery_update b cfg r NoOutput (Some c) = (y, Ok d) \<Longrightarrow> dr_amount r \<noteq> 0 \<Longrightarrow>
     channel_change b X cfg fs (EvBegin r) (dr_session_id r) (Some c) d"
| change_close:
    "process_close_update (at_clock X t0 t1) (cl_voucher p) t0 NoOutput (Some c) = (y, Ok d) \<Longrightarrow>
     channel_change b X cfg fs (EvClose t0 t1 p) (cl_channel_id p) (Some c) d"
| change_finalize:
    "channel_change b X cfg fs (EvFinalize cid) cid (Some c) (c\<lparr>cs_finalized := True\<rparr>)"

inductive_cases channel_change_SomeE: "channel_change b X cfg fs e cid (Some c) d"
inductive_cases channel_change_NoneE: "channel_change b X cfg fs e cid None d"

text \<open>No closure creates a channel.\<close>

lemma updater_None [simp]:
  "verify_voucher_update n sig e x None \<noteq> (y, Ok d)"
  "process_commit_update p n now x None \<noteq> (y, Ok d)"
  "process_topup_update cid n cap x None \<noteq> (y, Ok d)"
  "begin_delivery_update b cfg r x None \<noteq> (y, Ok d)"
  "process_close_update X vo now x None \<noteq> (y, Ok d)"
  by (auto simp: verify_voucher_update_def process_commit_update_def process_topup_update_def
      begin_delivery_update_def process_close_update_def Let_def)

lemma flight_updater_None [simp]: "flight_updater f x None \<noteq> (y, Ok d)"
  by (cases f) simp_all

lemma flight_progress: "flight_updater f x (Some c) = (y, Ok d) \<Longrightarrow> progress c d"
  by (cases f) (auto intro: progress_intros)

lemma change_progress: "channel_change b X cfg fs e cid (Some c) d \<Longrightarrow> progress c d"
  by (erule channel_change_SomeE) (auto intro: progress_intros flight_progress)

text \<open>What a flight in the air has passed.\<close>

definition flight_ok :: "externs \<Rightarrow> flight \<Rightarrow> channel_state \<Rightarrow> bool" where
  "flight_ok X f c =
     (parse_u64 (vd_cumulative (sv_data (flight_voucher f))) = Some (flight_amount f) \<and>
      signature_valid X (flight_voucher f) (cs_authorized_signer c))"

lemma flight_ok_progress: "flight_ok X f c \<Longrightarrow> progress c d \<Longrightarrow> flight_ok X f d"
  by (simp add: flight_ok_def progress_def)

lemma flight_backed:
  assumes "flight_updater f x (Some c) = (y, Ok d)" and "backed X (flight_channel f) c"
    and "flight_ok X f c"
  shows "backed X (flight_channel f) d"
  using assms
  by (cases f) (auto simp: flight_ok_def flight_channel_def
      intro: verify_voucher_backed process_commit_backed)

lemma flight_ledger: "flight_updater f x (Some c) = (y, Ok d) \<Longrightarrow> ledger c \<Longrightarrow> ledger d"
  by (cases f) (auto intro: verify_voucher_ledger process_commit_ledger)

lemma change_sound:
  assumes "channel_change b X cfg fs e cid old d"
    and "\<forall>c. old = Some c \<longrightarrow> backed X cid c \<and> ledger c"
    and "\<forall>f \<in> set fs. flight_channel f = cid \<longrightarrow> (\<exists>c. old = Some c \<and> flight_ok X f c)"
  shows "backed X cid d \<and> ledger d"
  using assms
proof (induction rule: channel_change.induct)
  case (change_open p c)
  then show ?case
    by (auto simp: backed_def ledger_def delivery_ids_def billed_def
        dest: process_open_checks_Ok(6,7,8,10,11))
next
  case (change_write i c y d)
  then have "flight_ok X (fs ! i) c" using nth_mem [of i fs] by auto
  with change_write show ?case by (auto intro: flight_backed flight_ledger)
next
  case (change_topup p n c y d)
  then show ?case using process_topup_backed process_topup_ledger by blast
next
  case (change_begin r c y d)
  then show ?case using begin_delivery_backed begin_delivery_ledger by blast
next
  case (change_close t0 t1 p c y d)
  then show ?case
    using process_close_backed [OF change_close(1), of cid] process_close_ledger
    by (metis backed_at_clock process_close_backed)
next
  case (change_finalize cid c)
  then show ?case by (simp add: finalize_backed finalize_ledger)
qed

text \<open>What a request has passed when it takes off: it read the channel \<open>c\<close> and its checks let it go on.\<close>

definition takes_off :: "externs \<Rightarrow> session_event \<Rightarrow> flight \<Rightarrow> channel_state \<Rightarrow> bool" where
  "takes_off X e f c =
     (flight_ok X f c \<and> cs_cumulative c < flight_amount f \<and>
      (case f of
         VoucherFlight v n \<Rightarrow>
           (\<exists>t p. e = EvVoucherRead t p) \<and> flight_amount f \<le> cs_deposit c
       | CommitFlight p n now \<Rightarrow>
           (\<exists>t0 t1. e = EvCommitRead t0 t1 p) \<and>
           cp_delivery_id p \<in> pd_delivery_id ` set (cs_pending_deliveries c)))"

section \<open>The server over any channel store\<close>

locale session_contract = channel_contract ops view healthy
  for ops :: "('s, cell) channel_store"
    and view :: "'s \<Rightarrow> string \<rightharpoonup> channel_state"
    and healthy :: "'s \<Rightarrow> bool"
begin

lemma read_channel_Ok:
  "read_channel ops s cid = Ok c \<longleftrightarrow> healthy s \<and> view s cid = Some c"
  by (cases "healthy s") (auto simp: read_channel_def get_law unhealthy_get)

text \<open>
  One update of one channel, seen from any channel: it kept its state, or the closure took it
  from the old to the new one.
\<close>

lemma update_effect:
  assumes "op_update_channel ops s k u x = (s', y, r)"
  obtains (same) "view s' = view s"
  | (changed) c where "r = Ok c" and "u x (view s k) = (y, Ok c)" and "view s' = (view s)(k \<mapsto> c)"
proof (cases "is_ok r")
  case True
  then obtain c where "r = Ok c" by (auto simp: is_ok_iff)
  with assms have upd: "op_update_channel ops s k u x = (s', y, Ok c)" by simp
  show ?thesis
    by (rule changed [OF \<open>r = Ok c\<close> update_Ok(2) [OF upd] update_Ok(3) [OF upd]])
next
  case False
  with same assms update_not_Ok show ?thesis by blast
qed

lemma open_effect:
  assumes "process_open ops X cfg s p = (s', r)"
  obtains (same) "view s' = view s"
  | (changed) c where "process_open_checks X cfg p = Ok c"
      and "view s' = (view s)(cs_channel_id c \<mapsto> c)"
proof (cases "process_open_checks X cfg p")
  case (Ok c)
  obtain s1 r1 where put: "op_put_channel ops s (cs_channel_id c) c = (s1, r1)" by fastforce
  with assms Ok have "s' = s1" by (simp add: process_open_def)
  show ?thesis
  proof (cases "healthy s")
    case True
    with put_law [OF True put] Ok \<open>s' = s1\<close> changed show ?thesis by blast
  next
    case False
    with unhealthy_put [OF False put] \<open>s' = s1\<close> same show ?thesis by blast
  qed
qed (use assms same in \<open>simp_all add: process_open_def\<close>)

lemma finalize_effect:
  assumes "op_mark_finalized ops s cid = (s', r)"
  obtains (same) "view s' = view s"
  | (changed) c where "view s cid = Some c" and "view s' = (view s)(cid \<mapsto> c\<lparr>cs_finalized := True\<rparr>)"
proof (cases "healthy s")
  case True
  from finalize_law [OF True assms] show ?thesis
    by (cases "view s cid") (use same changed in auto)
next
  case False
  with unhealthy_finalize [OF False assms] same show ?thesis by blast
qed

lemma write_effect:
  assumes "op_update_channel ops s k u NoOutput = (s', y, r)"
    and "\<And>x y d. u x None \<noteq> (y, Ok d)"
    and "view s' cid \<noteq> view s cid"
  obtains c d where "cid = k" and "view s k = Some c" and "view s' k = Some d"
    and "u NoOutput (Some c) = (y, Ok d)"
  using assms(1)
proof (cases rule: update_effect)
  case same
  with assms(3) show ?thesis by simp
next
  case (changed d)
  with assms(3) have [simp]: "cid = k" by (auto split: if_splits)
  obtain c where "view s k = Some c" using changed(2) assms(2) by (cases "view s k") auto
  with changed that show ?thesis by auto
qed

text \<open>Every step of the server is, for every channel, no change or a change of the specification.\<close>

lemma session_step_refines:
  assumes "fresh_open view e sys"
    and "view (sys_store (session_step b ops X cfg e sys)) cid \<noteq> view (sys_store sys) cid"
  obtains d where "view (sys_store (session_step b ops X cfg e sys)) cid = Some d"
    and "channel_change b X cfg (sys_flights sys) e cid (view (sys_store sys) cid) d"
proof (cases e)
  case (EvOpen p)
  obtain s' r where run: "process_open ops X cfg (sys_store sys) p = (s', r)" by fastforce
  show ?thesis
    using run
  proof (cases rule: open_effect)
    case same
    with EvOpen run assms(2) show ?thesis by simp
  next
    case (changed c)
    then have sid: "session_id p = Ok (cs_channel_id c)" by (simp add: process_open_checks_Ok)
    from changed EvOpen run assms(2) have cid: "cid = cs_channel_id c" by (auto split: if_splits)
    from assms(1) sid cid EvOpen have "view (sys_store sys) cid = None"
      by (simp add: fresh_open_def)
    with changed cid EvOpen run show ?thesis
      by (intro that [of c]) (auto intro: change_open)
  qed
next
  case (EvVoucherRead t p)
  with assms(2) show ?thesis by (auto split: result.splits option.splits prod.splits)
next
  case (EvCommitRead t0 t1 p)
  with assms(2) show ?thesis by (auto split: result.splits sum.splits prod.splits)
next
  case (EvWrite i)
  show ?thesis
  proof (cases "i < length (sys_flights sys)")
    case True
    let ?f = "sys_flights sys ! i"
    obtain s' y r where run: "op_update_channel ops (sys_store sys) (flight_channel ?f)
        (flight_updater ?f) NoOutput = (s', y, r)" by (metis prod_cases3)
    with EvWrite True assms(2) have diff: "view s' cid \<noteq> view (sys_store sys) cid" by (simp add: Let_def)
    obtain c d where "cid = flight_channel ?f" "view (sys_store sys) cid = Some c"
      "view s' cid = Some d" "flight_updater ?f NoOutput (Some c) = (y, Ok d)"
      by (rule write_effect [OF run _ diff]) auto
    with EvWrite True run show ?thesis
      by (intro that [of d]) (auto simp: Let_def intro: change_write)
  next
    case False
    with EvWrite assms(2) show ?thesis by simp
  qed
next
  case (EvTopUp p)
  with assms(2) obtain n where n: "parse_u64 (tu_new_deposit p) = Some n"
    by (auto simp: process_topup_def split: option.splits)
  let ?u = "process_topup_update (tu_channel_id p) n (sc_max_cap cfg)"
  obtain s' y r where run: "op_update_channel ops (sys_store sys) (tu_channel_id p) ?u NoOutput =
    (s', y, r)" by (metis prod_cases3)
  with EvTopUp n assms(2) have diff: "view s' cid \<noteq> view (sys_store sys) cid"
    by (simp add: process_topup_def)
  obtain c d where "cid = tu_channel_id p" "view (sys_store sys) cid = Some c"
    "view s' cid = Some d" "?u NoOutput (Some c) = (y, Ok d)"
    by (rule write_effect [OF run _ diff]) auto
  with EvTopUp n run show ?thesis
    by (intro that [of d]) (auto simp: process_topup_def intro: change_topup)
next
  case (EvBegin q)
  with assms(2) have pos: "dr_amount q \<noteq> 0" by (auto simp: begin_delivery_def split: if_splits)
  obtain s' y r where run: "op_update_channel ops (sys_store sys) (dr_session_id q)
    (begin_delivery_update b cfg q) NoOutput = (s', y, r)" by (metis prod_cases3)
  with EvBegin pos assms(2) have diff: "view s' cid \<noteq> view (sys_store sys) cid"
    by (simp add: begin_delivery_def)
  obtain c d where "cid = dr_session_id q" "view (sys_store sys) cid = Some c"
    "view s' cid = Some d" "begin_delivery_update b cfg q NoOutput (Some c) = (y, Ok d)"
    by (rule write_effect [OF run _ diff]) auto
  with EvBegin pos run show ?thesis
    by (intro that [of d]) (auto simp: begin_delivery_def intro: change_begin)
next
  case (EvClose t0 t1 p)
  let ?u = "process_close_update (at_clock X t0 t1) (cl_voucher p) t0"
  obtain s' y r where run: "op_update_channel ops (sys_store sys) (cl_channel_id p) ?u NoOutput =
    (s', y, r)" by (metis prod_cases3)
  have clock: "clock (at_clock X t0 t1) 0 = t0" by (simp add: at_clock_def)
  with EvClose run assms(2) have diff: "view s' cid \<noteq> view (sys_store sys) cid"
    by (simp add: process_close_def)
  obtain c d where "cid = cl_channel_id p" "view (sys_store sys) cid = Some c"
    "view s' cid = Some d" "?u NoOutput (Some c) = (y, Ok d)"
    by (rule write_effect [OF run _ diff]) auto
  with EvClose run clock show ?thesis
    by (intro that [of d]) (auto simp: process_close_def intro: change_close)
next
  case (EvFinalize k)
  obtain s' r where run: "op_mark_finalized ops (sys_store sys) k = (s', r)" by fastforce
  show ?thesis
    using run
  proof (cases rule: finalize_effect)
    case same
    with EvFinalize run assms(2) show ?thesis by (simp add: mark_finalized_def)
  next
    case (changed c)
    with EvFinalize run assms(2) have "cid = k"
      by (auto simp: mark_finalized_def split: if_splits)
    with changed EvFinalize run show ?thesis
      by (intro that [of "c\<lparr>cs_finalized := True\<rparr>"])
        (auto simp: mark_finalized_def intro: change_finalize)
  qed
qed

lemma verify_voucher_read_Ok:
  "verify_voucher_read ops X cfg s v = Ok (n, replay) \<longleftrightarrow>
     healthy s \<and>
     (\<exists>c. view s (vd_channel_id (sv_data v)) = Some c \<and>
       parse_u64 (vd_cumulative (sv_data v)) = Some n \<and>
       verify_voucher_checks X cfg v n c = Ok replay)"
  by (auto simp: verify_voucher_read_def read_channel_Ok)

lemma process_commit_read_Ok:
  "process_commit_read ops X s p = Ok (n, answer) \<longleftrightarrow>
     healthy s \<and>
     (\<exists>c. view s (vd_channel_id (sv_data (cp_voucher p))) = Some c \<and>
       parse_u64 (vd_cumulative (sv_data (cp_voucher p))) = Some n \<and>
       process_commit_checks X p n c = Ok answer)"
  by (auto simp: process_commit_read_def read_channel_Ok Let_def)

lemma set_remove_nth: "x \<in> set (remove_nth i xs) \<Longrightarrow> x \<in> set xs"
  by (auto simp: remove_nth_def dest: in_set_takeD in_set_dropD)

lemma session_step_flights:
  assumes "f \<in> set (sys_flights (session_step b ops X cfg e sys))"
  shows "f \<in> set (sys_flights sys) \<or>
    sys_store (session_step b ops X cfg e sys) = sys_store sys \<and>
    (\<exists>c. view (sys_store sys) (flight_channel f) = Some c \<and> takes_off X e f c)"
proof (cases e)
  case (EvVoucherRead t p)
  let ?r = "verify_voucher_read ops (at_clock X t t) cfg (sys_store sys) (vp_voucher p)"
  show ?thesis
  proof (cases "\<exists>n. ?r = Ok (n, None)")
    case True
    then obtain n where n: "?r = Ok (n, None)" ..
    then obtain c where c: "view (sys_store sys) (vd_channel_id (sv_data (vp_voucher p))) = Some c"
      "parse_u64 (vd_cumulative (sv_data (vp_voucher p))) = Some n"
      "verify_voucher_checks (at_clock X t t) cfg (vp_voucher p) n c = Ok None"
      by (auto simp: verify_voucher_read_Ok)
    then have "takes_off X e (VoucherFlight (vp_voucher p) n) c"
      using EvVoucherRead verify_voucher_checks_pass(2,3,5) [OF c(3)]
      by (simp add: takes_off_def flight_ok_def)
    with assms EvVoucherRead n c(1) show ?thesis by (auto simp: flight_channel_def)
  next
    case False
    with assms EvVoucherRead show ?thesis by (auto split: result.splits option.splits)
  qed
next
  case (EvCommitRead t0 t1 p)
  let ?r = "process_commit_read ops (at_clock X t0 t1) (sys_store sys) p"
  show ?thesis
  proof (cases "\<exists>n now. ?r = Ok (n, Inr now)")
    case True
    then obtain n now where n: "?r = Ok (n, Inr now)" by blast
    then obtain c where c: "view (sys_store sys) (vd_channel_id (sv_data (cp_voucher p))) = Some c"
      "parse_u64 (vd_cumulative (sv_data (cp_voucher p))) = Some n"
      "process_commit_checks (at_clock X t0 t1) p n c = Ok (Inr now)"
      by (auto simp: process_commit_read_Ok)
    then have "takes_off X e (CommitFlight p n now) c"
      using EvCommitRead process_commit_checks_pass [OF c(3)]
      by (auto simp: takes_off_def flight_ok_def)
    with assms EvCommitRead n c(1) show ?thesis by (auto simp: flight_channel_def)
  next
    case False
    with assms EvCommitRead show ?thesis by (auto split: result.splits sum.splits)
  qed
qed (use assms in \<open>auto simp: Let_def dest: set_remove_nth split: if_splits\<close>)

section \<open>Progress and invariants over runs\<close>

lemma session_step_progress:
  assumes "fresh_open view e sys" and "view (sys_store sys) cid = Some c"
  obtains d where "view (sys_store (session_step b ops X cfg e sys)) cid = Some d" "progress c d"
proof (cases "view (sys_store (session_step b ops X cfg e sys)) cid = view (sys_store sys) cid")
  case True
  with assms(2) that [of c] show ?thesis by simp
next
  case False
  with assms(1) obtain d where
    "view (sys_store (session_step b ops X cfg e sys)) cid = Some d"
    "channel_change b X cfg (sys_flights sys) e cid (view (sys_store sys) cid) d"
    by (rule session_step_refines)
  with assms(2) that [of d] show ?thesis by (auto dest: change_progress)
qed

lemma run_progress:
  assumes "reaches (session_step b ops X cfg) allowed s t"
    and "\<And>e u. allowed e u \<Longrightarrow> fresh_open view e u"
    and "view (sys_store s) cid = Some c"
  shows "\<exists>d. view (sys_store t) cid = Some d \<and> progress c d"
  using assms(1)
proof induction
  case reaches_refl
  with assms(3) show ?case by auto
next
  case (reaches_step t e)
  then obtain d where d: "view (sys_store t) cid = Some d" "progress c d" by blast
  from assms(2) [OF reaches_step(2)] d(1) obtain d' where
    "view (sys_store (session_step b ops X cfg e t)) cid = Some d'" "progress d d'"
    by (rule session_step_progress)
  with d(2) show ?case by (blast intro: progress_trans)
qed

text \<open>An invariant of channels together with what stays true of the requests in the air.\<close>

definition sys_inv ::
  "(string \<Rightarrow> channel_state \<Rightarrow> bool) \<Rightarrow> (flight \<Rightarrow> channel_state \<Rightarrow> bool) \<Rightarrow>
   's server_system \<Rightarrow> bool" where
  "sys_inv I F sys =
     ((\<forall>cid c. view (sys_store sys) cid = Some c \<longrightarrow> I cid c) \<and>
      (\<forall>f \<in> set (sys_flights sys).
         \<exists>c. view (sys_store sys) (flight_channel f) = Some c \<and> F f c))"

lemma sys_inv_step:
  assumes inv: "sys_inv I F sys" and fresh: "fresh_open view e sys"
    and stable: "\<And>f c d. F f c \<Longrightarrow> progress c d \<Longrightarrow> F f d"
    and change: "\<And>cid old d.
      channel_change b X cfg (sys_flights sys) e cid old d \<Longrightarrow> \<forall>c. old = Some c \<longrightarrow> I cid c \<Longrightarrow>
      \<forall>f \<in> set (sys_flights sys). flight_channel f = cid \<longrightarrow> (\<exists>c. old = Some c \<and> F f c) \<Longrightarrow>
      I cid d"
    and new: "\<And>f c. takes_off X e f c \<Longrightarrow> I (flight_channel f) c \<Longrightarrow> F f c"
  shows "sys_inv I F (session_step b ops X cfg e sys)"
proof -
  let ?sys' = "session_step b ops X cfg e sys"
  have "I cid d" if d: "view (sys_store ?sys') cid = Some d" for cid d
  proof (cases "view (sys_store ?sys') cid = view (sys_store sys) cid")
    case True
    with inv d show ?thesis by (simp add: sys_inv_def)
  next
    case False
    from fresh this have "channel_change b X cfg (sys_flights sys) e cid
        (view (sys_store sys) cid) d"
      by (rule session_step_refines) (use d in simp)
    then show ?thesis
      by (rule change) (use inv in \<open>auto simp: sys_inv_def\<close>)
  qed
  moreover have "\<exists>c. view (sys_store ?sys') (flight_channel f) = Some c \<and> F f c"
    if f: "f \<in> set (sys_flights ?sys')" for f
    using session_step_flights [OF f]
  proof
    assume "f \<in> set (sys_flights sys)"
    with inv obtain c where c: "view (sys_store sys) (flight_channel f) = Some c" "F f c"
      by (auto simp: sys_inv_def)
    from fresh c(1) obtain d where
      "view (sys_store ?sys') (flight_channel f) = Some d" "progress c d"
      by (rule session_step_progress)
    with c(2) stable show ?thesis by blast
  next
    assume "sys_store ?sys' = sys_store sys \<and>
      (\<exists>c. view (sys_store sys) (flight_channel f) = Some c \<and> takes_off X e f c)"
    with inv new show ?thesis by (auto simp: sys_inv_def)
  qed
  ultimately show ?thesis by (simp add: sys_inv_def)
qed

text \<open>Every watermark is backed and every ledger is in order.\<close>

lemma run_backed:
  assumes "reaches (session_step b ops X cfg) (fresh_open view) s t"
    and "sys_inv (\<lambda>cid c. backed X cid c \<and> ledger c) (flight_ok X) s"
  shows "sys_inv (\<lambda>cid c. backed X cid c \<and> ledger c) (flight_ok X) t"
  using assms
proof (rule reaches_invariant)
  fix e u
  assume "sys_inv (\<lambda>cid c. backed X cid c \<and> ledger c) (flight_ok X) u" "fresh_open view e u"
  then show "sys_inv (\<lambda>cid c. backed X cid c \<and> ledger c) (flight_ok X) (session_step b ops X cfg e u)"
  proof (rule sys_inv_step)
    fix f c
    assume "takes_off X e f c"
    then show "flight_ok X f c" by (simp add: takes_off_def)
  next
    fix cid old d
    assume "channel_change b X cfg (sys_flights u) e cid old d"
      "\<forall>c. old = Some c \<longrightarrow> backed X cid c \<and> ledger c"
      "\<forall>f \<in> set (sys_flights u). flight_channel f = cid \<longrightarrow> (\<exists>c. old = Some c \<and> flight_ok X f c)"
    then show "backed X cid d \<and> ledger d" by (rule change_sound)
  qed (rule flight_ok_progress)
qed

end

section \<open>Solvency\<close>

text \<open>
  Two regimes in which the watermark stays within the deposit.  Plain vouchers are checked
  against the deposit, so it holds as long as no delivery is reserved.  Commits are not, but each
  stays within its reservation, and reservations fit the deposit as long as their sums do not wrap
  and no plain voucher spends the same money.
\<close>

definition no_deliveries :: "channel_state \<Rightarrow> bool" where
  "no_deliveries c = (cs_pending_deliveries c = [] \<and> cs_committed_deliveries c = [])"

definition solvent :: "channel_state \<Rightarrow> bool" where
  "solvent c = (cs_cumulative c \<le> cs_deposit c)"

definition metered_solvent :: "channel_state \<Rightarrow> bool" where
  "metered_solvent c =
     (solvent c \<and> (\<not> closed c \<longrightarrow> unat (cs_cumulative c) + reserved c \<le> unat (cs_deposit c)))"

definition voucher_flight_covered :: "flight \<Rightarrow> channel_state \<Rightarrow> bool" where
  "voucher_flight_covered f c =
     ((\<exists>v n. f = VoucherFlight v n) \<and> flight_amount f \<le> cs_deposit c)"

definition commit_flight :: "flight \<Rightarrow> channel_state \<Rightarrow> bool" where
  "commit_flight f c = (\<exists>p n now. f = CommitFlight p n now)"

fun is_begin :: "session_event \<Rightarrow> bool" where
  "is_begin (EvBegin r) = True"
| "is_begin _ = False"

fun is_voucher_read :: "session_event \<Rightarrow> bool" where
  "is_voucher_read (EvVoucherRead t p) = True"
| "is_voucher_read _ = False"

lemma close_solvent:
  assumes "process_close_update X vo now x (Some c) = (y, Ok d)" and "solvent c"
  shows "solvent d" and "closed d"
    and "cs_pending_deliveries d = cs_pending_deliveries c"
    and "cs_committed_deliveries d = cs_committed_deliveries c"
  using assms(1)
  by (rule process_close_update_Ok; use assms(2) in \<open>auto simp: solvent_def closed_def\<close>)+

lemma change_solvent:
  assumes "channel_change b X cfg fs e cid old d"
    and "\<forall>c. old = Some c \<longrightarrow> solvent c \<and> no_deliveries c"
    and "\<forall>f \<in> set fs. flight_channel f = cid \<longrightarrow> (\<exists>c. old = Some c \<and> voucher_flight_covered f c)"
    and "\<not> is_begin e"
  shows "solvent d \<and> no_deliveries d"
  using assms
proof (induction rule: channel_change.induct)
  case (change_open p c)
  then show ?case by (simp add: process_open_checks_Ok solvent_def no_deliveries_def)
next
  case (change_write i c y d)
  then obtain v n where "fs ! i = VoucherFlight v n" "n \<le> cs_deposit c"
    using nth_mem [of i fs] by (force simp: voucher_flight_covered_def)
  with change_write show ?case
    by (auto simp: verify_voucher_update_Ok solvent_def no_deliveries_def)
next
  case (change_topup p n c y d)
  then show ?case by (auto simp: process_topup_update_Ok solvent_def no_deliveries_def)
next
  case (change_begin r c y d)
  then show ?case by simp
next
  case (change_close t0 t1 p c y d)
  then show ?case using close_solvent [OF change_close(1)] by (simp add: no_deliveries_def)
next
  case (change_finalize cid c)
  then show ?case by (simp add: solvent_def no_deliveries_def)
qed

lemma progress_sums:
  assumes "metered_solvent c" and "\<not> closed c"
    and "unat (cs_cumulative d) + reserved d \<le> unat (cs_cumulative c) + reserved c"
    and "cs_deposit c \<le> cs_deposit d"
  shows "metered_solvent d"
proof -
  have "unat (cs_cumulative d) + reserved d \<le> unat (cs_deposit d)"
    using assms by (simp add: metered_solvent_def word_le_nat_alt)
  then show ?thesis by (simp add: metered_solvent_def solvent_def word_le_nat_alt)
qed

lemma change_metered:
  assumes "channel_change Debug_Build X cfg fs e cid old d"
    and "\<forall>c. old = Some c \<longrightarrow> metered_solvent c"
    and "\<forall>f \<in> set fs. flight_channel f = cid \<longrightarrow> (\<exists>c. old = Some c \<and> commit_flight f c)"
  shows "metered_solvent d"
  using assms
proof (induction rule: channel_change.induct)
  case (change_open p c)
  then show ?case by (simp add: process_open_checks_Ok metered_solvent_def solvent_def reserved_def)
next
  case (change_write i c y d)
  then obtain p n now where f: "fs ! i = CommitFlight p n now"
    using nth_mem [of i fs] by (force simp: commit_flight_def)
  with change_write(2) have step: "process_commit_update p n now NoOutput (Some c) = (y, Ok d)"
    by simp
  then have "\<not> closed c" "cs_deposit d = cs_deposit c"
    by (cases rule: process_commit_update_Ok; simp add: closed_def)+
  with change_write(3) process_commit_conserves [OF step] show ?case
    using progress_sums [of c d] by simp
next
  case (change_topup p n c y d)
  then show ?case
    by (auto simp: process_topup_update_Ok metered_solvent_def solvent_def closed_def reserved_def
        word_le_nat_alt word_less_nat_alt)
next
  case (change_begin r c y d)
  then have "unat (cs_cumulative d) + reserved d \<le> unat (cs_deposit d)"
    by (intro begin_delivery_total) (auto simp: sums_fit_def)
  then show ?case by (simp add: metered_solvent_def solvent_def word_le_nat_alt)
next
  case (change_close t0 t1 p c y d)
  then show ?case using close_solvent [OF change_close(1)] by (simp add: metered_solvent_def)
next
  case (change_finalize cid c)
  then show ?case by (simp add: metered_solvent_def solvent_def closed_def)
qed

section \<open>Solvency over runs\<close>

definition no_reservations ::
  "('s \<Rightarrow> string \<rightharpoonup> channel_state) \<Rightarrow> session_event \<Rightarrow> 's server_system \<Rightarrow> bool" where
  "no_reservations view e sys = (fresh_open view e sys \<and> \<not> is_begin e)"

definition no_vouchers ::
  "('s \<Rightarrow> string \<rightharpoonup> channel_state) \<Rightarrow> session_event \<Rightarrow> 's server_system \<Rightarrow> bool" where
  "no_vouchers view e sys = (fresh_open view e sys \<and> \<not> is_voucher_read e)"

context session_contract
begin

lemma run_solvent:
  assumes "reaches (session_step b ops X cfg) (no_reservations view) s t"
    and "sys_inv (\<lambda>cid c. solvent c \<and> no_deliveries c) voucher_flight_covered s"
  shows "sys_inv (\<lambda>cid c. solvent c \<and> no_deliveries c) voucher_flight_covered t"
  using assms
proof (rule reaches_invariant)
  fix e u
  assume inv: "sys_inv (\<lambda>cid c. solvent c \<and> no_deliveries c) voucher_flight_covered u"
    and allowed: "no_reservations view e u"
  from inv show "sys_inv (\<lambda>cid c. solvent c \<and> no_deliveries c) voucher_flight_covered
    (session_step b ops X cfg e u)"
  proof (rule sys_inv_step)
    show "fresh_open view e u" using allowed by (simp add: no_reservations_def)
  next
    fix f c d
    assume "voucher_flight_covered f c" "progress c d"
    then show "voucher_flight_covered f d"
      by (auto simp: voucher_flight_covered_def progress_def)
  next
    fix f c
    assume "takes_off X e f c" "solvent c \<and> no_deliveries c"
    then show "voucher_flight_covered f c"
      by (cases f) (auto simp: takes_off_def voucher_flight_covered_def no_deliveries_def)
  next
    fix cid old d
    assume "channel_change b X cfg (sys_flights u) e cid old d"
      "\<forall>c. old = Some c \<longrightarrow> solvent c \<and> no_deliveries c"
      "\<forall>f \<in> set (sys_flights u). flight_channel f = cid \<longrightarrow>
        (\<exists>c. old = Some c \<and> voucher_flight_covered f c)"
    then show "solvent d \<and> no_deliveries d"
      by (rule change_solvent) (use allowed in \<open>simp add: no_reservations_def\<close>)
  qed
qed

lemma run_metered:
  assumes "reaches (session_step Debug_Build ops X cfg) (no_vouchers view) s t"
    and "sys_inv (\<lambda>cid. metered_solvent) commit_flight s"
  shows "sys_inv (\<lambda>cid. metered_solvent) commit_flight t"
  using assms
proof (rule reaches_invariant)
  fix e u
  assume inv: "sys_inv (\<lambda>cid. metered_solvent) commit_flight u"
    and allowed: "no_vouchers view e u"
  from inv show "sys_inv (\<lambda>cid. metered_solvent) commit_flight
    (session_step Debug_Build ops X cfg e u)"
  proof (rule sys_inv_step)
    show "fresh_open view e u" using allowed by (simp add: no_vouchers_def)
  next
    fix f c d
    assume "commit_flight f c" "progress c d"
    then show "commit_flight f d" by (simp add: commit_flight_def)
  next
    fix f c
    assume "takes_off X e f c"
    then show "commit_flight f c"
      using allowed
      by (cases f) (auto simp: takes_off_def commit_flight_def no_vouchers_def)
  next
    fix cid old d
    assume "channel_change Debug_Build X cfg (sys_flights u) e cid old d"
      "\<forall>c. old = Some c \<longrightarrow> metered_solvent c"
      "\<forall>f \<in> set (sys_flights u). flight_channel f = cid \<longrightarrow>
        (\<exists>c. old = Some c \<and> commit_flight f c)"
    then show "metered_solvent d" by (rule change_metered)
  qed
qed

text \<open>A server that has not served a request yet.\<close>

lemma sys_inv_initial: "view s = Map.empty \<Longrightarrow> sys_inv I F \<lparr>sys_store = s, sys_flights = []\<rparr>"
  by (simp add: sys_inv_def)

end

section \<open>The server over the in-memory store\<close>

interpretation mem_sessions: session_contract memory_channel_ops mcs_data "\<lambda>s. \<not> mcs_poisoned s"
  by unfold_locales

abbreviation mem_step ::
  "build \<Rightarrow> externs \<Rightarrow> session_config \<Rightarrow> session_event \<Rightarrow>
   memory_channel_store server_system \<Rightarrow> memory_channel_store server_system" where
  "mem_step b \<equiv> session_step b memory_channel_ops"

definition initial_system :: "memory_channel_store server_system" where
  "initial_system = \<lparr>sys_store = memory_channel_store_new, sys_flights = []\<rparr>"

abbreviation channel_of ::
  "memory_channel_store server_system \<Rightarrow> string \<Rightarrow> channel_state option" where
  "channel_of sys \<equiv> mcs_data (sys_store sys)"

lemma initial_inv: "mem_sessions.sys_inv I F initial_system"
  by (simp add: initial_system_def mem_sessions.sys_inv_initial memory_channel_store_new_def)

end
