(* ===== verification/Session_Contracts.thy ===== *)
theory Session_Contracts
  imports Session_Runs
begin

text \<open>
  What each method of the session server returns and stores when no other request comes in
  between, proved over any channel store that keeps the contract: when a voucher is accepted, what
  replays answer, what close hands to settlement.
\<close>

section \<open>Acceptance\<close>

definition voucher_acceptable ::
  "externs \<Rightarrow> session_config \<Rightarrow> signed_voucher \<Rightarrow> channel_state \<Rightarrow> u64 \<Rightarrow> bool" where
  "voucher_acceptable X cfg v c n =
     (\<not> closed c \<and> parse_u64 (vd_cumulative (sv_data v)) = Some n \<and>
      \<not> vd_expires_at (sv_data v) \<le>s clock X 0 \<and> signature_valid X v (cs_authorized_signer c) \<and>
      (n = cs_cumulative c \<and> cs_highest_voucher_signature c = Some (sv_signature v) \<or>
       cs_cumulative c < n \<and> n \<le> cs_deposit c \<and>
         sc_min_voucher_delta cfg \<le> n - cs_cumulative c))"

definition with_voucher :: "channel_state \<Rightarrow> signed_voucher \<Rightarrow> u64 \<Rightarrow> channel_state" where
  "with_voucher c v n =
     (if n = cs_cumulative c then c
      else c\<lparr>cs_cumulative := n, cs_highest_voucher_signature := Some (sv_signature v),
             cs_highest_voucher_expires_at := Some (vd_expires_at (sv_data v))\<rparr>)"

lemma verify_voucher_checks_Ok:
  "verify_voucher_checks X cfg v n c = Ok replay \<longleftrightarrow>
     \<not> closed c \<and> \<not> vd_expires_at (sv_data v) \<le>s clock X 0 \<and>
     signature_valid X v (cs_authorized_signer c) \<and>
     (n = cs_cumulative c \<and> cs_highest_voucher_signature c = Some (sv_signature v) \<and>
        replay = Some n \<or>
      cs_cumulative c < n \<and> n \<le> cs_deposit c \<and>
        sc_min_voucher_delta cfg \<le> n - cs_cumulative c \<and> replay = None)"
  by (auto simp: verify_voucher_checks_def Let_def closed_def verify_signature_Ok not_le not_less
      word_neq_0_conv split: if_splits)

lemma verify_voucher_update_here:
  assumes "\<not> closed c" and "cs_cumulative c < n"
  shows "verify_voucher_update n (sv_signature v) (vd_expires_at (sv_data v)) x (Some c) =
    (x, Ok (with_voucher c v n))"
  using assms by (auto simp: verify_voucher_update_def with_voucher_def closed_def)

lemma find_append_None: "find P xs = None \<Longrightarrow> find P (xs @ ys) = find P ys"
  by (induction xs) (auto split: if_splits)

context session_contract
begin

lemma update_runs:
  assumes "healthy s" and "u x (view s k) = (y, Ok c)"
  obtains s' where "op_update_channel ops s k u x = (s', y, Ok c)" and "healthy s'"
    and "view s' = (view s)(k \<mapsto> c)"
proof -
  obtain s' y' r where run: "op_update_channel ops s k u x = (s', y', r)" by (metis prod_cases3)
  with update_law [OF assms(1) run] assms(2) that [of s'] show ?thesis by auto
qed

lemma verify_voucher_accepts:
  assumes h: "healthy s" and c: "view s (vd_channel_id (sv_data v)) = Some c"
    and ok: "voucher_acceptable X cfg v c n"
  obtains s' where "verify_voucher ops X cfg s \<lparr>vp_voucher = v\<rparr> = (s', Ok n)" and "healthy s'"
    and "view s' = (view s)(vd_channel_id (sv_data v) \<mapsto> with_voucher c v n)"
    and "n = cs_cumulative c \<Longrightarrow> s' = s"
proof (cases "n = cs_cumulative c")
  case True
  with ok have "verify_voucher_read ops X cfg s v = Ok (n, Some n)"
    by (auto simp: verify_voucher_read_Ok h c verify_voucher_checks_Ok voucher_acceptable_def)
  with h c True show ?thesis
    by (intro that [of s]) (auto simp: verify_voucher_def with_voucher_def)
next
  case False
  with ok have "cs_cumulative c < n" "\<not> closed c" by (auto simp: voucher_acceptable_def)
  moreover from False ok have "verify_voucher_read ops X cfg s v = Ok (n, None)"
    by (auto simp: verify_voucher_read_Ok h c verify_voucher_checks_Ok voucher_acceptable_def)
  moreover have "cs_cumulative (with_voucher c v n) = n" by (simp add: with_voucher_def)
  moreover obtain s' where
    "op_update_channel ops s (vd_channel_id (sv_data v))
       (verify_voucher_update n (sv_signature v) (vd_expires_at (sv_data v))) NoOutput =
     (s', NoOutput, Ok (with_voucher c v n))"
    "healthy s'" "view s' = (view s)(vd_channel_id (sv_data v) \<mapsto> with_voucher c v n)"
    by (rule update_runs [OF h, of "verify_voucher_update n (sv_signature v) (vd_expires_at (sv_data v))"
          NoOutput "vd_channel_id (sv_data v)" NoOutput "with_voucher c v n"])
      (use verify_voucher_update_here calculation c in auto)
  ultimately show ?thesis
    using False by (intro that [of s']) (simp_all add: verify_voucher_def)
qed

lemma verify_voucher_sound:
  assumes "verify_voucher ops X cfg s \<lparr>vp_voucher = v\<rparr> = (s', Ok n)"
  obtains c where "healthy s" and "view s (vd_channel_id (sv_data v)) = Some c"
    and "voucher_acceptable X cfg v c n"
proof -
  from assms obtain m replay where read: "verify_voucher_read ops X cfg s v = Ok (m, replay)"
    by (auto simp: verify_voucher_def split: result.splits)
  then obtain c where c: "healthy s" "view s (vd_channel_id (sv_data v)) = Some c"
    "parse_u64 (vd_cumulative (sv_data v)) = Some m"
    "verify_voucher_checks X cfg v m c = Ok replay"
    by (auto simp: verify_voucher_read_Ok)
  then have acc: "voucher_acceptable X cfg v c m"
    by (auto simp: voucher_acceptable_def verify_voucher_checks_Ok)
  obtain t where "verify_voucher ops X cfg s \<lparr>vp_voucher = v\<rparr> = (t, Ok m)"
    by (rule verify_voucher_accepts [OF c(1,2) acc])
  with assms have "m = n" by simp
  with c acc that show ?thesis by blast
qed

text \<open>Presenting an accepted voucher again is accepted again, and changes nothing.\<close>

lemma verify_voucher_replay:
  assumes "verify_voucher ops X cfg s \<lparr>vp_voucher = v\<rparr> = (s', Ok n)"
    and fresh: "\<not> vd_expires_at (sv_data v) \<le>s clock Y 0"
    and same: "Y\<lparr>clock := clock X\<rparr> = X"
  shows "verify_voucher ops Y cfg s' \<lparr>vp_voucher = v\<rparr> = (s', Ok n)"
proof -
  obtain c where c: "healthy s" "view s (vd_channel_id (sv_data v)) = Some c"
    "voucher_acceptable X cfg v c n"
    using assms(1) by (rule verify_voucher_sound)
  obtain t where t: "verify_voucher ops X cfg s \<lparr>vp_voucher = v\<rparr> = (t, Ok n)" "healthy t"
    "view t = (view s)(vd_channel_id (sv_data v) \<mapsto> with_voucher c v n)"
    by (rule verify_voucher_accepts [OF c])
  have valid: "signature_valid Y v k = signature_valid X v k" for k
    by (subst same [symmetric]) (simp add: signature_valid_def message_bytes_def parse_pubkey_def)
  have acc: "voucher_acceptable Y cfg v (with_voucher c v n) n"
    using c(3) fresh valid by (auto simp: voucher_acceptable_def with_voucher_def closed_def)
  have cum: "n = cs_cumulative (with_voucher c v n)" by (simp add: with_voucher_def)
  have view: "view t (vd_channel_id (sv_data v)) = Some (with_voucher c v n)" using t(3) by simp
  obtain t' where "verify_voucher ops Y cfg t \<lparr>vp_voucher = v\<rparr> = (t', Ok n)" "t' = t"
    using verify_voucher_accepts [OF t(2) view acc] cum by metis
  with t(1) assms(1) show ?thesis by simp
qed

lemma process_commit_sound:
  assumes "process_commit ops X s p = (s', Ok r)"
  obtains
    (replay) c d where "healthy s" and "s' = s"
      and "view s (vd_channel_id (sv_data (cp_voucher p))) = Some c"
      and "find (\<lambda>d. cd_delivery_id d = cp_delivery_id p) (cs_committed_deliveries c) = Some d"
      and "parse_u64 (vd_cumulative (sv_data (cp_voucher p))) = Some (cd_cumulative d)"
      and "cd_voucher_signature d = sv_signature (cp_voucher p)"
      and "signature_valid X (cp_voucher p) (cs_authorized_signer c)"
      and "r = \<lparr>cr_delivery_id = cp_delivery_id p,
              cr_session_id = vd_channel_id (sv_data (cp_voucher p)),
              cr_amount = show_u64 (cd_amount d), cr_cumulative = show_u64 (cd_cumulative d),
              cr_status = Replayed\<rparr>"
  | (fresh) n c d where "healthy s" and "healthy s'"
      and "view s (vd_channel_id (sv_data (cp_voucher p))) = Some c"
      and "view s' = (view s)(vd_channel_id (sv_data (cp_voucher p)) \<mapsto> d)"
      and "parse_u64 (vd_cumulative (sv_data (cp_voucher p))) = Some n"
      and "signature_valid X (cp_voucher p) (cs_authorized_signer c)"
      and "process_commit_update p n (clock X 0) NoOutput (Some c) =
        (CommitOutcome (n - cs_cumulative c) n Committed, Ok d)"
      and "find (\<lambda>d. cd_delivery_id d = cp_delivery_id p) (cs_committed_deliveries c) = None"
      and "r = \<lparr>cr_delivery_id = cp_delivery_id p,
              cr_session_id = vd_channel_id (sv_data (cp_voucher p)),
              cr_amount = show_u64 (n - cs_cumulative c), cr_cumulative = show_u64 n,
              cr_status = Committed\<rparr>"
proof -
  let ?cid = "vd_channel_id (sv_data (cp_voucher p))"
  from assms obtain n answer where read: "process_commit_read ops X s p = Ok (n, answer)"
    by (auto simp: process_commit_def split: result.splits)
  then obtain c where c: "healthy s" "view s ?cid = Some c"
    "parse_u64 (vd_cumulative (sv_data (cp_voucher p))) = Some n"
    "process_commit_checks X p n c = Ok answer"
    by (auto simp: process_commit_read_Ok)
  show ?thesis
  proof (cases answer)
    case (Inl receipt)
    with assms read have "s' = s" "r = receipt" by (simp_all add: process_commit_def)
    with c Inl show ?thesis
      by (auto simp: process_commit_checks_def Let_def verify_signature_Ok
          intro!: replay split: option.splits if_splits)
  next
    case (Inr now)
    with c(4) have now: "now = clock X 0"
      and none: "find (\<lambda>d. cd_delivery_id d = cp_delivery_id p) (cs_committed_deliveries c) = None"
      and valid: "signature_valid X (cp_voucher p) (cs_authorized_signer c)"
      by (auto simp: process_commit_checks_def Let_def verify_signature_Ok
          split: option.splits if_splits)
    obtain t y r' where run: "op_update_channel ops s ?cid (process_commit_update p n now) NoOutput =
      (t, y, r')" by (metis prod_cases3)
    with assms read Inr obtain d where "r' = Ok d" "s' = t" "commit_receipt_of p y = Ok r"
      by (auto simp: process_commit_def)
    with run have upd: "op_update_channel ops s ?cid (process_commit_update p n now) NoOutput =
      (s', y, Ok d)" by simp
    from update_Ok(2) [OF upd] c(2) have step:
      "process_commit_update p n now NoOutput (Some c) = (y, Ok d)" by simp
    have y: "y = CommitOutcome (n - cs_cumulative c) n Committed"
      using step by (cases rule: process_commit_update_Ok) (use none in auto)
    with \<open>commit_receipt_of p y = Ok r\<close> show ?thesis
      using fresh [OF c(1) update_Ok(4) [OF upd] c(2) update_Ok(3) [OF upd] c(3) valid] step none now
      by (simp add: commit_receipt_of_def)
  qed
qed

text \<open>
  A commit whose receipt was lost can be repeated: the second receipt bills the same delivery with
  the same amount, says so, and nothing is stored.
\<close>

lemma process_commit_replay:
  assumes "process_commit ops X s p = (s', Ok r)"
    and fresh_at: "\<not> vd_expires_at (sv_data (cp_voucher p)) \<le>s clock Y 0"
    and same: "Y\<lparr>clock := clock X\<rparr> = X"
  shows "process_commit ops Y s' p = (s', Ok (r\<lparr>cr_status := Replayed\<rparr>))"
proof -
  let ?cid = "vd_channel_id (sv_data (cp_voucher p))"
  have valid: "signature_valid Y v k = signature_valid X v k" for v k
    by (subst same [symmetric]) (simp add: signature_valid_def message_bytes_def parse_pubkey_def)
  have main: "process_commit ops Y s' p =
      (s', Ok \<lparr>cr_delivery_id = cp_delivery_id p, cr_session_id = ?cid,
               cr_amount = show_u64 (cd_amount d), cr_cumulative = show_u64 (cd_cumulative d),
               cr_status = Replayed\<rparr>)"
    if "healthy s'" and "view s' ?cid = Some c"
      and "find (\<lambda>d. cd_delivery_id d = cp_delivery_id p) (cs_committed_deliveries c) = Some d"
      and "parse_u64 (vd_cumulative (sv_data (cp_voucher p))) = Some (cd_cumulative d)"
      and "cd_voucher_signature d = sv_signature (cp_voucher p)"
      and "signature_valid X (cp_voucher p) (cs_authorized_signer c)" for c d
  proof -
    have "process_commit_read ops Y s' p =
      Ok (cd_cumulative d, Inl \<lparr>cr_delivery_id = cp_delivery_id p, cr_session_id = ?cid,
               cr_amount = show_u64 (cd_amount d), cr_cumulative = show_u64 (cd_cumulative d),
               cr_status = Replayed\<rparr>)"
      using that fresh_at
      by (auto simp: process_commit_read_Ok process_commit_checks_def verify_signature_Ok valid Let_def)
    then show ?thesis by (simp add: process_commit_def)
  qed
  show ?thesis
    using assms(1)
  proof (cases rule: process_commit_sound)
    case (replay c d)
    with main [of c d] show ?thesis by simp
  next
    case (fresh n c d)
    let ?e = "\<lparr>cd_delivery_id = cp_delivery_id p, cd_amount = n - cs_cumulative c,
      cd_cumulative = n, cd_voucher_signature = sv_signature (cp_voucher p)\<rparr>"
    have "find (\<lambda>d. cd_delivery_id d = cp_delivery_id p) (cs_committed_deliveries d) = Some ?e"
      and "cs_authorized_signer d = cs_authorized_signer c"
      using fresh(7)
      by (cases rule: process_commit_update_Ok; use fresh(8) in \<open>simp add: find_append_None\<close>)+
    with fresh main [of d ?e] show ?thesis by simp
  qed
qed

lemma process_close_sound:
  assumes "process_close ops X cfg s p = (s', Ok fp)"
  obtains c d where "view s (cl_channel_id p) = Some c" and "\<not> closed c"
    and "view s' = (view s)(cl_channel_id p \<mapsto> d)" and "healthy s'"
    and "process_close_update X (cl_voucher p) (clock X 0) NoOutput (Some c) = (NoOutput, Ok d)"
    and "fp_settled fp = cs_cumulative d"
    and "fp_voucher_signature fp = cs_highest_voucher_signature d"
    and "fp_voucher_expires_at fp = cs_highest_voucher_expires_at d"
    and "bs58_decode X (cl_channel_id p) = Ok (pubkey_bytes (fp_channel_id fp))"
    and "bs58_decode X (sc_recipient cfg) = Ok (pubkey_bytes (fp_recipient fp))"
    and "fp_splits fp = sc_splits cfg"
    and "fp_distribution_hash fp = distribution_hash X (config_recipients cfg)"
proof -
  let ?u = "process_close_update X (cl_voucher p) (clock X 0)"
  obtain t y r where run: "op_update_channel ops s (cl_channel_id p) ?u NoOutput = (t, y, r)"
    by (metis prod_cases3)
  with assms obtain d where "r = Ok d" "s' = t"
    and fin: "finalize_params ops X cfg s' (cl_channel_id p) = Ok fp"
    by (auto simp: process_close_def)
  with run have upd: "op_update_channel ops s (cl_channel_id p) ?u NoOutput = (s', y, Ok d)" by simp
  note step = update_Ok(2) [OF upd]
  obtain c where view: "view s (cl_channel_id p) = Some c" and "\<not> closed c" and "y = NoOutput"
    using step by (rule process_close_update_Ok) (simp add: closed_def)
  with step have c: "view s (cl_channel_id p) = Some c"
    "?u NoOutput (Some c) = (NoOutput, Ok d)" "\<not> closed c" by simp_all
  from fin update_Ok(3) [OF upd] have
    "fp_settled fp = cs_cumulative d" "fp_voucher_signature fp = cs_highest_voucher_signature d"
    "fp_voucher_expires_at fp = cs_highest_voucher_expires_at d"
    "bs58_decode X (cl_channel_id p) = Ok (pubkey_bytes (fp_channel_id fp))"
    "bs58_decode X (sc_recipient cfg) = Ok (pubkey_bytes (fp_recipient fp))"
    "fp_splits fp = sc_splits cfg"
    "fp_distribution_hash fp = distribution_hash X (config_recipients cfg)"
    by (auto simp: finalize_params_def read_channel_Ok session_parse_pubkey_def)
  with c update_Ok(3,4) [OF upd] that show ?thesis by simp
qed

text \<open>In a build with overflow checks, a reservation is granted exactly when it fits.\<close>

lemma begin_delivery_grants:
  assumes h: "healthy s" and c: "view s (dr_session_id q) = Some c" and alive: "\<not> closed c"
    and pos: "dr_amount q \<noteq> 0"
    and fits: "unat (cs_cumulative c) + reserved c + unat (dr_amount q) \<le> unat (cs_deposit c)"
    and seq: "unat (cs_next_delivery_sequence c) + 1 < 2 ^ 64"
    and new: "reservation_id q (cs_next_delivery_sequence c + 1) \<notin> set (delivery_ids c)"
  obtains s' where "begin_delivery b ops cfg s q =
      (s', Ok \<lparr>mdv_delivery_id = reservation_id q (cs_next_delivery_sequence c + 1),
         mdv_session_id = dr_session_id q, mdv_amount = show_u64 (dr_amount q),
         mdv_currency = sc_currency cfg, mdv_sequence = cs_next_delivery_sequence c + 1,
         mdv_expires_at = reservation_expiry q, mdv_commit_url = dr_commit_url q,
         mdv_proof = dr_proof q\<rparr>)"
proof -
  have small: "unat (cs_cumulative c) + reserved c + unat (dr_amount q) < 2 ^ 64"
    using fits unat_lt [of "cs_deposit c"] by simp
  obtain pt where pt: "sum_u64 b 0 (map pd_amount (cs_pending_deliveries c)) =
      (Ok pt :: (u64, store_error) result)" "unat pt = reserved c"
    using sum_u64_exact [of 0 "map pd_amount (cs_pending_deliveries c)" b, where 'e = store_error] small
    by (auto simp: reserved_def)
  have s1: "add_u64 b (cs_cumulative c) pt = (Ok (cs_cumulative c + pt) :: (u64, store_error) result)"
    and u1: "unat (cs_cumulative c + pt) = unat (cs_cumulative c) + reserved c"
    using small pt(2) by (simp_all add: add_u64_exact unat_add_small)
  have s2: "add_u64 b (cs_cumulative c + pt) (dr_amount q) =
      (Ok (cs_cumulative c + pt + dr_amount q) :: (u64, store_error) result)"
    and "unat (cs_cumulative c + pt + dr_amount q) \<le> unat (cs_deposit c)"
    using small u1 fits unat_add_small [of "cs_cumulative c + pt" "dr_amount q"]
    by (simp_all add: add_u64_exact)
  then have le: "cs_cumulative c + pt + dr_amount q \<le> cs_deposit c" by (simp add: word_le_nat_alt)
  have s3: "add_u64 b (cs_next_delivery_sequence c) 1 =
      (Ok (cs_next_delivery_sequence c + 1) :: (u64, store_error) result)"
    using seq by (simp add: add_u64_exact)
  obtain d where "begin_delivery_update b cfg q NoOutput (Some c) =
      (DirectiveOut \<lparr>mdv_delivery_id = reservation_id q (cs_next_delivery_sequence c + 1),
         mdv_session_id = dr_session_id q, mdv_amount = show_u64 (dr_amount q),
         mdv_currency = sc_currency cfg, mdv_sequence = cs_next_delivery_sequence c + 1,
         mdv_expires_at = reservation_expiry q, mdv_commit_url = dr_commit_url q,
         mdv_proof = dr_proof q\<rparr>, Ok d)"
    using alive pt(1) s1 s2 le s3 new
    by (auto simp: begin_delivery_update_def Let_def closed_def not_less delivery_ids_def
        reservation_id_def reservation_expiry_def)
  with c obtain s' where "op_update_channel ops s (dr_session_id q) (begin_delivery_update b cfg q)
      NoOutput = (s', DirectiveOut \<lparr>mdv_delivery_id = reservation_id q (cs_next_delivery_sequence c + 1),
         mdv_session_id = dr_session_id q, mdv_amount = show_u64 (dr_amount q),
         mdv_currency = sc_currency cfg, mdv_sequence = cs_next_delivery_sequence c + 1,
         mdv_expires_at = reservation_expiry q, mdv_commit_url = dr_commit_url q,
         mdv_proof = dr_proof q\<rparr>, Ok d)"
    by (metis update_runs [OF h])
  with pos that show ?thesis by (simp add: begin_delivery_def)
qed

lemma begin_delivery_sound:
  assumes "begin_delivery b ops cfg s q = (s', Ok directive)"
  obtains c d where "view s (dr_session_id q) = Some c" and "\<not> closed c" and "dr_amount q \<noteq> 0"
    and "view s' = (view s)(dr_session_id q \<mapsto> d)"
    and "begin_delivery_update b cfg q NoOutput (Some c) = (DirectiveOut directive, Ok d)"
proof -
  from assms have pos: "dr_amount q \<noteq> 0" by (auto simp: begin_delivery_def)
  obtain t y r where run: "op_update_channel ops s (dr_session_id q)
    (begin_delivery_update b cfg q) NoOutput = (t, y, r)" by (metis prod_cases3)
  with assms pos obtain d where "r = Ok d" "s' = t" "y = DirectiveOut directive"
    by (auto simp: begin_delivery_def split: cell.splits)
  with run have upd: "op_update_channel ops s (dr_session_id q)
    (begin_delivery_update b cfg q) NoOutput = (s', DirectiveOut directive, Ok d)" by simp
  note step = update_Ok(2) [OF upd]
  obtain c where "view s (dr_session_id q) = Some c" and "\<not> closed c"
    using step by (rule begin_delivery_update_Ok) (simp add: closed_def)
  with step update_Ok(3) [OF upd] pos that show ?thesis by simp
qed

end

end
