(* ===== verification/Session_Examples.thy ===== *)
theory Session_Examples
  imports Session_Contracts
begin

text \<open>
  A small concrete world in which the properties of the session server are evaluated: every key is
  32 bytes, the only valid signature is the string \<^verbatim>\<open>sig\<close>, it is second 100, and one channel \<^verbatim>\<open>ch\<close> is
  opened with a deposit of 100.
\<close>

definition demo_key :: pubkey where
  "demo_key = Pubkey (replicate 32 1)"

definition demo_externs :: externs where
  "demo_externs =
     \<lparr>bs58_decode = (\<lambda>s. Ok (if s = ''sig'' then replicate 64 7 else replicate 32 1)),
      bs58_encode = (\<lambda>_. ''key''),
      pubkey_from_str = (\<lambda>_. Ok demo_key),
      find_program_address = (\<lambda>_ _. (demo_key, 255)),
      blake3_hash = (\<lambda>_. replicate 32 0),
      ed25519_key_from_bytes = (\<lambda>_. Ok ()),
      ed25519_verify_strict = (\<lambda>key message sig. sig = replicate 64 7),
      parse_tx_signature = (\<lambda>_. Ok []),
      signature_status = (\<lambda>_ _. Ok (Some (Ok ()))),
      clock = (\<lambda>_. 100)\<rparr>"

definition demo_config :: session_config where
  "demo_config = session_config_default\<lparr>sc_recipient := ''payee''\<rparr>"

definition demo_open :: open_payload where
  "demo_open = open_push ''ch'' (show_u64 100) ''signer'' ''tx''"

definition demo_voucher :: "string \<Rightarrow> u64 \<Rightarrow> signed_voucher" where
  "demo_voucher cid n =
     \<lparr>sv_data = \<lparr>vd_channel_id = cid, vd_cumulative = show_u64 n, vd_expires_at = 4102444800,
                vd_nonce = None\<rparr>,
      sv_signature = ''sig''\<rparr>"

definition demo_channel :: channel_state where
  "demo_channel =
     \<lparr>cs_channel_id = ''ch'', cs_authorized_signer = ''signer'', cs_deposit = 100,
      cs_cumulative = 0, cs_finalized = False, cs_highest_voucher_signature = None,
      cs_highest_voucher_expires_at = None, cs_close_requested_at = None, cs_operator = None,
      cs_next_delivery_sequence = 0, cs_pending_deliveries = [], cs_committed_deliveries = []\<rparr>"

definition demo_store :: memory_channel_store where
  "demo_store = \<lparr>mcs_data = [''ch'' \<mapsto> demo_channel], mcs_poisoned = False\<rparr>"

lemma demo_expiry [simp]: "\<not> (4102444800 :: i64) \<le>s 100" "(4102444800 :: i64) \<le>s 100 = False"
  by code_simp+

lemma demo_expiry_edge [simp]: "(4102444800 :: i64) \<le>s 4102444799 = False"
  by code_simp

lemma demo_bs58 [simp]:
  "bs58_decode demo_externs s = Ok (if s = ''sig'' then replicate 64 7 else replicate 32 1)"
  by (simp add: demo_externs_def)

lemma demo_default_expiry [simp]: "DEFAULT_SESSION_EXPIRES_AT \<le>s 100 = False"
  by (simp add: DEFAULT_SESSION_EXPIRES_AT_def)

lemma demo_clock [simp]:
  "clock demo_externs n = 100" "clock (at_clock demo_externs 100 100) n = 100"
  by (simp_all add: demo_externs_def at_clock_def)

lemma demo_valid [simp]: "signature_valid demo_externs (demo_voucher cid n) signer"
  if "signer \<noteq> ''sig''"
  using that
  by (simp add: signature_valid_def demo_externs_def demo_voucher_def message_bytes_def
      parse_pubkey_def voucher_message_bytes_def)

lemma demo_voucher_sel [simp]:
  "sv_signature (demo_voucher cid n) = ''sig''"
  "vd_channel_id (sv_data (demo_voucher cid n)) = cid"
  "parse_u64 (vd_cumulative (sv_data (demo_voucher cid n))) = Some n"
  "vd_expires_at (sv_data (demo_voucher cid n)) = 4102444800"
  by (simp_all add: demo_voucher_def)

lemma demo_verify [simp]:
  "signer \<noteq> ''sig'' \<Longrightarrow> verify_signature demo_externs n (demo_voucher cid k) signer = Ok ()"
  "signer \<noteq> ''sig'' \<Longrightarrow>
     verify_signature (at_clock demo_externs 100 100) n (demo_voucher cid k) signer = Ok ()"
  by (simp_all add: verify_signature_Ok)

lemmas demo_run = memory_channel_ops_def mem_get_channel_def mem_put_channel_def
  mem_update_channel_def mem_mark_finalized_def process_open_def process_open_checks_def
  demo_open_def open_push_def session_id_def deposit_amount_def supports_mode_def demo_config_def
  session_config_default_def initial_system_def memory_channel_store_new_def
  verify_voucher_read_def read_channel_def verify_voucher_checks_def verify_voucher_update_def
  process_commit_read_def process_commit_checks_def process_commit_update_def
  begin_delivery_def begin_delivery_update_def process_topup_def process_topup_update_def
  flight_channel_def remove_nth_def fresh_open_def add_u64_def Let_def

definition overspend_events :: "session_event list" where
  "overspend_events =
     [EvOpen demo_open,
      EvBegin ((delivery_request_new ''ch'' 100)\<lparr>dr_delivery_id := Some ''d1''\<rparr>),
      EvVoucherRead 100 \<lparr>vp_voucher = demo_voucher ''ch'' 100\<rparr>,
      EvWrite 0,
      EvCommitRead 100 100 \<lparr>cp_delivery_id = ''d1'', cp_voucher = demo_voucher ''ch'' 200\<rparr>,
      EvWrite 0]"

lemma overspend_run:
  "run_events (mem_step b demo_externs demo_config) overspend_events initial_system =
     \<lparr>sys_store = \<lparr>mcs_data = [''ch'' \<mapsto> demo_channel\<lparr>cs_cumulative := 200,
         cs_highest_voucher_signature := Some ''sig'',
         cs_highest_voucher_expires_at := Some 4102444800, cs_next_delivery_sequence := 1,
         cs_committed_deliveries := [\<lparr>cd_delivery_id = ''d1'', cd_amount = 100,
           cd_cumulative = 200, cd_voucher_signature = ''sig''\<rparr>]\<rparr>], mcs_poisoned = False\<rparr>,
      sys_flights = []\<rparr>"
  by (simp add: overspend_events_def demo_run delivery_request_new_def demo_channel_def)

text \<open>A channel that is opened, spends a voucher of 60 and closes; and a metered one.\<close>

definition voucher_events :: "session_event list" where
  "voucher_events =
     [EvOpen demo_open,
      EvVoucherRead 100 \<lparr>vp_voucher = demo_voucher ''ch'' 60\<rparr>,
      EvWrite 0]"

definition metered_events :: "session_event list" where
  "metered_events =
     [EvOpen demo_open,
      EvBegin ((delivery_request_new ''ch'' 40)\<lparr>dr_delivery_id := Some ''d1''\<rparr>),
      EvCommitRead 100 100 \<lparr>cp_delivery_id = ''d1'', cp_voucher = demo_voucher ''ch'' 30\<rparr>,
      EvWrite 0]"

definition demo_spent :: channel_state where
  "demo_spent = demo_channel\<lparr>cs_cumulative := 60, cs_highest_voucher_signature := Some ''sig'',
     cs_highest_voucher_expires_at := Some 4102444800\<rparr>"

definition demo_metered :: channel_state where
  "demo_metered = demo_channel\<lparr>cs_cumulative := 30, cs_highest_voucher_signature := Some ''sig'',
     cs_highest_voucher_expires_at := Some 4102444800, cs_next_delivery_sequence := 1,
     cs_committed_deliveries := [\<lparr>cd_delivery_id = ''d1'', cd_amount = 30, cd_cumulative = 30,
       cd_voucher_signature = ''sig''\<rparr>]\<rparr>"

lemma voucher_run:
  "run_events (mem_step b demo_externs demo_config) voucher_events initial_system =
     \<lparr>sys_store = \<lparr>mcs_data = [''ch'' \<mapsto> demo_spent], mcs_poisoned = False\<rparr>, sys_flights = []\<rparr>"
  by (simp add: voucher_events_def demo_run demo_channel_def demo_spent_def)

lemma metered_run:
  "run_events (mem_step b demo_externs demo_config) metered_events initial_system =
     \<lparr>sys_store = \<lparr>mcs_data = [''ch'' \<mapsto> demo_metered], mcs_poisoned = False\<rparr>, sys_flights = []\<rparr>"
  by (simp add: metered_events_def demo_run delivery_request_new_def demo_channel_def demo_metered_def)

lemma voucher_run_reached:
  "reaches (mem_step b demo_externs demo_config) (no_reservations mcs_data) initial_system
     \<lparr>sys_store = \<lparr>mcs_data = [''ch'' \<mapsto> demo_spent], mcs_poisoned = False\<rparr>, sys_flights = []\<rparr>"
  unfolding voucher_run [of b, symmetric]
  by (rule reaches_run) (simp add: voucher_events_def no_reservations_def demo_run)

lemma metered_run_reached:
  "reaches (mem_step b demo_externs demo_config) (no_vouchers mcs_data) initial_system
     \<lparr>sys_store = \<lparr>mcs_data = [''ch'' \<mapsto> demo_metered], mcs_poisoned = False\<rparr>, sys_flights = []\<rparr>"
  unfolding metered_run [of b, symmetric]
  by (rule reaches_run) (simp add: metered_events_def no_vouchers_def demo_run)

lemma demo_runs_fresh:
  "reaches (mem_step b demo_externs demo_config) (fresh_open mcs_data) initial_system
     \<lparr>sys_store = \<lparr>mcs_data = [''ch'' \<mapsto> demo_spent], mcs_poisoned = False\<rparr>, sys_flights = []\<rparr>"
  "reaches (mem_step b demo_externs demo_config) (fresh_open mcs_data) initial_system
     \<lparr>sys_store = \<lparr>mcs_data = [''ch'' \<mapsto> demo_metered], mcs_poisoned = False\<rparr>, sys_flights = []\<rparr>"
  by (rule reaches_weaken [OF voucher_run_reached], simp add: no_reservations_def)
    (rule reaches_weaken [OF metered_run_reached], simp add: no_vouchers_def)

lemma overspend_allowed:
  "all_allowed (mem_step b demo_externs demo_config) (fresh_open mcs_data) overspend_events
     initial_system"
  by (simp add: overspend_events_def demo_run delivery_request_new_def)

end
