(* ===== verification/Session_Properties.thy ===== *)
theory Session_Properties
  imports Session_Examples
begin

text \<open>
  The properties of the session server over the in-memory store, each with a concrete instance.
\<close>

section \<open>Every run of the server\<close>

text \<open>
  C2. However requests interleave, and as long as no open is let through for a known session id, the
  watermark of a channel is backed by a voucher: one that names exactly this amount, whose signature
  and expiry are the stored ones, which the channel's authorised signer signed, and which names this
  very channel unless a close has been requested on it.
\<close>

theorem session_watermark_is_signed:
  assumes "reaches (mem_step b X cfg) (fresh_open mcs_data) initial_system t"
    and "channel_of t cid = Some c" and "0 < cs_cumulative c"
  shows "\<exists>voucher.
    parse_u64 (vd_cumulative (sv_data voucher)) = Some (cs_cumulative c) \<and>
    cs_highest_voucher_signature c = Some (sv_signature voucher) \<and>
    cs_highest_voucher_expires_at c = Some (vd_expires_at (sv_data voucher)) \<and>
    signature_valid X voucher (cs_authorized_signer c) \<and>
    (cs_close_requested_at c = None \<longrightarrow> vd_channel_id (sv_data voucher) = cid)"
proof -
  have "backed X cid c"
    using mem_sessions.run_backed [OF assms(1) initial_inv] assms(2)
    by (simp add: mem_sessions.sys_inv_def)
  with assms(3) show ?thesis by (auto simp: backed_def covers_def)
qed

theorem session_watermark_is_signed_witness:
  "\<exists>voucher. parse_u64 (vd_cumulative (sv_data voucher)) = Some 60 \<and>
    signature_valid demo_externs voucher ''signer'' \<and> vd_channel_id (sv_data voucher) = ''ch''"
  using session_watermark_is_signed [OF demo_runs_fresh(1), where cid = "''ch''" and c = demo_spent]
  by (auto simp: demo_spent_def demo_channel_def)

text \<open>
  C29. From any state on, whatever requests arrive (but for an open of a known id), a channel stays
  known, keeps its signer and payer, never loses watermark, deposit or committed deliveries, stays
  finalized or close-pending once it is, and once it is, its watermark, the highest voucher and the
  deliveries are frozen.
\<close>

theorem session_channels_progress:
  assumes "reaches (mem_step b X cfg) (fresh_open mcs_data) s t"
    and "channel_of s cid = Some c"
  shows "\<exists>d. channel_of t cid = Some d \<and> progress c d"
  using mem_sessions.run_progress [OF assms(1) _ assms(2)] by simp

theorem session_channels_progress_witness:
  "\<exists>d. channel_of (session_step Debug_Build memory_channel_ops demo_externs demo_config
          (EvFinalize ''ch'') \<lparr>sys_store = demo_store, sys_flights = []\<rparr>) ''ch'' = Some d \<and>
       progress demo_channel d"
proof (rule session_channels_progress)
  show "reaches (mem_step Debug_Build demo_externs demo_config) (fresh_open mcs_data)
      \<lparr>sys_store = demo_store, sys_flights = []\<rparr>
      (mem_step Debug_Build demo_externs demo_config (EvFinalize ''ch'')
        \<lparr>sys_store = demo_store, sys_flights = []\<rparr>)"
    by (rule reaches_step [OF reaches_refl]) (simp add: fresh_open_def)
qed (simp add: demo_store_def)

text \<open>
  C30. As long as the server reserves no deliveries and no known channel is opened again, no interleaving of
  opens, vouchers, top-ups, closes and finalizations takes a watermark beyond the deposit, although the closure of
  \<^verbatim>\<open>verify_voucher\<close> no longer looks at it.
\<close>

theorem session_watermark_within_deposit:
  assumes "reaches (mem_step b X cfg) (no_reservations mcs_data) initial_system t"
    and "channel_of t cid = Some c"
  shows "cs_cumulative c \<le> cs_deposit c"
  using mem_sessions.run_solvent [OF assms(1) initial_inv] assms(2)
  by (simp add: mem_sessions.sys_inv_def solvent_def)

theorem session_watermark_within_deposit_witness:
  "cs_cumulative demo_spent \<le> cs_deposit demo_spent"
  by (rule session_watermark_within_deposit [OF voucher_run_reached, where cid = "''ch''"]) simp

text \<open>
  C31. In a build with overflow checks, without plain vouchers, and as long as no known channel is opened
  again, metered deliveries are solvent in every interleaving: the watermark stays within the deposit, and on a
  channel that is neither finalized nor asked to close the outstanding reservations fit on top of it.  (A close
  may spend what is reserved; the reservations cannot be committed after it.)
\<close>

theorem session_reservations_within_deposit:
  assumes "reaches (mem_step Debug_Build X cfg) (no_vouchers mcs_data) initial_system t"
    and "channel_of t cid = Some c"
  shows "cs_cumulative c \<le> cs_deposit c \<and>
    (cs_close_requested_at c = None \<and> \<not> cs_finalized c \<longrightarrow>
       unat (cs_cumulative c) + sum_list (map (unat \<circ> pd_amount) (cs_pending_deliveries c)) \<le>
       unat (cs_deposit c))"
  using mem_sessions.run_metered [OF assms(1) initial_inv] assms(2)
  by (simp add: mem_sessions.sys_inv_def metered_solvent_def solvent_def closed_def reserved_def)

theorem session_reservations_within_deposit_witness:
  "cs_cumulative demo_metered \<le> cs_deposit demo_metered \<and>
   unat (cs_cumulative demo_metered) + reserved demo_metered \<le> unat (cs_deposit demo_metered)"
  using session_reservations_within_deposit
    [OF metered_run_reached, where cid = "''ch''" and c = demo_metered]
  by (simp add: demo_metered_def demo_channel_def reserved_def)

text \<open>
  C32. Deliveries are accounted for exactly once: in every run in which no known channel is opened again the ids
  of pending and committed deliveries of a channel are distinct, and all amounts ever committed together are
  covered by the watermark.
\<close>

theorem session_deliveries_billed_once:
  assumes "reaches (mem_step b X cfg) (fresh_open mcs_data) initial_system t"
    and "channel_of t cid = Some c"
  shows "distinct (map pd_delivery_id (cs_pending_deliveries c) @
                   map cd_delivery_id (cs_committed_deliveries c)) \<and>
         sum_list (map (unat \<circ> cd_amount) (cs_committed_deliveries c)) \<le> unat (cs_cumulative c)"
  using mem_sessions.run_backed [OF assms(1) initial_inv] assms(2)
  by (simp add: mem_sessions.sys_inv_def ledger_def delivery_ids_def billed_def)

theorem session_deliveries_billed_once_witness:
  "sum_list (map (unat \<circ> cd_amount) (cs_committed_deliveries demo_metered)) \<le>
   unat (cs_cumulative demo_metered)"
  using session_deliveries_billed_once [OF demo_runs_fresh(2), where cid = "''ch''" and c = demo_metered]
  by simp

text \<open>
  A plain voucher and a commit can spend the same money: \<^verbatim>\<open>verify_voucher\<close> ignores what is reserved
  and \<^verbatim>\<open>process_commit\<close> never compares with the deposit, so a run of ordinary requests ends with a
  watermark of 200 on a deposit of 100.
\<close>

theorem session_commit_exceeds_deposit:
  "all_allowed (mem_step b demo_externs demo_config) (fresh_open mcs_data) overspend_events
     initial_system \<and>
   (\<exists>c. channel_of (run_events (mem_step b demo_externs demo_config) overspend_events initial_system)
          ''ch'' = Some c \<and> cs_cumulative c = 200 \<and> cs_deposit c = 100)"
  by (simp add: overspend_run demo_channel_def overspend_allowed)

section \<open>Single requests\<close>

text \<open>
  C34. \<^verbatim>\<open>verify_voucher\<close> answers Ok exactly when the channel is known and open, the cumulative parses,
  the voucher has not expired and carries a valid signature of the channel's signer, and it is
  either the voucher accepted last or raises the watermark by at least the minimum delta within the
  deposit; the answer is the cumulative.
\<close>

theorem verify_voucher_accepts_exactly:
  assumes "\<not> mcs_poisoned s"
  shows "snd (verify_voucher memory_channel_ops X cfg s \<lparr>vp_voucher = v\<rparr>) = Ok n \<longleftrightarrow>
    (\<exists>c. mcs_data s (vd_channel_id (sv_data v)) = Some c \<and>
      \<not> cs_finalized c \<and> cs_close_requested_at c = None \<and>
      parse_u64 (vd_cumulative (sv_data v)) = Some n \<and>
      \<not> vd_expires_at (sv_data v) \<le>s clock X 0 \<and>
      signature_valid X v (cs_authorized_signer c) \<and>
      (n = cs_cumulative c \<and> cs_highest_voucher_signature c = Some (sv_signature v) \<or>
       cs_cumulative c < n \<and> n \<le> cs_deposit c \<and>
         sc_min_voucher_delta cfg \<le> n - cs_cumulative c))"
    (is "?ok \<longleftrightarrow> ?cond")
proof
  assume ?ok
  then obtain s' where "verify_voucher memory_channel_ops X cfg s \<lparr>vp_voucher = v\<rparr> = (s', Ok n)"
    by (metis prod.collapse)
  then show ?cond
    by (rule mem_sessions.verify_voucher_sound) (auto simp: voucher_acceptable_def closed_def)
next
  assume ?cond
  then obtain c where c: "mcs_data s (vd_channel_id (sv_data v)) = Some c"
    "voucher_acceptable X cfg v c n"
    by (auto simp: voucher_acceptable_def closed_def)
  from assms c obtain s' where "verify_voucher memory_channel_ops X cfg s \<lparr>vp_voucher = v\<rparr> = (s', Ok n)"
    by (rule mem_sessions.verify_voucher_accepts)
  then show ?ok by simp
qed

theorem verify_voucher_accepts_exactly_witness:
  "snd (verify_voucher memory_channel_ops demo_externs demo_config demo_store
     \<lparr>vp_voucher = demo_voucher ''ch'' 60\<rparr>) = Ok 60"
  using verify_voucher_accepts_exactly
    [of demo_store demo_externs demo_config "demo_voucher ''ch'' 60" 60]
  by (simp add: demo_store_def demo_channel_def demo_config_def session_config_default_def)

text \<open>
  Vouchers are idempotent: a voucher that was just accepted is accepted again as long as it has
  not expired, with the same answer and without any effect on the store.
\<close>

theorem verify_voucher_idempotent:
  assumes "verify_voucher memory_channel_ops X cfg s \<lparr>vp_voucher = v\<rparr> = (s', Ok n)"
    and "\<not> vd_expires_at (sv_data v) \<le>s later"
  shows "verify_voucher memory_channel_ops (X\<lparr>clock := (\<lambda>_. later)\<rparr>) cfg s' \<lparr>vp_voucher = v\<rparr> =
    (s', Ok n)"
  using assms by (intro mem_sessions.verify_voucher_replay [OF assms(1)]) simp_all

theorem verify_voucher_idempotent_witness:
  "\<exists>s'. verify_voucher memory_channel_ops (demo_externs\<lparr>clock := (\<lambda>_. 4102444799)\<rparr>) demo_config s'
     \<lparr>vp_voucher = demo_voucher ''ch'' 60\<rparr> = (s', Ok 60)"
proof -
  obtain s' where "verify_voucher memory_channel_ops demo_externs demo_config demo_store
     \<lparr>vp_voucher = demo_voucher ''ch'' 60\<rparr> = (s', Ok 60)"
    by (simp add: demo_run verify_voucher_def demo_store_def demo_channel_def)
  then show ?thesis
    using verify_voucher_idempotent [of _ _ _ _ _ _ 4102444799] demo_expiry_edge by fastforce
qed

text \<open>
  Commits are idempotent: repeating a commit that was answered with a receipt gives the same
  receipt, marked as a replay, and stores nothing, so a lost response never bills a delivery twice.
\<close>

theorem process_commit_idempotent:
  assumes "process_commit memory_channel_ops X s p = (s', Ok r)"
    and "\<not> vd_expires_at (sv_data (cp_voucher p)) \<le>s later"
  shows "process_commit memory_channel_ops (X\<lparr>clock := (\<lambda>_. later)\<rparr>) s' p =
    (s', Ok (r\<lparr>cr_status := Replayed\<rparr>))"
  using assms by (intro mem_sessions.process_commit_replay [OF assms(1)]) simp_all

theorem process_commit_idempotent_witness:
  "process_commit memory_channel_ops (demo_externs\<lparr>clock := (\<lambda>_. 100)\<rparr>)
     \<lparr>mcs_data = [''ch'' \<mapsto> demo_metered], mcs_poisoned = False\<rparr>
     \<lparr>cp_delivery_id = ''d1'', cp_voucher = demo_voucher ''ch'' 30\<rparr> =
   (\<lparr>mcs_data = [''ch'' \<mapsto> demo_metered], mcs_poisoned = False\<rparr>,
    Ok \<lparr>cr_delivery_id = ''d1'', cr_session_id = ''ch'', cr_amount = show_u64 30,
        cr_cumulative = show_u64 30, cr_status = Replayed\<rparr>)"
proof -
  have "process_commit memory_channel_ops demo_externs
     \<lparr>mcs_data = [''ch'' \<mapsto> demo_metered], mcs_poisoned = False\<rparr>
     \<lparr>cp_delivery_id = ''d1'', cp_voucher = demo_voucher ''ch'' 30\<rparr> =
   (\<lparr>mcs_data = [''ch'' \<mapsto> demo_metered], mcs_poisoned = False\<rparr>,
    Ok \<lparr>cr_delivery_id = ''d1'', cr_session_id = ''ch'', cr_amount = show_u64 30,
        cr_cumulative = show_u64 30, cr_status = Replayed\<rparr>)"
    by (simp add: demo_run process_commit_def demo_metered_def demo_channel_def)
  from process_commit_idempotent [OF this, of 100] show ?thesis by simp
qed

lemma process_commit_Ok:
  assumes "\<not> mcs_poisoned s"
  shows "snd (process_commit memory_channel_ops X s p) = Ok r \<longleftrightarrow>
    (\<exists>c n answer. mcs_data s (vd_channel_id (sv_data (cp_voucher p))) = Some c \<and>
       parse_u64 (vd_cumulative (sv_data (cp_voucher p))) = Some n \<and>
       process_commit_checks X p n c = Ok answer \<and>
       (case answer of
          Inl receipt \<Rightarrow> r = receipt
        | Inr now \<Rightarrow> (\<exists>y d. process_commit_update p n now NoOutput (Some c) = (y, Ok d) \<and>
            commit_receipt_of p y = Ok r)))"
proof -
  have read: "process_commit_read memory_channel_ops X s p = Ok (n, answer) \<longleftrightarrow>
     (\<exists>c. mcs_data s (vd_channel_id (sv_data (cp_voucher p))) = Some c \<and>
       parse_u64 (vd_cumulative (sv_data (cp_voucher p))) = Some n \<and>
       process_commit_checks X p n c = Ok answer)" for n answer
    using assms by (simp add: mem_sessions.process_commit_read_Ok)
  show ?thesis
  proof (cases "process_commit_read memory_channel_ops X s p")
    case (Ok na)
    obtain n answer where na: "na = (n, answer)" by fastforce
    with Ok read obtain c where c: "mcs_data s (vd_channel_id (sv_data (cp_voucher p))) = Some c"
      "parse_u64 (vd_cumulative (sv_data (cp_voucher p))) = Some n" "process_commit_checks X p n c = Ok answer" by auto
    show ?thesis
    proof (cases answer)
      case (Inl receipt)
      with Ok na c show ?thesis by (auto simp: process_commit_def)
    next
      case (Inr now)
      obtain y z where u: "process_commit_update p n now NoOutput (Some c) = (y, z)" by fastforce
      then show ?thesis using Ok na c Inr assms
        by (cases z) (auto simp: process_commit_def memory_channel_ops_def mem_update_channel_def)
    qed
  next
    case (Err e)
    with read have "\<nexists>n answer c. mcs_data s (vd_channel_id (sv_data (cp_voucher p))) = Some c \<and>
       parse_u64 (vd_cumulative (sv_data (cp_voucher p))) = Some n \<and> process_commit_checks X p n c = Ok answer"
      by (metis result.distinct(1))
    with Err show ?thesis by (auto simp: process_commit_def)
  next
    case Panic
    with read have "\<nexists>n answer c. mcs_data s (vd_channel_id (sv_data (cp_voucher p))) = Some c \<and>
       parse_u64 (vd_cumulative (sv_data (cp_voucher p))) = Some n \<and> process_commit_checks X p n c = Ok answer"
      by (metis result.distinct(3))
    with Panic show ?thesis by (auto simp: process_commit_def)
  qed
qed

text \<open>
  C33. \<^verbatim>\<open>process_commit\<close> answers a receipt exactly in two cases.  A delivery that was committed before is answered
  again, with what was committed, for the same cumulative and signature.  A reserved delivery is committed when
  the channel is open, the reservation has not expired, the cumulative is above the watermark by no more than
  was reserved, and the voucher has not expired and is signed by the signer of the channel.  The deposit is not
  looked at: what a plain voucher has spent of a reservation is spent again.
\<close>

theorem process_commit_accepts_exactly:
  assumes "\<not> mcs_poisoned s"
  shows "snd (process_commit memory_channel_ops X s p) = Ok r \<longleftrightarrow>
    (\<exists>c n. mcs_data s (vd_channel_id (sv_data (cp_voucher p))) = Some c \<and>
       parse_u64 (vd_cumulative (sv_data (cp_voucher p))) = Some n \<and>
       signature_valid X (cp_voucher p) (cs_authorized_signer c) \<and>
       (case find (\<lambda>d. cd_delivery_id d = cp_delivery_id p) (cs_committed_deliveries c) of
          Some d \<Rightarrow>
            cd_cumulative d = n \<and> cd_voucher_signature d = sv_signature (cp_voucher p) \<and>
            \<not> vd_expires_at (sv_data (cp_voucher p)) \<le>s clock X 0 \<and>
            r = \<lparr>cr_delivery_id = cp_delivery_id p, cr_session_id = vd_channel_id (sv_data (cp_voucher p)),
                 cr_amount = show_u64 (cd_amount d), cr_cumulative = show_u64 n, cr_status = Replayed\<rparr>
        | None \<Rightarrow>
            \<not> cs_finalized c \<and> cs_close_requested_at c = None \<and>
            (\<exists>d. find (\<lambda>d. pd_delivery_id d = cp_delivery_id p) (cs_pending_deliveries c) = Some d \<and>
               \<not> pd_expires_at d \<le>s clock X 0 \<and> cs_cumulative c < n \<and> n - cs_cumulative c \<le> pd_amount d) \<and>
            \<not> vd_expires_at (sv_data (cp_voucher p)) \<le>s clock X 1 \<and>
            r = \<lparr>cr_delivery_id = cp_delivery_id p, cr_session_id = vd_channel_id (sv_data (cp_voucher p)),
                 cr_amount = show_u64 (n - cs_cumulative c), cr_cumulative = show_u64 n, cr_status = Committed\<rparr>))"
proof -
  have "(\<exists>answer. process_commit_checks X p n c = Ok answer \<and>
       (case answer of
          Inl receipt \<Rightarrow> r = receipt
        | Inr now \<Rightarrow> (\<exists>y d. process_commit_update p n now NoOutput (Some c) = (y, Ok d) \<and>
            commit_receipt_of p y = Ok r))) \<longleftrightarrow>
       signature_valid X (cp_voucher p) (cs_authorized_signer c) \<and>
       (case find (\<lambda>d. cd_delivery_id d = cp_delivery_id p) (cs_committed_deliveries c) of
          Some d \<Rightarrow>
            cd_cumulative d = n \<and> cd_voucher_signature d = sv_signature (cp_voucher p) \<and>
            \<not> vd_expires_at (sv_data (cp_voucher p)) \<le>s clock X 0 \<and>
            r = \<lparr>cr_delivery_id = cp_delivery_id p, cr_session_id = vd_channel_id (sv_data (cp_voucher p)),
                 cr_amount = show_u64 (cd_amount d), cr_cumulative = show_u64 n, cr_status = Replayed\<rparr>
        | None \<Rightarrow>
            \<not> cs_finalized c \<and> cs_close_requested_at c = None \<and>
            (\<exists>d. find (\<lambda>d. pd_delivery_id d = cp_delivery_id p) (cs_pending_deliveries c) = Some d \<and>
               \<not> pd_expires_at d \<le>s clock X 0 \<and> cs_cumulative c < n \<and> n - cs_cumulative c \<le> pd_amount d) \<and>
            \<not> vd_expires_at (sv_data (cp_voucher p)) \<le>s clock X 1 \<and>
            r = \<lparr>cr_delivery_id = cp_delivery_id p, cr_session_id = vd_channel_id (sv_data (cp_voucher p)),
                 cr_amount = show_u64 (n - cs_cumulative c), cr_cumulative = show_u64 n, cr_status = Committed\<rparr>)"
    for c n
  proof (cases "find (\<lambda>d. cd_delivery_id d = cp_delivery_id p) (cs_committed_deliveries c)")
    case (Some d)
    then show ?thesis
      by (auto simp: process_commit_checks_def Let_def verify_signature_Ok)
  next
    case None
    show ?thesis
    proof (cases "find (\<lambda>d. pd_delivery_id d = cp_delivery_id p) (cs_pending_deliveries c)")
      case (Some d)
      with None show ?thesis
        by (auto simp: process_commit_checks_def process_commit_update_def commit_receipt_of_def Let_def
            verify_signature_Ok not_le not_less)
    qed (simp add: None process_commit_checks_def)
  qed
  then show ?thesis unfolding process_commit_Ok [OF assms] by blast
qed

text \<open>A channel whose deposit of 100 a voucher has spent, with 100 reserved: a commit of 200 is accepted.\<close>

theorem process_commit_accepts_exactly_witness:
  "snd (process_commit memory_channel_ops demo_externs
     \<lparr>mcs_data = [''ch'' \<mapsto> demo_channel\<lparr>cs_cumulative := 100, cs_highest_voucher_signature := Some ''sig'',
        cs_pending_deliveries := [\<lparr>pd_delivery_id = ''d1'', pd_amount = 100, pd_sequence = 1,
          pd_expires_at = 4102444800\<rparr>]\<rparr>], mcs_poisoned = False\<rparr>
     \<lparr>cp_delivery_id = ''d1'', cp_voucher = demo_voucher ''ch'' 200\<rparr>) =
   Ok \<lparr>cr_delivery_id = ''d1'', cr_session_id = ''ch'', cr_amount = show_u64 100, cr_cumulative = show_u64 200,
       cr_status = Committed\<rparr>"
  by (subst process_commit_accepts_exactly) (simp_all add: demo_channel_def)

text \<open>
  C35. Close hands settlement what the channel ends with: it succeeds on an open channel only, the
  channel is close-pending afterwards, and the parameters carry its final watermark together with
  the signature and expiry stored for it, the configured recipient and splits and the hash of
  those splits.
\<close>

theorem process_close_settles_final_state:
  assumes "process_close memory_channel_ops X cfg s p = (s', Ok fp)"
  shows "\<exists>c d. mcs_data s (cl_channel_id p) = Some c \<and> \<not> closed c \<and>
    mcs_data s' = (mcs_data s)(cl_channel_id p \<mapsto> d) \<and> progress c d \<and>
    cs_close_requested_at d = Some (clock X 0) \<and>
    (cs_cumulative c \<le> cs_deposit c \<longrightarrow> cs_cumulative d \<le> cs_deposit d) \<and>
    fp_settled fp = cs_cumulative d \<and>
    fp_voucher_signature fp = cs_highest_voucher_signature d \<and>
    fp_voucher_expires_at fp = cs_highest_voucher_expires_at d \<and>
    bs58_decode X (cl_channel_id p) = Ok (pubkey_bytes (fp_channel_id fp)) \<and>
    bs58_decode X (sc_recipient cfg) = Ok (pubkey_bytes (fp_recipient fp)) \<and>
    fp_splits fp = sc_splits cfg \<and>
    fp_distribution_hash fp = distribution_hash X (config_recipients cfg)"
  using assms
proof (rule mem_sessions.process_close_sound)
  fix c d
  assume *: "process_close_update X (cl_voucher p) (clock X 0) NoOutput (Some c) = (NoOutput, Ok d)"
    and rest: "mcs_data s (cl_channel_id p) = Some c" "\<not> closed c"
    "mcs_data s' = (mcs_data s)(cl_channel_id p \<mapsto> d)"
    "fp_settled fp = cs_cumulative d" "fp_voucher_signature fp = cs_highest_voucher_signature d"
    "fp_voucher_expires_at fp = cs_highest_voucher_expires_at d"
    "bs58_decode X (cl_channel_id p) = Ok (pubkey_bytes (fp_channel_id fp))"
    "bs58_decode X (sc_recipient cfg) = Ok (pubkey_bytes (fp_recipient fp))"
    "fp_splits fp = sc_splits cfg"
    "fp_distribution_hash fp = distribution_hash X (config_recipients cfg)"
  have "cs_close_requested_at d = Some (clock X 0)"
    using * by (rule process_close_update_Ok) auto
  with rest process_close_progress [OF *] close_solvent(1) [OF *] show ?thesis
    by (auto simp: solvent_def)
qed

theorem process_close_settles_final_state_witness:
  "\<exists>d. cs_close_requested_at d = Some 100 \<and> progress demo_channel d \<and> cs_cumulative d = 60"
proof -
  let ?p = "\<lparr>cl_channel_id = ''ch'', cl_voucher = Some (demo_voucher ''ch'' 60)\<rparr>"
  obtain s' fp where run: "process_close memory_channel_ops demo_externs
      (demo_config\<lparr>sc_program_id := Some demo_key\<rparr>) demo_store ?p = (s', Ok fp)"
    and "fp_settled fp = 60"
    by (simp add: demo_run process_close_def process_close_update_def finalize_params_def
        demo_store_def demo_channel_def session_parse_pubkey_def config_program_id_def
        demo_bs58 try_into_array_def)
  with process_close_settles_final_state [OF run] show ?thesis
    by (auto simp: demo_store_def)
qed

end
