(* ===== verification/Session_Request_Properties.thy ===== *)
theory Session_Request_Properties
  imports Session_Examples
begin

text \<open>
  More properties of single requests to the session server: reservations, opens, what is signed,
  and three requests the server should not have accepted.
\<close>

section \<open>Reservations\<close>

text \<open>
  C36. In a build with overflow checks \<^verbatim>\<open>begin_delivery\<close> grants a reservation exactly when the channel is
  known and open, the amount is positive and fits the deposit together with the watermark and all
  outstanding reservations, the sequence number can still be incremented, and the delivery id has
  never been used on the channel.
\<close>

theorem begin_delivery_grants_exactly:
  assumes "\<not> mcs_poisoned s"
  shows "is_ok (snd (begin_delivery Debug_Build memory_channel_ops cfg s q)) \<longleftrightarrow>
    (\<exists>c. mcs_data s (dr_session_id q) = Some c \<and> \<not> closed c \<and> dr_amount q \<noteq> 0 \<and>
      unat (cs_cumulative c) + reserved c + unat (dr_amount q) \<le> unat (cs_deposit c) \<and>
      unat (cs_next_delivery_sequence c) + 1 < 2 ^ 64 \<and>
      reservation_id q (cs_next_delivery_sequence c + 1) \<notin> set (delivery_ids c))"
    (is "?ok \<longleftrightarrow> ?cond")
proof
  assume ?ok
  then obtain s' directive where
    "begin_delivery Debug_Build memory_channel_ops cfg s q = (s', Ok directive)"
    by (metis is_ok_iff prod.collapse)
  then show ?cond
  proof (rule mem_sessions.begin_delivery_sound)
    fix c d
    assume c: "mcs_data s (dr_session_id q) = Some c" "\<not> closed c" "dr_amount q \<noteq> 0"
      and step: "begin_delivery_update Debug_Build cfg q NoOutput (Some c) = (DirectiveOut directive, Ok d)"
    have "unat (cs_cumulative d) + reserved d \<le> unat (cs_deposit d)"
      using step by (rule begin_delivery_total) (simp add: sums_fit_def)
    moreover have "cs_cumulative d = cs_cumulative c" "cs_deposit d = cs_deposit c"
      "reserved d = reserved c + unat (dr_amount q)"
      using step by (cases rule: begin_delivery_update_Ok; simp add: reserved_def)+
    moreover have "unat (cs_next_delivery_sequence c) + 1 < 2 ^ 64 \<and>
        reservation_id q (cs_next_delivery_sequence c + 1) \<notin> set (delivery_ids c)"
      using step
      by (cases rule: begin_delivery_update_Ok)
        (auto simp: add_u64_def delivery_ids_def split: if_splits)
    ultimately show ?cond using c by auto
  qed
next
  assume ?cond
  then obtain c where c: "mcs_data s (dr_session_id q) = Some c" "\<not> closed c" "dr_amount q \<noteq> 0"
    "unat (cs_cumulative c) + reserved c + unat (dr_amount q) \<le> unat (cs_deposit c)"
    "unat (cs_next_delivery_sequence c) + 1 < 2 ^ 64"
    "reservation_id q (cs_next_delivery_sequence c + 1) \<notin> set (delivery_ids c)" by blast
  show ?ok
    by (rule mem_sessions.begin_delivery_grants [OF assms c, of Debug_Build cfg]) simp
qed

theorem begin_delivery_grants_exactly_witness:
  "is_ok (snd (begin_delivery Debug_Build memory_channel_ops demo_config demo_store
     \<lparr>dr_session_id = ''ch'', dr_amount = 40, dr_delivery_id = Some ''d1'', dr_commit_url = None,
      dr_proof = None, dr_expires_at = None\<rparr>))"
  by (subst begin_delivery_grants_exactly)
    (simp_all add: demo_store_def demo_channel_def closed_def reserved_def delivery_ids_def
      reservation_id_def)

text \<open>
  C37. An amount that overflows the sum of watermark, reservations and amount panics inside the
  closure in a build with overflow checks, while the store's mutex is held: the request is not
  answered with an error, nothing is stored, and from then on every operation of the store, with whatever
  arguments, panics and leaves the store as it is.
\<close>

theorem begin_delivery_overflow_poisons_store:
  fixes u :: "'c updater"
  assumes "mcs_data s (dr_session_id q) = Some c" and "\<not> mcs_poisoned s" and "\<not> closed c"
    and "2 ^ 64 \<le> unat (cs_cumulative c) + reserved c + unat (dr_amount q)"
    and "dr_amount q \<noteq> 0"
    and "begin_delivery Debug_Build memory_channel_ops cfg s q = (s', r)"
  shows "r = Panic \<and> mcs_data s' = mcs_data s \<and>
    mem_get_channel s' k = Panic \<and> mem_put_channel s' k new = (s', Panic) \<and>
    mem_update_channel s' k u x = (s', x, Panic) \<and> mem_advance_cumulative s' k m n = (s', Panic) \<and>
    mem_update_deposit s' k n = (s', Panic) \<and> mem_mark_finalized s' k = (s', Panic)"
proof -
  have "begin_delivery_update Debug_Build cfg q NoOutput (Some c) = (NoOutput, Panic)"
  proof (cases "sum_u64 Debug_Build 0 (map pd_amount (cs_pending_deliveries c)) :: (u64, store_error) result")
    case (Ok pending_total)
    then have p: "unat pending_total = reserved c" by (auto simp: reserved_def dest: sum_u64_Debug)
    show ?thesis
    proof (cases "unat (cs_cumulative c) + unat pending_total < 2 ^ 64")
      case True
      then have "\<not> unat (cs_cumulative c + pending_total) + unat (dr_amount q) < 2 ^ 64"
        using unat_add_small [of "cs_cumulative c" pending_total] p assms(4) by simp
      with Ok True assms(3) show ?thesis
        by (simp add: begin_delivery_update_def Let_def closed_def add_u64_def)
    next
      case False
      with Ok assms(3) show ?thesis
        by (simp add: begin_delivery_update_def Let_def closed_def add_u64_def)
    qed
  next
    case Panic
    with assms(3) show ?thesis by (simp add: begin_delivery_update_def Let_def closed_def)
  qed simp
  with assms(1,2,5,6) have "r = Panic \<and> mcs_poisoned s' \<and> mcs_data s' = mcs_data s"
    by (auto simp: begin_delivery_def memory_channel_ops_def mem_update_channel_def)
  then show ?thesis
    by (simp add: mem_get_channel_def mem_put_channel_def mem_mark_finalized_def mem_update_channel_def
        mem_advance_cumulative_def mem_update_deposit_def)
qed

theorem begin_delivery_overflow_poisons_store_witness:
  "\<exists>s'. begin_delivery Debug_Build memory_channel_ops demo_config
     \<lparr>mcs_data = [''ch'' \<mapsto> demo_spent], mcs_poisoned = False\<rparr> (delivery_request_new ''ch'' (- 60)) =
   (s', Panic) \<and> mem_get_channel s' ''other'' = Panic \<and>
   mem_update_channel s' ''other'' (\<lambda>y so. (y, Ok demo_channel)) () = (s', (), Panic)"
proof -
  let ?s = "\<lparr>mcs_data = [''ch'' \<mapsto> demo_spent], mcs_poisoned = False\<rparr>"
  let ?q = "delivery_request_new ''ch'' (- 60)"
  obtain s' r where run: "begin_delivery Debug_Build memory_channel_ops demo_config ?s ?q = (s', r)"
    by fastforce
  have "r = Panic \<and> mcs_data s' = mcs_data ?s \<and>
      mem_get_channel s' ''other'' = Panic \<and> mem_put_channel s' ''other'' demo_channel = (s', Panic) \<and>
      mem_update_channel s' ''other'' (\<lambda>y so. (y, Ok demo_channel)) () = (s', (), Panic) \<and>
      mem_advance_cumulative s' ''other'' 0 0 = (s', Panic) \<and> mem_update_deposit s' ''other'' 0 = (s', Panic) \<and>
      mem_mark_finalized s' ''other'' = (s', Panic)"
    by (rule begin_delivery_overflow_poisons_store [OF _ _ _ _ _ run, where c = demo_spent])
      (simp_all add: delivery_request_new_def demo_spent_def demo_channel_def closed_def reserved_def)
  with run show ?thesis by blast
qed

text \<open>
  In a release build the same sum wraps, so a reservation far beyond the deposit is granted.
\<close>

theorem begin_delivery_overflow_grants:
  "\<exists>s' directive c. begin_delivery Release_Build memory_channel_ops demo_config
     \<lparr>mcs_data = [''ch'' \<mapsto> demo_spent], mcs_poisoned = False\<rparr>
     ((delivery_request_new ''ch'' (- 60))\<lparr>dr_delivery_id := Some ''d1''\<rparr>) = (s', Ok directive) \<and>
   mcs_data s' ''ch'' = Some c \<and> unat (cs_deposit c) = 100 \<and> reserved c = 2 ^ 64 - 60"
  by (simp add: demo_run delivery_request_new_def demo_spent_def demo_channel_def reserved_def)

section \<open>Opens\<close>

text \<open>
  \<^verbatim>\<open>process_open\<close> answers Ok exactly when the mode is offered, the session id and the deposit can be
  read from the payload, the deposit is positive and within the cap, and, for a push session with an
  RPC node configured, the node knows the open transaction as successful.
\<close>

theorem process_open_accepts_exactly:
  assumes "\<not> mcs_poisoned s"
  shows "is_ok (snd (process_open memory_channel_ops X cfg s p)) \<longleftrightarrow>
    supports_mode cfg (op_mode p) \<and> is_ok (session_id p) \<and>
    (\<exists>deposit. deposit_amount p = Ok deposit \<and> 0 < deposit \<and> deposit \<le> sc_max_cap cfg) \<and>
    (op_mode p = Push \<longrightarrow>
      (\<forall>url. sc_rpc_url cfg = Some url \<longrightarrow>
        (\<exists>sig. parse_tx_signature X (op_signature p) = Ok sig \<and>
               signature_status X url sig = Ok (Some (Ok ())))))"
proof -
  have rpc: "verify_open_signature X sig url = Ok () \<longleftrightarrow>
      (\<exists>bytes. parse_tx_signature X sig = Ok bytes \<and> signature_status X url bytes = Ok (Some (Ok ())))"
    for sig url
    by (cases "parse_tx_signature X sig"; cases "signature_status X url (the (ok_value (parse_tx_signature X sig)))")
      (auto simp: verify_open_signature_def split: option.splits result.splits)
  have "is_ok (snd (process_open memory_channel_ops X cfg s p)) \<longleftrightarrow>
      is_ok (process_open_checks X cfg p)"
    using assms
    by (cases "process_open_checks X cfg p")
      (simp_all add: process_open_def memory_channel_ops_def mem_put_channel_def)
  also have "\<dots> \<longleftrightarrow> supports_mode cfg (op_mode p) \<and> is_ok (session_id p) \<and>
    (\<exists>deposit. deposit_amount p = Ok deposit \<and> 0 < deposit \<and> deposit \<le> sc_max_cap cfg) \<and>
    (op_mode p = Push \<longrightarrow>
      (\<forall>url. sc_rpc_url cfg = Some url \<longrightarrow> verify_open_signature X (op_signature p) url = Ok ()))"
    by (cases "session_id p"; cases "deposit_amount p")
      (auto simp: process_open_checks_def is_ok_rbind_Ok is_ok_iff not_less word_neq_0_conv
        split: option.splits)
  finally show ?thesis by (simp add: rpc)
qed

theorem process_open_accepts_exactly_witness:
  "is_ok (snd (process_open memory_channel_ops demo_externs (demo_config\<lparr>sc_rpc_url := Some ''url''\<rparr>)
     memory_channel_store_new demo_open))"
  by (subst process_open_accepts_exactly)
    (auto simp: memory_channel_store_new_def demo_open_def open_push_def session_id_def
      supports_mode_def demo_config_def session_config_default_def demo_externs_def)

text \<open>
  C38. Whatever was stored for the session id before, an accepted open replaces it by a fresh, open
  channel with watermark zero and no deliveries: a repeated open forgets all that was spent, and
  revives a channel that was closed or finalized.
\<close>

theorem process_open_forgets:
  assumes "process_open memory_channel_ops X cfg s p = (s', Ok c)"
  shows "mcs_data s' = (mcs_data s)(cs_channel_id c \<mapsto> c) \<and> session_id p = Ok (cs_channel_id c) \<and>
    deposit_amount p = Ok (cs_deposit c) \<and> cs_cumulative c = 0 \<and> \<not> closed c \<and>
    cs_pending_deliveries c = [] \<and> cs_committed_deliveries c = []"
proof -
  from assms have ok: "process_open_checks X cfg p = Ok c"
    and "mcs_data s' = (mcs_data s)(cs_channel_id c \<mapsto> c)"
    by (auto simp: process_open_def memory_channel_ops_def mem_put_channel_def
        split: result.splits if_splits)
  with process_open_checks_Ok [OF ok] show ?thesis by simp
qed

theorem process_open_forgets_witness:
  "\<exists>s'. process_open memory_channel_ops demo_externs demo_config
     \<lparr>mcs_data = [''ch'' \<mapsto> demo_spent\<lparr>cs_finalized := True\<rparr>], mcs_poisoned = False\<rparr> demo_open =
       (s', Ok demo_channel) \<and>
     mcs_data s' = [''ch'' \<mapsto> demo_channel]"
proof -
  let ?s = "\<lparr>mcs_data = [''ch'' \<mapsto> demo_spent\<lparr>cs_finalized := True\<rparr>], mcs_poisoned = False\<rparr>"
  obtain s' where run: "process_open memory_channel_ops demo_externs demo_config ?s demo_open =
      (s', Ok demo_channel)"
    by (simp add: demo_run demo_channel_def)
  from process_open_forgets [OF run] run show ?thesis by (simp add: demo_channel_def)
qed

text \<open>
  The open parameters handed to the on-chain program are the payload's only as far as the
  challenge allows: payee, mint, token program, program id and recipients are the configured ones,
  and the channel address in the payload is the one derived from these parameters.
\<close>

theorem payment_channel_open_params_match_challenge:
  assumes "payment_channel_open_params X cfg p = Ok params"
  shows "session_parse_pubkey X (sc_recipient cfg) = Ok (oc_payee params) \<and>
    expected_payment_channel_mint X cfg = Ok (oc_mint params) \<and>
    config_program_id X cfg = Ok (oc_program_id params) \<and>
    oc_recipients params = config_recipients cfg \<and>
    session_parse_pubkey X (default_token_program_for_currency (sc_currency cfg)
      (Some (sc_network cfg))) = Ok (oc_token_program params) \<and>
    deposit_amount p = Ok (oc_deposit params) \<and>
    op_salt p = Some (oc_salt params) \<and> op_grace_period p = Some (oc_grace_period params) \<and>
    session_parse_pubkey X (op_authorized_signer p) = Ok (oc_authorized_signer params) \<and>
    (\<exists>cid. op_channel_id p = Some cid \<and>
      session_parse_pubkey X cid =
        Ok (fst (find_program_address X
          (channel_seeds (oc_payer params) (oc_payee params) (oc_mint params)
             (oc_authorized_signer params) (oc_salt params)) (oc_program_id params))))"
  using assms
  by (auto simp: payment_channel_open_params_def Let_def parse_pubkey_field_def
      parse_payload_pubkey_def split: if_splits dest!: derived_channel)

theorem payment_channel_open_params_match_challenge_witness:
  "\<exists>params. payment_channel_open_params demo_externs (demo_config\<lparr>sc_program_id := Some demo_key\<rparr>)
      (open_payment_channel ''ch'' (show_u64 100) ''payer'' ''payee'' ''mint'' 7 3600 ''signer'' ''tx'') =
      Ok params \<and> oc_deposit params = 100 \<and> oc_recipients params = []"
proof -
  let ?cfg = "demo_config\<lparr>sc_program_id := Some demo_key\<rparr>"
  let ?p = "open_payment_channel ''ch'' (show_u64 100) ''payer'' ''payee'' ''mint'' 7 3600 ''signer'' ''tx''"
  have mints: "resolve_stablecoin_mint ''USDC'' (Some ''mainnet-beta'') = Some USDC_MAINNET"
    "default_token_program_for_currency ''USDC'' (Some ''mainnet-beta'') = TOKEN_PROGRAM"
    "USDC_MAINNET \<noteq> ''sig''" "TOKEN_PROGRAM \<noteq> ''sig''"
    by code_simp+
  have "\<exists>params. payment_channel_open_params demo_externs ?cfg ?p = Ok params"
    by (simp add: mints payment_channel_open_params_def Let_def parse_pubkey_field_def
        parse_payload_pubkey_def derive_channel_addresses_def find_channel_pda_def
        find_associated_token_address_def find_event_authority_pda_def expect_pubkey_def
        session_parse_pubkey_def demo_externs_def demo_config_def session_config_default_def
        open_payment_channel_def open_payment_channel_with_mode_def try_into_array_def
        config_program_id_def expected_payment_channel_mint_def
        demo_key_def deposit_amount_def)
  then obtain params where run: "payment_channel_open_params demo_externs ?cfg ?p = Ok params" ..
  have "deposit_amount ?p = Ok 100" "config_recipients ?cfg = []"
    by (simp_all add: open_payment_channel_def open_payment_channel_with_mode_def
        config_recipients_def demo_config_def session_config_default_def)
  with run payment_channel_open_params_match_challenge [OF run] show ?thesis by auto
qed

section \<open>What signatures and hashes cover\<close>

text \<open>
  The bytes a voucher signature covers determine the channel, the amount and the expiry: two
  vouchers with the same message authorise the same payment.
\<close>

theorem voucher_message_binds_payment:
  assumes "message_bytes X v = Ok bytes" and "message_bytes X w = Ok bytes"
    and "\<And>s p. pubkey_from_str X s = Ok p \<Longrightarrow> length (pubkey_bytes p) = 32"
  shows "pubkey_from_str X (vd_channel_id v) = pubkey_from_str X (vd_channel_id w) \<and>
    parse_u64 (vd_cumulative v) = parse_u64 (vd_cumulative w) \<and>
    vd_expires_at v = vd_expires_at w"
  using message_bytes_binding [OF assms(1,2)] assms(3) by (simp add: wf_pubkey_def)

theorem voucher_message_binds_payment_witness:
  "parse_u64 (vd_cumulative (sv_data (demo_voucher ''ch'' 60))) = parse_u64 ''60''"
proof -
  have parse: "parse_u64 ''60'' = Some 60"
    by (simp add: parse_u64_def parse_uint_def digit_value_def)
  have m: "message_bytes demo_externs (sv_data (demo_voucher ''ch'' 60)) =
      message_bytes demo_externs
        \<lparr>vd_channel_id = ''ch'', vd_cumulative = ''60'', vd_expires_at = 4102444800, vd_nonce = None\<rparr>"
    by (simp add: message_bytes_def demo_voucher_def parse)
  obtain bytes where "message_bytes demo_externs (sv_data (demo_voucher ''ch'' 60)) = Ok bytes"
    by (simp add: message_bytes_def demo_voucher_def demo_externs_def parse_pubkey_def
        voucher_message_bytes_def)
  with m show ?thesis
    using voucher_message_binds_payment [of demo_externs "sv_data (demo_voucher ''ch'' 60)" bytes
        "\<lparr>vd_channel_id = ''ch'', vd_cumulative = ''60'', vd_expires_at = 4102444800, vd_nonce = None\<rparr>"]
    by (simp add: demo_externs_def demo_key_def)
qed

text \<open>
  The bytes hashed into the distribution commitment determine the list of recipients and
  shares, so two different distributions can share a hash only by a collision of BLAKE3.
\<close>

theorem distribution_commitment_binds_splits:
  assumes "\<forall>d \<in> set ds \<union> set es. length (pubkey_bytes (dist_recipient d)) = 32"
    and "length ds < 2 ^ 32" and "length es < 2 ^ 32"
    and "distribution_hash X ds = distribution_hash X es" and "ds \<noteq> es"
  shows "distribution_preimage ds \<noteq> distribution_preimage es \<and>
    blake3_hash X (distribution_preimage ds) = blake3_hash X (distribution_preimage es)"
  using assms distribution_preimage_inj [of ds es] by (auto simp: distribution_hash_def wf_pubkey_def)

theorem distribution_commitment_binds_splits_witness:
  "distribution_preimage [] \<noteq> distribution_preimage [\<lparr>dist_recipient = demo_key, dist_bps = 100\<rparr>]"
  using distribution_commitment_binds_splits
    [of "[]" "[\<lparr>dist_recipient = demo_key, dist_bps = 100\<rparr>]" demo_externs]
  by (simp add: demo_key_def distribution_hash_def demo_externs_def)

section \<open>A voucher for another channel\<close>

text \<open>
  C39. \<^verbatim>\<open>process_close\<close> does not look at the channel id inside the final voucher: a voucher for another
  channel with the same authorised signer raises the watermark of the channel being closed, although
  the on-chain program will not accept its signature there.
\<close>

theorem process_close_accepts_foreign_voucher:
  assumes "mcs_data s (cl_channel_id p) = Some c" and "\<not> mcs_poisoned s" and "\<not> closed c"
    and "cl_voucher p = Some v" and "vd_channel_id (sv_data v) \<noteq> cl_channel_id p"
    and "parse_u64 (vd_cumulative (sv_data v)) = Some n"
    and "cs_cumulative c < n" and "n \<le> cs_deposit c"
    and "verify_signature X 1 v (cs_authorized_signer c) = Ok ()"
  shows "\<exists>d. mcs_data (fst (process_close memory_channel_ops X cfg s p)) (cl_channel_id p) = Some d \<and>
    cs_cumulative d = n \<and> cs_highest_voucher_signature d = Some (sv_signature v)"
proof -
  have "\<not> n \<le> cs_cumulative c" "\<not> cs_deposit c < n" using assms(7,8) by simp_all
  with assms show ?thesis
    by (simp add: process_close_def process_close_update_def memory_channel_ops_def
        mem_update_channel_def closed_def)
qed

theorem process_close_accepts_foreign_voucher_witness:
  "\<exists>d. mcs_data (fst (process_close memory_channel_ops demo_externs demo_config demo_store
      \<lparr>cl_channel_id = ''ch'', cl_voucher = Some (demo_voucher ''other'' 60)\<rparr>)) ''ch'' = Some d \<and>
    cs_cumulative d = 60"
  using process_close_accepts_foreign_voucher
    [of demo_store "\<lparr>cl_channel_id = ''ch'', cl_voucher = Some (demo_voucher ''other'' 60)\<rparr>"
      demo_channel "demo_voucher ''other'' 60" 60 demo_externs demo_config]
  by (simp add: demo_store_def demo_channel_def closed_def) blast

end
