(* ===== verification/Core_Types.thy ===== *)
theory Core_Types
  imports Json "HOL-Library.List_Lexorder"
begin

text \<open>
  \<^verbatim>\<open>rust/src/protocol/core/types.rs\<close> and \<^verbatim>\<open>challenge.rs\<close>: method and intent names, base64url-encoded
  JSON, challenges with their HMAC-bound ids, credentials and receipts.
\<close>

section \<open>Code outside the repository\<close>

text \<open>
  The crates behind this layer: the \<^verbatim>\<open>URL_SAFE_NO_PAD\<close> engine of \<^verbatim>\<open>base64\<close>, HMAC-SHA256, the canonical
  JSON printer, the JSON parser, RFC 3339 timestamps (as nanoseconds since the epoch) and the clock.
\<close>

record codecs =
  b64_encode :: "byte list \<Rightarrow> string"
  b64_decode :: "string \<Rightarrow> (byte list, string) result"
  hmac_sha256 :: "string \<Rightarrow> string \<Rightarrow> byte list"
  canonical_json :: "json \<Rightarrow> (string, string) result"
  json_from_slice :: "byte list \<Rightarrow> (json, string) result"
  parse_rfc3339 :: "string \<Rightarrow> (int, string) result"
  format_rfc3339 :: "int \<Rightarrow> (string, string) result"
  now_utc :: int

definition string_bytes :: "string \<Rightarrow> byte list" where
  "string_bytes s = map (\<lambda>c. of_nat (of_char c)) s"

section \<open>Names\<close>

datatype method_name = MethodName (method_str: string)

definition method_name_new :: "string \<Rightarrow> method_name" where
  "method_name_new name = MethodName (to_ascii_lowercase name)"

definition method_name_is_valid :: "method_name \<Rightarrow> bool" where
  "method_name_is_valid m = (method_str m \<noteq> [] \<and> list_all is_ascii_lowercase (method_str m))"

datatype intent_name = IntentName (intent_str: string)

definition intent_name_new :: "string \<Rightarrow> intent_name" where
  "intent_name_new name = IntentName (to_ascii_lowercase name)"

definition is_charge :: "intent_name \<Rightarrow> bool" where
  "is_charge i = eq_ignore_ascii_case (intent_str i) ''charge''"

section \<open>Base64url JSON\<close>

datatype base64_url_json = Base64UrlJson (raw: string)

definition base64url_encode :: "codecs \<Rightarrow> byte list \<Rightarrow> string" where
  "base64url_encode K bytes = b64_encode K bytes"

text \<open>Padding is dropped and the standard alphabet mapped to the URL-safe one before decoding.\<close>

definition base64url_decode :: "codecs \<Rightarrow> string \<Rightarrow> (byte list, error) result" where
  "base64url_decode K input =
     (let normalized =
        map (\<lambda>c. if c = CHR ''+'' then CHR ''-'' else if c = CHR ''/'' then CHR ''_'' else c)
          (filter (\<lambda>c. c \<noteq> CHR ''='') input)
      in map_err (\<lambda>e. Other (''Invalid base64url: '' @ e)) (b64_decode K normalized))"

definition from_value :: "codecs \<Rightarrow> json \<Rightarrow> (base64_url_json, error) result" where
  "from_value K v =
     rbind (map_err (\<lambda>e. Other (''Canonical JSON failed: '' @ e)) (canonical_json K v))
       (\<lambda>text. Ok (Base64UrlJson (base64url_encode K (string_bytes text))))"

definition decode_value :: "codecs \<Rightarrow> base64_url_json \<Rightarrow> (json, error) result" where
  "decode_value K b =
     rbind (base64url_decode K (raw b)) (\<lambda>bytes.
       map_err (\<lambda>e. Other (''Invalid JSON in base64url: '' @ e)) (json_from_slice K bytes))"

definition base64_is_empty :: "base64_url_json \<Rightarrow> bool" where
  "base64_is_empty b = (raw b = [])"

datatype receipt_status = Success

definition receipt_status_display :: "receipt_status \<Rightarrow> string" where
  "receipt_status_display s = (case s of Success \<Rightarrow> ''success'')"

section \<open>Challenges\<close>

record payment_challenge =
  pc_id :: string
  pc_realm :: string
  pc_method :: method_name
  pc_intent :: intent_name
  pc_request :: base64_url_json
  pc_expires :: "string option"
  pc_description :: "string option"
  pc_digest :: "string option"
  pc_opaque :: "base64_url_json option"

definition payment_challenge_new ::
  "string \<Rightarrow> string \<Rightarrow> method_name \<Rightarrow> intent_name \<Rightarrow> base64_url_json \<Rightarrow> payment_challenge" where
  "payment_challenge_new id' realm method_n intent_n request =
     \<lparr>pc_id = id', pc_realm = realm, pc_method = method_n, pc_intent = intent_n,
      pc_request = request, pc_expires = None, pc_description = None, pc_digest = None,
      pc_opaque = None\<rparr>"

text \<open>The string the HMAC is computed over.\<close>

definition hmac_input ::
  "string \<Rightarrow> string \<Rightarrow> string \<Rightarrow> string \<Rightarrow> string option \<Rightarrow> string option \<Rightarrow> string option \<Rightarrow>
   string" where
  "hmac_input realm method_s intent_s request expires digest opaque =
     join_with ''|''
       [realm, method_s, intent_s, request, case_option [] id expires, case_option [] id digest,
        case_option [] id opaque]"

definition compute_challenge_id ::
  "codecs \<Rightarrow> string \<Rightarrow> string \<Rightarrow> string \<Rightarrow> string \<Rightarrow> string \<Rightarrow> string option \<Rightarrow> string option \<Rightarrow>
   string option \<Rightarrow> string" where
  "compute_challenge_id K secret_key realm method_s intent_s request expires digest opaque =
     base64url_encode K
       (hmac_sha256 K secret_key (hmac_input realm method_s intent_s request expires digest opaque))"

definition with_secret_key_full ::
  "codecs \<Rightarrow> string \<Rightarrow> string \<Rightarrow> method_name \<Rightarrow> intent_name \<Rightarrow> base64_url_json \<Rightarrow> string option \<Rightarrow>
   string option \<Rightarrow> string option \<Rightarrow> base64_url_json option \<Rightarrow> payment_challenge" where
  "with_secret_key_full K secret_key realm method_n intent_n request expires digest description opaque =
     \<lparr>pc_id = compute_challenge_id K secret_key realm (method_str method_n) (intent_str intent_n)
               (raw request) expires digest (map_option raw opaque),
      pc_realm = realm, pc_method = method_n, pc_intent = intent_n, pc_request = request,
      pc_expires = expires, pc_description = description, pc_digest = digest,
      pc_opaque = opaque\<rparr>"

definition with_secret_key ::
  "codecs \<Rightarrow> string \<Rightarrow> string \<Rightarrow> method_name \<Rightarrow> intent_name \<Rightarrow> base64_url_json \<Rightarrow>
   payment_challenge" where
  "with_secret_key K secret_key realm method_n intent_n request =
     \<lparr>pc_id = compute_challenge_id K secret_key realm (method_str method_n) (intent_str intent_n)
               (raw request) None None None,
      pc_realm = realm, pc_method = method_n, pc_intent = intent_n, pc_request = request,
      pc_expires = None, pc_description = None, pc_digest = None, pc_opaque = None\<rparr>"

definition with_expires :: "payment_challenge \<Rightarrow> string \<Rightarrow> payment_challenge" where
  "with_expires c expires = c\<lparr>pc_expires := Some expires\<rparr>"

definition with_description :: "payment_challenge \<Rightarrow> string \<Rightarrow> payment_challenge" where
  "with_description c description = c\<lparr>pc_description := Some description\<rparr>"

record challenge_echo =
  ce_id :: string
  ce_realm :: string
  ce_method :: method_name
  ce_intent :: intent_name
  ce_request :: base64_url_json
  ce_expires :: "string option"
  ce_digest :: "string option"
  ce_opaque :: "base64_url_json option"

definition to_echo :: "payment_challenge \<Rightarrow> challenge_echo" where
  "to_echo c =
     \<lparr>ce_id = pc_id c, ce_realm = pc_realm c, ce_method = pc_method c, ce_intent = pc_intent c,
      ce_request = pc_request c, ce_expires = pc_expires c, ce_digest = pc_digest c,
      ce_opaque = pc_opaque c\<rparr>"

text \<open>Byte-wise comparison that accumulates the differences instead of stopping at the first.\<close>

definition constant_time_eq :: "string \<Rightarrow> string \<Rightarrow> bool" where
  "constant_time_eq a b =
     (if length a \<noteq> length b then False
      else fold (\<lambda>(x, y) acc. Bit_Operations.or acc (Bit_Operations.xor x y))
             (zip (string_bytes a) (string_bytes b)) 0 = 0)"

definition challenge_verify :: "codecs \<Rightarrow> payment_challenge \<Rightarrow> string \<Rightarrow> bool" where
  "challenge_verify K c secret_key =
     (let expected_id =
        compute_challenge_id K secret_key (pc_realm c) (method_str (pc_method c))
          (intent_str (pc_intent c)) (raw (pc_request c)) (pc_expires c) (pc_digest c)
          (map_option raw (pc_opaque c))
      in constant_time_eq (pc_id c) expected_id)"

definition is_expired :: "codecs \<Rightarrow> payment_challenge \<Rightarrow> bool" where
  "is_expired K c =
     (case pc_expires c of
        None \<Rightarrow> False
      | Some s \<Rightarrow> (case parse_rfc3339 K s of Ok expires \<Rightarrow> expires \<le> now_utc K | _ \<Rightarrow> True))"

section \<open>Credentials and receipts\<close>

record payment_credential =
  cred_challenge :: challenge_echo
  cred_source :: "string option"
  cred_payload :: json

definition payment_credential_new :: "challenge_echo \<Rightarrow> json \<Rightarrow> payment_credential" where
  "payment_credential_new challenge payload =
     \<lparr>cred_challenge = challenge, cred_source = None, cred_payload = payload\<rparr>"

definition credential_with_source ::
  "challenge_echo \<Rightarrow> string \<Rightarrow> json \<Rightarrow> payment_credential" where
  "credential_with_source challenge source payload =
     \<lparr>cred_challenge = challenge, cred_source = Some source, cred_payload = payload\<rparr>"

definition solana_did :: "string \<Rightarrow> string \<Rightarrow> string" where
  "solana_did chain_id address = ''did:pkh:solana:'' @ chain_id @ '':'' @ address"

record receipt =
  rc_status :: receipt_status
  rc_method :: method_name
  rc_timestamp :: string
  rc_reference :: string
  rc_challenge_id :: string

definition now_iso8601 :: "codecs \<Rightarrow> string" where
  "now_iso8601 K =
     (case format_rfc3339 K (now_utc K) of Ok s \<Rightarrow> s | _ \<Rightarrow> ''1970-01-01T00:00:00Z'')"

definition receipt_success :: "codecs \<Rightarrow> method_name \<Rightarrow> string \<Rightarrow> string \<Rightarrow> receipt" where
  "receipt_success K method_n reference challenge_id =
     \<lparr>rc_status = Success, rc_method = method_n, rc_timestamp = now_iso8601 K,
      rc_reference = reference, rc_challenge_id = challenge_id\<rparr>"

definition receipt_is_success :: "receipt \<Rightarrow> bool" where
  "receipt_is_success r = (rc_status r = Success)"

section \<open>Facts\<close>

lemma xor_byte_eq_0: "Bit_Operations.xor a b = 0 \<longleftrightarrow> a = (b :: byte)"
  by (auto simp: bit_eq_iff bit_xor_iff)

lemma fold_or_eq_0:
  "fold (\<lambda>(x, y) acc. Bit_Operations.or acc (Bit_Operations.xor x y)) ps (acc :: byte) = 0 \<longleftrightarrow>
     acc = 0 \<and> (\<forall>(x, y) \<in> set ps. x = y)"
  by (induction ps arbitrary: acc) (auto simp: or_eq_0_iff xor_byte_eq_0)

lemma string_bytes_inj: "string_bytes s = string_bytes t \<longleftrightarrow> s = t"
proof -
  have "c = d" if "(of_nat (of_char c) :: byte) = of_nat (of_char d)" for c d :: char
  proof -
    have "unat (of_nat (of_char c) :: byte) = unat (of_nat (of_char d) :: byte)" using that by simp
    then have "(of_char c :: nat) = of_char d" by (simp add: unat_of_nat of_char_mod_256)
    then show ?thesis by simp
  qed
  then have "inj (\<lambda>c. of_nat (of_char c) :: byte)" by (rule injI)
  then show ?thesis by (simp add: string_bytes_def inj_map_eq_map)
qed

lemma constant_time_eq_iff [simp]: "constant_time_eq a b \<longleftrightarrow> a = b"
proof (cases "length a = length b")
  case True
  then have "constant_time_eq a b \<longleftrightarrow> (\<forall>(x, y) \<in> set (zip (string_bytes a) (string_bytes b)). x = y)"
    by (simp add: constant_time_eq_def fold_or_eq_0)
  also have "\<dots> \<longleftrightarrow> string_bytes a = string_bytes b"
    using True by (simp add: string_bytes_def list_eq_iff_zip_eq)
  finally show ?thesis by (simp add: string_bytes_inj)
next
  case False
  then show ?thesis by (auto simp: constant_time_eq_def)
qed

text \<open>
  Joining with a separator loses nothing against a list of separator-free parts: any list of the
  same length that joins to the same text is the same list.
\<close>

fun count_char :: "char \<Rightarrow> string \<Rightarrow> nat" where
  "count_char d [] = 0"
| "count_char d (c # cs) = (if c = d then 1 else 0) + count_char d cs"

lemma count_char_append [simp]: "count_char d (xs @ ys) = count_char d xs + count_char d ys"
  by (induction xs) auto

lemma count_char_0: "count_char d xs = 0 \<longleftrightarrow> d \<notin> set xs"
  by (induction xs) auto

lemma count_join:
  "xs \<noteq> [] \<Longrightarrow> count_char d (join_with [d] xs) = length xs - 1 + sum_list (map (count_char d) xs)"
  by (induction "[d]" xs rule: join_with.induct) auto

lemma join_free_inj:
  "length xs = length ys \<Longrightarrow> \<forall>x \<in> set xs. d \<notin> set x \<Longrightarrow> \<forall>y \<in> set ys. d \<notin> set y \<Longrightarrow>
   join_with [d] xs = join_with [d] ys \<Longrightarrow> xs = ys"
proof (induction xs ys rule: list_induct2)
  case (Cons x xs y ys)
  show ?case
  proof (cases xs)
    case Nil
    with Cons show ?thesis by simp
  next
    case (Cons x' xs')
    then obtain y' ys' where ys: "ys = y' # ys'" using Cons.hyps by (cases ys) auto
    have "x @ d # join_with [d] xs = y @ d # join_with [d] ys"
      using Cons.prems(3) \<open>xs = x' # xs'\<close> ys by simp
    then have "split_once d (x @ d # join_with [d] xs) = split_once d (y @ d # join_with [d] ys)"
      by simp
    then have "x = y" "join_with [d] xs = join_with [d] ys" using Cons.prems by simp_all
    with Cons.IH Cons.prems show ?thesis by simp
  qed
qed simp

lemma join_inj:
  assumes free: "\<forall>x \<in> set xs. d \<notin> set x" and len: "length xs = length ys" and ne: "xs \<noteq> []"
    and eq: "join_with [d] xs = join_with [d] ys"
  shows "xs = ys"
proof -
  have "count_char d (join_with [d] xs) = length xs - 1"
    using free ne by (simp add: count_join count_char_0 [THEN iffD2])
  moreover have "count_char d (join_with [d] ys) = length ys - 1 + sum_list (map (count_char d) ys)"
    using len ne by (intro count_join) auto
  ultimately have "sum_list (map (count_char d) ys) = 0" using eq len by simp
  then have "\<forall>y \<in> set ys. d \<notin> set y" by (auto simp: count_char_0)
  with free len eq show ?thesis by (auto intro: join_free_inj)
qed

end
