(* ===== verification/Headers.thy ===== *)
theory Headers
  imports Core_Types
begin

text \<open>
  \<^verbatim>\<open>rust/src/protocol/core/headers.rs\<close>: the three HTTP headers of the protocol.  The index loops of
  the parser become recursions on the rest of the text.  Header values are ASCII, so characters
  and bytes coincide.
\<close>

definition MAX_TOKEN_LEN :: nat where
  "MAX_TOKEN_LEN = 16 * 1024"

definition PAYMENT_SCHEME :: string where
  "PAYMENT_SCHEME = ''Payment''"

section \<open>Writing a challenge\<close>

definition escape_char :: "char \<Rightarrow> string" where
  "escape_char c =
     (if c = CHR 92 then [CHR 92, CHR 92] else if c = CHR 34 then [CHR 92, CHR 34] else [c])"

definition escape_quoted_value :: "string \<Rightarrow> (string, error) result" where
  "escape_quoted_value s =
     (if CHR 13 \<in> set s \<or> CHR 10 \<in> set s then
        Err (Other ''Header value contains invalid CRLF characters'')
      else Ok (concat (map escape_char s)))"

definition header_param :: "string \<Rightarrow> string \<Rightarrow> (string, error) result" where
  "header_param key value =
     rbind (escape_quoted_value value) (\<lambda>v. Ok (key @ ''='' @ [CHR 34] @ v @ [CHR 34]))"

definition challenge_params :: "payment_challenge \<Rightarrow> (string \<times> string) list" where
  "challenge_params c =
     [(''id'', pc_id c), (''realm'', pc_realm c), (''method'', method_str (pc_method c)),
      (''intent'', intent_str (pc_intent c)), (''request'', raw (pc_request c))] @
     (case pc_expires c of Some e \<Rightarrow> [(''expires'', e)] | None \<Rightarrow> []) @
     (case pc_digest c of Some d \<Rightarrow> [(''digest'', d)] | None \<Rightarrow> []) @
     (case pc_opaque c of Some ob \<Rightarrow> [(''opaque'', raw ob)] | None \<Rightarrow> [])"

definition format_www_authenticate :: "payment_challenge \<Rightarrow> (string, error) result" where
  "format_www_authenticate c =
     rbind (collect_results (\<lambda>(k, v). header_param k v) (challenge_params c)) (\<lambda>parts.
       Ok (PAYMENT_SCHEME @ '' '' @ join_with '', '' parts))"

definition format_www_authenticate_many ::
  "payment_challenge list \<Rightarrow> (string list, error) result" where
  "format_www_authenticate_many challenges = collect_results format_www_authenticate challenges"

section \<open>Reading auth-params\<close>

text \<open>The text of a quoted value up to its closing quote, and what follows the quote.\<close>

fun read_quoted :: "string \<Rightarrow> string \<times> string" where
  "read_quoted [] = ([], [])"
| "read_quoted (c # cs) =
     (if c = CHR 34 then ([], cs)
      else if c = CHR 92 \<and> cs \<noteq> [] then
        (let (v, r) = read_quoted (tl cs) in (hd cs # v, r))
      else (let (v, r) = read_quoted cs in (c # v, r)))"

lemma read_quoted_shrinks: "length (snd (read_quoted cs)) \<le> length cs"
  by (induction cs rule: read_quoted.induct) (auto simp: Let_def split: prod.splits)

definition is_sep :: "char \<Rightarrow> bool" where
  "is_sep c = (is_whitespace c \<or> c = CHR '','')"

definition is_key_char :: "char \<Rightarrow> bool" where
  "is_key_char c = (c \<noteq> CHR ''='' \<and> \<not> is_whitespace c)"

definition read_value :: "string \<Rightarrow> string \<times> string" where
  "read_value cs =
     (case cs of
        [] \<Rightarrow> ([], [])
      | c # cs' \<Rightarrow>
          if c = CHR 34 then read_quoted cs'
          else (takeWhile (\<lambda>c. \<not> is_sep c) cs, dropWhile (\<lambda>c. \<not> is_sep c) cs))"

lemma read_value_shrinks: "length (snd (read_value cs)) \<le> length cs"
  using read_quoted_shrinks [of "tl cs"]
  by (auto simp: read_value_def le_SucI [OF length_dropWhile_le] split: list.splits)

function parse_params ::
  "(string \<rightharpoonup> string) \<Rightarrow> string \<Rightarrow> (string \<rightharpoonup> string, error) result" where
  "parse_params params cs =
     (let start = dropWhile is_sep cs in
      if start = [] then Ok params
      else
        let key = takeWhile is_key_char start;
            rest = dropWhile is_key_char start in
        case rest of
          [] \<Rightarrow> Ok params
        | c # after \<Rightarrow>
            if c \<noteq> CHR ''='' then parse_params params (dropWhile (\<lambda>c. \<not> is_sep c) rest)
            else if after = [] then Ok params
            else
              let (value, further) = read_value after in
              if params key \<noteq> None then Err (Other (''Duplicate parameter: '' @ key))
              else parse_params (params(key \<mapsto> value)) further)"
  by pat_completeness auto

text \<open>
  Every turn of the loop consumes text: a parameter at least its \<^verbatim>\<open>=\<close>, and a word without \<^verbatim>\<open>=\<close> at least
  its first character, which is neither a separator nor \<^verbatim>\<open>=\<close>.
\<close>

lemma params_key_consumed:
  assumes "dropWhile is_sep cs = start" and "start \<noteq> []"
    and "dropWhile is_key_char start = c # after" and "c \<noteq> CHR ''=''"
  shows "length (dropWhile (\<lambda>c. \<not> is_sep c) (c # after)) < length cs"
proof -
  obtain a as where start: "start = a # as" using assms(2) by (cases start) auto
  have "\<not> is_sep a"
    using assms(1) start hd_dropWhile [of is_sep cs] by auto
  then have ws: "\<not> is_whitespace a" by (simp add: is_sep_def)
  have "is_key_char a"
  proof (rule ccontr)
    assume "\<not> is_key_char a"
    then have "c = a" using assms(3) start by simp
    with \<open>\<not> is_key_char a\<close> ws assms(4) show False by (simp add: is_key_char_def)
  qed
  then have "length (c # after) \<le> length as"
    using assms(3) start length_dropWhile_le [of is_key_char as] by simp
  moreover have "length start \<le> length cs" using assms(1) length_dropWhile_le [of is_sep cs] by simp
  moreover have "length (dropWhile (\<lambda>c. \<not> is_sep c) (c # after)) \<le> length (c # after)"
    by (rule length_dropWhile_le)
  ultimately show ?thesis using start by simp
qed

lemma params_value_consumed:
  assumes "dropWhile is_sep cs = start" and "dropWhile is_key_char start = c # after"
    and "read_value after = (v, further)"
  shows "length further < length cs"
proof -
  have "length start \<le> length cs" using assms(1) length_dropWhile_le [of is_sep cs] by simp
  moreover have "length (c # after) \<le> length start"
    using assms(2) length_dropWhile_le [of is_key_char start] by simp
  moreover have "length further \<le> length after"
    using read_value_shrinks [of after] assms(3) by simp
  ultimately show ?thesis by simp
qed

termination parse_params
proof (relation "measure (\<lambda>(params, cs). length cs)", goal_cases)
  case (2 params cs start key rest c after)
  then show ?case using params_key_consumed [of cs start c after] by simp
next
  case (3 params cs start key rest c after p val further)
  then show ?case using params_value_consumed [of cs start c after val further] by simp
qed simp

declare parse_params.simps [simp del]

definition parse_auth_params :: "string \<Rightarrow> (string \<rightharpoonup> string, error) result" where
  "parse_auth_params params_str = parse_params Map.empty params_str"

definition require_param :: "(string \<rightharpoonup> string) \<Rightarrow> string \<Rightarrow> (string, error) result" where
  "require_param params key = ok_or (params key) (Other (''Missing '' @ [CHR 39] @ key @ [CHR 39] @ '' field''))"

section \<open>Reading a challenge\<close>

definition strip_payment_scheme :: "string \<Rightarrow> string option" where
  "strip_payment_scheme header =
     (let h = trim_start header; n = length PAYMENT_SCHEME in
      if n \<le> length h \<and> eq_ignore_ascii_case (take n h) PAYMENT_SCHEME then Some (drop n h)
      else None)"

definition parse_www_authenticate :: "codecs \<Rightarrow> string \<Rightarrow> (payment_challenge, error) result" where
  "parse_www_authenticate K header =
     rbind (ok_or (strip_payment_scheme header)
              (Other (''Expected '' @ [CHR 39] @ ''Payment'' @ [CHR 39] @ '' scheme''))) (\<lambda>rest.
     rbind (ok_or (case strip_prefix '' '' rest of
                     Some r \<Rightarrow> Some r
                   | None \<Rightarrow> strip_prefix [CHR 9] rest)
              (Other (''Expected space after '' @ [CHR 39] @ ''Payment'' @ [CHR 39] @ '' scheme'')))
       (\<lambda>after_scheme.
     rbind (parse_auth_params (trim_start after_scheme)) (\<lambda>params.
     rbind (require_param params ''id'') (\<lambda>id'.
     if id' = [] then
       Err (Other (''Empty '' @ [CHR 39] @ ''id'' @ [CHR 39] @ '' parameter''))
     else
     rbind (require_param params ''realm'') (\<lambda>realm.
     rbind (require_param params ''method'') (\<lambda>method_raw.
     if method_raw = [] \<or> \<not> list_all is_ascii_lowercase method_raw then
       Err (Other (''Invalid method: '' @ [CHR 34] @ method_raw @ [CHR 34] @
                   ''. Must be lowercase ASCII.''))
     else
     rbind (require_param params ''intent'') (\<lambda>intent_raw.
     rbind (require_param params ''request'') (\<lambda>request_b64.
     rbind (base64url_decode K request_b64) (\<lambda>request_bytes.
     rbind (map_err (\<lambda>e. Other (''Invalid JSON in request field: '' @ e))
              (json_from_slice K request_bytes)) (\<lambda>_.
       Ok \<lparr>pc_id = id', pc_realm = realm, pc_method = method_name_new method_raw,
           pc_intent = intent_name_new intent_raw, pc_request = Base64UrlJson request_b64,
           pc_expires = params ''expires'', pc_description = params ''description'',
           pc_digest = params ''digest'',
           pc_opaque = map_option Base64UrlJson (params ''opaque'')\<rparr>))))))))))"

text \<open>
  Where challenges start in a header value that may hold several: outside quotes, at the scheme's
  name followed by whitespace, with nothing but whitespace and a comma (or the start) before it.
  \<open>seen\<close> is the text before the current position, reversed.
\<close>

definition is_payment_scheme_start :: "string \<Rightarrow> string \<Rightarrow> bool" where
  "is_payment_scheme_start seen rest =
     (let n = length PAYMENT_SCHEME in
      n < length rest \<and> eq_ignore_ascii_case (take n rest) PAYMENT_SCHEME \<and>
      is_ascii_whitespace (rest ! n) \<and>
      (case dropWhile is_ascii_whitespace seen of [] \<Rightarrow> True | c # _ \<Rightarrow> c = CHR '',''))"

function scan_starts :: "string \<Rightarrow> bool \<Rightarrow> bool \<Rightarrow> string \<Rightarrow> nat list" where
  "scan_starts seen in_quote escaped rest =
     (case rest of
        [] \<Rightarrow> []
      | c # cs \<Rightarrow>
          if in_quote then
            (if escaped then scan_starts (c # seen) True False cs
             else if c = CHR 92 then scan_starts (c # seen) True True cs
             else if c = CHR 34 then scan_starts (c # seen) False False cs
             else scan_starts (c # seen) True False cs)
          else if c = CHR 34 then scan_starts (c # seen) True escaped cs
          else if is_payment_scheme_start seen rest then
            (let n = length PAYMENT_SCHEME in
             length seen # scan_starts (rev (take n rest) @ seen) False escaped (drop n rest))
          else scan_starts (c # seen) False escaped cs)"
  by pat_completeness auto

termination scan_starts
  by (relation "measure (\<lambda>(seen, q, e, rest). length rest)") (auto simp: PAYMENT_SCHEME_def)

declare scan_starts.simps [simp del]

fun cut_at :: "string \<Rightarrow> nat list \<Rightarrow> string list" where
  "cut_at header [] = []"
| "cut_at header [s] = [drop s header]"
| "cut_at header (s # s' # ss) = take (s' - s) (drop s header) # cut_at header (s' # ss)"

definition split_payment_challenge_values :: "string \<Rightarrow> string list" where
  "split_payment_challenge_values header =
     filter (\<lambda>chunk. chunk \<noteq> [])
       (map (\<lambda>chunk. trim (trim_end_matches (CHR '','') (trim chunk)))
          (cut_at header (scan_starts [] False False header)))"

definition parse_www_authenticate_all ::
  "codecs \<Rightarrow> string list \<Rightarrow> (payment_challenge, error) result list" where
  "parse_www_authenticate_all K headers =
     map (parse_www_authenticate K) (concat (map split_payment_challenge_values headers))"

section \<open>JSON forms of credentials and receipts\<close>

text \<open>The forms that the derived \<^verbatim>\<open>Serialize\<close> and \<^verbatim>\<open>Deserialize\<close> of the structs give them.\<close>

definition echo_to_json :: "challenge_echo \<Rightarrow> json" where
  "echo_to_json e =
     JObject ([(''id'', JString (ce_id e)), (''realm'', JString (ce_realm e)),
               (''method'', JString (method_str (ce_method e))),
               (''intent'', JString (intent_str (ce_intent e))),
               (''request'', JString (raw (ce_request e)))] @
              opt_member ''expires'' (ce_expires e) @ opt_member ''digest'' (ce_digest e) @
              opt_member ''opaque'' (map_option raw (ce_opaque e)))"

definition echo_of_json :: "json \<Rightarrow> (challenge_echo, string) result" where
  "echo_of_json v =
     rbind (struct_members [''id'', ''realm'', ''method'', ''intent'', ''request'', ''expires'', ''digest'', ''opaque''] v) (\<lambda>ms.
     rbind (member_str ms ''id'') (\<lambda>id'.
     rbind (member_str ms ''realm'') (\<lambda>realm.
     rbind (member_str ms ''method'') (\<lambda>m.
     rbind (member_str ms ''intent'') (\<lambda>i.
     rbind (member_str ms ''request'') (\<lambda>request.
     rbind (member_opt_str ms ''expires'') (\<lambda>expires.
     rbind (member_opt_str ms ''digest'') (\<lambda>digest.
     rbind (member_opt_str ms ''opaque'') (\<lambda>opaque.
       Ok \<lparr>ce_id = id', ce_realm = realm, ce_method = MethodName m, ce_intent = IntentName i,
           ce_request = Base64UrlJson request, ce_expires = expires, ce_digest = digest,
           ce_opaque = map_option Base64UrlJson opaque\<rparr>)))))))))"

definition credential_to_json :: "payment_credential \<Rightarrow> json" where
  "credential_to_json c =
     JObject ([(''challenge'', echo_to_json (cred_challenge c))] @
              opt_member ''source'' (cred_source c) @ [(''payload'', cred_payload c)])"

definition credential_of_json :: "json \<Rightarrow> (payment_credential, string) result" where
  "credential_of_json v =
     rbind (struct_members [''challenge'', ''source'', ''payload''] v) (\<lambda>ms.
     rbind (ok_or (map_of ms ''challenge'') ''missing field challenge'') (\<lambda>echo.
     rbind (echo_of_json echo) (\<lambda>challenge.
     rbind (member_opt_str ms ''source'') (\<lambda>source.
     rbind (ok_or (map_of ms ''payload'') ''missing field payload'') (\<lambda>payload.
       Ok \<lparr>cred_challenge = challenge, cred_source = source, cred_payload = payload\<rparr>)))))"

definition receipt_to_json :: "receipt \<Rightarrow> json" where
  "receipt_to_json r =
     JObject [(''status'', JString (receipt_status_display (rc_status r))),
              (''method'', JString (method_str (rc_method r))),
              (''timestamp'', JString (rc_timestamp r)),
              (''reference'', JString (rc_reference r)),
              (''challengeId'', JString (rc_challenge_id r))]"

definition receipt_of_json :: "json \<Rightarrow> (receipt, string) result" where
  "receipt_of_json v =
     rbind (struct_members [''status'', ''method'', ''timestamp'', ''reference'', ''challengeId''] v) (\<lambda>ms.
     rbind (member_str ms ''status'') (\<lambda>status.
     if status \<noteq> ''success'' then Err ''unknown variant'' else
     rbind (member_str ms ''method'') (\<lambda>m.
     rbind (member_str ms ''timestamp'') (\<lambda>timestamp.
     rbind (member_str ms ''reference'') (\<lambda>reference.
     rbind (member_str ms ''challengeId'') (\<lambda>challenge_id.
       Ok \<lparr>rc_status = Success, rc_method = MethodName m, rc_timestamp = timestamp,
           rc_reference = reference, rc_challenge_id = challenge_id\<rparr>))))))"

section \<open>Authorization and receipt headers\<close>

definition extract_payment_scheme :: "string \<Rightarrow> string option" where
  "extract_payment_scheme header =
     find (\<lambda>s. 8 \<le> length s \<and> eq_ignore_ascii_case (take 8 s) ''payment '')
       (map trim (split_on (CHR '','') header))"

definition format_authorization :: "codecs \<Rightarrow> payment_credential \<Rightarrow> (string, error) result" where
  "format_authorization K c =
     rbind (map_err (\<lambda>e. Other (''JCS serialization failed: '' @ e))
              (canonical_json K (credential_to_json c))) (\<lambda>text.
       Ok (''Payment '' @ base64url_encode K (string_bytes text)))"

definition parse_authorization :: "codecs \<Rightarrow> string \<Rightarrow> (payment_credential, error) result" where
  "parse_authorization K header =
     rbind (ok_or (extract_payment_scheme header)
              (Other (''Expected '' @ [CHR 39] @ ''Payment'' @ [CHR 39] @ '' scheme'')))
       (\<lambda>payment_part.
     let token = trim (drop 8 payment_part) in
     if MAX_TOKEN_LEN < length token then
       Err (Other (''Token exceeds maximum length of '' @ show_nat MAX_TOKEN_LEN @ '' bytes''))
     else
       rbind (base64url_decode K token) (\<lambda>decoded.
       map_err (\<lambda>e. Other (''Invalid credential JSON: '' @ e))
         (rbind (json_from_slice K decoded) credential_of_json)))"

definition format_receipt :: "codecs \<Rightarrow> receipt \<Rightarrow> (string, error) result" where
  "format_receipt K r =
     rbind (map_err (\<lambda>e. Other (''JCS serialization failed: '' @ e))
              (canonical_json K (receipt_to_json r))) (\<lambda>text.
       Ok (base64url_encode K (string_bytes text)))"

definition parse_receipt :: "codecs \<Rightarrow> string \<Rightarrow> (receipt, error) result" where
  "parse_receipt K header =
     (let token = trim header in
      if MAX_TOKEN_LEN < length token then
        Err (Other (''Receipt exceeds maximum length of '' @ show_nat MAX_TOKEN_LEN @ '' bytes''))
      else
        rbind (base64url_decode K token) (\<lambda>decoded.
        map_err (\<lambda>e. Other (''Invalid receipt JSON: '' @ e))
          (rbind (json_from_slice K decoded) receipt_of_json)))"

end
