(* ===== verification/Header_Roundtrips.thy ===== *)
theory Header_Roundtrips
  imports Headers
begin

text \<open>
  Why the header codecs are inverse to each other: quoting against the quoted-string reader, the
  list of parameters against the parameter loop, and canonical JSON against field lookup.
\<close>

section \<open>Quoted values\<close>

lemma read_quoted_escape:
  "read_quoted (concat (map escape_char s) @ CHR 34 # r) = (s, r)"
  by (induction s) (auto simp: escape_char_def)

definition render_param :: "string \<times> string \<Rightarrow> string" where
  "render_param kv =
     fst kv @ ''='' @ [CHR 34] @ concat (map escape_char (snd kv)) @ [CHR 34]"

definition good_key :: "string \<Rightarrow> bool" where
  "good_key k = (k \<noteq> [] \<and> list_all is_key_char k \<and> hd k \<noteq> CHR '','')"

lemma takeWhile_all_then: "list_all P xs \<Longrightarrow> \<not> P c \<Longrightarrow> takeWhile P (xs @ c # ys) = xs"
  by (induction xs) auto

lemma dropWhile_all_then: "list_all P xs \<Longrightarrow> \<not> P c \<Longrightarrow> dropWhile P (xs @ c # ys) = c # ys"
  by (induction xs) auto

lemma parse_params_skip: "parse_params p cs = parse_params p (dropWhile is_sep cs)"
proof -
  have "dropWhile is_sep (dropWhile is_sep cs) = dropWhile is_sep cs"
    by (rule dropWhile_idem)
  then show ?thesis
    by (subst (1 2) parse_params.simps) (simp only:)
qed

lemma parse_params_render:
  assumes "good_key k"
  shows "parse_params p (render_param (k, v) @ rest) =
    (if p k \<noteq> None then Err (Other (''Duplicate parameter: '' @ k))
     else parse_params (p(k \<mapsto> v)) rest)"
proof -
  let ?cs = "k @ CHR ''='' # (CHR 34 # concat (map escape_char v) @ CHR 34 # rest)"
  obtain a as where k: "k = a # as" and a: "is_key_char a" "a \<noteq> CHR '',''"
    using assms by (cases k) (auto simp: good_key_def)
  then have start: "dropWhile is_sep ?cs = ?cs" by (simp add: is_sep_def is_key_char_def)
  have all: "list_all is_key_char k" using assms by (simp add: good_key_def)
  have eq: "\<not> is_key_char (CHR ''='')" by (simp add: is_key_char_def)
  have val: "read_value (CHR 34 # concat (map escape_char v) @ CHR 34 # rest) = (v, rest)"
    by (simp add: read_value_def read_quoted_escape)
  have key: "takeWhile is_key_char ?cs = k"
    and rest: "dropWhile is_key_char ?cs = CHR ''='' # (CHR 34 # concat (map escape_char v) @ CHR 34 # rest)"
    by (rule takeWhile_all_then [OF all eq], rule dropWhile_all_then [OF all eq])
  have "parse_params p ?cs =
    (if p k \<noteq> None then Err (Other (''Duplicate parameter: '' @ k))
     else parse_params (p(k \<mapsto> v)) rest)"
    by (subst parse_params.simps) (simp add: start key rest val Let_def)
  then show ?thesis by (simp add: render_param_def)
qed

lemma parse_params_Nil: "parse_params p [] = Ok p"
  by (simp add: parse_params.simps)

lemma parse_params_list:
  assumes "distinct (map fst kvs)" and "\<forall>kv \<in> set kvs. good_key (fst kv) \<and> p (fst kv) = None"
  shows "parse_params p (join_with '', '' (map render_param kvs)) = Ok (p ++ map_of kvs)"
  using assms
proof (induction kvs arbitrary: p)
  case Nil
  show ?case by (simp add: parse_params_Nil)
next
  case (Cons kv kvs)
  obtain k v where kv: "kv = (k, v)" by fastforce
  have key: "good_key k" "p k = None" using Cons.prems kv by auto
  let ?p = "p(k \<mapsto> v)"
  have rest: "parse_params ?p (join_with '', '' (map render_param kvs)) = Ok (?p ++ map_of kvs)"
    using Cons.prems kv by (intro Cons.IH) (auto simp: image_iff)
  have "k \<notin> fst ` set kvs" using Cons.prems kv by auto
  then have maps: "?p ++ map_of kvs = p ++ map_of ((k, v) # kvs)"
    using map_of_eq_None_iff [of kvs k] by (auto simp: map_add_def fun_eq_iff split: option.splits)
  show ?case
  proof (cases kvs)
    case Nil
    have "parse_params p (render_param (k, v) @ []) = Ok ?p"
      by (subst parse_params_render [OF key(1)]) (simp add: key(2) parse_params_Nil)
    with Nil kv show ?thesis by (simp add: map_add_def fun_eq_iff)
  next
    case (Cons kv' kvs')
    have sep: "dropWhile is_sep ('', '' @ cs) = dropWhile is_sep cs" for cs
      by (simp add: is_sep_def is_whitespace_def)
    have "parse_params p (render_param (k, v) @ '', '' @ join_with '', '' (map render_param kvs)) =
        parse_params ?p ('', '' @ join_with '', '' (map render_param kvs))"
      by (subst parse_params_render [OF key(1)]) (simp add: key(2))
    also have "\<dots> = Ok (?p ++ map_of kvs)"
      using rest by (metis parse_params_skip sep)
    also have "?p ++ map_of kvs = p ++ map_of (kv # kvs)" unfolding kv by (rule maps)
    finally have "parse_params p (render_param (k, v) @ '', '' @ join_with '', '' (map render_param kvs)) =
        Ok (p ++ map_of (kv # kvs))" .
    moreover have "join_with '', '' (map render_param (kv # kvs)) =
        render_param (k, v) @ '', '' @ join_with '', '' (map render_param kvs)"
      by (simp add: Cons kv)
    ultimately show ?thesis by (simp only:)
  qed
qed

section \<open>Challenges\<close>

lemma header_param_Ok:
  "header_param k v = Ok s \<longleftrightarrow> CHR 13 \<notin> set v \<and> CHR 10 \<notin> set v \<and> s = render_param (k, v)"
  by (auto simp: header_param_def escape_quoted_value_def render_param_def)

lemma format_www_authenticate_Ok:
  assumes "format_www_authenticate c = Ok h"
  shows "h = ''Payment '' @ join_with '', '' (map render_param (challenge_params c))"
    and "\<forall>(k, v) \<in> set (challenge_params c). CHR 13 \<notin> set v \<and> CHR 10 \<notin> set v"
proof -
  from assms obtain parts where
    parts: "collect_results (\<lambda>(k, v). header_param k v) (challenge_params c) = Ok parts"
    and h: "h = ''Payment'' @ '' '' @ join_with '', '' parts"
    by (auto simp: format_www_authenticate_def PAYMENT_SCHEME_def)
  from parts have all: "list_all2 (\<lambda>(k, v) s. header_param k v = Ok s) (challenge_params c) parts"
    by (simp add: collect_results_Ok case_prod_beta')
  then have "parts = map render_param (challenge_params c)"
    by (induction rule: list_all2_induct) (auto simp: header_param_Ok)
  with h show "h = ''Payment '' @ join_with '', '' (map render_param (challenge_params c))" by simp
  from all show "\<forall>(k, v) \<in> set (challenge_params c). CHR 13 \<notin> set v \<and> CHR 10 \<notin> set v"
    by (induction rule: list_all2_induct) (auto simp: header_param_Ok)
qed

lemma challenge_params_good:
  "distinct (map fst (challenge_params c))" "\<forall>kv \<in> set (challenge_params c). good_key (fst kv)"
  by (auto simp: challenge_params_def good_key_def is_key_char_def is_whitespace_def
      split: option.splits)

lemma challenge_params_lookup:
  "map_of (challenge_params c) ''id'' = Some (pc_id c)"
  "map_of (challenge_params c) ''realm'' = Some (pc_realm c)"
  "map_of (challenge_params c) ''method'' = Some (method_str (pc_method c))"
  "map_of (challenge_params c) ''intent'' = Some (intent_str (pc_intent c))"
  "map_of (challenge_params c) ''request'' = Some (raw (pc_request c))"
  "map_of (challenge_params c) ''expires'' = pc_expires c"
  "map_of (challenge_params c) ''digest'' = pc_digest c"
  "map_of (challenge_params c) ''opaque'' = map_option raw (pc_opaque c)"
  "map_of (challenge_params c) ''description'' = None"
  by (simp_all add: challenge_params_def split: option.splits)

lemma parse_formatted_params:
  "parse_auth_params (join_with '', '' (map render_param (challenge_params c))) =
     Ok (map_of (challenge_params c))"
  using parse_params_list [OF challenge_params_good(1), of c Map.empty] challenge_params_good(2)
  by (simp add: parse_auth_params_def)

text \<open>The first parameter is \<^verbatim>\<open>id\<close>, so there is no whitespace to trim after the scheme.\<close>

lemma trim_start_params:
  "trim_start (join_with '', '' (map render_param (challenge_params c))) =
     join_with '', '' (map render_param (challenge_params c))"
  by (simp add: challenge_params_def render_param_def trim_start_def is_whitespace_def)

lemma strip_payment_scheme_here: "strip_payment_scheme (''Payment'' @ rest) = Some rest"
  by (simp add: strip_payment_scheme_def PAYMENT_SCHEME_def trim_start_def is_whitespace_def Let_def
      eq_ignore_ascii_case_def)

lemma map_option_raw [simp]: "map_option Base64UrlJson (map_option raw b) = b"
  by (cases b) auto

lemma parse_format_challenge:
  assumes "format_www_authenticate c = Ok h"
    and "pc_id c \<noteq> []" and "method_name_is_valid (pc_method c)"
    and "to_ascii_lowercase (intent_str (pc_intent c)) = intent_str (pc_intent c)"
    and "decode_value K (pc_request c) = Ok v"
  shows "parse_www_authenticate K h = Ok (c\<lparr>pc_description := None\<rparr>)"
proof -
  let ?ps = "join_with '', '' (map render_param (challenge_params c))"
  have h: "h = ''Payment'' @ CHR '' '' # ?ps"
    using format_www_authenticate_Ok(1) [OF assms(1)] by simp
  have scheme: "strip_payment_scheme h = Some (CHR '' '' # ?ps)"
    unfolding h by (rule strip_payment_scheme_here)
  have lower: "method_name_new (method_str (pc_method c)) = pc_method c"
    using assms(3)
    by (simp add: method_name_new_def method_name_is_valid_def to_ascii_lowercase_id list_all_iff)
  have intent: "intent_name_new (intent_str (pc_intent c)) = pc_intent c"
    using assms(4) by (simp add: intent_name_new_def)
  from assms(5) obtain bytes where "base64url_decode K (raw (pc_request c)) = Ok bytes"
    "json_from_slice K bytes = Ok v"
    by (auto simp: decode_value_def)
  with assms(2,3) lower intent show ?thesis
    by (simp add: parse_www_authenticate_def scheme trim_start_params parse_formatted_params
        require_param_def challenge_params_lookup method_name_is_valid_def)
qed

section \<open>Canonical JSON\<close>

text \<open>The value a canonical text stands for: the members of every object sorted by key.\<close>

primrec canonical :: "json \<Rightarrow> json" where
  "canonical JNull = JNull"
| "canonical (JBool b) = JBool b"
| "canonical (JNumber n) = JNumber n"
| "canonical (JString s) = JString s"
| "canonical (JArray xs) = JArray (map canonical xs)"
| "canonical (JObject ms) = JObject (sort_key fst (map (map_prod id canonical) ms))"

definition is_b64url :: "char \<Rightarrow> bool" where
  "is_b64url c =
     (is_ascii_lowercase c \<or> is_ascii_uppercase c \<or> digit_value c \<noteq> None \<or>
      c = CHR ''-'' \<or> c = CHR ''_'')"

text \<open>
  The documented behaviour of the codecs: base64url decoding inverts encoding and uses its
  alphabet, canonical JSON is not empty and parses back to the value it prints.
\<close>

definition codecs_lawful :: "codecs \<Rightarrow> bool" where
  "codecs_lawful K =
     ((\<forall>bytes. b64_decode K (b64_encode K bytes) = Ok bytes) \<and> b64_encode K [] = [] \<and>
      (\<forall>bytes. list_all is_b64url (b64_encode K bytes)) \<and>
      (\<forall>v text. canonical_json K v = Ok text \<longrightarrow>
         text \<noteq> [] \<and> json_from_slice K (string_bytes text) = Ok (canonical v)))"

lemma b64url_plain:
  "is_b64url c \<Longrightarrow> \<not> is_whitespace c \<and> c \<noteq> CHR '','' \<and> c \<noteq> CHR ''='' \<and> c \<noteq> CHR ''+'' \<and> c \<noteq> CHR ''/''"
  by (auto simp: is_b64url_def is_whitespace_def is_ascii_lowercase_def is_ascii_uppercase_def
      digit_value_def Let_def split: if_splits)

lemma lawful_decode:
  assumes "codecs_lawful K"
  shows "base64url_decode K (base64url_encode K bytes) = Ok bytes"
proof -
  let ?s = "b64_encode K bytes"
  have "\<forall>c \<in> set ?s. c \<noteq> CHR ''='' \<and> c \<noteq> CHR ''+'' \<and> c \<noteq> CHR ''/''"
    using assms b64url_plain by (auto simp: codecs_lawful_def list_all_iff)
  then have "map (\<lambda>c. if c = CHR ''+'' then CHR ''-'' else if c = CHR ''/'' then CHR ''_'' else c)
      (filter (\<lambda>c. c \<noteq> CHR ''='') ?s) = ?s"
    by (induction ?s rule: list.induct) (simp_all add: filter_True map_idI)
  with assms show ?thesis
    by (simp add: base64url_decode_def base64url_encode_def codecs_lawful_def Let_def)
qed

lemma trim_ends:
  assumes "s = [] \<or> \<not> is_whitespace (hd s) \<and> \<not> is_whitespace (last s)"
  shows "trim s = s"
proof (cases "s = []")
  case False
  with assms have "dropWhile is_whitespace s = s" "dropWhile is_whitespace (rev s) = rev s"
    by (simp_all add: dropWhile_eq_self_iff hd_rev)
  then show ?thesis by (simp add: trim_def trim_start_def trim_end_def)
qed (simp add: trim_def trim_start_def trim_end_def)

lemma trim_plain: "\<forall>c \<in> set s. \<not> is_whitespace c \<Longrightarrow> trim s = s"
  by (rule trim_ends) (metis hd_in_set last_in_set)

lemma lawful_token:
  assumes "codecs_lawful K"
  shows "\<forall>c \<in> set (base64url_encode K bytes). \<not> is_whitespace c"
    and "CHR '','' \<notin> set (base64url_encode K bytes)"
    and "base64url_encode K bytes = [] \<longleftrightarrow> bytes = []"
proof -
  have chars: "\<forall>c \<in> set (base64url_encode K bytes). \<not> is_whitespace c \<and> c \<noteq> CHR '',''"
    using assms b64url_plain by (auto simp: codecs_lawful_def list_all_iff base64url_encode_def)
  then show "\<forall>c \<in> set (base64url_encode K bytes). \<not> is_whitespace c" by blast
  from chars show "CHR '','' \<notin> set (base64url_encode K bytes)" by blast
  show "base64url_encode K bytes = [] \<longleftrightarrow> bytes = []"
    using assms unfolding codecs_lawful_def base64url_encode_def by (metis result.inject(1))
qed

lemma map_of_sorted:
  assumes "distinct (map fst ms)"
  shows "map_of (sort_key fst ms) = map_of ms"
proof (rule map_of_eqI)
  have d: "distinct (map fst (sort_key fst ms))"
    using assms by (simp add: distinct_map)
  show "set (map fst (sort_key fst ms)) = set (map fst ms)" by simp
  show "\<forall>k \<in> set (map fst (sort_key fst ms)). map_of (sort_key fst ms) k = map_of ms k"
    using assms d by (auto simp: map_of_eq_Some_iff)
qed

lemma map_of_map_snd: "map_of (map (map_prod id f) ms) k = map_option f (map_of ms k)"
  by (induction ms) auto

lemma map_of_canonical:
  assumes "distinct (map fst ms)"
  shows "map_of (sort_key fst (map (map_prod id canonical) ms)) k =
    map_option canonical (map_of ms k)"
proof -
  have "distinct (map fst (map (map_prod id canonical) ms))" using assms by (simp add: comp_def)
  then show ?thesis by (simp only: map_of_sorted map_of_map_snd)
qed

section \<open>Credentials and receipts\<close>

lemma echo_keys_distinct:
  "distinct (map fst ([(''id'', JString a), (''realm'', JString b), (''method'', JString c),
     (''intent'', JString d), (''request'', JString e)] @ opt_member ''expires'' x @
     opt_member ''digest'' y @ opt_member ''opaque'' z))"
  by (auto simp: opt_member_def split: option.splits)

lemma member_str_canonical:
  assumes "distinct (map fst ms)" and "map_of ms key = Some (JString s)"
  shows "member_str (sort_key fst (map (map_prod id canonical) ms)) key = Ok s"
  using assms by (simp add: member_str_def map_of_canonical)

lemma member_opt_str_canonical:
  assumes "distinct (map fst ms)" and "map_of ms key = map_option JString v"
  shows "member_opt_str (sort_key fst (map (map_prod id canonical) ms)) key = Ok v"
  using assms by (cases v) (simp_all add: member_opt_def json_str_def as_str_def map_of_canonical)

lemma echo_roundtrip: "echo_of_json (canonical (echo_to_json e)) = Ok e"
proof -
  let ?ms = "[(''id'', JString (ce_id e)), (''realm'', JString (ce_realm e)),
               (''method'', JString (method_str (ce_method e))),
               (''intent'', JString (intent_str (ce_intent e))),
               (''request'', JString (raw (ce_request e)))] @
              opt_member ''expires'' (ce_expires e) @ opt_member ''digest'' (ce_digest e) @
              opt_member ''opaque'' (map_option raw (ce_opaque e))"
  let ?cs = "sort_key fst (map (map_prod id canonical) ?ms)"
  note d = echo_keys_distinct [of "ce_id e" "ce_realm e" "method_str (ce_method e)"
      "intent_str (ce_intent e)" "raw (ce_request e)" "ce_expires e" "ce_digest e"
      "map_option raw (ce_opaque e)"]
  have req: "member_str ?cs ''id'' = Ok (ce_id e)" "member_str ?cs ''realm'' = Ok (ce_realm e)"
    "member_str ?cs ''method'' = Ok (method_str (ce_method e))"
    "member_str ?cs ''intent'' = Ok (intent_str (ce_intent e))"
    "member_str ?cs ''request'' = Ok (raw (ce_request e))"
    by (rule member_str_canonical [OF d], simp)+
  have opt: "member_opt_str ?cs ''expires'' = Ok (ce_expires e)"
    "member_opt_str ?cs ''digest'' = Ok (ce_digest e)"
    "member_opt_str ?cs ''opaque'' = Ok (map_option raw (ce_opaque e))"
    by (rule member_opt_str_canonical [OF d], simp add: opt_member_def split: option.splits)+
  have canon: "canonical (echo_to_json e) = JObject ?cs" by (simp only: echo_to_json_def canonical.simps)
  show ?thesis
    unfolding canon echo_of_json_def struct_members_def json.case rbind.simps req opt
    by simp
qed

lemma credential_roundtrip:
  "credential_of_json (canonical (credential_to_json c)) =
     Ok (c\<lparr>cred_payload := canonical (cred_payload c)\<rparr>)"
proof -
  let ?ms = "[(''challenge'', echo_to_json (cred_challenge c))] @
              opt_member ''source'' (cred_source c) @ [(''payload'', cred_payload c)]"
  let ?cs = "sort_key fst (map (map_prod id canonical) ?ms)"
  have d: "distinct (map fst ?ms)" by (auto simp: opt_member_def split: option.splits)
  have lookup: "map_of ?cs ''challenge'' = Some (canonical (echo_to_json (cred_challenge c)))"
    "map_of ?cs ''payload'' = Some (canonical (cred_payload c))"
    unfolding map_of_canonical [OF d] by (simp_all add: opt_member_def split: option.splits)
  have source: "member_opt_str ?cs ''source'' = Ok (cred_source c)"
    by (rule member_opt_str_canonical [OF d], simp add: opt_member_def split: option.splits)
  have canon: "canonical (credential_to_json c) = JObject ?cs"
    by (simp only: credential_to_json_def canonical.simps)
  show ?thesis
    unfolding canon credential_of_json_def struct_members_def json.case rbind.simps lookup
      source
    by (simp add: echo_roundtrip)
qed

lemma receipt_roundtrip: "receipt_of_json (canonical (receipt_to_json r)) = Ok r"
proof -
  let ?ms = "[(''status'', JString (receipt_status_display (rc_status r))),
              (''method'', JString (method_str (rc_method r))),
              (''timestamp'', JString (rc_timestamp r)),
              (''reference'', JString (rc_reference r)),
              (''challengeId'', JString (rc_challenge_id r))]"
  let ?cs = "sort_key fst (map (map_prod id canonical) ?ms)"
  have d: "distinct (map fst ?ms)" by simp
  have status: "receipt_status_display s = ''success''" "s = Success" for s
    by (cases s; simp add: receipt_status_display_def)+
  have req: "member_str ?cs ''status'' = Ok ''success''"
    "member_str ?cs ''method'' = Ok (method_str (rc_method r))"
    "member_str ?cs ''timestamp'' = Ok (rc_timestamp r)"
    "member_str ?cs ''reference'' = Ok (rc_reference r)"
    "member_str ?cs ''challengeId'' = Ok (rc_challenge_id r)"
    by (rule member_str_canonical [OF d], simp add: status(1))+
  have canon: "canonical (receipt_to_json r) = JObject ?cs"
    by (simp only: receipt_to_json_def canonical.simps)
  show ?thesis
    unfolding canon receipt_of_json_def struct_members_def json.case rbind.simps req
    using status(2) [of "rc_status r"] by simp
qed

lemma extract_payment_scheme_here:
  assumes "CHR '','' \<notin> set tok" and "\<forall>c \<in> set tok. \<not> is_whitespace c" and "tok \<noteq> []"
  shows "extract_payment_scheme (''Payment '' @ tok) = Some (''Payment '' @ tok)"
proof -
  have "\<not> is_whitespace (last tok)" using assms(2,3) by simp
  then have "trim (''Payment '' @ tok) = ''Payment '' @ tok"
    using assms(3) by (intro trim_ends) (simp add: is_whitespace_def)
  moreover have "split_on (CHR '','') (''Payment '' @ tok) = [''Payment '' @ tok]"
    using assms(1) by (intro split_on_free) simp
  moreover have "eq_ignore_ascii_case ''Payment '' ''payment ''" by code_simp
  ultimately show ?thesis unfolding extract_payment_scheme_def by simp
qed

lemma string_bytes_eq_Nil [simp]: "string_bytes s = [] \<longleftrightarrow> s = []"
  by (simp add: string_bytes_def)

lemma parse_format_authorization:
  assumes "codecs_lawful K" and "format_authorization K c = Ok h"
    and "length h \<le> MAX_TOKEN_LEN + 8"
  shows "parse_authorization K h = Ok (c\<lparr>cred_payload := canonical (cred_payload c)\<rparr>)"
proof -
  from assms(2) obtain t where printed: "canonical_json K (credential_to_json c) = Ok t"
    and h: "h = ''Payment '' @ base64url_encode K (string_bytes t)"
    by (auto simp: format_authorization_def)
  let ?tok = "base64url_encode K (string_bytes t)"
  have "t \<noteq> []" and json: "json_from_slice K (string_bytes t) =
      Ok (canonical (credential_to_json c))"
    using assms(1) printed by (simp_all add: codecs_lawful_def)
  then have tok: "?tok \<noteq> []" using lawful_token(3) [OF assms(1)] by simp
  have "extract_payment_scheme h = Some h"
    unfolding h using lawful_token(1,2) [OF assms(1)] tok by (intro extract_payment_scheme_here)
  moreover have "trim (drop 8 h) = ?tok"
    unfolding h using lawful_token(1) [OF assms(1)] by (simp add: trim_plain)
  moreover have "length ?tok \<le> MAX_TOKEN_LEN" using assms(3) h by simp
  ultimately show ?thesis
    by (simp add: parse_authorization_def Let_def lawful_decode [OF assms(1)] json
        credential_roundtrip)
qed

lemma parse_format_receipt:
  assumes "codecs_lawful K" and "format_receipt K r = Ok h" and "length h \<le> MAX_TOKEN_LEN"
  shows "parse_receipt K h = Ok r"
proof -
  from assms(2) obtain t where printed: "canonical_json K (receipt_to_json r) = Ok t"
    and h: "h = base64url_encode K (string_bytes t)"
    by (auto simp: format_receipt_def)
  have json: "json_from_slice K (string_bytes t) = Ok (canonical (receipt_to_json r))"
    using assms(1) printed by (simp add: codecs_lawful_def)
  have "trim h = h" unfolding h using lawful_token(1) [OF assms(1)] by (rule trim_plain)
  with assms(3) show ?thesis
    by (simp add: parse_receipt_def Let_def h lawful_decode [OF assms(1)] json receipt_roundtrip)
qed

end
