(* ===== verification/Header_Splitting.thy ===== *)
theory Header_Splitting
  imports Header_Roundtrips
begin

text \<open>
  Splitting a header value that holds several challenges: the scanner finds exactly the places
  where a formatted challenge begins, whatever its quoted values contain.
\<close>

section \<open>The scanner\<close>

lemma scan_Nil [simp]: "scan_starts seen q e [] = []"
  by (simp add: scan_starts.simps)

lemma scan_in_quote:
  "scan_starts seen True False (CHR 34 # cs) = scan_starts (CHR 34 # seen) False False cs"
  "scan_starts seen True False (CHR 92 # c # cs) = scan_starts (c # CHR 92 # seen) True False cs"
  "c \<noteq> CHR 34 \<Longrightarrow> c \<noteq> CHR 92 \<Longrightarrow>
     scan_starts seen True False (c # cs) = scan_starts (c # seen) True False cs"
  by (simp_all add: scan_starts.simps [of seen] scan_starts.simps [of "CHR 92 # seen" True True])

lemma scan_escaped:
  "scan_starts seen True False (escape_char c @ cs) =
     scan_starts (rev (escape_char c) @ seen) True False cs"
  by (simp add: escape_char_def scan_in_quote)

lemma scan_quoted:
  "scan_starts seen True False (concat (map escape_char s) @ CHR 34 # r) =
     scan_starts (CHR 34 # rev (concat (map escape_char s)) @ seen) False False r"
  by (induction s arbitrary: seen) (simp_all add: scan_in_quote scan_escaped)

lemma scan_open_quote:
  "scan_starts seen False False (CHR 34 # r) = scan_starts (CHR 34 # seen) True False r"
  by (simp add: scan_starts.simps [of seen False])

lemma scan_plain:
  "c \<noteq> CHR 34 \<Longrightarrow> \<not> is_payment_scheme_start seen (c # cs) \<Longrightarrow>
   scan_starts seen False False (c # cs) = scan_starts (c # seen) False False cs"
  by (simp add: scan_starts.simps [of seen False])

text \<open>Three letters decide: no parameter name of a challenge contains \<^verbatim>\<open>pay\<close>.\<close>

lemma scheme_start_letters:
  assumes "is_payment_scheme_start seen (a # b # c # r)"
  shows "ascii_lower a = CHR ''p'' \<and> ascii_lower b = CHR ''a'' \<and> ascii_lower c = CHR ''y''"
proof -
  have "to_ascii_lowercase PAYMENT_SCHEME = ''payment''" by code_simp
  with assms have "to_ascii_lowercase (take 7 (a # b # c # r)) = ''payment''"
    by (simp add: is_payment_scheme_start_def eq_ignore_ascii_case_def PAYMENT_SCHEME_def Let_def
        eval_nat_numeral)
  then show ?thesis by (simp add: to_ascii_lowercase_def)
qed

fun no_pay :: "string \<Rightarrow> bool" where
  "no_pay (a # b # c # r) =
     (a \<noteq> CHR 34 \<and>
      (ascii_lower a \<noteq> CHR ''p'' \<or> ascii_lower b \<noteq> CHR ''a'' \<or> ascii_lower c \<noteq> CHR ''y'') \<and>
      no_pay (b # c # r))"
| "no_pay _ = True"

lemma scan_key:
  assumes "no_pay (t @ [CHR ''='', CHR 34])" and "t \<noteq> []"
  shows "scan_starts seen False False (t @ CHR ''='' # CHR 34 # r) =
    scan_starts (CHR ''='' # rev t @ seen) False False (CHR 34 # r)"
  using assms
proof (induction t arbitrary: seen)
  case (Cons a t)
  have eq: "scan_starts s False False (CHR ''='' # CHR 34 # r) =
      scan_starts (CHR ''='' # s) False False (CHR 34 # r)" for s
  proof (rule scan_plain)
    have l: "ascii_lower (CHR ''='') = CHR ''=''" "ascii_lower (CHR 34) = CHR 34" by code_simp+
    show "\<not> is_payment_scheme_start s (CHR ''='' # CHR 34 # r)"
    proof (cases r)
      case Nil
      then show ?thesis by (simp add: is_payment_scheme_start_def PAYMENT_SCHEME_def)
    next
      case (Cons x xs)
      then show ?thesis using scheme_start_letters [of s "CHR ''=''" "CHR 34" x xs] l by auto
    qed
  qed simp
  obtain b c r' where shape: "t @ [CHR ''='', CHR 34] = b # c # r'"
    by (cases t; cases "tl t") auto
  have "no_pay (a # b # c # r')" using Cons.prems(1) shape by simp
  then have a: "a \<noteq> CHR 34" "\<not> (ascii_lower a = CHR ''p'' \<and> ascii_lower b = CHR ''a'' \<and> ascii_lower c = CHR ''y'')"
    and rest: "no_pay (t @ [CHR ''='', CHR 34])"
    using shape by auto
  have "t @ CHR ''='' # CHR 34 # r = b # c # r' @ r" using shape
    by (metis append.assoc append_Cons append_Nil)
  moreover have "\<not> is_payment_scheme_start seen (a # b # c # r' @ r)"
    using scheme_start_letters [of seen a b c "r' @ r"] a(2) by blast
  ultimately have "\<not> is_payment_scheme_start seen (a # t @ CHR ''='' # CHR 34 # r)" by metis
  then have "scan_starts seen False False ((a # t) @ CHR ''='' # CHR 34 # r) =
      scan_starts (a # seen) False False (t @ CHR ''='' # CHR 34 # r)"
    using a(1) by (simp add: scan_plain)
  also have "\<dots> = scan_starts (CHR ''='' # rev (a # t) @ seen) False False (CHR 34 # r)"
    using rest Cons.IH [of "a # seen"] eq by (cases "t = []") simp_all
  finally show ?case .
qed simp

lemma scan_param:
  assumes "no_pay (k @ [CHR ''='', CHR 34])" and "k \<noteq> []"
  shows "scan_starts seen False False (render_param (k, v) @ r) =
    scan_starts (rev (render_param (k, v)) @ seen) False False r"
proof -
  have "scan_starts seen False False (render_param (k, v) @ r) =
      scan_starts seen False False
        (k @ CHR ''='' # CHR 34 # (concat (map escape_char v) @ CHR 34 # r))"
    by (simp add: render_param_def)
  also have "\<dots> = scan_starts (CHR ''='' # rev k @ seen) False False
      (CHR 34 # (concat (map escape_char v) @ CHR 34 # r))"
    by (rule scan_key [OF assms])
  also have "\<dots> = scan_starts (rev (render_param (k, v)) @ seen) False False r"
    by (simp add: scan_open_quote scan_quoted render_param_def)
  finally show ?thesis .
qed

lemma not_start: "ascii_lower c \<noteq> CHR ''p'' \<Longrightarrow> \<not> is_payment_scheme_start s (c # cs)"
proof
  assume c: "ascii_lower c \<noteq> CHR ''p''" and start: "is_payment_scheme_start s (c # cs)"
  then have "2 < length (c # cs)" by (simp add: is_payment_scheme_start_def PAYMENT_SCHEME_def)
  then obtain x y z where "cs = x # y # z" by (cases cs; cases "tl cs") auto
  with start c scheme_start_letters [of s c x y z] show False by simp
qed

lemma scan_separator:
  "scan_starts seen False False (CHR '','' # CHR '' '' # r) =
     scan_starts (CHR '' '' # CHR '','' # seen) False False r"
proof -
  have l: "ascii_lower (CHR '','') \<noteq> CHR ''p''" "ascii_lower (CHR '' '') \<noteq> CHR ''p''" by code_simp+
  show ?thesis using l by (simp add: scan_plain not_start)
qed

lemma scan_params:
  assumes "\<forall>kv \<in> set kvs. no_pay (fst kv @ [CHR ''='', CHR 34]) \<and> fst kv \<noteq> []"
  shows "scan_starts seen False False (join_with '', '' (map render_param kvs) @ r) =
    scan_starts (rev (join_with '', '' (map render_param kvs)) @ seen) False False r"
  using assms
proof (induction kvs arbitrary: seen rule: induct_list012)
  case 1
  show ?case by simp
next
  case (2 kv)
  then show ?case using scan_param [of "fst kv" seen "snd kv" r] by simp
next
  case (3 kv kv' kvs)
  have "scan_starts seen False False (join_with '', '' (map render_param (kv # kv' # kvs)) @ r) =
    scan_starts seen False False (render_param (fst kv, snd kv) @ CHR '','' # CHR '' '' #
      join_with '', '' (map render_param (kv' # kvs)) @ r)"
    by simp
  also have "\<dots> = scan_starts (CHR '' '' # CHR '','' # rev (render_param kv) @ seen) False False
      (join_with '', '' (map render_param (kv' # kvs)) @ r)"
    using 3(3) scan_param [of "fst kv" seen "snd kv"] by (simp add: scan_separator)
  also have "\<dots> = scan_starts (rev (join_with '', '' (map render_param (kv' # kvs))) @
      CHR '' '' # CHR '','' # rev (render_param kv) @ seen) False False r"
    by (rule 3(2)) (use 3(3) in simp)
  finally show ?case by simp
qed

lemma challenge_params_no_pay:
  "\<forall>kv \<in> set (challenge_params c). no_pay (fst kv @ [CHR ''='', CHR 34]) \<and> fst kv \<noteq> []"
proof
  fix kv
  let ?ks = "[''id'', ''realm'', ''method'', ''intent'', ''request'', ''expires'', ''digest'', ''opaque'']"
  assume "kv \<in> set (challenge_params c)"
  then have "fst kv \<in> set ?ks" by (auto simp: challenge_params_def split: option.splits)
  moreover have "list_all (\<lambda>k. no_pay (k @ [CHR ''='', CHR 34]) \<and> k \<noteq> []) ?ks" by code_simp
  ultimately show "no_pay (fst kv @ [CHR ''='', CHR 34]) \<and> fst kv \<noteq> []"
    unfolding list_all_iff by (rule bspec [rotated])
qed

section \<open>Several challenges\<close>

definition challenge_text :: "payment_challenge \<Rightarrow> string" where
  "challenge_text c = ''Payment '' @ join_with '', '' (map render_param (challenge_params c))"

definition at_start :: "string \<Rightarrow> bool" where
  "at_start seen =
     (case dropWhile is_ascii_whitespace seen of [] \<Rightarrow> True | c # _ \<Rightarrow> c = CHR '','')"

fun starts_of :: "nat \<Rightarrow> string list \<Rightarrow> nat list" where
  "starts_of n [] = []"
| "starts_of n (t # ts) = n # starts_of (n + length t + 2) ts"

lemma payment_is_start: "is_payment_scheme_start seen (''Payment '' @ r) \<longleftrightarrow> at_start seen"
proof -
  have "eq_ignore_ascii_case ''Payment'' ''Payment''" by (simp add: eq_ignore_ascii_case_def)
  then show ?thesis
    by (simp add: is_payment_scheme_start_def PAYMENT_SCHEME_def Let_def at_start_def
        is_ascii_whitespace_def)
qed

lemma scan_challenge:
  assumes "at_start seen"
  shows "scan_starts seen False False (challenge_text c @ r) =
    length seen # scan_starts (rev (challenge_text c) @ seen) False False r"
proof -
  let ?ps = "join_with '', '' (map render_param (challenge_params c))"
  have space: "ascii_lower (CHR '' '') \<noteq> CHR ''p''" by code_simp
  have start: "is_payment_scheme_start seen (''Payment '' @ ?ps @ r)"
    using assms by (simp only: payment_is_start)
  have "scan_starts seen False False (''Payment '' @ ?ps @ r) =
      length seen # scan_starts (rev ''Payment'' @ seen) False False (CHR '' '' # ?ps @ r)"
    using start by (subst scan_starts.simps) (simp add: PAYMENT_SCHEME_def)
  also have "\<dots> = length seen # scan_starts (CHR '' '' # rev ''Payment'' @ seen) False False (?ps @ r)"
    using space by (simp add: scan_plain not_start)
  also have "\<dots> = length seen # scan_starts (rev ?ps @ CHR '' '' # rev ''Payment'' @ seen) False False r"
    by (simp add: scan_params [OF challenge_params_no_pay])
  finally show ?thesis by (simp add: challenge_text_def)
qed

lemma scan_challenges:
  "at_start seen \<Longrightarrow>
   scan_starts seen False False (join_with '', '' (map challenge_text cs)) =
     starts_of (length seen) (map challenge_text cs)"
proof (induction cs arbitrary: seen rule: induct_list012)
  case 1
  show ?case by simp
next
  case (2 c)
  then show ?case using scan_challenge [of seen c "[]"] by simp
next
  case (3 c c' cs)
  let ?seen = "CHR '' '' # CHR '','' # rev (challenge_text c) @ seen"
  have start: "at_start ?seen" by (simp add: at_start_def is_ascii_whitespace_def)
  have "scan_starts seen False False (join_with '', '' (map challenge_text (c # c' # cs))) =
      scan_starts seen False False (challenge_text c @ CHR '','' # CHR '' '' #
        join_with '', '' (map challenge_text (c' # cs)))"
    by simp
  also have "\<dots> = length seen # scan_starts ?seen False False (join_with '', '' (map challenge_text (c' # cs)))"
    using 3(3) by (simp only: scan_challenge scan_separator)
  also have "\<dots> = length seen # starts_of (length ?seen) (map challenge_text (c' # cs))"
    using 3(2) [OF start] by simp
  finally show ?case by (simp add: add.commute add.left_commute)
qed

fun pieces :: "string list \<Rightarrow> string list" where
  "pieces [] = []"
| "pieces [t] = [t]"
| "pieces (t # t' # ts) = (t @ '', '') # pieces (t' # ts)"

lemma cut_at_pieces:
  "cut_at (pre @ join_with '', '' ts) (starts_of (length pre) ts) = pieces ts"
proof (induction ts arbitrary: pre rule: induct_list012)
  case (3 t t' ts)
  have "cut_at ((pre @ t @ '', '') @ join_with '', '' (t' # ts))
      (starts_of (length (pre @ t @ '', '')) (t' # ts)) = pieces (t' # ts)"
    by (rule 3)
  then show ?case by (simp add: add.assoc)
qed simp_all

lemma last_join:
  assumes "xs \<noteq> []" and "last xs \<noteq> []"
  shows "last (join_with sep xs) = last (last xs)"
proof -
  have "join_with sep xs \<noteq> [] \<and> last (join_with sep xs) = last (last xs)"
    using assms by (induction sep xs rule: join_with.induct) (auto split: if_splits)
  then show ?thesis ..
qed

lemma challenge_text_ends:
  "challenge_text c \<noteq> []" "\<not> is_whitespace (hd (challenge_text c))"
  "last (challenge_text c) = CHR 34"
proof -
  have ne: "challenge_params c \<noteq> []" by (simp add: challenge_params_def)
  then have l: "last (map render_param (challenge_params c)) = render_param (last (challenge_params c))"
    by (simp add: last_map)
  have "last (join_with '', '' (map render_param (challenge_params c))) = CHR 34"
    using ne by (subst last_join) (simp_all add: l render_param_def)
  moreover have "join_with '', '' (map render_param (challenge_params c)) \<noteq> []"
    by (simp add: challenge_params_def render_param_def)
  ultimately show "last (challenge_text c) = CHR 34" by (simp add: challenge_text_def)
qed (simp_all add: challenge_text_def is_whitespace_def)

lemma trim_piece:
  assumes "t \<noteq> []" and "\<not> is_whitespace (hd t)" and "last t = CHR 34"
  shows "trim (trim_end_matches (CHR '','') (trim (t @ '', ''))) = t"
    and "trim (trim_end_matches (CHR '','') (trim t)) = t"
proof -
  have t: "trim t = t" using assms by (intro trim_ends) (simp add: is_whitespace_def)
  have no_comma: "dropWhile (\<lambda>x. x = CHR '','') (rev t) = rev t"
    using assms by (simp add: dropWhile_eq_self_iff hd_rev)
  have "dropWhile is_whitespace (t @ '', '') = t @ '', ''"
    using assms by (cases t) (simp_all add: is_whitespace_def)
  then have "trim (t @ '', '') = t @ '',''"
    by (simp add: trim_def trim_start_def trim_end_def is_whitespace_def)
  then show "trim (trim_end_matches (CHR '','') (trim (t @ '', ''))) = t"
    using t no_comma by (simp add: trim_end_matches_def)
  show "trim (trim_end_matches (CHR '','') (trim t)) = t"
    using t no_comma by (simp add: trim_end_matches_def)
qed

lemma split_challenges:
  "split_payment_challenge_values (join_with '', '' (map challenge_text cs)) = map challenge_text cs"
proof -
  have "cut_at (join_with '', '' (map challenge_text cs))
      (scan_starts [] False False (join_with '', '' (map challenge_text cs))) =
      pieces (map challenge_text cs)"
    using scan_challenges [of "[]" cs] cut_at_pieces [of "[]" "map challenge_text cs"]
    by (simp add: at_start_def)
  moreover have "map (\<lambda>chunk. trim (trim_end_matches (CHR '','') (trim chunk)))
      (pieces (map challenge_text cs)) = map challenge_text cs"
    by (induction cs rule: induct_list012)
      (simp_all add: trim_piece [OF challenge_text_ends, simplified] trim_piece [OF challenge_text_ends])
  moreover have "filter (\<lambda>chunk. chunk \<noteq> []) (map challenge_text cs) = map challenge_text cs"
    using challenge_text_ends(1) by (auto simp: filter_id_conv)
  ultimately show ?thesis by (simp add: split_payment_challenge_values_def)
qed

end
