(* ===== verification/Protocol_Properties.thy ===== *)
theory Protocol_Properties
  imports Header_Splitting Solana
begin

text \<open>
  Properties of the protocol layer: what travels in the three HTTP headers arrives as it was sent,
  what the challenge id binds, and what a currency stands for.
\<close>

section \<open>A concrete codec\<close>

text \<open>
  Two letters per byte instead of base64, and a printer for the three values the examples send.
\<close>

definition hex_letter :: "nat \<Rightarrow> char" where
  "hex_letter n = char_of (97 + n)"

definition hex_encode :: "byte list \<Rightarrow> string" where
  "hex_encode bytes = concat (map (\<lambda>b. [hex_letter (unat b div 16), hex_letter (unat b mod 16)]) bytes)"

fun hex_decode :: "string \<Rightarrow> (byte list, string) result" where
  "hex_decode [] = Ok []"
| "hex_decode [c] = Err ''odd length''"
| "hex_decode (c # d # cs) =
     rbind (hex_decode cs) (\<lambda>bs. Ok (of_nat ((of_char c - 97) * 16 + (of_char d - 97)) # bs))"

definition demo_request_json :: json where
  "demo_request_json = JObject [(''amount'', JString ''1'')]"

definition demo_challenge :: payment_challenge where
  "demo_challenge =
     \<lparr>pc_id = ''id1'', pc_realm = ''say '' @ [CHR 34] @ ''hi'', pc_method = MethodName ''solana'',
      pc_intent = IntentName ''charge'', pc_request = Base64UrlJson (hex_encode (string_bytes ''q'')),
      pc_expires = Some ''2030-01-01T00:00:00Z'', pc_description = None, pc_digest = None,
      pc_opaque = None\<rparr>"

definition demo_credential :: payment_credential where
  "demo_credential = payment_credential_new (to_echo demo_challenge) demo_request_json"

definition demo_receipt :: receipt where
  "demo_receipt =
     \<lparr>rc_status = Success, rc_method = MethodName ''solana'', rc_timestamp = ''t'',
      rc_reference = ''sig'', rc_challenge_id = ''id1''\<rparr>"

definition demo_codecs :: codecs where
  "demo_codecs =
     \<lparr>b64_encode = hex_encode, b64_decode = hex_decode,
      hmac_sha256 = (\<lambda>key text. string_bytes (key @ text)),
      canonical_json = (\<lambda>v.
        if v = credential_to_json demo_credential then Ok ''c''
        else if v = receipt_to_json demo_receipt then Ok ''r''
        else if v = demo_request_json then Ok ''q'' else Err ''not printable''),
      json_from_slice = (\<lambda>bytes.
        if bytes = string_bytes ''c'' then Ok (canonical (credential_to_json demo_credential))
        else if bytes = string_bytes ''r'' then Ok (canonical (receipt_to_json demo_receipt))
        else if bytes = string_bytes ''q'' then Ok (canonical demo_request_json)
        else Err ''not a value''),
      parse_rfc3339 = (\<lambda>s. Err ''no time''), format_rfc3339 = (\<lambda>t. Ok ''t''), now_utc = 0\<rparr>"

lemma hex_letter_b64url: "n < 16 \<Longrightarrow> is_b64url (hex_letter n)"
  by (simp add: is_b64url_def is_ascii_lowercase_def hex_letter_def of_char_of)

lemma hex_encode_b64url: "list_all is_b64url (hex_encode bytes)"
proof (induction bytes)
  case (Cons b bytes)
  have "unat b < 256" using unat_lt [of b] by simp
  then have "unat b div 16 < 16" "unat b mod 16 < 16" by auto
  with Cons show ?case by (simp add: hex_encode_def hex_letter_b64url)
qed (simp add: hex_encode_def)

lemma hex_decode_encode: "hex_decode (hex_encode bytes) = Ok bytes"
proof (induction bytes)
  case (Cons b bytes)
  have "unat b < 256" using unat_lt [of b] by simp
  then have "unat b div 16 < 16" by auto
  then have "(of_char (hex_letter (unat b div 16)) :: nat) = 97 + unat b div 16"
    "(of_char (hex_letter (unat b mod 16)) :: nat) = 97 + unat b mod 16"
    by (simp_all add: hex_letter_def of_char_of)
  then have "(of_nat ((of_char (hex_letter (unat b div 16)) - 97) * 16 +
      (of_char (hex_letter (unat b mod 16)) - 97)) :: byte) = of_nat (unat b)"
    by (simp del: of_nat_unat)
  with Cons show ?case by (simp add: hex_encode_def)
qed (simp add: hex_encode_def)

lemma hex_encode_Nil: "hex_encode [] = []"
  by (simp add: hex_encode_def)

lemma demo_codecs_lawful: "codecs_lawful demo_codecs"
proof -
  have "string_bytes ''r'' \<noteq> string_bytes ''c''" "string_bytes ''q'' \<noteq> string_bytes ''c''"
    "string_bytes ''q'' \<noteq> string_bytes ''r''"
    by (simp_all add: string_bytes_inj)
  then show ?thesis
    by (auto simp: codecs_lawful_def demo_codecs_def hex_decode_encode hex_encode_b64url
        hex_encode_Nil split: if_splits)
qed

section \<open>Headers\<close>

text \<open>
  A challenge written to a \<^verbatim>\<open>WWW-Authenticate\<close> header is read back as it was, whatever its text
  fields hold (quotes, backslashes, commas, the word \<^verbatim>\<open>Payment\<close>); only the description, which the
  header leaves out, is lost.
\<close>

theorem challenge_header_roundtrip:
  assumes "format_www_authenticate c = Ok h"
    and "pc_id c \<noteq> []" and "method_name_is_valid (pc_method c)"
    and "to_ascii_lowercase (intent_str (pc_intent c)) = intent_str (pc_intent c)"
    and "decode_value K (pc_request c) = Ok v"
  shows "parse_www_authenticate K h = Ok (c\<lparr>pc_description := None\<rparr>)"
  using assms by (rule parse_format_challenge)

lemma demo_challenge_valid:
  "pc_id demo_challenge \<noteq> []" "method_name_is_valid (pc_method demo_challenge)"
  "to_ascii_lowercase (intent_str (pc_intent demo_challenge)) = intent_str (pc_intent demo_challenge)"
  by (simp add: demo_challenge_def, code_simp+)

lemma demo_request_decodes:
  "decode_value demo_codecs (pc_request demo_challenge) = Ok (canonical demo_request_json)"
proof -
  have "base64url_decode demo_codecs (hex_encode (string_bytes ''q'')) = Ok (string_bytes ''q'')"
    using lawful_decode [OF demo_codecs_lawful, of "string_bytes ''q''"]
    by (simp add: base64url_encode_def demo_codecs_def)
  then show ?thesis
    by (simp add: decode_value_def demo_challenge_def) (simp add: demo_codecs_def string_bytes_inj)
qed

lemma demo_challenge_formats: "is_ok (format_www_authenticate demo_challenge)"
  by code_simp

lemma demo_challenge_header:
  "\<exists>h. format_www_authenticate demo_challenge = Ok h"
  using demo_challenge_formats by (simp add: is_ok_iff)

theorem challenge_header_roundtrip_witness:
  "\<exists>h. format_www_authenticate demo_challenge = Ok h \<and>
    parse_www_authenticate demo_codecs h = Ok (demo_challenge\<lparr>pc_description := None\<rparr>)"
proof -
  obtain h where h: "format_www_authenticate demo_challenge = Ok h"
    using demo_challenge_header by blast
  with challenge_header_roundtrip [OF h demo_challenge_valid demo_request_decodes] show ?thesis
    by blast
qed

text \<open>
  What the reader demands of a challenge beyond being well-formed.
\<close>

definition readable :: "codecs \<Rightarrow> payment_challenge \<Rightarrow> bool" where
  "readable K c =
     (pc_id c \<noteq> [] \<and> method_name_is_valid (pc_method c) \<and>
      to_ascii_lowercase (intent_str (pc_intent c)) = intent_str (pc_intent c) \<and>
      is_ok (decode_value K (pc_request c)))"

lemma format_many_texts:
  "format_www_authenticate_many cs = Ok hs \<Longrightarrow> hs = map challenge_text cs"
  unfolding format_www_authenticate_many_def collect_results_Ok
  by (induction rule: list_all2_induct)
    (auto simp: challenge_text_def dest: format_www_authenticate_Ok(1))

lemma parse_challenge_texts:
  assumes "format_www_authenticate_many cs = Ok hs" and "\<forall>c \<in> set cs. readable K c"
  shows "map (parse_www_authenticate K) hs = map (\<lambda>c. Ok (c\<lparr>pc_description := None\<rparr>)) cs"
proof -
  have "list_all2 (\<lambda>c h. format_www_authenticate c = Ok h) cs hs"
    using assms(1) by (simp add: format_www_authenticate_many_def collect_results_Ok)
  then show ?thesis using assms(2)
    by (induction rule: list_all2_induct)
      (auto simp: readable_def is_ok_iff intro: parse_format_challenge)
qed

text \<open>
  C40. Challenges may be spread over headers in any way, several joined by commas in one value: reading
  all headers gives back all challenges in order.  No quoted text is mistaken for a challenge.
\<close>

theorem challenge_headers_roundtrip:
  assumes "list_all2 (\<lambda>cs h. \<exists>hs. format_www_authenticate_many cs = Ok hs \<and> h = join_with '', '' hs)
             groups headers"
    and "\<forall>c \<in> set (concat groups). readable K c"
  shows "parse_www_authenticate_all K headers =
    map (\<lambda>c. Ok (c\<lparr>pc_description := None\<rparr>)) (concat groups)"
  using assms
proof (induction rule: list_all2_induct)
  case (Cons cs css h hs)
  then obtain ts where ts: "format_www_authenticate_many cs = Ok ts" "h = join_with '', '' ts"
    by blast
  have "split_payment_challenge_values h = ts"
    using ts format_many_texts [OF ts(1)] split_challenges [of cs] by simp
  with Cons parse_challenge_texts [OF ts(1), of K] show ?case
    by (simp add: parse_www_authenticate_all_def)
qed (simp add: parse_www_authenticate_all_def)

theorem challenge_headers_roundtrip_witness:
  "\<exists>h. parse_www_authenticate_all demo_codecs [h @ '', '' @ h, h] =
    replicate 3 (Ok (demo_challenge\<lparr>pc_description := None\<rparr>))"
proof -
  obtain h where h: "format_www_authenticate demo_challenge = Ok h"
    using demo_challenge_header by blast
  have "readable demo_codecs demo_challenge"
    using demo_challenge_valid demo_request_decodes by (simp add: readable_def)
  with h challenge_headers_roundtrip
    [of "[[demo_challenge, demo_challenge], [demo_challenge]]" "[h @ '', '' @ h, h]" demo_codecs]
  have "parse_www_authenticate_all demo_codecs [h @ '', '' @ h, h] =
      replicate 3 (Ok (demo_challenge\<lparr>pc_description := None\<rparr>))"
    by (simp add: format_www_authenticate_many_def eval_nat_numeral)
  then show ?thesis ..
qed

text \<open>
  A challenge header is either refused or free of line breaks, so no field can smuggle another
  header into the response; it is refused exactly when a field holds a line break.
\<close>

theorem challenge_header_single_line:
  "case format_www_authenticate c of
     Ok h \<Rightarrow> CHR 13 \<notin> set h \<and> CHR 10 \<notin> set h
   | Err e \<Rightarrow> e = Other ''Header value contains invalid CRLF characters'' \<and>
             (\<exists>(k, v) \<in> set (challenge_params c). CHR 13 \<in> set v \<or> CHR 10 \<in> set v)
   | Panic \<Rightarrow> False"
proof -
  have param: "header_param k v = (if CHR 13 \<in> set v \<or> CHR 10 \<in> set v
      then Err (Other ''Header value contains invalid CRLF characters'') else Ok (render_param (k, v)))" for k v
    by (simp add: header_param_def escape_quoted_value_def render_param_def)
  have coll: "case collect_results (\<lambda>(k, v). header_param k v) kvs of
      Ok hs \<Rightarrow> True
    | Err e \<Rightarrow> e = Other ''Header value contains invalid CRLF characters'' \<and>
             (\<exists>(k, v) \<in> set kvs. CHR 13 \<in> set v \<or> CHR 10 \<in> set v)
    | Panic \<Rightarrow> False" for kvs
    by (induction kvs) (auto simp: param split: result.splits if_splits)
  show ?thesis
  proof (cases "format_www_authenticate c")
    case (Ok h)
    have keys: "\<forall>(k, v) \<in> set (challenge_params c). CHR 13 \<notin> set k \<and> CHR 10 \<notin> set k"
      by (auto simp: challenge_params_def split: option.splits)
    have esc: "CHR 13 \<notin> set v \<Longrightarrow> CHR 10 \<notin> set v \<Longrightarrow>
        CHR 13 \<notin> set (concat (map escape_char v)) \<and> CHR 10 \<notin> set (concat (map escape_char v))" for v
      by (auto simp: escape_char_def)
    have "\<forall>kv \<in> set (challenge_params c). CHR 13 \<notin> set (render_param kv) \<and> CHR 10 \<notin> set (render_param kv)"
      using keys format_www_authenticate_Ok(2) [OF Ok] esc by (force simp: render_param_def)
    moreover have "\<forall>t \<in> set ts. CHR 13 \<notin> set t \<and> CHR 10 \<notin> set t \<Longrightarrow>
        CHR 13 \<notin> set (join_with '', '' ts) \<and> CHR 10 \<notin> set (join_with '', '' ts)" for ts
      by (induction "'', ''" ts rule: join_with.induct) auto
    ultimately show ?thesis using Ok format_www_authenticate_Ok(1) [OF Ok] by force
  next
    case (Err e)
    with coll [of "challenge_params c"] show ?thesis
      by (cases "collect_results (\<lambda>(k, v). header_param k v) (challenge_params c)")
        (auto simp: format_www_authenticate_def)
  next
    case Panic
    with coll [of "challenge_params c"] show ?thesis
      by (cases "collect_results (\<lambda>(k, v). header_param k v) (challenge_params c)")
        (auto simp: format_www_authenticate_def)
  qed
qed

text \<open>
  A credential written to the \<^verbatim>\<open>Authorization\<close> header is read back as it was, up to the order of the
  members of its payload, provided the header fits the token limit.
\<close>

theorem authorization_header_roundtrip:
  assumes "codecs_lawful K" and "format_authorization K c = Ok h"
    and "length h \<le> MAX_TOKEN_LEN + 8"
  shows "parse_authorization K h = Ok (c\<lparr>cred_payload := canonical (cred_payload c)\<rparr>)"
  using assms by (rule parse_format_authorization)

theorem authorization_header_roundtrip_witness:
  "\<exists>h. format_authorization demo_codecs demo_credential = Ok h \<and>
    parse_authorization demo_codecs h =
      Ok (demo_credential\<lparr>cred_payload := canonical (cred_payload demo_credential)\<rparr>)"
proof -
  have h: "format_authorization demo_codecs demo_credential =
      Ok (''Payment '' @ hex_encode (string_bytes ''c''))"
    by (simp add: format_authorization_def demo_codecs_def base64url_encode_def)
  have "length (''Payment '' @ hex_encode (string_bytes ''c'')) \<le> MAX_TOKEN_LEN + 8"
    by (simp add: hex_encode_def string_bytes_def MAX_TOKEN_LEN_def)
  from h authorization_header_roundtrip [OF demo_codecs_lawful h this]
  show ?thesis by (intro exI conjI)
qed

text \<open>
  A receipt written to the \<^verbatim>\<open>Payment-Receipt\<close> header is read back as it was, provided it fits the token
  limit.
\<close>

theorem receipt_header_roundtrip:
  assumes "codecs_lawful K" and "format_receipt K r = Ok h" and "length h \<le> MAX_TOKEN_LEN"
  shows "parse_receipt K h = Ok r"
  using assms by (rule parse_format_receipt)

theorem receipt_header_roundtrip_witness:
  "\<exists>h. format_receipt demo_codecs demo_receipt = Ok h \<and> parse_receipt demo_codecs h = Ok demo_receipt"
proof -
  have "receipt_to_json demo_receipt \<noteq> credential_to_json demo_credential"
    by (simp add: receipt_to_json_def credential_to_json_def)
  then have h: "format_receipt demo_codecs demo_receipt = Ok (hex_encode (string_bytes ''r''))"
    by (simp add: format_receipt_def demo_codecs_def base64url_encode_def)
  have "length (hex_encode (string_bytes ''r'')) \<le> MAX_TOKEN_LEN"
    by (simp add: hex_encode_def string_bytes_def MAX_TOKEN_LEN_def)
  from h receipt_header_roundtrip [OF demo_codecs_lawful h this]
  show ?thesis by (intro exI conjI)
qed

section \<open>Challenge ids\<close>

text \<open>
  A challenge verifies under a secret exactly when it is the challenge that secret issues for the
  same fields: checking recomputes what issuing computes, byte for byte.
\<close>

theorem challenge_verifies_iff_issued:
  "challenge_verify K c secret \<longleftrightarrow>
     c = with_secret_key_full K secret (pc_realm c) (pc_method c) (pc_intent c) (pc_request c)
           (pc_expires c) (pc_digest c) (pc_description c) (pc_opaque c)"
  by (cases c) (auto simp: challenge_verify_def with_secret_key_full_def)

text \<open>The text a challenge's id is computed from.\<close>

definition challenge_input :: "payment_challenge \<Rightarrow> string" where
  "challenge_input c =
     hmac_input (pc_realm c) (method_str (pc_method c)) (intent_str (pc_intent c))
       (raw (pc_request c)) (pc_expires c) (pc_digest c) (map_option raw (pc_opaque c))"

text \<open>
  What an id binds.  Take an issued challenge whose bound fields hold no pipe character, and any
  challenge with the same id that verifies.  Unless its HMAC input collides with the issued one,
  every bound field is the issued one; an absent optional field is not told apart from an empty
  one.  The description is not bound.
\<close>

theorem challenge_id_binds_fields:
  assumes "challenge_verify K issued secret" and "challenge_verify K c secret"
    and "pc_id c = pc_id issued"
    and "base64url_encode K (hmac_sha256 K secret (challenge_input c)) =
        base64url_encode K (hmac_sha256 K secret (challenge_input issued)) \<Longrightarrow>
      challenge_input c = challenge_input issued"
    and "list_all (\<lambda>s. CHR ''|'' \<notin> set s)
      [pc_realm issued, method_str (pc_method issued), intent_str (pc_intent issued),
       raw (pc_request issued), case_option [] id (pc_expires issued),
       case_option [] id (pc_digest issued), case_option [] raw (pc_opaque issued)]"
  shows "pc_realm c = pc_realm issued \<and> pc_method c = pc_method issued \<and>
    pc_intent c = pc_intent issued \<and> pc_request c = pc_request issued \<and>
    case_option [] id (pc_expires c) = case_option [] id (pc_expires issued) \<and>
    case_option [] id (pc_digest c) = case_option [] id (pc_digest issued) \<and>
    case_option [] raw (pc_opaque c) = case_option [] raw (pc_opaque issued)"
proof -
  have raw: "case_option [] id (map_option raw b) = case_option [] raw b" for b
    by (cases b) auto
  have "pc_id d = base64url_encode K (hmac_sha256 K secret (challenge_input d))"
    if "challenge_verify K d secret" for d
    using that by (simp add: challenge_verify_def compute_challenge_id_def challenge_input_def)
  then have "challenge_input c = challenge_input issued"
    using assms(1-3) by (intro assms(4)) metis
  then have parts: "[pc_realm c, method_str (pc_method c), intent_str (pc_intent c), raw (pc_request c),
      case_option [] id (pc_expires c), case_option [] id (pc_digest c),
      case_option [] raw (pc_opaque c)] =
     [pc_realm issued, method_str (pc_method issued), intent_str (pc_intent issued),
      raw (pc_request issued), case_option [] id (pc_expires issued),
      case_option [] id (pc_digest issued), case_option [] raw (pc_opaque issued)]"
    using assms(5) unfolding challenge_input_def hmac_input_def raw list_all_iff
    by (intro join_inj [where d = "CHR ''|''", symmetric]) simp_all
  then show ?thesis
    by (simp add: method_name.expand intent_name.expand base64_url_json.expand)
qed

theorem challenge_id_binds_fields_witness:
  "pc_realm (with_description (with_secret_key demo_codecs ''key'' ''realm'' (MethodName ''solana'')
      (IntentName ''charge'') (Base64UrlJson ''abc'')) ''other'') = ''realm''"
  using challenge_id_binds_fields [of demo_codecs
      "with_secret_key demo_codecs ''key'' ''realm'' (MethodName ''solana'') (IntentName ''charge'')
         (Base64UrlJson ''abc'')" "''key''"
      "with_description (with_secret_key demo_codecs ''key'' ''realm'' (MethodName ''solana'')
         (IntentName ''charge'') (Base64UrlJson ''abc'')) ''other''"]
  by (simp add: challenge_verify_def with_secret_key_def with_description_def)

section \<open>Currencies\<close>

text \<open>
  The mint a currency resolves to resolves to itself on every network, and asks for the same token
  program: a request that names the mint means the same as one that names the symbol.
\<close>

theorem resolved_mint_is_stable:
  assumes "resolve_stablecoin_mint currency network = Some mint"
  shows "resolve_stablecoin_mint mint network' = Some mint \<and>
    default_token_program_for_currency mint network' =
      default_token_program_for_currency currency network"
  using assms resolve_stablecoin_mint_idem [OF assms, of network']
  by (simp add: default_token_program_for_currency_def)

theorem resolved_mint_is_stable_witness:
  "resolve_stablecoin_mint PYUSD_DEVNET (Some ''mainnet'') = Some PYUSD_DEVNET \<and>
   default_token_program_for_currency PYUSD_DEVNET (Some ''mainnet'') =
     default_token_program_for_currency ''pyusd'' (Some ''devnet'')"
proof -
  have "resolve_stablecoin_mint ''pyusd'' (Some ''devnet'') = Some PYUSD_DEVNET" by code_simp
  then show ?thesis by (rule resolved_mint_is_stable)
qed

end
