(* ===== verification/Charge_Request.thy ===== *)
theory Charge_Request
  imports Core_Types Solana
begin

text \<open>
  \<^verbatim>\<open>rust/src/protocol/intents/mod.rs\<close> and \<^verbatim>\<open>charge.rs\<close>: amounts in base units and the charge request,
  with the JSON forms of the request and of the Solana method details.
\<close>

section \<open>Amounts\<close>

text \<open>
  \<^verbatim>\<open>u128\<close> arithmetic: overflow panics with overflow checks and wraps without.  \<^verbatim>\<open>pow\<close> multiplies only
  factors of the result, so it overflows exactly when the result does.
\<close>

definition u128_result :: "build \<Rightarrow> nat \<Rightarrow> (nat, 'e) result" where
  "u128_result b n =
     (if n < 2 ^ 128 then Ok n
      else case b of Debug_Build \<Rightarrow> Panic | Release_Build \<Rightarrow> Ok (n mod 2 ^ 128))"

definition parse_units :: "build \<Rightarrow> string \<Rightarrow> nat \<Rightarrow> (string, error) result" where
  "parse_units b amount decimals =
     (case split_once (CHR ''.'') amount of
        Some (integer, fraction) \<Rightarrow>
          let frac_len = length fraction mod 2 ^ 32 in
          if decimals < frac_len then
            Err (Other (''Too many decimal places: '' @ show_nat frac_len @ '' > '' @ show_nat decimals))
          else
            let padding = decimals - frac_len;
                combined = integer @ fraction @ replicate padding (CHR ''0'');
                trimmed = trim_start_matches (CHR ''0'') combined
            in if trimmed = [] then Ok ''0'' else Ok trimmed
      | None \<Rightarrow>
          rbind (ok_or (parse_uint 128 amount) (Other (''Invalid amount: '' @ amount))) (\<lambda>value.
          rbind (u128_result b (10 ^ decimals)) (\<lambda>factor.
          rbind (u128_result b (value * factor)) (\<lambda>n. Ok (show_nat n)))))"

section \<open>The request\<close>

record charge_request =
  cr_amount :: string
  cr_currency :: string
  cr_decimals :: "byte option"
  cr_recipient :: "string option"
  cr_description :: "string option"
  cr_external_id :: "string option"
  cr_method_details :: "json option"

definition with_base_units :: "build \<Rightarrow> charge_request \<Rightarrow> (charge_request, error) result" where
  "with_base_units b r =
     (case cr_decimals r of
        Some decimals \<Rightarrow>
          rbind (parse_units b (cr_amount r) (unat decimals)) (\<lambda>amount.
            Ok (r\<lparr>cr_amount := amount, cr_decimals := None\<rparr>))
      | None \<Rightarrow> Ok r)"

definition parse_amount :: "charge_request \<Rightarrow> (u64, error) result" where
  "parse_amount r = ok_or (parse_u64 (cr_amount r)) (Other (''Invalid amount: '' @ cr_amount r))"

definition validate_max_amount :: "charge_request \<Rightarrow> string \<Rightarrow> (unit, error) result" where
  "validate_max_amount r max_amount =
     rbind (parse_amount r) (\<lambda>amount.
     rbind (ok_or (parse_u64 max_amount) (Other (''Invalid max amount: '' @ max_amount))) (\<lambda>mx.
       if mx < amount then
         Err (Other (''Amount '' @ show_u64 amount @ '' exceeds maximum '' @ show_u64 mx))
       else Ok ()))"

text \<open>The field \<^verbatim>\<open>decimals\<close> is skipped in both directions.\<close>

definition charge_request_to_json :: "charge_request \<Rightarrow> json" where
  "charge_request_to_json r =
     JObject ([(''amount'', JString (cr_amount r)), (''currency'', JString (cr_currency r))] @
              opt_member ''recipient'' (cr_recipient r) @
              opt_member ''description'' (cr_description r) @
              opt_member ''externalId'' (cr_external_id r) @
              (case cr_method_details r of Some d \<Rightarrow> [(''methodDetails'', d)] | None \<Rightarrow> []))"

definition charge_request_of_json :: "json \<Rightarrow> (charge_request, string) result" where
  "charge_request_of_json v =
     rbind (struct_members [''amount'', ''currency'', ''recipient'', ''description'', ''externalId'',
              ''methodDetails''] v) (\<lambda>ms.
     rbind (member_str ms ''amount'') (\<lambda>amount.
     rbind (member_str ms ''currency'') (\<lambda>currency.
     rbind (member_opt_str ms ''recipient'') (\<lambda>recipient.
     rbind (member_opt_str ms ''description'') (\<lambda>description.
     rbind (member_opt_str ms ''externalId'') (\<lambda>external_id.
     rbind (member_opt Ok ms ''methodDetails'') (\<lambda>details.
       Ok \<lparr>cr_amount = amount, cr_currency = currency, cr_decimals = None,
           cr_recipient = recipient, cr_description = description,
           cr_external_id = external_id, cr_method_details = details\<rparr>)))))))"

text \<open>\<^verbatim>\<open>serialize_request\<close> and \<^verbatim>\<open>deserialize_request\<close>; \<^verbatim>\<open>Base64UrlJson\<close> has its own with other messages.\<close>

definition serialize_request :: "codecs \<Rightarrow> charge_request \<Rightarrow> (string, error) result" where
  "serialize_request K r =
     rbind (map_err (\<lambda>e. Other (''Canonical JSON failed: '' @ e))
              (canonical_json K (charge_request_to_json r))) (\<lambda>text.
       Ok (base64url_encode K (string_bytes text)))"

definition deserialize_request :: "codecs \<Rightarrow> string \<Rightarrow> (charge_request, error) result" where
  "deserialize_request K request_b64 =
     rbind (base64url_decode K request_b64) (\<lambda>bytes.
       map_err (\<lambda>e. Other (''Failed to deserialize request: '' @ e))
         (rbind (json_from_slice K bytes) charge_request_of_json))"

text \<open>\<^verbatim>\<open>Base64UrlJson::from_typed\<close> and \<^verbatim>\<open>decode\<close> at the charge request.\<close>

definition from_typed_request :: "codecs \<Rightarrow> charge_request \<Rightarrow> (base64_url_json, error) result" where
  "from_typed_request K r =
     rbind (map_err (\<lambda>e. Other (''Canonical JSON failed: '' @ e))
              (canonical_json K (charge_request_to_json r))) (\<lambda>text.
       Ok (Base64UrlJson (base64url_encode K (string_bytes text))))"

definition decode_request :: "codecs \<Rightarrow> base64_url_json \<Rightarrow> (charge_request, error) result" where
  "decode_request K b =
     rbind (base64url_decode K (raw b)) (\<lambda>bytes.
       map_err (\<lambda>e. Other (''Failed to decode base64url JSON: '' @ e))
         (rbind (json_from_slice K bytes) charge_request_of_json))"

section \<open>Method details and payloads\<close>

definition split_to_json :: "split \<Rightarrow> json" where
  "split_to_json s =
     JObject ([(''recipient'', JString (sp_recipient s)), (''amount'', JString (sp_amount s))] @
              (case sp_ata_creation_required s of
                 Some b \<Rightarrow> [(''ataCreationRequired'', JBool b)] | None \<Rightarrow> []) @
              opt_member ''label'' (sp_label s) @ opt_member ''memo'' (sp_memo s))"

definition split_of_json :: "json \<Rightarrow> (split, string) result" where
  "split_of_json v =
     rbind (struct_members [''recipient'', ''amount'', ''ataCreationRequired'', ''label'', ''memo''] v)
       (\<lambda>ms.
     rbind (member_str ms ''recipient'') (\<lambda>recipient.
     rbind (member_str ms ''amount'') (\<lambda>amount.
     rbind (member_opt json_bool ms ''ataCreationRequired'') (\<lambda>ata.
     rbind (member_opt_str ms ''label'') (\<lambda>label.
     rbind (member_opt_str ms ''memo'') (\<lambda>memo.
       Ok \<lparr>sp_recipient = recipient, sp_amount = amount, sp_ata_creation_required = ata,
           sp_label = label, sp_memo = memo\<rparr>))))))"

definition json_splits :: "json \<Rightarrow> (split list, string) result" where
  "json_splits v =
     rbind (ok_or (as_array v) ''invalid type: expected a sequence'') (collect_results split_of_json)"

definition method_details_of_json :: "json \<Rightarrow> (method_details, string) result" where
  "method_details_of_json v =
     rbind (struct_members [''network'', ''decimals'', ''tokenProgram'', ''feePayer'', ''feePayerKey'',
              ''splits'', ''recentBlockhash''] v) (\<lambda>ms.
     rbind (member_opt_str ms ''network'') (\<lambda>network.
     rbind (member_opt json_u8 ms ''decimals'') (\<lambda>decimals.
     rbind (member_opt_str ms ''tokenProgram'') (\<lambda>token_program.
     rbind (member_opt json_bool ms ''feePayer'') (\<lambda>fee_payer.
     rbind (member_opt_str ms ''feePayerKey'') (\<lambda>fee_payer_key.
     rbind (member_opt json_splits ms ''splits'') (\<lambda>splits.
     rbind (member_opt_str ms ''recentBlockhash'') (\<lambda>recent_blockhash.
       Ok \<lparr>md_network = network, md_decimals = decimals, md_token_program = token_program,
           md_fee_payer = fee_payer, md_fee_payer_key = fee_payer_key, md_splits = splits,
           md_recent_blockhash = recent_blockhash\<rparr>))))))))"

text \<open>
  The payload is an enum tagged by the member \<^verbatim>\<open>type\<close>; as an array it starts with the tag.
\<close>

definition credential_payload_of_json :: "json \<Rightarrow> (credential_payload, string) result" where
  "credential_payload_of_json v =
     (let tagged =
        (case v of
           JObject ms \<Rightarrow> rbind (member_str ms ''type'') (\<lambda>tag. Ok (tag, JObject ms))
         | JArray (JString tag # xs) \<Rightarrow> Ok (tag, JArray xs)
         | _ \<Rightarrow> Err ''invalid type: expected internally tagged enum CredentialPayload'')
      in rbind tagged (\<lambda>(tag, content).
         if tag = ''transaction'' then
           rbind (struct_members [''transaction''] content) (\<lambda>ms.
           rbind (member_str ms ''transaction'') (\<lambda>t. Ok (Transaction t)))
         else if tag = ''signature'' then
           rbind (struct_members [''signature''] content) (\<lambda>ms.
           rbind (member_str ms ''signature'') (\<lambda>s. Ok (Signature s)))
         else Err ''unknown variant''))"

definition credential_payload_to_json :: "credential_payload \<Rightarrow> json" where
  "credential_payload_to_json p =
     (case p of
        Transaction t \<Rightarrow> JObject [(''type'', JString ''transaction''), (''transaction'', JString t)]
      | Signature s \<Rightarrow> JObject [(''type'', JString ''signature''), (''signature'', JString s)])"

end
