(* ===== verification/Verification_Errors.thy ===== *)
theory Verification_Errors
  imports Json
begin

text \<open>
  \<^verbatim>\<open>VerificationError\<close> of \<^verbatim>\<open>rust/src/server/charge.rs\<close>: what a failed payment verification answers.
\<close>

record verification_error =
  ve_message :: string
  ve_code :: "string option"
  ve_retryable :: bool
  ve_type_uri :: string
  ve_title :: string
  ve_status :: u16

definition verification_error_new :: "string \<Rightarrow> verification_error" where
  "verification_error_new msg =
     \<lparr>ve_message = msg, ve_code = None, ve_retryable = False,
      ve_type_uri = ''tag:paymentauth.org,2024:verification-failed'',
      ve_title = ''Payment Verification Error'', ve_status = 402\<rparr>"

definition with_code :: "string \<Rightarrow> string \<Rightarrow> string \<Rightarrow> string \<Rightarrow> verification_error" where
  "with_code msg code title type_uri =
     \<lparr>ve_message = msg, ve_code = Some code, ve_retryable = False, ve_type_uri = type_uri,
      ve_title = title, ve_status = 402\<rparr>"

definition make_retryable :: "verification_error \<Rightarrow> verification_error" where
  "make_retryable e = e\<lparr>ve_retryable := True\<rparr>"

definition expired :: "string \<Rightarrow> verification_error" where
  "expired msg =
     with_code msg ''payment-expired'' ''Payment Challenge Expired''
       ''tag:paymentauth.org,2024:payment-expired''"

definition invalid_amount :: "string \<Rightarrow> verification_error" where
  "invalid_amount msg =
     with_code msg ''verification-failed'' ''Verification Failed''
       ''tag:paymentauth.org,2024:verification-failed''"

definition invalid_recipient :: "string \<Rightarrow> verification_error" where
  "invalid_recipient msg =
     with_code msg ''verification-failed'' ''Verification Failed''
       ''tag:paymentauth.org,2024:verification-failed''"

definition transaction_failed :: "string \<Rightarrow> verification_error" where
  "transaction_failed msg =
     with_code msg ''verification-failed'' ''Transaction Failed''
       ''tag:paymentauth.org,2024:verification-failed''"

definition not_found :: "string \<Rightarrow> verification_error" where
  "not_found msg =
     with_code msg ''verification-failed'' ''Transaction Not Found''
       ''tag:paymentauth.org,2024:verification-failed''"

definition network_error :: "string \<Rightarrow> verification_error" where
  "network_error msg =
     make_retryable
       (with_code msg ''verification-failed'' ''Network Error''
          ''tag:paymentauth.org,2024:verification-failed'')"

definition credential_mismatch :: "string \<Rightarrow> verification_error" where
  "credential_mismatch msg =
     with_code msg ''malformed-credential'' ''Malformed Credential''
       ''tag:paymentauth.org,2024:malformed-credential''"

definition invalid_payload :: "string \<Rightarrow> verification_error" where
  "invalid_payload msg =
     with_code msg ''malformed-credential'' ''Invalid Payload''
       ''tag:paymentauth.org,2024:malformed-credential''"

definition wrong_network :: "string \<Rightarrow> verification_error" where
  "wrong_network msg =
     with_code msg ''wrong-network'' ''Wrong Network'' ''tag:paymentauth.org,2024:wrong-network''"

definition signature_consumed :: "string \<Rightarrow> verification_error" where
  "signature_consumed msg =
     with_code msg ''signature-consumed'' ''Signature Already Consumed''
       ''tag:paymentauth.org,2024:signature-consumed''"

definition too_many_splits :: "string \<Rightarrow> verification_error" where
  "too_many_splits msg =
     with_code msg ''verification-failed'' ''Too Many Splits''
       ''tag:paymentauth.org,2024:verification-failed''"

text \<open>The Problem Details object of RFC 9457.\<close>

definition to_problem_json :: "verification_error \<Rightarrow> json" where
  "to_problem_json e =
     JObject ([(''type'', JString (ve_type_uri e)), (''title'', JString (ve_title e)),
               (''status'', JNumber (PosInt (ucast (ve_status e)))), (''detail'', JString (ve_message e))] @
              opt_member ''code'' (ve_code e))"

definition verification_error_display :: "verification_error \<Rightarrow> string" where
  "verification_error_display e = ve_message e"

end
