(* ===== verification/Charge_Transaction.thy ===== *)
theory Charge_Transaction
  imports Charge_Request Verification_Errors Payment_Channels
begin

text \<open>
  The pre-broadcast verification of \<^verbatim>\<open>rust/src/server/charge.rs\<close>: the checks on the instructions of a
  client-signed transaction that the server runs before it co-signs or broadcasts it.
\<close>

section \<open>Transactions\<close>

text \<open>
  What the checks read of \<^verbatim>\<open>solana_transaction\<close>'s versioned transaction.  A legacy message has no
  lookup tables (\<^verbatim>\<open>None\<close>).
\<close>

record compiled_instruction =
  ci_program_id_index :: byte
  ci_accounts :: "byte list"
  ci_data :: "byte list"

record versioned_transaction =
  tx_signatures :: "byte list list"
  tx_account_keys :: "pubkey list"
  tx_recent_blockhash :: "byte list"
  tx_instructions :: "compiled_instruction list"
  tx_address_table_lookups :: "(pubkey \<times> byte list \<times> byte list) list option"

definition MAX_COMPUTE_UNIT_LIMIT :: u32 where
  "MAX_COMPUTE_UNIT_LIMIT = 200000"

definition MAX_COMPUTE_UNIT_PRICE_MICROLAMPORTS :: u64 where
  "MAX_COMPUTE_UNIT_PRICE_MICROLAMPORTS = 5000000"

text \<open>\<^verbatim>\<open>account_keys.get(index)\<close> with the error for an index out of range.\<close>

definition key_at :: "pubkey list \<Rightarrow> byte \<Rightarrow> string \<Rightarrow> (pubkey, verification_error) result" where
  "key_at keys i msg =
     (if unat i < length keys then Ok (keys ! unat i) else Err (invalid_payload msg))"

definition account_key ::
  "pubkey list \<Rightarrow> byte \<Rightarrow> string \<Rightarrow> (pubkey, verification_error) result" where
  "account_key keys i label = key_at keys i (''Invalid '' @ label @ '' index'')"

text \<open>
  A search loop over the instructions with their positions: the test fails, passes the instruction
  over, or accepts it, which ends the loop.
\<close>

fun scan_from ::
  "(nat \<Rightarrow> 'a \<Rightarrow> (bool, 'e) result) \<Rightarrow> nat \<Rightarrow> 'a list \<Rightarrow> (nat option, 'e) result" where
  "scan_from test i [] = Ok None"
| "scan_from test i (x # xs) =
     rbind (test i x) (\<lambda>found. if found then Ok (Some i) else scan_from test (Suc i) xs)"

section \<open>Requests\<close>

definition reject_address_lookup_tables ::
  "versioned_transaction \<Rightarrow> (unit, verification_error) result" where
  "reject_address_lookup_tables tx =
     (case tx_address_table_lookups tx of
        Some (_ # _) \<Rightarrow>
          Err (invalid_payload ''v0 transactions with address lookup tables are not supported'')
      | _ \<Rightarrow> Ok ())"

definition expected_fee_payer ::
  "externs \<Rightarrow> versioned_transaction \<Rightarrow> method_details \<Rightarrow> (pubkey option, verification_error) result" where
  "expected_fee_payer X tx md =
     (if md_fee_payer md \<noteq> Some True then Ok None
      else
        rbind (ok_or (md_fee_payer_key md)
                 (invalid_payload ''feePayer=true requires feePayerKey in methodDetails''))
          (\<lambda>fee_payer_key.
        rbind (map_err (\<lambda>e. invalid_payload (''Invalid fee payer: '' @ e))
                 (pubkey_from_str X fee_payer_key)) (\<lambda>fee_payer.
        case tx_account_keys tx of
          [] \<Rightarrow> Err (invalid_payload ''Transaction has no fee payer'')
        | tx_fee_payer # _ \<Rightarrow>
            if tx_fee_payer \<noteq> fee_payer then
              Err (invalid_payload (''Transaction fee payer must be '' @ pubkey_string X fee_payer))
            else Ok (Some fee_payer))))"

definition expected_token_program ::
  "externs \<Rightarrow> method_details \<Rightarrow> (pubkey option, verification_error) result" where
  "expected_token_program X md =
     (case md_token_program md of
        None \<Rightarrow> Ok None
      | Some token_program \<Rightarrow>
          if token_program \<noteq> TOKEN_PROGRAM \<and> token_program \<noteq> TOKEN_2022_PROGRAM then
            Err (invalid_payload (''Unsupported token program: '' @ token_program))
          else
            rbind (map_err (\<lambda>e. invalid_payload (''Invalid token program: '' @ e))
                     (pubkey_from_str X token_program)) (\<lambda>p. Ok (Some p)))"

definition resolve_expected_mint ::
  "externs \<Rightarrow> string \<Rightarrow> string option \<Rightarrow> (pubkey, verification_error) result" where
  "resolve_expected_mint X currency network =
     (case resolve_stablecoin_mint currency network of
        None \<Rightarrow> Err (invalid_payload ''SOL does not use an SPL mint'')
      | Some mint \<Rightarrow>
          map_err (\<lambda>e. invalid_payload (''Invalid currency/mint: '' @ e)) (pubkey_from_str X mint))"

text \<open>
  Whose token accounts the transaction may and must create.  The hash sets are lists here; the
  order in which Rust iterates them decides only which missing owner an error names.
\<close>

record ata_creation_policy =
  ap_allowed_owners :: "pubkey list"
  ap_required_owners :: "pubkey list"

definition split_owner :: "externs \<Rightarrow> split \<Rightarrow> (pubkey, verification_error) result" where
  "split_owner X s =
     map_err (\<lambda>e. invalid_recipient (''Invalid split recipient: '' @ e))
       (pubkey_from_str X (sp_recipient s))"

definition expected_ata_creation_policy ::
  "externs \<Rightarrow> split list \<Rightarrow> pubkey option \<Rightarrow> (ata_creation_policy, verification_error) result" where
  "expected_ata_creation_policy X splits fee_payer =
     rbind (collect_results (split_owner X) splits) (\<lambda>owners.
       let required =
         map snd (filter (\<lambda>(s, owner). sp_ata_creation_required s = Some True) (zip splits owners))
       in Ok \<lparr>ap_allowed_owners = (if fee_payer \<noteq> None then required else owners),
              ap_required_owners = required\<rparr>)"

text \<open>What the memos of an accepted transaction must be, with the words the errors use for them.\<close>

definition expected_memos :: "string option \<Rightarrow> split list \<Rightarrow> (string \<times> string) list" where
  "expected_memos external_id splits =
     (case external_id of Some e \<Rightarrow> if e = [] then [] else [(''externalId'', e)] | None \<Rightarrow> []) @
     concat (map (\<lambda>s. case sp_memo s of
                        Some m \<Rightarrow> if m = [] then [] else [(''split'', m)]
                      | None \<Rightarrow> []) splits)"

section \<open>Payments\<close>

text \<open>A System Program transfer of the amount to the recipient, not funded by the fee payer.\<close>

definition sol_transfer_test ::
  "pubkey \<Rightarrow> pubkey list \<Rightarrow> pubkey \<Rightarrow> u64 \<Rightarrow> pubkey option \<Rightarrow> nat set \<Rightarrow> nat \<Rightarrow>
   compiled_instruction \<Rightarrow> (bool, verification_error) result" where
  "sol_transfer_test system_program keys recipient amount fee_payer matched index ix =
     (if index \<in> matched then Ok False
      else
        rbind (key_at keys (ci_program_id_index ix) ''Invalid program_id_index'') (\<lambda>program_id.
        if program_id \<noteq> system_program then Ok False
        else if length (ci_data ix) < 12 then Ok False
        else if u32_from_le (take 4 (ci_data ix)) \<noteq> 2 then Ok False
        else
          let ix_amount = u64_from_le (take 8 (drop 4 (ci_data ix))) in
          if length (ci_accounts ix) < 2 then Ok False
          else
            rbind (key_at keys (ci_accounts ix ! 0) ''Invalid source index'') (\<lambda>source.
            rbind (key_at keys (ci_accounts ix ! 1) ''Invalid destination index'') (\<lambda>dest.
            if dest = recipient \<and> ix_amount = amount then
              if fee_payer = Some source then
                Err (invalid_payload ''Fee payer cannot fund the SOL payment transfer'')
              else Ok True
            else Ok False))))"

definition verify_sol_transfer_instructions ::
  "externs \<Rightarrow> versioned_transaction \<Rightarrow> pubkey option \<Rightarrow> pubkey \<Rightarrow> u64 \<Rightarrow> nat set \<Rightarrow>
   (nat set, verification_error) result" where
  "verify_sol_transfer_instructions X tx fee_payer recipient amount matched =
     rbind (expect_pubkey X SYSTEM_PROGRAM) (\<lambda>system_program.
     rbind (scan_from (sol_transfer_test system_program (tx_account_keys tx) recipient amount
                         fee_payer matched) 0 (tx_instructions tx)) (\<lambda>found.
     case found of
       Some index \<Rightarrow> Ok (insert index matched)
     | None \<Rightarrow>
         Err (invalid_amount (''No matching SOL transfer of '' @ show_u64 amount @ '' lamports to '' @
                              pubkey_string X recipient))))"

text \<open>
  A \<^verbatim>\<open>TransferChecked\<close> of the token programs to the recipient's associated token account, funded
  neither by the fee payer's authority nor by its token account.
\<close>

definition spl_transfer_test ::
  "externs \<Rightarrow> pubkey \<Rightarrow> pubkey \<Rightarrow> pubkey \<Rightarrow> pubkey list \<Rightarrow> pubkey \<Rightarrow> pubkey option \<Rightarrow>
   byte option \<Rightarrow> pubkey option \<Rightarrow> pubkey \<Rightarrow> u64 \<Rightarrow> nat set \<Rightarrow> nat \<Rightarrow> compiled_instruction \<Rightarrow>
   (bool, verification_error) result" where
  "spl_transfer_test X token_program token_2022_program ata_program keys expected_mint
       token_program_opt decimals_opt fee_payer recipient amount matched index ix =
     (if index \<in> matched then Ok False
      else
        rbind (key_at keys (ci_program_id_index ix) ''Invalid program_id_index'') (\<lambda>program_id.
        if program_id \<noteq> token_program \<and> program_id \<noteq> token_2022_program then Ok False
        else if (case token_program_opt of Some p \<Rightarrow> program_id \<noteq> p | None \<Rightarrow> False) then Ok False
        else if ci_data ix = [] \<or> ci_data ix ! 0 \<noteq> 12 then Ok False
        else if length (ci_data ix) < 10 \<or> length (ci_accounts ix) < 4 then Ok False
        else if u64_from_le (take 8 (drop 1 (ci_data ix))) \<noteq> amount then Ok False
        else if (case decimals_opt of Some d \<Rightarrow> ci_data ix ! 9 \<noteq> d | None \<Rightarrow> False) then Ok False
        else
          rbind (key_at keys (ci_accounts ix ! 0) ''Invalid source index'') (\<lambda>source_ata.
          rbind (key_at keys (ci_accounts ix ! 2) ''Invalid destination index'') (\<lambda>dest_ata.
          rbind (key_at keys (ci_accounts ix ! 1) ''Invalid mint index'') (\<lambda>mint.
          if mint \<noteq> expected_mint then Ok False
          else
            rbind (key_at keys (ci_accounts ix ! 3) ''Invalid authority index'') (\<lambda>authority.
            rbind (case fee_payer of
                     None \<Rightarrow> Ok ()
                   | Some payer \<Rightarrow>
                       if authority = payer then
                         Err (invalid_payload ''Fee payer cannot authorize the SPL payment transfer'')
                       else if source_ata =
                           fst (find_program_address X
                             [pubkey_bytes payer, pubkey_bytes program_id, pubkey_bytes mint] ata_program)
                       then
                         Err (invalid_payload
                           ''Fee payer token account cannot fund the SPL payment transfer'')
                       else Ok ()) (\<lambda>_.
            Ok (dest_ata =
                  fst (find_program_address X
                    [pubkey_bytes recipient, pubkey_bytes program_id, pubkey_bytes mint]
                    ata_program)))))))))"

definition verify_spl_transfer_instructions ::
  "externs \<Rightarrow> versioned_transaction \<Rightarrow> pubkey \<Rightarrow> pubkey option \<Rightarrow> byte option \<Rightarrow> pubkey option \<Rightarrow>
   pubkey \<Rightarrow> u64 \<Rightarrow> nat set \<Rightarrow> (nat set, verification_error) result" where
  "verify_spl_transfer_instructions X tx expected_mint token_program_opt decimals_opt fee_payer
       recipient amount matched =
     rbind (expect_pubkey X TOKEN_PROGRAM) (\<lambda>token_program.
     rbind (expect_pubkey X TOKEN_2022_PROGRAM) (\<lambda>token_2022_program.
     rbind (expect_pubkey X ASSOCIATED_TOKEN_PROGRAM) (\<lambda>ata_program.
     rbind (scan_from (spl_transfer_test X token_program token_2022_program ata_program
                         (tx_account_keys tx) expected_mint token_program_opt decimals_opt
                         fee_payer recipient amount matched) 0 (tx_instructions tx)) (\<lambda>found.
     case found of
       Some index \<Rightarrow> Ok (insert index matched)
     | None \<Rightarrow>
         Err (invalid_amount (''No matching SPL transferChecked of '' @ show_u64 amount @ '' to '' @
                              pubkey_string X recipient))))))"

text \<open>The loop over the splits, given how one payment is looked for.\<close>

fun verify_split_transfers ::
  "externs \<Rightarrow> (pubkey \<Rightarrow> u64 \<Rightarrow> nat set \<Rightarrow> (nat set, verification_error) result) \<Rightarrow> split list \<Rightarrow>
   nat set \<Rightarrow> (nat set, verification_error) result" where
  "verify_split_transfers X transfer [] matched = Ok matched"
| "verify_split_transfers X transfer (s # ss) matched =
     rbind (split_owner X s) (\<lambda>split_pk.
     rbind (ok_or (parse_u64 (sp_amount s)) (invalid_amount ''Invalid split amount'')) (\<lambda>amt.
     rbind (transfer split_pk amt matched) (\<lambda>matched'.
       verify_split_transfers X transfer ss matched')))"

definition memo_test ::
  "pubkey \<Rightarrow> pubkey list \<Rightarrow> byte list \<Rightarrow> nat set \<Rightarrow> nat \<Rightarrow> compiled_instruction \<Rightarrow>
   (bool, verification_error) result" where
  "memo_test memo_program keys expected_data matched index ix =
     (if index \<in> matched then Ok False
      else
        rbind (key_at keys (ci_program_id_index ix) ''Invalid program_id_index'') (\<lambda>program_id.
          Ok (program_id = memo_program \<and> ci_data ix = expected_data)))"

fun verify_memos ::
  "pubkey \<Rightarrow> versioned_transaction \<Rightarrow> (string \<times> string) list \<Rightarrow> nat set \<Rightarrow>
   (nat set, verification_error) result" where
  "verify_memos memo_program tx [] matched = Ok matched"
| "verify_memos memo_program tx ((label, memo) # memos) matched =
     (if 566 < length memo then Err (invalid_payload ''memo cannot exceed 566 bytes'')
      else
        rbind (scan_from (memo_test memo_program (tx_account_keys tx) (string_bytes memo) matched) 0
                 (tx_instructions tx)) (\<lambda>found.
        case found of
          Some index \<Rightarrow> verify_memos memo_program tx memos (insert index matched)
        | None \<Rightarrow>
            Err (invalid_payload (''No memo instruction found for '' @ label @ '' memo '' @ [CHR 34] @
                                  memo @ [CHR 34]))))"

definition verify_memo_instructions ::
  "externs \<Rightarrow> versioned_transaction \<Rightarrow> string option \<Rightarrow> split list \<Rightarrow> nat set \<Rightarrow>
   (nat set, verification_error) result" where
  "verify_memo_instructions X tx external_id splits matched =
     rbind (expect_pubkey X MEMO_PROGRAM) (\<lambda>memo_program.
       verify_memos memo_program tx (expected_memos external_id splits) matched)"

section \<open>The other instructions\<close>

definition validate_compute_budget_instruction ::
  "compiled_instruction \<Rightarrow> (unit, verification_error) result" where
  "validate_compute_budget_instruction ix =
     (if ci_accounts ix \<noteq> [] then
        Err (invalid_payload ''Compute budget instruction must not have accounts'')
      else
        case ci_data ix of
          [] \<Rightarrow> Err (invalid_payload ''Unsupported compute budget instruction'')
        | tag # rest \<Rightarrow>
            if tag = 2 \<and> length (ci_data ix) = 5 then
              let units = u32_from_le rest in
              if MAX_COMPUTE_UNIT_LIMIT < units then
                Err (invalid_payload (''Compute unit limit '' @ show_nat (unat units) @
                       '' exceeds maximum '' @ show_nat (unat MAX_COMPUTE_UNIT_LIMIT)))
              else Ok ()
            else if tag = 3 \<and> length (ci_data ix) = 9 then
              let price = u64_from_le rest in
              if MAX_COMPUTE_UNIT_PRICE_MICROLAMPORTS < price then
                Err (invalid_payload (''Compute unit price '' @ show_u64 price @
                       '' exceeds maximum '' @ show_u64 MAX_COMPUTE_UNIT_PRICE_MICROLAMPORTS))
              else Ok ()
            else Err (invalid_payload ''Unsupported compute budget instruction''))"

definition validate_create_ata_idempotent_instruction ::
  "externs \<Rightarrow> pubkey list \<Rightarrow> pubkey option \<Rightarrow> pubkey list \<Rightarrow> pubkey option \<Rightarrow> pubkey \<Rightarrow>
   compiled_instruction \<Rightarrow> (pubkey, verification_error) result" where
  "validate_create_ata_idempotent_instruction X keys expected_mint_opt allowed_ata_owners
       token_program_opt expected_payer ix =
     rbind (ok_or expected_mint_opt
              (invalid_payload ''ATA creation is not allowed for native SOL payments'')) (\<lambda>expected_mint.
     if ci_data ix \<noteq> [1] then Err (invalid_payload ''Only idempotent ATA creation is allowed'')
     else if length (ci_accounts ix) \<noteq> 6 then
       Err (invalid_payload ''Unexpected ATA creation account layout'')
     else
       rbind (account_key keys (ci_accounts ix ! 0) ''ATA payer'') (\<lambda>payer.
       rbind (account_key keys (ci_accounts ix ! 1) ''ATA address'') (\<lambda>ata.
       rbind (account_key keys (ci_accounts ix ! 2) ''ATA owner'') (\<lambda>owner.
       rbind (account_key keys (ci_accounts ix ! 3) ''ATA mint'') (\<lambda>mint.
       rbind (account_key keys (ci_accounts ix ! 4) ''ATA system program'') (\<lambda>system_program.
       rbind (account_key keys (ci_accounts ix ! 5) ''ATA token program'') (\<lambda>token_program.
       if payer \<noteq> expected_payer then
         Err (invalid_payload ''ATA payer must match the transaction fee payer'')
       else if mint \<noteq> expected_mint then
         Err (invalid_payload ''ATA creation mint does not match the charge currency'')
       else if owner \<notin> set allowed_ata_owners then
         Err (invalid_payload ''ATA creation owner is not authorized by the challenge'')
       else if pubkey_string X system_program \<noteq> SYSTEM_PROGRAM then
         Err (invalid_payload ''ATA creation must reference the System Program'')
       else if pubkey_string X token_program \<noteq> TOKEN_PROGRAM \<and>
           pubkey_string X token_program \<noteq> TOKEN_2022_PROGRAM then
         Err (invalid_payload ''ATA creation uses an unsupported token program'')
       else if (case token_program_opt of Some p \<Rightarrow> token_program \<noteq> p | None \<Rightarrow> False) then
         Err (invalid_payload
           ''ATA creation token program does not match methodDetails.tokenProgram'')
       else
         rbind (expect_pubkey X ASSOCIATED_TOKEN_PROGRAM) (\<lambda>ata_program.
         if ata \<noteq> fst (find_program_address X
                     [pubkey_bytes owner, pubkey_bytes token_program, pubkey_bytes mint] ata_program)
         then Err (invalid_payload ''ATA creation address does not match owner/mint/token program'')
         else Ok owner))))))))"

text \<open>One turn of the allowlist loop; an instruction that creates a token account names its owner.\<close>

definition check_allowed ::
  "externs \<Rightarrow> pubkey list \<Rightarrow> nat set \<Rightarrow> pubkey option \<Rightarrow> pubkey list \<Rightarrow> pubkey option \<Rightarrow> pubkey \<Rightarrow>
   nat \<Rightarrow> compiled_instruction \<Rightarrow> (pubkey option, verification_error) result" where
  "check_allowed X keys matched expected_mint allowed_ata_owners token_program_opt expected_ata_payer
       index ix =
     rbind (expect_pubkey X COMPUTE_BUDGET_PROGRAM) (\<lambda>compute_budget_program.
     rbind (expect_pubkey X SYSTEM_PROGRAM) (\<lambda>system_program.
     rbind (expect_pubkey X TOKEN_PROGRAM) (\<lambda>token_program.
     rbind (expect_pubkey X TOKEN_2022_PROGRAM) (\<lambda>token_2022_program.
     rbind (expect_pubkey X ASSOCIATED_TOKEN_PROGRAM) (\<lambda>ata_program.
     rbind (key_at keys (ci_program_id_index ix) ''Invalid program_id_index'') (\<lambda>program_id.
     if program_id = compute_budget_program then
       rbind (validate_compute_budget_instruction ix) (\<lambda>_. Ok None)
     else
       rbind (expect_pubkey X MEMO_PROGRAM) (\<lambda>memo_program.
       if program_id = memo_program then
         (if index \<in> matched then Ok None
          else Err (invalid_payload ''Unexpected Memo Program instruction in payment transaction''))
       else if program_id = system_program then
         (if index \<in> matched then Ok None
          else Err (invalid_payload ''Unexpected System Program instruction in payment transaction''))
       else if program_id = token_program \<or> program_id = token_2022_program then
         (if index \<in> matched then Ok None
          else Err (invalid_payload ''Unexpected Token Program instruction in payment transaction''))
       else if program_id = ata_program then
         rbind (validate_create_ata_idempotent_instruction X keys expected_mint allowed_ata_owners
                  token_program_opt expected_ata_payer ix) (\<lambda>owner. Ok (Some owner))
       else
         Err (invalid_payload (''Unexpected program instruction in payment transaction: '' @
                               pubkey_string X program_id)))))))))"

definition validate_instruction_allowlist ::
  "externs \<Rightarrow> versioned_transaction \<Rightarrow> nat set \<Rightarrow> pubkey option \<Rightarrow> pubkey list \<Rightarrow> pubkey option \<Rightarrow>
   pubkey option \<Rightarrow> pubkey list \<Rightarrow> (unit, verification_error) result" where
  "validate_instruction_allowlist X tx matched expected_mint allowed_ata_owners token_program_opt
       fee_payer required_ata_owners =
     rbind (collect_results (expect_pubkey X)
              [COMPUTE_BUDGET_PROGRAM, SYSTEM_PROGRAM, TOKEN_PROGRAM, TOKEN_2022_PROGRAM,
               ASSOCIATED_TOKEN_PROGRAM]) (\<lambda>_.
     case tx_account_keys tx of
       [] \<Rightarrow> Err (invalid_payload ''Transaction has no fee payer'')
     | tx_fee_payer # _ \<Rightarrow>
         let expected_ata_payer = case_option tx_fee_payer id fee_payer in
         rbind (collect_results
                  (\<lambda>(index, ix). check_allowed X (tx_account_keys tx) matched expected_mint
                     allowed_ata_owners token_program_opt expected_ata_payer index ix)
                  (enumerate 0 (tx_instructions tx))) (\<lambda>created.
         case find (\<lambda>owner. Some owner \<notin> set created) required_ata_owners of
           Some owner \<Rightarrow>
             Err (invalid_payload (''Missing required ATA creation instruction for split recipient '' @
                                   pubkey_string X owner))
         | None \<Rightarrow> Ok ()))"

section \<open>The whole verification\<close>

definition split_amounts :: "split list \<Rightarrow> u64 list" where
  "split_amounts splits = List.map_filter (\<lambda>s. parse_u64 (sp_amount s)) splits"

definition is_native_sol :: "charge_request \<Rightarrow> bool" where
  "is_native_sol r = (to_uppercase (cr_currency r) = ''SOL'')"

definition primary_amount_of ::
  "build \<Rightarrow> charge_request \<Rightarrow> split list \<Rightarrow> (u64, verification_error) result" where
  "primary_amount_of b request splits =
     rbind (ok_or (parse_u64 (cr_amount request))
              (invalid_amount (''Invalid amount: '' @ cr_amount request))) (\<lambda>total_amount.
     rbind (sum_u64 b 0 (split_amounts splits)) (\<lambda>splits_total.
     rbind (ok_or (checked_sub_u64 total_amount splits_total)
              (invalid_amount ''Split amounts exceed total amount'')) (\<lambda>primary_amount.
     if primary_amount = 0 then Err (invalid_amount ''Primary amount is zero after splits'')
     else Ok primary_amount)))"

text \<open>The transfers, the memos and the allowlist, given how one payment is looked for.\<close>

definition verify_instructions ::
  "externs \<Rightarrow> (pubkey \<Rightarrow> u64 \<Rightarrow> nat set \<Rightarrow> (nat set, verification_error) result) \<Rightarrow>
   versioned_transaction \<Rightarrow> charge_request \<Rightarrow> split list \<Rightarrow> pubkey \<Rightarrow> u64 \<Rightarrow> pubkey option \<Rightarrow>
   pubkey option \<Rightarrow> pubkey option \<Rightarrow> ata_creation_policy \<Rightarrow> (unit, verification_error) result" where
  "verify_instructions X transfer tx request splits recipient_pk primary_amount expected_mint
       token_program_opt fee_payer policy =
     rbind (transfer recipient_pk primary_amount {}) (\<lambda>matched.
     rbind (verify_split_transfers X transfer splits matched) (\<lambda>matched.
     rbind (verify_memo_instructions X tx (cr_external_id request) splits matched) (\<lambda>matched.
       validate_instruction_allowlist X tx matched expected_mint (ap_allowed_owners policy)
         token_program_opt fee_payer (ap_required_owners policy))))"

definition verify_versioned_transaction_pre_broadcast ::
  "build \<Rightarrow> externs \<Rightarrow> versioned_transaction \<Rightarrow> charge_request \<Rightarrow> method_details \<Rightarrow>
   (unit, verification_error) result" where
  "verify_versioned_transaction_pre_broadcast b X tx request md =
     rbind (reject_address_lookup_tables tx) (\<lambda>_.
     let splits = case_option [] id (md_splits md) in
     if 8 < length splits then
       Err (too_many_splits (''Too many splits: '' @ show_nat (length splits) @ '' (maximum 8)''))
     else
     rbind (primary_amount_of b request splits) (\<lambda>primary_amount.
     rbind (ok_or (cr_recipient request) (invalid_recipient ''No recipient in charge request''))
       (\<lambda>recipient.
     rbind (map_err (\<lambda>e. invalid_recipient (''Invalid recipient: '' @ e))
              (pubkey_from_str X recipient)) (\<lambda>recipient_pk.
     rbind (expected_fee_payer X tx md) (\<lambda>fee_payer.
     if is_native_sol request \<and> (\<exists>s \<in> set splits. sp_ata_creation_required s = Some True) then
       Err (invalid_payload ''ataCreationRequired requires an SPL token charge'')
     else
     rbind (expected_ata_creation_policy X splits fee_payer) (\<lambda>policy.
     if is_native_sol request then
       verify_instructions X (verify_sol_transfer_instructions X tx fee_payer) tx request splits
         recipient_pk primary_amount None None fee_payer policy
     else
     rbind (resolve_expected_mint X (cr_currency request) (md_network md)) (\<lambda>expected_mint.
     if ap_required_owners policy \<noteq> [] \<and> cr_currency request \<noteq> pubkey_string X expected_mint then
       Err (invalid_payload ''ataCreationRequired requires currency to be an SPL token mint address'')
     else
     rbind (expected_token_program X md) (\<lambda>token_program_opt.
       verify_instructions X
         (verify_spl_transfer_instructions X tx expected_mint token_program_opt (md_decimals md) fee_payer)
         tx request splits recipient_pk primary_amount (Some expected_mint) token_program_opt
         fee_payer policy))))))))"

definition SURFPOOL_BLOCKHASH_PREFIX :: string where
  "SURFPOOL_BLOCKHASH_PREFIX = ''SURFNETxSAFEHASH''"

definition LOCALNET_NETWORK :: string where
  "LOCALNET_NETWORK = ''localnet''"

definition check_network_blockhash :: "string \<Rightarrow> string \<Rightarrow> (unit, verification_error) result" where
  "check_network_blockhash network blockhash_b58 =
     (if \<not> starts_with blockhash_b58 SURFPOOL_BLOCKHASH_PREFIX then Ok ()
      else if network = LOCALNET_NETWORK then Ok ()
      else Err (wrong_network (''Signed against localnet but the server expects '' @ network @
             ''. Switch your client RPC to '' @ network @ '' and re-sign.'')))"

end
