(* ===== verification/Charge_Push.thy ===== *)
theory Charge_Push
  imports Charge_Transaction
begin

text \<open>
  Push mode of \<^verbatim>\<open>rust/src/server/charge.rs\<close>: the client sent the transaction itself and names its
  signature; the server fetches it in the RPC's JSON form and checks its parsed instructions,
  the inner ones included.
\<close>

section \<open>The fetched transaction\<close>

text \<open>
  What is read of \<^verbatim>\<open>EncodedConfirmedTransactionWithStatusMeta\<close>: the JSON values its parts serialise to
  and the error in its metadata, as its debug text.
\<close>

record status_meta =
  sm_err :: "string option"
  sm_json :: "(json, string) result"

record confirmed_transaction =
  ct_json :: "(json, string) result"
  ct_meta :: "status_meta option"

definition get_array :: "json \<Rightarrow> string \<Rightarrow> json list option" where
  "get_array v key = Option.bind (json_get v key) as_array"

definition extract_parsed_instructions ::
  "confirmed_transaction \<Rightarrow> (json list, verification_error) result" where
  "extract_parsed_instructions tx =
     rbind (map_err (\<lambda>e. verification_error_new (''Failed to serialize transaction: '' @ e)) (ct_json tx))
       (\<lambda>tx_json.
     let outer = case_option [] id
           (Option.bind (json_get tx_json ''message'') (\<lambda>m. get_array m ''instructions''))
     in case ct_meta tx of
          None \<Rightarrow> Ok outer
        | Some meta \<Rightarrow>
            rbind (map_err (\<lambda>e. verification_error_new (''Failed to serialize meta: '' @ e))
                     (sm_json meta)) (\<lambda>meta_json.
              Ok (outer @
                  concat (map (\<lambda>group. case_option [] id (get_array group ''instructions''))
                    (case_option [] id (get_array meta_json ''innerInstructions''))))))"

definition parsed_program_id :: "json \<Rightarrow> string option" where
  "parsed_program_id ix =
     (case Option.bind (json_get ix ''programId'') as_str of
        Some program_id \<Rightarrow> Some program_id
      | None \<Rightarrow>
          (case Option.bind (json_get ix ''program'') as_str of
             None \<Rightarrow> None
           | Some program \<Rightarrow>
               if program = ''system'' then Some SYSTEM_PROGRAM
               else if program = ''compute-budget'' then Some COMPUTE_BUDGET_PROGRAM
               else if program = ''spl-memo'' then Some MEMO_PROGRAM
               else if program = ''spl-associated-token-account'' then Some ASSOCIATED_TOKEN_PROGRAM
               else None))"

definition parsed_object :: "json \<Rightarrow> (string \<times> json) list option" where
  "parsed_object ix = Option.bind (json_get ix ''parsed'') as_object"

definition member_of :: "(string \<times> json) list \<Rightarrow> string \<Rightarrow> string option" where
  "member_of ms key = Option.bind (map_of ms key) as_str"

text \<open>
  \<^verbatim>\<open>keys.iter().find_map(|key| info.get(*key)?.as_str())\<close>: the first key whose member is a string.
\<close>

fun string_field :: "(string \<times> json) list \<Rightarrow> string list \<Rightarrow> string option" where
  "string_field info [] = None"
| "string_field info (key # keys) =
     (case member_of info key of Some s \<Rightarrow> Some s | None \<Rightarrow> string_field info keys)"

section \<open>Transfers\<close>

definition parsed_sol_test :: "string \<Rightarrow> u64 \<Rightarrow> nat set \<Rightarrow> nat \<Rightarrow> json \<Rightarrow> (bool, verification_error) result" where
  "parsed_sol_test recipient amount matched index ix =
     Ok (index \<notin> matched \<and>
         (case parsed_object ix of
            None \<Rightarrow> False
          | Some parsed \<Rightarrow>
              member_of parsed ''type'' = Some ''transfer'' \<and>
              (case Option.bind (map_of parsed ''info'') as_object of
                 None \<Rightarrow> False
               | Some info \<Rightarrow>
                   case_option [] id (member_of info ''destination'') = recipient \<and>
                   case_option 0 id (Option.bind (map_of info ''lamports'') as_u64) = amount)))"

definition find_sol_transfer ::
  "json list \<Rightarrow> string \<Rightarrow> u64 \<Rightarrow> nat set \<Rightarrow> (nat set, verification_error) result" where
  "find_sol_transfer instructions recipient amount matched =
     rbind (scan_from (parsed_sol_test recipient amount matched) 0 instructions) (\<lambda>found.
     case found of
       Some index \<Rightarrow> Ok (insert index matched)
     | None \<Rightarrow>
         Err (invalid_amount (''No matching SOL transfer of '' @ show_u64 amount @ '' lamports to '' @ recipient)))"

text \<open>The loop over the splits; a transfer that is not found is reported as the split's.\<close>

fun find_split_transfers ::
  "(string \<Rightarrow> u64 \<Rightarrow> nat set \<Rightarrow> (nat set, verification_error) result) \<Rightarrow> string \<Rightarrow> split list \<Rightarrow> nat set \<Rightarrow>
   (nat set, verification_error) result" where
  "find_split_transfers finder missing [] matched = Ok matched"
| "find_split_transfers finder missing (s # ss) matched =
     rbind (ok_or (parse_u64 (sp_amount s)) (invalid_amount ''Invalid split amount'')) (\<lambda>amt.
     rbind (map_err (\<lambda>_. invalid_amount (missing @ sp_recipient s))
              (finder (sp_recipient s) amt matched)) (\<lambda>matched'.
       find_split_transfers finder missing ss matched'))"

definition verify_sol_transfers ::
  "json list \<Rightarrow> string \<Rightarrow> u64 \<Rightarrow> split list \<Rightarrow> (nat set, verification_error) result" where
  "verify_sol_transfers instructions recipient primary_amount splits =
     rbind (find_sol_transfer instructions recipient primary_amount {})
       (find_split_transfers (find_sol_transfer instructions) ''Missing split transfer to '' splits)"

definition verify_ata_owner ::
  "externs \<Rightarrow> string \<Rightarrow> string \<Rightarrow> string \<Rightarrow> string \<Rightarrow> (bool, verification_error) result" where
  "verify_ata_owner X ata_address expected_owner mint token_program =
     (case (pubkey_from_str X expected_owner, pubkey_from_str X mint, pubkey_from_str X token_program,
            pubkey_from_str X ata_address) of
        (Ok owner, Ok mint_pk, Ok tp, Ok ata_pk) \<Rightarrow>
          rbind (expect_pubkey X ASSOCIATED_TOKEN_PROGRAM) (\<lambda>ata_program.
            Ok (fst (find_program_address X
                  [pubkey_bytes owner, pubkey_bytes tp, pubkey_bytes mint_pk] ata_program) = ata_pk))
      | _ \<Rightarrow> Ok False)"

definition parsed_spl_test ::
  "externs \<Rightarrow> string \<Rightarrow> string option \<Rightarrow> string \<Rightarrow> u64 \<Rightarrow> nat set \<Rightarrow> nat \<Rightarrow> json \<Rightarrow>
   (bool, verification_error) result" where
  "parsed_spl_test X expected_mint expected_token_program_opt recipient amount matched index ix =
     (if index \<in> matched then Ok False
      else
        let program = case_option [] id (Option.bind (json_get ix ''programId'') as_str) in
        if program \<noteq> TOKEN_PROGRAM \<and> program \<noteq> TOKEN_2022_PROGRAM then Ok False
        else if (case expected_token_program_opt of Some p \<Rightarrow> program \<noteq> p | None \<Rightarrow> False) then Ok False
        else
          case parsed_object ix of
            None \<Rightarrow> Ok False
          | Some parsed \<Rightarrow>
              if member_of parsed ''type'' \<noteq> Some ''transferChecked'' then Ok False
              else
                case Option.bind (map_of parsed ''info'') as_object of
                  None \<Rightarrow> Ok False
                | Some info \<Rightarrow>
                    let token_amount = case_option 0 id
                          (Option.bind (Option.bind (map_of info ''tokenAmount'') as_object)
                             (\<lambda>t. Option.bind (member_of t ''amount'') parse_u64))
                    in if token_amount \<noteq> amount then Ok False
                       else
                         let dest = case_option [] id (member_of info ''destination'');
                             mint = case_option [] id (member_of info ''mint'')
                         in if mint \<noteq> expected_mint then Ok False
                            else verify_ata_owner X dest recipient mint program)"

definition find_spl_transfer ::
  "externs \<Rightarrow> json list \<Rightarrow> string \<Rightarrow> string option \<Rightarrow> string \<Rightarrow> u64 \<Rightarrow> nat set \<Rightarrow>
   (nat set, verification_error) result" where
  "find_spl_transfer X instructions expected_mint expected_token_program_opt recipient amount matched =
     rbind (scan_from (parsed_spl_test X expected_mint expected_token_program_opt recipient amount matched)
              0 instructions) (\<lambda>found.
     case found of
       Some index \<Rightarrow> Ok (insert index matched)
     | None \<Rightarrow>
         Err (invalid_amount (''No matching SPL transferChecked of '' @ show_u64 amount @ '' to '' @ recipient)))"

definition verify_spl_transfers ::
  "externs \<Rightarrow> json list \<Rightarrow> string \<Rightarrow> string \<Rightarrow> u64 \<Rightarrow> split list \<Rightarrow> string option \<Rightarrow>
   (nat set, verification_error) result" where
  "verify_spl_transfers X instructions recipient mint primary_amount splits tp =
     rbind (find_spl_transfer X instructions mint tp recipient primary_amount {})
       (find_split_transfers (find_spl_transfer X instructions mint tp) ''Missing split SPL transfer to '' splits)"

section \<open>Memos and the allowlist\<close>

definition parsed_memo_text :: "json \<Rightarrow> string option" where
  "parsed_memo_text ix =
     (case json_get ix ''parsed'' of
        Some (JString memo) \<Rightarrow> Some memo
      | Some (JObject parsed) \<Rightarrow>
          Option.bind (Option.bind (map_of parsed ''info'') as_object)
            (\<lambda>info. string_field info [''memo'', ''data''])
      | _ \<Rightarrow> None)"

definition parsed_memo_test :: "string \<Rightarrow> nat set \<Rightarrow> nat \<Rightarrow> json \<Rightarrow> (bool, verification_error) result" where
  "parsed_memo_test memo matched index ix =
     Ok (index \<notin> matched \<and> parsed_program_id ix = Some MEMO_PROGRAM \<and> parsed_memo_text ix = Some memo)"

fun verify_parsed_memos ::
  "json list \<Rightarrow> (string \<times> string) list \<Rightarrow> nat set \<Rightarrow> (nat set, verification_error) result" where
  "verify_parsed_memos instructions [] matched = Ok matched"
| "verify_parsed_memos instructions ((label, memo) # memos) matched =
     (if 566 < length memo then Err (invalid_payload ''memo cannot exceed 566 bytes'')
      else
        rbind (scan_from (parsed_memo_test memo matched) 0 instructions) (\<lambda>found.
        case found of
          Some index \<Rightarrow> verify_parsed_memos instructions memos (insert index matched)
        | None \<Rightarrow>
            Err (invalid_payload (''No memo instruction found for '' @ label @ '' memo '' @ [CHR 34] @
                                  memo @ [CHR 34]))))"

definition verify_parsed_memo_instructions ::
  "json list \<Rightarrow> string option \<Rightarrow> split list \<Rightarrow> nat set \<Rightarrow> (nat set, verification_error) result" where
  "verify_parsed_memo_instructions instructions external_id splits matched =
     verify_parsed_memos instructions (expected_memos external_id splits) matched"

definition validate_parsed_ata_creation_instruction ::
  "externs \<Rightarrow> json \<Rightarrow> string option \<Rightarrow> string list \<Rightarrow> string option \<Rightarrow> string option \<Rightarrow>
   (string, verification_error) result" where
  "validate_parsed_ata_creation_instruction X ix expected_mint_opt allowed_ata_owners tp expected_payer =
     rbind (ok_or expected_mint_opt
              (invalid_payload ''ATA creation is not allowed for native SOL payments'')) (\<lambda>expected_mint.
     rbind (ok_or (parsed_object ix)
              (invalid_payload ''ATA creation instruction is missing parsed data'')) (\<lambda>parsed.
     if member_of parsed ''type'' \<noteq> Some ''createIdempotent'' then
       Err (invalid_payload ''Only idempotent ATA creation is allowed'')
     else
     rbind (ok_or (Option.bind (map_of parsed ''info'') as_object)
              (invalid_payload ''ATA creation parsed instruction is missing info'')) (\<lambda>info.
     rbind (ok_or (string_field info [''source'', ''payer''])
              (invalid_payload ''ATA creation parsed instruction is missing payer'')) (\<lambda>payer.
     rbind (ok_or (string_field info [''account'', ''associatedAccount'', ''associatedTokenAddress''])
              (invalid_payload ''ATA creation parsed instruction is missing account'')) (\<lambda>ata.
     rbind (ok_or (string_field info [''wallet'', ''owner''])
              (invalid_payload ''ATA creation parsed instruction is missing owner'')) (\<lambda>owner.
     rbind (ok_or (string_field info [''mint''])
              (invalid_payload ''ATA creation parsed instruction is missing mint'')) (\<lambda>mint.
     rbind (ok_or (case string_field info [''tokenProgram''] of Some p \<Rightarrow> Some p | None \<Rightarrow> tp)
              (invalid_payload ''ATA creation parsed instruction is missing token program''))
       (\<lambda>token_program.
     if (case expected_payer of Some p \<Rightarrow> payer \<noteq> p | None \<Rightarrow> False) then
       Err (invalid_payload ''ATA payer must match the transaction fee payer'')
     else if mint \<noteq> expected_mint then
       Err (invalid_payload ''ATA creation mint does not match the charge currency'')
     else if token_program \<noteq> TOKEN_PROGRAM \<and> token_program \<noteq> TOKEN_2022_PROGRAM then
       Err (invalid_payload ''ATA creation uses an unsupported token program'')
     else if (case tp of Some p \<Rightarrow> token_program \<noteq> p | None \<Rightarrow> False) then
       Err (invalid_payload ''ATA creation token program does not match methodDetails.tokenProgram'')
     else
     rbind (verify_ata_owner X ata owner mint token_program) (\<lambda>derived.
     if \<not> derived then
       Err (invalid_payload ''ATA creation address does not match owner/mint/token program'')
     else if owner \<notin> set allowed_ata_owners then
       Err (invalid_payload ''ATA creation owner is not authorized by the challenge'')
     else Ok owner)))))))))"

definition parsed_check_allowed ::
  "externs \<Rightarrow> nat set \<Rightarrow> string option \<Rightarrow> string list \<Rightarrow> string option \<Rightarrow> string option \<Rightarrow> nat \<Rightarrow>
   json \<Rightarrow> (string option, verification_error) result" where
  "parsed_check_allowed X matched expected_mint allowed_ata_owners tp expected_ata_payer index ix =
     (let program_id = parsed_program_id ix in
      if program_id = Some COMPUTE_BUDGET_PROGRAM then Ok None
      else if program_id = Some MEMO_PROGRAM then
        (if index \<in> matched then Ok None
         else Err (invalid_payload ''Unexpected Memo Program instruction in payment transaction''))
      else if program_id = Some SYSTEM_PROGRAM then
        (if index \<in> matched then Ok None
         else Err (invalid_payload ''Unexpected System Program instruction in payment transaction''))
      else if program_id = Some TOKEN_PROGRAM \<or> program_id = Some TOKEN_2022_PROGRAM then
        (if index \<in> matched then Ok None
         else Err (invalid_payload ''Unexpected Token Program instruction in payment transaction''))
      else if program_id = Some ASSOCIATED_TOKEN_PROGRAM then
        rbind (validate_parsed_ata_creation_instruction X ix expected_mint allowed_ata_owners tp
                 expected_ata_payer) (\<lambda>owner. Ok (Some owner))
      else
        Err (invalid_payload (''Unexpected program instruction in payment transaction: '' @
                              case_option ''unknown'' id program_id)))"

definition validate_parsed_instruction_allowlist ::
  "externs \<Rightarrow> json list \<Rightarrow> nat set \<Rightarrow> string option \<Rightarrow> string list \<Rightarrow> string option \<Rightarrow> string option \<Rightarrow>
   string list \<Rightarrow> (unit, verification_error) result" where
  "validate_parsed_instruction_allowlist X instructions matched expected_mint allowed_ata_owners tp
       expected_ata_payer required_ata_owners =
     rbind (collect_results
              (\<lambda>(index, ix). parsed_check_allowed X matched expected_mint allowed_ata_owners tp
                 expected_ata_payer index ix)
              (enumerate 0 instructions)) (\<lambda>created.
     case find (\<lambda>owner. Some owner \<notin> set created) required_ata_owners of
       Some owner \<Rightarrow>
         Err (invalid_payload (''Missing required ATA creation instruction for split recipient '' @ owner))
     | None \<Rightarrow> Ok ())"

end
