(* ===== verification/Store.thy ===== *)
theory Store
  imports Errors
begin

text \<open>
  The key-value store of \<^verbatim>\<open>rust/src/store.rs\<close> used for replay protection: the trait \<^verbatim>\<open>Store\<close> as a
  record of operations, the in-memory implementation, and the contract (a locale) that clients
  of the trait rely on.
\<close>

section \<open>The trait\<close>

text \<open>
  One field per method of the trait.  \<^verbatim>\<open>'v\<close> is \<^verbatim>\<open>serde_json::Value\<close>.  A method that writes returns
  the new state of the store beside its result.
\<close>

record ('s, 'v) store =
  store_get :: "'s \<Rightarrow> string \<Rightarrow> ('v option, store_error) result"
  store_put :: "'s \<Rightarrow> string \<Rightarrow> 'v \<Rightarrow> 's \<times> (unit, store_error) result"
  store_delete :: "'s \<Rightarrow> string \<Rightarrow> 's \<times> (unit, store_error) result"
  store_put_if_absent :: "'s \<Rightarrow> string \<Rightarrow> 'v \<Rightarrow> 's \<times> (bool, store_error) result"

section \<open>MemoryStore\<close>

text \<open>
  A mutex around a map from keys to serialised values.  A mutex whose holder panicked is
  poisoned, and \<^verbatim>\<open>lock().unwrap()\<close> panics from then on.
\<close>

record memory_store =
  ms_data :: "string \<rightharpoonup> string"
  ms_poisoned :: bool

definition memory_store_new :: memory_store where
  "memory_store_new = \<lparr>ms_data = Map.empty, ms_poisoned = False\<rparr>"

text \<open>\<^verbatim>\<open>serde_json::to_string\<close> and \<^verbatim>\<open>serde_json::from_str\<close>.\<close>

record 'v json_codec =
  json_to_string :: "'v \<Rightarrow> (string, string) result"
  json_from_str :: "string \<Rightarrow> ('v, string) result"

definition memory_get ::
  "'v json_codec \<Rightarrow> memory_store \<Rightarrow> string \<Rightarrow> ('v option, store_error) result" where
  "memory_get J s key =
     (if ms_poisoned s then Panic
      else case ms_data s key of
             None \<Rightarrow> Ok None
           | Some raw \<Rightarrow>
               rbind (map_err Serialization (json_from_str J raw)) (\<lambda>value. Ok (Some value)))"

definition memory_put ::
  "'v json_codec \<Rightarrow> memory_store \<Rightarrow> string \<Rightarrow> 'v \<Rightarrow> memory_store \<times> (unit, store_error) result" where
  "memory_put J s key value =
     (case map_err Serialization (json_to_string J value) of
        Err e \<Rightarrow> (s, Err e)
      | Panic \<Rightarrow> (s, Panic)
      | Ok serialized \<Rightarrow>
          if ms_poisoned s then (s, Panic)
          else (s\<lparr>ms_data := (ms_data s)(key \<mapsto> serialized)\<rparr>, Ok ()))"

definition memory_delete ::
  "memory_store \<Rightarrow> string \<Rightarrow> memory_store \<times> (unit, store_error) result" where
  "memory_delete s key =
     (if ms_poisoned s then (s, Panic)
      else (s\<lparr>ms_data := (ms_data s)(key := None)\<rparr>, Ok ()))"

definition memory_put_if_absent ::
  "'v json_codec \<Rightarrow> memory_store \<Rightarrow> string \<Rightarrow> 'v \<Rightarrow> memory_store \<times> (bool, store_error) result" where
  "memory_put_if_absent J s key value =
     (case map_err Serialization (json_to_string J value) of
        Err e \<Rightarrow> (s, Err e)
      | Panic \<Rightarrow> (s, Panic)
      | Ok serialized \<Rightarrow>
          if ms_poisoned s then (s, Panic)
          else case ms_data s key of
                 Some _ \<Rightarrow> (s, Ok False)
               | None \<Rightarrow> (s\<lparr>ms_data := (ms_data s)(key \<mapsto> serialized)\<rparr>, Ok True))"

definition memory_store_ops :: "'v json_codec \<Rightarrow> (memory_store, 'v) store" where
  "memory_store_ops J =
     \<lparr>store_get = memory_get J, store_put = memory_put J, store_delete = memory_delete,
      store_put_if_absent = memory_put_if_absent J\<rparr>"

section \<open>The contract of the trait\<close>

text \<open>
  \<open>keys\<close> is the set of keys present, \<open>healthy\<close> says the store can still be locked.  The laws
  that matter for replay protection: \<^verbatim>\<open>put_if_absent\<close> answers \<^verbatim>\<open>true\<close> exactly when the key was
  absent, the key is present afterwards, no other key changes, and an error changes nothing.
\<close>

locale kv_store =
  fixes ops :: "('s, 'v) store"
    and keys :: "'s \<Rightarrow> string set"
    and healthy :: "'s \<Rightarrow> bool"
  assumes put_if_absent_True:
      "store_put_if_absent ops s k v = (s', Ok True) \<Longrightarrow>
         k \<notin> keys s \<and> keys s' = insert k (keys s)"
    and put_if_absent_False:
      "store_put_if_absent ops s k v = (s', Ok False) \<Longrightarrow> k \<in> keys s \<and> s' = s"
    and put_if_absent_fails:
      "store_put_if_absent ops s k v = (s', r) \<Longrightarrow> \<not> is_ok r \<Longrightarrow> s' = s"
    and put_if_absent_healthy:
      "healthy s \<Longrightarrow> healthy (fst (store_put_if_absent ops s k v))"
begin

text \<open>Keys are never lost, whatever the outcome.\<close>

lemma put_if_absent_mono:
  assumes "store_put_if_absent ops s k v = (s', r)"
  shows "keys s \<subseteq> keys s'"
proof (cases "is_ok r")
  case True
  then obtain b where "r = Ok b" by (auto simp: is_ok_iff)
  with assms show ?thesis
    by (cases b) (auto dest: put_if_absent_True put_if_absent_False)
next
  case False
  with assms show ?thesis by (auto dest: put_if_absent_fails)
qed

text \<open>A key that is present is refused.\<close>

lemma put_if_absent_present:
  "store_put_if_absent ops s k v = (s', Ok b) \<Longrightarrow> k \<in> keys s \<Longrightarrow> \<not> b"
  by (cases b) (auto dest: put_if_absent_True)

text \<open>
  A sequence of insertions on one store, in any order the threads' critical sections happen to
  run: the keys answered with \<^verbatim>\<open>true\<close>.
\<close>

lemma insert_run_step:
  assumes "store_put_if_absent ops s k v = (s', Ok True)"
    and "store_put_if_absent ops s'' k v' = (s''', Ok b)" and "keys s' \<subseteq> keys s''"
  shows "\<not> b"
  using assms by (auto dest!: put_if_absent_True intro: put_if_absent_present)

end

interpretation mem: kv_store "memory_store_ops J" "\<lambda>s. dom (ms_data s)" "\<lambda>s. \<not> ms_poisoned s"
  by unfold_locales
    (auto simp: memory_store_ops_def memory_put_if_absent_def
      split: result.splits if_splits option.splits)

end
