(* ===== verification/Floats.thy ===== *)
theory Floats
  imports Rust_Strings
begin

text \<open>
  \<^verbatim>\<open>f64\<close> of the Rust standard library, as far as the SDK uses it: correctly rounded conversion, division
  and parsing, comparison, and formatting with a fixed number of decimals.  A finite number is a sign, a
  mantissa and a power of two; rounding goes to the nearest number, ties to an even mantissa.
\<close>

section \<open>Numbers\<close>

datatype f64 = Finite bool nat int | Infinite bool | NaN

text \<open>The value of a mantissa and an exponent as a fraction, and the fraction divided by a power of two.\<close>

definition f64_num :: "nat \<Rightarrow> int \<Rightarrow> nat" where
  "f64_num m e = (if 0 \<le> e then m * 2 ^ nat e else m)"

definition f64_den :: "int \<Rightarrow> nat" where
  "f64_den e = (if 0 \<le> e then 1 else 2 ^ nat (- e))"

definition scale_num :: "nat \<Rightarrow> int \<Rightarrow> nat" where
  "scale_num a e = (if 0 \<le> e then a else a * 2 ^ nat (- e))"

definition scale_den :: "nat \<Rightarrow> int \<Rightarrow> nat" where
  "scale_den b e = (if 0 \<le> e then b * 2 ^ nat e else b)"

fun bit_length :: "nat \<Rightarrow> nat" where
  "bit_length n = (if n = 0 then 0 else Suc (bit_length (n div 2)))"

declare bit_length.simps [simp del]

definition half_even :: "nat \<Rightarrow> nat \<Rightarrow> nat" where
  "half_even n d =
     (let q = n div d; r = n mod d in
      if d < 2 * r \<or> 2 * r = d \<and> odd q then q + 1 else q)"

text \<open>The exponent for which the mantissa of \<open>a / b\<close> has 53 bits, or the smallest one.\<close>

definition f64_exponent :: "nat \<Rightarrow> nat \<Rightarrow> int" where
  "f64_exponent a b =
     (let e = int (bit_length a) - int (bit_length b) - 53 in
      max (- 1074) (if scale_num a e < 2 ^ 53 * scale_den b e then e else e + 1))"

definition nearest_f64 :: "bool \<Rightarrow> nat \<Rightarrow> nat \<Rightarrow> f64" where
  "nearest_f64 s a b =
     (if a = 0 then Finite s 0 (- 1074)
      else
        let e = f64_exponent a b;
            q = half_even (scale_num a e) (scale_den b e);
            (m, e) = (if q = 2 ^ 53 then (2 ^ 52, e + 1) else (q, e))
        in if 971 < e then Infinite s else Finite s m e)"

definition f64_of_u64 :: "u64 \<Rightarrow> f64" where
  "f64_of_u64 n = nearest_f64 False (unat n) 1"

section \<open>Operations\<close>

fun f64_div :: "f64 \<Rightarrow> f64 \<Rightarrow> f64" where
  "f64_div (Finite s m e) (Finite t n f) =
     (if n = 0 then if m = 0 then NaN else Infinite (s \<noteq> t)
      else nearest_f64 (s \<noteq> t) (f64_num m e * f64_den f) (f64_den e * f64_num n f))"
| "f64_div (Infinite s) (Finite t n f) = Infinite (s \<noteq> t)"
| "f64_div (Finite s m e) (Infinite t) = Finite (s \<noteq> t) 0 (- 1074)"
| "f64_div _ _ = NaN"

definition signed :: "bool \<Rightarrow> nat \<Rightarrow> int" where
  "signed s n = (if s then - int n else int n)"

fun f64_less :: "f64 \<Rightarrow> f64 \<Rightarrow> bool" where
  "f64_less (Finite s m e) (Finite t n f) \<longleftrightarrow>
     signed s (f64_num m e * f64_den f) < signed t (f64_num n f * f64_den e)"
| "f64_less (Infinite s) (Finite t n f) \<longleftrightarrow> s"
| "f64_less (Finite s m e) (Infinite t) \<longleftrightarrow> \<not> t"
| "f64_less (Infinite s) (Infinite t) \<longleftrightarrow> s \<and> \<not> t"
| "f64_less _ _ \<longleftrightarrow> False"

text \<open>\<^verbatim>\<open>x == x.floor()\<close>; the floor of an infinity is itself.\<close>

fun f64_is_whole :: "f64 \<Rightarrow> bool" where
  "f64_is_whole (Finite s m e) \<longleftrightarrow> f64_num m e mod f64_den e = 0"
| "f64_is_whole (Infinite s) \<longleftrightarrow> True"
| "f64_is_whole NaN \<longleftrightarrow> False"

section \<open>Text\<close>

definition pad_zeros :: "nat \<Rightarrow> string \<Rightarrow> string" where
  "pad_zeros k s = replicate (k - length s) (CHR ''0'') @ s"

text \<open>\<^verbatim>\<open>format!("{:.k}", x)\<close>\<close>

fun f64_fixed :: "nat \<Rightarrow> f64 \<Rightarrow> string" where
  "f64_fixed k (Finite s m e) =
     (let q = half_even (f64_num m e * 10 ^ k) (f64_den e) in
      (if s then ''-'' else []) @ show_nat (q div 10 ^ k) @
      (if k = 0 then [] else ''.'' @ pad_zeros k (show_nat (q mod 10 ^ k))))"
| "f64_fixed k (Infinite s) = (if s then ''-inf'' else ''inf'')"
| "f64_fixed k NaN = ''NaN''"

definition is_digit :: "char \<Rightarrow> bool" where
  "is_digit c = (digit_value c \<noteq> None)"

definition digits_value :: "string \<Rightarrow> nat" where
  "digits_value ds = case_option 0 id (parse_digits 0 ds)"

text \<open>The exponent of a scientific notation, which stops growing at five digits.\<close>

definition read_exponent :: "string \<Rightarrow> int option" where
  "read_exponent s =
     (let (negative, ds) = (case s of [] \<Rightarrow> (False, []) | c # cs \<Rightarrow>
            if c = CHR ''-'' then (True, cs) else if c = CHR ''+'' then (False, cs) else (False, s));
          n = foldl (\<lambda>acc c. if acc < 65536 then 10 * acc + case_option 0 id (digit_value c) else acc) 0 ds
      in if ds \<noteq> [] \<and> list_all is_digit ds then Some (signed negative n) else None)"

definition decimal_f64 :: "bool \<Rightarrow> string \<Rightarrow> int \<Rightarrow> f64" where
  "decimal_f64 s ds x =
     (if 0 \<le> x then nearest_f64 s (digits_value ds * 10 ^ nat x) 1
      else nearest_f64 s (digits_value ds) (10 ^ nat (- x)))"

definition parse_inf_nan :: "bool \<Rightarrow> string \<Rightarrow> f64 option" where
  "parse_inf_nan s text =
     (let t = to_ascii_lowercase text in
      if t = ''inf'' \<or> t = ''infinity'' then Some (Infinite s)
      else if t = ''nan'' then Some NaN else None)"

text \<open>\<^verbatim>\<open>str::parse::<f64>\<close>\<close>

definition parse_f64 :: "string \<Rightarrow> f64 option" where
  "parse_f64 text =
     (let (s, body) = (case text of [] \<Rightarrow> (False, []) | c # cs \<Rightarrow>
            if c = CHR ''-'' then (True, cs) else if c = CHR ''+'' then (False, cs) else (False, text));
          whole = takeWhile is_digit body;
          rest = dropWhile is_digit body;
          (frac, rest) = (case rest of [] \<Rightarrow> ([], [])
            | c # cs \<Rightarrow> if c = CHR ''.'' then (takeWhile is_digit cs, dropWhile is_digit cs) else ([], rest))
      in if whole = [] \<and> frac = [] then parse_inf_nan s body
         else case rest of
           [] \<Rightarrow> Some (decimal_f64 s (whole @ frac) (- int (length frac)))
         | c # cs \<Rightarrow>
             if c = CHR ''e'' \<or> c = CHR ''E'' then
               map_option (\<lambda>x. decimal_f64 s (whole @ frac) (x - int (length frac))) (read_exponent cs)
             else None)"

section \<open>Whole numbers\<close>

lemma bit_length_bound: "n < 2 ^ bit_length n"
proof (induction n rule: bit_length.induct)
  case (1 n)
  show ?case
  proof (cases "n = 0")
    case False
    with 1 have "n div 2 < 2 ^ bit_length (n div 2)" by blast
    then have "n < 2 * 2 ^ bit_length (n div 2)" by linarith
    with False show ?thesis by (simp add: bit_length.simps [of n])
  qed (simp add: bit_length.simps)
qed

lemma bit_length_le: "n < 2 ^ k \<Longrightarrow> bit_length n \<le> k"
proof (induction n arbitrary: k rule: bit_length.induct)
  case (1 n)
  show ?case
  proof (cases "n = 0")
    case False
    with 1(2) obtain j where k: "k = Suc j" by (cases k) auto
    with 1(2) have "n div 2 < 2 ^ j" by auto
    with 1(1) False have "bit_length (n div 2) \<le> j" by blast
    with False k show ?thesis by (simp add: bit_length.simps [of n])
  qed (simp add: bit_length.simps)
qed

lemma half_even_exact: "0 < d \<Longrightarrow> half_even (q * d) d = q"
  by (simp add: half_even_def)

lemma f64_den_pos [simp]: "0 < f64_den e"
  by (simp add: f64_den_def)

lemma f64_exponent_small:
  assumes "n < 2 ^ 53" and "0 < b"
  shows "f64_exponent (n * b) b \<le> 0"
proof -
  have "n * b < 2 ^ 53 * 2 ^ bit_length b"
    using assms bit_length_bound [of b] by (intro mult_strict_mono) auto
  then have "bit_length (n * b) \<le> 53 + bit_length b"
    by (intro bit_length_le) (simp add: power_add)
  moreover have "n * b < 2 ^ 53 * b" using assms by simp
  ultimately show ?thesis
    by (auto simp: f64_exponent_def Let_def scale_num_def scale_den_def)
qed

text \<open>A whole number of at most 53 bits is not rounded, however it is given as a fraction.\<close>

definition f64_whole :: "f64 \<Rightarrow> nat \<Rightarrow> bool" where
  "f64_whole x n \<longleftrightarrow> (\<exists>m e. x = Finite False m e \<and> f64_num m e = n * f64_den e)"

lemma nearest_whole:
  assumes "n < 2 ^ 53" and "0 < b"
  shows "f64_whole (nearest_f64 False (n * b) b) n"
proof (cases "n = 0")
  case True
  then show ?thesis by (simp add: nearest_f64_def f64_whole_def f64_num_def)
next
  case False
  define e where "e = f64_exponent (n * b) b"
  define k where "k = nat (- e)"
  have e: "e \<le> 0" "e = - int k" using f64_exponent_small [OF assms] by (simp_all add: e_def k_def)
  have "half_even (scale_num (n * b) e) (scale_den b e) = half_even (n * 2 ^ k * b) b"
    using e by (cases "k = 0") (simp_all add: scale_num_def scale_den_def mult_ac)
  also have "\<dots> = n * 2 ^ k" by (rule half_even_exact [OF assms(2)])
  finally have q: "half_even (scale_num (n * b) e) (scale_den b e) = n * 2 ^ k" .
  show ?thesis
  proof (cases "n * 2 ^ k = 2 ^ 53")
    case True
    then obtain j where j: "k = Suc j" using assms(1) by (cases k) auto
    then have half: "n * 2 ^ j = 2 ^ 52" using True by simp
    have "nearest_f64 False (n * b) b = Finite False (2 ^ 52) (e + 1)"
      using True e(1) \<open>n \<noteq> 0\<close> assms(2) by (simp add: nearest_f64_def e_def [symmetric] Let_def q)
    with half e j show ?thesis by (auto simp: f64_whole_def f64_num_def f64_den_def)
  next
    case False
    have "nearest_f64 False (n * b) b = Finite False (n * 2 ^ k) e"
      using False e(1) \<open>n \<noteq> 0\<close> assms(2) by (simp add: nearest_f64_def e_def [symmetric] Let_def q)
    with e show ?thesis by (auto simp: f64_whole_def f64_num_def f64_den_def)
  qed
qed

lemma f64_div_whole:
  assumes "f64_whole x (n * c)" and "f64_whole y c" and "n < 2 ^ 53" and "0 < c"
  shows "f64_whole (f64_div x y) n"
proof -
  from assms(1,2) obtain m e p f where x: "x = Finite False m e" "f64_num m e = n * c * f64_den e"
    and y: "y = Finite False p f" "f64_num p f = c * f64_den f" by (auto simp: f64_whole_def)
  have "0 < f64_num p f" using assms(4) by (simp add: y(2))
  then have "p \<noteq> 0" by (auto simp: f64_num_def split: if_splits)
  then have "f64_div x y = nearest_f64 False (n * (f64_den e * f64_num p f)) (f64_den e * f64_num p f)"
    by (simp add: x y mult_ac)
  moreover have "0 < f64_den e * f64_num p f" using assms(4) by (simp add: y(2))
  ultimately show ?thesis using nearest_whole [OF assms(3)] by simp
qed

lemma f64_whole_shown: "f64_whole x n \<Longrightarrow> f64_is_whole x \<and> f64_fixed 0 x = show_nat n"
  by (auto simp: f64_whole_def half_even_exact)

lemma is_digit_char: "d < 10 \<Longrightarrow> is_digit (digit_char d)"
  by (simp add: is_digit_def)

lemma show_nat_all_digits: "list_all is_digit (show_nat n)"
proof (induction n rule: show_nat.induct)
  case (1 n)
  then show ?case by (cases "n < 10") (simp_all add: show_nat.simps [of n] is_digit_char)
qed

lemma parse_f64_shown: "parse_f64 (show_nat n) = Some (nearest_f64 False n 1)"
proof -
  have digits: "\<forall>c \<in> set (show_nat n). is_digit c" using show_nat_all_digits [of n] by (simp add: list_all_iff)
  obtain c cs where s: "show_nat n = c # cs" using show_nat_not_Nil [of n] by (cases "show_nat n") auto
  have "is_digit c" using digits s by simp
  then have c: "c \<noteq> CHR ''-''" "c \<noteq> CHR ''+''" by (auto simp: is_digit_def digit_value_def)
  have "takeWhile is_digit (show_nat n) = show_nat n" "dropWhile is_digit (show_nat n) = []"
    using digits by (simp_all add: takeWhile_eq_all_conv dropWhile_eq_Nil_conv)
  moreover have "digits_value (show_nat n) = n"
    using parse_digits_show [of n] by (simp add: digits_value_def)
  ultimately show ?thesis
    using c by (simp add: parse_f64_def s decimal_f64_def)
qed

end
