(* ===== verification/Charge_Server.thy ===== *)
theory Charge_Server
  imports Charge_Push Headers Store Floats
begin

text \<open>
  The \<^verbatim>\<open>Mpp\<close> handler of \<^verbatim>\<open>rust/src/server/charge.rs\<close>: issuing challenges, settling payments in pull and
  push mode, and verifying credentials with replay protection.
\<close>

section \<open>The outside world\<close>

text \<open>
  The Solana RPC client.  \<^verbatim>\<open>rpc_simulate n\<close> and \<^verbatim>\<open>rpc_confirm n\<close> are the answers to the n-th request of
  that kind within one call; the balance of a token account is its \<^verbatim>\<open>ui_amount\<close>.  A simulation that ran gives \<^verbatim>\<open>None\<close>, or the error with the logs.  Errors
  are their display texts and signatures their base58 texts.
\<close>

record rpc_client =
  rpc_latest_blockhash :: "(string, string) result"
  rpc_simulate :: "nat \<Rightarrow> versioned_transaction \<Rightarrow> ((string \<times> string list option) option, string) result"
  rpc_send :: "versioned_transaction \<Rightarrow> (string, string) result"
  rpc_confirm :: "nat \<Rightarrow> string \<Rightarrow> (bool, string) result"
  rpc_get_transaction :: "string \<Rightarrow> (confirmed_transaction, string) result"
  rpc_balance :: "pubkey \<Rightarrow> (u64, string) result"
  rpc_token_balance :: "pubkey \<Rightarrow> (f64 option, string) result"

text \<open>
  The crates that read and write transactions (\<^verbatim>\<open>base64\<close> with the standard alphabet, \<^verbatim>\<open>bincode\<close>) and
  signature texts, and the environment variable of the secret key.
\<close>

record tx_codecs =
  base64_standard_decode :: "string \<Rightarrow> (byte list, string) result"
  bincode_legacy :: "byte list \<Rightarrow> (versioned_transaction, string) result"
  bincode_versioned :: "byte list \<Rightarrow> (versioned_transaction, string) result"
  message_serialize :: "versioned_transaction \<Rightarrow> byte list"
  signature_from_str :: "string \<Rightarrow> (unit, string) result"
  env_secret_key :: "string option"

text \<open>What a call asks of the outside world, in order.\<close>

datatype effect =
    Signed "byte list"
  | Simulated versioned_transaction
  | Sent versioned_transaction
  | Confirming string

text \<open>A search for a word in a text.\<close>

fun contains_str :: "string \<Rightarrow> string \<Rightarrow> bool" where
  "contains_str [] p = (p = [])"
| "contains_str (c # cs) p = (starts_with (c # cs) p \<or> contains_str cs p)"

section \<open>Configuration\<close>

definition SECRET_KEY_ENV_VAR :: string where
  "SECRET_KEY_ENV_VAR = ''MPP_SECRET_KEY''"

definition METHOD_NAME :: string where
  "METHOD_NAME = ''solana''"

definition SIMULATION_MAX_ATTEMPTS :: nat where
  "SIMULATION_MAX_ATTEMPTS = 3"

definition DEFAULT_REALM :: string where
  "DEFAULT_REALM = ''MPP Payment''"

definition detect_secret_key :: "tx_codecs \<Rightarrow> (string, error) result" where
  "detect_secret_key T =
     ok_or (env_secret_key T)
       (InvalidConfig (''Missing '' @ SECRET_KEY_ENV_VAR @
                       '' env var. Set it or pass secret_key explicitly.''))"

text \<open>
  The store behind the shared pointer is threaded through the calls beside the handler.
\<close>

record 's mpp_config =
  mc_recipient :: string
  mc_currency :: string
  mc_decimals :: byte
  mc_network :: string
  mc_rpc_url :: "string option"
  mc_secret_key :: "string option"
  mc_realm :: "string option"
  mc_fee_payer :: bool
  mc_fee_payer_signer :: "signer option"
  mc_store :: "'s option"
  mc_html :: bool

definition mpp_config_default :: "'s mpp_config" where
  "mpp_config_default =
     \<lparr>mc_recipient = [], mc_currency = ''USDC'', mc_decimals = 6, mc_network = ''mainnet-beta'',
      mc_rpc_url = None, mc_secret_key = None, mc_realm = None, mc_fee_payer = False,
      mc_fee_payer_signer = None, mc_store = None, mc_html = False\<rparr>"

record mpp =
  mpp_rpc_url :: string
  mpp_realm :: string
  mpp_secret_key :: string
  mpp_currency :: string
  mpp_recipient :: string
  mpp_decimals :: u32
  mpp_network :: string
  mpp_fee_payer :: bool
  mpp_fee_payer_signer :: "signer option"
  mpp_html :: bool

text \<open>\<^verbatim>\<open>default_rpc_url\<close> of this file repeats the one of the protocol module.\<close>

definition mpp_new ::
  "externs \<Rightarrow> tx_codecs \<Rightarrow> 's \<Rightarrow> 's mpp_config \<Rightarrow> (mpp \<times> 's, error) result" where
  "mpp_new X T fresh_store config =
     (if mc_recipient config = [] then Err (InvalidConfig ''recipient is required'')
      else
        rbind (map_err (\<lambda>e. InvalidConfig (''Invalid recipient pubkey: '' @ e))
                 (pubkey_from_str X (mc_recipient config))) (\<lambda>_.
        let rpc_url = (case mc_rpc_url config of Some u \<Rightarrow> u | None \<Rightarrow> default_rpc_url (mc_network config)) in
        rbind (case mc_secret_key config of Some k \<Rightarrow> Ok k | None \<Rightarrow> detect_secret_key T) (\<lambda>secret_key.
          Ok (\<lparr>mpp_rpc_url = rpc_url, mpp_realm = case_option DEFAULT_REALM id (mc_realm config),
               mpp_secret_key = secret_key, mpp_currency = mc_currency config,
               mpp_recipient = mc_recipient config, mpp_decimals = ucast (mc_decimals config),
               mpp_network = mc_network config, mpp_fee_payer = mc_fee_payer config,
               mpp_fee_payer_signer = mc_fee_payer_signer config, mpp_html = mc_html config\<rparr>,
              case_option fresh_store id (mc_store config)))))"

section \<open>Expiry times\<close>

text \<open>
  \<^verbatim>\<open>rust/src/expires.rs\<close>.  A duration whose seconds do not fit 64 bits, and a date outside the years
  -9999 to 9999, panic.
\<close>

definition in_date_range :: "int \<Rightarrow> bool" where
  "in_date_range t = (- 377705116800 * 10 ^ 9 \<le> t \<and> t < 253402300800 * 10 ^ 9)"

definition offset_time :: "codecs \<Rightarrow> int \<Rightarrow> (string, 'e) result" where
  "offset_time K secs =
     (let t = now_utc K + secs * 10 ^ 9 in
      if \<not> in_date_range t then Panic
      else Ok (case format_rfc3339 K t of Ok s \<Rightarrow> s | _ \<Rightarrow> ''1970-01-01T00:00:00Z''))"

definition expires_unit :: "codecs \<Rightarrow> int \<Rightarrow> u64 \<Rightarrow> (string, 'e) result" where
  "expires_unit K factor n =
     (let secs = sint n * factor in
      if - (2 ^ 63) \<le> secs \<and> secs < 2 ^ 63 then offset_time K secs else Panic)"

definition expires_seconds :: "codecs \<Rightarrow> u64 \<Rightarrow> (string, 'e) result" where
  "expires_seconds K n = expires_unit K 1 n"

definition expires_minutes :: "codecs \<Rightarrow> u64 \<Rightarrow> (string, 'e) result" where
  "expires_minutes K n = expires_unit K 60 n"

definition expires_hours :: "codecs \<Rightarrow> u64 \<Rightarrow> (string, 'e) result" where
  "expires_hours K n = expires_unit K 3600 n"

definition expires_days :: "codecs \<Rightarrow> u64 \<Rightarrow> (string, 'e) result" where
  "expires_days K n = expires_unit K 86400 n"

definition expires_weeks :: "codecs \<Rightarrow> u64 \<Rightarrow> (string, 'e) result" where
  "expires_weeks K n = expires_unit K 604800 n"

section \<open>Issuing challenges\<close>

record charge_options =
  co_description :: "string option"
  co_external_id :: "string option"
  co_expires :: "string option"
  co_fee_payer :: bool
  co_splits :: "split list"

definition charge_options_default :: charge_options where
  "charge_options_default =
     \<lparr>co_description = None, co_external_id = None, co_expires = None, co_fee_payer = False,
      co_splits = []\<rparr>"

definition validate_charge_options :: "externs \<Rightarrow> mpp \<Rightarrow> charge_options \<Rightarrow> (unit, error) result" where
  "validate_charge_options X m options =
     (if \<not> (\<exists>s \<in> set (co_splits options). sp_ata_creation_required s = Some True) then Ok ()
      else if eq_ignore_ascii_case (mpp_currency m) ''SOL'' then
        Err (InvalidConfig ''ataCreationRequired requires an SPL token currency'')
      else if resolve_stablecoin_mint (mpp_currency m) (Some (mpp_network m)) \<noteq> Some (mpp_currency m) then
        Err (InvalidConfig ''ataCreationRequired requires currency to be an SPL token mint address'')
      else
        rbind (map_err (\<lambda>e. InvalidConfig (''ataCreationRequired requires a valid SPL token mint address: '' @ e))
                 (pubkey_from_str X (mpp_currency m))) (\<lambda>_. Ok ()))"

text \<open>The method details the server embeds in a challenge.\<close>

definition charge_details :: "externs \<Rightarrow> rpc_client \<Rightarrow> mpp \<Rightarrow> charge_options \<Rightarrow> json" where
  "charge_details X R m options =
     JObject ([(''network'', JString (mpp_network m)),
               (''decimals'', JNumber (PosInt (ucast (mpp_decimals m))))] @
              (if co_fee_payer options \<or> mpp_fee_payer m then
                 (''feePayer'', JBool True) #
                 (case mpp_fee_payer_signer m of
                    Some signer \<Rightarrow> [(''feePayerKey'', JString (pubkey_string X (sg_pubkey signer)))]
                  | None \<Rightarrow> [])
               else []) @
              (if to_uppercase (mpp_currency m) \<noteq> ''SOL'' then
                 [(''tokenProgram'', JString (default_token_program_for_currency (mpp_currency m)
                                              (Some (mpp_network m))))]
               else []) @
              (if co_splits options \<noteq> [] then
                 [(''splits'', JArray (map split_to_json (co_splits options)))]
               else []) @
              (case rpc_latest_blockhash R of
                 Ok blockhash \<Rightarrow> [(''recentBlockhash'', JString blockhash)]
               | _ \<Rightarrow> []))"

definition charge_challenge_with_options ::
  "codecs \<Rightarrow> mpp \<Rightarrow> charge_request \<Rightarrow> string option \<Rightarrow> string option \<Rightarrow>
   (payment_challenge, error) result" where
  "charge_challenge_with_options K m request expires description =
     rbind (from_typed_request K request) (\<lambda>encoded.
     rbind (expires_minutes K 5) (\<lambda>default_expires.
     let expires' = case_option default_expires id expires in
       Ok (with_secret_key_full K (mpp_secret_key m) (mpp_realm m) (method_name_new METHOD_NAME)
             (intent_name_new ''charge'') encoded (Some expires') None description None)))"

definition charge_challenge :: "codecs \<Rightarrow> mpp \<Rightarrow> charge_request \<Rightarrow> (payment_challenge, error) result" where
  "charge_challenge K m request = charge_challenge_with_options K m request None None"

text \<open>The request of a charge.\<close>

definition charge_request_for ::
  "externs \<Rightarrow> rpc_client \<Rightarrow> mpp \<Rightarrow> string \<Rightarrow> charge_options \<Rightarrow> charge_request" where
  "charge_request_for X R m base_units options =
     \<lparr>cr_amount = base_units, cr_currency = mpp_currency m, cr_decimals = None,
      cr_recipient = Some (mpp_recipient m), cr_description = co_description options,
      cr_external_id = co_external_id options, cr_method_details = Some (charge_details X R m options)\<rparr>"

definition charge_with_options ::
  "build \<Rightarrow> externs \<Rightarrow> codecs \<Rightarrow> rpc_client \<Rightarrow> mpp \<Rightarrow> string \<Rightarrow> charge_options \<Rightarrow>
   (payment_challenge, error) result" where
  "charge_with_options b X K R m amount options =
     rbind (validate_charge_options X m options) (\<lambda>_.
     rbind (parse_units b amount (unat (ucast (mpp_decimals m) :: byte))) (\<lambda>base_units.
     rbind (from_typed_request K (charge_request_for X R m base_units options)) (\<lambda>encoded.
     rbind (expires_minutes K 5) (\<lambda>default_expires.
     let expires = case_option default_expires id (co_expires options) in
       Ok (with_secret_key_full K (mpp_secret_key m) (mpp_realm m) (method_name_new METHOD_NAME)
             (intent_name_new ''charge'') encoded (Some expires) None (co_description options) None)))))"

definition charge :: "build \<Rightarrow> externs \<Rightarrow> codecs \<Rightarrow> rpc_client \<Rightarrow> mpp \<Rightarrow> string \<Rightarrow>
    (payment_challenge, error) result" where
  "charge b X K R m amount = charge_with_options b X K R m amount charge_options_default"

definition charge_variants_with_options ::
  "build \<Rightarrow> externs \<Rightarrow> codecs \<Rightarrow> rpc_client \<Rightarrow> mpp \<Rightarrow> string \<Rightarrow> charge_options \<Rightarrow>
   (payment_challenge list, error) result" where
  "charge_variants_with_options b X K R m amount options =
     rbind (charge_with_options b X K R m amount options) (\<lambda>challenge. Ok [challenge])"

end
