(* ===== verification/Charge_Balances.thy ===== *)
theory Charge_Balances
  imports Charge_Server
begin

text \<open>
  \<^verbatim>\<open>diagnose_balances\<close> of \<^verbatim>\<open>rust/src/server/charge.rs\<close>: what is added to the message of a failed simulation
  about the balances of the payer and of the fee payer.
\<close>

text \<open>The first key of the transaction that is not the fee payer, or the first one.\<close>

definition charge_payer :: "versioned_transaction \<Rightarrow> pubkey option \<Rightarrow> pubkey option" where
  "charge_payer tx fee_payer =
     (case find (\<lambda>k. Some k \<noteq> fee_payer) (tx_account_keys tx) of
        Some k \<Rightarrow> Some k
      | None \<Rightarrow> (case tx_account_keys tx of [] \<Rightarrow> None | k # _ \<Rightarrow> Some k))"

text \<open>\<^verbatim>\<open>10u64.pow(n)\<close>\<close>

definition u64_pow10 :: "build \<Rightarrow> nat \<Rightarrow> (u64, 'e) result" where
  "u64_pow10 b n =
     (if 10 ^ n < (2 ^ 64 :: nat) then Ok (of_nat (10 ^ n))
      else case b of Debug_Build \<Rightarrow> Panic | Release_Build \<Rightarrow> Ok (of_nat (10 ^ n)))"

definition diagnose_token_balance ::
  "build \<Rightarrow> externs \<Rightarrow> rpc_client \<Rightarrow> charge_request \<Rightarrow> method_details \<Rightarrow> pubkey \<Rightarrow>
   (string list, verification_error) result" where
  "diagnose_token_balance b X R request md payer =
     (if to_uppercase (cr_currency request) = ''SOL'' then Ok []
      else case resolve_expected_mint X (cr_currency request) (md_network md) of
        Panic \<Rightarrow> Panic
      | Err _ \<Rightarrow> Ok []
      | Ok mint \<Rightarrow>
          rbind (expect_pubkey X TOKEN_PROGRAM) (\<lambda>token_program.
          rbind (expect_pubkey X ASSOCIATED_TOKEN_PROGRAM) (\<lambda>ata_program.
          let ata = fst (find_program_address X
                [pubkey_bytes payer, pubkey_bytes token_program, pubkey_bytes mint] ata_program)
          in
          rbind (u64_pow10 b (unat (case_option 6 id (md_decimals md)))) (\<lambda>divisor.
          let needed = f64_div (f64_of_u64 (case_option 0 id (parse_u64 (cr_amount request)))) (f64_of_u64 divisor)
          in case rpc_token_balance R ata of
               Panic \<Rightarrow> Panic
             | Ok ui_amount \<Rightarrow>
                 let actual = case_option (f64_of_u64 0) id ui_amount in
                 if f64_less actual needed then
                   Ok [''payer '' @ cr_currency request @ '' balance: '' @ f64_fixed 2 actual @
                       '' (need '' @ f64_fixed 2 needed @ '')'']
                 else Ok []
             | Err _ \<Rightarrow>
                 Ok [''payer '' @ cr_currency request @ '' token account not found (need '' @
                     f64_fixed 2 needed @ '')'']))))"

definition diagnose_sol_balance ::
  "rpc_client \<Rightarrow> pubkey \<Rightarrow> (string list, verification_error) result" where
  "diagnose_sol_balance R fee_payer =
     (case rpc_balance R fee_payer of
        Panic \<Rightarrow> Panic
      | Err _ \<Rightarrow> Ok []
      | Ok lamports \<Rightarrow>
          let sol = f64_div (f64_of_u64 lamports) (f64_of_u64 1000000000) in
          if f64_less sol (nearest_f64 False 1 100) then
            Ok [''fee payer SOL: '' @ f64_fixed 4 sol @ '' (low)'']
          else Ok [])"

definition diagnose_balances ::
  "build \<Rightarrow> externs \<Rightarrow> rpc_client \<Rightarrow> versioned_transaction \<Rightarrow> charge_request \<Rightarrow> method_details \<Rightarrow>
   (string, verification_error) result" where
  "diagnose_balances b X R tx request md =
     (let fee_payer = Option.bind (md_fee_payer_key md) (\<lambda>k. ok_value (pubkey_from_str X k)) in
      rbind (case charge_payer tx fee_payer of
               None \<Rightarrow> Ok []
             | Some payer \<Rightarrow> diagnose_token_balance b X R request md payer) (\<lambda>token.
      rbind (case fee_payer of None \<Rightarrow> Ok [] | Some fp \<Rightarrow> diagnose_sol_balance R fp) (\<lambda>sol.
      let parts = token @ sol in
      Ok (if parts = [] then [] else '' | '' @ join_with '', '' parts))))"

section \<open>When it fails\<close>

text \<open>The RPC client answers; its own panics are left out.\<close>

definition rpc_answers :: "rpc_client \<Rightarrow> bool" where
  "rpc_answers R \<longleftrightarrow> (\<forall>k. rpc_balance R k \<noteq> Panic) \<and> (\<forall>k. rpc_token_balance R k \<noteq> Panic)"

text \<open>
  \<^verbatim>\<open>10u64.pow\<close> overflows from 20 decimals on, and with overflow checks it panics: the diagnosis of a
  failed simulation never fails only for tokens of at most 19 decimals.
\<close>

lemma u64_pow10_Ok: "n \<le> 19 \<Longrightarrow> u64_pow10 b n = Ok (of_nat (10 ^ n))"
proof -
  assume "n \<le> 19"
  then have "(10 :: nat) ^ n \<le> 10 ^ 19" by (rule power_increasing) simp
  also have "\<dots> < 2 ^ 64" by simp
  finally show ?thesis by (simp add: u64_pow10_def)
qed

lemma u64_pow10_Panic: "20 \<le> n \<Longrightarrow> u64_pow10 Debug_Build n = Panic"
proof -
  assume "20 \<le> n"
  then have "(10 :: nat) ^ 20 \<le> 10 ^ n" by (intro power_increasing) simp_all
  moreover have "(2 :: nat) ^ 64 < 10 ^ 20" by simp
  ultimately have "\<not> (10 :: nat) ^ n < 2 ^ 64" by linarith
  then show ?thesis by (simp add: u64_pow10_def)
qed

lemma diagnose_balances_answers:
  assumes "rpc_answers R" and "\<And>s. pubkey_from_str X s \<noteq> Panic"
    and "is_ok (pubkey_from_str X TOKEN_PROGRAM)" and "is_ok (pubkey_from_str X ASSOCIATED_TOKEN_PROGRAM)"
    and "case_option True (\<lambda>d. unat d \<le> 19) (md_decimals md)"
  shows "\<exists>detail. diagnose_balances b X R tx request md = Ok detail"
proof -
  have pow: "(u64_pow10 b (unat (case_option 6 id (md_decimals md))) :: (u64, verification_error) result) =
      Ok (of_nat (10 ^ unat (case_option 6 id (md_decimals md))))"
    using assms(5) by (intro u64_pow10_Ok) (simp split: option.splits)
  have mint: "resolve_expected_mint X (cr_currency request) (md_network md) \<noteq> Panic"
    using assms(2) by (simp add: resolve_expected_mint_def split: option.splits)
  obtain p q where programs: "pubkey_from_str X TOKEN_PROGRAM = Ok p" "pubkey_from_str X ASSOCIATED_TOKEN_PROGRAM = Ok q"
    using assms(3,4) by (auto simp: is_ok_iff)
  have "is_ok (diagnose_token_balance b X R request md payer)" for payer
  proof (cases "resolve_expected_mint X (cr_currency request) (md_network md)")
    case (Ok mint)
    then show ?thesis
      using assms(1)
      by (cases "rpc_token_balance R (fst (find_program_address X [pubkey_bytes payer, pubkey_bytes p, pubkey_bytes mint] q))")
        (auto simp: diagnose_token_balance_def rpc_answers_def Let_def pow expect_pubkey_def programs)
  qed (use mint in \<open>simp_all add: diagnose_token_balance_def\<close>)
  moreover have "is_ok (diagnose_sol_balance R fp)" for fp
    using assms(1) by (cases "rpc_balance R fp") (simp_all add: diagnose_sol_balance_def rpc_answers_def Let_def)
  ultimately have token: "is_ok (case payer of None \<Rightarrow> Ok [] | Some k \<Rightarrow> diagnose_token_balance b X R request md k)"
    and sol: "is_ok (case fp of None \<Rightarrow> Ok [] | Some k \<Rightarrow> diagnose_sol_balance R k)" for payer fp
    by (simp_all split: option.splits)
  let ?fp = "Option.bind (md_fee_payer_key md) (\<lambda>k. ok_value (pubkey_from_str X k))"
  from token [of "charge_payer tx ?fp"] sol [of ?fp] show ?thesis
    unfolding diagnose_balances_def Let_def by (auto simp only: is_ok_iff rbind.simps)
qed

text \<open>
  With 20 decimals and overflow checks, a failed simulation of a payment in a well-known token panics
  instead of answering.
\<close>

lemma diagnose_balances_panics:
  assumes "to_uppercase (cr_currency request) \<noteq> ''SOL''"
    and "resolve_expected_mint X (cr_currency request) (md_network md) = Ok mint"
    and "is_ok (pubkey_from_str X TOKEN_PROGRAM)" and "is_ok (pubkey_from_str X ASSOCIATED_TOKEN_PROGRAM)"
    and "md_decimals md = Some d" and "20 \<le> unat d" and "tx_account_keys tx \<noteq> []"
  shows "diagnose_balances Debug_Build X R tx request md = Panic"
proof -
  have pow: "(u64_pow10 Debug_Build (unat (case_option 6 id (md_decimals md))) :: (u64, verification_error) result) = Panic"
    using assms(5,6) by (simp add: u64_pow10_Panic)
  have "charge_payer tx fp \<noteq> None" for fp
    using assms(7) by (cases "tx_account_keys tx") (auto simp: charge_payer_def split: option.splits)
  then obtain payer where
    "charge_payer tx (Option.bind (md_fee_payer_key md) (\<lambda>k. ok_value (pubkey_from_str X k))) = Some payer" by fast
  moreover have "diagnose_token_balance Debug_Build X R request md payer = Panic"
    using assms(1-4) by (auto simp: diagnose_token_balance_def expect_pubkey_def is_ok_iff pow)
  ultimately show ?thesis by (simp add: diagnose_balances_def)
qed

end
