(* ===== verification/Charge_Settlement.thy ===== *)
theory Charge_Settlement
  imports Charge_Balances
begin

text \<open>
  Settlement and verification of credentials by the \<^verbatim>\<open>Mpp\<close> handler.  Settling returns the list of
  effects it had on the outside world beside its result.
\<close>

section \<open>Pull mode\<close>

text \<open>\<^verbatim>\<open>iter().position(..)\<close>.\<close>

fun position :: "'a \<Rightarrow> 'a list \<Rightarrow> nat option" where
  "position x [] = None"
| "position x (y # ys) = (if y = x then Some 0 else map_option Suc (position x ys))"

definition decode_transaction ::
  "tx_codecs \<Rightarrow> string \<Rightarrow> (versioned_transaction, verification_error) result" where
  "decode_transaction T transaction_b64 =
     rbind (map_err (\<lambda>e. invalid_payload (''Invalid base64 transaction: '' @ e))
              (base64_standard_decode T transaction_b64)) (\<lambda>tx_bytes.
     map_err (\<lambda>e. invalid_payload (''Invalid transaction: '' @ e))
       (case bincode_legacy T tx_bytes of
          Err _ \<Rightarrow> bincode_versioned T tx_bytes
        | r \<Rightarrow> r))"

definition cosign ::
  "tx_codecs \<Rightarrow> mpp \<Rightarrow> method_details \<Rightarrow> versioned_transaction \<Rightarrow>
   effect list \<times> (versioned_transaction, verification_error) result" where
  "cosign T m md tx =
     (if md_fee_payer md \<noteq> Some True then ([], Ok tx)
      else case mpp_fee_payer_signer m of
        None \<Rightarrow> ([], Err (verification_error_new ''Fee payer enabled but no signer configured''))
      | Some signer \<Rightarrow>
          let msg_data = message_serialize T tx in
          ([Signed msg_data],
           rbind (map_err (\<lambda>e. verification_error_new (''Fee payer signing failed: '' @ e))
                    (sg_sign signer msg_data)) (\<lambda>sig.
           rbind (ok_or (position (sg_pubkey signer) (tx_account_keys tx))
                    (invalid_payload ''Fee payer not found in transaction accounts'')) (\<lambda>idx.
           if length (tx_signatures tx) \<le> idx \<or> length (tx_account_keys tx) \<le> idx \<or>
               tx_account_keys tx ! idx \<noteq> sg_pubkey signer then
             Err (invalid_payload ''Fee payer is not a required signer in the transaction'')
           else Ok (tx\<lparr>tx_signatures := (tx_signatures tx)[idx := sig]\<rparr>)))))"

text \<open>The message of a failed simulation; the balances are asked for only when it is returned.\<close>

definition simulation_message ::
  "build \<Rightarrow> externs \<Rightarrow> rpc_client \<Rightarrow> versioned_transaction \<Rightarrow> charge_request \<Rightarrow> method_details \<Rightarrow> string \<Rightarrow>
   string list option \<Rightarrow> (string, verification_error) result" where
  "simulation_message b X R tx request md err logs_opt =
     (let logs = filter (\<lambda>l. contains_str l ''Error'' \<or> contains_str l ''error'' \<or> contains_str l ''failed'')
                   (case_option [] id logs_opt);
          log_detail = (if logs = [] then [] else '' '' @ em_dash @ '' '' @ join_with ''; '' logs)
      in rbind (diagnose_balances b X R tx request md) (\<lambda>balance_detail.
           Ok (''Simulation failed: '' @ err @ log_detail @ balance_detail)))"

text \<open>The simulation loop: \<open>left\<close> attempts remain, the next one has number \<open>attempt\<close>.\<close>

fun simulate_loop ::
  "build \<Rightarrow> externs \<Rightarrow> rpc_client \<Rightarrow> versioned_transaction \<Rightarrow> charge_request \<Rightarrow> method_details \<Rightarrow> nat \<Rightarrow> nat \<Rightarrow>
   effect list \<times> (unit, verification_error) result" where
  "simulate_loop b X R tx request md attempt 0 =
     ([], Err (network_error ''Simulation did not complete''))"
| "simulate_loop b X R tx request md attempt (Suc left) =
     (let retry = (let (es, r) = simulate_loop b X R tx request md (Suc attempt) left
                   in (Simulated tx # es, r));
          retrying = attempt < SIMULATION_MAX_ATTEMPTS
      in case rpc_simulate R attempt tx of
           Panic \<Rightarrow> ([Simulated tx], Panic)
         | Err err \<Rightarrow>
             if retrying then retry
             else ([Simulated tx], Err (network_error (''Simulation RPC error: '' @ err)))
         | Ok (Some (err, logs)) \<Rightarrow>
             if retrying then retry
             else ([Simulated tx],
                   rbind (simulation_message b X R tx request md err logs) (\<lambda>message.
                     Err (transaction_failed message)))
         | Ok None \<Rightarrow> ([Simulated tx], Ok ()))"

definition CONFIRM_ATTEMPTS :: nat where
  "CONFIRM_ATTEMPTS = 30"

text \<open>The confirmation loop, from poll number \<open>n\<close> with \<open>left\<close> polls remaining.\<close>

fun confirm_loop ::
  "rpc_client \<Rightarrow> string \<Rightarrow> nat \<Rightarrow> nat \<Rightarrow> effect list \<times> (string, verification_error) result" where
  "confirm_loop R signature n 0 =
     ([], Err (network_error ''Transaction not confirmed within timeout''))"
| "confirm_loop R signature n (Suc left) =
     (case rpc_confirm R n signature of
        Ok True \<Rightarrow> ([Confirming signature], Ok signature)
      | _ \<Rightarrow> let (es, r) = confirm_loop R signature (Suc n) left in (Confirming signature # es, r))"

text \<open>Sequencing with effects.\<close>

fun effect_bind ::
  "effect list \<times> ('a, 'e) result \<Rightarrow> ('a \<Rightarrow> effect list \<times> ('b, 'e) result) \<Rightarrow>
   effect list \<times> ('b, 'e) result" where
  "effect_bind (es, Ok x) f = (let (es', r) = f x in (es @ es', r))"
| "effect_bind (es, Err e) f = (es, Err e)"
| "effect_bind (es, Panic) f = (es, Panic)"

definition verify_pull ::
  "build \<Rightarrow> externs \<Rightarrow> tx_codecs \<Rightarrow> rpc_client \<Rightarrow> mpp \<Rightarrow> string \<Rightarrow> charge_request \<Rightarrow> method_details \<Rightarrow>
   effect list \<times> (string, verification_error) result" where
  "verify_pull b X T R m transaction_b64 request md =
     effect_bind ([], decode_transaction T transaction_b64) (\<lambda>tx.
     effect_bind ([], check_network_blockhash (mpp_network m) (bs58_encode X (tx_recent_blockhash tx))) (\<lambda>_.
     effect_bind ([], verify_versioned_transaction_pre_broadcast b X tx request md) (\<lambda>_.
     effect_bind (cosign T m md tx) (\<lambda>tx.
     effect_bind (simulate_loop b X R tx request md 1 SIMULATION_MAX_ATTEMPTS) (\<lambda>_.
     effect_bind ([Sent tx], map_err (\<lambda>e. network_error (''Broadcast failed: '' @ e)) (rpc_send R tx))
       (\<lambda>signature.
       confirm_loop R signature 0 CONFIRM_ATTEMPTS))))))"

section \<open>Push mode\<close>

definition verify_on_chain ::
  "build \<Rightarrow> externs \<Rightarrow> tx_codecs \<Rightarrow> rpc_client \<Rightarrow> string \<Rightarrow> charge_request \<Rightarrow> method_details \<Rightarrow>
   (unit, verification_error) result" where
  "verify_on_chain b X T R signature_str request md =
     rbind (map_err (\<lambda>e. invalid_payload (''Invalid signature: '' @ e)) (signature_from_str T signature_str))
       (\<lambda>_.
     rbind (map_err (\<lambda>e. if contains_str e ''not found''
                         then not_found ''Transaction not found or not yet confirmed''
                         else network_error (''RPC error: '' @ e))
              (rpc_get_transaction R signature_str)) (\<lambda>tx.
     case Option.bind (ct_meta tx) sm_err of
       Some err \<Rightarrow> Err (transaction_failed (''Transaction failed: Some('' @ err @ '')''))
     | None \<Rightarrow>
     let splits = case_option [] id (md_splits md) in
     rbind (primary_amount_of b request splits) (\<lambda>primary_amount.
     rbind (ok_or (cr_recipient request) (invalid_recipient ''No recipient in charge request''))
       (\<lambda>recipient.
     rbind (extract_parsed_instructions tx) (\<lambda>instructions.
     let expected_ata_payer = (if md_fee_payer md = Some True then md_fee_payer_key md else None) in
     rbind (case expected_ata_payer of
              None \<Rightarrow> Ok None
            | Some key \<Rightarrow>
                rbind (map_err (\<lambda>e. invalid_payload (''Invalid fee payer: '' @ e)) (pubkey_from_str X key))
                  (\<lambda>p. Ok (Some p))) (\<lambda>fee_payer_pubkey.
     rbind (map_err (\<lambda>e. invalid_recipient (''Invalid recipient: '' @ e)) (pubkey_from_str X recipient)) (\<lambda>_.
     rbind (expected_ata_creation_policy X splits fee_payer_pubkey) (\<lambda>policy.
     let allowed = map (pubkey_string X) (ap_allowed_owners policy);
         required = map (pubkey_string X) (ap_required_owners policy)
     in
     if is_native_sol request then
       if \<exists>s \<in> set splits. sp_ata_creation_required s = Some True then
         Err (invalid_payload ''ataCreationRequired requires an SPL token charge'')
       else
         rbind (verify_sol_transfers instructions recipient primary_amount splits) (\<lambda>matched.
         rbind (verify_parsed_memo_instructions instructions (cr_external_id request) splits matched)
           (\<lambda>matched.
           validate_parsed_instruction_allowlist X instructions matched None allowed None
             expected_ata_payer required))
     else
       rbind (resolve_expected_mint X (cr_currency request) (md_network md)) (\<lambda>expected_mint.
       if required \<noteq> [] \<and> cr_currency request \<noteq> pubkey_string X expected_mint then
         Err (invalid_payload ''ataCreationRequired requires currency to be an SPL token mint address'')
       else
         let token_program = (case md_token_program md of
               Some p \<Rightarrow> p
             | None \<Rightarrow> default_token_program_for_currency (cr_currency request) (md_network md))
         in
         rbind (verify_spl_transfers X instructions recipient (pubkey_string X expected_mint)
                  primary_amount splits (Some token_program)) (\<lambda>matched.
         rbind (verify_parsed_memo_instructions instructions (cr_external_id request) splits matched)
           (\<lambda>matched.
           validate_parsed_instruction_allowlist X instructions matched
             (Some (pubkey_string X expected_mint)) allowed (Some token_program) expected_ata_payer
             required)))))))))))"

definition verify_push ::
  "build \<Rightarrow> externs \<Rightarrow> tx_codecs \<Rightarrow> rpc_client \<Rightarrow> string \<Rightarrow> charge_request \<Rightarrow> method_details \<Rightarrow>
   (string, verification_error) result" where
  "verify_push b X T R signature_str request md =
     rbind (verify_on_chain b X T R signature_str request md) (\<lambda>_. Ok signature_str)"

section \<open>Credentials\<close>

definition verify_pinned_fields ::
  "mpp \<Rightarrow> payment_credential \<Rightarrow> charge_request \<Rightarrow> (unit, verification_error) result" where
  "verify_pinned_fields m credential request =
     (let challenge = cred_challenge credential;
          quote = (\<lambda>s. [CHR 39] @ s @ [CHR 39]) in
      if method_str (ce_method challenge) \<noteq> METHOD_NAME then
        Err (credential_mismatch (''Credential method '' @ quote (method_str (ce_method challenge)) @
               '' does not match this server (expected '' @ quote METHOD_NAME @ '')''))
      else if \<not> is_charge (ce_intent challenge) then
        Err (credential_mismatch (''Credential intent '' @ quote (intent_str (ce_intent challenge)) @
               '' is not a charge''))
      else if ce_realm challenge \<noteq> mpp_realm m then
        Err (credential_mismatch (''Credential realm '' @ quote (ce_realm challenge) @
               '' does not match this server (expected '' @ quote (mpp_realm m) @ '')''))
      else if cr_currency request \<noteq> mpp_currency m then
        Err (credential_mismatch (''Credential currency '' @ quote (cr_currency request) @
               '' does not match this server (expected '' @ quote (mpp_currency m) @ '')''))
      else if cr_recipient request \<noteq> Some (mpp_recipient m) then
        Err (credential_mismatch ''Credential recipient does not match this server'')
      else Ok ())"

definition check_challenge ::
  "codecs \<Rightarrow> mpp \<Rightarrow> challenge_echo \<Rightarrow> (unit, verification_error) result" where
  "check_challenge K m challenge =
     (if ce_id challenge \<noteq>
         compute_challenge_id K (mpp_secret_key m) (mpp_realm m) (method_str (ce_method challenge))
           (intent_str (ce_intent challenge)) (raw (ce_request challenge)) (ce_expires challenge)
           (ce_digest challenge) (map_option raw (ce_opaque challenge)) then
        Err (credential_mismatch
          (''Challenge ID mismatch '' @ em_dash @ '' not issued by this server''))
      else
        case ce_expires challenge of
          None \<Rightarrow> Ok ()
        | Some expires \<Rightarrow>
            (case parse_rfc3339 K expires of
               Ok expires_at \<Rightarrow>
                 if expires_at \<le> now_utc K then Err (expired (''Challenge expired at '' @ expires))
                 else Ok ()
             | _ \<Rightarrow> Err (verification_error_new ''Invalid expires timestamp in challenge'')))"

definition settle ::
  "build \<Rightarrow> externs \<Rightarrow> tx_codecs \<Rightarrow> rpc_client \<Rightarrow> mpp \<Rightarrow> credential_payload \<Rightarrow> charge_request \<Rightarrow>
   method_details \<Rightarrow> effect list \<times> (string, verification_error) result" where
  "settle b X T R m payload request md =
     (case payload of
        Transaction transaction \<Rightarrow> verify_pull b X T R m transaction request md
      | Signature signature \<Rightarrow> ([], verify_push b X T R signature request md))"

definition request_details :: "charge_request \<Rightarrow> (method_details, verification_error) result" where
  "request_details request =
     (case cr_method_details request of
        None \<Rightarrow> Ok method_details_default
      | Some v \<Rightarrow>
          map_err (\<lambda>e. invalid_payload (''Invalid method details: '' @ e)) (method_details_of_json v))"

text \<open>Everything up to the replay check, and the replay check with the receipt.\<close>

definition verify_and_settle ::
  "build \<Rightarrow> externs \<Rightarrow> codecs \<Rightarrow> tx_codecs \<Rightarrow> rpc_client \<Rightarrow> mpp \<Rightarrow> payment_credential \<Rightarrow>
   charge_request \<Rightarrow> effect list \<times> (string, verification_error) result" where
  "verify_and_settle b X K T R m credential request =
     effect_bind ([], check_challenge K m (cred_challenge credential)) (\<lambda>_.
     effect_bind ([], verify_pinned_fields m credential request) (\<lambda>_.
     effect_bind ([], map_err (\<lambda>e. invalid_payload (''Invalid credential payload: '' @ e))
                        (credential_payload_of_json (cred_payload credential))) (\<lambda>payload.
     effect_bind ([], request_details request) (\<lambda>md.
       settle b X T R m payload request md))))"

definition consumed_key :: "string \<Rightarrow> string" where
  "consumed_key signature = ''solana-charge:consumed:'' @ signature"

definition consume ::
  "codecs \<Rightarrow> ('s, json) store \<Rightarrow> 's \<Rightarrow> payment_credential \<Rightarrow> string \<Rightarrow>
   's \<times> (receipt, verification_error) result" where
  "consume K ops s credential signature =
     (case store_put_if_absent ops s (consumed_key signature) (JBool True) of
        (s', Err e) \<Rightarrow> (s', Err (verification_error_new (''Store error: '' @ store_error_display e)))
      | (s', Panic) \<Rightarrow> (s', Panic)
      | (s', Ok False) \<Rightarrow> (s', Err (signature_consumed ''Transaction signature already consumed''))
      | (s', Ok True) \<Rightarrow>
          (s', Ok (receipt_success K (method_name_new METHOD_NAME) signature
                     (ce_id (cred_challenge credential)))))"

definition verify ::
  "build \<Rightarrow> externs \<Rightarrow> codecs \<Rightarrow> tx_codecs \<Rightarrow> rpc_client \<Rightarrow> ('s, json) store \<Rightarrow> mpp \<Rightarrow> 's \<Rightarrow>
   payment_credential \<Rightarrow> charge_request \<Rightarrow> 's \<times> effect list \<times> (receipt, verification_error) result" where
  "verify b X K T R ops m s credential request =
     (case verify_and_settle b X K T R m credential request of
        (es, Ok signature) \<Rightarrow> (let (s', r) = consume K ops s credential signature in (s', es, r))
      | (es, Err e) \<Rightarrow> (s, es, Err e)
      | (es, Panic) \<Rightarrow> (s, es, Panic))"

definition credential_request ::
  "codecs \<Rightarrow> payment_credential \<Rightarrow> (charge_request, verification_error) result" where
  "credential_request K credential =
     map_err (\<lambda>e. verification_error_new (''Failed to decode request: '' @ error_display e))
       (decode_request K (ce_request (cred_challenge credential)))"

definition verify_credential ::
  "build \<Rightarrow> externs \<Rightarrow> codecs \<Rightarrow> tx_codecs \<Rightarrow> rpc_client \<Rightarrow> ('s, json) store \<Rightarrow> mpp \<Rightarrow> 's \<Rightarrow>
   payment_credential \<Rightarrow> 's \<times> effect list \<times> (receipt, verification_error) result" where
  "verify_credential b X K T R ops m s credential =
     (case credential_request K credential of
        Ok request \<Rightarrow> verify b X K T R ops m s credential request
      | Err e \<Rightarrow> (s, [], Err e)
      | Panic \<Rightarrow> (s, [], Panic))"

definition check_expected ::
  "charge_request \<Rightarrow> charge_request \<Rightarrow> (unit, verification_error) result" where
  "check_expected request expected =
     (if cr_amount request \<noteq> cr_amount expected then
        Err (credential_mismatch (''Amount mismatch: credential has '' @ cr_amount request @
               '' but endpoint expects '' @ cr_amount expected))
      else if cr_currency request \<noteq> cr_currency expected then
        Err (credential_mismatch (''Currency mismatch: credential has '' @ cr_currency request @
               '' but endpoint expects '' @ cr_currency expected))
      else if cr_recipient request \<noteq> cr_recipient expected then
        Err (credential_mismatch ''Recipient mismatch'')
      else Ok ())"

definition verify_credential_with_expected ::
  "build \<Rightarrow> externs \<Rightarrow> codecs \<Rightarrow> tx_codecs \<Rightarrow> rpc_client \<Rightarrow> ('s, json) store \<Rightarrow> mpp \<Rightarrow> 's \<Rightarrow>
   payment_credential \<Rightarrow> charge_request \<Rightarrow> 's \<times> effect list \<times> (receipt, verification_error) result" where
  "verify_credential_with_expected b X K T R ops m s credential expected =
     (case rbind (credential_request K credential) (\<lambda>request. check_expected request expected) of
        Ok _ \<Rightarrow> verify b X K T R ops m s credential expected
      | Err e \<Rightarrow> (s, [], Err e)
      | Panic \<Rightarrow> (s, [], Panic))"

end
