(* ===== verification/Charge_Soundness.thy ===== *)
theory Charge_Soundness
  imports Charge_Transaction "HOL-Library.Multiset"
begin

text \<open>
  What the pre-broadcast verification establishes about a transaction it lets through.  The search
  for one payment is an interface with two providers, the SOL and the token search; the loops
  over the splits, the memos and the allowlist are reasoned about once, over that interface.
\<close>

section \<open>Search loops\<close>

lemma scan_from_Some:
  "scan_from test i xs = Ok (Some j) \<Longrightarrow>
     i \<le> j \<and> j < i + length xs \<and> test j (xs ! (j - i)) = Ok True"
proof (induction xs arbitrary: i)
  case (Cons x xs)
  then obtain found where found: "test i x = Ok found" by auto
  show ?case
  proof (cases found)
    case True
    with Cons.prems found show ?thesis by simp
  next
    case False
    with Cons.prems found have "scan_from test (Suc i) xs = Ok (Some j)" by simp
    from Cons.IH [OF this] have "Suc i \<le> j \<and> j < Suc i + length xs \<and> test j (xs ! (j - Suc i)) = Ok True" .
    then obtain k where "j = Suc (i + k)" "k < length xs" "test j (xs ! k) = Ok True"
      by (auto simp: le_iff_add)
    then show ?thesis by simp
  qed
qed simp

text \<open>Goals assigned, in order, to distinct positions of a list that were not taken before.\<close>

definition assigned ::
  "('g \<Rightarrow> 'a \<Rightarrow> bool) \<Rightarrow> 'a list \<Rightarrow> 'g list \<Rightarrow> nat list \<Rightarrow> nat set \<Rightarrow> nat set \<Rightarrow> bool" where
  "assigned P xs gs js M M' \<longleftrightarrow>
     list_all2 (\<lambda>g j. j < length xs \<and> P g (xs ! j)) gs js \<and> distinct js \<and> set js \<inter> M = {} \<and>
     M' = M \<union> set js"

lemma assigned_Nil [simp]: "assigned P xs [] js M M' \<longleftrightarrow> js = [] \<and> M' = M"
  by (auto simp: assigned_def)

lemma assigned_Cons:
  assumes "j < length xs" and "P g (xs ! j)" and "j \<notin> M"
    and "assigned P xs gs js (insert j M) M'"
  shows "assigned P xs (g # gs) (j # js) M M'"
  using assms by (auto simp: assigned_def)

lemma assigned_length: "assigned P xs gs js M M' \<Longrightarrow> length js = length gs"
  by (auto simp: assigned_def dest: list_all2_lengthD)

lemma assigned_position:
  "assigned P xs gs js M M' \<Longrightarrow> i \<in> set js \<Longrightarrow> i < length xs \<and> (\<exists>g \<in> set gs. P g (xs ! i))"
proof -
  assume a: "assigned P xs gs js M M'" and "i \<in> set js"
  then obtain k where k: "k < length js" "i = js ! k" by (auto simp: in_set_conv_nth)
  with a have "k < length gs" "i < length xs \<and> P (gs ! k) (xs ! i)"
    by (auto simp: assigned_def list_all2_conv_all_nth)
  then show ?thesis using nth_mem by blast
qed

text \<open>
  If the taken positions are exactly those where a property holds, the elements with the property
  are the assigned ones.
\<close>

lemma mset_filter_positions:
  "distinct js \<Longrightarrow> set js = {i. i < length xs \<and> Q (xs ! i)} \<Longrightarrow>
   mset (filter Q xs) = mset (map (nth xs) js)"
proof -
  assume js: "distinct js" "set js = {i. i < length xs \<and> Q (xs ! i)}"
  have "filter Q xs = map (nth xs) (filter (\<lambda>i. Q (xs ! i)) [0..<length xs])"
    by (metis (no_types, lifting) comp_apply filter_cong filter_map map_nth)
  moreover have "mset (filter (\<lambda>i. Q (xs ! i)) [0..<length xs]) = mset js"
    using js by (intro set_eq_iff_mset_eq_distinct [THEN iffD1]) auto
  ultimately show ?thesis by (simp add: mset_map)
qed

lemma assigned_filter:
  assumes "assigned P xs gs js M M'" and "\<And>i. i < length xs \<Longrightarrow> Q (xs ! i) \<longleftrightarrow> i \<in> set js"
    and "\<And>g x. P g x \<Longrightarrow> f x = h g"
  shows "mset (map f (filter Q xs)) = mset (map h gs)"
proof -
  have all: "list_all2 (\<lambda>g j. j < length xs \<and> P g (xs ! j)) gs js" and d: "distinct js"
    using assms(1) by (auto simp: assigned_def)
  then have "set js = {i. i < length xs \<and> Q (xs ! i)}"
    using assms(2) by (auto simp: list_all2_conv_all_nth set_conv_nth)
  with d have "mset (filter Q xs) = mset (map (nth xs) js)" by (rule mset_filter_positions)
  then have "mset (map f (filter Q xs)) = mset (map (\<lambda>j. f (xs ! j)) js)"
    by (simp add: mset_map comp_def multiset.map_comp)
  also have "map (\<lambda>j. f (xs ! j)) js = map h gs"
    using all by (induction rule: list_all2_induct) (auto dest: assms(3))
  finally show ?thesis by simp
qed

section \<open>Program ids\<close>

definition PROGRAM_IDS :: "string list" where
  "PROGRAM_IDS =
     [COMPUTE_BUDGET_PROGRAM, MEMO_PROGRAM, SYSTEM_PROGRAM, TOKEN_PROGRAM, TOKEN_2022_PROGRAM,
      ASSOCIATED_TOKEN_PROGRAM]"

text \<open>
  The addresses the server compares program ids with are distinct public keys, and a key prints as
  the text it was parsed from.
\<close>

definition programs_distinct :: "externs \<Rightarrow> bool" where
  "programs_distinct X =
     distinct (map (pubkey_from_str X) PROGRAM_IDS)"

definition runs :: "externs \<Rightarrow> pubkey list \<Rightarrow> string \<Rightarrow> compiled_instruction \<Rightarrow> bool" where
  "runs X keys program ix =
     (\<exists>p. pubkey_from_str X program = Ok p \<and> key_at keys (ci_program_id_index ix) [] = Ok p)"

lemma key_at_Ok [simp]:
  "key_at keys i msg = Ok k \<longleftrightarrow> unat i < length keys \<and> k = keys ! unat i"
  by (auto simp: key_at_def)

lemma expect_pubkey_Ok [simp]: "expect_pubkey X s = Ok p \<longleftrightarrow> pubkey_from_str X s = Ok p"
  by (auto simp: expect_pubkey_def split: result.splits)

lemma PROGRAM_IDS_distinct: "distinct PROGRAM_IDS"
  by code_simp

lemma PROGRAM_IDS_neq [simp]:
  "COMPUTE_BUDGET_PROGRAM \<noteq> MEMO_PROGRAM" "COMPUTE_BUDGET_PROGRAM \<noteq> SYSTEM_PROGRAM"
  "COMPUTE_BUDGET_PROGRAM \<noteq> TOKEN_PROGRAM" "COMPUTE_BUDGET_PROGRAM \<noteq> TOKEN_2022_PROGRAM"
  "COMPUTE_BUDGET_PROGRAM \<noteq> ASSOCIATED_TOKEN_PROGRAM"
  "MEMO_PROGRAM \<noteq> SYSTEM_PROGRAM" "MEMO_PROGRAM \<noteq> TOKEN_PROGRAM"
  "MEMO_PROGRAM \<noteq> TOKEN_2022_PROGRAM" "MEMO_PROGRAM \<noteq> ASSOCIATED_TOKEN_PROGRAM"
  "SYSTEM_PROGRAM \<noteq> TOKEN_PROGRAM" "SYSTEM_PROGRAM \<noteq> TOKEN_2022_PROGRAM"
  "SYSTEM_PROGRAM \<noteq> ASSOCIATED_TOKEN_PROGRAM"
  "TOKEN_PROGRAM \<noteq> TOKEN_2022_PROGRAM" "TOKEN_PROGRAM \<noteq> ASSOCIATED_TOKEN_PROGRAM"
  "TOKEN_2022_PROGRAM \<noteq> ASSOCIATED_TOKEN_PROGRAM"
  using PROGRAM_IDS_distinct by (auto simp: PROGRAM_IDS_def)

lemmas PROGRAM_IDS_neq_sym [simp] = PROGRAM_IDS_neq [symmetric]

lemma runs_unique:
  assumes "programs_distinct X" and "runs X keys a ix" and "runs X keys c ix"
    and "a \<in> set PROGRAM_IDS" and "c \<in> set PROGRAM_IDS"
  shows "a = c"
proof -
  have "pubkey_from_str X a = pubkey_from_str X c" using assms(2,3) by (auto simp: runs_def)
  with assms(1,4,5) show ?thesis by (auto simp: programs_distinct_def distinct_map dest: inj_onD)
qed

lemma runs_exclusive:
  assumes "programs_distinct X"
  shows "runs X keys MEMO_PROGRAM ix \<Longrightarrow> \<not> runs X keys SYSTEM_PROGRAM ix \<and>
      \<not> runs X keys TOKEN_PROGRAM ix \<and> \<not> runs X keys TOKEN_2022_PROGRAM ix"
    and "runs X keys COMPUTE_BUDGET_PROGRAM ix \<Longrightarrow> \<not> runs X keys SYSTEM_PROGRAM ix \<and>
      \<not> runs X keys TOKEN_PROGRAM ix \<and> \<not> runs X keys TOKEN_2022_PROGRAM ix \<and> \<not> runs X keys MEMO_PROGRAM ix"
    and "runs X keys ASSOCIATED_TOKEN_PROGRAM ix \<Longrightarrow> \<not> runs X keys SYSTEM_PROGRAM ix \<and>
      \<not> runs X keys TOKEN_PROGRAM ix \<and> \<not> runs X keys TOKEN_2022_PROGRAM ix \<and> \<not> runs X keys MEMO_PROGRAM ix"
    and "runs X keys SYSTEM_PROGRAM ix \<Longrightarrow>
      \<not> runs X keys TOKEN_PROGRAM ix \<and> \<not> runs X keys TOKEN_2022_PROGRAM ix"
  using runs_unique [OF assms, of keys _ ix] PROGRAM_IDS_neq
  by (metis PROGRAM_IDS_def list.set_intros)+

section \<open>The memos\<close>

definition is_memo :: "externs \<Rightarrow> pubkey list \<Rightarrow> string \<times> string \<Rightarrow> compiled_instruction \<Rightarrow> bool" where
  "is_memo X keys lm ix = (runs X keys MEMO_PROGRAM ix \<and> ci_data ix = string_bytes (snd lm))"

lemma verify_memos_assigned:
  assumes "pubkey_from_str X MEMO_PROGRAM = Ok memo_program"
    and "verify_memos memo_program tx memos M = Ok M'"
  shows "\<exists>js. assigned (is_memo X (tx_account_keys tx)) (tx_instructions tx) memos js M M'"
  using assms(2)
proof (induction memos arbitrary: M)
  case (Cons lm memos)
  obtain label memo where lm: "lm = (label, memo)" by fastforce
  from Cons.prems obtain j where
    j: "scan_from (memo_test memo_program (tx_account_keys tx) (string_bytes memo) M) 0
          (tx_instructions tx) = Ok (Some j)"
    and rest: "verify_memos memo_program tx memos (insert j M) = Ok M'"
    by (auto simp: lm split: if_splits option.splits)
  from Cons.IH [OF rest] obtain js where
    "assigned (is_memo X (tx_account_keys tx)) (tx_instructions tx) memos js (insert j M) M'" by blast
  moreover have "j < length (tx_instructions tx) \<and> j \<notin> M \<and>
      is_memo X (tx_account_keys tx) lm (tx_instructions tx ! j)"
    using scan_from_Some [OF j] assms(1)
    by (auto simp: memo_test_def lm is_memo_def runs_def split: if_splits)
  ultimately show ?case by (blast intro: assigned_Cons)
qed auto

section \<open>The allowlist\<close>

text \<open>What an instruction may be that is not a payment or a memo.\<close>

definition budget_instruction :: "compiled_instruction \<Rightarrow> bool" where
  "budget_instruction ix =
     (ci_accounts ix = [] \<and>
      (\<exists>rest. ci_data ix = 2 # rest \<and> length rest = 4 \<and> u32_from_le rest \<le> MAX_COMPUTE_UNIT_LIMIT \<or>
              ci_data ix = 3 # rest \<and> length rest = 8 \<and>
                u64_from_le rest \<le> MAX_COMPUTE_UNIT_PRICE_MICROLAMPORTS))"

lemma validate_compute_budget_iff:
  "validate_compute_budget_instruction ix = Ok () \<longleftrightarrow> budget_instruction ix"
  by (auto simp: validate_compute_budget_instruction_def budget_instruction_def Let_def not_less
      split: list.splits if_splits)

definition creates_ata ::
  "externs \<Rightarrow> pubkey list \<Rightarrow> pubkey \<Rightarrow> pubkey \<Rightarrow> pubkey \<Rightarrow> compiled_instruction \<Rightarrow> bool" where
  "creates_ata X keys payer owner mint ix =
     (\<exists>a0 a1 a2 a3 a4 a5 ata_program.
        ci_data ix = [1] \<and> ci_accounts ix = [a0, a1, a2, a3, a4, a5] \<and>
        list_all (\<lambda>i. unat i < length keys) (ci_accounts ix) \<and>
        keys ! unat a0 = payer \<and> keys ! unat a2 = owner \<and> keys ! unat a3 = mint \<and>
        pubkey_from_str X ASSOCIATED_TOKEN_PROGRAM = Ok ata_program \<and>
        keys ! unat a1 =
          fst (find_program_address X
            [pubkey_bytes owner, pubkey_bytes (keys ! unat a5), pubkey_bytes mint] ata_program))"

lemma six_accounts: "length xs = 6 \<Longrightarrow> \<exists>a0 a1 a2 a3 a4 a5. xs = [a0, a1, a2, a3, a4, a5]"
  by (auto simp: length_Suc_conv numeral_eq_Suc)

lemma validate_create_ata_sound:
  assumes ok: "validate_create_ata_idempotent_instruction X keys mint_opt allowed tp payer ix = Ok owner"
  shows "\<exists>mint. mint_opt = Some mint \<and> owner \<in> set allowed \<and> creates_ata X keys payer owner mint ix"
proof -
  from ok have data: "ci_data ix = [1]" and six: "length (ci_accounts ix) = 6"
    by (auto simp: validate_create_ata_idempotent_instruction_def split: if_splits)
  from six_accounts [OF six] obtain a0 a1 a2 a3 a4 a5
    where accounts: "ci_accounts ix = [a0, a1, a2, a3, a4, a5]" by blast
  have nths: "ci_accounts ix ! 0 = a0" "ci_accounts ix ! 1 = a1" "ci_accounts ix ! 2 = a2"
    "ci_accounts ix ! 3 = a3" "ci_accounts ix ! 4 = a4" "ci_accounts ix ! 5 = a5"
    by (simp_all add: accounts)
  note inv = ok [unfolded validate_create_ata_idempotent_instruction_def nths account_key_def]
  from inv data six obtain mint where mint: "mint_opt = Some mint" by auto
  note inv' = inv [unfolded mint ok_or_simps rbind.simps, simplified data six, simplified]
  from inv' have valid: "list_all (\<lambda>i. unat i < length keys) (ci_accounts ix)"
    unfolding accounts by (simp split: if_splits)
  with inv' accounts obtain ata_program where
    "pubkey_from_str X ASSOCIATED_TOKEN_PROGRAM = Ok ata_program"
    "keys ! unat a0 = payer" "keys ! unat a3 = mint" "keys ! unat a2 = owner"
    "owner \<in> set allowed"
    "keys ! unat a1 = fst (find_program_address X
       [pubkey_bytes owner, pubkey_bytes (keys ! unat a5), pubkey_bytes mint] ata_program)"
    by (simp split: if_splits)
  with mint data accounts valid show ?thesis unfolding creates_ata_def by blast
qed

text \<open>Every instruction of an accepted transaction, by the program it runs.\<close>

definition permitted ::
  "externs \<Rightarrow> pubkey list \<Rightarrow> nat set \<Rightarrow> pubkey option \<Rightarrow> pubkey list \<Rightarrow> pubkey \<Rightarrow> nat \<Rightarrow>
   compiled_instruction \<Rightarrow> bool" where
  "permitted X keys M mint_opt allowed payer index ix \<longleftrightarrow>
     runs X keys COMPUTE_BUDGET_PROGRAM ix \<and> budget_instruction ix \<or>
     (runs X keys MEMO_PROGRAM ix \<or> runs X keys SYSTEM_PROGRAM ix \<or> runs X keys TOKEN_PROGRAM ix \<or>
      runs X keys TOKEN_2022_PROGRAM ix) \<and> index \<in> M \<or>
     runs X keys ASSOCIATED_TOKEN_PROGRAM ix \<and>
       (\<exists>mint owner. mint_opt = Some mint \<and> owner \<in> set allowed \<and>
          creates_ata X keys payer owner mint ix)"

lemma check_allowed_permitted:
  assumes "check_allowed X keys M mint_opt allowed tp payer index ix = Ok created"
  shows "permitted X keys M mint_opt allowed payer index ix \<and>
    (\<forall>owner. created = Some owner \<longrightarrow> runs X keys ASSOCIATED_TOKEN_PROGRAM ix \<and>
      (\<exists>mint. mint_opt = Some mint \<and> creates_ata X keys payer owner mint ix))"
proof -
  let ?pid = "keys ! unat (ci_program_id_index ix)"
  from assms obtain budget system token token22 ata where
    ids: "pubkey_from_str X COMPUTE_BUDGET_PROGRAM = Ok budget"
      "pubkey_from_str X SYSTEM_PROGRAM = Ok system" "pubkey_from_str X TOKEN_PROGRAM = Ok token"
      "pubkey_from_str X TOKEN_2022_PROGRAM = Ok token22"
      "pubkey_from_str X ASSOCIATED_TOKEN_PROGRAM = Ok ata"
    and valid: "unat (ci_program_id_index ix) < length keys"
    by (auto simp: check_allowed_def)
  note eval = assms [unfolded check_allowed_def, simplified ids expect_pubkey_def key_at_def valid,
      simplified]
  have runs: "runs X keys program ix \<longleftrightarrow> pubkey_from_str X program = Ok ?pid" for program
    using valid by (auto simp: runs_def)
  show ?thesis
  proof (cases "?pid = budget")
    case True
    with eval have "budget_instruction ix \<and> created = None"
      by (auto simp: validate_compute_budget_iff)
    with True show ?thesis by (simp add: permitted_def runs ids)
  next
    case False
    with eval obtain memo where memo: "pubkey_from_str X MEMO_PROGRAM = Ok memo"
      by (auto simp: split: result.splits)
    show ?thesis
    proof (cases "?pid \<in> {memo, system, token, token22}")
      case True
      with eval False memo have "index \<in> M \<and> created = None" by (auto split: if_splits)
      with True show ?thesis by (auto simp: permitted_def runs ids memo)
    next
      case other: False
      with eval False memo obtain owner where "?pid = ata" and created: "created = Some owner"
        and ok: "validate_create_ata_idempotent_instruction X keys mint_opt allowed tp payer ix = Ok owner"
        by (auto split: if_splits)
      with validate_create_ata_sound [OF ok] show ?thesis by (auto simp: permitted_def runs ids)
    qed
  qed
qed

lemma validate_allowlist_sound:
  assumes "validate_instruction_allowlist X tx M mint_opt allowed tp fee_payer required = Ok ()"
  shows "\<exists>payer. tx_account_keys tx \<noteq> [] \<and> payer = case_option (hd (tx_account_keys tx)) id fee_payer \<and>
    (\<forall>i < length (tx_instructions tx).
       permitted X (tx_account_keys tx) M mint_opt allowed payer i (tx_instructions tx ! i)) \<and>
    (\<forall>owner \<in> set required. \<exists>ix \<in> set (tx_instructions tx).
       runs X (tx_account_keys tx) ASSOCIATED_TOKEN_PROGRAM ix \<and>
       (\<exists>mint. mint_opt = Some mint \<and> creates_ata X (tx_account_keys tx) payer owner mint ix))"
proof -
  let ?keys = "tx_account_keys tx" and ?ixs = "tx_instructions tx"
  obtain k ks where keys: "?keys = k # ks"
    using assms by (auto simp: validate_instruction_allowlist_def split: list.splits)
  let ?payer = "case_option k id fee_payer"
  let ?check = "\<lambda>(index, ix). check_allowed X ?keys M mint_opt allowed tp ?payer index ix"
  from assms keys obtain created where
    created: "collect_results ?check (enumerate 0 ?ixs) = Ok created"
    and found: "find (\<lambda>owner. Some owner \<notin> set created) required = None"
    by (auto simp: validate_instruction_allowlist_def Let_def split: option.splits)
  then have len: "length created = length ?ixs"
    and each: "\<forall>i < length ?ixs. check_allowed X ?keys M mint_opt allowed tp ?payer i (?ixs ! i) = Ok (created ! i)"
    by (auto simp: collect_results_Ok list_all2_conv_all_nth nth_enumerate_eq)
  have "\<exists>ix \<in> set ?ixs. runs X ?keys ASSOCIATED_TOKEN_PROGRAM ix \<and>
       (\<exists>mint. mint_opt = Some mint \<and> creates_ata X ?keys ?payer owner mint ix)"
    if "owner \<in> set required" for owner
  proof -
    have "Some owner \<in> set created" using found that by (auto simp: find_None_iff)
    then obtain i where "i < length ?ixs" "created ! i = Some owner"
      using len by (auto simp: in_set_conv_nth)
    with each check_allowed_permitted show ?thesis by (metis nth_mem)
  qed
  moreover have "permitted X ?keys M mint_opt allowed ?payer i (?ixs ! i)" if "i < length ?ixs" for i
    using each that check_allowed_permitted by blast
  moreover have "?keys \<noteq> []" "?payer = case_option (hd ?keys) id fee_payer"
    by (simp_all add: keys split: option.split)
  ultimately show ?thesis by blast
qed

end
