(* ===== verification/Charge_Payments.thy ===== *)
theory Charge_Payments
  imports Charge_Soundness
begin

text \<open>
  The payments of an accepted transaction.  \<open>payment_search\<close> is the interface between the checks on
  one payment and the loops around them: a search that succeeds takes one instruction that pays
  what was asked, runs a payment program and had not been taken.  The SOL and the token search
  provide it; what the whole verification establishes is proved once, inside it.
\<close>

section \<open>Paying instructions\<close>

definition pays_sol ::
  "externs \<Rightarrow> pubkey list \<Rightarrow> pubkey option \<Rightarrow> pubkey \<times> u64 \<Rightarrow> compiled_instruction \<Rightarrow> bool" where
  "pays_sol X keys fee_payer g ix \<longleftrightarrow>
     runs X keys SYSTEM_PROGRAM ix \<and>
     12 \<le> length (ci_data ix) \<and> u32_from_le (take 4 (ci_data ix)) = 2 \<and>
     u64_from_le (take 8 (drop 4 (ci_data ix))) = snd g \<and>
     (\<exists>source dest rest. ci_accounts ix = source # dest # rest \<and>
        unat source < length keys \<and> unat dest < length keys \<and>
        keys ! unat dest = fst g \<and> fee_payer \<noteq> Some (keys ! unat source))"

definition ata_of :: "externs \<Rightarrow> pubkey \<Rightarrow> pubkey \<Rightarrow> pubkey \<Rightarrow> pubkey" where
  "ata_of X owner program_id mint =
     (case pubkey_from_str X ASSOCIATED_TOKEN_PROGRAM of
        Ok ata_program \<Rightarrow>
          fst (find_program_address X
            [pubkey_bytes owner, pubkey_bytes program_id, pubkey_bytes mint] ata_program)
      | _ \<Rightarrow> owner)"

definition pays_token ::
  "externs \<Rightarrow> pubkey list \<Rightarrow> pubkey \<Rightarrow> pubkey option \<Rightarrow> byte option \<Rightarrow> pubkey option \<Rightarrow>
   pubkey \<times> u64 \<Rightarrow> compiled_instruction \<Rightarrow> bool" where
  "pays_token X keys mint tp decimals fee_payer g ix \<longleftrightarrow>
     (runs X keys TOKEN_PROGRAM ix \<or> runs X keys TOKEN_2022_PROGRAM ix) \<and>
     (\<exists>data rest. ci_data ix = 12 # data \<and> 9 \<le> length data \<and> u64_from_le (take 8 data) = snd g \<and>
        (\<forall>d. decimals = Some d \<longrightarrow> data ! 8 = d) \<and> rest = drop 9 data) \<and>
     (\<exists>source m dest authority rest program_id.
        ci_accounts ix = source # m # dest # authority # rest \<and>
        list_all (\<lambda>i. unat i < length keys) [source, m, dest, authority] \<and>
        program_id = keys ! unat (ci_program_id_index ix) \<and>
        (\<forall>p. tp = Some p \<longrightarrow> program_id = p) \<and>
        keys ! unat m = mint \<and> keys ! unat dest = ata_of X (fst g) program_id mint \<and>
        (\<forall>p. fee_payer = Some p \<longrightarrow>
           keys ! unat authority \<noteq> p \<and> keys ! unat source \<noteq> ata_of X p program_id mint))"

section \<open>What an accepted transaction holds\<close>

definition runs_payment :: "externs \<Rightarrow> pubkey list \<Rightarrow> compiled_instruction \<Rightarrow> bool" where
  "runs_payment X keys ix \<longleftrightarrow>
     runs X keys SYSTEM_PROGRAM ix \<or> runs X keys TOKEN_PROGRAM ix \<or> runs X keys TOKEN_2022_PROGRAM ix"

definition other_allowed ::
  "externs \<Rightarrow> pubkey list \<Rightarrow> pubkey option \<Rightarrow> pubkey list \<Rightarrow> pubkey \<Rightarrow> compiled_instruction \<Rightarrow> bool" where
  "other_allowed X keys mint_opt allowed payer ix \<longleftrightarrow>
     runs_payment X keys ix \<or> runs X keys MEMO_PROGRAM ix \<or>
     runs X keys COMPUTE_BUDGET_PROGRAM ix \<and> budget_instruction ix \<or>
     runs X keys ASSOCIATED_TOKEN_PROGRAM ix \<and>
       (\<exists>mint owner. mint_opt = Some mint \<and> owner \<in> set allowed \<and> creates_ata X keys payer owner mint ix)"

text \<open>
  The instructions that run a payment program are exactly the payments asked for, one each; the
  memo instructions are exactly the memos asked for; every other instruction is a bounded
  compute-budget one or creates a permitted token account; the required accounts are created.
\<close>

definition settled ::
  "externs \<Rightarrow> versioned_transaction \<Rightarrow> (pubkey \<times> u64 \<Rightarrow> compiled_instruction \<Rightarrow> bool) \<Rightarrow>
   (pubkey \<times> u64) list \<Rightarrow> (string \<times> string) list \<Rightarrow> pubkey option \<Rightarrow> ata_creation_policy \<Rightarrow>
   pubkey option \<Rightarrow> bool" where
  "settled X tx pays gs memos mint_opt policy fee_payer \<longleftrightarrow>
     (\<exists>payer. tx_account_keys tx \<noteq> [] \<and>
        payer = case_option (hd (tx_account_keys tx)) id fee_payer \<and>
        (\<exists>js. assigned pays (tx_instructions tx) gs js {} (set js) \<and>
           set js = {i. i < length (tx_instructions tx) \<and>
                        runs_payment X (tx_account_keys tx) (tx_instructions tx ! i)}) \<and>
        mset (map ci_data (filter (runs X (tx_account_keys tx) MEMO_PROGRAM) (tx_instructions tx))) =
          mset (map (\<lambda>lm. string_bytes (snd lm)) memos) \<and>
        list_all (other_allowed X (tx_account_keys tx) mint_opt (ap_allowed_owners policy) payer)
          (tx_instructions tx) \<and>
        (\<forall>owner \<in> set (ap_required_owners policy). \<exists>ix \<in> set (tx_instructions tx).
           runs X (tx_account_keys tx) ASSOCIATED_TOKEN_PROGRAM ix \<and>
           (\<exists>mint. mint_opt = Some mint \<and> creates_ata X (tx_account_keys tx) payer owner mint ix)))"

text \<open>
  Under the allowlist, the positions taken by payments are those of the payment programs, and the
  positions taken by memos are those of the memo program.
\<close>

lemma taken_positions:
  assumes "programs_distinct X"
    and permitted: "\<And>i. i < length xs \<Longrightarrow> permitted X keys M3 mint_opt allowed payer i (xs ! i)"
    and paid: "assigned pays xs gs js {} M2" and "\<And>g ix. pays g ix \<Longrightarrow> runs_payment X keys ix"
    and ms: "assigned (is_memo X keys) xs memos ms M2 M3"
    and "i < length xs"
  shows "runs_payment X keys (xs ! i) \<longleftrightarrow> i \<in> set js"
    and "runs X keys MEMO_PROGRAM (xs ! i) \<longleftrightarrow> i \<in> set ms"
proof -
  note ex = runs_exclusive [OF assms(1), of keys "xs ! i"]
  have M: "M3 = set js \<union> set ms" using paid ms by (auto simp: assigned_def)
  have js: "runs_payment X keys (xs ! i)" if "i \<in> set js"
    using assigned_position [OF paid that] assms(4) by blast
  have memo: "runs X keys MEMO_PROGRAM (xs ! i)" if "i \<in> set ms"
    using assigned_position [OF ms that] by (auto simp: is_memo_def)
  have "i \<in> M3" if "runs_payment X keys (xs ! i) \<or> runs X keys MEMO_PROGRAM (xs ! i)"
    using permitted [OF assms(6)] that ex by (auto simp: permitted_def runs_payment_def)
  with js memo M ex(1)
  show "runs_payment X keys (xs ! i) \<longleftrightarrow> i \<in> set js"
    and "runs X keys MEMO_PROGRAM (xs ! i) \<longleftrightarrow> i \<in> set ms"
    by (auto simp: runs_payment_def)
qed

section \<open>The interface\<close>

locale payment_search =
  fixes X :: externs and tx :: versioned_transaction
    and transfer :: "pubkey \<Rightarrow> u64 \<Rightarrow> nat set \<Rightarrow> (nat set, verification_error) result"
    and pays :: "pubkey \<times> u64 \<Rightarrow> compiled_instruction \<Rightarrow> bool"
    and payment_programs :: "string set"
  assumes search_sound:
      "transfer recipient amount M = Ok M' \<Longrightarrow>
         \<exists>j < length (tx_instructions tx). j \<notin> M \<and> M' = insert j M \<and>
           pays (recipient, amount) (tx_instructions tx ! j)"
    and pays_runs:
      "pays g ix \<Longrightarrow> \<exists>p \<in> payment_programs. runs X (tx_account_keys tx) p ix"
    and payment_programs_known:
      "payment_programs \<subseteq> {SYSTEM_PROGRAM, TOKEN_PROGRAM, TOKEN_2022_PROGRAM}"
begin

abbreviation "ixs \<equiv> tx_instructions tx"
abbreviation "keys \<equiv> tx_account_keys tx"

text \<open>The payments asked for by the splits, if all of them can be read.\<close>

lemma splits_assigned:
  assumes "verify_split_transfers X transfer splits M = Ok M'"
  shows "\<exists>gs js. list_all2 (\<lambda>s g. split_owner X s = Ok (fst g) \<and> parse_u64 (sp_amount s) = Some (snd g))
      splits gs \<and> assigned pays ixs gs js M M'"
  using assms
proof (induction splits arbitrary: M)
  case (Cons s ss)
  from Cons.prems obtain owner amount M1 where
    s: "split_owner X s = Ok owner" "parse_u64 (sp_amount s) = Some amount"
    and step: "transfer owner amount M = Ok M1" and rest: "verify_split_transfers X transfer ss M1 = Ok M'"
    by auto
  from search_sound [OF step] obtain j where
    j: "j < length ixs" "j \<notin> M" "M1 = insert j M" "pays (owner, amount) (ixs ! j)" by blast
  from Cons.IH [OF rest] obtain gs js where
    "list_all2 (\<lambda>s g. split_owner X s = Ok (fst g) \<and> parse_u64 (sp_amount s) = Some (snd g)) ss gs"
    "assigned pays ixs gs js M1 M'" by blast
  with j s show ?case
    by (intro exI [of _ "(owner, amount) # gs"] exI [of _ "j # js"])
      (auto intro: assigned_Cons)
qed auto

lemma verify_instructions_settled:
  assumes "programs_distinct X"
    and "verify_instructions X transfer tx request splits recipient amount mint_opt tp fee_payer policy = Ok ()"
  shows "\<exists>gs. list_all2 (\<lambda>s g. split_owner X s = Ok (fst g) \<and> parse_u64 (sp_amount s) = Some (snd g))
      splits gs \<and>
    settled X tx pays ((recipient, amount) # gs) (expected_memos (cr_external_id request) splits)
      mint_opt policy fee_payer"
proof -
  from assms(2) obtain M1 M2 M3 where first: "transfer recipient amount {} = Ok M1"
    and splits: "verify_split_transfers X transfer splits M1 = Ok M2"
    and memos: "verify_memo_instructions X tx (cr_external_id request) splits M2 = Ok M3"
    and allow: "validate_instruction_allowlist X tx M3 mint_opt (ap_allowed_owners policy) tp
      fee_payer (ap_required_owners policy) = Ok ()"
    by (auto simp: verify_instructions_def)
  from search_sound [OF first] obtain j where
    j: "j < length ixs" "M1 = {j}" "pays (recipient, amount) (ixs ! j)" by auto
  from splits_assigned [OF splits] obtain gs js where
    gs: "list_all2 (\<lambda>s g. split_owner X s = Ok (fst g) \<and> parse_u64 (sp_amount s) = Some (snd g)) splits gs"
    and js: "assigned pays ixs gs js M1 M2" by blast
  have paid: "assigned pays ixs ((recipient, amount) # gs) (j # js) {} M2"
    using j js by (intro assigned_Cons) auto
  from memos obtain memo_program where memo_program: "pubkey_from_str X MEMO_PROGRAM = Ok memo_program"
    and "verify_memos memo_program tx (expected_memos (cr_external_id request) splits) M2 = Ok M3"
    by (auto simp: verify_memo_instructions_def)
  from verify_memos_assigned [OF this] obtain ms where
    ms: "assigned (is_memo X keys) ixs (expected_memos (cr_external_id request) splits) ms M2 M3" by blast
  have pays_payment: "runs_payment X keys ix" if "pays g ix" for g ix
    using pays_runs [OF that] payment_programs_known by (auto simp: runs_payment_def)
  from validate_allowlist_sound [OF allow] obtain payer where
    payer: "keys \<noteq> []" "payer = case_option (hd keys) id fee_payer"
    and permitted: "\<And>i. i < length ixs \<Longrightarrow> permitted X keys M3 mint_opt (ap_allowed_owners policy) payer i (ixs ! i)"
    and required: "\<forall>owner \<in> set (ap_required_owners policy). \<exists>ix \<in> set ixs.
       runs X keys ASSOCIATED_TOKEN_PROGRAM ix \<and>
       (\<exists>mint. mint_opt = Some mint \<and> creates_ata X keys payer owner mint ix)"
    by blast
  have pos: "(runs_payment X keys (ixs ! i) \<longleftrightarrow> i \<in> set (j # js)) \<and>
      (runs X keys MEMO_PROGRAM (ixs ! i) \<longleftrightarrow> i \<in> set ms)" if "i < length ixs" for i
    by (rule conjI; rule taken_positions [OF assms(1) _ paid _ ms that];
        (erule permitted | erule pays_payment))
  have "mset (map ci_data (filter (runs X keys MEMO_PROGRAM) ixs)) =
      mset (map (\<lambda>lm. string_bytes (snd lm)) (expected_memos (cr_external_id request) splits))"
    using ms by (rule assigned_filter) (use pos in \<open>auto simp: is_memo_def\<close>)
  moreover have "list_all (other_allowed X keys mint_opt (ap_allowed_owners policy) payer) ixs"
    using permitted by (auto simp: list_all_length permitted_def other_allowed_def runs_payment_def)
  moreover have "assigned pays ixs ((recipient, amount) # gs) (j # js) {} (set (j # js)) \<and>
      set (j # js) = {i. i < length ixs \<and> runs_payment X keys (ixs ! i)}"
  proof
    show "assigned pays ixs ((recipient, amount) # gs) (j # js) {} (set (j # js))"
      using paid by (simp add: assigned_def)
    show "set (j # js) = {i. i < length ixs \<and> runs_payment X keys (ixs ! i)}"
      using pos assigned_position [OF paid] by blast
  qed
  ultimately show ?thesis using gs payer required unfolding settled_def by blast
qed

end

section \<open>The providers\<close>

interpretation sol: payment_search X tx "verify_sol_transfer_instructions X tx fee_payer"
  "pays_sol X (tx_account_keys tx) fee_payer" "{SYSTEM_PROGRAM}"
proof unfold_locales
  fix recipient amount M M'
  assume "verify_sol_transfer_instructions X tx fee_payer recipient amount M = Ok M'"
  then obtain system_program j where system: "pubkey_from_str X SYSTEM_PROGRAM = Ok system_program"
    and j: "scan_from (sol_transfer_test system_program (tx_account_keys tx) recipient amount fee_payer M)
      0 (tx_instructions tx) = Ok (Some j)" and M': "M' = insert j M"
    by (auto simp: verify_sol_transfer_instructions_def split: option.splits)
  let ?ix = "tx_instructions tx ! j"
  have "j < length (tx_instructions tx)"
    and test: "sol_transfer_test system_program (tx_account_keys tx) recipient amount fee_payer M j ?ix = Ok True"
    using scan_from_Some [OF j] by simp_all
  moreover have "\<exists>a0 a1 rest. ci_accounts ?ix = a0 # a1 # rest"
    using test by (cases "ci_accounts ?ix"; cases "tl (ci_accounts ?ix)")
      (auto simp: sol_transfer_test_def Let_def split: if_splits)
  then have "pays_sol X (tx_account_keys tx) fee_payer (recipient, amount) ?ix"
    using test system
    by (auto simp: sol_transfer_test_def Let_def pays_sol_def runs_def not_less split: if_splits)
  moreover have "j \<notin> M" using test by (auto simp: sol_transfer_test_def split: if_splits)
  ultimately show "\<exists>j < length (tx_instructions tx). j \<notin> M \<and> M' = insert j M \<and>
      pays_sol X (tx_account_keys tx) fee_payer (recipient, amount) (tx_instructions tx ! j)"
    using M' by blast
qed (auto simp: pays_sol_def)

lemma four_accounts: "4 \<le> length xs \<Longrightarrow> \<exists>a b c d rest. xs = a # b # c # d # rest"
  by (cases xs; cases "tl xs"; cases "tl (tl xs)"; cases "tl (tl (tl xs))") auto

lemma token_data:
  assumes "data \<noteq> []" and "data ! 0 = 12" and "10 \<le> length data"
  shows "\<exists>rest. data = 12 # rest \<and> 9 \<le> length rest \<and> take 8 (drop 1 data) = take 8 rest \<and>
    data ! 9 = rest ! 8"
  using assms by (cases data) auto

interpretation token: payment_search X tx
  "verify_spl_transfer_instructions X tx mint tp decimals fee_payer"
  "pays_token X (tx_account_keys tx) mint tp decimals fee_payer" "{TOKEN_PROGRAM, TOKEN_2022_PROGRAM}"
proof unfold_locales
  fix recipient amount M M'
  let ?keys = "tx_account_keys tx"
  assume "verify_spl_transfer_instructions X tx mint tp decimals fee_payer recipient amount M = Ok M'"
  then obtain token token22 ata j where ids: "pubkey_from_str X TOKEN_PROGRAM = Ok token"
    "pubkey_from_str X TOKEN_2022_PROGRAM = Ok token22" "pubkey_from_str X ASSOCIATED_TOKEN_PROGRAM = Ok ata"
    and j: "scan_from (spl_transfer_test X token token22 ata ?keys mint tp decimals fee_payer recipient amount M)
      0 (tx_instructions tx) = Ok (Some j)" and M': "M' = insert j M"
    by (auto simp: verify_spl_transfer_instructions_def split: option.splits)
  let ?ix = "tx_instructions tx ! j"
  have len: "j < length (tx_instructions tx)"
    and test: "spl_transfer_test X token token22 ata ?keys mint tp decimals fee_payer recipient amount M j ?ix = Ok True"
    using scan_from_Some [OF j] by simp_all
  from test have free: "j \<notin> M" and "ci_data ?ix \<noteq> []" "ci_data ?ix ! 0 = 12" "10 \<le> length (ci_data ?ix)"
    "4 \<le> length (ci_accounts ?ix)"
    by (auto simp: spl_transfer_test_def not_less split: if_splits)
  then obtain data a b c d rest where data: "ci_data ?ix = 12 # data" "9 \<le> length data"
    "take 8 (drop 1 (ci_data ?ix)) = take 8 data" "ci_data ?ix ! 9 = data ! 8"
    and accounts: "ci_accounts ?ix = a # b # c # d # rest"
    using token_data four_accounts by metis
  have nths: "ci_accounts ?ix ! 0 = a" "ci_accounts ?ix ! 1 = b" "ci_accounts ?ix ! 2 = c"
    "ci_accounts ?ix ! 3 = d" by (simp_all add: accounts)
  note inv = test [unfolded spl_transfer_test_def nths data(3,4), simplified free data(1,2)]
  have "pays_token X ?keys mint tp decimals fee_payer (recipient, amount) ?ix"
    using inv ids data accounts
    by (auto simp: pays_token_def runs_def ata_of_def split: if_splits option.splits)
  with len free M' show "\<exists>j < length (tx_instructions tx). j \<notin> M \<and> M' = insert j M \<and>
      pays_token X (tx_account_keys tx) mint tp decimals fee_payer (recipient, amount) (tx_instructions tx ! j)"
    by blast
qed (auto simp: pays_token_def)

end
