(* ===== verification/Charge_Examples.thy ===== *)
theory Charge_Examples
  imports Charge_Payments
begin

text \<open>
  A small concrete world for charges: a key is the text it is parsed from, a derived address is
  the concatenation of its seeds, and a transaction pays 900 lamports to the shop and 100 to a
  vendor on a charge of 1000.
\<close>

definition charge_externs :: externs where
  "charge_externs =
     \<lparr>bs58_decode = (\<lambda>s. Ok (string_bytes s)),
      bs58_encode = (\<lambda>bytes. map (\<lambda>b. char_of (unat b)) bytes),
      pubkey_from_str = (\<lambda>s. if s = [] then Err ''empty'' else Ok (Pubkey (string_bytes s))),
      find_program_address = (\<lambda>seeds program. (Pubkey (concat seeds), 255)),
      blake3_hash = (\<lambda>_. []),
      ed25519_key_from_bytes = (\<lambda>_. Ok ()),
      ed25519_verify_strict = (\<lambda>_ _ _. True),
      parse_tx_signature = (\<lambda>s. Ok (string_bytes s)),
      signature_status = (\<lambda>_ _. Ok (Some (Ok ()))),
      clock = (\<lambda>_. 0)\<rparr>"

definition key_named :: "string \<Rightarrow> pubkey" where
  "key_named s = Pubkey (string_bytes s)"

lemma charge_from_str [simp]:
  "pubkey_from_str charge_externs s = (if s = [] then Err ''empty'' else Ok (key_named s))"
  by (simp add: charge_externs_def key_named_def)

lemma key_named_inj [simp]: "key_named s = key_named t \<longleftrightarrow> s = t"
  by (simp add: key_named_def string_bytes_inj)

lemma PROGRAM_IDS_not_Nil [simp]:
  "COMPUTE_BUDGET_PROGRAM \<noteq> []" "MEMO_PROGRAM \<noteq> []" "SYSTEM_PROGRAM \<noteq> []" "TOKEN_PROGRAM \<noteq> []"
  "TOKEN_2022_PROGRAM \<noteq> []" "ASSOCIATED_TOKEN_PROGRAM \<noteq> []"
  by (simp_all add: COMPUTE_BUDGET_PROGRAM_def MEMO_PROGRAM_def SYSTEM_PROGRAM_def TOKEN_PROGRAM_def
      TOKEN_2022_PROGRAM_def ASSOCIATED_TOKEN_PROGRAM_def)

lemma charge_programs_distinct: "programs_distinct charge_externs"
proof -
  have "inj_on (pubkey_from_str charge_externs) (set PROGRAM_IDS)"
    by (auto simp: inj_on_def split: if_splits)
  then show ?thesis
    using PROGRAM_IDS_distinct by (simp add: programs_distinct_def distinct_map)
qed

definition demo_sol_request :: charge_request where
  "demo_sol_request =
     \<lparr>cr_amount = show_u64 1000, cr_currency = ''sol'', cr_decimals = None, cr_recipient = Some ''shop'',
      cr_description = None, cr_external_id = Some ''order'', cr_method_details = None\<rparr>"

definition demo_split :: split where
  "demo_split =
     \<lparr>sp_recipient = ''vendor'', sp_amount = show_u64 100, sp_ata_creation_required = None,
      sp_label = None, sp_memo = None\<rparr>"

definition demo_sol_details :: method_details where
  "demo_sol_details =
     method_details_default\<lparr>md_fee_payer := Some True, md_fee_payer_key := Some ''server'',
       md_splits := Some [demo_split]\<rparr>"

definition sol_transfer_ix :: "byte \<Rightarrow> byte \<Rightarrow> byte \<Rightarrow> u64 \<Rightarrow> compiled_instruction" where
  "sol_transfer_ix program source dest lamports =
     \<lparr>ci_program_id_index = program, ci_accounts = [source, dest], ci_data = u32_le 2 @ u64_le lamports\<rparr>"

definition demo_sol_tx :: versioned_transaction where
  "demo_sol_tx =
     \<lparr>tx_signatures = [[], []],
      tx_account_keys = [key_named ''server'', key_named ''payer'', key_named ''shop'', key_named ''vendor'',
        key_named SYSTEM_PROGRAM, key_named MEMO_PROGRAM],
      tx_recent_blockhash = [],
      tx_instructions = [sol_transfer_ix 4 1 3 100, sol_transfer_ix 4 1 2 900,
        \<lparr>ci_program_id_index = 5, ci_accounts = [], ci_data = string_bytes ''order''\<rparr>],
      tx_address_table_lookups = None\<rparr>"

lemma take_u32_le [simp]: "take 4 (u32_le a @ xs) = u32_le a" "drop 4 (u32_le a @ xs) = xs"
  by simp_all

lemma take_u64_le [simp]: "take 8 (u64_le a) = u64_le a"
  by simp

lemma well_known_names [simp]:
  "SYSTEM_PROGRAM \<noteq> ''server''" "SYSTEM_PROGRAM \<noteq> ''shop''"
  by (simp_all add: SYSTEM_PROGRAM_def)

lemma demo_primary:
  "primary_amount_of Debug_Build demo_sol_request [demo_split] = Ok 900"
  by (simp add: primary_amount_of_def demo_sol_request_def demo_split_def split_amounts_def
      map_filter_simps add_u64_def checked_sub_u64_def)

lemma demo_sol_accepted:
  "verify_versioned_transaction_pre_broadcast Debug_Build charge_externs demo_sol_tx demo_sol_request
     demo_sol_details = Ok ()"
proof -
  let ?verify = "verify_sol_transfer_instructions charge_externs demo_sol_tx (Some (key_named ''server''))"
  have first: "?verify (key_named ''shop'') 900 {} = Ok {1}"
    by (simp add: verify_sol_transfer_instructions_def expect_pubkey_def demo_sol_tx_def sol_transfer_test_def
        sol_transfer_ix_def key_at_def)
  have second: "?verify (key_named ''vendor'') 100 {1} = Ok {0, 1}"
    by (simp add: verify_sol_transfer_instructions_def expect_pubkey_def demo_sol_tx_def sol_transfer_test_def
        sol_transfer_ix_def key_at_def)
  have memo: "verify_memo_instructions charge_externs demo_sol_tx (Some ''order'') [demo_split] {0, 1} = Ok {0, 1, 2}"
    by (simp add: verify_memo_instructions_def expect_pubkey_def expected_memos_def demo_split_def
        demo_sol_tx_def memo_test_def key_at_def)
      (auto simp: numeral_2_eq_2)
  have allow: "validate_instruction_allowlist charge_externs demo_sol_tx {0, 1, 2} None [] None
      (Some (key_named ''server'')) [] = Ok ()"
    by (simp add: validate_instruction_allowlist_def check_allowed_def expect_pubkey_def demo_sol_tx_def
        sol_transfer_ix_def key_at_def Let_def)
  have native: "is_native_sol demo_sol_request"
    by (simp add: is_native_sol_def demo_sol_request_def) code_simp
  have fp: "expected_fee_payer charge_externs demo_sol_tx demo_sol_details = Ok (Some (key_named ''server''))"
    by (simp add: expected_fee_payer_def demo_sol_details_def demo_sol_tx_def)
  have data: "cr_recipient demo_sol_request = Some ''shop''" "cr_external_id demo_sol_request = Some ''order''"
    "md_splits demo_sol_details = Some [demo_split]" "tx_address_table_lookups demo_sol_tx = None"
    "split_owner charge_externs demo_split = Ok (key_named ''vendor'')"
    "parse_u64 (sp_amount demo_split) = Some 100" "sp_ata_creation_required demo_split = None"
    by (simp_all add: demo_sol_request_def demo_sol_details_def demo_sol_tx_def demo_split_def split_owner_def)
  show ?thesis
    by (simp add: verify_versioned_transaction_pre_broadcast_def verify_instructions_def
        reject_address_lookup_tables_def expected_ata_creation_policy_def data fp native demo_primary
        first [simplified] second [simplified] memo [simplified] allow [simplified] Let_def)
qed

section \<open>A token charge\<close>

definition demo_token_request :: charge_request where
  "demo_token_request =
     \<lparr>cr_amount = show_u64 1000, cr_currency = ''mintaddress'', cr_decimals = None,
      cr_recipient = Some ''shop'', cr_description = None, cr_external_id = None,
      cr_method_details = None\<rparr>"

definition demo_token_details :: method_details where
  "demo_token_details = method_details_default\<lparr>md_decimals := Some 6, md_token_program := Some TOKEN_PROGRAM\<rparr>"

definition demo_token_tx :: versioned_transaction where
  "demo_token_tx =
     \<lparr>tx_signatures = [[]],
      tx_account_keys = [key_named ''payer'', key_named ''source'', key_named ''mintaddress'',
        ata_of charge_externs (key_named ''shop'') (key_named TOKEN_PROGRAM) (key_named ''mintaddress''),
        key_named TOKEN_PROGRAM],
      tx_recent_blockhash = [],
      tx_instructions =
        [\<lparr>ci_program_id_index = 4, ci_accounts = [1, 2, 3, 0], ci_data = 12 # u64_le 1000 @ [6]\<rparr>],
      tx_address_table_lookups = Some []\<rparr>"

lemma demo_token_accepted:
  "verify_versioned_transaction_pre_broadcast Debug_Build charge_externs demo_token_tx demo_token_request
     demo_token_details = Ok ()"
proof -
  let ?mint = "key_named ''mintaddress''"
  let ?verify = "verify_spl_transfer_instructions charge_externs demo_token_tx ?mint
      (Some (key_named TOKEN_PROGRAM)) (Some 6) None"
  have last: "(12 # u64_le 1000 @ [6]) ! 9 = (6 :: byte)" by (simp add: nth_append)
  have paid: "?verify (key_named ''shop'') 1000 {} = Ok {0}"
    by (simp add: verify_spl_transfer_instructions_def expect_pubkey_def demo_token_tx_def spl_transfer_test_def
        key_at_def ata_of_def last del: nth_Cons_numeral)
  have memo: "verify_memo_instructions charge_externs demo_token_tx None [] {0} = Ok {0}"
    by (simp add: verify_memo_instructions_def expect_pubkey_def expected_memos_def)
  have allow: "validate_instruction_allowlist charge_externs demo_token_tx {0} (Some ?mint) []
      (Some (key_named TOKEN_PROGRAM)) None [] = Ok ()"
    by (simp add: validate_instruction_allowlist_def check_allowed_def expect_pubkey_def demo_token_tx_def
        key_at_def Let_def)
  have native: "\<not> is_native_sol demo_token_request"
    by (simp add: is_native_sol_def demo_token_request_def to_uppercase_def)
  have mint: "resolve_expected_mint charge_externs ''mintaddress'' None = Ok ?mint"
    by (simp add: resolve_expected_mint_def resolve_long)
  have data: "cr_recipient demo_token_request = Some ''shop''" "cr_external_id demo_token_request = None"
    "cr_currency demo_token_request = ''mintaddress''" "md_network demo_token_details = None"
    "md_splits demo_token_details = None" "tx_address_table_lookups demo_token_tx = Some []"
    "expected_fee_payer charge_externs demo_token_tx demo_token_details = Ok None"
    "expected_token_program charge_externs demo_token_details = Ok (Some (key_named TOKEN_PROGRAM))"
    "md_decimals demo_token_details = Some 6"
    "primary_amount_of Debug_Build demo_token_request [] = Ok 1000"
    by (simp_all add: demo_token_request_def demo_token_details_def demo_token_tx_def method_details_default_def
        expected_fee_payer_def expected_token_program_def primary_amount_of_def split_amounts_def
        map_filter_simps checked_sub_u64_def)
  show ?thesis
    by (simp add: verify_versioned_transaction_pre_broadcast_def verify_instructions_def
        reject_address_lookup_tables_def expected_ata_creation_policy_def data native mint paid memo
        allow Let_def)
qed

end
