(* ===== verification/Charge_Properties.thy ===== *)
theory Charge_Properties
  imports Charge_Examples
begin

text \<open>
  Properties of the pre-broadcast verification: an accepted transaction moves exactly the amounts
  of the charge, and what the server co-signs cannot spend the server's own funds.
\<close>

section \<open>What a charge demands\<close>

text \<open>
  The payments of a charge: the primary one to the recipient and one per split, together the total
  amount.
\<close>

definition demands ::
  "externs \<Rightarrow> charge_request \<Rightarrow> split list \<Rightarrow> (pubkey \<times> u64) list \<Rightarrow> bool" where
  "demands X request splits payments \<longleftrightarrow>
     (\<exists>r a gs total. payments = (r, a) # gs \<and> a \<noteq> 0 \<and>
        map_option (pubkey_from_str X) (cr_recipient request) = Some (Ok r) \<and>
        list_all2 (\<lambda>s g. pubkey_from_str X (sp_recipient s) = Ok (fst g) \<and>
                         parse_u64 (sp_amount s) = Some (snd g)) splits gs \<and>
        parse_u64 (cr_amount request) = Some total \<and>
        unat total = (\<Sum>g \<leftarrow> payments. unat (snd g)))"

text \<open>Splits whose sum fits 64 bits, or a build that checks it.\<close>

definition splits_fit :: "build \<Rightarrow> split list \<Rightarrow> bool" where
  "splits_fit b splits \<longleftrightarrow> b = Debug_Build \<or> (\<Sum>a \<leftarrow> split_amounts splits. unat a) < 2 ^ 64"

lemma split_amounts_read:
  "list_all2 (\<lambda>s g. split_owner X s = Ok (fst g) \<and> parse_u64 (sp_amount s) = Some (snd g)) splits gs \<Longrightarrow>
     split_amounts splits = map snd gs"
  unfolding split_amounts_def by (induction rule: list_all2_induct) (auto simp: map_filter_simps)

lemma primary_amount_demands:
  assumes "primary_amount_of b request splits = Ok a" and "splits_fit b splits"
  shows "a \<noteq> 0 \<and> (\<exists>total. parse_u64 (cr_amount request) = Some total \<and>
    unat total = unat a + (\<Sum>x \<leftarrow> split_amounts splits. unat x))"
proof -
  from assms(1) obtain total sum where total: "parse_u64 (cr_amount request) = Some total"
    and sum: "sum_u64 b 0 (split_amounts splits) = (Ok sum :: (u64, verification_error) result)"
    and a: "sum \<le> total" "a = total - sum" "a \<noteq> 0"
    by (auto simp: primary_amount_of_def checked_sub_u64_def split: if_splits)
  have "unat sum = (\<Sum>x \<leftarrow> split_amounts splits. unat x)"
    using sum sum_u64_Debug [of 0 "split_amounts splits" sum] sum_u64_value [OF sum] assms(2)
    by (cases b) (auto simp: splits_fit_def)
  moreover have "unat total = unat a + unat sum" using a by (simp add: unat_sub word_le_nat_alt)
  ultimately show ?thesis using total a by auto
qed

lemma demands_intro:
  assumes "primary_amount_of b request splits = Ok a" and "splits_fit b splits"
    and "cr_recipient request = Some recipient" and "pubkey_from_str X recipient = Ok r"
    and gs: "list_all2 (\<lambda>s g. split_owner X s = Ok (fst g) \<and> parse_u64 (sp_amount s) = Some (snd g)) splits gs"
  shows "demands X request splits ((r, a) # gs)"
  using primary_amount_demands [OF assms(1,2)] assms(3,4) gs split_amounts_read [OF gs]
  by (auto simp: demands_def split_owner_def comp_def elim!: list_all2_mono)

text \<open>An accepted transaction, by the kind of charge.\<close>

lemma pre_broadcast_settled:
  assumes "programs_distinct X" and "splits_fit b (case_option [] id (md_splits md))"
    and ok: "verify_versioned_transaction_pre_broadcast b X tx request md = Ok ()"
  shows "\<exists>fee_payer policy gs. expected_fee_payer X tx md = Ok fee_payer \<and>
    expected_ata_creation_policy X (case_option [] id (md_splits md)) fee_payer = Ok policy \<and>
    length gs \<le> 9 \<and> demands X request (case_option [] id (md_splits md)) gs \<and>
    (if is_native_sol request then
       settled X tx (pays_sol X (tx_account_keys tx) fee_payer) gs
         (expected_memos (cr_external_id request) (case_option [] id (md_splits md))) None policy fee_payer
     else \<exists>mint tp. resolve_expected_mint X (cr_currency request) (md_network md) = Ok mint \<and>
       expected_token_program X md = Ok tp \<and>
       settled X tx (pays_token X (tx_account_keys tx) mint tp (md_decimals md) fee_payer) gs
         (expected_memos (cr_external_id request) (case_option [] id (md_splits md))) (Some mint) policy fee_payer)"
proof -
  let ?splits = "case_option [] id (md_splits md)"
  from ok obtain a recipient r fee_payer policy where few: "length ?splits \<le> 8"
    and a: "primary_amount_of b request ?splits = Ok a"
    and r: "cr_recipient request = Some recipient" "pubkey_from_str X recipient = Ok r"
    and fp: "expected_fee_payer X tx md = Ok fee_payer"
    and policy: "expected_ata_creation_policy X ?splits fee_payer = Ok policy"
    by (auto simp: verify_versioned_transaction_pre_broadcast_def Let_def not_less split: if_splits)
  note d = demands_intro [OF a assms(2) r]
  show ?thesis
  proof (cases "is_native_sol request")
    case True
    with ok few a r fp policy
    have "verify_instructions X (verify_sol_transfer_instructions X tx fee_payer) tx request ?splits r a
        None None fee_payer policy = Ok ()"
      by (auto simp: verify_versioned_transaction_pre_broadcast_def Let_def split: if_splits)
    from sol.verify_instructions_settled [OF assms(1) this] obtain gs where
      gs: "list_all2 (\<lambda>s g. split_owner X s = Ok (fst g) \<and> parse_u64 (sp_amount s) = Some (snd g)) ?splits gs"
      "settled X tx (pays_sol X (tx_account_keys tx) fee_payer) ((r, a) # gs)
         (expected_memos (cr_external_id request) ?splits) None policy fee_payer" by blast
    then show ?thesis using True fp policy few d list_all2_lengthD [OF gs(1)]
      by (intro exI [of _ fee_payer] exI [of _ policy] exI [of _ "(r, a) # gs"]) simp
  next
    case False
    with ok few a r fp policy obtain mint tp where
      mint: "resolve_expected_mint X (cr_currency request) (md_network md) = Ok mint"
      "expected_token_program X md = Ok tp"
      and "verify_instructions X (verify_spl_transfer_instructions X tx mint tp (md_decimals md) fee_payer)
         tx request ?splits r a (Some mint) tp fee_payer policy = Ok ()"
      by (auto simp: verify_versioned_transaction_pre_broadcast_def Let_def split: if_splits)
    from token.verify_instructions_settled [OF assms(1) this(3)] obtain gs where
      gs: "list_all2 (\<lambda>s g. split_owner X s = Ok (fst g) \<and> parse_u64 (sp_amount s) = Some (snd g)) ?splits gs"
      "settled X tx (pays_token X (tx_account_keys tx) mint tp (md_decimals md) fee_payer) ((r, a) # gs)
         (expected_memos (cr_external_id request) ?splits) (Some mint) policy fee_payer" by blast
    then show ?thesis using False fp policy few d mint list_all2_lengthD [OF gs(1)]
      by (intro exI [of _ fee_payer] exI [of _ policy] exI [of _ "(r, a) # gs"]) auto
  qed
qed

lemma settled_payment:
  assumes "settled X tx pays gs memos mint_opt policy fee_payer"
    and "ix \<in> set (tx_instructions tx)" and "runs_payment X (tx_account_keys tx) ix"
  shows "\<exists>g \<in> set gs. pays g ix"
proof -
  from assms(1) obtain js where js: "assigned pays (tx_instructions tx) gs js {} (set js)"
    "set js = {i. i < length (tx_instructions tx) \<and>
                  runs_payment X (tx_account_keys tx) (tx_instructions tx ! i)}"
    by (auto simp: settled_def)
  from assms(2) obtain i where "i < length (tx_instructions tx)" "ix = tx_instructions tx ! i"
    by (auto simp: in_set_conv_nth)
  with assms(3) js assigned_position [OF js(1)] show ?thesis by blast
qed

section \<open>Transfers\<close>

text \<open>
  A System Program \<^verbatim>\<open>Transfer\<close>: the tag 2 in four bytes, the lamports in eight, the accounts it takes them from
  and gives them to.  Other instructions are none.
\<close>

record sol_transfer =
  st_source :: pubkey
  st_dest :: pubkey
  st_lamports :: u64

definition sol_transfer_of ::
  "externs \<Rightarrow> pubkey list \<Rightarrow> compiled_instruction \<Rightarrow> sol_transfer option" where
  "sol_transfer_of X keys ix =
     (if runs X keys SYSTEM_PROGRAM ix \<and> 12 \<le> length (ci_data ix) \<and> u32_from_le (take 4 (ci_data ix)) = 2 \<and>
         2 \<le> length (ci_accounts ix) \<and> (\<forall>i < 2. unat (ci_accounts ix ! i) < length keys)
      then Some \<lparr>st_source = keys ! unat (ci_accounts ix ! 0), st_dest = keys ! unat (ci_accounts ix ! 1),
                 st_lamports = u64_from_le (take 8 (drop 4 (ci_data ix)))\<rparr>
      else None)"

text \<open>
  A \<^verbatim>\<open>TransferChecked\<close> of one of the two token programs: the tag 12, the amount in eight bytes, the decimals in
  one, and the accounts: source, mint, destination and authority.
\<close>

record token_transfer =
  tt_program :: pubkey
  tt_source :: pubkey
  tt_mint :: pubkey
  tt_dest :: pubkey
  tt_authority :: pubkey
  tt_amount :: u64
  tt_decimals :: byte

definition token_transfer_of ::
  "externs \<Rightarrow> pubkey list \<Rightarrow> compiled_instruction \<Rightarrow> token_transfer option" where
  "token_transfer_of X keys ix =
     (if (runs X keys TOKEN_PROGRAM ix \<or> runs X keys TOKEN_2022_PROGRAM ix) \<and>
         10 \<le> length (ci_data ix) \<and> ci_data ix ! 0 = 12 \<and>
         4 \<le> length (ci_accounts ix) \<and> (\<forall>i < 4. unat (ci_accounts ix ! i) < length keys)
      then Some \<lparr>tt_program = keys ! unat (ci_program_id_index ix),
                 tt_source = keys ! unat (ci_accounts ix ! 0), tt_mint = keys ! unat (ci_accounts ix ! 1),
                 tt_dest = keys ! unat (ci_accounts ix ! 2), tt_authority = keys ! unat (ci_accounts ix ! 3),
                 tt_amount = u64_from_le (take 8 (drop 1 (ci_data ix))), tt_decimals = ci_data ix ! 9\<rparr>
      else None)"

lemma pays_sol_transfer:
  assumes "pays_sol X keys fee_payer g ix"
  shows "\<exists>source. sol_transfer_of X keys ix =
      Some \<lparr>st_source = source, st_dest = fst g, st_lamports = snd g\<rparr> \<and> fee_payer \<noteq> Some source"
proof -
  from assms obtain i j rest where "ci_accounts ix = i # j # rest" "unat i < length keys" "unat j < length keys"
    by (auto simp: pays_sol_def)
  moreover then have "\<forall>k < 2. unat (ci_accounts ix ! k) < length keys" by (auto simp: less_Suc_eq numeral_eq_Suc)
  ultimately show ?thesis using assms by (auto simp: pays_sol_def sol_transfer_of_def)
qed

lemma pays_token_transfer:
  assumes "pays_token X keys mint tp decimals fee_payer g ix"
  shows "\<exists>t. token_transfer_of X keys ix = Some t \<and> tt_mint t = mint \<and>
    tt_dest t = ata_of X (fst g) (tt_program t) mint \<and> tt_amount t = snd g \<and>
    (\<forall>p. tp = Some p \<longrightarrow> tt_program t = p) \<and> (\<forall>d. decimals = Some d \<longrightarrow> tt_decimals t = d) \<and>
    (\<forall>p. fee_payer = Some p \<longrightarrow> tt_authority t \<noteq> p \<and> tt_source t \<noteq> ata_of X p (tt_program t) mint)"
proof -
  from assms obtain a c d e rest where accounts: "ci_accounts ix = a # c # d # e # rest"
    "list_all (\<lambda>i. unat i < length keys) [a, c, d, e]" by (auto simp: pays_token_def)
  then have "\<forall>k < 4. unat (ci_accounts ix ! k) < length keys" by (auto simp: less_Suc_eq numeral_eq_Suc)
  with accounts assms show ?thesis
    by (auto simp: pays_token_def token_transfer_of_def numeral_eq_Suc)
qed

section \<open>Lamports\<close>



section \<open>Tokens\<close>

lemma assigned_map:
  assumes "assigned P xs gs js M M'" and "\<And>g x. P g x \<Longrightarrow> f x = h g (k x)"
  shows "map (\<lambda>j. f (xs ! j)) js = map (\<lambda>(g, y). h g y) (zip gs (map (\<lambda>j. k (xs ! j)) js))"
proof -
  have "list_all2 (\<lambda>g j. j < length xs \<and> P g (xs ! j)) gs js" using assms(1) by (simp add: assigned_def)
  then show ?thesis by (induction rule: list_all2_induct) (auto dest: assms(2))
qed

text \<open>
  C6. A transaction accepted for a charge in a token runs the System Program and the token programs
  exactly for the payments of the charge: each such instruction is a \<^verbatim>\<open>TransferChecked\<close> of a token program in
  the mint of the currency, and as a multiset they credit the associated token accounts of the recipient and of
  the splits' owners with the exact amounts.  Program and decimals are those of the method details where
  they name them.
\<close>

theorem pull_token_payments_exact:
  assumes "programs_distinct X" and "splits_fit b (case_option [] id (md_splits md))"
    and "verify_versioned_transaction_pre_broadcast b X tx request md = Ok ()"
    and "\<not> is_native_sol request"
  shows "\<exists>payments transfers mint.
    demands X request (case_option [] id (md_splits md)) payments \<and>
    (\<exists>name. resolve_stablecoin_mint (cr_currency request) (md_network md) = Some name \<and>
       pubkey_from_str X name = Ok mint) \<and>
    mset (map (token_transfer_of X (tx_account_keys tx))
      (filter (runs_payment X (tx_account_keys tx)) (tx_instructions tx))) = mset (map Some transfers) \<and>
    list_all2 (\<lambda>g t. tt_mint t = mint \<and> tt_dest t = ata_of X (fst g) (tt_program t) mint \<and> tt_amount t = snd g)
      payments transfers \<and>
    (\<forall>t \<in> set transfers.
       (\<forall>name. md_token_program md = Some name \<longrightarrow> pubkey_from_str X name = Ok (tt_program t)) \<and>
       (\<forall>d. md_decimals md = Some d \<longrightarrow> tt_decimals t = d))"
proof -
  let ?keys = "tx_account_keys tx" and ?ixs = "tx_instructions tx"
  from pre_broadcast_settled [OF assms(1-3), unfolded if_not_P [OF assms(4)]]
  obtain fee_payer policy gs mint tp where
    d: "demands X request (case_option [] id (md_splits md)) gs"
    and mint: "resolve_expected_mint X (cr_currency request) (md_network md) = Ok mint"
    and tp: "expected_token_program X md = Ok tp"
    and "settled X tx (pays_token X ?keys mint tp (md_decimals md) fee_payer) gs
      (expected_memos (cr_external_id request) (case_option [] id (md_splits md))) (Some mint) policy fee_payer"
    by (elim exE conjE) (rule that)
  then obtain js where js: "assigned (pays_token X ?keys mint tp (md_decimals md) fee_payer) ?ixs gs js {} (set js)"
    "set js = {i. i < length ?ixs \<and> runs_payment X ?keys (?ixs ! i)}"
    by (auto simp: settled_def)
  let ?transfer = "\<lambda>j. the (token_transfer_of X ?keys (?ixs ! j))"
  let ?transfers = "map ?transfer js"
  have all: "list_all2 (\<lambda>g j. pays_token X ?keys mint tp (md_decimals md) fee_payer g (?ixs ! j)) gs js"
    using js(1) by (auto simp: assigned_def elim: list_all2_mono)
  have "mset (map (token_transfer_of X ?keys) (filter (runs_payment X ?keys) ?ixs)) =
      mset (map (\<lambda>j. token_transfer_of X ?keys (?ixs ! j)) js)"
    using mset_filter_positions [of js ?ixs "runs_payment X ?keys"] js
    by (simp add: mset_map multiset.map_comp comp_def assigned_def)
  also have "map (\<lambda>j. token_transfer_of X ?keys (?ixs ! j)) js = map Some ?transfers"
    using all by (induction rule: list_all2_induct) (auto dest!: pays_token_transfer)
  finally have moved: "mset (map (token_transfer_of X ?keys) (filter (runs_payment X ?keys) ?ixs)) =
    mset (map Some ?transfers)" .
  have paid: "list_all2 (\<lambda>g t. tt_mint t = mint \<and> tt_dest t = ata_of X (fst g) (tt_program t) mint \<and>
      tt_amount t = snd g) gs ?transfers"
    using all by (induction rule: list_all2_induct) (auto dest!: pays_token_transfer)
  have named: "(\<forall>p. tp = Some p \<longrightarrow> tt_program t = p) \<and> (\<forall>d. md_decimals md = Some d \<longrightarrow> tt_decimals t = d)"
    if "t \<in> set ?transfers" for t
  proof -
    from that obtain j where j: "j \<in> set js" "t = ?transfer j" by auto
    from assigned_position [OF js(1) j(1)] obtain g where
      "pays_token X ?keys mint tp (md_decimals md) fee_payer g (?ixs ! j)" by blast
    from pays_token_transfer [OF this] j(2) show ?thesis by auto
  qed
  have "pubkey_from_str X name = Ok (tt_program t)"
    if "md_token_program md = Some name" "t \<in> set ?transfers" for name t
    using named [OF that(2)] tp that(1) by (auto simp: expected_token_program_def split: if_splits)
  moreover have "\<exists>name. resolve_stablecoin_mint (cr_currency request) (md_network md) = Some name \<and>
       pubkey_from_str X name = Ok mint"
    using mint by (auto simp: resolve_expected_mint_def split: option.splits)
  ultimately show ?thesis using d moved paid named
    by (intro exI [of _ gs] exI [of _ ?transfers] exI [of _ mint]) blast
qed

theorem pull_token_payments_exact_witness:
  "\<exists>payments transfers.
    demands charge_externs demo_token_request [] payments \<and> length transfers = length payments \<and>
    mset (map (token_transfer_of charge_externs (tx_account_keys demo_token_tx))
      (filter (runs_payment charge_externs (tx_account_keys demo_token_tx)) (tx_instructions demo_token_tx))) =
    mset (map Some transfers)"
proof -
  have fit: "splits_fit Debug_Build []" by (simp add: splits_fit_def)
  have token: "\<not> is_native_sol demo_token_request"
    by (simp add: is_native_sol_def demo_token_request_def to_uppercase_def)
  have splits: "case_option [] id (md_splits demo_token_details) = []"
    by (simp add: demo_token_details_def method_details_default_def)
  obtain payments transfers mint where
    "demands charge_externs demo_token_request [] payments"
    "mset (map (token_transfer_of charge_externs (tx_account_keys demo_token_tx))
      (filter (runs_payment charge_externs (tx_account_keys demo_token_tx)) (tx_instructions demo_token_tx))) =
    mset (map Some transfers)"
    and all: "list_all2 (\<lambda>g t. tt_mint t = mint \<and> tt_dest t = ata_of charge_externs (fst g) (tt_program t) mint \<and>
      tt_amount t = snd g) payments transfers"
    using pull_token_payments_exact [OF charge_programs_distinct _ demo_token_accepted token, unfolded splits, OF fit]
    by (elim exE conjE) (rule that)
  moreover have "length transfers = length payments" using list_all2_lengthD [OF all] by simp
  ultimately show ?thesis by blast
qed

section \<open>The server's funds\<close>

text \<open>
  C11. When the server pays the fees, a transaction it is willing to co-sign cannot spend its funds on
  the payment.  The server is the transaction's fee payer, and every instruction is of one of these kinds: a
  \<^verbatim>\<open>Transfer\<close> of the System Program that does not take lamports from it; a \<^verbatim>\<open>TransferChecked\<close> of a token program
  that names another authority and does not leave its token account; a memo; a bounded compute-budget
  instruction; the creation of a token account of a split for which the challenge asks for it.
\<close>

theorem cosigned_transaction_spares_server:
  assumes "programs_distinct X" and "md_fee_payer md = Some True"
    and "splits_fit b (case_option [] id (md_splits md))"
    and "verify_versioned_transaction_pre_broadcast b X tx request md = Ok ()"
    and "ix \<in> set (tx_instructions tx)"
  shows "\<exists>server keys. tx_account_keys tx = server # keys \<and>
    map_option (pubkey_from_str X) (md_fee_payer_key md) = Some (Ok server) \<and>
    ((\<exists>t. sol_transfer_of X (server # keys) ix = Some t \<and> st_source t \<noteq> server) \<or>
     (\<exists>t. token_transfer_of X (server # keys) ix = Some t \<and> tt_authority t \<noteq> server \<and>
        tt_source t \<noteq> ata_of X server (tt_program t) (tt_mint t)) \<or>
     runs X (server # keys) MEMO_PROGRAM ix \<or>
     runs X (server # keys) COMPUTE_BUDGET_PROGRAM ix \<and> budget_instruction ix \<or>
     runs X (server # keys) ASSOCIATED_TOKEN_PROGRAM ix \<and>
       (\<exists>s mint owner. s \<in> set (case_option [] id (md_splits md)) \<and>
          sp_ata_creation_required s = Some True \<and> pubkey_from_str X (sp_recipient s) = Ok owner \<and>
          creates_ata X (server # keys) server owner mint ix))"
proof -
  let ?splits = "case_option [] id (md_splits md)"
  from pre_broadcast_settled [OF assms(1,3,4)] obtain fp policy gs pays memos mint_opt where
    fp: "expected_fee_payer X tx md = Ok fp"
    and policy: "expected_ata_creation_policy X ?splits fp = Ok policy"
    and settled: "settled X tx pays gs memos mint_opt policy fp"
    and pays: "(\<exists>m tp d. pays = pays_token X (tx_account_keys tx) m tp d fp) \<or>
      pays = pays_sol X (tx_account_keys tx) fp"
    by (cases "is_native_sol request"; simp) blast+
  from fp assms(2) obtain server keys where keys: "tx_account_keys tx = server # keys"
    and key: "map_option (pubkey_from_str X) (md_fee_payer_key md) = Some (Ok server)"
    and fp_server: "fp = Some server"
    by (cases "tx_account_keys tx") (auto simp: expected_fee_payer_def split: if_splits)
  from settled keys fp_server assms(5) have
    "other_allowed X (server # keys) mint_opt (ap_allowed_owners policy) server ix"
    by (auto simp: settled_def list_all_iff)
  then consider "runs_payment X (server # keys) ix" | "runs X (server # keys) MEMO_PROGRAM ix"
    | "runs X (server # keys) COMPUTE_BUDGET_PROGRAM ix \<and> budget_instruction ix"
    | mint owner where "runs X (server # keys) ASSOCIATED_TOKEN_PROGRAM ix"
        "owner \<in> set (ap_allowed_owners policy)" "creates_ata X (server # keys) server owner mint ix"
    unfolding other_allowed_def by blast
  then show ?thesis
  proof cases
    case 1
    with settled_payment [OF settled assms(5)] keys obtain g where "pays g ix" by auto
    with pays have "(\<exists>t. sol_transfer_of X (server # keys) ix = Some t \<and> st_source t \<noteq> server) \<or>
       (\<exists>t. token_transfer_of X (server # keys) ix = Some t \<and> tt_authority t \<noteq> server \<and>
          tt_source t \<noteq> ata_of X server (tt_program t) (tt_mint t))"
      unfolding keys fp_server by (auto dest!: pays_token_transfer pays_sol_transfer)
    with keys key show ?thesis by blast
  next
    case (4 mint owner)
    from policy obtain owners where owners: "collect_results (split_owner X) ?splits = Ok owners"
      and allowed: "ap_allowed_owners policy =
        map snd (filter (\<lambda>(s, owner). sp_ata_creation_required s = Some True) (zip ?splits owners))"
      by (auto simp: expected_ata_creation_policy_def Let_def fp_server)
    from 4(2) allowed obtain s where s: "(s, owner) \<in> set (zip ?splits owners)"
      "sp_ata_creation_required s = Some True" by auto
    then have "s \<in> set ?splits" "split_owner X s = Ok owner"
      using owners by (auto simp: collect_results_Ok list_all2_iff dest: set_zip_leftD)
    then have "\<exists>s mint owner. s \<in> set ?splits \<and> sp_ata_creation_required s = Some True \<and>
        pubkey_from_str X (sp_recipient s) = Ok owner \<and> creates_ata X (server # keys) server owner mint ix"
      using s(2) 4(3) unfolding split_owner_def by auto
    with 4(1) keys key show ?thesis by blast
  qed (use keys key in auto)
qed

theorem cosigned_transaction_spares_server_witness:
  "\<exists>t. sol_transfer_of charge_externs (tx_account_keys demo_sol_tx) (sol_transfer_ix 4 1 3 100) = Some t \<and>
     st_source t \<noteq> key_named ''server''"
proof -
  let ?ix = "sol_transfer_ix 4 1 3 100" and ?keys = "tx_account_keys demo_sol_tx"
  have ix: "?ix \<in> set (tx_instructions demo_sol_tx)" by (simp add: demo_sol_tx_def)
  have system: "runs charge_externs ?keys SYSTEM_PROGRAM ?ix"
    by (simp add: runs_def demo_sol_tx_def sol_transfer_ix_def)
  note exclusive = runs_exclusive [OF charge_programs_distinct, of ?keys ?ix]
  have "token_transfer_of charge_externs ?keys ?ix = None"
    using exclusive(4) [OF system] by (simp add: token_transfer_of_def)
  moreover have "md_fee_payer demo_sol_details = Some True" "splits_fit Debug_Build (case_option [] id (md_splits demo_sol_details))"
    "md_fee_payer_key demo_sol_details = Some ''server''"
    by (simp_all add: demo_sol_details_def splits_fit_def)
  ultimately show ?thesis
    using cosigned_transaction_spares_server [OF charge_programs_distinct _ _ demo_sol_accepted ix] system exclusive
    by auto
qed

end
