(* ===== verification/Charge_Server_Properties.thy ===== *)
theory Charge_Server_Properties
  imports Charge_Settlement Charge_Properties
begin

text \<open>
  Properties of the \<^verbatim>\<open>Mpp\<close> handler: what is broadcast and signed, when a credential is accepted, and
  that no payment is accepted twice.
\<close>

section \<open>Effects\<close>

lemma effect_bind_Ok [simp]:
  "effect_bind m f = (es, Ok y) \<longleftrightarrow>
     (\<exists>es1 x es2. m = (es1, Ok x) \<and> f x = (es2, Ok y) \<and> es = es1 @ es2)"
  by (cases "(m, f)" rule: effect_bind.cases) (auto split: prod.splits)

lemma effect_bind_in:
  assumes "x \<in> set (fst (effect_bind m f))"
  shows "x \<in> set (fst m) \<or> (\<exists>y. snd m = Ok y \<and> x \<in> set (fst (f y)))"
  using assms by (cases "(m, f)" rule: effect_bind.cases) (auto split: prod.splits)

lemma effect_bind_pure [simp]:
  "effect_bind ([], Ok x) f = f x" "effect_bind ([], Err e) f = ([], Err e)"
  "effect_bind ([], Panic) f = ([], Panic)"
  by (auto split: prod.splits)

lemma effect_bind_stop:
  "r \<noteq> Ok () \<Longrightarrow> effect_bind ([], r) f = (es, r') \<Longrightarrow> es = [] \<and> \<not> is_ok r'"
  by (cases r) auto

lemma simulate_loop_effects:
  "set (fst (simulate_loop b X R tx request md n k)) \<subseteq> {Simulated tx} \<and>
   length (fst (simulate_loop b X R tx request md n k)) \<le> k"
  by (induction b X R tx request md n k rule: simulate_loop.induct)
    (auto simp: Let_def split: result.splits option.splits prod.splits)

lemma simulate_loop_Ok:
  "snd (simulate_loop b X R tx request md n k) = Ok () \<Longrightarrow>
     \<exists>j < k. rpc_simulate R (n + j) tx = Ok None"
proof (induction b X R tx request md n k rule: simulate_loop.induct)
  case (2 b X R tx request md attempt left)
  then show ?case
    by (auto simp: Let_def split: result.splits option.splits prod.splits if_splits
        intro: exI [of _ "Suc _"] exI [of _ 0])
qed simp

lemma confirm_loop_effects:
  "set (fst (confirm_loop R sig n k)) \<subseteq> {Confirming sig} \<and> length (fst (confirm_loop R sig n k)) \<le> k"
proof (induction k arbitrary: n)
  case (Suc k)
  obtain es r where rest: "confirm_loop R sig (Suc n) k = (es, r)" by fastforce
  with Suc [of "Suc n"] show ?case by (auto split: result.splits bool.splits)
qed simp

lemma cosign_effects:
  "cosign T m md tx = (es, r) \<Longrightarrow> set es \<subseteq> {Signed (message_serialize T tx)} \<and> length es \<le> 1 \<and>
     (\<forall>tx'. r = Ok tx' \<longrightarrow> (\<exists>sigs. tx' = tx\<lparr>tx_signatures := sigs\<rparr>))"
  by (auto simp: cosign_def Let_def split: if_splits option.splits intro: exI [of _ "tx_signatures tx"])

lemma confirm_loop_Ok: "snd (confirm_loop R sig n k) = Ok s \<Longrightarrow> s = sig"
proof (induction k arbitrary: n)
  case (Suc k)
  obtain es r where rest: "confirm_loop R sig (Suc n) k = (es, r)" by fastforce
  with Suc show ?case by (auto split: result.splits bool.splits) (metis snd_conv)+
qed simp

text \<open>The effects after co-signing: simulate, send, poll.\<close>

definition broadcast_trace ::
  "rpc_client \<Rightarrow> versioned_transaction \<Rightarrow> effect list \<Rightarrow> (string, verification_error) result \<Rightarrow> bool" where
  "broadcast_trace R tx es r \<longleftrightarrow>
     (\<exists>simulated sent polled. es = simulated @ sent @ polled \<and>
        set simulated \<subseteq> {Simulated tx} \<and> length simulated \<le> 3 \<and>
        (sent = [] \<and> polled = [] \<and> \<not> is_ok r \<or>
         sent = [Sent tx] \<and> (\<exists>n \<in> {1..3}. rpc_simulate R n tx = Ok None)) \<and>
        (\<exists>signature. set polled \<subseteq> {Confirming signature}) \<and> length polled \<le> 30 \<and>
        (\<forall>signature. r = Ok signature \<longrightarrow> rpc_send R tx = Ok signature))"

lemma broadcast_trace_pull:
  assumes "effect_bind (simulate_loop b X R tx request md 1 SIMULATION_MAX_ATTEMPTS) (\<lambda>_.
      effect_bind ([Sent tx], map_err (\<lambda>e. network_error (''Broadcast failed: '' @ e)) (rpc_send R tx))
        (\<lambda>signature. confirm_loop R signature 0 CONFIRM_ATTEMPTS)) = (es, r)"
  shows "broadcast_trace R tx es r"
proof -
  obtain simulated r1 where sim: "simulate_loop b X R tx request md 1 SIMULATION_MAX_ATTEMPTS = (simulated, r1)"
    by fastforce
  have s: "set simulated \<subseteq> {Simulated tx}" "length simulated \<le> 3"
    using simulate_loop_effects [of b X R tx request md 1 SIMULATION_MAX_ATTEMPTS] sim
    by (auto simp: SIMULATION_MAX_ATTEMPTS_def)
  show ?thesis
  proof (cases "r1 = Ok ()")
    case True
    then obtain j where "j < 3" "rpc_simulate R (1 + j) tx = Ok None"
      using simulate_loop_Ok [of b X R tx request md 1 SIMULATION_MAX_ATTEMPTS] sim
      by (auto simp: SIMULATION_MAX_ATTEMPTS_def)
    then have passed: "\<exists>n \<in> {1..3}. rpc_simulate R n tx = Ok None" by (intro bexI [of _ "1 + j"]) auto
    show ?thesis
    proof (cases "rpc_send R tx")
      case (Ok sig)
      obtain polled r2 where poll: "confirm_loop R sig 0 CONFIRM_ATTEMPTS = (polled, r2)" by fastforce
      have "set polled \<subseteq> {Confirming sig}" "length polled \<le> 30" "\<forall>s. r2 = Ok s \<longrightarrow> s = sig"
        using confirm_loop_effects [of R sig 0 CONFIRM_ATTEMPTS] confirm_loop_Ok [of R sig 0 CONFIRM_ATTEMPTS] poll
        by (auto simp: CONFIRM_ATTEMPTS_def)
      moreover have "es = simulated @ [Sent tx] @ polled" "r = r2"
        using assms True sim Ok poll by auto
      ultimately show ?thesis using s passed Ok unfolding broadcast_trace_def by blast
    next
      case (Err e)
      then have "es = simulated @ [Sent tx] @ []" "\<not> is_ok r" using assms True sim by auto
      with s passed show ?thesis unfolding broadcast_trace_def
        by (intro exI [of _ simulated] exI [of _ "[Sent tx]"] exI [of _ "[]"]) auto
    next
      case Panic
      then have "es = simulated @ [Sent tx] @ []" "\<not> is_ok r" using assms True sim by auto
      with s passed show ?thesis unfolding broadcast_trace_def
        by (intro exI [of _ simulated] exI [of _ "[Sent tx]"] exI [of _ "[]"]) auto
    qed
  next
    case False
    then have "es = simulated @ [] @ []" "\<not> is_ok r" using assms sim by (cases r1; auto)+
    with s show ?thesis unfolding broadcast_trace_def
      by (intro exI [of _ simulated] exI [of _ "[]"]) auto
  qed
qed

text \<open>
  C15. Every transaction the server broadcasts has passed the pre-broadcast verification against the
  charge and a simulation of exactly what is sent; every message it signs is that of a verified
  transaction.  Signing, simulating, sending and polling happen in this order, at most 1, 3, 1 and
  30 times, and only a sent transaction gives an answer.
\<close>

theorem broadcast_only_verified:
  "case verify_pull b X T R m transaction request md of (es, r) \<Rightarrow>
     es = [] \<and> \<not> is_ok r \<or>
     (\<exists>tx signed.
        decode_transaction T transaction = Ok tx \<and>
        check_network_blockhash (mpp_network m) (bs58_encode X (tx_recent_blockhash tx)) = Ok () \<and>
        verify_versioned_transaction_pre_broadcast b X tx request md = Ok () \<and>
        set signed \<subseteq> {Signed (message_serialize T tx)} \<and> length signed \<le> 1 \<and>
        (es = signed \<and> \<not> is_ok r \<or>
         (\<exists>sigs rest. es = signed @ rest \<and> broadcast_trace R (tx\<lparr>tx_signatures := sigs\<rparr>) rest r)))"
proof -
  obtain es r where run: "verify_pull b X T R m transaction request md = (es, r)" by fastforce
  show ?thesis
  proof (cases "\<exists>tx. decode_transaction T transaction = Ok tx \<and>
      check_network_blockhash (mpp_network m) (bs58_encode X (tx_recent_blockhash tx)) = Ok () \<and>
      verify_versioned_transaction_pre_broadcast b X tx request md = Ok ()")
    case True
    then obtain tx where tx: "decode_transaction T transaction = Ok tx"
      "check_network_blockhash (mpp_network m) (bs58_encode X (tx_recent_blockhash tx)) = Ok ()"
      "verify_versioned_transaction_pre_broadcast b X tx request md = Ok ()" by blast
    obtain signed r1 where co: "cosign T m md tx = (signed, r1)" by fastforce
    note signed = cosign_effects [OF co]
    note eq = run [unfolded verify_pull_def tx effect_bind_pure co]
    have "es = signed \<and> \<not> is_ok r \<or>
        (\<exists>sigs rest. es = signed @ rest \<and> broadcast_trace R (tx\<lparr>tx_signatures := sigs\<rparr>) rest r)"
    proof (cases r1)
      case (Ok tx')
      with signed obtain sigs where tx': "tx' = tx\<lparr>tx_signatures := sigs\<rparr>" by auto
      from eq Ok obtain rest where "es = signed @ rest" and
        "effect_bind (simulate_loop b X R tx' request md 1 SIMULATION_MAX_ATTEMPTS) (\<lambda>_.
          effect_bind ([Sent tx'], map_err (\<lambda>e. network_error (''Broadcast failed: '' @ e)) (rpc_send R tx'))
            (\<lambda>signature. confirm_loop R signature 0 CONFIRM_ATTEMPTS)) = (rest, r)"
        by (auto simp: Let_def split: prod.splits)
      with broadcast_trace_pull tx' show ?thesis by blast
    qed (use eq in auto)
    with run tx signed show ?thesis by auto
  next
    case False
    have "es = [] \<and> \<not> is_ok r"
    proof (cases "decode_transaction T transaction")
      case (Ok tx)
      note eq = run [unfolded verify_pull_def Ok effect_bind_pure]
      show ?thesis
      proof (cases "check_network_blockhash (mpp_network m) (bs58_encode X (tx_recent_blockhash tx)) = Ok ()")
        case True
        with False Ok have "verify_versioned_transaction_pre_broadcast b X tx request md \<noteq> Ok ()" by blast
        then show ?thesis using eq [unfolded True effect_bind_pure] by (rule effect_bind_stop)
      next
        case False
        then show ?thesis using eq by (rule effect_bind_stop)
      qed
    qed (use run in \<open>auto simp: verify_pull_def\<close>)
    with run show ?thesis by simp
  qed
qed

section \<open>Acceptance\<close>

lemma verify_Ok_iff:
  "verify b X K T R ops m s credential request = (s', es, Ok r) \<longleftrightarrow>
     (let challenge = cred_challenge credential in
      ce_id challenge =
        compute_challenge_id K (mpp_secret_key m) (mpp_realm m) (method_str (ce_method challenge))
          (intent_str (ce_intent challenge)) (raw (ce_request challenge)) (ce_expires challenge)
          (ce_digest challenge) (map_option raw (ce_opaque challenge)) \<and>
      (case ce_expires challenge of
         None \<Rightarrow> True
       | Some expires \<Rightarrow> (case parse_rfc3339 K expires of Ok t \<Rightarrow> now_utc K < t | _ \<Rightarrow> False)) \<and>
      method_str (ce_method challenge) = ''solana'' \<and> is_charge (ce_intent challenge) \<and>
      ce_realm challenge = mpp_realm m \<and>
      cr_currency request = mpp_currency m \<and> cr_recipient request = Some (mpp_recipient m) \<and>
      (\<exists>payload md signature.
         credential_payload_of_json (cred_payload credential) = Ok payload \<and>
         request_details request = Ok md \<and>
         settle b X T R m payload request md = (es, Ok signature) \<and>
         store_put_if_absent ops s (consumed_key signature) (JBool True) = (s', Ok True) \<and>
         r = receipt_success K (MethodName ''solana'') signature (ce_id challenge)))"
proof -
  have name: "method_name_new METHOD_NAME = MethodName ''solana''"
    by (simp add: method_name_new_def METHOD_NAME_def) code_simp
  have challenge: "check_challenge K m c = Ok () \<longleftrightarrow>
      ce_id c =
        compute_challenge_id K (mpp_secret_key m) (mpp_realm m) (method_str (ce_method c))
          (intent_str (ce_intent c)) (raw (ce_request c)) (ce_expires c)
          (ce_digest c) (map_option raw (ce_opaque c)) \<and>
      (case ce_expires c of
         None \<Rightarrow> True
       | Some expires \<Rightarrow> (case parse_rfc3339 K expires of Ok t \<Rightarrow> now_utc K < t | _ \<Rightarrow> False))" for c
    by (simp add: check_challenge_def not_le split: option.splits result.splits)
  have pinned: "verify_pinned_fields m credential request = Ok () \<longleftrightarrow>
      method_str (ce_method (cred_challenge credential)) = ''solana'' \<and>
      is_charge (ce_intent (cred_challenge credential)) \<and>
      ce_realm (cred_challenge credential) = mpp_realm m \<and>
      cr_currency request = mpp_currency m \<and> cr_recipient request = Some (mpp_recipient m)"
    by (simp add: verify_pinned_fields_def METHOD_NAME_def Let_def)
  have settle: "verify_and_settle b X K T R m credential request = (es, Ok signature) \<longleftrightarrow>
      check_challenge K m (cred_challenge credential) = Ok () \<and>
      verify_pinned_fields m credential request = Ok () \<and>
      (\<exists>payload md. credential_payload_of_json (cred_payload credential) = Ok payload \<and>
         request_details request = Ok md \<and> settle b X T R m payload request md = (es, Ok signature))"
    for signature by (auto simp: verify_and_settle_def)
  have consume: "consume K ops s credential signature = (s', Ok r) \<longleftrightarrow>
      store_put_if_absent ops s (consumed_key signature) (JBool True) = (s', Ok True) \<and>
      r = receipt_success K (MethodName ''solana'') signature (ce_id (cred_challenge credential))"
    for signature
    by (auto simp: consume_def name split: prod.splits result.splits bool.splits)
  have "verify b X K T R ops m s credential request = (s', es, Ok r) \<longleftrightarrow>
      (\<exists>signature. verify_and_settle b X K T R m credential request = (es, Ok signature) \<and>
         consume K ops s credential signature = (s', Ok r))"
    by (auto simp: verify_def Let_def split: prod.splits result.splits)
  then show ?thesis by (simp only: settle consume challenge pinned Let_def) blast
qed

text \<open>
  C16. Exactly when \<^verbatim>\<open>verify\<close> accepts a credential, and what it then answers: the challenge id is the one
  this server's secret gives for the echoed fields and the server's own realm, the challenge has
  not expired, method, intent, realm, currency and recipient are the server's, the payload settles,
  and its signature was absent from the replay store, where it is now.
\<close>

theorem verify_accepts_exactly:
  "verify b X K T R ops m s credential request = (s', es, Ok r) \<longleftrightarrow>
     (let challenge = cred_challenge credential in
      ce_id challenge =
        compute_challenge_id K (mpp_secret_key m) (mpp_realm m) (method_str (ce_method challenge))
          (intent_str (ce_intent challenge)) (raw (ce_request challenge)) (ce_expires challenge)
          (ce_digest challenge) (map_option raw (ce_opaque challenge)) \<and>
      (case ce_expires challenge of
         None \<Rightarrow> True
       | Some expires \<Rightarrow> (case parse_rfc3339 K expires of Ok t \<Rightarrow> now_utc K < t | _ \<Rightarrow> False)) \<and>
      method_str (ce_method challenge) = ''solana'' \<and> is_charge (ce_intent challenge) \<and>
      ce_realm challenge = mpp_realm m \<and>
      cr_currency request = mpp_currency m \<and> cr_recipient request = Some (mpp_recipient m) \<and>
      (\<exists>payload md signature.
         credential_payload_of_json (cred_payload credential) = Ok payload \<and>
         request_details request = Ok md \<and>
         settle b X T R m payload request md = (es, Ok signature) \<and>
         store_put_if_absent ops s (consumed_key signature) (JBool True) = (s', Ok True) \<and>
         r = receipt_success K (MethodName ''solana'') signature (ce_id challenge)))"
  by (rule verify_Ok_iff)

section \<open>Replay\<close>

text \<open>
  A call as it reaches a server: its handler and the answers the outside world gives it.  Several
  handlers may share one store.  The store is touched once per call, atomically, so the calls in the
  order of their store operations stand for every interleaving of concurrent calls.
\<close>

record charge_call =
  cc_codecs :: codecs
  cc_tx_codecs :: tx_codecs
  cc_rpc :: rpc_client
  cc_mpp :: mpp
  cc_credential :: payment_credential
  cc_request :: charge_request

definition charge_step ::
  "build \<Rightarrow> externs \<Rightarrow> ('s, json) store \<Rightarrow> charge_call \<Rightarrow> 's \<times> receipt list \<Rightarrow> 's \<times> receipt list" where
  "charge_step b X ops c = (\<lambda>(s, granted).
     case verify b X (cc_codecs c) (cc_tx_codecs c) (cc_rpc c) ops (cc_mpp c) s (cc_credential c) (cc_request c) of
       (s', es, Ok r) \<Rightarrow> (s', r # granted)
     | (s', es, _) \<Rightarrow> (s', granted))"

lemma verify_store:
  assumes "verify b X K T R ops m s credential request = (s', es, r)"
  shows "(\<exists>signature. store_put_if_absent ops s (consumed_key signature) (JBool True) = (s', Ok True) \<and>
       is_ok r \<and> (\<forall>receipt. r = Ok receipt \<longrightarrow> rc_reference receipt = signature)) \<or>
     \<not> is_ok r \<and> (s' = s \<or>
       (\<exists>signature a. store_put_if_absent ops s (consumed_key signature) (JBool True) = (s', a) \<and> a \<noteq> Ok True))"
  using assms
  by (auto simp: verify_def consume_def receipt_success_def Let_def
      split: prod.splits result.splits bool.splits)

text \<open>A key-value store of JSON values, as replay protection uses it.\<close>

locale replay_store = kv_store ops keys healthy
  for ops :: "('s, json) store" and keys :: "'s \<Rightarrow> string set" and healthy :: "'s \<Rightarrow> bool"
begin

lemma charge_run_invariant:
  assumes "(t, granted) = run_events (charge_step b X ops) calls (s, earlier)"
    and "distinct (map rc_reference earlier)"
    and "\<forall>r \<in> set earlier. consumed_key (rc_reference r) \<in> keys s"
  shows "distinct (map rc_reference granted) \<and>
    (\<forall>r \<in> set granted. consumed_key (rc_reference r) \<in> keys t) \<and> keys s \<subseteq> keys t"
  using assms
proof (induction calls arbitrary: s earlier)
  case (Cons c calls)
  obtain s' es r where v: "verify b X (cc_codecs c) (cc_tx_codecs c) (cc_rpc c) ops (cc_mpp c) s
      (cc_credential c) (cc_request c) = (s', es, r)" by (metis prod_cases3)
  show ?case
  proof (cases "is_ok r")
    case True
    then obtain receipt where r: "r = Ok receipt" by (auto simp: is_ok_iff)
    with verify_store [OF v] have new: "consumed_key (rc_reference receipt) \<notin> keys s"
      "keys s' = insert (consumed_key (rc_reference receipt)) (keys s)"
      by (auto dest: put_if_absent_True)
    have step: "charge_step b X ops c (s, earlier) = (s', receipt # earlier)"
      using v r by (simp add: charge_step_def)
    have "distinct (map rc_reference (receipt # earlier))"
      using Cons.prems(2,3) new(1) by auto
    moreover have "\<forall>r \<in> set (receipt # earlier). consumed_key (rc_reference r) \<in> keys s'"
      using Cons.prems(3) new(2) by auto
    ultimately have "distinct (map rc_reference granted) \<and>
        (\<forall>r \<in> set granted. consumed_key (rc_reference r) \<in> keys t) \<and> keys s' \<subseteq> keys t"
      using Cons.prems(1) by (intro Cons.IH [of s' "receipt # earlier"]) (simp add: step)
    with new(2) show ?thesis by auto
  next
    case False
    have mono: "keys s \<subseteq> keys s'" using verify_store [OF v] put_if_absent_mono False by blast
    have step: "charge_step b X ops c (s, earlier) = (s', earlier)"
      using v False by (cases r) (auto simp: charge_step_def)
    have "distinct (map rc_reference granted) \<and>
        (\<forall>r \<in> set granted. consumed_key (rc_reference r) \<in> keys t) \<and> keys s' \<subseteq> keys t"
      using Cons.prems mono by (intro Cons.IH [of s' earlier]) (auto simp: step)
    with mono show ?thesis by blast
  qed
qed auto

end

interpretation replay: replay_store "memory_store_ops J" "\<lambda>s. dom (ms_data s)" "\<lambda>s. \<not> ms_poisoned s"
  by unfold_locales

text \<open>
  C8. Over any sequence of calls to any number of handlers that share an in-memory replay store, no two
  receipts are granted for the same payment signature.
\<close>

theorem payment_accepted_at_most_once:
  "distinct (map rc_reference
     (snd (run_events (charge_step b X (memory_store_ops J)) calls (s, []))))"
  using replay.charge_run_invariant
    [of "fst (run_events (charge_step b X (memory_store_ops J)) calls (s, []))"
        "snd (run_events (charge_step b X (memory_store_ops J)) calls (s, []))" b X J calls s "[]"]
  by simp

section \<open>A replayed credential\<close>

definition demo_mpp :: mpp where
  "demo_mpp =
     \<lparr>mpp_rpc_url = [], mpp_realm = ''realm'', mpp_secret_key = ''key'', mpp_currency = ''sol'',
      mpp_recipient = ''shop'', mpp_decimals = 9, mpp_network = ''devnet'', mpp_fee_payer = False,
      mpp_fee_payer_signer = None, mpp_html = False\<rparr>"

definition demo_transfer_json :: json where
  "demo_transfer_json =
     JObject [(''program'', JString ''system''),
       (''parsed'', JObject [(''type'', JString ''transfer''),
          (''info'', JObject [(''destination'', JString ''shop''), (''lamports'', JNumber (PosInt 1000))])])]"

definition demo_rpc :: rpc_client where
  "demo_rpc =
     \<lparr>rpc_latest_blockhash = Ok ''hash'', rpc_simulate = (\<lambda>n tx. Ok None), rpc_send = (\<lambda>tx. Ok ''sig''),
      rpc_confirm = (\<lambda>n s. Ok (n = 1)),
      rpc_get_transaction = (\<lambda>s. Ok
        \<lparr>ct_json = Ok (JObject [(''message'', JObject [(''instructions'', JArray [demo_transfer_json])])]),
         ct_meta = None\<rparr>),
      rpc_balance = (\<lambda>k. Ok 0), rpc_token_balance = (\<lambda>k. Ok None)\<rparr>"

definition demo_tx_codecs :: tx_codecs where
  "demo_tx_codecs =
     \<lparr>base64_standard_decode = (\<lambda>s. Ok []), bincode_legacy = (\<lambda>bs. Ok demo_sol_tx),
      bincode_versioned = (\<lambda>bs. Err ''no''), message_serialize = (\<lambda>tx. []),
      signature_from_str = (\<lambda>s. Ok ()), env_secret_key = None\<rparr>"

definition plain_codecs :: codecs where
  "plain_codecs =
     \<lparr>b64_encode = (\<lambda>bs. map (\<lambda>b. char_of (unat b)) bs), b64_decode = (\<lambda>s. Ok (string_bytes s)),
      hmac_sha256 = (\<lambda>key text. string_bytes (key @ text)), canonical_json = (\<lambda>v. Err ''none''),
      json_from_slice = (\<lambda>bs. Err ''none''), parse_rfc3339 = (\<lambda>s. Ok 10),
      format_rfc3339 = (\<lambda>t. Ok ''t''), now_utc = 0\<rparr>"

definition demo_push_request :: charge_request where
  "demo_push_request =
     \<lparr>cr_amount = show_u64 1000, cr_currency = ''sol'', cr_decimals = None, cr_recipient = Some ''shop'',
      cr_description = None, cr_external_id = None, cr_method_details = None\<rparr>"

definition demo_push_credential :: payment_credential where
  "demo_push_credential =
     payment_credential_new
       (to_echo (with_secret_key_full plain_codecs ''key'' ''realm'' (MethodName ''solana'') (IntentName ''charge'')
          (Base64UrlJson ''request'') (Some ''later'') None None None))
       (JObject [(''type'', JString ''signature''), (''signature'', JString ''sig'')])"

definition demo_json_codec :: "json json_codec" where
  "demo_json_codec = \<lparr>json_to_string = (\<lambda>v. Ok ''true''), json_from_str = (\<lambda>s. Ok (JBool True))\<rparr>"

lemma demo_native: "is_native_sol demo_push_request"
  by (simp add: is_native_sol_def demo_push_request_def) code_simp

lemma demo_push_settles:
  "settle Debug_Build charge_externs demo_tx_codecs demo_rpc demo_mpp (Signature ''sig'') demo_push_request
     method_details_default = ([], Ok ''sig'')"
proof -
  have "extract_parsed_instructions
      \<lparr>ct_json = Ok (JObject [(''message'', JObject [(''instructions'', JArray [demo_transfer_json])])]),
       ct_meta = None\<rparr> = Ok [demo_transfer_json]"
    by (simp add: extract_parsed_instructions_def get_array_def json_get_def as_array_def)
  moreover have "verify_sol_transfers [demo_transfer_json] ''shop'' 1000 [] = Ok {0}"
    by (simp add: verify_sol_transfers_def find_sol_transfer_def parsed_sol_test_def parsed_object_def
        demo_transfer_json_def json_get_def as_object_def member_of_def as_str_def as_u64_def number_as_u64_def)
  moreover have "validate_parsed_instruction_allowlist charge_externs [demo_transfer_json] {0} None [] None None [] = Ok ()"
    by (simp add: validate_parsed_instruction_allowlist_def parsed_check_allowed_def parsed_program_id_def
        demo_transfer_json_def json_get_def as_str_def)
  moreover have "primary_amount_of Debug_Build demo_push_request [] = Ok 1000"
    by (simp add: primary_amount_of_def demo_push_request_def split_amounts_def map_filter_simps
        checked_sub_u64_def)
  ultimately show ?thesis
    by (simp add: settle_def verify_push_def verify_on_chain_def demo_tx_codecs_def demo_rpc_def
        method_details_default_def demo_native Let_def expected_ata_creation_policy_def
        verify_parsed_memo_instructions_def expected_memos_def)
      (auto simp: demo_push_request_def)
qed

lemma demo_push_accepted:
  "verify Debug_Build charge_externs plain_codecs demo_tx_codecs demo_rpc (memory_store_ops demo_json_codec)
     demo_mpp memory_store_new demo_push_credential demo_push_request =
   (\<lparr>ms_data = [consumed_key ''sig'' \<mapsto> ''true''], ms_poisoned = False\<rparr>, [],
    Ok (receipt_success plain_codecs (MethodName ''solana'') ''sig''
      (ce_id (cred_challenge demo_push_credential))))"
proof -
  have payload: "credential_payload_of_json (cred_payload demo_push_credential) = Ok (Signature ''sig'')"
    by (simp add: demo_push_credential_def payment_credential_new_def credential_payload_of_json_def
        member_str_def struct_members_def)
  have details: "request_details demo_push_request = Ok method_details_default"
    by (simp add: request_details_def demo_push_request_def)
  have charge_name: "is_charge (IntentName ''charge'')" by code_simp
  show ?thesis
    unfolding verify_Ok_iff Let_def
    using payload details demo_push_settles
    by (auto simp: demo_push_credential_def payment_credential_new_def to_echo_def with_secret_key_full_def
        demo_mpp_def demo_push_request_def charge_name memory_store_ops_def memory_put_if_absent_def
        memory_store_new_def demo_json_codec_def plain_codecs_def intro!: exI [of _ "Signature ''sig''"])
qed

lemma verify_Ok_settled:
  "verify b X K T R ops m s credential request = (s', es, Ok r) \<Longrightarrow>
     verify_and_settle b X K T R m credential request = (es, Ok (rc_reference r))"
  by (auto simp: verify_def consume_def receipt_success_def Let_def
      split: prod.splits result.splits bool.splits)

text \<open>
  A credential that has been accepted is refused when it is presented again, to the same or another
  handler that would settle it to the same signature: the answer says that the signature is
  consumed, and the store stays as it is.
\<close>

theorem replayed_credential_refused:
  assumes "verify b X K T R (memory_store_ops J) m s credential request = (s', es, Ok r)"
    and "verify_and_settle b X K' T' R' m' credential' request' = (es', Ok (rc_reference r))"
  shows "verify b X K' T' R' (memory_store_ops J) m' s' credential' request' =
    (s', es', Err (signature_consumed ''Transaction signature already consumed''))"
proof -
  from verify_store [OF assms(1)] have put:
    "memory_put_if_absent J s (consumed_key (rc_reference r)) (JBool True) = (s', Ok True)"
    by (auto simp: memory_store_ops_def)
  then have "memory_put_if_absent J s' (consumed_key (rc_reference r)) (JBool True) = (s', Ok False)"
    by (auto simp: memory_put_if_absent_def split: result.splits if_splits option.splits)
  with assms(2) show ?thesis by (simp add: verify_def consume_def memory_store_ops_def)
qed

theorem replayed_credential_refused_witness:
  "\<exists>s. verify Debug_Build charge_externs plain_codecs demo_tx_codecs demo_rpc (memory_store_ops demo_json_codec)
     demo_mpp s demo_push_credential demo_push_request =
   (s, [], Err (signature_consumed ''Transaction signature already consumed''))"
  by (rule exI, rule replayed_credential_refused [OF demo_push_accepted verify_Ok_settled [OF demo_push_accepted]])

end
