(* ===== verification/Multi_Delegator.thy ===== *)
theory Multi_Delegator
  imports Channel_Instructions
begin

text \<open>
  \<^verbatim>\<open>rust/src/program/multi_delegator.rs\<close>: which setup transaction a pull-mode open needs, and the
  two instruction builders.
\<close>

section \<open>Setup decision\<close>

record multi_delegate_on_chain_state =
  multi_delegate_exists :: bool
  existing_delegation_cap :: "u64 option"

datatype missing_payload_reason = NoInitTx | NoUpdateTx

datatype multi_delegate_setup_action =
    AlreadySufficient
  | SubmitInit
  | SubmitUpdate
  | MissingPayload missing_payload_reason

fun missing_payload_reason_display :: "missing_payload_reason \<Rightarrow> string" where
  "missing_payload_reason_display NoInitTx =
     ''MultiDelegate PDA does not exist '' @ em_dash @ '' provide initMultiDelegateTx''"
| "missing_payload_reason_display NoUpdateTx =
     ''delegation cap insufficient '' @ em_dash @ '' provide updateDelegationTx''"

fun setup_action_display :: "multi_delegate_setup_action \<Rightarrow> string" where
  "setup_action_display AlreadySufficient =
     ''already sufficient '' @ em_dash @ '' no tx needed''"
| "setup_action_display SubmitInit = ''submit initMultiDelegateTx''"
| "setup_action_display SubmitUpdate = ''submit updateDelegationTx''"
| "setup_action_display (MissingPayload r) =
     ''missing payload: '' @ missing_payload_reason_display r"

definition assess_multi_delegate_setup ::
  "multi_delegate_on_chain_state \<Rightarrow> u64 \<Rightarrow> bool \<Rightarrow> bool \<Rightarrow> multi_delegate_setup_action" where
  "assess_multi_delegate_setup state required_cap has_init_tx has_update_tx =
     (if \<not> multi_delegate_exists state then
        (if has_init_tx then SubmitInit else MissingPayload NoInitTx)
      else
        let cap_sufficient =
              (case existing_delegation_cap state of None \<Rightarrow> False | Some cap \<Rightarrow> required_cap \<le> cap)
        in if cap_sufficient then AlreadySufficient
           else if has_update_tx then SubmitUpdate
           else MissingPayload NoUpdateTx)"

section \<open>Instruction builders\<close>

definition MULTI_DELEGATE_SEED :: "byte list" where
  "MULTI_DELEGATE_SEED = ascii_bytes ''MultiDelegate''"

definition DELEGATION_SEED :: "byte list" where
  "DELEGATION_SEED = ascii_bytes ''delegation''"

definition find_multi_delegate_pda ::
  "externs \<Rightarrow> pubkey \<Rightarrow> pubkey \<Rightarrow> pubkey \<Rightarrow> pubkey \<times> byte" where
  "find_multi_delegate_pda X user mint program_id =
     find_program_address X [MULTI_DELEGATE_SEED, pubkey_bytes user, pubkey_bytes mint] program_id"

definition find_fixed_delegation_pda ::
  "externs \<Rightarrow> pubkey \<Rightarrow> pubkey \<Rightarrow> pubkey \<Rightarrow> u64 \<Rightarrow> pubkey \<Rightarrow> pubkey \<times> byte" where
  "find_fixed_delegation_pda X multi_delegate delegator delegatee nonce program_id =
     find_program_address X
       [DELEGATION_SEED, pubkey_bytes multi_delegate, pubkey_bytes delegator,
        pubkey_bytes delegatee, u64_le nonce] program_id"

definition build_init_multi_delegate_ix ::
  "externs \<Rightarrow> pubkey \<Rightarrow> pubkey \<Rightarrow> pubkey \<Rightarrow> pubkey \<Rightarrow> pubkey \<Rightarrow> instruction" where
  "build_init_multi_delegate_ix X program_id user mint user_ata token_program =
     (let (multi_delegate_pda, _) = find_multi_delegate_pda X user mint program_id in
      \<lparr>ix_program_id = program_id,
       ix_accounts =
         [meta_new user True, meta_new multi_delegate_pda False, meta_readonly mint False,
          meta_new user_ata False, meta_readonly system_program_key False,
          meta_readonly token_program False],
       ix_data = [0]\<rparr>)"

definition build_create_fixed_delegation_ix ::
  "pubkey \<Rightarrow> pubkey \<Rightarrow> pubkey \<Rightarrow> pubkey \<Rightarrow> pubkey \<Rightarrow> u64 \<Rightarrow> u64 \<Rightarrow> i64 \<Rightarrow> instruction" where
  "build_create_fixed_delegation_ix program_id delegator multi_delegate_pda delegation_pda
     delegatee nonce amount expiry_ts =
     \<lparr>ix_program_id = program_id,
      ix_accounts =
        [meta_new delegator True, meta_readonly multi_delegate_pda False,
         meta_new delegation_pda False, meta_readonly delegatee False,
         meta_readonly system_program_key False],
      ix_data = 1 # u64_le nonce @ u64_le amount @ u64_le expiry_ts\<rparr>"

section \<open>What the decision guarantees\<close>

text \<open>
  The delegation that backs the session once the chosen action has run on chain: submitting
  either transaction installs a delegation of at least the required cap, doing nothing leaves
  the present one.
\<close>

definition effective_cap ::
  "multi_delegate_on_chain_state \<Rightarrow> u64 \<Rightarrow> multi_delegate_setup_action \<Rightarrow> u64 option" where
  "effective_cap state submitted_cap action =
     (case action of
        AlreadySufficient \<Rightarrow>
          (if multi_delegate_exists state then existing_delegation_cap state else None)
      | SubmitInit \<Rightarrow> Some submitted_cap
      | SubmitUpdate \<Rightarrow> Some submitted_cap
      | MissingPayload _ \<Rightarrow> None)"

lemma assess_AlreadySufficient:
  "assess_multi_delegate_setup st cap i u = AlreadySufficient \<longleftrightarrow>
     multi_delegate_exists st \<and> (\<exists>c. existing_delegation_cap st = Some c \<and> cap \<le> c)"
  by (auto simp: assess_multi_delegate_setup_def Let_def split: option.splits)

lemma assess_SubmitInit:
  "assess_multi_delegate_setup st cap i u = SubmitInit \<longleftrightarrow> \<not> multi_delegate_exists st \<and> i"
  by (auto simp: assess_multi_delegate_setup_def Let_def split: option.splits)

lemma create_fixed_delegation_data_inj:
  "ix_data (build_create_fixed_delegation_ix p d m dp de n a e) =
     ix_data (build_create_fixed_delegation_ix p' d' m' dp' de' n' a' e') \<longleftrightarrow>
   n = n' \<and> a = a' \<and> e = e'"
  by (auto simp: build_create_fixed_delegation_ix_def u64_le_inj)

end
