(* ===== verification/Charge_Amounts.thy ===== *)
theory Charge_Amounts
  imports Charge_Request
begin

text \<open>
  What \<^verbatim>\<open>parse_units\<close> of \<^verbatim>\<open>rust/src/protocol/intents/mod.rs\<close> computes: on decimal text the exact amount of
  base units, in its shortest decimal form; on other text before or after the point, that text.
\<close>

section \<open>Shortest decimal forms\<close>

lemma digit_char_value: "digit_value c = Some d \<Longrightarrow> digit_char d = c"
proof -
  assume "digit_value c = Some d"
  then have range: "48 \<le> (of_char c :: nat)" "(of_char c :: nat) \<le> 57" and d: "d = of_char c - 48"
    by (auto simp: digit_value_def Let_def split: if_splits)
  have table: "list_all (\<lambda>k. digit_char (k - 48) = char_of k) [48..<58]" by code_simp
  then have "\<forall>k \<in> set [48..<58]. digit_char (k - 48) = char_of k"
    unfolding list_all_iff .
  moreover have "(of_char c :: nat) \<in> set [48..<58]"
    using range unfolding set_upt atLeastLessThan_iff by linarith
  ultimately have "digit_char (of_char c - 48) = char_of (of_char c :: nat)" by (rule bspec)
  then show ?thesis by (simp add: d)
qed

lemma parse_digits_zeros:
  "parse_digits acc (s @ replicate k (CHR ''0'')) = map_option (\<lambda>n. n * 10 ^ k) (parse_digits acc s)"
proof -
  have "parse_digits n (replicate k (CHR ''0'')) = Some (n * 10 ^ k)" for n
  proof (induction k arbitrary: n)
    case (Suc k)
    have "digit_value (CHR ''0'') = Some 0" by code_simp
    then show ?case using Suc by (simp add: algebra_simps)
  qed simp
  then show ?thesis by (simp add: parse_digits_append split: option.splits)
qed

lemma digit_value_zero: "digit_value c = Some 0 \<longleftrightarrow> c = CHR ''0''"
proof
  assume "digit_value c = Some 0"
  then have "digit_char 0 = c" by (rule digit_char_value)
  then show "c = CHR ''0''" by (simp add: digit_char_def)
next
  assume "c = CHR ''0''"
  moreover have "digit_value (CHR ''0'') = Some 0" by code_simp
  ultimately show "digit_value c = Some 0" by simp
qed

lemma parse_digits_trim: "parse_digits 0 (trim_start_matches (CHR ''0'') s) = parse_digits 0 s"
proof (induction s)
  case (Cons c cs)
  have "digit_value (CHR ''0'') = Some 0" by code_simp
  with Cons show ?case by (simp add: trim_start_matches_def)
qed (simp add: trim_start_matches_def)

lemma show_parse_digits:
  "parse_digits 0 s = Some n \<Longrightarrow> s \<noteq> [] \<Longrightarrow> hd s \<noteq> CHR ''0'' \<Longrightarrow> n \<noteq> 0 \<and> show_nat n = s"
proof (induction s arbitrary: n rule: rev_induct)
  case (snoc c s)
  from snoc.prems(1) obtain m d where m: "parse_digits 0 s = Some m" and d: "digit_value c = Some d"
    and n: "n = 10 * m + d"
    by (auto simp: parse_digits_append split: option.splits)
  have small: "d < 10" using d by (rule digit_value_bound)
  have c: "digit_char d = c" using d by (rule digit_char_value)
  show ?case
  proof (cases "s = []")
    case True
    with snoc.prems(3) d have "d \<noteq> 0" using digit_value_zero [of c] by auto
    with True m n c small show ?thesis by (simp add: show_nat.simps [of d])
  next
    case False
    with snoc.prems(3) have "hd s \<noteq> CHR ''0''" by simp
    then have IH: "m \<noteq> 0" "show_nat m = s" using snoc.IH [OF m False] by auto
    with small n have "n div 10 = m" "n mod 10 = d" "\<not> n < 10" by auto
    with IH c show ?thesis by (simp add: show_nat.simps [of n])
  qed
qed simp

lemma trimmed_digits:
  assumes "parse_digits 0 s = Some n"
  shows "(let t = trim_start_matches (CHR ''0'') s in if t = [] then ''0'' else t) = show_nat n"
proof -
  let ?t = "trim_start_matches (CHR ''0'') s"
  have t: "parse_digits 0 ?t = Some n" using assms by (simp add: parse_digits_trim)
  show ?thesis
  proof (cases "?t = []")
    case True
    with t have "n = 0" by simp
    with True show ?thesis by (simp add: show_nat.simps [of 0] digit_char_def)
  next
    case False
    then have "hd ?t \<noteq> CHR ''0''"
      unfolding trim_start_matches_def by (rule hd_dropWhile)
    with show_parse_digits [OF t False] False show ?thesis by (simp add: Let_def)
  qed
qed

section \<open>Human amounts in base units\<close>

lemma parse_units_point:
  assumes digits: "parse_digits 0 (i @ f) = Some n"
    and i: "CHR ''.'' \<notin> set i" and f: "length f \<le> d" and d: "d < 256"
  shows "parse_units b (i @ CHR ''.'' # f) d = Ok (show_nat (n * 10 ^ (d - length f)))"
proof -
  have len: "length f mod 4294967296 = length f" using f d by simp
  have "parse_digits 0 (i @ f @ replicate (d - length f) (CHR ''0'')) =
      Some (n * 10 ^ (d - length f))"
    using parse_digits_zeros [of 0 "i @ f" "d - length f"] digits by simp
  from trimmed_digits [OF this] show ?thesis
    unfolding parse_units_def by (auto simp: i len f Let_def not_less split: if_splits)
qed

lemma parse_digits_chars:
  "parse_digits acc s = Some n \<Longrightarrow> c \<in> set s \<Longrightarrow> digit_value c \<noteq> None"
  by (induction acc s rule: parse_digits.induct) (auto split: option.splits)

lemma parse_digits_no_point: "parse_digits acc s = Some n \<Longrightarrow> CHR ''.'' \<notin> set s"
proof
  assume "parse_digits acc s = Some n" and "CHR ''.'' \<in> set s"
  then have "digit_value (CHR ''.'') \<noteq> None" by (rule parse_digits_chars)
  moreover have "digit_value (CHR ''.'') = None" by code_simp
  ultimately show False by simp
qed

lemma u128_result_small: "n < 2 ^ 128 \<Longrightarrow> u128_result b n = Ok n"
  by (simp add: u128_result_def)

lemma parse_units_whole:
  assumes "parse_uint 128 s = Some v" and "v * 10 ^ d < 2 ^ 128" and "10 ^ d < (2::nat) ^ 128"
    and "CHR ''.'' \<notin> set s"
  shows "parse_units b s d = Ok (show_nat (v * 10 ^ d))"
proof -
  have "split_once (CHR ''.'') s = None" using assms(4) by (simp add: split_once_None)
  then show ?thesis unfolding parse_units_def
    by (simp only: option.case assms(1) ok_or_simps rbind.simps
        u128_result_small [OF assms(3)] u128_result_small [OF assms(2)])
qed

lemma parse_uint_digits: "parse_digits 0 w = Some m \<Longrightarrow> w \<noteq> [] \<Longrightarrow> parse_uint k w = (if m < 2 ^ k then Some m else None)"
proof -
  assume digits: "parse_digits 0 w = Some m" and "w \<noteq> []"
  then have "digit_value (hd w) \<noteq> None" by (intro parse_digits_chars [OF digits]) simp
  moreover have "digit_value (CHR ''+'') = None" by code_simp
  ultimately have "hd w \<noteq> CHR ''+''" by auto
  with digits \<open>w \<noteq> []\<close> show ?thesis by (cases w) (auto simp: parse_uint_def)
qed

lemma parse_units_whole_overflow:
  assumes "parse_uint 128 w = Some m" and "2 ^ 128 \<le> m * 10 ^ d \<or> 2 ^ 128 \<le> (10 :: nat) ^ d"
    and "CHR ''.'' \<notin> set w"
  shows "parse_units Debug_Build w d = Panic"
proof -
  have "split_once (CHR ''.'') w = None" using assms(3) by (simp add: split_once_None)
  moreover have "(u128_result Debug_Build (10 ^ d) :: (nat, error) result) =
      (if (10 :: nat) ^ d < 2 ^ 128 then Ok (10 ^ d) else Panic)"
    by (simp add: u128_result_def)
  moreover have "(u128_result Debug_Build (m * 10 ^ d) :: (nat, error) result) = Panic" if "(10 :: nat) ^ d < 2 ^ 128"
    using assms(2) that by (simp add: u128_result_def)
  ultimately show ?thesis unfolding parse_units_def
    by (cases "(10 :: nat) ^ d < 2 ^ 128")
      (simp_all only: option.case assms(1) ok_or_simps rbind.simps if_True if_False simp_thms)
qed

text \<open>
  C28. A decimal amount becomes exactly its number of base units.  Written with a point and at most \<^verbatim>\<open>decimals\<close>
  digits after it, it is the digits before and after the point as one number times the power of ten that is
  missing, at any size; with more digits it is refused.  Written without a point, it is the number times the
  power of ten as long as both fit 128 bits; beyond that a build with overflow checks panics, and a number that
  does not fit itself is refused.
\<close>

theorem parse_units_exact:
  assumes "parse_digits 0 (i @ f) = Some n" and "d < 256" and "length f < 2 ^ 32"
    and "parse_digits 0 w = Some m" and "w \<noteq> []"
  shows "parse_units b (i @ CHR ''.'' # f) d =
      (if length f \<le> d then Ok (show_nat (n * 10 ^ (d - length f)))
       else Err (Other (''Too many decimal places: '' @ show_nat (length f) @ '' > '' @ show_nat d))) \<and>
    (m * 10 ^ d < 2 ^ 128 \<and> 10 ^ d < (2 :: nat) ^ 128 \<longrightarrow> parse_units b w d = Ok (show_nat (m * 10 ^ d))) \<and>
    (m < 2 ^ 128 \<and> (2 ^ 128 \<le> m * 10 ^ d \<or> 2 ^ 128 \<le> (10 :: nat) ^ d) \<longrightarrow>
       parse_units Debug_Build w d = Panic) \<and>
    (2 ^ 128 \<le> m \<longrightarrow> parse_units b w d = Err (Other (''Invalid amount: '' @ w)))"
proof (intro conjI impI)
  have i: "CHR ''.'' \<notin> set i" and w: "CHR ''.'' \<notin> set w"
    using parse_digits_no_point [OF assms(1)] parse_digits_no_point [OF assms(4)] by simp_all
  show "parse_units b (i @ CHR ''.'' # f) d =
      (if length f \<le> d then Ok (show_nat (n * 10 ^ (d - length f)))
       else Err (Other (''Too many decimal places: '' @ show_nat (length f) @ '' > '' @ show_nat d)))"
  proof (cases "length f \<le> d")
    case True
    then show ?thesis using parse_units_point [OF assms(1) i _ assms(2)] by simp
  next
    case False
    have "length f mod 4294967296 = length f" using assms(3) by simp
    with False i show ?thesis by (simp add: parse_units_def)
  qed
  show "parse_units b w d = Ok (show_nat (m * 10 ^ d))"
    if "m * 10 ^ d < 2 ^ 128 \<and> 10 ^ d < (2 :: nat) ^ 128"
  proof -
    have "m * 1 \<le> m * 10 ^ d" by (rule mult_le_mono2) simp
    with that have "m < 2 ^ 128" by linarith
    then have "parse_uint 128 w = Some m" using parse_uint_digits [OF assms(4,5), of 128] by (simp only: if_True)
    with that w show ?thesis using parse_units_whole by blast
  qed
  show "parse_units Debug_Build w d = Panic"
    if "m < 2 ^ 128 \<and> (2 ^ 128 \<le> m * 10 ^ d \<or> 2 ^ 128 \<le> (10 :: nat) ^ d)"
  proof -
    have "parse_uint 128 w = Some m" using that parse_uint_digits [OF assms(4,5), of 128] by (simp only: if_True)
    with that w show ?thesis using parse_units_whole_overflow by blast
  qed
  show "parse_units b w d = Err (Other (''Invalid amount: '' @ w))" if "2 ^ 128 \<le> m"
  proof -
    have "parse_uint 128 w = None" using that parse_uint_digits [OF assms(4,5), of 128] by (simp only: not_le [symmetric] if_False if_True simp_thms)
    moreover have "split_once (CHR ''.'') w = None" using w by (simp add: split_once_None)
    ultimately show ?thesis by (simp add: parse_units_def)
  qed
qed

theorem parse_units_exact_witness:
  "parse_units Debug_Build (''1'' @ CHR ''.'' # ''5'') 2 = Ok (show_nat 150) \<and>
   parse_units Debug_Build ''2'' 2 = Ok (show_nat 200)"
  using parse_units_exact [of "''1''" "''5''" 15 2 "''2''" 2 Debug_Build] by (simp add: digit_value_def)

text \<open>
  Text around the point is not checked to be decimal: \<^verbatim>\<open>parse_units("x.5", 1)\<close> succeeds with the
  non-numeric amount \<^verbatim>\<open>x5\<close>, while the same letter without a point is refused.
\<close>

theorem parse_units_accepts_letters:
  "parse_units b ''x.5'' 1 = Ok ''x5'' \<and>
   parse_units b ''x5'' 1 = Err (Other ''Invalid amount: x5'') \<and>
   parse_u64 ''x5'' = None"
  by (simp add: parse_units_def trim_start_matches_def parse_uint_def parse_u64_def digit_value_def)

end
