(* ===== verification/Charge_Issued.thy ===== *)
theory Charge_Issued
  imports Charge_Server_Properties Protocol_Properties Charge_Amounts
begin

text \<open>
  What a server puts into a challenge is what it verifies a credential against: the request and the
  method details survive canonical JSON and base64url, the id and the pinned fields pass their checks,
  and settlement starts with the amounts, splits and accounts of the challenge.
\<close>

section \<open>Optional members\<close>

lemma member_opt_absent:
  assumes "distinct (map fst ms)" and "map_of ms key = None"
  shows "member_opt read (sort_key fst (map (map_prod id canonical) ms)) key = Ok None"
  using assms by (simp add: member_opt_def map_of_canonical)

lemma member_opt_present:
  assumes "distinct (map fst ms)" and "map_of ms key = Some v" and "canonical v \<noteq> JNull"
  shows "member_opt read (sort_key fst (map (map_prod id canonical) ms)) key =
    rbind (read (canonical v)) (\<lambda>x. Ok (Some x))"
  using assms by (auto simp: member_opt_def map_of_canonical split: json.splits)

lemma canonical_JNull [simp]: "canonical v = JNull \<longleftrightarrow> v = JNull"
  by (cases v) auto

text \<open>An optional member whose value is written by \<open>w\<close> and read by \<open>r\<close>.\<close>

lemma member_opt_canonical:
  assumes "distinct (map fst ms)" and "map_of ms key = map_option w v"
    and "\<And>x. v = Some x \<Longrightarrow> w x \<noteq> JNull \<and> r (canonical (w x)) = Ok x"
  shows "member_opt r (sort_key fst (map (map_prod id canonical) ms)) key = Ok v"
proof (cases v)
  case None
  with assms(1,2) show ?thesis by (simp add: member_opt_absent)
next
  case (Some x)
  with assms(1,2) assms(3) [OF Some] show ?thesis by (simp add: member_opt_present)
qed

section \<open>The request\<close>

lemma charge_request_roundtrip:
  assumes "cr_method_details r \<noteq> Some JNull"
  shows "charge_request_of_json (canonical (charge_request_to_json r)) =
    Ok (r\<lparr>cr_decimals := None, cr_method_details := map_option canonical (cr_method_details r)\<rparr>)"
proof -
  let ?ms = "[(''amount'', JString (cr_amount r)), (''currency'', JString (cr_currency r))] @
              opt_member ''recipient'' (cr_recipient r) @
              opt_member ''description'' (cr_description r) @
              opt_member ''externalId'' (cr_external_id r) @
              (case cr_method_details r of Some d \<Rightarrow> [(''methodDetails'', d)] | None \<Rightarrow> [])"
  let ?cs = "sort_key fst (map (map_prod id canonical) ?ms)"
  have d: "distinct (map fst ?ms)" by (auto simp: opt_member_def split: option.splits)
  have req: "member_str ?cs ''amount'' = Ok (cr_amount r)"
    "member_str ?cs ''currency'' = Ok (cr_currency r)"
    by (rule member_str_canonical [OF d], simp)+
  have opt: "member_opt_str ?cs ''recipient'' = Ok (cr_recipient r)"
    "member_opt_str ?cs ''description'' = Ok (cr_description r)"
    "member_opt_str ?cs ''externalId'' = Ok (cr_external_id r)"
    by (rule member_opt_str_canonical [OF d], simp add: opt_member_def split: option.splits)+
  have lookup: "map_of ?ms ''methodDetails'' = cr_method_details r"
    by (simp add: opt_member_def split: option.splits)
  have det: "member_opt Ok ?cs ''methodDetails'' = Ok (map_option canonical (cr_method_details r))"
  proof (cases "cr_method_details r")
    case None
    then show ?thesis using member_opt_absent [OF d, of "''methodDetails''"] lookup by simp
  next
    case (Some v)
    then show ?thesis using member_opt_present [OF d, of "''methodDetails''" v Ok] lookup assms by simp
  qed
  have canon: "canonical (charge_request_to_json r) = JObject ?cs"
    by (simp only: charge_request_to_json_def canonical.simps)
  show ?thesis
    unfolding canon charge_request_of_json_def struct_members_def json.case rbind.simps req opt det
    by simp
qed

lemma decode_from_typed_request:
  assumes "codecs_lawful K" and "from_typed_request K r = Ok encoded"
    and "cr_method_details r \<noteq> Some JNull"
  shows "decode_request K encoded =
    Ok (r\<lparr>cr_decimals := None, cr_method_details := map_option canonical (cr_method_details r)\<rparr>)"
proof -
  from assms(2) obtain t where t: "canonical_json K (charge_request_to_json r) = Ok t"
    and e: "encoded = Base64UrlJson (base64url_encode K (string_bytes t))"
    by (auto simp: from_typed_request_def)
  from assms(1) t have "json_from_slice K (string_bytes t) = Ok (canonical (charge_request_to_json r))"
    by (simp add: codecs_lawful_def)
  then show ?thesis
    by (simp add: decode_request_def e lawful_decode [OF assms(1)] charge_request_roundtrip assms(3))
qed

section \<open>Splits and method details\<close>

lemma split_roundtrip: "split_of_json (canonical (split_to_json s)) = Ok s"
proof -
  let ?ms = "[(''recipient'', JString (sp_recipient s)), (''amount'', JString (sp_amount s))] @
              (case sp_ata_creation_required s of
                 Some b \<Rightarrow> [(''ataCreationRequired'', JBool b)] | None \<Rightarrow> []) @
              opt_member ''label'' (sp_label s) @ opt_member ''memo'' (sp_memo s)"
  let ?cs = "sort_key fst (map (map_prod id canonical) ?ms)"
  have d: "distinct (map fst ?ms)" by (auto simp: opt_member_def split: option.splits)
  have req: "member_str ?cs ''recipient'' = Ok (sp_recipient s)"
    "member_str ?cs ''amount'' = Ok (sp_amount s)"
    by (rule member_str_canonical [OF d], simp)+
  have ata: "member_opt json_bool ?cs ''ataCreationRequired'' = Ok (sp_ata_creation_required s)"
    by (rule member_opt_canonical [OF d, where w = JBool])
      (simp_all add: opt_member_def json_bool_def as_bool_def split: option.splits)
  have opt: "member_opt_str ?cs ''label'' = Ok (sp_label s)" "member_opt_str ?cs ''memo'' = Ok (sp_memo s)"
    by (rule member_opt_str_canonical [OF d], simp add: opt_member_def split: option.splits)+
  have canon: "canonical (split_to_json s) = JObject ?cs" by (simp only: split_to_json_def canonical.simps)
  show ?thesis
    unfolding canon split_of_json_def struct_members_def json.case rbind.simps req ata opt by simp
qed

lemma splits_roundtrip: "json_splits (canonical (JArray (map split_to_json ss))) = Ok ss"
proof -
  have "collect_results split_of_json (map canonical (map split_to_json ss)) = Ok ss"
    by (induction ss) (simp_all add: split_roundtrip)
  then show ?thesis by (simp add: json_splits_def as_array_def comp_def)
qed

definition issued_details :: "externs \<Rightarrow> rpc_client \<Rightarrow> mpp \<Rightarrow> charge_options \<Rightarrow> method_details" where
  "issued_details X R m options =
     \<lparr>md_network = Some (mpp_network m), md_decimals = Some (ucast (mpp_decimals m)),
      md_token_program =
        (if to_uppercase (mpp_currency m) = ''SOL'' then None
         else Some (default_token_program_for_currency (mpp_currency m) (Some (mpp_network m)))),
      md_fee_payer = (if co_fee_payer options \<or> mpp_fee_payer m then Some True else None),
      md_fee_payer_key =
        (if co_fee_payer options \<or> mpp_fee_payer m
         then map_option (\<lambda>s. pubkey_string X (sg_pubkey s)) (mpp_fee_payer_signer m) else None),
      md_splits = (if co_splits options = [] then None else Some (co_splits options)),
      md_recent_blockhash = ok_value (rpc_latest_blockhash R)\<rparr>"

lemma ok_value_member:
  "(case r of Ok h \<Rightarrow> [(k, JString h)] | _ \<Rightarrow> []) = opt_member k (ok_value r)"
  by (cases r) (simp_all add: opt_member_def)

lemma u8_of_u32: "unat (n :: u32) < 256 \<Longrightarrow> json_u8 (JNumber (PosInt (ucast n))) = Ok (ucast n)"
proof -
  assume small: "unat n < 256"
  have up: "unat (ucast n :: u64) = unat n"
    using unat_lt [of n] by (simp add: unsigned_ucast_eq take_bit_nat_eq_self)
  with small have "(ucast n :: u64) < 256" by (simp add: word_less_nat_alt)
  moreover have "ucast (ucast n :: u64) = (ucast n :: byte)"
    by (metis of_nat_unat up)
  ultimately show ?thesis by (simp add: json_u8_def as_u64_def number_as_u64_def)
qed

lemma charge_details_roundtrip:
  assumes "unat (mpp_decimals m) < 256"
  shows "method_details_of_json (canonical (charge_details X R m options)) =
    Ok (issued_details X R m options)"
proof -
  define fee where "fee = (co_fee_payer options \<or> mpp_fee_payer m)"
  define key where "key = (if fee then map_option (\<lambda>s. pubkey_string X (sg_pubkey s)) (mpp_fee_payer_signer m) else None)"
  define program where "program = (if to_uppercase (mpp_currency m) = ''SOL'' then None
    else Some (default_token_program_for_currency (mpp_currency m) (Some (mpp_network m))))"
  define splits where "splits = (if co_splits options = [] then None else Some (co_splits options))"
  define ms where "ms = [(''network'', JString (mpp_network m)),
      (''decimals'', JNumber (PosInt (ucast (mpp_decimals m))))] @
      (if fee then [(''feePayer'', JBool True)] else []) @ opt_member ''feePayerKey'' key @
      opt_member ''tokenProgram'' program @
      (case splits of Some ss \<Rightarrow> [(''splits'', JArray (map split_to_json ss))] | None \<Rightarrow> []) @
      opt_member ''recentBlockhash'' (ok_value (rpc_latest_blockhash R))"
  let ?cs = "sort_key fst (map (map_prod id canonical) ms)"
  have json: "charge_details X R m options = JObject ms"
    unfolding charge_details_def ok_value_member
    by (simp add: ms_def fee_def key_def program_def splits_def opt_member_def split: option.splits)
  have d: "distinct (map fst ms)" by (auto simp: ms_def opt_member_def split: option.splits)
  have look: "map_of ms ''network'' = Some (JString (mpp_network m))"
    "map_of ms ''decimals'' = Some (JNumber (PosInt (ucast (mpp_decimals m))))"
    "map_of ms ''feePayer'' = map_option JBool (if fee then Some True else None)"
    "map_of ms ''feePayerKey'' = map_option JString key"
    "map_of ms ''tokenProgram'' = map_option JString program"
    "map_of ms ''splits'' = map_option (\<lambda>ss. JArray (map split_to_json ss)) splits"
    "map_of ms ''recentBlockhash'' = map_option JString (ok_value (rpc_latest_blockhash R))"
    by (simp_all add: ms_def opt_member_def split: option.splits)
  have read: "member_opt_str ?cs ''network'' = Ok (Some (mpp_network m))"
    "member_opt_str ?cs ''feePayerKey'' = Ok key"
    "member_opt_str ?cs ''tokenProgram'' = Ok program"
    "member_opt_str ?cs ''recentBlockhash'' = Ok (ok_value (rpc_latest_blockhash R))"
    by (rule member_opt_str_canonical [OF d], simp add: look)+
  have dec: "member_opt json_u8 ?cs ''decimals'' = Ok (Some (ucast (mpp_decimals m)))"
    using member_opt_present [OF d look(2), of json_u8] u8_of_u32 [OF assms] by simp
  have fee: "member_opt json_bool ?cs ''feePayer'' = Ok (if fee then Some True else None)"
    by (rule member_opt_canonical [OF d look(3)]) (simp add: json_bool_def as_bool_def split: if_splits)
  have spl: "member_opt json_splits ?cs ''splits'' = Ok splits"
    by (rule member_opt_canonical [OF d look(6)]) (use splits_roundtrip in simp)
  have canon: "canonical (charge_details X R m options) = JObject ?cs" by (simp only: json canonical.simps)
  show ?thesis
    unfolding canon method_details_of_json_def struct_members_def json.case rbind.simps read dec fee spl
    by (simp add: issued_details_def fee_def key_def program_def splits_def)
qed

section \<open>From challenge to settlement\<close>

definition issued_request ::
  "externs \<Rightarrow> rpc_client \<Rightarrow> mpp \<Rightarrow> string \<Rightarrow> charge_options \<Rightarrow> charge_request" where
  "issued_request X R m units options =
     (charge_request_for X R m units options)
       \<lparr>cr_method_details := Some (canonical (charge_details X R m options))\<rparr>"

lemma issued_request_details:
  "unat (mpp_decimals m) < 256 \<Longrightarrow>
     request_details (issued_request X R m units options) = Ok (issued_details X R m options)"
  by (simp add: request_details_def issued_request_def charge_details_roundtrip)

lemma charge_with_options_Ok:
  assumes "charge_with_options b X K R m amount options = Ok c"
  obtains units encoded expires where
    "parse_units b amount (unat (ucast (mpp_decimals m) :: byte)) = Ok units"
    and "from_typed_request K (charge_request_for X R m units options) = Ok encoded"
    and "c = with_secret_key_full K (mpp_secret_key m) (mpp_realm m) (method_name_new METHOD_NAME)
           (intent_name_new ''charge'') encoded (Some expires) None (co_description options) None"
  using assms that by (auto simp: charge_with_options_def Let_def)

lemma issued_challenge_decodes:
  assumes "codecs_lawful K" and "charge_with_options b X K R m amount options = Ok c"
  obtains units where "parse_units b amount (unat (ucast (mpp_decimals m) :: byte)) = Ok units"
    and "decode_request K (pc_request c) = Ok (issued_request X R m units options)"
proof -
  from charge_with_options_Ok [OF assms(2)] obtain units encoded expires where
    units: "parse_units b amount (unat (ucast (mpp_decimals m) :: byte)) = Ok units"
    and enc: "from_typed_request K (charge_request_for X R m units options) = Ok encoded"
    and c: "c = with_secret_key_full K (mpp_secret_key m) (mpp_realm m) (method_name_new METHOD_NAME)
           (intent_name_new ''charge'') encoded (Some expires) None (co_description options) None" .
  have "decode_request K encoded = Ok (issued_request X R m units options)"
    using decode_from_typed_request [OF assms(1) enc]
    by (simp add: charge_request_for_def issued_request_def charge_details_def)
  with units show thesis by (intro that) (simp_all add: c with_secret_key_full_def)
qed

lemma issued_names:
  "method_str (method_name_new METHOD_NAME) = METHOD_NAME" "is_charge (intent_name_new ''charge'')"
  by (simp_all add: METHOD_NAME_def, code_simp+)

lemma compute_challenge_id_clock [simp]:
  "compute_challenge_id (K\<lparr>now_utc := t\<rparr>) = compute_challenge_id K"
  by (simp add: compute_challenge_id_def base64url_encode_def fun_eq_iff)

lemma decode_request_clock [simp]: "decode_request (K\<lparr>now_utc := t\<rparr>) = decode_request K"
  by (simp add: decode_request_def base64url_decode_def fun_eq_iff)

definition unexpired_at :: "codecs \<Rightarrow> int \<Rightarrow> payment_challenge \<Rightarrow> bool" where
  "unexpired_at K t c = (\<not> is_expired (K\<lparr>now_utc := t\<rparr>) c)"

text \<open>The server may have asked its RPC for another blockhash in the meantime.\<close>

lemma issued_challenge_settles:
  assumes "codecs_lawful K" and "unat (mpp_decimals m) < 256"
    and "charge_with_options b X K R m amount options = Ok c"
    and "cred_challenge credential = to_echo c" and "unexpired_at K t c"
    and "credential_payload_of_json (cred_payload credential) = Ok payload"
  shows "\<exists>units. parse_units b amount (unat (ucast (mpp_decimals m) :: byte)) = Ok units \<and>
    credential_request (K\<lparr>now_utc := t\<rparr>) credential = Ok (issued_request X R m units options) \<and>
    (\<forall>R2. verify_and_settle b X (K\<lparr>now_utc := t\<rparr>) T R' m credential (issued_request X R2 m units options) =
      settle b X T R' m payload (issued_request X R2 m units options) (issued_details X R2 m options))"
proof -
  from charge_with_options_Ok [OF assms(3)] obtain units encoded expires where
    units: "parse_units b amount (unat (ucast (mpp_decimals m) :: byte)) = Ok units"
    and enc: "from_typed_request K (charge_request_for X R m units options) = Ok encoded"
    and c: "c = with_secret_key_full K (mpp_secret_key m) (mpp_realm m) (method_name_new METHOD_NAME)
           (intent_name_new ''charge'') encoded (Some expires) None (co_description options) None" .
  let ?r = "issued_request X R m units options"
  have "charge_details X R m options \<noteq> JNull" by (simp add: charge_details_def)
  then have "decode_request K encoded = Ok ?r"
    using decode_from_typed_request [OF assms(1) enc]
    by (simp add: charge_request_for_def issued_request_def)
  then have req: "credential_request (K\<lparr>now_utc := t\<rparr>) credential = Ok ?r"
    by (simp add: credential_request_def assms(4) c to_echo_def with_secret_key_full_def)
  from assms(5) have alive: "\<exists>e. parse_rfc3339 K expires = Ok e \<and> \<not> e \<le> t"
    by (auto simp: unexpired_at_def is_expired_def c with_secret_key_full_def split: result.splits)
  then have challenge: "check_challenge (K\<lparr>now_utc := t\<rparr>) m (cred_challenge credential) = Ok ()"
    by (auto simp: check_challenge_def assms(4) c to_echo_def with_secret_key_full_def)
  have pinned: "verify_pinned_fields m credential (issued_request X R2 m units options) = Ok ()" for R2
    by (simp add: verify_pinned_fields_def Let_def assms(4) c to_echo_def with_secret_key_full_def
        issued_names issued_request_def charge_request_for_def)
  have "verify_and_settle b X (K\<lparr>now_utc := t\<rparr>) T R' m credential (issued_request X R2 m units options) =
      settle b X T R' m payload (issued_request X R2 m units options) (issued_details X R2 m options)" for R2
    by (simp add: verify_and_settle_def challenge pinned assms(6) issued_request_details [OF assms(2)])
  with units req show ?thesis by blast
qed

text \<open>
  A credential that echoes a challenge the server issued, presented before the challenge expires, passes
  every check up to settlement, whatever its payload: its request decodes to the one issued, and
  settlement runs on that request and on the issued method details, with the same network, token
  program, fee payer and splits.
\<close>

theorem issued_challenge_reaches_settlement:
  assumes "codecs_lawful K" and "unat (mpp_decimals m) < 256"
    and "charge_with_options b X K R m amount options = Ok c"
    and "cred_challenge credential = to_echo c" and "unexpired_at K t c"
    and "credential_payload_of_json (cred_payload credential) = Ok payload"
  shows "\<exists>units. parse_units b amount (unat (ucast (mpp_decimals m) :: byte)) = Ok units \<and>
    credential_request (K\<lparr>now_utc := t\<rparr>) credential = Ok (issued_request X R m units options) \<and>
    verify_and_settle b X (K\<lparr>now_utc := t\<rparr>) T R' m credential (issued_request X R m units options) =
      settle b X T R' m payload (issued_request X R m units options) (issued_details X R m options)"
  using issued_challenge_settles [OF assms] by blast

text \<open>A shop that charges 1.5 in a token of two decimals.\<close>

definition shop :: mpp where
  "shop =
     \<lparr>mpp_rpc_url = [], mpp_realm = ''realm'', mpp_secret_key = ''key'', mpp_currency = ''sol'',
      mpp_recipient = ''shop'', mpp_decimals = 2, mpp_network = ''devnet'', mpp_fee_payer = False,
      mpp_fee_payer_signer = None, mpp_html = False\<rparr>"

definition shop_json :: json where
  "shop_json = charge_request_to_json
     (charge_request_for charge_externs demo_rpc shop (show_nat 150) charge_options_default)"

definition shop_codecs :: codecs where
  "shop_codecs =
     \<lparr>b64_encode = hex_encode, b64_decode = hex_decode,
      hmac_sha256 = (\<lambda>key text. string_bytes (key @ text)),
      canonical_json = (\<lambda>v. if v = shop_json then Ok ''q'' else Err ''not printable''),
      json_from_slice = (\<lambda>bytes. if bytes = string_bytes ''q'' then Ok (canonical shop_json) else Err ''not a value''),
      parse_rfc3339 = (\<lambda>s. Ok 10), format_rfc3339 = (\<lambda>t. Ok ''later''), now_utc = 0\<rparr>"

definition shop_challenge :: payment_challenge where
  "shop_challenge =
     with_secret_key_full shop_codecs ''key'' ''realm'' (method_name_new METHOD_NAME)
       (intent_name_new ''charge'') (Base64UrlJson (hex_encode (string_bytes ''q''))) (Some ''later'') None None None"

definition shop_credential :: payment_credential where
  "shop_credential =
     payment_credential_new (to_echo shop_challenge)
       (JObject [(''type'', JString ''signature''), (''signature'', JString ''sig'')])"

lemma shop_codecs_lawful: "codecs_lawful shop_codecs"
  by (auto simp: codecs_lawful_def shop_codecs_def hex_decode_encode hex_encode_b64url
      hex_encode_Nil split: if_splits)

lemma shop_units: "parse_units Debug_Build ''1.5'' 2 = Ok (show_nat 150)"
  using parse_units_point [of "''1''" "''5''" 15 2 Debug_Build] by (simp add: digit_value_def)

lemma shop_charges:
  "charge Debug_Build charge_externs shop_codecs demo_rpc shop ''1.5'' = Ok shop_challenge"
proof -
  have decimals: "unat (ucast (mpp_decimals shop) :: byte) = 2" by (simp add: shop_def)
  have "canonical_json shop_codecs shop_json = Ok ''q''" by (simp add: shop_codecs_def)
  then have "from_typed_request shop_codecs
      (charge_request_for charge_externs demo_rpc shop (show_nat 150) charge_options_default) =
      Ok (Base64UrlJson (hex_encode (string_bytes ''q'')))"
    by (simp add: from_typed_request_def shop_json_def base64url_encode_def shop_codecs_def)
  moreover have "expires_minutes shop_codecs 5 = (Ok ''later'' :: (string, error) result)"
    by (simp add: expires_minutes_def expires_unit_def offset_time_def in_date_range_def shop_codecs_def)
  moreover have "validate_charge_options charge_externs shop charge_options_default = Ok ()"
    by (simp add: validate_charge_options_def charge_options_default_def)
  ultimately show ?thesis
    by (simp add: charge_def charge_with_options_def decimals shop_units shop_challenge_def)
      (simp add: shop_def charge_options_default_def)
qed

theorem issued_challenge_reaches_settlement_witness:
  "\<exists>units. credential_request (shop_codecs\<lparr>now_utc := 5\<rparr>) shop_credential =
      Ok (issued_request charge_externs demo_rpc shop units charge_options_default) \<and>
    verify_and_settle Debug_Build charge_externs (shop_codecs\<lparr>now_utc := 5\<rparr>) demo_tx_codecs demo_rpc shop
        shop_credential (issued_request charge_externs demo_rpc shop units charge_options_default) =
      settle Debug_Build charge_externs demo_tx_codecs demo_rpc shop (Signature ''sig'')
        (issued_request charge_externs demo_rpc shop units charge_options_default)
        (issued_details charge_externs demo_rpc shop charge_options_default)"
proof -
  have decimals: "unat (mpp_decimals shop) < 256" by (simp add: shop_def)
  have echo: "cred_challenge shop_credential = to_echo shop_challenge"
    by (simp add: shop_credential_def payment_credential_new_def)
  have alive: "unexpired_at shop_codecs 5 shop_challenge"
    by (simp add: unexpired_at_def is_expired_def shop_challenge_def with_secret_key_full_def) (simp add: shop_codecs_def)
  have payload: "credential_payload_of_json (cred_payload shop_credential) = Ok (Signature ''sig'')"
    by (simp add: shop_credential_def payment_credential_new_def credential_payload_of_json_def
        member_str_def struct_members_def)
  from issued_challenge_reaches_settlement
    [OF shop_codecs_lawful decimals shop_charges [unfolded charge_def] echo alive payload]
  show ?thesis by blast
qed

end
