(* ===== verification/Client_Session.thy ===== *)
theory Client_Session
  imports Session_Types
begin

text \<open>
  \<^verbatim>\<open>rust/src/client/session.rs\<close> and \<^verbatim>\<open>session_consumer.rs\<close>: the client's view of an open channel, the
  vouchers it signs, and the consumer that acknowledges metered deliveries over a transport.
\<close>

section \<open>Active sessions\<close>

definition DEFAULT_VOUCHER_EXPIRES_AT :: i64 where
  "DEFAULT_VOUCHER_EXPIRES_AT = DEFAULT_SESSION_EXPIRES_AT"

record active_session =
  as_channel_id :: pubkey
  as_cumulative :: u64
  as_nonce :: u64
  as_expires_at :: i64
  as_signer :: signer

definition active_session_new :: "pubkey \<Rightarrow> signer \<Rightarrow> active_session" where
  "active_session_new channel_id signer =
     \<lparr>as_channel_id = channel_id, as_cumulative = 0, as_nonce = 0,
      as_expires_at = DEFAULT_VOUCHER_EXPIRES_AT, as_signer = signer\<rparr>"

definition new_with_expiry :: "pubkey \<Rightarrow> signer \<Rightarrow> i64 \<Rightarrow> active_session" where
  "new_with_expiry channel_id signer expires_at =
     \<lparr>as_channel_id = channel_id, as_cumulative = 0, as_nonce = 0, as_expires_at = expires_at,
      as_signer = signer\<rparr>"

definition set_expires_at :: "active_session \<Rightarrow> i64 \<Rightarrow> active_session" where
  "set_expires_at a expires_at = a\<lparr>as_expires_at := expires_at\<rparr>"

definition authorized_signer :: "externs \<Rightarrow> active_session \<Rightarrow> string" where
  "authorized_signer X a = bs58_encode X (pubkey_bytes (sg_pubkey (as_signer a)))"

definition channel_id_str :: "externs \<Rightarrow> active_session \<Rightarrow> string" where
  "channel_id_str X a = bs58_encode X (pubkey_bytes (as_channel_id a))"

definition watermark_error :: "u64 \<Rightarrow> active_session \<Rightarrow> error" where
  "watermark_error cumulative a =
     Other (''Voucher cumulative '' @ show_u64 cumulative @ '' must exceed current watermark '' @
            show_u64 (as_cumulative a))"

definition prepare_voucher ::
  "build \<Rightarrow> externs \<Rightarrow> active_session \<Rightarrow> u64 \<Rightarrow> (signed_voucher, error) result" where
  "prepare_voucher b X a cumulative =
     (if cumulative \<le> as_cumulative a then Err (watermark_error cumulative a)
      else
        rbind (add_u64 b (as_nonce a) 1) (\<lambda>nonce.
        let data = \<lparr>vd_channel_id = channel_id_str X a, vd_cumulative = show_u64 cumulative,
                    vd_expires_at = as_expires_at a, vd_nonce = Some nonce\<rparr>
        in rbind (message_bytes X data) (\<lambda>bytes.
           rbind (map_err (\<lambda>e. Other (''Signing failed: '' @ e)) (sg_sign (as_signer a) bytes)) (\<lambda>sig.
             Ok \<lparr>sv_data = data, sv_signature = bs58_encode X sig\<rparr>))))"

definition prepare_increment ::
  "build \<Rightarrow> externs \<Rightarrow> active_session \<Rightarrow> u64 \<Rightarrow> (signed_voucher, error) result" where
  "prepare_increment b X a amount =
     rbind (add_u64 b (as_cumulative a) amount) (prepare_voucher b X a)"

text \<open>
  The argument of \<^verbatim>\<open>unwrap_or\<close> is computed in every case, after the watermark has been stored.
\<close>

definition record_voucher ::
  "build \<Rightarrow> active_session \<Rightarrow> signed_voucher \<Rightarrow> active_session \<times> (unit, error) result" where
  "record_voucher b a voucher =
     (case parse_u64 (vd_cumulative (sv_data voucher)) of
        None \<Rightarrow> (a, Err (Other ''invalid voucher cumulative''))
      | Some cumulative \<Rightarrow>
          if cumulative \<le> as_cumulative a then (a, Err (watermark_error cumulative a))
          else
            let a' = a\<lparr>as_cumulative := cumulative\<rparr> in
            case add_u64 b (as_nonce a') 1 of
              Ok next_nonce \<Rightarrow>
                (a'\<lparr>as_nonce := max (as_nonce a')
                      (case vd_nonce (sv_data voucher) of Some n \<Rightarrow> n | None \<Rightarrow> next_nonce)\<rparr>, Ok ())
            | Err e \<Rightarrow> (a', Err e)
            | Panic \<Rightarrow> (a', Panic))"

definition sign_voucher ::
  "build \<Rightarrow> externs \<Rightarrow> active_session \<Rightarrow> u64 \<Rightarrow> active_session \<times> (signed_voucher, error) result" where
  "sign_voucher b X a cumulative =
     (case prepare_voucher b X a cumulative of
        Ok voucher \<Rightarrow> (let (a', r) = record_voucher b a voucher in (a', rbind r (\<lambda>_. Ok voucher)))
      | Err e \<Rightarrow> (a, Err e)
      | Panic \<Rightarrow> (a, Panic))"

definition sign_increment ::
  "build \<Rightarrow> externs \<Rightarrow> active_session \<Rightarrow> u64 \<Rightarrow> active_session \<times> (signed_voucher, error) result" where
  "sign_increment b X a amount =
     (case add_u64 b (as_cumulative a) amount of
        Ok cumulative \<Rightarrow> sign_voucher b X a cumulative
      | Err e \<Rightarrow> (a, Err e)
      | Panic \<Rightarrow> (a, Panic))"

definition voucher_action ::
  "build \<Rightarrow> externs \<Rightarrow> active_session \<Rightarrow> u64 \<Rightarrow> active_session \<times> (session_action, error) result" where
  "voucher_action b X a amount =
     (let (a', r) = sign_increment b X a amount in
      (a', rbind r (\<lambda>voucher. Ok (VoucherAction \<lparr>vp_voucher = voucher\<rparr>))))"

definition close_action ::
  "build \<Rightarrow> externs \<Rightarrow> active_session \<Rightarrow> u64 option \<Rightarrow> active_session \<times> (session_action, error) result" where
  "close_action b X a final_increment =
     (let (a', r) =
        (case final_increment of
           Some amount \<Rightarrow>
             if 0 < amount then
               (let (a', r) = sign_increment b X a amount in (a', rbind r (\<lambda>v. Ok (Some v))))
             else (a, Ok None)
         | None \<Rightarrow> (a, Ok None))
      in (a', rbind r (\<lambda>voucher.
                Ok (CloseAction \<lparr>cl_channel_id = channel_id_str X a', cl_voucher = voucher\<rparr>))))"

definition open_action :: "externs \<Rightarrow> active_session \<Rightarrow> u64 \<Rightarrow> string \<Rightarrow> session_action" where
  "open_action X a deposit open_tx_signature =
     OpenAction (open_push (channel_id_str X a) (show_u64 deposit) (authorized_signer X a) open_tx_signature)"

definition open_payment_channel_action_with_mode ::
  "externs \<Rightarrow> active_session \<Rightarrow> session_mode \<Rightarrow> u64 \<Rightarrow> string \<Rightarrow> string \<Rightarrow> string \<Rightarrow> u64 \<Rightarrow> u32 \<Rightarrow> string \<Rightarrow>
   session_action" where
  "open_payment_channel_action_with_mode X a mode deposit payer payee mint salt grace_period
     open_tx_signature =
     OpenAction (open_payment_channel_with_mode mode (channel_id_str X a) (show_u64 deposit) payer payee
       mint salt grace_period (authorized_signer X a) open_tx_signature)"

definition open_payment_channel_action ::
  "externs \<Rightarrow> active_session \<Rightarrow> u64 \<Rightarrow> string \<Rightarrow> string \<Rightarrow> string \<Rightarrow> u64 \<Rightarrow> u32 \<Rightarrow> string \<Rightarrow> session_action" where
  "open_payment_channel_action X a deposit payer payee mint salt grace_period open_tx_signature =
     open_payment_channel_action_with_mode X a Push deposit payer payee mint salt grace_period
       open_tx_signature"

definition open_pull_action ::
  "externs \<Rightarrow> active_session \<Rightarrow> u64 \<Rightarrow> string \<Rightarrow> string \<Rightarrow> session_action" where
  "open_pull_action X a approved_amount owner approve_tx_signature =
     OpenAction (open_pull (channel_id_str X a) (show_u64 approved_amount) owner (authorized_signer X a)
       approve_tx_signature)"

definition topup_action :: "externs \<Rightarrow> active_session \<Rightarrow> u64 \<Rightarrow> string \<Rightarrow> session_action" where
  "topup_action X a new_deposit topup_tx_signature =
     TopUpAction \<lparr>tu_channel_id = channel_id_str X a, tu_new_deposit = show_u64 new_deposit,
                  tu_signature = topup_tx_signature\<rparr>"

section \<open>Consumers\<close>

text \<open>
  A transport carries a commit to a server and brings back its answer.  What it does on the way is
  its own; \<open>'w\<close> is the world it acts on.
\<close>

type_synonym 'w commit_transport =
  "'w \<Rightarrow> metering_directive \<Rightarrow> commit_payload \<Rightarrow> 'w \<times> (commit_receipt, error) result"

record 'w session_consumer =
  scn_session :: active_session
  scn_transport :: "'w commit_transport"

definition session_consumer_new :: "active_session \<Rightarrow> 'w commit_transport \<Rightarrow> 'w session_consumer" where
  "session_consumer_new a transport = \<lparr>scn_session = a, scn_transport = transport\<rparr>"

definition validate_directive ::
  "externs \<Rightarrow> 'w session_consumer \<Rightarrow> metering_directive \<Rightarrow> (unit, error) result" where
  "validate_directive X consumer directive =
     (let channel_id = channel_id_str X (scn_session consumer) in
      if mdv_session_id directive \<noteq> channel_id then
        Err (Other (''metered delivery session '' @ mdv_session_id directive @
                    '' does not match active session '' @ channel_id))
      else Ok ())"

record ('w, 'p) metered_delivery =
  del_consumer :: "'w session_consumer"
  del_payload :: 'p
  del_metering :: metering_directive

definition consumer_accept ::
  "externs \<Rightarrow> 'w session_consumer \<Rightarrow> 'p metered_envelope \<Rightarrow> (('w, 'p) metered_delivery, error) result" where
  "consumer_accept X consumer envelope =
     rbind (validate_directive X consumer (me_metering envelope)) (\<lambda>_.
       Ok \<lparr>del_consumer = consumer, del_payload = me_payload envelope,
           del_metering = me_metering envelope\<rparr>)"

text \<open>Checks and signing; the voucher is not yet recorded.\<close>

definition commit_payload_for ::
  "build \<Rightarrow> externs \<Rightarrow> 'w session_consumer \<Rightarrow> metering_directive \<Rightarrow> (commit_payload, error) result" where
  "commit_payload_for b X consumer directive =
     rbind (validate_directive X consumer directive) (\<lambda>_.
     rbind (directive_amount_base_units directive) (\<lambda>amount.
     if amount = 0 then Err (Other ''metered delivery amount must be greater than zero'')
     else
       rbind (prepare_increment b X (scn_session consumer) amount) (\<lambda>voucher.
         Ok \<lparr>cp_delivery_id = mdv_delivery_id directive, cp_voucher = voucher\<rparr>)))"

definition commit_directive ::
  "build \<Rightarrow> externs \<Rightarrow> 'w \<Rightarrow> 'w session_consumer \<Rightarrow> metering_directive \<Rightarrow>
   'w \<times> 'w session_consumer \<times> (commit_receipt, error) result" where
  "commit_directive b X w consumer directive =
     (case commit_payload_for b X consumer directive of
        Err e \<Rightarrow> (w, consumer, Err e)
      | Panic \<Rightarrow> (w, consumer, Panic)
      | Ok payload \<Rightarrow>
          (case scn_transport consumer w directive payload of
             (w', Err e) \<Rightarrow> (w', consumer, Err e)
           | (w', Panic) \<Rightarrow> (w', consumer, Panic)
           | (w', Ok receipt) \<Rightarrow>
               (let (a', r) = record_voucher b (scn_session consumer) (cp_voucher payload) in
                (w', consumer\<lparr>scn_session := a'\<rparr>, rbind r (\<lambda>_. Ok receipt)))))"

definition delivery_ack ::
  "build \<Rightarrow> externs \<Rightarrow> 'w \<Rightarrow> ('w, 'p) metered_delivery \<Rightarrow>
   'w \<times> 'w session_consumer \<times> (commit_receipt, error) result" where
  "delivery_ack b X w d = commit_directive b X w (del_consumer d) (del_metering d)"

definition delivery_commit ::
  "build \<Rightarrow> externs \<Rightarrow> 'w \<Rightarrow> ('w, 'p) metered_delivery \<Rightarrow>
   'w \<times> 'w session_consumer \<times> (commit_receipt, error) result" where
  "delivery_commit b X w d = delivery_ack b X w d"

definition into_parts :: "('w, 'p) metered_delivery \<Rightarrow> 'p \<times> metering_directive" where
  "into_parts d = (del_payload d, del_metering d)"

end
