(* ===== verification/Client_Server.thy ===== *)
theory Client_Server
  imports Client_Session Session_Contracts
begin

text \<open>
  The session client against the session server: metered commits over a network that loses requests
  and answers, and plain vouchers.  The lemmas hold for every channel store that keeps the contract.
\<close>

section \<open>Vouchers the client signs\<close>

lemma prepare_voucher_Ok:
  assumes "prepare_voucher b X a n = Ok v"
  shows "as_cumulative a < n" and "vd_channel_id (sv_data v) = channel_id_str X a"
    and "parse_u64 (vd_cumulative (sv_data v)) = Some n"
    and "vd_expires_at (sv_data v) = as_expires_at a"
  using assms by (auto simp: prepare_voucher_def Let_def split: if_splits)

text \<open>In either build a signed increment does not wrap: a wrapped sum is not above the watermark.\<close>

lemma prepare_increment_Ok:
  assumes "prepare_increment b X a amount = Ok v"
  obtains n where "prepare_voucher b X a n = Ok v" and "n = as_cumulative a + amount"
    and "as_cumulative a < n" and "unat n = unat (as_cumulative a) + unat amount"
proof -
  from assms obtain n where n: "add_u64 b (as_cumulative a) amount = (Ok n :: (u64, error) result)"
    and v: "prepare_voucher b X a n = Ok v" by (auto simp: prepare_increment_def)
  have sum: "n = as_cumulative a + amount"
    using n by (auto simp: add_u64_def split: if_splits build.splits)
  have above: "as_cumulative a < n" using prepare_voucher_Ok(1) [OF v] .
  have "unat (as_cumulative a) + unat amount < 2 ^ 64"
  proof (rule ccontr)
    assume "\<not> unat (as_cumulative a) + unat amount < 2 ^ 64"
    then have wrap: "2 ^ 64 \<le> unat (as_cumulative a) + unat amount" by simp
    have "unat n = (unat (as_cumulative a) + unat amount) mod 2 ^ 64"
      by (simp add: sum unat_word_ariths)
    also have "\<dots> = unat (as_cumulative a) + unat amount - 2 ^ 64"
      using wrap unat_lt [of "as_cumulative a"] unat_lt [of amount]
      by (simp add: mod_if)
    finally have "unat n < unat (as_cumulative a)"
      using wrap unat_lt [of amount] by simp
    with above show False by (simp add: word_less_nat_alt)
  qed
  then have "unat n = unat (as_cumulative a) + unat amount" by (simp add: sum unat_add_small)
  with v sum above that show ?thesis by blast
qed

lemma record_voucher_session:
  assumes "record_voucher b a v = (a', r)" and "parse_u64 (vd_cumulative (sv_data v)) = Some n"
    and "as_cumulative a < n"
  shows "as_cumulative a' = n" and "as_channel_id a' = as_channel_id a"
    and "as_expires_at a' = as_expires_at a" and "as_signer a' = as_signer a"
  using assms by (auto simp: record_voucher_def Let_def not_le [symmetric] split: if_splits result.splits)

lemma commit_payload_Ok:
  assumes "commit_payload_for b X consumer d = Ok p"
  obtains amount n where "directive_amount_base_units d = Ok amount"
    and "prepare_increment b X (scn_session consumer) amount = Ok (cp_voucher p)"
    and "as_cumulative (scn_session consumer) < n"
    and "unat n = unat (as_cumulative (scn_session consumer)) + unat amount"
    and "parse_u64 (vd_cumulative (sv_data (cp_voucher p))) = Some n"
    and "vd_channel_id (sv_data (cp_voucher p)) = channel_id_str X (scn_session consumer)"
    and "vd_expires_at (sv_data (cp_voucher p)) = as_expires_at (scn_session consumer)"
proof -
  from assms obtain amount v where amount: "directive_amount_base_units d = Ok amount"
    and v: "prepare_increment b X (scn_session consumer) amount = Ok v" "cp_voucher p = v"
    by (auto simp: commit_payload_for_def split: if_splits)
  from v(1) show ?thesis
  proof (rule prepare_increment_Ok)
    fix n
    assume n: "prepare_voucher b X (scn_session consumer) n = Ok v"
      and "unat n = unat (as_cumulative (scn_session consumer)) + unat amount"
    with amount v prepare_voucher_Ok [OF n] show ?thesis by (intro that [of amount n]) auto
  qed
qed

section \<open>A network between them\<close>

text \<open>
  An attempt to commit a directive, what becomes of it, and the server's clock.  A lost request never
  reaches the server; a lost answer leaves the server with the commit and the client with an error.
\<close>

datatype fate = Delivered | RequestLost | AnswerLost

record commit_attempt =
  ca_directive :: metering_directive
  ca_fate :: fate
  ca_now :: u64

definition lost_connection :: error where
  "lost_connection = Other ''commit request failed: connection lost''"

definition network_transport ::
  "('s, cell) channel_store \<Rightarrow> externs \<Rightarrow> fate \<Rightarrow> u64 \<Rightarrow> 's commit_transport" where
  "network_transport ops X fate now = (\<lambda>s directive payload.
     case fate of
       RequestLost \<Rightarrow> (s, Err lost_connection)
     | Delivered \<Rightarrow> process_commit ops (X\<lparr>clock := (\<lambda>_. now)\<rparr>) s payload
     | AnswerLost \<Rightarrow> (fst (process_commit ops (X\<lparr>clock := (\<lambda>_. now)\<rparr>) s payload), Err lost_connection))"

definition commit_over_network ::
  "build \<Rightarrow> externs \<Rightarrow> ('s, cell) channel_store \<Rightarrow> commit_attempt \<Rightarrow> 's \<times> active_session \<Rightarrow>
   ('s \<times> active_session) \<times> (commit_receipt, error) result" where
  "commit_over_network b X ops e = (\<lambda>(s, a).
     let (s', consumer, r) =
       commit_directive b X s (session_consumer_new a (network_transport ops X (ca_fate e) (ca_now e)))
         (ca_directive e)
     in ((s', scn_session consumer), r))"

definition attempt_step ::
  "build \<Rightarrow> externs \<Rightarrow> ('s, cell) channel_store \<Rightarrow> commit_attempt \<Rightarrow> 's \<times> active_session \<Rightarrow>
   's \<times> active_session" where
  "attempt_step b X ops e w = fst (commit_over_network b X ops e w)"

definition attempt_price :: "commit_attempt \<Rightarrow> nat" where
  "attempt_price e =
     (case directive_amount_base_units (ca_directive e) of Ok amount \<Rightarrow> unat amount | _ \<Rightarrow> 0)"

lemma network_transport_fates:
  "network_transport ops X RequestLost now s d p = (s, Err lost_connection)"
  "network_transport ops X Delivered now s d p = process_commit ops (X\<lparr>clock := (\<lambda>_. now)\<rparr>) s p"
  "network_transport ops X AnswerLost now s d p =
     (fst (process_commit ops (X\<lparr>clock := (\<lambda>_. now)\<rparr>) s p), Err lost_connection)"
  by (simp_all add: network_transport_def)

text \<open>The client is not ahead of the channel and at most \<open>bound\<close> behind it.\<close>

definition client_tracks :: "nat \<Rightarrow> active_session \<Rightarrow> channel_state \<Rightarrow> bool" where
  "client_tracks bound a c =
     (ledger c \<and> as_cumulative a \<le> cs_cumulative c \<and>
      unat (cs_cumulative c) \<le> unat (as_cumulative a) + bound)"

lemma process_commit_update_tracks:
  assumes "process_commit_update p n now x (Some c) = (y, Ok d)" and "client_tracks bound a c"
    and "as_cumulative a < n" and "unat n \<le> unat (as_cumulative a) + bound"
  shows "client_tracks bound a d"
    and "as_cumulative a' = n \<Longrightarrow> client_tracks bound a' d"
proof -
  have ledger: "ledger d"
    using assms(1,2) process_commit_ledger by (auto simp: client_tracks_def)
  have both: "client_tracks bound a d \<and> (as_cumulative a' = n \<longrightarrow> client_tracks bound a' d)" for a'
    using assms(1)
  proof (cases rule: process_commit_update_Ok)
    case (replay st committed)
    then have "n \<le> cs_cumulative c"
      using assms(2) find_eq_SomeD [OF replay(5)] by (auto simp: client_tracks_def ledger_def)
    with replay assms(2,3) show ?thesis by (auto simp: client_tracks_def word_le_nat_alt word_less_nat_alt)
  next
    case (fresh st pending)
    then have "cs_cumulative d = n" by simp
    with ledger assms(3,4) show ?thesis by (auto simp: client_tracks_def)
  qed
  then show "client_tracks bound a d" by blast
  from both show "as_cumulative a' = n \<Longrightarrow> client_tracks bound a' d" by blast
qed

section \<open>Honest payments\<close>

text \<open>
  What the client relies on in other crates: base58 decoding inverts encoding, the channel address is
  read back, and the signer makes 64-byte signatures that verify under its 32-byte key.
\<close>

definition keys_work :: "externs \<Rightarrow> active_session \<Rightarrow> bool" where
  "keys_work X a =
     ((\<forall>bs. bs58_decode X (bs58_encode X bs) = Ok bs) \<and>
      pubkey_from_str X (channel_id_str X a) = Ok (as_channel_id a) \<and>
      length (pubkey_bytes (sg_pubkey (as_signer a))) = 32 \<and>
      is_ok (ed25519_key_from_bytes X (pubkey_bytes (sg_pubkey (as_signer a)))) \<and>
      (\<forall>bytes. \<exists>sig. sg_sign (as_signer a) bytes = Ok sig \<and> length sig = 64 \<and>
         ed25519_verify_strict X (pubkey_bytes (sg_pubkey (as_signer a))) bytes sig))"

text \<open>Paying a list of prices, one voucher each, stopping at the first that fails.\<close>

fun pay_all ::
  "build \<Rightarrow> externs \<Rightarrow> ('s, cell) channel_store \<Rightarrow> session_config \<Rightarrow> u64 list \<Rightarrow> 's \<times> active_session \<Rightarrow>
   ('s \<times> active_session) \<times> (unit, error) result" where
  "pay_all b X ops cfg [] w = (w, Ok ())"
| "pay_all b X ops cfg (amount # amounts) (s, a) =
     (case sign_increment b X a amount of
        (a', Ok voucher) \<Rightarrow>
          (case verify_voucher ops X cfg s \<lparr>vp_voucher = voucher\<rparr> of
             (s', Ok n) \<Rightarrow> pay_all b X ops cfg amounts (s', a')
           | (s', Err e) \<Rightarrow> ((s', a'), Err e)
           | (s', Panic) \<Rightarrow> ((s', a'), Panic))
      | (a', Err e) \<Rightarrow> ((s, a'), Err e)
      | (a', Panic) \<Rightarrow> ((s, a'), Panic))"

definition in_sync :: "externs \<Rightarrow> active_session \<Rightarrow> channel_state \<Rightarrow> bool" where
  "in_sync X a c =
     (\<not> closed c \<and> cs_authorized_signer c = authorized_signer X a \<and>
      cs_cumulative c = as_cumulative a)"

lemma sign_increment_works:
  assumes keys: "keys_work X a" and fit: "unat (as_cumulative a) + unat amount < 2 ^ 64"
    and pos: "0 < amount" and nonce: "Suc (unat (as_nonce a)) < 2 ^ 64"
  obtains v a' where "sign_increment b X a amount = (a', Ok v)"
    and "parse_u64 (vd_cumulative (sv_data v)) = Some (as_cumulative a + amount)"
    and "vd_channel_id (sv_data v) = channel_id_str X a"
    and "vd_expires_at (sv_data v) = as_expires_at a"
    and "signature_valid X v (authorized_signer X a)"
    and "a' = a\<lparr>as_cumulative := as_cumulative a + amount, as_nonce := as_nonce a + 1\<rparr>"
proof -
  let ?n = "as_cumulative a + amount"
  have n: "unat ?n = unat (as_cumulative a) + unat amount" using fit by (rule unat_add_small)
  have above: "\<not> ?n \<le> as_cumulative a" using n pos by (simp add: word_le_nat_alt word_gt_0 unat_eq_0 not_le)
  have next_nonce: "add_u64 b (as_nonce a) 1 = (Ok (as_nonce a + 1) :: (u64, error) result)"
    using nonce by (intro add_u64_exact) simp
  let ?data = "\<lparr>vd_channel_id = channel_id_str X a, vd_cumulative = show_u64 ?n,
    vd_expires_at = as_expires_at a, vd_nonce = Some (as_nonce a + 1)\<rparr>"
  obtain bytes where bytes: "message_bytes X ?data = Ok bytes"
    using keys by (simp add: message_bytes_def parse_pubkey_def voucher_message_bytes_def keys_work_def)
  obtain sig where sig: "sg_sign (as_signer a) bytes = Ok sig" "length sig = 64"
    "ed25519_verify_strict X (pubkey_bytes (sg_pubkey (as_signer a))) bytes sig"
    using keys unfolding keys_work_def by blast
  let ?v = "\<lparr>sv_data = ?data, sv_signature = bs58_encode X sig\<rparr>"
  have prep: "prepare_voucher b X a ?n = Ok ?v"
    using above next_nonce bytes sig(1) by (simp add: prepare_voucher_def)
  have "unat (as_nonce a) \<le> unat (as_nonce a + 1)"
    using nonce by (simp add: unat_add_small)
  then have mx: "max (as_nonce a) (as_nonce a + 1) = as_nonce a + 1"
    by (simp add: max_def word_le_nat_alt)
  have rec: "record_voucher b a ?v = (a\<lparr>as_cumulative := ?n, as_nonce := as_nonce a + 1\<rparr>, Ok ())"
    using above next_nonce mx by (simp add: record_voucher_def)
  have "signature_valid X ?v (authorized_signer X a)"
    using keys bytes sig by (auto simp: signature_valid_def keys_work_def authorized_signer_def)
  moreover have "sign_increment b X a amount = (a\<lparr>as_cumulative := ?n, as_nonce := as_nonce a + 1\<rparr>, Ok ?v)"
    using prep rec fit by (simp add: sign_increment_def sign_voucher_def add_u64_exact)
  ultimately show ?thesis by (intro that) simp_all
qed

context session_contract
begin

lemma process_commit_effect:
  assumes "process_commit ops X s p = (s', r)"
  obtains (same) "view s' = view s" and "\<And>receipt. r = Ok receipt \<Longrightarrow> s' = s"
  | (changed) c d n now y where "view s (vd_channel_id (sv_data (cp_voucher p))) = Some c"
      and "parse_u64 (vd_cumulative (sv_data (cp_voucher p))) = Some n"
      and "process_commit_update p n now NoOutput (Some c) = (y, Ok d)"
      and "view s' = (view s)(vd_channel_id (sv_data (cp_voucher p)) \<mapsto> d)"
proof (cases "process_commit_read ops X s p")
  case (Ok read)
  obtain n answer where read: "read = (n, answer)" by fastforce
  show ?thesis
  proof (cases answer)
    case (Inl receipt)
    with Ok read assms have "s' = s" by (simp add: process_commit_def)
    then show ?thesis by (intro that(1)) simp_all
  next
    case (Inr now)
    let ?cid = "vd_channel_id (sv_data (cp_voucher p))"
    from Ok read obtain c where c: "view s ?cid = Some c"
      and n: "parse_u64 (vd_cumulative (sv_data (cp_voucher p))) = Some n"
      by (auto simp: process_commit_read_Ok)
    obtain t y r' where run: "op_update_channel ops s ?cid (process_commit_update p n now) NoOutput = (t, y, r')"
      by (metis prod_cases3)
    with Ok read Inr assms have t: "s' = t" and r: "r = rbind (map_err store_err r') (\<lambda>_. commit_receipt_of p y)"
      by (simp_all add: process_commit_def)
    from run show ?thesis
    proof (cases rule: update_effect)
      case same': same
      show ?thesis
      proof (cases "is_ok r'")
        case True
        then obtain d where d: "r' = Ok d" by (auto simp: is_ok_iff)
        with run have upd: "op_update_channel ops s ?cid (process_commit_update p n now) NoOutput = (t, y, Ok d)"
          by simp
        from update_Ok(2) [OF upd] update_Ok(3) [OF upd] c n t show ?thesis by (intro that(2)) auto
      next
        case False
        with r have "r \<noteq> Ok receipt" for receipt by (cases r') auto
        with same' t show ?thesis by (intro that(1)) auto
      qed
    next
      case (changed d)
      with c have "process_commit_update p n now NoOutput (Some c) = (y, Ok d)" by simp
      from that(2) [OF c n this] changed(3) t show ?thesis by simp
    qed
  qed
next
  case (Err e)
  with assms show ?thesis by (intro that(1)) (simp_all add: process_commit_def)
next
  case Panic
  with assms show ?thesis by (intro that(1)) (simp_all add: process_commit_def)
qed

lemma process_commit_tracks:
  assumes "process_commit ops Y s p = (s', r)"
    and "view s (vd_channel_id (sv_data (cp_voucher p))) = Some c" and "client_tracks bound a c"
    and "parse_u64 (vd_cumulative (sv_data (cp_voucher p))) = Some n"
    and "as_cumulative a < n" and "unat n \<le> unat (as_cumulative a) + bound"
  obtains d where "view s' (vd_channel_id (sv_data (cp_voucher p))) = Some d"
    and "client_tracks bound a d"
    and "\<And>receipt a'. r = Ok receipt \<Longrightarrow> as_cumulative a' = n \<Longrightarrow> client_tracks bound a' d"
proof (cases "is_ok r")
  case True
  then obtain receipt where "r = Ok receipt" by (auto simp: is_ok_iff)
  with assms(1) have "process_commit ops Y s p = (s', Ok receipt)" by simp
  then show ?thesis
  proof (cases rule: process_commit_sound)
    case (replay c' d')
    with assms(2,4) have c': "c' = c" and n: "n = cd_cumulative d'" by simp_all
    have "n \<le> cs_cumulative c"
      using assms(3) find_eq_SomeD [OF replay(4)] by (simp add: client_tracks_def ledger_def c' n)
    then have "client_tracks bound a' c" if "as_cumulative a' = n" for a'
      using that assms(3,5) by (simp add: client_tracks_def word_le_nat_alt word_less_nat_alt)
    with replay(2) assms(2,3) show ?thesis by (intro that) auto
  next
    case (fresh n' c' d')
    with assms(2,4) have eq: "c' = c" "n' = n" by simp_all
    note tracks = process_commit_update_tracks [OF fresh(7) [unfolded eq] assms(3,5,6)]
    from fresh(4) have "view s' (vd_channel_id (sv_data (cp_voucher p))) = Some d'" by simp
    from that [OF this tracks] show ?thesis by blast
  qed
next
  case False
  then have no: "r \<noteq> Ok receipt" for receipt by (auto simp: is_ok_iff)
  from assms(1) show ?thesis
  proof (cases rule: process_commit_effect)
    case same
    with assms(2,3) no show ?thesis by (intro that) auto
  next
    case (changed c' d n' now y)
    with assms(2,4) have eq: "c' = c" "n' = n" by simp_all
    note tracks = process_commit_update_tracks(1) [OF changed(3) [unfolded eq] assms(3,5,6)]
    from changed(4) have "view s' (vd_channel_id (sv_data (cp_voucher p))) = Some d" by simp
    from that [OF this tracks] no show ?thesis by blast
  qed
qed

lemma attempt_tracks:
  assumes step: "attempt_step b X ops e (s, a) = (s', a')" and price: "attempt_price e \<le> bound"
    and c: "view s (channel_id_str X a) = Some c" "client_tracks bound a c"
  shows "channel_id_str X a' = channel_id_str X a \<and>
    (\<exists>d. view s' (channel_id_str X a) = Some d \<and> client_tracks bound a' d)"
proof -
  let ?cons = "session_consumer_new a (network_transport ops X (ca_fate e) (ca_now e))"
  let ?Y = "X\<lparr>clock := (\<lambda>_. ca_now e)\<rparr>"
  note defs = attempt_step_def commit_over_network_def commit_directive_def session_consumer_new_def
  show ?thesis
  proof (cases "commit_payload_for b X ?cons (ca_directive e)")
    case (Err x)
    with step c show ?thesis by (auto simp: defs)
  next
    case Panic
    with step c show ?thesis by (auto simp: defs)
  next
    case (Ok p)
    then obtain amount n where amount: "directive_amount_base_units (ca_directive e) = Ok amount"
      and n: "as_cumulative a < n" "unat n = unat (as_cumulative a) + unat amount"
        "parse_u64 (vd_cumulative (sv_data (cp_voucher p))) = Some n"
      and cid: "vd_channel_id (sv_data (cp_voucher p)) = channel_id_str X a"
      by (rule commit_payload_Ok) (simp add: session_consumer_new_def)
    from price amount n(2) have near: "unat n \<le> unat (as_cumulative a) + bound"
      by (simp add: attempt_price_def)
    obtain s1 r1 where run: "process_commit ops ?Y s p = (s1, r1)" by fastforce
    obtain d where d: "view s1 (channel_id_str X a) = Some d" "client_tracks bound a d"
      and got: "\<And>receipt a'. r1 = Ok receipt \<Longrightarrow> as_cumulative a' = n \<Longrightarrow> client_tracks bound a' d"
      by (rule process_commit_tracks [OF run, unfolded cid, OF c n(3,1) near]) blast
    obtain a1 r2 where rec: "record_voucher b a (cp_voucher p) = (a1, r2)" by fastforce
    note a1 = record_voucher_session [OF rec n(3,1)]
    have same_id: "channel_id_str X a1 = channel_id_str X a" using a1(2) by (simp add: channel_id_str_def)
    show ?thesis
    proof (cases "ca_fate e")
      case Delivered
      show ?thesis
      proof (cases r1)
        case r1: (Ok receipt)
        with step Ok Delivered run rec have "s' = s1" "a' = a1"
          by (simp_all add: defs network_transport_fates)
        with d(1) got [OF r1 a1(1)] same_id show ?thesis by blast
      next
        case (Err x)
        with step Ok Delivered run have "s' = s1" "a' = a" by (simp_all add: defs network_transport_fates)
        with d show ?thesis by blast
      next
        case Panic
        with step Ok Delivered run have "s' = s1" "a' = a" by (simp_all add: defs network_transport_fates)
        with d show ?thesis by blast
      qed
    next
      case RequestLost
      with step Ok have "s' = s" "a' = a" by (simp_all add: defs network_transport_fates)
      with c show ?thesis by blast
    next
      case AnswerLost
      with step Ok run have "s' = s1" "a' = a" by (simp_all add: defs network_transport_fates)
      with d show ?thesis by blast
    qed
  qed
qed

lemma run_tracks:
  assumes "run_events (attempt_step b X ops) es (s, a) = (s', a')"
    and "\<forall>e \<in> set es. attempt_price e \<le> bound"
    and "view s (channel_id_str X a) = Some c" and "client_tracks bound a c"
  shows "\<exists>d. view s' (channel_id_str X a) = Some d \<and> client_tracks bound a' d"
  using assms
proof (induction es arbitrary: s a c)
  case (Cons e es)
  obtain s1 a1 where step: "attempt_step b X ops e (s, a) = (s1, a1)" by fastforce
  obtain d where d: "channel_id_str X a1 = channel_id_str X a" "view s1 (channel_id_str X a) = Some d"
    "client_tracks bound a1 d"
    using attempt_tracks [OF step _ Cons.prems(3,4)] Cons.prems(2) by auto
  from Cons.prems(1) step have "run_events (attempt_step b X ops) es (s1, a1) = (s', a')" by simp
  from Cons.IH [OF this _ _ d(3)] Cons.prems(2) d(1,2) show ?case by simp
qed auto

text \<open>
  A directive whose answer was lost, tried again: the same voucher is signed, the server answers from
  its record, and both sides end where one delivered attempt would have put them.
\<close>

lemma retry_after_lost_answer:
  assumes ok: "commit_over_network b X ops \<lparr>ca_directive = d, ca_fate = Delivered, ca_now = t\<rparr> (s, a) =
      ((s', a'), Ok r)"
    and alive: "\<not> as_expires_at a \<le>s later"
  shows "commit_over_network b X ops \<lparr>ca_directive = d, ca_fate = AnswerLost, ca_now = t\<rparr> (s, a) =
      ((s', a), Err lost_connection)"
    and "commit_over_network b X ops \<lparr>ca_directive = d, ca_fate = Delivered, ca_now = later\<rparr> (s', a) =
      ((s', a'), Ok (r\<lparr>cr_status := Replayed\<rparr>))"
proof -
  let ?Y = "\<lambda>now. X\<lparr>clock := (\<lambda>_. now)\<rparr>"
  let ?pay = "\<lambda>f t. commit_payload_for b X (session_consumer_new a (network_transport ops X f t)) d"
  note defs = commit_over_network_def commit_directive_def session_consumer_new_def
  have pay: "?pay f t' = ?pay Delivered t" for f t'
    by (simp add: commit_payload_for_def validate_directive_def session_consumer_new_def cong: if_cong)
  from ok obtain p where p: "?pay Delivered t = Ok p"
    by (cases "?pay Delivered t") (auto simp: defs)
  from ok p obtain r1 where run: "process_commit ops (?Y t) s p = (s', Ok r1)"
    and rec: "record_voucher b a (cp_voucher p) = (a', Ok ())" and r: "r = r1"
    by (auto simp: defs network_transport_fates split: prod.splits result.splits)
  have "vd_expires_at (sv_data (cp_voucher p)) = as_expires_at a"
    using p by (rule commit_payload_Ok) (simp add: session_consumer_new_def)
  with alive have "process_commit ops (?Y later) s' p = (s', Ok (r1\<lparr>cr_status := Replayed\<rparr>))"
    by (intro process_commit_replay [OF run]) simp_all
  then show "commit_over_network b X ops \<lparr>ca_directive = d, ca_fate = Delivered, ca_now = later\<rparr> (s', a) =
      ((s', a'), Ok (r\<lparr>cr_status := Replayed\<rparr>))"
    using p pay [of Delivered later] rec r by (simp add: defs network_transport_fates)
  show "commit_over_network b X ops \<lparr>ca_directive = d, ca_fate = AnswerLost, ca_now = t\<rparr> (s, a) =
      ((s', a), Err lost_connection)"
    using p pay [of AnswerLost t] run by (simp add: defs network_transport_fates)
qed

lemma pay_all_accepted:
  assumes "keys_work X a" and "healthy s" and "view s (channel_id_str X a) = Some c" and "in_sync X a c"
    and "\<not> as_expires_at a \<le>s clock X 0"
    and "\<forall>amount \<in> set amounts. 0 < amount \<and> sc_min_voucher_delta cfg \<le> amount"
    and "unat (as_cumulative a) + sum_list (map unat amounts) \<le> unat (cs_deposit c)"
    and "unat (as_nonce a) + length amounts < 2 ^ 64"
  shows "\<exists>s' a' d. pay_all b X ops cfg amounts (s, a) = ((s', a'), Ok ()) \<and>
    view s' (channel_id_str X a) = Some d \<and> in_sync X a' d \<and> cs_deposit d = cs_deposit c \<and>
    unat (as_cumulative a') = unat (as_cumulative a) + sum_list (map unat amounts)"
  using assms
proof (induction amounts arbitrary: s a c)
  case (Cons amount amounts)
  have "unat (cs_deposit c) < 2 ^ 64" using unat_lt [of "cs_deposit c"] by simp
  with Cons.prems(7) have fit: "unat (as_cumulative a) + unat amount < 2 ^ 64" by simp
  have pos: "0 < amount" and min: "sc_min_voucher_delta cfg \<le> amount" using Cons.prems(6) by simp_all
  have "Suc (unat (as_nonce a)) < 2 ^ 64" using Cons.prems(8) by simp
  then obtain v a1 where sign: "sign_increment b X a amount = (a1, Ok v)"
    and v: "parse_u64 (vd_cumulative (sv_data v)) = Some (as_cumulative a + amount)"
      "vd_channel_id (sv_data v) = channel_id_str X a" "vd_expires_at (sv_data v) = as_expires_at a"
      "signature_valid X v (authorized_signer X a)"
    and a1: "a1 = a\<lparr>as_cumulative := as_cumulative a + amount, as_nonce := as_nonce a + 1\<rparr>"
    by (rule sign_increment_works [OF Cons.prems(1) fit pos])
  let ?n = "as_cumulative a + amount"
  have n: "unat ?n = unat (as_cumulative a) + unat amount" using fit by (rule unat_add_small)
  then have less: "cs_cumulative c < ?n"
    using Cons.prems(4) pos by (simp add: in_sync_def word_less_nat_alt word_gt_0 unat_eq_0)
  moreover have "?n \<le> cs_deposit c" using n Cons.prems(7) by (simp add: word_le_nat_alt)
  ultimately have acc: "voucher_acceptable X cfg v c ?n"
    using Cons.prems(4,5) v min by (simp add: voucher_acceptable_def in_sync_def)
  obtain s1 where run: "verify_voucher ops X cfg s \<lparr>vp_voucher = v\<rparr> = (s1, Ok ?n)" and h: "healthy s1"
    and view: "view s1 = (view s)(channel_id_str X a \<mapsto> with_voucher c v ?n)"
    using verify_voucher_accepts [OF Cons.prems(2) _ acc] v(2) Cons.prems(3) by metis
  have id: "channel_id_str X a1 = channel_id_str X a" by (simp add: a1 channel_id_str_def)
  have "keys_work X a1" using Cons.prems(1) id by (simp add: keys_work_def a1)
  moreover have "view s1 (channel_id_str X a1) = Some (with_voucher c v ?n)" by (simp add: view id)
  moreover have "in_sync X a1 (with_voucher c v ?n)"
    using Cons.prems(4) less
    by (auto simp: in_sync_def with_voucher_def a1 authorized_signer_def closed_def)
  moreover have dep: "cs_deposit (with_voucher c v ?n) = cs_deposit c" by (simp add: with_voucher_def)
  moreover have "unat (as_cumulative a1) = unat (as_cumulative a) + unat amount" by (simp add: a1 n)
  moreover have "unat (as_nonce a1) + length amounts < 2 ^ 64"
    using Cons.prems(8) by (simp add: a1 unat_add_small)
  ultimately have "\<exists>s' a' d. pay_all b X ops cfg amounts (s1, a1) = ((s', a'), Ok ()) \<and>
      view s' (channel_id_str X a1) = Some d \<and> in_sync X a' d \<and>
      cs_deposit d = cs_deposit (with_voucher c v ?n) \<and>
      unat (as_cumulative a') = unat (as_cumulative a1) + sum_list (map unat amounts)"
    using Cons.prems(5,6,7) h by (intro Cons.IH) (simp_all add: a1)
  with id dep sign run n a1 show ?case by (simp add: add.assoc)
qed auto

end

end
