(* ===== verification/Client_Properties.thy ===== *)
theory Client_Properties
  imports Client_Server Session_Examples Core_Types
begin

text \<open>
  Properties of the session client together with the server, over the in-memory channel store.
\<close>

section \<open>A concrete world\<close>

text \<open>Texts are their bytes, the only good signature is 64 sevens, and it is second 100.\<close>

definition byte_text :: "byte list \<Rightarrow> string" where
  "byte_text bs = map (\<lambda>b. char_of (unat b)) bs"

lemma string_bytes_text [simp]: "string_bytes (byte_text bs) = bs"
proof (induction bs)
  case (Cons b bs)
  have "unat b < 256" using unat_lt [of b] by simp
  with Cons show ?case by (simp add: string_bytes_def byte_text_def del: of_nat_unat) simp
qed (simp add: string_bytes_def byte_text_def)

definition wallet_externs :: externs where
  "wallet_externs = demo_externs
     \<lparr>bs58_decode := (\<lambda>s. Ok (string_bytes s)), bs58_encode := byte_text,
      pubkey_from_str := (\<lambda>s. Ok (Pubkey (string_bytes s)))\<rparr>"

definition wallet :: signer where
  "wallet = \<lparr>sg_pubkey = demo_key, sg_sign = (\<lambda>bytes. Ok (replicate 64 7))\<rparr>"

definition wallet_session :: active_session where
  "wallet_session = active_session_new demo_key wallet"

definition wallet_channel :: string where
  "wallet_channel = byte_text (replicate 32 1)"

definition wallet_store :: "pending_delivery list \<Rightarrow> memory_channel_store" where
  "wallet_store ds =
     \<lparr>mcs_data = [wallet_channel \<mapsto> demo_channel\<lparr>cs_authorized_signer := wallet_channel,
        cs_pending_deliveries := ds\<rparr>], mcs_poisoned = False\<rparr>"

definition wallet_directive :: "u64 \<Rightarrow> metering_directive" where
  "wallet_directive amount =
     \<lparr>mdv_delivery_id = ''d1'', mdv_session_id = wallet_channel, mdv_amount = show_u64 amount,
      mdv_currency = ''USDC'', mdv_sequence = 1, mdv_expires_at = 4102444800, mdv_commit_url = None,
      mdv_proof = None\<rparr>"

definition wallet_reservation :: pending_delivery where
  "wallet_reservation =
     \<lparr>pd_delivery_id = ''d1'', pd_amount = 40, pd_sequence = 1, pd_expires_at = 4102444800\<rparr>"

lemma wallet_ids:
  "channel_id_str wallet_externs wallet_session = wallet_channel"
  "authorized_signer wallet_externs wallet_session = wallet_channel"
  by (simp_all add: channel_id_str_def authorized_signer_def wallet_session_def active_session_new_def
      wallet_def demo_key_def wallet_externs_def wallet_channel_def)

lemma wallet_works: "keys_work wallet_externs wallet_session"
  unfolding keys_work_def wallet_ids
  by (simp add: wallet_externs_def wallet_session_def active_session_new_def wallet_def demo_key_def
      wallet_channel_def) (simp add: demo_externs_def)

lemma wallet_sync:
  "in_sync wallet_externs wallet_session
     (demo_channel\<lparr>cs_authorized_signer := wallet_channel, cs_pending_deliveries := ds\<rparr>)"
  by (simp add: in_sync_def wallet_ids closed_def demo_channel_def)
    (simp add: wallet_session_def active_session_new_def)

section \<open>Payments that go through\<close>

text \<open>
  A client whose keys work, in step with an open channel, can spend the channel's deposit: every
  list of prices that fits it, each at least the server's minimum, is paid by one voucher per price,
  all accepted, and client and server end with the same watermark, the start plus the sum.
\<close>

theorem honest_payments_accepted:
  assumes "keys_work X a" and "mcs_data s (channel_id_str X a) = Some c" and "\<not> mcs_poisoned s"
    and "in_sync X a c" and "\<not> as_expires_at a \<le>s clock X 0"
    and "list_all (\<lambda>amount. 0 < amount \<and> sc_min_voucher_delta cfg \<le> amount) amounts"
    and "unat (as_cumulative a) + sum_list (map unat amounts) \<le> unat (cs_deposit c)"
    and "unat (as_nonce a) + length amounts < 2 ^ 64"
  shows "\<exists>s' a' d. pay_all b X memory_channel_ops cfg amounts (s, a) = ((s', a'), Ok ()) \<and>
    mcs_data s' (channel_id_str X a) = Some d \<and> in_sync X a' d \<and> cs_deposit d = cs_deposit c \<and>
    unat (as_cumulative a') = unat (as_cumulative a) + sum_list (map unat amounts)"
  using assms by (intro mem_sessions.pay_all_accepted) (simp_all add: list_all_iff)

theorem honest_payments_accepted_witness:
  "\<exists>s' a' d. pay_all Debug_Build wallet_externs memory_channel_ops demo_config [30, 60]
      (wallet_store [], wallet_session) = ((s', a'), Ok ()) \<and>
    mcs_data s' wallet_channel = Some d \<and> in_sync wallet_externs a' d \<and> cs_deposit d = 100 \<and>
    unat (as_cumulative a') = 90"
proof -
  have expiry: "\<not> as_expires_at wallet_session \<le>s clock wallet_externs 0"
    by (simp add: wallet_session_def active_session_new_def DEFAULT_VOUCHER_EXPIRES_AT_def
        wallet_externs_def)
  show ?thesis
    using honest_payments_accepted [OF wallet_works _ _ wallet_sync [of "[]"] expiry,
        of "wallet_store []" demo_config "[30, 60]" Debug_Build]
    by (simp add: wallet_ids wallet_store_def demo_channel_def demo_config_def session_config_default_def)
      (simp add: wallet_session_def active_session_new_def)
qed

section \<open>Commits over a lossy network\<close>

text \<open>
  C24. Whatever requests and answers a network loses, in any sequence of commit attempts the client's
  watermark never runs ahead of the channel's, and never falls behind it by more than the dearest
  directive it tried: a lost answer costs the client no more than the delivery it was for.
\<close>

theorem client_tracks_server_over_lossy_network:
  assumes "mcs_data s (channel_id_str X a) = Some c" and "ledger c" and "as_cumulative a = cs_cumulative c"
    and "list_all (\<lambda>e. attempt_price e \<le> bound) es"
  shows "\<exists>s' a' d. run_events (attempt_step b X memory_channel_ops) es (s, a) = (s', a') \<and>
    mcs_data s' (channel_id_str X a) = Some d \<and> as_cumulative a' \<le> cs_cumulative d \<and>
    unat (cs_cumulative d) \<le> unat (as_cumulative a') + bound"
proof -
  obtain s' a' where run: "run_events (attempt_step b X memory_channel_ops) es (s, a) = (s', a')"
    by fastforce
  have "client_tracks bound a c" using assms(2,3) by (simp add: client_tracks_def)
  with mem_sessions.run_tracks [OF run _ assms(1)] assms(4)
  have "\<exists>d. mcs_data s' (channel_id_str X a) = Some d \<and> client_tracks bound a' d"
    by (simp add: list_all_iff)
  with run show ?thesis by (auto simp: client_tracks_def)
qed

theorem client_tracks_server_over_lossy_network_witness:
  "\<exists>s' a' d. run_events (attempt_step Debug_Build wallet_externs memory_channel_ops)
      [\<lparr>ca_directive = wallet_directive 40, ca_fate = AnswerLost, ca_now = 100\<rparr>,
       \<lparr>ca_directive = wallet_directive 40, ca_fate = Delivered, ca_now = 100\<rparr>]
      (wallet_store [wallet_reservation], wallet_session) = (s', a') \<and>
    mcs_data s' wallet_channel = Some d \<and> as_cumulative a' \<le> cs_cumulative d \<and>
    unat (cs_cumulative d) \<le> unat (as_cumulative a') + 40"
proof -
  let ?c = "demo_channel\<lparr>cs_authorized_signer := wallet_channel, cs_pending_deliveries := [wallet_reservation]\<rparr>"
  have c: "mcs_data (wallet_store [wallet_reservation]) (channel_id_str wallet_externs wallet_session) = Some ?c"
    by (simp add: wallet_ids wallet_store_def)
  have "ledger ?c" by (simp add: ledger_def delivery_ids_def billed_def demo_channel_def)
  moreover have "as_cumulative wallet_session = cs_cumulative ?c"
    by (simp add: wallet_session_def active_session_new_def demo_channel_def)
  moreover have "attempt_price \<lparr>ca_directive = wallet_directive 40, ca_fate = f, ca_now = 100\<rparr> \<le> 40" for f
    by (simp add: attempt_price_def directive_amount_base_units_def wallet_directive_def)
  ultimately show ?thesis
    using client_tracks_server_over_lossy_network [OF c, of 40
        "[\<lparr>ca_directive = wallet_directive 40, ca_fate = AnswerLost, ca_now = 100\<rparr>,
          \<lparr>ca_directive = wallet_directive 40, ca_fate = Delivered, ca_now = 100\<rparr>]" Debug_Build]
    by (simp add: wallet_ids)
qed

text \<open>
  C25. A directive whose answer was lost and that is tried again ends exactly where one delivered attempt
  would have: the client, left untouched by the loss, signs the same voucher, the server answers it
  as a replay without billing again, and both states are those of the delivered attempt.
\<close>

theorem lost_answer_recovered_by_retry:
  assumes "commit_over_network b X memory_channel_ops \<lparr>ca_directive = d, ca_fate = Delivered, ca_now = t\<rparr>
      (s, a) = ((s', a'), Ok r)"
    and "\<not> as_expires_at a \<le>s later"
  shows "commit_over_network b X memory_channel_ops \<lparr>ca_directive = d, ca_fate = AnswerLost, ca_now = t\<rparr>
      (s, a) = ((s', a), Err lost_connection) \<and>
    commit_over_network b X memory_channel_ops \<lparr>ca_directive = d, ca_fate = Delivered, ca_now = later\<rparr>
      (s', a) = ((s', a'), Ok (r\<lparr>cr_status := Replayed\<rparr>))"
  using mem_sessions.retry_after_lost_answer [OF assms] by blast

lemma wallet_payload:
  "commit_payload_for Debug_Build wallet_externs
     (session_consumer_new wallet_session (network_transport memory_channel_ops wallet_externs Delivered 100))
     (wallet_directive 40) =
   Ok \<lparr>cp_delivery_id = ''d1'', cp_voucher =
     \<lparr>sv_data = \<lparr>vd_channel_id = wallet_channel, vd_cumulative = show_u64 40,
        vd_expires_at = DEFAULT_SESSION_EXPIRES_AT, vd_nonce = Some 1\<rparr>,
      sv_signature = byte_text (replicate 64 7)\<rparr>\<rparr>"
proof -
  have state: "as_cumulative wallet_session = 0" "as_nonce wallet_session = 0"
    "as_expires_at wallet_session = DEFAULT_SESSION_EXPIRES_AT" "as_signer wallet_session = wallet"
    by (simp_all add: wallet_session_def active_session_new_def DEFAULT_VOUCHER_EXPIRES_AT_def)
  have base58: "bs58_encode wallet_externs = byte_text"
    "pubkey_from_str wallet_externs t = Ok (Pubkey (string_bytes t))" for t
    by (simp_all add: wallet_externs_def)
  show ?thesis
    by (simp add: commit_payload_for_def validate_directive_def session_consumer_new_def wallet_ids
        wallet_directive_def directive_amount_base_units_def prepare_increment_def prepare_voucher_def
        state add_u64_def Let_def base58 message_bytes_def parse_pubkey_def voucher_message_bytes_def)
      (simp add: wallet_def)
qed

definition wallet_receipt :: commit_receipt where
  "wallet_receipt =
     \<lparr>cr_delivery_id = ''d1'', cr_session_id = wallet_channel, cr_amount = show_u64 40,
      cr_cumulative = show_u64 40, cr_status = Committed\<rparr>"

lemma wallet_commit:
  "\<exists>s' a'. commit_over_network Debug_Build wallet_externs memory_channel_ops
      \<lparr>ca_directive = wallet_directive 40, ca_fate = Delivered, ca_now = 100\<rparr>
      (wallet_store [wallet_reservation], wallet_session) = ((s', a'), Ok wallet_receipt)"
proof -
  let ?v = "\<lparr>sv_data = \<lparr>vd_channel_id = wallet_channel, vd_cumulative = show_u64 40,
        vd_expires_at = DEFAULT_SESSION_EXPIRES_AT, vd_nonce = Some 1\<rparr>,
      sv_signature = byte_text (replicate 64 7)\<rparr>"
  let ?p = "\<lparr>cp_delivery_id = ''d1'', cp_voucher = ?v\<rparr>"
  let ?Y = "wallet_externs\<lparr>clock := (\<lambda>_. 100)\<rparr>"
  have sig: "signature_valid ?Y ?v wallet_channel"
    by (simp add: signature_valid_def wallet_externs_def message_bytes_def parse_pubkey_def
        voucher_message_bytes_def wallet_channel_def) (simp add: demo_externs_def)
  have expiry: "\<not> DEFAULT_SESSION_EXPIRES_AT \<le>s (100 :: i64)" by simp
  have verified: "verify_signature ?Y n ?v wallet_channel = Ok ()" for n
    using sig expiry by (simp add: verify_signature_Ok)
  obtain s' where run: "process_commit memory_channel_ops ?Y (wallet_store [wallet_reservation]) ?p =
      (s', Ok wallet_receipt)"
    using verified
    by (simp add: demo_run process_commit_def wallet_store_def demo_channel_def wallet_reservation_def
        commit_receipt_of_def wallet_receipt_def)
  obtain a' where "record_voucher Debug_Build wallet_session ?v = (a', Ok ())"
    by (simp add: record_voucher_def wallet_session_def active_session_new_def add_u64_def)
  with run show ?thesis
    by (simp add: commit_over_network_def commit_directive_def wallet_payload network_transport_fates)
      (simp add: session_consumer_new_def network_transport_fates)
qed

theorem lost_answer_recovered_by_retry_witness:
  "\<exists>s' a'. commit_over_network Debug_Build wallet_externs memory_channel_ops
      \<lparr>ca_directive = wallet_directive 40, ca_fate = AnswerLost, ca_now = 100\<rparr>
      (wallet_store [wallet_reservation], wallet_session) = ((s', wallet_session), Err lost_connection) \<and>
    commit_over_network Debug_Build wallet_externs memory_channel_ops
      \<lparr>ca_directive = wallet_directive 40, ca_fate = Delivered, ca_now = 100\<rparr>
      (s', wallet_session) = ((s', a'), Ok (wallet_receipt\<lparr>cr_status := Replayed\<rparr>))"
proof -
  obtain s' a' where run: "commit_over_network Debug_Build wallet_externs memory_channel_ops
      \<lparr>ca_directive = wallet_directive 40, ca_fate = Delivered, ca_now = 100\<rparr>
      (wallet_store [wallet_reservation], wallet_session) = ((s', a'), Ok wallet_receipt)"
    using wallet_commit by blast
  have "\<not> as_expires_at wallet_session \<le>s 100"
    by (simp add: wallet_session_def active_session_new_def DEFAULT_VOUCHER_EXPIRES_AT_def)
  from lost_answer_recovered_by_retry [OF run this] show ?thesis by blast
qed

end
