(* ===== verification/Session_Json.thy ===== *)
theory Session_Json
  imports Session_Types
begin

text \<open>
  The JSON forms of the messages around a metered delivery, as serde derives them in
  \<^verbatim>\<open>rust/src/protocol/intents/session.rs\<close>: the directive and the usage the server streams, the commit the
  client posts, and the receipt it gets back.
\<close>

section \<open>Vouchers and commits\<close>

text \<open>The amount of a voucher is also read under its older name; both names at once are refused.\<close>

definition member_alias ::
  "(string \<times> json) list \<Rightarrow> string \<Rightarrow> string \<Rightarrow> (string, string) result" where
  "member_alias ms key old =
     (case (map_of ms key, map_of ms old) of
        (Some _, Some _) \<Rightarrow> Err (''duplicate field '' @ key)
      | (None, Some _) \<Rightarrow> member_str ms old
      | _ \<Rightarrow> member_str ms key)"

definition voucher_data_to_json :: "voucher_data \<Rightarrow> json" where
  "voucher_data_to_json d =
     JObject ([(''channelId'', JString (vd_channel_id d)), (''cumulativeAmount'', JString (vd_cumulative d)),
               (''expiresAt'', i64_number (vd_expires_at d))] @
              (case vd_nonce d of Some n \<Rightarrow> [(''nonce'', JNumber (PosInt n))] | None \<Rightarrow> []))"

definition voucher_data_of_json :: "json \<Rightarrow> (voucher_data, string) result" where
  "voucher_data_of_json v =
     rbind (struct_members [''channelId'', ''cumulativeAmount'', ''expiresAt'', ''nonce''] v) (\<lambda>ms.
     rbind (member_str ms ''channelId'') (\<lambda>channel_id.
     rbind (member_alias ms ''cumulativeAmount'' ''cumulative'') (\<lambda>cumulative.
     rbind (member_req json_i64 ms ''expiresAt'') (\<lambda>expires_at.
     rbind (member_opt json_u64 ms ''nonce'') (\<lambda>nonce.
       Ok \<lparr>vd_channel_id = channel_id, vd_cumulative = cumulative, vd_expires_at = expires_at,
           vd_nonce = nonce\<rparr>)))))"

definition signed_voucher_to_json :: "signed_voucher \<Rightarrow> json" where
  "signed_voucher_to_json s =
     JObject [(''data'', voucher_data_to_json (sv_data s)), (''signature'', JString (sv_signature s))]"

definition signed_voucher_of_json :: "json \<Rightarrow> (signed_voucher, string) result" where
  "signed_voucher_of_json v =
     rbind (struct_members [''data'', ''signature''] v) (\<lambda>ms.
     rbind (member_req voucher_data_of_json ms ''data'') (\<lambda>d.
     rbind (member_str ms ''signature'') (\<lambda>signature.
       Ok \<lparr>sv_data = d, sv_signature = signature\<rparr>)))"

definition commit_payload_to_json :: "commit_payload \<Rightarrow> json" where
  "commit_payload_to_json p =
     JObject [(''deliveryId'', JString (cp_delivery_id p)), (''voucher'', signed_voucher_to_json (cp_voucher p))]"

definition commit_payload_of_json :: "json \<Rightarrow> (commit_payload, string) result" where
  "commit_payload_of_json v =
     rbind (struct_members [''deliveryId'', ''voucher''] v) (\<lambda>ms.
     rbind (member_str ms ''deliveryId'') (\<lambda>delivery_id.
     rbind (member_req signed_voucher_of_json ms ''voucher'') (\<lambda>voucher.
       Ok \<lparr>cp_delivery_id = delivery_id, cp_voucher = voucher\<rparr>)))"

section \<open>Receipts\<close>

definition commit_status_name :: "commit_status \<Rightarrow> string" where
  "commit_status_name s = (case s of Committed \<Rightarrow> ''committed'' | Replayed \<Rightarrow> ''replayed'')"

definition commit_status_of_json :: "json \<Rightarrow> (commit_status, string) result" where
  "commit_status_of_json v =
     rbind (json_str v) (\<lambda>s.
       if s = ''committed'' then Ok Committed
       else if s = ''replayed'' then Ok Replayed
       else Err (''unknown variant '' @ s))"

definition commit_receipt_to_json :: "commit_receipt \<Rightarrow> json" where
  "commit_receipt_to_json r =
     JObject [(''deliveryId'', JString (cr_delivery_id r)), (''sessionId'', JString (cr_session_id r)),
              (''amount'', JString (cr_amount r)), (''cumulative'', JString (cr_cumulative r)),
              (''status'', JString (commit_status_name (cr_status r)))]"

definition commit_receipt_of_json :: "json \<Rightarrow> (commit_receipt, string) result" where
  "commit_receipt_of_json v =
     rbind (struct_members [''deliveryId'', ''sessionId'', ''amount'', ''cumulative'', ''status''] v) (\<lambda>ms.
     rbind (member_str ms ''deliveryId'') (\<lambda>delivery_id.
     rbind (member_str ms ''sessionId'') (\<lambda>session.
     rbind (member_str ms ''amount'') (\<lambda>amount.
     rbind (member_str ms ''cumulative'') (\<lambda>cumulative.
     rbind (member_req commit_status_of_json ms ''status'') (\<lambda>status.
       Ok \<lparr>cr_delivery_id = delivery_id, cr_session_id = session, cr_amount = amount,
           cr_cumulative = cumulative, cr_status = status\<rparr>))))))"

section \<open>Metering\<close>

definition metering_directive_to_json :: "metering_directive \<Rightarrow> json" where
  "metering_directive_to_json d =
     JObject ([(''deliveryId'', JString (mdv_delivery_id d)), (''sessionId'', JString (mdv_session_id d)),
               (''amount'', JString (mdv_amount d)), (''currency'', JString (mdv_currency d)),
               (''sequence'', JNumber (PosInt (mdv_sequence d))),
               (''expiresAt'', i64_number (mdv_expires_at d))] @
              opt_member ''commitUrl'' (mdv_commit_url d) @ opt_member ''proof'' (mdv_proof d))"

definition metering_directive_of_json :: "json \<Rightarrow> (metering_directive, string) result" where
  "metering_directive_of_json v =
     rbind (struct_members [''deliveryId'', ''sessionId'', ''amount'', ''currency'', ''sequence'', ''expiresAt'',
              ''commitUrl'', ''proof''] v) (\<lambda>ms.
     rbind (member_str ms ''deliveryId'') (\<lambda>delivery_id.
     rbind (member_str ms ''sessionId'') (\<lambda>session.
     rbind (member_str ms ''amount'') (\<lambda>amount.
     rbind (member_str ms ''currency'') (\<lambda>currency.
     rbind (member_req json_u64 ms ''sequence'') (\<lambda>sequence.
     rbind (member_req json_i64 ms ''expiresAt'') (\<lambda>expires_at.
     rbind (member_opt_str ms ''commitUrl'') (\<lambda>commit_url.
     rbind (member_opt_str ms ''proof'') (\<lambda>pf.
       Ok \<lparr>mdv_delivery_id = delivery_id, mdv_session_id = session, mdv_amount = amount,
           mdv_currency = currency, mdv_sequence = sequence, mdv_expires_at = expires_at,
           mdv_commit_url = commit_url, mdv_proof = pf\<rparr>)))))))))"

definition metering_usage_to_json :: "metering_usage \<Rightarrow> json" where
  "metering_usage_to_json u =
     JObject [(''deliveryId'', JString (mu_delivery_id u)), (''amount'', JString (mu_amount u))]"

definition metering_usage_of_json :: "json \<Rightarrow> (metering_usage, string) result" where
  "metering_usage_of_json v =
     rbind (struct_members [''deliveryId'', ''amount''] v) (\<lambda>ms.
     rbind (member_str ms ''deliveryId'') (\<lambda>delivery_id.
     rbind (member_str ms ''amount'') (\<lambda>amount.
       Ok \<lparr>mu_delivery_id = delivery_id, mu_amount = amount\<rparr>)))"

section \<open>Round trips\<close>

lemma voucher_data_roundtrip [simp]: "voucher_data_of_json (voucher_data_to_json d) = Ok d"
  by (simp add: voucher_data_of_json_def voucher_data_to_json_def struct_members_def member_str_def
      member_alias_def member_req_def member_opt_def split: option.splits)

lemma signed_voucher_roundtrip [simp]: "signed_voucher_of_json (signed_voucher_to_json s) = Ok s"
  by (simp add: signed_voucher_of_json_def signed_voucher_to_json_def struct_members_def member_str_def
      member_req_def)

lemma commit_payload_roundtrip: "commit_payload_of_json (commit_payload_to_json p) = Ok p"
  by (simp add: commit_payload_of_json_def commit_payload_to_json_def struct_members_def member_str_def
      member_req_def)

lemma commit_receipt_roundtrip: "commit_receipt_of_json (commit_receipt_to_json r) = Ok r"
  by (cases "cr_status r")
    (simp_all add: commit_receipt_of_json_def commit_receipt_to_json_def struct_members_def member_str_def
      member_req_def commit_status_of_json_def commit_status_name_def)

lemma metering_directive_roundtrip: "metering_directive_of_json (metering_directive_to_json d) = Ok d"
  by (simp add: metering_directive_of_json_def metering_directive_to_json_def struct_members_def
      member_str_def member_req_def member_opt_def opt_member_def split: option.splits)

lemma metering_usage_roundtrip: "metering_usage_of_json (metering_usage_to_json u) = Ok u"
  by (simp add: metering_usage_of_json_def metering_usage_to_json_def struct_members_def member_str_def)

end
