(* ===== verification/Http_Stream.thy ===== *)
theory Http_Stream
  imports Client_Session Session_Json Core_Types
begin

text \<open>
  \<^verbatim>\<open>rust/src/client/http_stream.rs\<close>: the incremental decoder of Server-Sent Events, metered streams that
  end in a commit, and the HTTP transport for commits.
\<close>

section \<open>UTF-8\<close>

text \<open>
  \<^verbatim>\<open>std::str::from_utf8\<close>: the offset of the first bad byte and how many bytes are bad, or no length
  when the input ends inside a character.
\<close>

definition utf8_continuation :: "byte \<Rightarrow> bool" where
  "utf8_continuation c = (0x80 \<le> c \<and> c \<le> 0xBF)"

definition utf8_second :: "byte \<Rightarrow> byte \<Rightarrow> bool" where
  "utf8_second c d =
     (if c = 0xE0 then 0xA0 \<le> d \<and> d \<le> 0xBF
      else if c = 0xED then 0x80 \<le> d \<and> d \<le> 0x9F
      else if c = 0xF0 then 0x90 \<le> d \<and> d \<le> 0xBF
      else if c = 0xF4 then 0x80 \<le> d \<and> d \<le> 0x8F
      else utf8_continuation d)"

definition utf8_width :: "byte \<Rightarrow> nat" where
  "utf8_width c =
     (if c < 0x80 then 1
      else if 0xC2 \<le> c \<and> c \<le> 0xDF then 2
      else if 0xE0 \<le> c \<and> c \<le> 0xEF then 3
      else if 0xF0 \<le> c \<and> c \<le> 0xF4 then 4
      else 0)"

datatype utf8_error = Utf8Error (valid_up_to: nat) (error_len: "nat option")

text \<open>The bytes of one character after its first one: how many of them are good, or the error.\<close>

fun utf8_tail :: "nat \<Rightarrow> nat \<Rightarrow> byte list \<Rightarrow> nat option option" where
  "utf8_tail k 0 bs = None"
| "utf8_tail k (Suc n) [] = Some None"
| "utf8_tail k (Suc n) (d # bs) =
     (if utf8_continuation d then utf8_tail (Suc k) n bs else Some (Some k))"

definition utf8_char_error :: "byte \<Rightarrow> byte list \<Rightarrow> nat option option" where
  "utf8_char_error c bs =
     (case utf8_width c of
        0 \<Rightarrow> Some (Some 1)
      | Suc 0 \<Rightarrow> None
      | Suc (Suc n) \<Rightarrow>
          (case bs of
             [] \<Rightarrow> Some None
           | d # bs' \<Rightarrow> if utf8_second c d then utf8_tail 2 n bs' else Some (Some 1)))"

function utf8_check :: "nat \<Rightarrow> byte list \<Rightarrow> (unit, utf8_error) result" where
  "utf8_check i [] = Ok ()"
| "utf8_check i (c # bs) =
     (case utf8_char_error c bs of
        Some e \<Rightarrow> Err (Utf8Error i e)
      | None \<Rightarrow> utf8_check (i + utf8_width c) (drop (utf8_width c - 1) bs))"
  by pat_completeness auto

termination by (relation "measure (\<lambda>(i, bs). length bs)") auto

definition utf8_error_display :: "utf8_error \<Rightarrow> string" where
  "utf8_error_display e =
     (case error_len e of
        Some n \<Rightarrow> ''invalid utf-8 sequence of '' @ show_nat n @ '' bytes from index '' @ show_nat (valid_up_to e)
      | None \<Rightarrow> ''incomplete utf-8 byte sequence from index '' @ show_nat (valid_up_to e))"

text \<open>A string is the list of its bytes, so a valid chunk is its own text.\<close>

definition bytes_text :: "byte list \<Rightarrow> string" where
  "bytes_text bs = map (\<lambda>b. char_of (unat b)) bs"

definition from_utf8 :: "byte list \<Rightarrow> (string, utf8_error) result" where
  "from_utf8 bs = rbind (utf8_check 0 bs) (\<lambda>_. Ok (bytes_text bs))"

section \<open>Events\<close>

record sse_event =
  ev_event :: "string option"
  ev_data :: string
  ev_id :: "string option"
  ev_retry :: "u64 option"

text \<open>The event under construction has the same fields.\<close>

type_synonym partial_sse_event = sse_event

definition partial_default :: partial_sse_event where
  "partial_default = \<lparr>ev_event = None, ev_data = [], ev_id = None, ev_retry = None\<rparr>"

record sse_decoder =
  sd_buffer :: string
  sd_current :: partial_sse_event

definition sse_decoder_new :: sse_decoder where
  "sse_decoder_new = \<lparr>sd_buffer = [], sd_current = partial_default\<rparr>"

definition dispatch_current :: "partial_sse_event \<Rightarrow> partial_sse_event \<times> sse_event option" where
  "dispatch_current cur =
     (if ev_event cur = None \<and> ev_data cur = [] \<and> ev_id cur = None \<and> ev_retry cur = None then (cur, None)
      else (partial_default,
            Some \<lparr>ev_event = ev_event cur, ev_data = ev_data cur, ev_id = ev_id cur,
                  ev_retry = ev_retry cur\<rparr>))"

definition process_line :: "partial_sse_event \<Rightarrow> string \<Rightarrow> partial_sse_event \<times> sse_event option" where
  "process_line cur line =
     (if line = [] then dispatch_current cur
      else if starts_with line '':'' then (cur, None)
      else
        let (field, val) =
          (case split_once (CHR '':'') line of
             Some (field, val) \<Rightarrow>
               (field, case strip_prefix '' '' val of Some v \<Rightarrow> v | None \<Rightarrow> val)
           | None \<Rightarrow> (line, []))
        in
        if field = ''event'' then (cur\<lparr>ev_event := Some val\<rparr>, None)
        else if field = ''data'' then
          (cur\<lparr>ev_data := (if ev_data cur \<noteq> [] then ev_data cur @ [CHR 10] else []) @ val\<rparr>, None)
        else if field = ''id'' then (cur\<lparr>ev_id := Some val\<rparr>, None)
        else if field = ''retry'' then (cur\<lparr>ev_retry := parse_u64 val\<rparr>, None)
        else (cur, None))"

definition opt_list :: "'a option \<Rightarrow> 'a list" where
  "opt_list v = (case v of None \<Rightarrow> [] | Some x \<Rightarrow> [x])"

text \<open>One carriage return at the end of a line belongs to the line break.\<close>

definition pop_cr :: "string \<Rightarrow> string" where
  "pop_cr line = (if line \<noteq> [] \<and> last line = CHR 13 then butlast line else line)"

text \<open>The loop of \<^verbatim>\<open>push_chunk\<close>: take complete lines off the buffer.\<close>

function drain_lines :: "partial_sse_event \<Rightarrow> string \<Rightarrow> sse_event list \<times> partial_sse_event \<times> string" where
  "drain_lines cur buf =
     (case split_once (CHR 10) buf of
        None \<Rightarrow> ([], cur, buf)
      | Some (line, rest) \<Rightarrow>
          (let (cur', ev) = process_line cur (pop_cr line);
               (evs, cur'', buf') = drain_lines cur' rest
           in (opt_list ev @ evs, cur'', buf')))"
  by pat_completeness auto

termination
  by (relation "measure (\<lambda>(cur, buf). length buf)") (auto dest!: split_once_Some)

declare drain_lines.simps [simp del]

definition push_text :: "sse_decoder \<Rightarrow> string \<Rightarrow> sse_decoder \<times> sse_event list" where
  "push_text d t =
     (let (evs, cur, buf) = drain_lines (sd_current d) (sd_buffer d @ t)
      in (\<lparr>sd_buffer = buf, sd_current = cur\<rparr>, evs))"

definition push_chunk :: "sse_decoder \<Rightarrow> byte list \<Rightarrow> sse_decoder \<times> (sse_event list, error) result" where
  "push_chunk d chunk =
     (case from_utf8 chunk of
        Ok t \<Rightarrow> (let (d', evs) = push_text d t in (d', Ok evs))
      | Err e \<Rightarrow> (d, Err (Other (''SSE chunk is not valid UTF-8: '' @ utf8_error_display e)))
      | Panic \<Rightarrow> (d, Panic))"

definition sse_finish :: "sse_decoder \<Rightarrow> sse_decoder \<times> sse_event list" where
  "sse_finish d =
     (let (cur, evs) =
        (if sd_buffer d \<noteq> [] then
           (let (cur, ev) = process_line (sd_current d) (trim_end_matches (CHR 13) (sd_buffer d))
            in (cur, opt_list ev))
         else (sd_current d, []));
          (cur', ev) = dispatch_current cur
      in (\<lparr>sd_buffer = [], sd_current = cur'\<rparr>, evs @ opt_list ev))"

section \<open>Metered streams\<close>

datatype 'm metered_sse_event =
    MeteringEvent metering_directive
  | UsageEvent metering_usage
  | MessageEvent 'm
  | DoneEvent
  | OtherEvent sse_event

definition DONE_MARK :: string where
  "DONE_MARK = ''[DONE]''"

text \<open>\<open>read_message\<close> is how the type of the stream's messages is deserialized.\<close>

definition parse_metered_sse_event ::
  "codecs \<Rightarrow> (json \<Rightarrow> ('m, string) result) \<Rightarrow> sse_event \<Rightarrow> ('m metered_sse_event, error) result" where
  "parse_metered_sse_event K read_message event =
     (let event_name = case_option ''message'' id (ev_event event);
          parsed = json_from_slice K (string_bytes (ev_data event)) in
      if event_name = ''mpp.metering'' \<or> event_name = ''metering'' then
        rbind (map_err (\<lambda>e. Other (''invalid mpp.metering event: '' @ e))
                 (rbind parsed metering_directive_of_json)) (\<lambda>d. Ok (MeteringEvent d))
      else if event_name = ''mpp.usage'' \<or> event_name = ''usage'' then
        rbind (map_err (\<lambda>e. Other (''invalid mpp.usage event: '' @ e))
                 (rbind parsed metering_usage_of_json)) (\<lambda>u. Ok (UsageEvent u))
      else if event_name = ''done'' then Ok DoneEvent
      else if event_name = ''message'' \<and> trim (ev_data event) = DONE_MARK then Ok DoneEvent
      else if event_name = ''message'' then
        rbind (map_err (\<lambda>e. Other (''invalid SSE message event: '' @ e)) (rbind parsed read_message))
          (\<lambda>m. Ok (MessageEvent m))
      else Ok (OtherEvent event))"

record stream_state =
  st_directive :: "metering_directive option"
  st_final_amount :: "u64 option"
  st_done :: bool

definition stream_state_default :: stream_state where
  "stream_state_default = \<lparr>st_directive = None, st_final_amount = None, st_done = False\<rparr>"

definition apply_event ::
  "codecs \<Rightarrow> (json \<Rightarrow> ('m, string) result) \<Rightarrow> stream_state \<Rightarrow> sse_event \<Rightarrow>
   stream_state \<times> ('m option, error) result" where
  "apply_event K read_message st event =
     (case parse_metered_sse_event K read_message event of
        Err e \<Rightarrow> (st, Err e)
      | Panic \<Rightarrow> (st, Panic)
      | Ok (MeteringEvent directive) \<Rightarrow> (st\<lparr>st_directive := Some directive\<rparr>, Ok None)
      | Ok (UsageEvent usage) \<Rightarrow>
          (case rbind
             (case st_directive st of
                Some directive \<Rightarrow>
                  if mu_delivery_id usage \<noteq> mdv_delivery_id directive then
                    Err (Other (''usage delivery '' @ mu_delivery_id usage @ '' does not match directive '' @
                                mdv_delivery_id directive))
                  else Ok ()
              | None \<Rightarrow> Ok ()) (\<lambda>_. usage_amount_base_units usage) of
             Ok amount \<Rightarrow> (st\<lparr>st_final_amount := Some amount\<rparr>, Ok None)
           | Err e \<Rightarrow> (st, Err e)
           | Panic \<Rightarrow> (st, Panic))
      | Ok (MessageEvent message) \<Rightarrow> (st, Ok (Some message))
      | Ok DoneEvent \<Rightarrow> (st\<lparr>st_done := True\<rparr>, Ok None)
      | Ok (OtherEvent _) \<Rightarrow> (st, Ok None))"

definition directive_for_commit :: "stream_state \<Rightarrow> (metering_directive, error) result" where
  "directive_for_commit st =
     rbind (ok_or (st_directive st) (Other ''stream did not include mpp.metering event'')) (\<lambda>directive.
       Ok (case st_final_amount st of
             Some amount \<Rightarrow> directive\<lparr>mdv_amount := show_u64 amount\<rparr>
           | None \<Rightarrow> directive))"

text \<open>The borrowed state machine.\<close>

record 'w metered_sse_session =
  mss_consumer :: "'w session_consumer"
  mss_state :: stream_state

definition metered_sse :: "'w session_consumer \<Rightarrow> 'w metered_sse_session" where
  "metered_sse consumer = \<lparr>mss_consumer = consumer, mss_state = stream_state_default\<rparr>"

definition accept_event ::
  "codecs \<Rightarrow> (json \<Rightarrow> ('m, string) result) \<Rightarrow> 'w metered_sse_session \<Rightarrow> sse_event \<Rightarrow>
   'w metered_sse_session \<times> ('m option, error) result" where
  "accept_event K read_message m event =
     (let (st, r) = apply_event K read_message (mss_state m) event in (m\<lparr>mss_state := st\<rparr>, r))"

definition sse_is_done :: "'w metered_sse_session \<Rightarrow> bool" where
  "sse_is_done m = st_done (mss_state m)"

definition commit_stream ::
  "build \<Rightarrow> externs \<Rightarrow> 'w \<Rightarrow> 'w session_consumer \<Rightarrow> stream_state \<Rightarrow>
   'w \<times> 'w session_consumer \<times> (commit_receipt, error) result" where
  "commit_stream b X w consumer st =
     (case directive_for_commit st of
        Ok directive \<Rightarrow> commit_directive b X w consumer directive
      | Err e \<Rightarrow> (w, consumer, Err e)
      | Panic \<Rightarrow> (w, consumer, Panic))"

definition sse_session_ack ::
  "build \<Rightarrow> externs \<Rightarrow> 'w \<Rightarrow> 'w metered_sse_session \<Rightarrow>
   'w \<times> 'w session_consumer \<times> (commit_receipt, error) result" where
  "sse_session_ack b X w m = commit_stream b X w (mss_consumer m) (mss_state m)"

section \<open>Streams over HTTP\<close>

text \<open>
  The response is the list of what its reads give: chunks, then the end of the body when the list
  is empty; a read error is an element too.
\<close>

record ('w, 'm) metered_stream =
  rs_consumer :: "'w session_consumer"
  rs_response :: "(byte list, string) result list"
  rs_decoder :: sse_decoder
  rs_pending :: "'m list"
  rs_state :: stream_state

definition metered_stream_new ::
  "'w session_consumer \<Rightarrow> (byte list, string) result list \<Rightarrow> ('w, 'm) metered_stream" where
  "metered_stream_new consumer response =
     \<lparr>rs_consumer = consumer, rs_response = response, rs_decoder = sse_decoder_new, rs_pending = [],
      rs_state = stream_state_default\<rparr>"

text \<open>Applying the events of one read; the messages before an error are kept.\<close>

fun apply_events ::
  "codecs \<Rightarrow> (json \<Rightarrow> ('m, string) result) \<Rightarrow> stream_state \<Rightarrow> sse_event list \<Rightarrow>
   stream_state \<times> 'm list \<times> (unit, error) result" where
  "apply_events K read_message st [] = (st, [], Ok ())"
| "apply_events K read_message st (e # es) =
     (case apply_event K read_message st e of
        (st', Ok m) \<Rightarrow>
          (let (st'', ms, r) = apply_events K read_message st' es in (st'', opt_list m @ ms, r))
      | (st', Err x) \<Rightarrow> (st', [], Err x)
      | (st', Panic) \<Rightarrow> (st', [], Panic))"

text \<open>One turn of the loop in \<^verbatim>\<open>next\<close> that reads from the response.\<close>

definition read_response ::
  "codecs \<Rightarrow> (json \<Rightarrow> ('m, string) result) \<Rightarrow> ('w, 'm) metered_stream \<Rightarrow>
   ('w, 'm) metered_stream \<times> (unit, error) result" where
  "read_response K read_message s =
     (case rs_response s of
        [] \<Rightarrow>
          (let (d, evs) = sse_finish (rs_decoder s);
               (st, ms, r) = apply_events K read_message (rs_state s) evs;
               s' = s\<lparr>rs_decoder := d, rs_pending := rs_pending s @ ms, rs_state := st\<rparr>
           in (case r of
                 Ok _ \<Rightarrow> (s'\<lparr>rs_state := st\<lparr>st_done := True\<rparr>\<rparr>, Ok ())
               | _ \<Rightarrow> (s', r)))
      | Ok chunk # rest \<Rightarrow>
          (case push_chunk (rs_decoder s) chunk of
             (d, Ok evs) \<Rightarrow>
               (let (st, ms, r) = apply_events K read_message (rs_state s) evs
                in (s\<lparr>rs_response := rest, rs_decoder := d, rs_pending := rs_pending s @ ms,
                      rs_state := st\<rparr>, r))
           | (d, Err e) \<Rightarrow> (s\<lparr>rs_response := rest, rs_decoder := d\<rparr>, Err e)
           | (d, Panic) \<Rightarrow> (s\<lparr>rs_response := rest, rs_decoder := d\<rparr>, Panic))
      | Err e # rest \<Rightarrow> (s\<lparr>rs_response := rest\<rparr>, Err (Other (''stream read failed: '' @ e)))
      | Panic # rest \<Rightarrow> (s\<lparr>rs_response := rest\<rparr>, Panic))"

text \<open>What is left to read: chunks, the end of the body, messages not yet handed out.\<close>

definition unread :: "('w, 'm) metered_stream \<Rightarrow> nat" where
  "unread s = length (rs_response s) + (if st_done (rs_state s) then 0 else 1)"

lemma read_response_unread:
  assumes "read_response K read_message s = (s', Ok ())" and "\<not> st_done (rs_state s)"
  shows "unread s' < unread s"
  using assms
  by (auto simp: read_response_def unread_def Let_def split: list.splits result.splits prod.splits)

function stream_next ::
  "codecs \<Rightarrow> (json \<Rightarrow> ('m, string) result) \<Rightarrow> ('w, 'm) metered_stream \<Rightarrow>
   ('w, 'm) metered_stream \<times> ('m option, error) result" where
  "stream_next K read_message s =
     (case rs_pending s of
        m # ms \<Rightarrow> (s\<lparr>rs_pending := ms\<rparr>, Ok (Some m))
      | [] \<Rightarrow>
          if st_done (rs_state s) then (s, Ok None)
          else
            (case read_response K read_message s of
               (s', Ok _) \<Rightarrow> stream_next K read_message s'
             | (s', Err e) \<Rightarrow> (s', Err e)
             | (s', Panic) \<Rightarrow> (s', Panic)))"
  by pat_completeness auto

termination
  by (relation "measure (\<lambda>(K, read_message, s). unread s)")
    (auto dest!: sym [of "(_, Ok _)"] read_response_unread)

declare stream_next.simps [simp del]

text \<open>A message comes with something read or a message less to hand out.\<close>

lemma stream_next_progress:
  assumes "stream_next K read_message s = (s', Ok (Some m))"
  shows "unread s' < unread s \<or> unread s' = unread s \<and> length (rs_pending s') < length (rs_pending s)"
  using assms
proof (induction K read_message s rule: stream_next.induct)
  case (1 K read_message s)
  show ?case
  proof (cases "rs_pending s")
    case Nil
    with "1.prems" have live: "\<not> st_done (rs_state s)"
      by (auto simp: stream_next.simps [of K read_message s] split: if_splits)
    obtain t r where read: "read_response K read_message s = (t, r)" by fastforce
    with "1.prems" Nil live obtain u where r: "r = Ok u"
      by (cases r) (auto simp: stream_next.simps [of K read_message s])
    from "1.prems" Nil live read r have "stream_next K read_message t = (s', Ok (Some m))"
      by (simp add: stream_next.simps [of K read_message s])
    with "1.IH" [OF Nil live read [symmetric] r]
    have "unread s' < unread t \<or> unread s' = unread t \<and> length (rs_pending s') < length (rs_pending t)" .
    moreover have "unread t < unread s"
      using read_response_unread [of K read_message s t] read r live by simp
    ultimately show ?thesis by linarith
  next
    case (Cons x xs)
    with "1.prems" show ?thesis by (auto simp: stream_next.simps [of K read_message s] unread_def)
  qed
qed

text \<open>The loop of \<^verbatim>\<open>ack\<close> that reads to the end of the stream.\<close>

function stream_drain ::
  "codecs \<Rightarrow> (json \<Rightarrow> ('m, string) result) \<Rightarrow> ('w, 'm) metered_stream \<Rightarrow>
   ('w, 'm) metered_stream \<times> (unit, error) result" where
  "stream_drain K read_message s =
     (case stream_next K read_message s of
        (s', Ok (Some m)) \<Rightarrow> stream_drain K read_message s'
      | (s', Ok None) \<Rightarrow> (s', Ok ())
      | (s', Err e) \<Rightarrow> (s', Err e)
      | (s', Panic) \<Rightarrow> (s', Panic))"
  by pat_completeness auto

termination
  by (relation "measures [\<lambda>(K, read_message, s). unread s, \<lambda>(K, read_message, s). length (rs_pending s)]")
    (auto dest!: sym [of "(_, Ok _)"] stream_next_progress)

declare stream_drain.simps [simp del]

definition stream_ack ::
  "build \<Rightarrow> externs \<Rightarrow> codecs \<Rightarrow> (json \<Rightarrow> ('m, string) result) \<Rightarrow> 'w \<Rightarrow> ('w, 'm) metered_stream \<Rightarrow>
   'w \<times> 'w session_consumer \<times> (commit_receipt, error) result" where
  "stream_ack b X K read_message w s =
     (case (if st_done (rs_state s) then (s, Ok ()) else stream_drain K read_message s) of
        (s', Ok _) \<Rightarrow> commit_stream b X w (rs_consumer s') (rs_state s')
      | (s', Err e) \<Rightarrow> (w, rs_consumer s', Err e)
      | (s', Panic) \<Rightarrow> (w, rs_consumer s', Panic))"

definition into_consumer :: "('w, 'm) metered_stream \<Rightarrow> 'w session_consumer" where
  "into_consumer s = rs_consumer s"

section \<open>Commits over HTTP\<close>

text \<open>
  \<^verbatim>\<open>reqwest\<close>: posting JSON to a URL with an optional \<^verbatim>\<open>Authorization\<close> header, and the response: its status,
  its body as text, and its body as JSON.  Errors are their display texts.
\<close>

record http_response =
  hr_status :: string
  hr_success :: bool
  hr_text :: "(string, string) result"
  hr_json :: "(json, string) result"

type_synonym 'w http_post = "'w \<Rightarrow> string \<Rightarrow> json \<Rightarrow> string option \<Rightarrow> 'w \<times> (http_response, string) result"

record 'w http_commit_transport =
  ht_client :: "'w http_post"
  ht_default_commit_url :: "string option"
  ht_authorization :: "string option"

definition http_transport_with_client :: "'w http_post \<Rightarrow> 'w http_commit_transport" where
  "http_transport_with_client client =
     \<lparr>ht_client = client, ht_default_commit_url = None, ht_authorization = None\<rparr>"

definition with_default_commit_url :: "'w http_commit_transport \<Rightarrow> string \<Rightarrow> 'w http_commit_transport" where
  "with_default_commit_url t url = t\<lparr>ht_default_commit_url := Some url\<rparr>"

definition with_authorization :: "'w http_commit_transport \<Rightarrow> string \<Rightarrow> 'w http_commit_transport" where
  "with_authorization t auth = t\<lparr>ht_authorization := Some auth\<rparr>"

definition http_commit :: "'w http_commit_transport \<Rightarrow> 'w commit_transport" where
  "http_commit t = (\<lambda>w directive payload.
     case (case mdv_commit_url directive of Some url \<Rightarrow> Some url | None \<Rightarrow> ht_default_commit_url t) of
       None \<Rightarrow> (w, Err (Other ''metering directive missing commitUrl''))
     | Some url \<Rightarrow>
         (case ht_client t w url (commit_payload_to_json payload) (ht_authorization t) of
            (w', Err e) \<Rightarrow> (w', Err (Other (''commit request failed: '' @ e)))
          | (w', Panic) \<Rightarrow> (w', Panic)
          | (w', Ok response) \<Rightarrow>
              (w',
               if \<not> hr_success response then
                 let body = (case hr_text response of Ok t \<Rightarrow> t | _ \<Rightarrow> []) in
                 Err (Other (''commit endpoint returned '' @ hr_status response @ '': '' @ body))
               else
                 map_err (\<lambda>e. Other (''invalid commit receipt: '' @ e))
                   (rbind (hr_json response) commit_receipt_of_json))))"

end
