(* ===== verification/Http_Stream_Properties.thy ===== *)
theory Http_Stream_Properties
  imports Http_Stream Client_Properties
begin

text \<open>
  How a byte stream is cut into chunks does not matter: not to the events that are decoded, and not to
  what a metered stream commits at its end.
\<close>

section \<open>Chunks of text\<close>

lemma utf8_tail_append: "utf8_tail k n bs = None \<Longrightarrow> n \<le> length bs \<and> utf8_tail k n (bs @ t) = None"
  by (induction k n bs rule: utf8_tail.induct) (auto split: if_splits)

lemma utf8_char_append:
  assumes "utf8_char_error c bs = None"
  shows "utf8_width c - 1 \<le> length bs" and "utf8_char_error c (bs @ t) = None"
proof -
  have both: "utf8_width c - 1 \<le> length bs \<and> utf8_char_error c (bs @ t) = None"
  proof (cases "utf8_width c")
    case (Suc m)
    show ?thesis
    proof (cases m)
      case (Suc n)
      with \<open>utf8_width c = Suc m\<close> assms obtain d bs' where "bs = d # bs'" "utf8_second c d"
        "utf8_tail 2 n bs' = None"
        by (auto simp: utf8_char_error_def split: list.splits if_splits)
      with utf8_tail_append [of 2 n bs' t] Suc \<open>utf8_width c = Suc m\<close> show ?thesis
        by (simp add: utf8_char_error_def)
    qed (use Suc in \<open>simp add: utf8_char_error_def\<close>)
  qed (use assms in \<open>simp add: utf8_char_error_def\<close>)
  then show "utf8_width c - 1 \<le> length bs" and "utf8_char_error c (bs @ t) = None" by simp_all
qed

lemma utf8_check_append:
  "utf8_check i bs = Ok () \<Longrightarrow> \<exists>j. utf8_check i (bs @ t) = utf8_check j t"
proof (induction i bs rule: utf8_check.induct)
  case (2 i c bs)
  from "2.prems" have none: "utf8_char_error c bs = None"
    and rest: "utf8_check (i + utf8_width c) (drop (utf8_width c - 1) bs) = Ok ()"
    by (simp_all split: option.splits)
  obtain j where "utf8_check (i + utf8_width c) (drop (utf8_width c - 1) bs @ t) = utf8_check j t"
    using "2.IH" [OF none rest] by blast
  moreover have "drop (utf8_width c - 1) (bs @ t) = drop (utf8_width c - 1) bs @ t"
    using utf8_char_append(1) [OF none] by simp
  ultimately show ?case using utf8_char_append(2) [OF none, of t] by auto
qed auto

lemma utf8_check_offset: "is_ok (utf8_check i bs) \<longleftrightarrow> is_ok (utf8_check j bs)"
proof (induction i bs arbitrary: j rule: utf8_check.induct)
  case (2 i c bs)
  show ?case
  proof (cases "utf8_char_error c bs")
    case None
    from "2.IH" [OF None, of "j + utf8_width c"] None show ?thesis by simp
  qed simp
qed simp

lemma from_utf8_Ok: "is_ok (from_utf8 bs) \<longleftrightarrow> is_ok (utf8_check 0 bs)"
  by (simp add: from_utf8_def is_ok_rbind_Ok)

lemma from_utf8_text: "is_ok (from_utf8 bs) \<Longrightarrow> from_utf8 bs = Ok (bytes_text bs)"
  by (cases "utf8_check 0 bs") (auto simp: from_utf8_def)

lemma from_utf8_append:
  assumes "is_ok (from_utf8 a)" and "is_ok (from_utf8 b)"
  shows "is_ok (from_utf8 (a @ b))"
proof -
  from assms(1) have "utf8_check 0 a = Ok ()"
    by (cases "utf8_check 0 a") (simp_all add: from_utf8_Ok)
  from utf8_check_append [OF this, of b] obtain j where "utf8_check 0 (a @ b) = utf8_check j b" by blast
  with assms(2) utf8_check_offset [of j b 0] show ?thesis by (simp add: from_utf8_Ok)
qed

lemma from_utf8_concat: "list_all (\<lambda>c. is_ok (from_utf8 c)) chunks \<Longrightarrow> is_ok (from_utf8 (concat chunks))"
  by (induction chunks) (simp_all add: from_utf8_append, simp add: from_utf8_def)

lemma bytes_text_append: "bytes_text (a @ b) = bytes_text a @ bytes_text b"
  by (simp add: bytes_text_def)

section \<open>Lines\<close>

lemma drain_lines_append:
  "drain_lines cur (buf @ t) =
     (let (es, cur', buf') = drain_lines cur buf; (es', cur'', buf'') = drain_lines cur' (buf' @ t)
      in (es @ es', cur'', buf''))"
proof (induction cur buf rule: drain_lines.induct)
  case (1 cur buf)
  show ?case
  proof (cases "split_once (CHR 10) buf")
    case None
    then have "drain_lines cur buf = ([], cur, buf)" by (simp add: drain_lines.simps)
    then show ?thesis by (simp add: split: prod.splits)
  next
    case (Some lr)
    obtain line rest where lr: "lr = (line, rest)" by fastforce
    from split_once_Some [OF Some [unfolded lr]]
    have split: "split_once (CHR 10) (buf @ t) = Some (line, rest @ t)" by simp
    obtain cur' ev where p: "process_line cur (pop_cr line) = (cur', ev)" by fastforce
    have "drain_lines cur' (rest @ t) =
       (let (es, cur', buf') = drain_lines cur' rest; (es', cur'', buf'') = drain_lines cur' (buf' @ t)
        in (es @ es', cur'', buf''))"
      using "1.IH" [OF Some [unfolded lr] refl refl p [symmetric]] by simp
    then show ?thesis
      by (subst (1 2) drain_lines.simps) (simp add: split Some lr p split: prod.splits)
  qed
qed

lemma push_text_append:
  "push_text d (s @ t) =
     (let (d', es) = push_text d s; (d'', es') = push_text d' t in (d'', es @ es'))"
  by (simp add: push_text_def drain_lines_append [of "sd_current d" "sd_buffer d @ s" t, simplified]
      split: prod.splits)

lemma push_text_Nil: "sd_buffer d = [] \<Longrightarrow> push_text d [] = (d, [])"
  by (simp add: push_text_def drain_lines.simps)

lemma drain_lines_rest: "drain_lines cur buf = (es, cur', buf') \<Longrightarrow> CHR 10 \<notin> set buf'"
proof (induction cur buf arbitrary: es rule: drain_lines.induct)
  case (1 cur buf)
  show ?case
  proof (cases "split_once (CHR 10) buf")
    case None
    with "1.prems" show ?thesis by (simp add: drain_lines.simps split_once_None)
  next
    case (Some lr)
    obtain line rest where lr: "lr = (line, rest)" by fastforce
    obtain cur1 ev where p: "process_line cur (pop_cr line) = (cur1, ev)" by fastforce
    from "1.prems" Some lr p obtain es' where "drain_lines cur1 rest = (es', cur', buf')"
      by (subst (asm) drain_lines.simps) (auto split: prod.splits)
    then show ?thesis using "1.IH" [OF Some [unfolded lr] refl refl p [symmetric]] by simp
  qed
qed

section \<open>Decoding in chunks\<close>

fun push_chunks :: "sse_decoder \<Rightarrow> byte list list \<Rightarrow> sse_decoder \<times> (sse_event list, error) result" where
  "push_chunks d [] = (d, Ok [])"
| "push_chunks d (c # cs) =
     (case push_chunk d c of
        (d', Ok es) \<Rightarrow>
          (case push_chunks d' cs of
             (d'', Ok es') \<Rightarrow> (d'', Ok (es @ es'))
           | (d'', Err e) \<Rightarrow> (d'', Err e)
           | (d'', Panic) \<Rightarrow> (d'', Panic))
      | (d', Err e) \<Rightarrow> (d', Err e)
      | (d', Panic) \<Rightarrow> (d', Panic))"

text \<open>A decoder between chunks holds no complete line.\<close>

definition drained :: "sse_decoder \<Rightarrow> bool" where
  "drained d = (CHR 10 \<notin> set (sd_buffer d))"

lemma push_text_drained: "push_text d t = (d', es) \<Longrightarrow> drained d'"
  by (auto simp: push_text_def drained_def split: prod.splits dest: drain_lines_rest)

lemma push_text_drained_Nil: "drained d \<Longrightarrow> push_text d [] = (d, [])"
  by (simp add: push_text_def drained_def drain_lines.simps split_once_None [THEN iffD2])

lemma push_chunk_text:
  "is_ok (from_utf8 c) \<Longrightarrow> push_chunk d c = (let (d', es) = push_text d (bytes_text c) in (d', Ok es))"
  by (simp add: push_chunk_def from_utf8_text)

lemma push_chunks_text:
  assumes "list_all (\<lambda>c. is_ok (from_utf8 c)) chunks" and "drained d"
  shows "push_chunks d chunks = (let (d', es) = push_text d (bytes_text (concat chunks)) in (d', Ok es))"
  using assms
proof (induction chunks arbitrary: d)
  case Nil
  then show ?case by (simp add: bytes_text_def push_text_drained_Nil)
next
  case (Cons c cs)
  obtain d1 es1 where first: "push_text d (bytes_text c) = (d1, es1)" by fastforce
  obtain d2 es2 where second: "push_text d1 (bytes_text (concat cs)) = (d2, es2)" by fastforce
  have "push_chunks d1 cs = (d2, Ok es2)"
    using Cons.IH [of d1] Cons.prems(1) push_text_drained [OF first] second by simp
  with Cons.prems(1) first second show ?case
    by (simp add: push_chunk_text bytes_text_append push_text_append)
qed

lemma push_chunks_append:
  assumes "push_chunks d pre = (d', Ok es)"
  shows "push_chunks d (pre @ post) =
    (case push_chunks d' post of
       (d'', Ok es') \<Rightarrow> (d'', Ok (es @ es')) | (d'', Err e) \<Rightarrow> (d'', Err e) | (d'', Panic) \<Rightarrow> (d'', Panic))"
  using assms
proof (induction pre arbitrary: d es)
  case Nil
  then show ?case by (auto split: prod.splits result.splits)
next
  case (Cons c cs)
  then obtain d1 es1 es2 where "push_chunk d c = (d1, Ok es1)" "push_chunks d1 cs = (d', Ok es2)" "es = es1 @ es2"
    by (auto split: prod.splits result.splits)
  with Cons.IH [of d1 es2] show ?case by (auto split: prod.splits result.splits)
qed

text \<open>
  C27. The events decoded from a body do not depend on how the body is cut into chunks, as long as no
  character is cut: if every chunk is valid UTF-8, pushing the chunks one by one gives the same events and leaves
  the decoder in the same state as pushing the whole text at once.  The first chunk that is not valid UTF-8 by
  itself is an error, with the decoder in the state of the chunks before it, even if the body as a whole is valid.
\<close>

theorem sse_decoding_ignores_chunking:
  assumes "drained d"
  shows "(list_all (\<lambda>c. is_ok (from_utf8 c)) chunks \<longrightarrow> push_chunks d chunks = push_chunk d (concat chunks)) \<and>
    (list_all (\<lambda>c. is_ok (from_utf8 c)) pre \<and> from_utf8 bad = Err e \<longrightarrow>
       push_chunks d (pre @ bad # post) =
         (fst (push_chunk d (concat pre)), Err (Other (''SSE chunk is not valid UTF-8: '' @ utf8_error_display e))))"
proof (intro conjI impI)
  assume chunks: "list_all (\<lambda>c. is_ok (from_utf8 c)) chunks"
  show "push_chunks d chunks = push_chunk d (concat chunks)"
    using push_chunks_text [OF chunks assms] push_chunk_text [OF from_utf8_concat [OF chunks], of d] by simp
next
  assume pre: "list_all (\<lambda>c. is_ok (from_utf8 c)) pre \<and> from_utf8 bad = Err e"
  obtain d' es where pushed: "push_text d (bytes_text (concat pre)) = (d', es)" by fastforce
  have "push_chunks d pre = (d', Ok es)" using push_chunks_text [OF _ assms, of pre] pre pushed by simp
  moreover have "push_chunk d (concat pre) = (d', Ok es)"
    using push_chunk_text [OF from_utf8_concat [of pre], of d] pre pushed by simp
  ultimately show "push_chunks d (pre @ bad # post) =
      (fst (push_chunk d (concat pre)), Err (Other (''SSE chunk is not valid UTF-8: '' @ utf8_error_display e)))"
    using pre by (simp add: push_chunks_append push_chunk_def [of d' bad])
qed

theorem sse_decoding_ignores_chunking_witness:
  "push_chunks sse_decoder_new [string_bytes ''data: a'', [10, 10], string_bytes ''id: 7'', [10]] =
     push_chunk sse_decoder_new (concat [string_bytes ''data: a'', [10, 10], string_bytes ''id: 7'', [10]]) \<and>
   push_chunks sse_decoder_new ([] @ [0xC3] # [[0xA9, 10]]) =
     (sse_decoder_new, Err (Other (''SSE chunk is not valid UTF-8: '' @ utf8_error_display (Utf8Error 0 None))))"
proof -
  have "list_all (\<lambda>c. is_ok (from_utf8 c)) [string_bytes ''data: a'', [10, 10], string_bytes ''id: 7'', [10]]"
    by code_simp
  moreover have "drained sse_decoder_new" by (simp add: drained_def sse_decoder_new_def)
  moreover have "from_utf8 [0xC3] = Err (Utf8Error 0 None)" by code_simp
  moreover have "fst (push_chunk sse_decoder_new []) = sse_decoder_new" by code_simp
  ultimately show ?thesis
    using sse_decoding_ignores_chunking
      [of sse_decoder_new "[string_bytes ''data: a'', [10, 10], string_bytes ''id: 7'', [10]]" "[]" "[0xC3]"
         "Utf8Error 0 None" "[[0xA9, 10]]"] by simp
qed

text \<open>
  The condition on characters is needed: the two bytes of one character in two chunks are refused,
  although the whole body is accepted.
\<close>

theorem sse_split_character_refused:
  "is_ok (snd (push_chunk sse_decoder_new ([0xC3, 0xA9] @ [10]))) \<and>
   \<not> is_ok (snd (push_chunks sse_decoder_new [[0xC3], [0xA9, 10]]))"
  by code_simp

section \<open>Reading a stream to its end\<close>

text \<open>One step of the draining loop, in terms of reads.\<close>

lemma stream_drain_step:
  "stream_drain K read_message s =
     (case rs_pending s of
        m # ms \<Rightarrow> stream_drain K read_message (s\<lparr>rs_pending := ms\<rparr>)
      | [] \<Rightarrow>
          if st_done (rs_state s) then (s, Ok ())
          else
            (case read_response K read_message s of
               (s', Ok _) \<Rightarrow> stream_drain K read_message s'
             | (s', Err e) \<Rightarrow> (s', Err e)
             | (s', Panic) \<Rightarrow> (s', Panic)))"
proof (cases "rs_pending s")
  case (Cons m ms)
  then show ?thesis
    by (subst stream_drain.simps) (simp add: stream_next.simps [of K read_message s])
next
  case Nil
  show ?thesis
  proof (cases "st_done (rs_state s)")
    case True
    with Nil show ?thesis
      by (subst stream_drain.simps) (simp add: stream_next.simps [of K read_message s])
  next
    case False
    obtain s' r where read: "read_response K read_message s = (s', r)" by fastforce
    show ?thesis
    proof (cases r)
      case (Ok u)
      then have "stream_next K read_message s = stream_next K read_message s'"
        using Nil False read by (simp add: stream_next.simps [of K read_message s])
      then have "stream_drain K read_message s = stream_drain K read_message s'"
        by (simp only: stream_drain.simps [of K read_message s] stream_drain.simps [of K read_message s'])
      with Nil False read Ok show ?thesis by simp
    qed (use Nil False read in \<open>subst stream_drain.simps, simp add: stream_next.simps [of K read_message s]\<close>)+
  qed
qed

lemma stream_drain_pending:
  "stream_drain K read_message s = stream_drain K read_message (s\<lparr>rs_pending := []\<rparr>)"
proof (induction "rs_pending s" arbitrary: s)
  case (Cons m ms)
  have "stream_drain K read_message s = stream_drain K read_message (s\<lparr>rs_pending := ms\<rparr>)"
    by (subst stream_drain_step) (simp add: Cons.hyps(2) [symmetric])
  with Cons.hyps(1) [of "s\<lparr>rs_pending := ms\<rparr>"] show ?case by simp
next
  case Nil
  then have "s\<lparr>rs_pending := []\<rparr> = s" by (cases s) simp
  then show ?case by simp
qed

lemma apply_event_done:
  "apply_event K read_message st e = (st', r) \<Longrightarrow> st_done st \<Longrightarrow> st_done st'"
  by (auto simp: apply_event_def split: result.splits metered_sse_event.splits)

lemma apply_events_done:
  "apply_events K read_message st es = (st', ms, r) \<Longrightarrow> st_done st \<Longrightarrow> st_done st'"
proof (induction es arbitrary: st ms r)
  case (Cons e es)
  then show ?case by (auto split: prod.splits result.splits dest: apply_event_done)
qed simp

lemma apply_events_append:
  assumes "apply_events K read_message st (es @ fs) = (st', ms, Ok ())"
  obtains st1 ms1 ms2 where "apply_events K read_message st es = (st1, ms1, Ok ())"
    and "apply_events K read_message st1 fs = (st', ms2, Ok ())" and "ms = ms1 @ ms2"
  using assms
proof (induction es arbitrary: st ms thesis)
  case (Cons e es)
  obtain st1 r where e: "apply_event K read_message st e = (st1, r)" by fastforce
  with Cons.prems(2) obtain m where r: "r = Ok m" by (cases r) auto
  from Cons.prems(2) e r obtain ms' where rest: "apply_events K read_message st1 (es @ fs) = (st', ms', Ok ())"
    and ms: "ms = opt_list m @ ms'" by (auto split: prod.splits)
  obtain st2 a c where "apply_events K read_message st1 es = (st2, a, Ok ())"
    "apply_events K read_message st2 fs = (st', c, Ok ())" "ms' = a @ c"
    by (rule Cons.IH [OF _ rest])
  then show ?case using Cons.prems(1) e r ms by simp
qed simp

text \<open>The stream is not over before its last event: no event follows one that says it is done.\<close>

definition done_only_last ::
  "codecs \<Rightarrow> (json \<Rightarrow> ('m, string) result) \<Rightarrow> stream_state \<Rightarrow> sse_event list \<Rightarrow> bool" where
  "done_only_last K read_message st es \<longleftrightarrow>
     (\<exists>st' ms. apply_events K read_message st (butlast es) = (st', ms, Ok ()) \<and> \<not> st_done st')"

lemma done_only_last_live: "done_only_last K read_message st es \<Longrightarrow> \<not> st_done st"
  unfolding done_only_last_def by (metis apply_events_done)

lemma done_only_last_append:
  assumes "done_only_last K read_message st (es @ fs)" and "fs \<noteq> []"
    and "apply_events K read_message st es = (st1, ms1, Ok ())"
  shows "done_only_last K read_message st1 fs"
proof -
  from assms(1,2) obtain st' ms where "apply_events K read_message st (es @ butlast fs) = (st', ms, Ok ())"
    and "\<not> st_done st'" by (auto simp: done_only_last_def butlast_append)
  with assms(3) show ?thesis unfolding done_only_last_def
    by (elim apply_events_append) auto
qed

lemma done_only_last_Nil: "\<not> st_done st \<Longrightarrow> done_only_last K read_message st []"
  by (simp add: done_only_last_def)

lemma drain_whole_body:
  assumes "rs_response s = map Ok chunks" and "list_all (\<lambda>c. is_ok (from_utf8 c)) chunks"
    and "push_text (rs_decoder s) (bytes_text (concat chunks)) = (d, evs)" and "sse_finish d = (d', evs')"
    and "drained (rs_decoder s)"
    and "apply_events K read_message (rs_state s) (evs @ evs') = (st, ms, Ok ())"
    and "done_only_last K read_message (rs_state s) (evs @ evs')"
  shows "\<exists>s'. stream_drain K read_message s = (s', Ok ()) \<and> rs_consumer s' = rs_consumer s \<and>
    rs_state s' = st\<lparr>st_done := True\<rparr>"
  using assms
proof (induction chunks arbitrary: s evs ms)
  case Nil
  let ?s = "s\<lparr>rs_pending := []\<rparr>"
  have live: "\<not> st_done (rs_state s)" using Nil.prems(7) by (rule done_only_last_live)
  from Nil.prems(3,5) have d: "d = rs_decoder s" "evs = []"
    by (simp_all add: bytes_text_def push_text_drained_Nil)
  let ?t = "?s\<lparr>rs_decoder := d', rs_pending := ms, rs_state := st\<lparr>st_done := True\<rparr>\<rparr>"
  have "read_response K read_message ?s = (?t, Ok ())"
    using Nil.prems(1,4,6) d by (simp add: read_response_def)
  then have "stream_drain K read_message ?s = stream_drain K read_message ?t"
    by (subst stream_drain_step) (simp add: live)
  also have "\<dots> = stream_drain K read_message (?t\<lparr>rs_pending := []\<rparr>)" by (rule stream_drain_pending)
  also have "\<dots> = (?t\<lparr>rs_pending := []\<rparr>, Ok ())" by (subst stream_drain_step) simp
  finally show ?case using stream_drain_pending [of K read_message s] by simp
next
  case (Cons c cs)
  let ?s = "s\<lparr>rs_pending := []\<rparr>"
  have live: "\<not> st_done (rs_state s)" using Cons.prems(7) by (rule done_only_last_live)
  obtain d1 es1 where first: "push_text (rs_decoder s) (bytes_text c) = (d1, es1)" by fastforce
  obtain d2 es2 where second: "push_text d1 (bytes_text (concat cs)) = (d2, es2)" by fastforce
  from Cons.prems(3) first second have evs: "evs = es1 @ es2" "d2 = d"
    by (simp_all add: bytes_text_append push_text_append)
  obtain st1 ms1 ms2 where app: "apply_events K read_message (rs_state s) es1 = (st1, ms1, Ok ())"
    "apply_events K read_message st1 (es2 @ evs') = (st, ms2, Ok ())"
    using Cons.prems(6) evs(1) by (auto elim: apply_events_append)
  have chunk: "is_ok (from_utf8 c)" using Cons.prems(2) by simp
  let ?t = "?s\<lparr>rs_response := map Ok cs, rs_decoder := d1, rs_pending := ms1, rs_state := st1\<rparr>"
  have "read_response K read_message ?s = (?t, Ok ())"
    using Cons.prems(1) app(1) first by (simp add: read_response_def push_chunk_text [OF chunk])
  then have first_read: "stream_drain K read_message s = stream_drain K read_message ?t"
    using stream_drain_pending [of K read_message s] by (subst (asm) stream_drain_step) (simp add: live stream_drain_step [of K read_message ?s])
  have "\<exists>s'. stream_drain K read_message ?t = (s', Ok ()) \<and> rs_consumer s' = rs_consumer ?t \<and>
      rs_state s' = st\<lparr>st_done := True\<rparr>"
  proof (cases "st_done st1")
    case True
    then have "\<not> done_only_last K read_message st1 (es2 @ evs')" using done_only_last_live by blast
    then have "es2 @ evs' = []"
      using done_only_last_append [of K read_message "rs_state s" es1 "es2 @ evs'", OF _ _ app(1)] Cons.prems(7) evs(1) by auto
    with app(2) have "st = st1" by simp
    have "stream_drain K read_message ?t = stream_drain K read_message (?t\<lparr>rs_pending := []\<rparr>)"
      by (rule stream_drain_pending)
    also have "\<dots> = (?t\<lparr>rs_pending := []\<rparr>, Ok ())" by (subst stream_drain_step) (simp add: True)
    finally show ?thesis using True \<open>st = st1\<close> by (cases st1) simp
  next
    case False
    have "done_only_last K read_message st1 (es2 @ evs')"
    proof (cases "es2 @ evs' = []")
      case True
      then show ?thesis using done_only_last_Nil [OF False] by simp
    next
      case more: False
      then show ?thesis
        using done_only_last_append [of K read_message "rs_state s" es1 "es2 @ evs'", OF _ more app(1)] Cons.prems(7) evs(1)
        by simp
    qed
    then show ?thesis
      by (intro Cons.IH [of ?t es2 ms2])
        (use Cons.prems(2,4) second evs(2) app(2) push_text_drained [OF first] in simp_all)
  qed
  then show ?case using first_read by simp
qed

section \<open>The loops stop\<close>

text \<open>The loops with fuel: one unit for every turn, and no answer when it runs out.\<close>

fun next_with_fuel ::
  "nat \<Rightarrow> codecs \<Rightarrow> (json \<Rightarrow> ('m, string) result) \<Rightarrow> ('w, 'm) metered_stream \<Rightarrow>
   (('w, 'm) metered_stream \<times> ('m option, error) result) option" where
  "next_with_fuel 0 K read_message s = None"
| "next_with_fuel (Suc k) K read_message s =
     (case rs_pending s of
        m # ms \<Rightarrow> Some (s\<lparr>rs_pending := ms\<rparr>, Ok (Some m))
      | [] \<Rightarrow>
          if st_done (rs_state s) then Some (s, Ok None)
          else
            (case read_response K read_message s of
               (s', Ok _) \<Rightarrow> next_with_fuel k K read_message s'
             | (s', Err e) \<Rightarrow> Some (s', Err e)
             | (s', Panic) \<Rightarrow> Some (s', Panic)))"

fun drain_with_fuel ::
  "nat \<Rightarrow> codecs \<Rightarrow> (json \<Rightarrow> ('m, string) result) \<Rightarrow> ('w, 'm) metered_stream \<Rightarrow>
   (('w, 'm) metered_stream \<times> (unit, error) result) option" where
  "drain_with_fuel 0 K read_message s = None"
| "drain_with_fuel (Suc k) K read_message s =
     (case next_with_fuel k K read_message s of
        None \<Rightarrow> None
      | Some (s', Ok (Some m)) \<Rightarrow> drain_with_fuel k K read_message s'
      | Some (s', Ok None) \<Rightarrow> Some (s', Ok ())
      | Some (s', Err e) \<Rightarrow> Some (s', Err e)
      | Some (s', Panic) \<Rightarrow> Some (s', Panic))"

definition ack_with_fuel ::
  "nat \<Rightarrow> build \<Rightarrow> externs \<Rightarrow> codecs \<Rightarrow> (json \<Rightarrow> ('m, string) result) \<Rightarrow> 'w \<Rightarrow> ('w, 'm) metered_stream \<Rightarrow>
   ('w \<times> 'w session_consumer \<times> (commit_receipt, error) result) option" where
  "ack_with_fuel k b X K read_message w s =
     map_option (\<lambda>sr. case sr of
         (s', Ok _) \<Rightarrow> commit_stream b X w (rs_consumer s') (rs_state s')
       | (s', Err e) \<Rightarrow> (w, rs_consumer s', Err e)
       | (s', Panic) \<Rightarrow> (w, rs_consumer s', Panic))
     (if st_done (rs_state s) then Some (s, Ok ()) else drain_with_fuel k K read_message s)"

lemma next_with_enough_fuel:
  "unread s < k \<Longrightarrow> next_with_fuel k K read_message s = Some (stream_next K read_message s)"
proof (induction k K read_message s rule: next_with_fuel.induct)
  case (2 k K read_message s)
  show ?case
  proof (cases "rs_pending s = [] \<and> \<not> st_done (rs_state s)")
    case True
    obtain s' r where read: "read_response K read_message s = (s', r)" by fastforce
    show ?thesis
    proof (cases r)
      case (Ok u)
      have "unread s' < unread s" using read_response_unread [of K read_message s s'] read Ok True by simp
      with 2 True read Ok show ?thesis by (simp add: stream_next.simps [of K read_message s])
    qed (use True read in \<open>simp_all add: stream_next.simps [of K read_message s]\<close>)
  next
    case False
    then show ?thesis by (cases "rs_pending s") (simp_all add: stream_next.simps [of K read_message s])
  qed
qed simp

lemma next_with_more_fuel:
  "next_with_fuel k K read_message s = Some r \<Longrightarrow> k \<le> l \<Longrightarrow> next_with_fuel l K read_message s = Some r"
proof (induction k K read_message s arbitrary: l rule: next_with_fuel.induct)
  case (2 k K read_message s)
  then obtain l' where l: "l = Suc l'" "k \<le> l'" by (cases l) auto
  show ?case
  proof (cases "rs_pending s = [] \<and> \<not> st_done (rs_state s)")
    case True
    obtain s' r' where read: "read_response K read_message s = (s', r')" by fastforce
    show ?thesis
    proof (cases r')
      case (Ok u)
      have live: "rs_pending s = []" "\<not> st_done (rs_state s)" using True by simp_all
      from "2.prems"(1) live read Ok have "next_with_fuel k K read_message s' = Some r" by simp
      from "2.IH" [OF live read [symmetric] Ok this l(2)] live read Ok l(1) show ?thesis by simp
    qed (use True read "2.prems"(1) l(1) in simp_all)
  next
    case False
    then show ?thesis using "2.prems"(1) l(1) by (cases "rs_pending s") simp_all
  qed
qed simp

lemma drain_with_more_fuel:
  "drain_with_fuel k K read_message s = Some r \<Longrightarrow> k \<le> l \<Longrightarrow> drain_with_fuel l K read_message s = Some r"
proof (induction k K read_message s arbitrary: l rule: drain_with_fuel.induct)
  case (2 k K read_message s)
  then obtain l' where l: "l = Suc l'" "k \<le> l'" by (cases l) auto
  from "2.prems"(1) obtain s' r' where first: "next_with_fuel k K read_message s = Some (s', r')"
    by (cases "next_with_fuel k K read_message s") auto
  from next_with_more_fuel [OF first l(2)] have "next_with_fuel l' K read_message s = Some (s', r')" .
  note second = this
  show ?case
  proof (cases "\<exists>m. r' = Ok (Some m)")
    case True
    then obtain m where r': "r' = Ok (Some m)" ..
    with first "2.prems"(1) have "drain_with_fuel k K read_message s' = Some r" by simp
    from "2.IH" [OF first refl r' refl this l(2)] second r' show ?thesis by (simp add: l(1))
  next
    case False
    then show ?thesis using first second "2.prems"(1)
      by (cases r') (auto simp del: next_with_fuel.simps simp: l(1) split: option.splits)
  qed
qed simp

lemma drain_with_enough_fuel: "\<exists>k. drain_with_fuel k K read_message s = Some (stream_drain K read_message s)"
proof (induction K read_message s rule: stream_drain.induct)
  case (1 K read_message s)
  obtain s' r where first: "stream_next K read_message s = (s', r)" by fastforce
  have fuel: "next_with_fuel k K read_message s = Some (s', r)" if "unread s < k" for k
    using next_with_enough_fuel [OF that] first by simp
  show ?case
  proof (cases "\<exists>m. r = Ok (Some m)")
    case True
    then obtain m where r: "r = Ok (Some m)" ..
    with "1" first obtain k where k: "drain_with_fuel k K read_message s' = Some (stream_drain K read_message s')"
      by metis
    let ?k = "max k (Suc (unread s))"
    have "drain_with_fuel ?k K read_message s' = Some (stream_drain K read_message s')"
      using drain_with_more_fuel [OF k] by simp
    then have "drain_with_fuel (Suc ?k) K read_message s = Some (stream_drain K read_message s')"
      using fuel [of ?k] r by simp
    moreover have "stream_drain K read_message s = stream_drain K read_message s'"
      using first r by (simp add: stream_drain.simps [of K read_message s])
    ultimately show ?thesis by metis
  next
    case False
    then have "drain_with_fuel (Suc (Suc (unread s))) K read_message s = Some (stream_drain K read_message s)"
      using fuel [of "Suc (unread s)"] first
      by (cases r) (auto simp del: next_with_fuel.simps simp: stream_drain.simps [of K read_message s] split: option.splits)
    then show ?thesis ..
  qed
qed

lemma ack_with_enough_fuel:
  "\<exists>k. ack_with_fuel k b X K read_message w s = Some (stream_ack b X K read_message w s)"
proof -
  obtain k where "drain_with_fuel k K read_message s = Some (stream_drain K read_message s)"
    using drain_with_enough_fuel by blast
  then have "ack_with_fuel k b X K read_message w s = Some (stream_ack b X K read_message w s)"
    by (simp add: ack_with_fuel_def stream_ack_def split: prod.splits result.splits)
  then show ?thesis ..
qed

text \<open>
  C26. Acknowledging a stream always stops: for every stream, whatever its reads give, the loops that read it
  answer with enough fuel.  And if every chunk is valid UTF-8, no event is an error and no event follows one
  that says the stream is done, it commits what the body says: the events of all chunks together, in order,
  determine the directive and the final amount.
\<close>

theorem stream_ack_commits_whole_body:
  fixes consumer :: "'w session_consumer" and read_message :: "json \<Rightarrow> ('m, string) result"
    and s :: "('w, 'm) metered_stream"
  assumes "list_all (\<lambda>c. is_ok (from_utf8 c)) chunks"
    and "push_chunk sse_decoder_new (concat chunks) = (d, Ok evs)" and "sse_finish d = (d', evs')"
    and "apply_events K read_message stream_state_default (evs @ evs') = (st, ms, Ok ())"
    and "done_only_last K read_message stream_state_default (evs @ evs')"
  shows "(\<exists>k. ack_with_fuel k b X K read_message w s = Some (stream_ack b X K read_message w s)) \<and>
    stream_ack b X K read_message w (metered_stream_new consumer (map Ok chunks)) =
    commit_stream b X w consumer st"
proof
  show "\<exists>k. ack_with_fuel k b X K read_message w s = Some (stream_ack b X K read_message w s)"
    by (rule ack_with_enough_fuel)
  let ?s = "metered_stream_new consumer (map Ok chunks) :: ('w, 'm) metered_stream"
  have push: "push_text sse_decoder_new (bytes_text (concat chunks)) = (d, evs)"
    using assms(2) push_chunk_text [OF from_utf8_concat [OF assms(1)], of sse_decoder_new]
    by (auto split: prod.splits)
  have "\<exists>s'. stream_drain K read_message ?s = (s', Ok ()) \<and> rs_consumer s' = rs_consumer ?s \<and>
      rs_state s' = st\<lparr>st_done := True\<rparr>"
    by (rule drain_whole_body [of ?s chunks d evs d' evs'])
      (use assms push in \<open>simp_all add: metered_stream_new_def drained_def sse_decoder_new_def\<close>)
  moreover have "\<not> st_done (rs_state ?s)" by (simp add: metered_stream_new_def stream_state_default_def)
  moreover have "commit_stream b X w consumer (st\<lparr>st_done := True\<rparr>) = commit_stream b X w consumer st"
    by (simp add: commit_stream_def directive_for_commit_def)
  ultimately show "stream_ack b X K read_message w ?s = commit_stream b X w consumer st"
    by (auto simp: stream_ack_def metered_stream_new_def)
qed

text \<open>A body with a directive for 40, a usage of 25 and the mark of its end, in four chunks.\<close>

definition stream_codecs :: codecs where
  "stream_codecs =
     \<lparr>b64_encode = byte_text, b64_decode = (\<lambda>s. Ok (string_bytes s)), hmac_sha256 = (\<lambda>k t. []),
      canonical_json = (\<lambda>v. Err ''none''),
      json_from_slice = (\<lambda>bs.
        if bs = string_bytes ''D'' then Ok (metering_directive_to_json (wallet_directive 40))
        else Ok (metering_usage_to_json \<lparr>mu_delivery_id = ''d1'', mu_amount = show_u64 25\<rparr>)),
      parse_rfc3339 = (\<lambda>s. Err ''no time''), format_rfc3339 = (\<lambda>t. Ok ''t''), now_utc = 0\<rparr>"

definition stream_chunks :: "byte list list" where
  "stream_chunks =
     [string_bytes ''event: mete'', string_bytes ''ring'' @ [10] @ string_bytes ''data: D'' @ [10, 10] @
        string_bytes ''event: usage'' @ [10] @ string_bytes ''da'', string_bytes ''ta: U'' @ [10, 10],
      string_bytes ''data: [DONE]'' @ [10, 10]]"

definition stream_events :: "sse_event list" where
  "stream_events =
     [\<lparr>ev_event = Some ''metering'', ev_data = ''D'', ev_id = None, ev_retry = None\<rparr>,
      \<lparr>ev_event = Some ''usage'', ev_data = ''U'', ev_id = None, ev_retry = None\<rparr>,
      \<lparr>ev_event = None, ev_data = ''[DONE]'', ev_id = None, ev_retry = None\<rparr>]"

definition stream_consumer :: "unit session_consumer" where
  "stream_consumer = session_consumer_new wallet_session (\<lambda>w d p. (w, Err lost_connection))"

lemma stream_chunks_decode:
  "list_all (\<lambda>c. is_ok (from_utf8 c)) stream_chunks"
  "push_chunk sse_decoder_new (concat stream_chunks) = (sse_decoder_new, Ok stream_events)"
  "sse_finish sse_decoder_new = (sse_decoder_new, [])"
  by code_simp+

lemma stream_events_apply:
  "apply_events stream_codecs json_str stream_state_default (stream_events @ []) =
     (\<lparr>st_directive = Some (wallet_directive 40), st_final_amount = Some 25, st_done = True\<rparr>, [], Ok ())"
  "done_only_last stream_codecs json_str stream_state_default (stream_events @ [])"
proof -
  have json: "json_from_slice stream_codecs (string_bytes ''D'') = Ok (metering_directive_to_json (wallet_directive 40))"
    "json_from_slice stream_codecs (string_bytes ''U'') =
       Ok (metering_usage_to_json \<lparr>mu_delivery_id = ''d1'', mu_amount = show_u64 25\<rparr>)"
    by (simp_all add: stream_codecs_def string_bytes_inj)
  have mark: "trim ''[DONE]'' = DONE_MARK" by code_simp
  note run = stream_events_def apply_event_def parse_metered_sse_event_def json Let_def opt_list_def
    metering_directive_roundtrip metering_usage_roundtrip stream_state_default_def
    usage_amount_base_units_def mark
  show "apply_events stream_codecs json_str stream_state_default (stream_events @ []) =
     (\<lparr>st_directive = Some (wallet_directive 40), st_final_amount = Some 25, st_done = True\<rparr>, [], Ok ())"
    by (simp add: run) (simp add: wallet_directive_def)
  show "done_only_last stream_codecs json_str stream_state_default (stream_events @ [])"
    by (simp add: done_only_last_def run) (simp add: wallet_directive_def)
qed

theorem stream_ack_commits_whole_body_witness:
  "stream_ack Debug_Build wallet_externs stream_codecs json_str ()
     (metered_stream_new stream_consumer (map Ok stream_chunks)) =
   commit_stream Debug_Build wallet_externs () stream_consumer
     \<lparr>st_directive = Some (wallet_directive 40), st_final_amount = Some 25, st_done = True\<rparr>"
  using stream_ack_commits_whole_body
    [OF stream_chunks_decode stream_events_apply, of Debug_Build wallet_externs "()" _ stream_consumer] by blast

end
