(* ===== verification/Client_Charge.thy ===== *)
theory Client_Charge
  imports Charge_Settlement Channel_Instructions
begin

text \<open>
  \<^verbatim>\<open>rust/src/client/charge.rs\<close>: selecting a charge challenge, building and signing the payment
  transaction it asks for, and wrapping it in a credential.
\<close>

section \<open>Code outside the repository\<close>

text \<open>
  The System Program's transfer instruction, the compilation of instructions into an unsigned
  transaction for a fee payer and a blockhash, \<^verbatim>\<open>bincode\<close>, \<^verbatim>\<open>base64\<close> with the standard alphabet, the parser of
  blockhashes, and the RPC client (the owner of an account, the latest blockhash).
\<close>

record client_crates =
  ck_transfer :: "pubkey \<Rightarrow> pubkey \<Rightarrow> u64 \<Rightarrow> instruction"
  ck_compile :: "instruction list \<Rightarrow> pubkey \<Rightarrow> byte list \<Rightarrow> versioned_transaction"
  ck_bincode_serialize :: "versioned_transaction \<Rightarrow> (byte list, string) result"
  ck_base64_encode :: "byte list \<Rightarrow> string"
  ck_hash_from_str :: "string \<Rightarrow> (byte list, string) result"
  ck_account_owner :: "pubkey \<Rightarrow> (pubkey, string) result"
  ck_latest_blockhash :: "(byte list, string) result"

section \<open>Instructions\<close>

definition compute_unit_price_ix :: "externs \<Rightarrow> u64 \<Rightarrow> (instruction, error) result" where
  "compute_unit_price_ix X micro_lamports =
     rbind (expect_pubkey X COMPUTE_BUDGET_PROGRAM) (\<lambda>program_id.
       Ok \<lparr>ix_program_id = program_id, ix_accounts = [], ix_data = 3 # u64_le micro_lamports\<rparr>)"

definition compute_unit_limit_ix :: "externs \<Rightarrow> u32 \<Rightarrow> (instruction, error) result" where
  "compute_unit_limit_ix X units =
     rbind (expect_pubkey X COMPUTE_BUDGET_PROGRAM) (\<lambda>program_id.
       Ok \<lparr>ix_program_id = program_id, ix_accounts = [], ix_data = 2 # u32_le units\<rparr>)"

text \<open>The memo to append, if there is one; an empty text is a memo too.\<close>

definition push_memo_instruction :: "externs \<Rightarrow> string option \<Rightarrow> (instruction list, error) result" where
  "push_memo_instruction X memo =
     (case memo of
        None \<Rightarrow> Ok []
      | Some m \<Rightarrow>
          if 566 < length (string_bytes m) then Err (Other ''memo cannot exceed 566 bytes'')
          else
            rbind (map_err (\<lambda>e. Other (''Invalid memo program: '' @ e)) (pubkey_from_str X MEMO_PROGRAM))
              (\<lambda>memo_program.
                Ok [\<lparr>ix_program_id = memo_program, ix_accounts = [], ix_data = string_bytes m\<rparr>]))"

definition client_split_recipient :: "externs \<Rightarrow> split \<Rightarrow> (pubkey, error) result" where
  "client_split_recipient X s =
     map_err (\<lambda>e. Other (''Invalid split recipient: '' @ e)) (pubkey_from_str X (sp_recipient s))"

definition client_split_amount :: "split \<Rightarrow> (u64, error) result" where
  "client_split_amount s = ok_or (parse_u64 (sp_amount s)) (Other (''Invalid split amount: '' @ sp_amount s))"

text \<open>The loop over the splits, given the instructions that pay one of them.\<close>

fun split_instructions ::
  "externs \<Rightarrow> (split \<Rightarrow> pubkey \<Rightarrow> u64 \<Rightarrow> (instruction list, error) result) \<Rightarrow> split list \<Rightarrow>
   (instruction list, error) result" where
  "split_instructions X pay [] = Ok []"
| "split_instructions X pay (s # ss) =
     rbind (client_split_recipient X s) (\<lambda>recipient.
     rbind (client_split_amount s) (\<lambda>amount.
     rbind (pay s recipient amount) (\<lambda>transfer.
     rbind (push_memo_instruction X (sp_memo s)) (\<lambda>memo.
     rbind (split_instructions X pay ss) (\<lambda>rest. Ok (transfer @ memo @ rest))))))"

definition build_sol_instructions ::
  "externs \<Rightarrow> client_crates \<Rightarrow> pubkey \<Rightarrow> pubkey \<Rightarrow> u64 \<Rightarrow> string option \<Rightarrow> split list \<Rightarrow>
   (instruction list, error) result" where
  "build_sol_instructions X C signer_pubkey recipient primary_amount external_id splits =
     rbind (push_memo_instruction X external_id) (\<lambda>memo.
     rbind (split_instructions X (\<lambda>s r amount. Ok [ck_transfer C signer_pubkey r amount]) splits) (\<lambda>rest.
       Ok (ck_transfer C signer_pubkey recipient primary_amount # memo @ rest)))"

definition resolve_token_program ::
  "externs \<Rightarrow> client_crates \<Rightarrow> pubkey \<Rightarrow> method_details \<Rightarrow> (pubkey, error) result" where
  "resolve_token_program X C mint md =
     rbind (case md_token_program md of
              Some token_program \<Rightarrow>
                map_err (\<lambda>e. Other (''Invalid token program: '' @ e)) (pubkey_from_str X token_program)
            | None \<Rightarrow>
                map_err (\<lambda>e. Rpc (''Failed to fetch mint account: '' @ e)) (ck_account_owner C mint))
       (\<lambda>token_program.
         if pubkey_string X token_program \<noteq> TOKEN_PROGRAM \<and>
            pubkey_string X token_program \<noteq> TOKEN_2022_PROGRAM then
           Err (Other (''Unsupported token program: '' @ pubkey_string X token_program))
         else Ok token_program)"

definition get_associated_token_address ::
  "externs \<Rightarrow> pubkey \<Rightarrow> pubkey \<Rightarrow> pubkey \<Rightarrow> (pubkey, error) result" where
  "get_associated_token_address X owner mint token_program =
     rbind (expect_pubkey X ASSOCIATED_TOKEN_PROGRAM) (\<lambda>ata_program.
       Ok (fst (find_program_address X
             [pubkey_bytes owner, pubkey_bytes token_program, pubkey_bytes mint] ata_program)))"

definition create_associated_token_account_idempotent ::
  "externs \<Rightarrow> pubkey \<Rightarrow> pubkey \<Rightarrow> pubkey \<Rightarrow> pubkey \<Rightarrow> (instruction, error) result" where
  "create_associated_token_account_idempotent X payer owner mint token_program =
     rbind (get_associated_token_address X owner mint token_program) (\<lambda>ata.
     rbind (expect_pubkey X ASSOCIATED_TOKEN_PROGRAM) (\<lambda>ata_program.
     rbind (expect_pubkey X SYSTEM_PROGRAM) (\<lambda>system_program.
       Ok \<lparr>ix_program_id = ata_program,
           ix_accounts =
             [meta_new payer True, meta_new ata False, meta_readonly owner False,
              meta_readonly mint False, meta_readonly system_program False,
              meta_readonly token_program False],
           ix_data = [1]\<rparr>)))"

definition transfer_checked_ix ::
  "pubkey \<Rightarrow> pubkey \<Rightarrow> pubkey \<Rightarrow> pubkey \<Rightarrow> pubkey \<Rightarrow> u64 \<Rightarrow> byte \<Rightarrow> instruction" where
  "transfer_checked_ix token_program source mint destination authority amount decimals =
     \<lparr>ix_program_id = token_program,
      ix_accounts =
        [meta_new source False, meta_readonly mint False, meta_new destination False,
         meta_readonly authority True],
      ix_data = 12 # u64_le amount @ [decimals]\<rparr>"

text \<open>The closure that appends one token payment.\<close>

definition add_spl_transfer ::
  "externs \<Rightarrow> pubkey \<Rightarrow> pubkey \<Rightarrow> pubkey \<Rightarrow> pubkey \<Rightarrow> pubkey \<Rightarrow> byte \<Rightarrow> pubkey \<Rightarrow> u64 \<Rightarrow> bool \<Rightarrow>
   (instruction list, error) result" where
  "add_spl_transfer X mint token_program source_ata payer signer_pubkey decimals dest_owner
       transfer_amount create_ata =
     rbind (get_associated_token_address X dest_owner mint token_program) (\<lambda>dest_ata.
     rbind (if create_ata then
              rbind (create_associated_token_account_idempotent X payer dest_owner mint token_program)
                (\<lambda>ix. Ok [ix])
            else Ok []) (\<lambda>creation.
       Ok (creation @
           [transfer_checked_ix token_program source_ata mint dest_ata signer_pubkey transfer_amount
              decimals])))"

definition build_spl_instructions ::
  "externs \<Rightarrow> client_crates \<Rightarrow> pubkey \<Rightarrow> pubkey \<Rightarrow> string \<Rightarrow> method_details \<Rightarrow> u64 \<Rightarrow> string option \<Rightarrow>
   split list \<Rightarrow> pubkey option \<Rightarrow> (instruction list, error) result" where
  "build_spl_instructions X C signer_pubkey recipient spl md primary_amount external_id splits fee_payer =
     rbind (map_err (\<lambda>e. Other (''Invalid mint: '' @ e)) (pubkey_from_str X spl)) (\<lambda>mint.
     rbind (resolve_token_program X C mint md) (\<lambda>token_program.
     let decimals = case_option 6 id (md_decimals md) in
     rbind (get_associated_token_address X signer_pubkey mint token_program) (\<lambda>source_ata.
     let payer = case_option signer_pubkey id fee_payer;
         add = add_spl_transfer X mint token_program source_ata payer signer_pubkey decimals in
     rbind (add recipient primary_amount False) (\<lambda>primary.
     rbind (push_memo_instruction X external_id) (\<lambda>memo.
     rbind (split_instructions X
              (\<lambda>s r amount. add r amount (fee_payer = None \<or> sp_ata_creation_required s = Some True)) splits)
       (\<lambda>rest. Ok (primary @ memo @ rest)))))))"

section \<open>The transaction\<close>

definition client_primary_amount :: "build \<Rightarrow> string \<Rightarrow> split list \<Rightarrow> (u64, error) result" where
  "client_primary_amount b amount splits =
     rbind (ok_or (parse_u64 amount) (Other (''Invalid amount: '' @ amount))) (\<lambda>total_amount.
     if 8 < length splits then Err TooManySplits
     else
     rbind (sum_u64 b 0 (split_amounts splits)) (\<lambda>splits_total.
     rbind (ok_or (checked_sub_u64 total_amount splits_total) SplitsExceedAmount) (\<lambda>primary_amount.
     if primary_amount = 0 then Err SplitsExceedAmount else Ok primary_amount)))"

definition client_fee_payer :: "externs \<Rightarrow> method_details \<Rightarrow> (pubkey option, error) result" where
  "client_fee_payer X md =
     (if md_fee_payer md = Some True then
        (case md_fee_payer_key md of
           Some key \<Rightarrow>
             rbind (map_err (\<lambda>e. Other (''Invalid fee payer: '' @ e)) (pubkey_from_str X key))
               (\<lambda>p. Ok (Some p))
         | None \<Rightarrow> Ok None)
      else Ok None)"

text \<open>All instructions of the transaction, with the fee payer of the challenge if it has one.\<close>

definition charge_instructions ::
  "build \<Rightarrow> externs \<Rightarrow> client_crates \<Rightarrow> pubkey \<Rightarrow> string \<Rightarrow> string \<Rightarrow> string \<Rightarrow> method_details \<Rightarrow>
   string option \<Rightarrow> (instruction list \<times> pubkey option, error) result" where
  "charge_instructions b X C signer_pubkey amount currency recipient md external_id =
     (let splits = case_option [] id (md_splits md) in
      rbind (client_primary_amount b amount splits) (\<lambda>primary_amount.
      rbind (map_err (\<lambda>e. Other (''Invalid recipient: '' @ e)) (pubkey_from_str X recipient))
        (\<lambda>recipient_pubkey.
      rbind (client_fee_payer X md) (\<lambda>fee_payer.
      rbind (compute_unit_price_ix X 1) (\<lambda>price.
      rbind (compute_unit_limit_ix X 200000) (\<lambda>limit.
      let mint = resolve_stablecoin_mint currency (md_network md) in
      rbind (if \<exists>s \<in> set splits. sp_ata_creation_required s = Some True then
               (case mint of
                  None \<Rightarrow> Err (Other ''ataCreationRequired requires an SPL token charge'')
                | Some mint_str \<Rightarrow>
                    if mint_str \<noteq> currency then
                      Err (Other ''ataCreationRequired requires currency to be an SPL token mint address'')
                    else Ok ())
             else Ok ()) (\<lambda>_.
      rbind (case mint of
               Some mint_str \<Rightarrow>
                 build_spl_instructions X C signer_pubkey recipient_pubkey mint_str md primary_amount
                   external_id splits fee_payer
             | None \<Rightarrow>
                 build_sol_instructions X C signer_pubkey recipient_pubkey primary_amount external_id splits)
        (\<lambda>payments. Ok (price # limit # payments, fee_payer)))))))))"

definition build_charge_transaction_with_options ::
  "build \<Rightarrow> externs \<Rightarrow> client_crates \<Rightarrow> tx_codecs \<Rightarrow> signer \<Rightarrow> string \<Rightarrow> string \<Rightarrow> string \<Rightarrow> method_details \<Rightarrow>
   string option \<Rightarrow> (credential_payload, error) result" where
  "build_charge_transaction_with_options b X C T signer amount currency recipient md external_id =
     rbind (charge_instructions b X C (sg_pubkey signer) amount currency recipient md external_id)
       (\<lambda>(instructions, fee_payer).
     rbind (case md_recent_blockhash md of
              Some bh \<Rightarrow> map_err (\<lambda>e. Other (''Invalid blockhash: '' @ e)) (ck_hash_from_str C bh)
            | None \<Rightarrow> map_err Rpc (ck_latest_blockhash C)) (\<lambda>blockhash.
     let tx = ck_compile C instructions (case_option (sg_pubkey signer) id fee_payer) blockhash in
     rbind (map_err (\<lambda>e. Other (''Signing failed: '' @ e)) (sg_sign signer (message_serialize T tx))) (\<lambda>sig.
     rbind (ok_or (position (sg_pubkey signer) (tx_account_keys tx))
              (Other ''Signer not found in transaction accounts'')) (\<lambda>signer_index.
     if length (tx_signatures tx) \<le> signer_index then Panic
     else
     rbind (map_err (\<lambda>e. Other (''Serialization failed: '' @ e))
              (ck_bincode_serialize C (tx\<lparr>tx_signatures := (tx_signatures tx)[signer_index := sig]\<rparr>)))
       (\<lambda>serialized. Ok (Transaction (ck_base64_encode C serialized)))))))"

definition build_charge_transaction ::
  "build \<Rightarrow> externs \<Rightarrow> client_crates \<Rightarrow> tx_codecs \<Rightarrow> signer \<Rightarrow> string \<Rightarrow> string \<Rightarrow> string \<Rightarrow> method_details \<Rightarrow>
   (credential_payload, error) result" where
  "build_charge_transaction b X C T signer amount currency recipient md =
     build_charge_transaction_with_options b X C T signer amount currency recipient md None"

section \<open>Credentials\<close>

definition build_credential_header ::
  "build \<Rightarrow> externs \<Rightarrow> codecs \<Rightarrow> client_crates \<Rightarrow> tx_codecs \<Rightarrow> signer \<Rightarrow> payment_challenge \<Rightarrow>
   (string, error) result" where
  "build_credential_header b X K C T signer challenge =
     rbind (map_err (\<lambda>e. Other (''Failed to decode challenge request: '' @ error_display e))
              (decode_request K (pc_request challenge))) (\<lambda>request.
     rbind (map_err (\<lambda>e. Other (''Invalid method details: '' @ e))
              (case cr_method_details request of
                 Some v \<Rightarrow> method_details_of_json v
               | None \<Rightarrow> Ok method_details_default)) (\<lambda>md.
     rbind (ok_or (cr_recipient request) (Other ''No recipient in challenge'')) (\<lambda>recipient.
     rbind (build_charge_transaction_with_options b X C T signer (cr_amount request) (cr_currency request)
              recipient md (cr_external_id request)) (\<lambda>payload.
       map_err (\<lambda>e. Other (''Failed to format credential: '' @ error_display e))
         (format_authorization K
            (payment_credential_new (to_echo challenge) (credential_payload_to_json payload)))))))"

definition parse_challenge :: "codecs \<Rightarrow> string \<Rightarrow> (payment_challenge, error) result" where
  "parse_challenge K header_value = parse_www_authenticate K header_value"

section \<open>Selecting a challenge\<close>

record select_options =
  so_currency :: "string option"
  so_currency_preferences :: "string list"
  so_network :: "string option"

definition is_solana_charge_challenge_name :: "payment_challenge \<Rightarrow> bool" where
  "is_solana_charge_challenge_name c =
     (method_str (pc_method c) = ''solana'' \<and> intent_str (pc_intent c) = ''charge'')"

definition decode_charge_challenge ::
  "codecs \<Rightarrow> payment_challenge \<Rightarrow> (charge_request \<times> method_details, error) result" where
  "decode_charge_challenge K c =
     rbind (map_err (\<lambda>e. Other (''Failed to decode challenge request: '' @ error_display e))
              (decode_request K (pc_request c))) (\<lambda>request.
     if cr_recipient request = None then Err (Other ''No recipient in challenge'')
     else
     rbind (ok_or (cr_method_details request) (Other ''Missing methodDetails in challenge'')) (\<lambda>details.
     rbind (map_err (\<lambda>e. Other (''Invalid method details: '' @ e)) (method_details_of_json details)) (\<lambda>md.
       Ok (request, md))))"

definition is_solana_charge_challenge :: "codecs \<Rightarrow> payment_challenge \<Rightarrow> bool" where
  "is_solana_charge_challenge K c =
     (is_solana_charge_challenge_name c \<and> is_ok (decode_charge_challenge K c))"

definition matches_network :: "method_details \<Rightarrow> string option \<Rightarrow> bool" where
  "matches_network md network =
     (case network of
        None \<Rightarrow> True
      | Some expected \<Rightarrow> case_option ''mainnet-beta'' id (md_network md) = expected)"

definition currency_preferences :: "select_options \<Rightarrow> string list" where
  "currency_preferences options =
     (if so_currency_preferences options \<noteq> [] then so_currency_preferences options
      else case so_currency options of Some c \<Rightarrow> [c] | None \<Rightarrow> [])"

definition currencies_match :: "string \<Rightarrow> string \<Rightarrow> string option \<Rightarrow> bool" where
  "currencies_match challenge_currency expected_currency network =
     (resolve_stablecoin_mint challenge_currency network = resolve_stablecoin_mint expected_currency network)"

text \<open>The loop that collects the candidates.\<close>

fun charge_candidates ::
  "codecs \<Rightarrow> string option \<Rightarrow> payment_challenge list \<Rightarrow>
   ((payment_challenge \<times> charge_request \<times> method_details) list, error) result" where
  "charge_candidates K network [] = Ok []"
| "charge_candidates K network (c # cs) =
     (if \<not> is_solana_charge_challenge_name c then charge_candidates K network cs
      else
        rbind (decode_charge_challenge K c) (\<lambda>(request, md).
        if \<not> matches_network md network then charge_candidates K network cs
        else rbind (charge_candidates K network cs) (\<lambda>rest. Ok ((c, request, md) # rest))))"

fun first_preferred ::
  "string list \<Rightarrow> (payment_challenge \<times> charge_request \<times> method_details) list \<Rightarrow> payment_challenge option" where
  "first_preferred [] candidates = None"
| "first_preferred (expected # preferences) candidates =
     (case find (\<lambda>(c, request, md). currencies_match (cr_currency request) expected (md_network md)) candidates of
        Some (c, request, md) \<Rightarrow> Some c
      | None \<Rightarrow> first_preferred preferences candidates)"

definition select_charge_challenge ::
  "codecs \<Rightarrow> payment_challenge list \<Rightarrow> select_options \<Rightarrow> (payment_challenge option, error) result" where
  "select_charge_challenge K challenges options =
     rbind (charge_candidates K (so_network options) challenges) (\<lambda>candidates.
       if so_currency_preferences options = [] \<and> so_currency options = None then
         Ok (case candidates of (c, _) # _ \<Rightarrow> Some c | [] \<Rightarrow> None)
       else Ok (first_preferred (currency_preferences options) candidates))"

end
