(* ===== verification/Client_Channels.thy ===== *)
theory Client_Channels
  imports Client_Session Client_Charge Multi_Delegator
begin

text \<open>
  \<^verbatim>\<open>rust/src/client/payment_channels.rs\<close> and \<^verbatim>\<open>multi_delegate.rs\<close>: deriving the channel that a session
  challenge asks for, building the transaction that opens it, the session and the action that go with
  it, and the delegation transactions of the operated pull mode.
\<close>

section \<open>Code outside the repository\<close>

text \<open>
  A keychain signer that signs a whole transaction, and \<^verbatim>\<open>Pubkey::new_unique\<close> with the key that its next call
  returns; compilation, \<^verbatim>\<open>bincode\<close> and \<^verbatim>\<open>base64\<close> are those of the charge client.
\<close>

record tx_signer = signer +
  sg_sign_transaction :: "versioned_transaction \<Rightarrow> (versioned_transaction, string) result"

section \<open>Data\<close>

definition DEFAULT_GRACE_PERIOD_SECONDS :: u32 where
  "DEFAULT_GRACE_PERIOD_SECONDS = 900"

definition PENDING_SERVER_SIGNATURE :: string where
  "PENDING_SERVER_SIGNATURE = replicate 64 (CHR ''1'')"

record payment_channel_open =
  pn_channel_id :: pubkey
  pn_payer :: pubkey
  pn_payee :: pubkey
  pn_mint :: pubkey
  pn_authorized_signer :: pubkey
  pn_salt :: u64
  pn_deposit :: u64
  pn_grace_period :: u32
  pn_recipients :: "distribution list"
  pn_token_program :: pubkey
  pn_program_id :: pubkey

definition pn_open_channel_params :: "payment_channel_open \<Rightarrow> open_channel_params" where
  "pn_open_channel_params p =
     \<lparr>oc_payer = pn_payer p, oc_payee = pn_payee p, oc_mint = pn_mint p,
      oc_authorized_signer = pn_authorized_signer p, oc_salt = pn_salt p, oc_deposit = pn_deposit p,
      oc_grace_period = pn_grace_period p, oc_recipients = pn_recipients p,
      oc_token_program = pn_token_program p, oc_program_id = pn_program_id p\<rparr>"

definition pn_open_payload :: "externs \<Rightarrow> payment_channel_open \<Rightarrow> session_mode \<Rightarrow> string \<Rightarrow> open_payload" where
  "pn_open_payload X p mode signature =
     open_payment_channel_with_mode mode (pubkey_string X (pn_channel_id p)) (show_u64 (pn_deposit p))
       (pubkey_string X (pn_payer p)) (pubkey_string X (pn_payee p)) (pubkey_string X (pn_mint p))
       (pn_salt p) (pn_grace_period p) (pubkey_string X (pn_authorized_signer p)) signature"

record open_transaction =
  ot_channel_id :: pubkey
  ot_transaction :: string

record channel_open_options =
  po_deposit :: "u64 option"
  po_grace_period :: "u32 option"
  po_program_id :: "pubkey option"
  po_recipients :: "distribution list option"
  po_salt :: "u64 option"
  po_token_program :: "pubkey option"

definition channel_open_options_default :: channel_open_options where
  "channel_open_options_default =
     \<lparr>po_deposit = None, po_grace_period = None, po_program_id = None, po_recipients = None, po_salt = None,
      po_token_program = None\<rparr>"

record derive_open_params =
  dp_request :: session_request
  dp_payer :: pubkey
  dp_authorized_signer :: pubkey
  dp_options :: channel_open_options

record channel_session_open =
  co_open :: payment_channel_open
  co_session :: active_session
  co_action :: session_action

record session_open_options =
  so_open :: channel_open_options
  so_signature :: "string option"
  so_cumulative :: "u64 option"
  so_expires_at :: "i64 option"

record server_opened_options =
  vo_open :: channel_open_options
  vo_payer :: "pubkey option"
  vo_signature :: "string option"
  vo_cumulative :: "u64 option"
  vo_expires_at :: "i64 option"

section \<open>Parsing\<close>

text \<open>The display of \<^verbatim>\<open>ParseIntError\<close>: the digits are read from the left, and the first obstacle is reported.\<close>

fun digits_error :: "nat \<Rightarrow> string \<Rightarrow> string" where
  "digits_error acc [] = []"
| "digits_error acc (c # cs) =
     (case digit_value c of
        None \<Rightarrow> ''invalid digit found in string''
      | Some d \<Rightarrow>
          if 2 ^ 64 \<le> 10 * acc + d then ''number too large to fit in target type''
          else digits_error (10 * acc + d) cs)"

definition parse_int_error :: "string \<Rightarrow> string" where
  "parse_int_error s =
     (if s = [] then ''cannot parse integer from empty string''
      else if s = ''+'' then ''invalid digit found in string''
      else digits_error 0 (if hd s = CHR ''+'' then tl s else s))"

definition parse_u64_string :: "string \<Rightarrow> string \<Rightarrow> (u64, error) result" where
  "parse_u64_string v label =
     ok_or (parse_u64 v) (Other (''invalid '' @ label @ '': '' @ parse_int_error v))"

definition client_parse_pubkey :: "externs \<Rightarrow> string \<Rightarrow> string \<Rightarrow> (pubkey, error) result" where
  "client_parse_pubkey X v label =
     map_err (\<lambda>e. Other (''invalid '' @ label @ '': '' @ e)) (pubkey_from_str X v)"

definition parse_splits :: "externs \<Rightarrow> session_request \<Rightarrow> (distribution list, error) result" where
  "parse_splits X request =
     collect_results (\<lambda>s.
       rbind (client_parse_pubkey X (ss_recipient s) ''split recipient'') (\<lambda>recipient.
         Ok \<lparr>dist_recipient = recipient, dist_bps = ss_bps s\<rparr>)) (sr_splits request)"

definition unique_salt :: "pubkey \<Rightarrow> u64" where
  "unique_salt unique = u64_from_le (take 8 (pubkey_bytes unique))"

definition ensure_client_voucher_pull :: "session_request \<Rightarrow> (unit, error) result" where
  "ensure_client_voucher_pull request =
     (if Pull \<notin> set (sr_modes request) then
        Err (Other ''session challenge does not advertise pull mode'')
      else if sr_pull_voucher_strategy request \<noteq> Some ClientVoucher then
        Err (Other ''session challenge does not advertise pull + clientVoucher'')
      else Ok ())"

definition configure_session :: "active_session \<Rightarrow> u64 option \<Rightarrow> i64 option \<Rightarrow> active_session" where
  "configure_session session cumulative expires_at =
     set_expires_at (session\<lparr>as_cumulative := case_option 0 id cumulative\<rparr>)
       (case_option DEFAULT_SESSION_EXPIRES_AT id expires_at)"

section \<open>Deriving the channel\<close>

definition derive_payment_channel_open ::
  "externs \<Rightarrow> pubkey \<Rightarrow> derive_open_params \<Rightarrow> (payment_channel_open, error) result" where
  "derive_payment_channel_open X unique params =
     (let request = dp_request params; network = sr_network request; options = dp_options params in
      rbind (ok_or (resolve_stablecoin_mint (sr_currency request) network)
               (Other ''session payment channels require an SPL token'')) (\<lambda>mint_str.
      rbind (client_parse_pubkey X mint_str ''mint'') (\<lambda>mint.
      rbind (client_parse_pubkey X (sr_recipient request) ''recipient'') (\<lambda>payee.
      rbind (case po_deposit options of
               Some deposit \<Rightarrow> Ok deposit
             | None \<Rightarrow> parse_u64_string (sr_cap request) ''session cap'') (\<lambda>deposit.
      let grace_period = case_option DEFAULT_GRACE_PERIOD_SECONDS id (po_grace_period options) in
      rbind (case po_program_id options of
               Some p \<Rightarrow> Ok p
             | None \<Rightarrow>
                 (case sr_program_id request of
                    Some p \<Rightarrow> client_parse_pubkey X p ''programId''
                  | None \<Rightarrow> default_program_id X)) (\<lambda>program_id.
      rbind (case po_token_program options of
               Some p \<Rightarrow> Ok p
             | None \<Rightarrow>
                 client_parse_pubkey X (default_token_program_for_currency (sr_currency request) network)
                   ''token program'') (\<lambda>token_program.
      rbind (case po_recipients options of
               Some recipients \<Rightarrow> Ok recipients
             | None \<Rightarrow> parse_splits X request) (\<lambda>recipients.
      let salt = case_option (unique_salt unique) id (po_salt options);
          open_params =
            \<lparr>oc_payer = dp_payer params, oc_payee = payee, oc_mint = mint,
             oc_authorized_signer = dp_authorized_signer params, oc_salt = salt, oc_deposit = deposit,
             oc_grace_period = grace_period, oc_recipients = recipients,
             oc_token_program = token_program, oc_program_id = program_id\<rparr>
      in
      rbind (derive_channel_addresses X open_params) (\<lambda>addresses.
        Ok \<lparr>pn_channel_id = ca_channel addresses, pn_payer = oc_payer open_params,
            pn_payee = oc_payee open_params, pn_mint = oc_mint open_params,
            pn_authorized_signer = oc_authorized_signer open_params, pn_salt = oc_salt open_params,
            pn_deposit = oc_deposit open_params, pn_grace_period = oc_grace_period open_params,
            pn_recipients = oc_recipients open_params,
            pn_token_program = oc_token_program open_params,
            pn_program_id = oc_program_id open_params\<rparr>)))))))))"

section \<open>The open transaction\<close>

definition build_open_payment_channel_tx ::
  "externs \<Rightarrow> client_crates \<Rightarrow> tx_signer \<Rightarrow> pubkey \<Rightarrow> pubkey \<Rightarrow> pubkey \<Rightarrow> u64 \<Rightarrow> u64 \<Rightarrow> u32 \<Rightarrow> distribution list \<Rightarrow>
   pubkey \<Rightarrow> pubkey \<Rightarrow> pubkey \<Rightarrow> byte list \<Rightarrow> (open_transaction, error) result" where
  "build_open_payment_channel_tx X C signer payee mint session_key salt deposit grace_period
       recipients token_program program_id fee_payer recent_blockhash =
     (let params =
        \<lparr>oc_payer = sg_pubkey signer, oc_payee = payee, oc_mint = mint,
         oc_authorized_signer = session_key, oc_salt = salt, oc_deposit = deposit,
         oc_grace_period = grace_period, oc_recipients = recipients, oc_token_program = token_program,
         oc_program_id = program_id\<rparr>
      in
      rbind (derive_channel_addresses X params) (\<lambda>addresses.
      rbind (build_open_instruction X params) (\<lambda>ix.
      let tx = ck_compile C [ix] fee_payer recent_blockhash in
      rbind (map_err (\<lambda>e. Other (''payment-channel open signing failed: '' @ e))
               (sg_sign_transaction signer tx)) (\<lambda>tx.
      rbind (map_err (\<lambda>e. Other (''payment-channel open tx serialization failed: '' @ e))
               (ck_bincode_serialize C tx)) (\<lambda>bytes.
        Ok \<lparr>ot_channel_id = ca_channel addresses, ot_transaction = ck_base64_encode C bytes\<rparr>)))))"

text \<open>The transaction for a derived channel.\<close>

definition open_transaction_for ::
  "externs \<Rightarrow> client_crates \<Rightarrow> tx_signer \<Rightarrow> payment_channel_open \<Rightarrow> pubkey \<Rightarrow> byte list \<Rightarrow>
   (open_transaction, error) result" where
  "open_transaction_for X C signer p fee_payer recent_blockhash =
     build_open_payment_channel_tx X C signer (pn_payee p) (pn_mint p) (pn_authorized_signer p) (pn_salt p)
       (pn_deposit p) (pn_grace_period p) (pn_recipients p) (pn_token_program p) (pn_program_id p)
       fee_payer recent_blockhash"

definition build_open_payment_channel_transaction ::
  "externs \<Rightarrow> client_crates \<Rightarrow> pubkey \<Rightarrow> session_request \<Rightarrow> tx_signer \<Rightarrow> pubkey \<Rightarrow> pubkey option \<Rightarrow> byte list \<Rightarrow>
   channel_open_options \<Rightarrow> (open_transaction, error) result" where
  "build_open_payment_channel_transaction X C unique request signer session_key fee_payer
       recent_blockhash options =
     rbind (case fee_payer of
              Some p \<Rightarrow> Ok p
            | None \<Rightarrow> client_parse_pubkey X (sr_operator request) ''operator'') (\<lambda>fee_payer.
     rbind (derive_payment_channel_open X unique
              \<lparr>dp_request = request, dp_payer = sg_pubkey signer,
               dp_authorized_signer = session_key, dp_options = options\<rparr>) (\<lambda>p.
       open_transaction_for X C signer p fee_payer recent_blockhash))"

section \<open>Opening a session\<close>

definition create_payment_channel_session_opener ::
  "externs \<Rightarrow> client_crates \<Rightarrow> pubkey \<Rightarrow> session_request \<Rightarrow> tx_signer \<Rightarrow> signer \<Rightarrow> byte list \<Rightarrow>
   session_open_options \<Rightarrow> (channel_session_open, error) result" where
  "create_payment_channel_session_opener X C unique request payer_signer session_signer recent_blockhash
       options =
     rbind (ensure_client_voucher_pull request) (\<lambda>_.
     let session_key = sg_pubkey session_signer in
     rbind (client_parse_pubkey X (sr_operator request) ''operator'') (\<lambda>fee_payer.
     rbind (derive_payment_channel_open X unique
              \<lparr>dp_request = request, dp_payer = sg_pubkey payer_signer,
               dp_authorized_signer = session_key, dp_options = so_open options\<rparr>) (\<lambda>p.
     rbind (open_transaction_for X C payer_signer p fee_payer recent_blockhash) (\<lambda>tx.
     let session = configure_session (active_session_new (pn_channel_id p) session_signer)
                     (so_cumulative options) (so_expires_at options);
         signature = case_option PENDING_SERVER_SIGNATURE id (so_signature options)
     in Ok \<lparr>co_open = p, co_session = session,
            co_action = OpenAction (with_transaction (pn_open_payload X p Pull signature)
                                (ot_transaction tx))\<rparr>))))"

definition create_server_opened_payment_channel_session_opener ::
  "externs \<Rightarrow> pubkey \<Rightarrow> session_request \<Rightarrow> signer \<Rightarrow> server_opened_options \<Rightarrow>
   (channel_session_open, error) result" where
  "create_server_opened_payment_channel_session_opener X unique request session_signer options =
     rbind (ensure_client_voucher_pull request) (\<lambda>_.
     rbind (case vo_payer options of
              Some p \<Rightarrow> Ok p
            | None \<Rightarrow> client_parse_pubkey X (sr_operator request) ''operator'') (\<lambda>payer.
     rbind (derive_payment_channel_open X unique
              \<lparr>dp_request = request, dp_payer = payer,
               dp_authorized_signer = sg_pubkey session_signer, dp_options = vo_open options\<rparr>) (\<lambda>p.
     let session = configure_session (active_session_new (pn_channel_id p) session_signer)
                     (vo_cumulative options) (vo_expires_at options);
         signature = case_option PENDING_SERVER_SIGNATURE id (vo_signature options)
     in Ok \<lparr>co_open = p, co_session = session,
            co_action = OpenAction (pn_open_payload X p Pull signature)\<rparr>)))"

section \<open>Delegation transactions\<close>

definition sign_and_encode ::
  "client_crates \<Rightarrow> tx_codecs \<Rightarrow> signer \<Rightarrow> instruction list \<Rightarrow> byte list \<Rightarrow> (string, error) result" where
  "sign_and_encode C T signer instructions recent_blockhash =
     (let tx = ck_compile C instructions (sg_pubkey signer) recent_blockhash in
      rbind (map_err (\<lambda>e. Other (''signing failed: '' @ e)) (sg_sign signer (message_serialize T tx))) (\<lambda>sig.
      if tx_signatures tx = [] then Panic
      else
      rbind (map_err (\<lambda>e. Other (''tx serialization failed: '' @ e))
               (ck_bincode_serialize C (tx\<lparr>tx_signatures := (tx_signatures tx)[0 := sig]\<rparr>))) (\<lambda>bytes.
        Ok (ck_base64_encode C bytes))))"

definition build_init_multi_delegate_tx ::
  "externs \<Rightarrow> client_crates \<Rightarrow> tx_codecs \<Rightarrow> signer \<Rightarrow> pubkey \<Rightarrow> pubkey \<Rightarrow> pubkey \<Rightarrow> pubkey \<Rightarrow> pubkey \<Rightarrow> u64 \<Rightarrow>
   u64 \<Rightarrow> i64 \<Rightarrow> byte list \<Rightarrow> (string, error) result" where
  "build_init_multi_delegate_tx X C T signer mint user_ata operator program_id token_program nonce amount
       expiry_ts recent_blockhash =
     (let user = sg_pubkey signer;
          multi_delegate_pda = fst (find_multi_delegate_pda X user mint program_id);
          delegation_pda = fst (find_fixed_delegation_pda X multi_delegate_pda user operator nonce program_id);
          init_ix = build_init_multi_delegate_ix X program_id user mint user_ata token_program;
          create_ix = build_create_fixed_delegation_ix program_id user multi_delegate_pda delegation_pda
                        operator nonce amount expiry_ts
      in sign_and_encode C T signer [init_ix, create_ix] recent_blockhash)"

definition build_update_delegation_tx ::
  "externs \<Rightarrow> client_crates \<Rightarrow> tx_codecs \<Rightarrow> signer \<Rightarrow> pubkey \<Rightarrow> pubkey \<Rightarrow> pubkey \<Rightarrow> u64 \<Rightarrow> u64 \<Rightarrow> i64 \<Rightarrow>
   byte list \<Rightarrow> (string, error) result" where
  "build_update_delegation_tx X C T signer mint operator program_id nonce amount expiry_ts recent_blockhash =
     (let user = sg_pubkey signer;
          multi_delegate_pda = fst (find_multi_delegate_pda X user mint program_id);
          delegation_pda = fst (find_fixed_delegation_pda X multi_delegate_pda user operator nonce program_id);
          ix = build_create_fixed_delegation_ix program_id user multi_delegate_pda delegation_pda operator
                 nonce amount expiry_ts
      in sign_and_encode C T signer [ix] recent_blockhash)"

end
