(* ===== verification/Client_Opens.thy ===== *)
theory Client_Opens
  imports Client_Channels Client_Properties
begin

text \<open>
  Opening a session: the channel that the client derives from a challenge is the one the server expects,
  the open it sends is accepted, and the session it starts with is in step with the stored channel, so that
  the deposit can be spent.
\<close>

section \<open>Keys and their texts\<close>

text \<open>
  The documented behaviour of base58 and of public keys: what is encoded decodes to the same bytes, the text of
  a key parses to it, a parsed key is the decoded text and has 32 bytes, and so has a derived address.
\<close>

definition keys_lawful :: "externs \<Rightarrow> bool" where
  "keys_lawful X \<longleftrightarrow>
     (\<forall>bs. bs58_decode X (bs58_encode X bs) = Ok bs) \<and>
     (\<forall>p. wf_pubkey p \<longrightarrow> pubkey_from_str X (pubkey_string X p) = Ok p) \<and>
     (\<forall>s p. pubkey_from_str X s = Ok p \<longrightarrow> bs58_decode X s = Ok (pubkey_bytes p) \<and> wf_pubkey p) \<and>
     (\<forall>seeds program. wf_pubkey (fst (find_program_address X seeds program)))"

lemma try_into_exact: "length bs = n \<Longrightarrow> try_into_array n bs = Some bs"
  by (simp add: try_into_array_def)

lemma server_reads_key:
  assumes "keys_lawful X" and "pubkey_from_str X s = Ok p"
  shows "session_parse_pubkey X s = Ok p" and "wf_pubkey p"
  using assms by (auto simp: keys_lawful_def session_parse_pubkey_def wf_pubkey_def try_into_exact)

lemma server_reads_text:
  assumes "keys_lawful X" and "wf_pubkey p"
  shows "session_parse_pubkey X (pubkey_string X p) = Ok p"
  using assms by (intro server_reads_key(1)) (auto simp: keys_lawful_def)

definition config_keys :: "session_config \<Rightarrow> bool" where
  "config_keys cfg \<longleftrightarrow>
     list_all (\<lambda>s. wf_pubkey (sl_recipient s)) (sc_splits cfg) \<and>
     (case sc_program_id cfg of None \<Rightarrow> True | Some p \<Rightarrow> wf_pubkey p)"

section \<open>The same channel on both sides\<close>

text \<open>The options that leave to the challenge what it fixes.\<close>

definition follows_challenge :: "channel_open_options \<Rightarrow> bool" where
  "follows_challenge options \<longleftrightarrow>
     po_program_id options = None \<and> po_token_program options = None \<and> po_recipients options = None"

lemma parse_challenge_splits:
  assumes "keys_lawful X" and "config_keys cfg"
  shows "parse_splits X (build_challenge_request X cfg cap) = Ok (config_recipients cfg)"
proof -
  have "list_all2 (\<lambda>s d. client_parse_pubkey X (bs58_encode X (pubkey_bytes (sl_recipient s))) ''split recipient'' =
      Ok (dist_recipient d) \<and> dist_bps d = sl_bps s) (sc_splits cfg) (config_recipients cfg)"
    using assms
    by (auto simp: config_recipients_def list_all2_map2 list_all2_same client_parse_pubkey_def keys_lawful_def
        config_keys_def list_all_iff pubkey_string_def)
  then have "list_all2 (\<lambda>s d. rbind (client_parse_pubkey X (bs58_encode X (pubkey_bytes (sl_recipient s)))
      ''split recipient'') (\<lambda>r. Ok \<lparr>dist_recipient = r, dist_bps = sl_bps s\<rparr>) = Ok d)
      (sc_splits cfg) (config_recipients cfg)"
    by (rule list_all2_mono) auto
  then show ?thesis
    by (simp add: parse_splits_def build_challenge_request_def Let_def collect_results_Ok list_all2_map1)
qed

lemma derived_open:
  assumes lawful: "keys_lawful X" and cfg: "config_keys cfg"
    and req: "dp_request params = build_challenge_request X cfg cap"
    and follows: "follows_challenge (dp_options params)"
    and derived: "derive_payment_channel_open X unique params = Ok p"
  shows "expected_payment_channel_mint X cfg = Ok (pn_mint p)" and "wf_pubkey (pn_mint p)"
    and "session_parse_pubkey X (sc_recipient cfg) = Ok (pn_payee p)" and "wf_pubkey (pn_payee p)"
    and "config_program_id X cfg = Ok (pn_program_id p)"
    and "session_parse_pubkey X (default_token_program_for_currency (sc_currency cfg) (Some (sc_network cfg))) =
      Ok (pn_token_program p)"
    and "pn_recipients p = config_recipients cfg" and "pn_payer p = dp_payer params"
    and "pn_authorized_signer p = dp_authorized_signer params"
    and "po_deposit (dp_options params) = None \<Longrightarrow> pn_deposit p = min cap (sc_max_cap cfg)"
    and "\<exists>addresses. derive_channel_addresses X (pn_open_channel_params p) = (Ok addresses :: (channel_addresses, error) result) \<and>
      pn_channel_id p = ca_channel addresses"
proof -
  note options = follows [unfolded follows_challenge_def]
  have request: "sr_currency (dp_request params) = sc_currency cfg" "sr_network (dp_request params) = Some (sc_network cfg)"
    "sr_recipient (dp_request params) = sc_recipient cfg" "sr_cap (dp_request params) = show_u64 (min cap (sc_max_cap cfg))"
    "sr_program_id (dp_request params) = map_option (pubkey_string X) (sc_program_id cfg)"
    by (simp_all add: req build_challenge_request_def Let_def pubkey_string_def [abs_def])
  obtain mint_str mint payee deposit program token recipients addresses where
    mint: "resolve_stablecoin_mint (sc_currency cfg) (Some (sc_network cfg)) = Some mint_str"
      "pubkey_from_str X mint_str = Ok mint"
    and payee: "pubkey_from_str X (sc_recipient cfg) = Ok payee"
    and deposit: "po_deposit (dp_options params) = None \<Longrightarrow> deposit = min cap (sc_max_cap cfg)"
    and program: "(case map_option (pubkey_string X) (sc_program_id cfg) of
        Some p \<Rightarrow> client_parse_pubkey X p ''programId'' | None \<Rightarrow> default_program_id X) = Ok program"
    and token: "pubkey_from_str X (default_token_program_for_currency (sc_currency cfg) (Some (sc_network cfg))) = Ok token"
    and recipients: "parse_splits X (dp_request params) = Ok recipients"
    and addresses: "derive_channel_addresses X (pn_open_channel_params p) = (Ok addresses :: (channel_addresses, error) result)"
      "pn_channel_id p = ca_channel addresses"
    and p: "pn_mint p = mint" "pn_payee p = payee" "pn_deposit p = deposit" "pn_program_id p = program"
      "pn_token_program p = token" "pn_recipients p = recipients" "pn_payer p = dp_payer params"
      "pn_authorized_signer p = dp_authorized_signer params"
    using derived
    by (auto simp: derive_payment_channel_open_def request options Let_def client_parse_pubkey_def
        pn_open_channel_params_def parse_u64_string_def split: option.splits)
  show "expected_payment_channel_mint X cfg = Ok (pn_mint p)" "wf_pubkey (pn_mint p)"
    using server_reads_key [OF lawful mint(2)] mint(1)
    by (simp_all add: expected_payment_channel_mint_def parse_pubkey_field_def p)
  show "session_parse_pubkey X (sc_recipient cfg) = Ok (pn_payee p)" "wf_pubkey (pn_payee p)"
    using server_reads_key [OF lawful payee] by (simp_all add: p)
  show "config_program_id X cfg = Ok (pn_program_id p)"
    using program lawful cfg
    by (auto simp: config_program_id_def p client_parse_pubkey_def keys_lawful_def config_keys_def
        split: option.splits)
  show "session_parse_pubkey X (default_token_program_for_currency (sc_currency cfg) (Some (sc_network cfg))) =
      Ok (pn_token_program p)"
    using server_reads_key [OF lawful token] by (simp add: p)
  show "pn_recipients p = config_recipients cfg"
    using recipients parse_challenge_splits [OF lawful cfg, of cap] by (simp add: p req)
  show "pn_payer p = dp_payer params" "pn_authorized_signer p = dp_authorized_signer params" by (simp_all add: p)
  show "pn_deposit p = min cap (sc_max_cap cfg)" if "po_deposit (dp_options params) = None"
    using deposit [OF that] by (simp add: p)
  show "\<exists>addresses. derive_channel_addresses X (pn_open_channel_params p) = (Ok addresses :: (channel_addresses, error) result) \<and>
      pn_channel_id p = ca_channel addresses"
    using addresses by blast
qed

lemma derived_open_expected:
  assumes lawful: "keys_lawful X" and cfg: "config_keys cfg"
    and req: "dp_request params = build_challenge_request X cfg cap"
    and follows: "follows_challenge (dp_options params)"
    and keys: "wf_pubkey (dp_payer params)" "wf_pubkey (dp_authorized_signer params)"
    and derived: "derive_payment_channel_open X unique params = Ok p"
  shows "payment_channel_open_params X cfg (pn_open_payload X p mode signature) = Ok (pn_open_channel_params p)"
proof -
  note d = derived_open [OF lawful cfg req follows derived]
  from d(11) obtain addresses where
    addresses: "derive_channel_addresses X (pn_open_channel_params p) = (Ok addresses :: (channel_addresses, error) result)"
    and channel: "pn_channel_id p = ca_channel addresses" by blast
  have "wf_pubkey (pn_channel_id p)"
    unfolding channel derived_channel [OF addresses] using lawful by (simp add: keys_lawful_def)
  note reads = server_reads_text [OF lawful]
  have texts: "session_parse_pubkey X (pubkey_string X (pn_payer p)) = Ok (pn_payer p)"
    "session_parse_pubkey X (pubkey_string X (pn_payee p)) = Ok (pn_payee p)"
    "session_parse_pubkey X (pubkey_string X (pn_mint p)) = Ok (pn_mint p)"
    "session_parse_pubkey X (pubkey_string X (pn_authorized_signer p)) = Ok (pn_authorized_signer p)"
    "session_parse_pubkey X (pubkey_string X (pn_channel_id p)) = Ok (pn_channel_id p)"
    using reads keys d(2,4,8,9) \<open>wf_pubkey (pn_channel_id p)\<close> by simp_all
  have addresses': "derive_channel_addresses X
      \<lparr>oc_payer = pn_payer p, oc_payee = pn_payee p, oc_mint = pn_mint p,
       oc_authorized_signer = pn_authorized_signer p, oc_salt = pn_salt p, oc_deposit = pn_deposit p,
       oc_grace_period = pn_grace_period p, oc_recipients = config_recipients cfg,
       oc_token_program = pn_token_program p, oc_program_id = pn_program_id p\<rparr> =
      (Ok addresses :: (channel_addresses, error) result)"
    using addresses by (simp add: pn_open_channel_params_def d(7))
  show ?thesis
    using d(1,3,5,6)
    by (simp add: payment_channel_open_params_def pn_open_payload_def open_payment_channel_with_mode_def
        parse_payload_pubkey_def parse_pubkey_field_def texts deposit_amount_def Let_def addresses' channel [symmetric])
      (simp add: pn_open_channel_params_def d(7))
qed

text \<open>
  Client and server agree on the channel: for the challenge of a server, and whatever deposit, grace period
  and salt the client chooses, the server reads out of the client's open exactly the parameters that the
  client derived, and with them the same channel address, recipients, mint and programs.
\<close>

theorem client_open_matches_server:
  assumes "keys_lawful X" and "config_keys cfg"
    and "dp_request params = build_challenge_request X cfg cap" and "follows_challenge (dp_options params)"
    and "wf_pubkey (dp_payer params)" and "wf_pubkey (dp_authorized_signer params)"
    and "derive_payment_channel_open X unique params = Ok p"
  shows "payment_channel_open_params X cfg (pn_open_payload X p mode signature) = Ok (pn_open_channel_params p)"
  using assms by (rule derived_open_expected)

section \<open>From challenge to payments\<close>

lemma server_opened_Ok:
  assumes "create_server_opened_payment_channel_session_opener X unique request signer options = Ok so"
  obtains payer p where "(case vo_payer options of Some q \<Rightarrow> Ok q
        | None \<Rightarrow> client_parse_pubkey X (sr_operator request) ''operator'') = Ok payer"
    and "derive_payment_channel_open X unique
          \<lparr>dp_request = request, dp_payer = payer, dp_authorized_signer = sg_pubkey signer,
           dp_options = vo_open options\<rparr> = Ok p"
    and "co_open so = p" and "Pull \<in> set (sr_modes request)"
    and "co_session so = configure_session (active_session_new (pn_channel_id p) signer)
          (vo_cumulative options) (vo_expires_at options)"
    and "co_action so = OpenAction (pn_open_payload X p Pull
          (case_option PENDING_SERVER_SIGNATURE id (vo_signature options)))"
  using assms
  by (auto simp: create_server_opened_payment_channel_session_opener_def Let_def ensure_client_voucher_pull_def
      split: if_splits)

lemma opened_session_in_sync:
  assumes lawful: "keys_lawful X" and cfg: "config_keys cfg" and pull: "Pull \<in> set (sc_modes cfg)"
    and healthy: "\<not> mcs_poisoned s"
    and opened: "create_server_opened_payment_channel_session_opener X unique
          (build_challenge_request X cfg cap) signer options = Ok so"
    and follows: "follows_challenge (vo_open options)" and fresh: "vo_cumulative options = None"
    and payer: "case_option True wf_pubkey (vo_payer options)" and key: "wf_pubkey (sg_pubkey signer)"
    and deposit: "0 < pn_deposit (co_open so)" "pn_deposit (co_open so) \<le> sc_max_cap cfg"
  shows "\<exists>payload c. co_action so = OpenAction payload \<and>
    payment_channel_open_params X cfg payload = Ok (pn_open_channel_params (co_open so)) \<and>
    process_open memory_channel_ops X cfg s payload =
      (s\<lparr>mcs_data := (mcs_data s)(channel_id_str X (co_session so) \<mapsto> c)\<rparr>, Ok c) \<and>
    in_sync X (co_session so) c \<and> cs_deposit c = pn_deposit (co_open so)"
proof -
  from opened obtain q p where q: "(case vo_payer options of Some q \<Rightarrow> Ok q
        | None \<Rightarrow> client_parse_pubkey X (sr_operator (build_challenge_request X cfg cap)) ''operator'') = Ok q"
    and p: "derive_payment_channel_open X unique
          \<lparr>dp_request = build_challenge_request X cfg cap, dp_payer = q,
           dp_authorized_signer = sg_pubkey signer, dp_options = vo_open options\<rparr> = Ok p"
    and so: "co_open so = p" "co_session so = configure_session (active_session_new (pn_channel_id p) signer)
          (vo_cumulative options) (vo_expires_at options)"
      "co_action so = OpenAction (pn_open_payload X p Pull
          (case_option PENDING_SERVER_SIGNATURE id (vo_signature options)))"
    by (rule server_opened_Ok)
  let ?params = "\<lparr>dp_request = build_challenge_request X cfg cap, dp_payer = q,
      dp_authorized_signer = sg_pubkey signer, dp_options = vo_open options\<rparr>"
  let ?payload = "pn_open_payload X p Pull (case_option PENDING_SERVER_SIGNATURE id (vo_signature options))"
  have "wf_pubkey q"
    using q payer lawful by (auto simp: client_parse_pubkey_def keys_lawful_def split: option.splits)
  then have expected: "payment_channel_open_params X cfg ?payload = Ok (pn_open_channel_params p)"
    using follows key by (intro derived_open_expected [OF lawful cfg _ _ _ _ p]) simp_all
  have signer: "pn_authorized_signer p = sg_pubkey signer"
    using derived_open(9) [OF lawful cfg _ _ p] follows by simp
  have "supports_mode cfg Pull" using pull by (auto simp: supports_mode_def)
  then have "\<exists>c. process_open_checks X cfg ?payload = Ok c"
    using deposit
    by (simp add: process_open_checks_def pn_open_payload_def open_payment_channel_with_mode_def session_id_def
        deposit_amount_def so(1) word_neq_0_conv not_less)
  then obtain c where c: "process_open_checks X cfg ?payload = Ok c" ..
  note facts = process_open_checks_Ok [OF c]
  have ids: "cs_channel_id c = channel_id_str X (co_session so)"
    "cs_authorized_signer c = authorized_signer X (co_session so)" "cs_deposit c = pn_deposit p"
    using facts(1,2,5)
    by (simp_all add: so(2) configure_session_def set_expires_at_def active_session_new_def channel_id_str_def
        authorized_signer_def pn_open_payload_def open_payment_channel_with_mode_def session_id_def
        deposit_amount_def signer pubkey_string_def)
  have "as_cumulative (co_session so) = 0"
    by (simp add: so(2) fresh configure_session_def set_expires_at_def)
  with facts(6,9) ids have "in_sync X (co_session so) c" by (simp add: in_sync_def)
  moreover have "process_open memory_channel_ops X cfg s ?payload =
      (s\<lparr>mcs_data := (mcs_data s)(channel_id_str X (co_session so) \<mapsto> c)\<rparr>, Ok c)"
    using healthy by (simp add: process_open_def c memory_channel_ops_def mem_put_channel_def ids(1))
  ultimately show ?thesis using so(1,3) expected ids(3) by blast
qed

definition signer_works :: "externs \<Rightarrow> signer \<Rightarrow> bool" where
  "signer_works X signer \<longleftrightarrow>
     is_ok (ed25519_key_from_bytes X (pubkey_bytes (sg_pubkey signer))) \<and>
     (\<forall>bytes. \<exists>sig. sg_sign signer bytes = Ok sig \<and> length sig = 64 \<and>
        ed25519_verify_strict X (pubkey_bytes (sg_pubkey signer)) bytes sig)"

lemma opened_keys_work:
  assumes lawful: "keys_lawful X" and works: "signer_works X signer" and key: "wf_pubkey (sg_pubkey signer)"
    and opened: "create_server_opened_payment_channel_session_opener X unique request signer options = Ok so"
  shows "keys_work X (co_session so)" and "as_nonce (co_session so) = 0"
    and "as_expires_at (co_session so) = case_option DEFAULT_SESSION_EXPIRES_AT id (vo_expires_at options)"
proof -
  from opened obtain q p where p: "derive_payment_channel_open X unique
          \<lparr>dp_request = request, dp_payer = q, dp_authorized_signer = sg_pubkey signer,
           dp_options = vo_open options\<rparr> = Ok p"
    and so: "co_session so = configure_session (active_session_new (pn_channel_id p) signer)
          (vo_cumulative options) (vo_expires_at options)"
    by (rule server_opened_Ok)
  from p obtain params :: open_channel_params and addresses where
    derived: "derive_channel_addresses X params = (Ok addresses :: (channel_addresses, error) result)"
      "pn_channel_id p = ca_channel addresses"
    by (auto simp: derive_payment_channel_open_def Let_def split: option.splits)
  have "wf_pubkey (pn_channel_id p)"
    unfolding derived(2) derived_channel [OF derived(1)] using lawful by (simp add: keys_lawful_def)
  then show "keys_work X (co_session so)"
    using lawful works key
    by (simp add: keys_work_def so configure_session_def set_expires_at_def active_session_new_def
        channel_id_str_def keys_lawful_def signer_works_def wf_pubkey_def pubkey_string_def)
  show "as_nonce (co_session so) = 0"
    "as_expires_at (co_session so) = case_option DEFAULT_SESSION_EXPIRES_AT id (vo_expires_at options)"
    by (simp_all add: so configure_session_def set_expires_at_def active_session_new_def)
qed

text \<open>
  C9. A session runs from challenge to payments: the session that a client opens on the challenge of a server
  is accepted with the parameters that the client derived, and then every list of prices that fits the
  deposit, each at least the server's minimum, is paid by vouchers that the server accepts; at the end
  the channel's watermark is their sum.
\<close>

theorem opened_session_pays:
  assumes "keys_lawful X" and "config_keys cfg" and "Pull \<in> set (sc_modes cfg)" and "\<not> mcs_poisoned s"
    and "create_server_opened_payment_channel_session_opener X unique
           (build_challenge_request X cfg cap) signer options = Ok so"
    and "follows_challenge (vo_open options)" and "vo_cumulative options = None"
    and "case_option True wf_pubkey (vo_payer options)" and "wf_pubkey (sg_pubkey signer)"
    and "0 < pn_deposit (co_open so)" and "pn_deposit (co_open so) \<le> sc_max_cap cfg"
    and "signer_works X signer" and "\<not> as_expires_at (co_session so) \<le>s clock X 0"
    and "list_all (\<lambda>amount. 0 < amount \<and> sc_min_voucher_delta cfg \<le> amount) amounts"
    and "sum_list (map unat amounts) \<le> unat (pn_deposit (co_open so))" and "length amounts < 2 ^ 64"
  shows "\<exists>payload c s1 s' a' d. co_action so = OpenAction payload \<and>
    payment_channel_open_params X cfg payload = Ok (pn_open_channel_params (co_open so)) \<and>
    process_open memory_channel_ops X cfg s payload = (s1, Ok c) \<and>
    pay_all b X memory_channel_ops cfg amounts (s1, co_session so) = ((s', a'), Ok ()) \<and>
    mcs_data s' (channel_id_str X (co_session so)) = Some d \<and> cs_deposit d = pn_deposit (co_open so) \<and>
    unat (cs_cumulative d) = sum_list (map unat amounts)"
proof -
  from opened_session_in_sync [OF assms(1-11)] obtain payload c where
    open': "co_action so = OpenAction payload"
      "payment_channel_open_params X cfg payload = Ok (pn_open_channel_params (co_open so))"
      "process_open memory_channel_ops X cfg s payload =
        (s\<lparr>mcs_data := (mcs_data s)(channel_id_str X (co_session so) \<mapsto> c)\<rparr>, Ok c)"
    and sync: "in_sync X (co_session so) c" and deposit: "cs_deposit c = pn_deposit (co_open so)" by blast
  let ?s = "s\<lparr>mcs_data := (mcs_data s)(channel_id_str X (co_session so) \<mapsto> c)\<rparr>"
  note works = opened_keys_work [OF assms(1,12,9,5)]
  have start: "as_cumulative (co_session so) = 0"
    by (rule server_opened_Ok [OF assms(5)]) (simp add: assms(7) configure_session_def set_expires_at_def)
  have "\<exists>s' a' d. pay_all b X memory_channel_ops cfg amounts (?s, co_session so) = ((s', a'), Ok ()) \<and>
      mcs_data s' (channel_id_str X (co_session so)) = Some d \<and> in_sync X a' d \<and> cs_deposit d = cs_deposit c \<and>
      unat (as_cumulative a') = unat (as_cumulative (co_session so)) + sum_list (map unat amounts)"
    using assms(4,13-16) sync works deposit start
    by (intro mem_sessions.pay_all_accepted) (simp_all add: list_all_iff)
  with open' deposit start show ?thesis by (fastforce simp: in_sync_def)
qed

section \<open>A concrete chain\<close>

text \<open>
  A key is written as its bytes, except that the three well-known addresses that opening a channel needs
  trade places with three other texts; the only good signature is 64 sevens.
\<close>

definition chain_text :: "string \<Rightarrow> string" where
  "chain_text s =
     (if s = USDC_MAINNET then replicate 32 (CHR ''a'') else if s = replicate 32 (CHR ''a'') then USDC_MAINNET
      else if s = TOKEN_PROGRAM then replicate 32 (CHR ''b'') else if s = replicate 32 (CHR ''b'') then TOKEN_PROGRAM
      else if s = ASSOCIATED_TOKEN_PROGRAM then replicate 32 (CHR ''c'')
      else if s = replicate 32 (CHR ''c'') then ASSOCIATED_TOKEN_PROGRAM else s)"

lemma chain_texts_distinct:
  "distinct [USDC_MAINNET, TOKEN_PROGRAM, ASSOCIATED_TOKEN_PROGRAM, replicate 32 (CHR ''a''),
     replicate 32 (CHR ''b''), replicate 32 (CHR ''c'')]"
  by code_simp

lemma chain_text_twice [simp]: "chain_text (chain_text s) = s"
  using chain_texts_distinct by (auto simp: chain_text_def)

definition chain_externs :: externs where
  "chain_externs =
     \<lparr>bs58_decode = (\<lambda>s. Ok (string_bytes (chain_text s))),
      bs58_encode = (\<lambda>bs. chain_text (byte_text bs)),
      pubkey_from_str = (\<lambda>s. if length (chain_text s) = 32 then Ok (Pubkey (string_bytes (chain_text s)))
                             else Err ''wrong size''),
      find_program_address = (\<lambda>_ _. (Pubkey (replicate 32 5), 255)),
      blake3_hash = (\<lambda>_. replicate 32 0),
      ed25519_key_from_bytes = (\<lambda>_. Ok ()),
      ed25519_verify_strict = (\<lambda>key message sig. sig = replicate 64 7),
      parse_tx_signature = (\<lambda>_. Ok []), signature_status = (\<lambda>_ _. Ok (Some (Ok ()))), clock = (\<lambda>_. 100)\<rparr>"

lemma chain_keys_lawful: "keys_lawful chain_externs"
proof -
  have "length (byte_text bs) = length bs" for bs by (simp add: byte_text_def)
  moreover have "length (string_bytes s) = length s" for s by (simp add: string_bytes_def)
  ultimately show ?thesis
    by (simp add: keys_lawful_def chain_externs_def pubkey_string_def wf_pubkey_def)
qed

definition byte_key :: "byte \<Rightarrow> pubkey" where
  "byte_key b = Pubkey (replicate 32 b)"

definition chain_config :: session_config where
  "chain_config = session_config_default
     \<lparr>sc_recipient := pubkey_string chain_externs (byte_key 2), sc_program_id := Some (byte_key 3),
      sc_splits := [\<lparr>sl_recipient = byte_key 4, sl_bps = 100\<rparr>], sc_modes := [Pull],
      sc_pull_voucher_strategy := Some ClientVoucher\<rparr>"

definition chain_options :: server_opened_options where
  "chain_options =
     \<lparr>vo_open = channel_open_options_default\<lparr>po_salt := Some 7\<rparr>, vo_payer = Some (byte_key 6), vo_signature = None,
      vo_cumulative = None, vo_expires_at = None\<rparr>"

definition chain_open :: payment_channel_open where
  "chain_open =
     \<lparr>pn_channel_id = Pubkey (replicate 32 5), pn_payer = byte_key 6, pn_payee = byte_key 2,
      pn_mint = Pubkey (string_bytes (replicate 32 (CHR ''a''))), pn_authorized_signer = demo_key, pn_salt = 7,
      pn_deposit = 500, pn_grace_period = 900, pn_recipients = config_recipients chain_config,
      pn_token_program = Pubkey (string_bytes (replicate 32 (CHR ''b''))), pn_program_id = byte_key 3\<rparr>"

lemma chain_well_known:
  "chain_text USDC_MAINNET = replicate 32 (CHR ''a'')" "chain_text TOKEN_PROGRAM = replicate 32 (CHR ''b'')"
  "chain_text ASSOCIATED_TOKEN_PROGRAM = replicate 32 (CHR ''c'')"
  using chain_texts_distinct by (auto simp: chain_text_def)

lemma chain_config_keys: "config_keys chain_config"
  by (simp add: config_keys_def chain_config_def byte_key_def wf_pubkey_def)

lemma chain_derives:
  "derive_payment_channel_open chain_externs unique
     \<lparr>dp_request = build_challenge_request chain_externs chain_config 500, dp_payer = byte_key 6,
      dp_authorized_signer = demo_key, dp_options = vo_open chain_options\<rparr> = Ok chain_open"
proof -
  have mint: "resolve_stablecoin_mint ''USDC'' (Some ''mainnet-beta'') = Some USDC_MAINNET"
    "default_token_program_for_currency ''USDC'' (Some ''mainnet-beta'') = TOKEN_PROGRAM" by code_simp+
  have parse: "pubkey_from_str chain_externs (pubkey_string chain_externs (byte_key b)) = Ok (byte_key b)" for b
    using chain_keys_lawful by (simp add: keys_lawful_def byte_key_def wf_pubkey_def)
  have ids: "pubkey_from_str chain_externs USDC_MAINNET = Ok (Pubkey (string_bytes (replicate 32 (CHR ''a''))))"
    "pubkey_from_str chain_externs TOKEN_PROGRAM = Ok (Pubkey (string_bytes (replicate 32 (CHR ''b''))))"
    "pubkey_from_str chain_externs ASSOCIATED_TOKEN_PROGRAM = Ok (Pubkey (string_bytes (replicate 32 (CHR ''c''))))"
    by (simp_all add: chain_externs_def chain_well_known)
  have pda: "find_program_address chain_externs seeds program = (Pubkey (replicate 32 5), 255)" for seeds program
    by (simp add: chain_externs_def)
  have request: "sr_currency (build_challenge_request chain_externs chain_config 500) = ''USDC''"
    "sr_network (build_challenge_request chain_externs chain_config 500) = Some ''mainnet-beta''"
    "sr_recipient (build_challenge_request chain_externs chain_config 500) = pubkey_string chain_externs (byte_key 2)"
    "sr_cap (build_challenge_request chain_externs chain_config 500) = show_u64 500"
    "sr_program_id (build_challenge_request chain_externs chain_config 500) =
      Some (pubkey_string chain_externs (byte_key 3))"
    by (simp_all add: build_challenge_request_def chain_config_def session_config_default_def Let_def min_def
        pubkey_string_def)
  show ?thesis
    by (simp add: derive_payment_channel_open_def request mint client_parse_pubkey_def parse ids
        parse_challenge_splits [OF chain_keys_lawful chain_config_keys] parse_u64_string_def Let_def
        chain_options_def channel_open_options_default_def derive_channel_addresses_def find_channel_pda_def
        find_associated_token_address_def find_event_authority_pda_def expect_pubkey_def pda)
      (simp add: chain_open_def DEFAULT_GRACE_PERIOD_SECONDS_def)
qed

theorem client_open_matches_server_witness:
  "payment_channel_open_params chain_externs chain_config
     (pn_open_payload chain_externs chain_open Push ''sig'') = Ok (pn_open_channel_params chain_open)"
  by (rule client_open_matches_server [OF chain_keys_lawful chain_config_keys _ _ _ _ chain_derives])
    (simp_all add: follows_challenge_def chain_options_def channel_open_options_default_def byte_key_def
      demo_key_def wf_pubkey_def)

theorem opened_session_pays_witness:
  "\<exists>so payload c s1 s' a' d.
    create_server_opened_payment_channel_session_opener chain_externs demo_key
      (build_challenge_request chain_externs chain_config 500) wallet chain_options = Ok so \<and>
    co_action so = OpenAction payload \<and>
    payment_channel_open_params chain_externs chain_config payload = Ok (pn_open_channel_params (co_open so)) \<and>
    process_open memory_channel_ops chain_externs chain_config memory_channel_store_new payload = (s1, Ok c) \<and>
    pay_all Debug_Build chain_externs memory_channel_ops chain_config [300, 200] (s1, co_session so) =
      ((s', a'), Ok ()) \<and>
    mcs_data s' (channel_id_str chain_externs (co_session so)) = Some d \<and> cs_deposit d = pn_deposit (co_open so) \<and>
    unat (cs_cumulative d) = 500"
proof -
  have modes: "Pull \<in> set (sc_modes chain_config)" by (simp add: chain_config_def)
  have "ensure_client_voucher_pull (build_challenge_request chain_externs chain_config 500) = Ok ()"
    by (simp add: ensure_client_voucher_pull_def build_challenge_request_def chain_config_def Let_def)
  then obtain so where so: "create_server_opened_payment_channel_session_opener chain_externs demo_key
      (build_challenge_request chain_externs chain_config 500) wallet chain_options = Ok so"
    and p: "co_open so = chain_open"
    using chain_derives [of demo_key]
    by (simp add: create_server_opened_payment_channel_session_opener_def Let_def chain_options_def wallet_def)
  have expires: "vo_expires_at chain_options = None" by (simp add: chain_options_def)
  have works: "signer_works chain_externs wallet"
    by (simp add: signer_works_def wallet_def chain_externs_def)
  have key: "wf_pubkey (sg_pubkey wallet)" by (simp add: wallet_def demo_key_def wf_pubkey_def)
  have alive: "\<not> as_expires_at (co_session so) \<le>s clock chain_externs 0"
    unfolding opened_keys_work(3) [OF chain_keys_lawful works key so]
    by (simp add: expires) (simp add: chain_externs_def)
  have fits: "sum_list (map unat [300, 200 :: u64]) \<le> unat (pn_deposit (co_open so))"
    by (simp add: p chain_open_def)
  have "sum_list (map unat [300, 200 :: u64]) = 500" by simp
  with opened_session_pays [OF chain_keys_lawful chain_config_keys modes _ so _ _ _ key _ _ works alive _ fits,
      of memory_channel_store_new Debug_Build] so
  show ?thesis
    by (simp add: memory_channel_store_new_def chain_options_def channel_open_options_default_def
        follows_challenge_def byte_key_def wf_pubkey_def p chain_open_def chain_config_def
        session_config_default_def)
qed

end
