(* ===== verification/Session_Refinement.thy ===== *)
theory Session_Refinement
  imports Session_Examples
begin

text \<open>
  The session server against an abstract prepaid account, a machine that is asked to fund, pay, hold, bill and
  stop, and does it or refuses.  What a request asks of it is read off the request; the server's channels, in
  every interleaving of requests, do just that or keep their accounts.  What the account guarantees holds of
  the server too.
\<close>

section \<open>A prepaid account\<close>

record account =
  ac_funded :: nat
  ac_spent :: nat
  ac_holds :: "(string \<times> nat) list"
  ac_bills :: "(string \<times> nat) list"
  ac_live :: bool

datatype account_action =
    AcOpen nat
  | AcFund nat
  | AcPay nat
  | AcHold string nat
  | AcBill string nat
  | AcStop "nat option"
  | AcRetire

definition held :: "account \<Rightarrow> nat" where
  "held a = sum_list (map snd (ac_holds a))"

fun release :: "string \<Rightarrow> (string \<times> nat) list \<Rightarrow> (string \<times> nat) list" where
  "release h [] = []"
| "release h (x # xs) = (if fst x = h then xs else x # release h xs)"

text \<open>
  What an account does, or refuses, given a cap on its funds.  It is opened once.  While it lives it pays up to
  a higher total within its funds, holds money that is neither spent nor held under a name that was not used
  before, and bills a hold once, up to a higher total, for no more than the hold.  It is funded up to a higher
  total within the cap at any time.  It stops for good, with a last payment if it has one, and may be retired.
\<close>

fun account_do :: "nat \<Rightarrow> account_action \<Rightarrow> account option \<Rightarrow> account option" where
  "account_do cap (AcOpen d) None =
     (if 0 < d \<and> d \<le> cap
      then Some \<lparr>ac_funded = d, ac_spent = 0, ac_holds = [], ac_bills = [], ac_live = True\<rparr> else None)"
| "account_do cap (AcFund d) (Some a) =
     (if ac_funded a < d \<and> d \<le> cap then Some (a\<lparr>ac_funded := d\<rparr>) else None)"
| "account_do cap (AcPay n) (Some a) =
     (if ac_live a \<and> ac_spent a < n \<and> n \<le> ac_funded a then Some (a\<lparr>ac_spent := n\<rparr>) else None)"
| "account_do cap (AcHold h n) (Some a) =
     (if ac_live a \<and> 0 < n \<and> ac_spent a + held a + n \<le> ac_funded a \<and>
         h \<notin> fst ` set (ac_holds a) \<and> h \<notin> fst ` set (ac_bills a)
      then Some (a\<lparr>ac_holds := ac_holds a @ [(h, n)]\<rparr>) else None)"
| "account_do cap (AcBill h n) (Some a) =
     (case map_of (ac_holds a) h of
        None \<Rightarrow> None
      | Some m \<Rightarrow>
          if ac_live a \<and> ac_spent a < n \<and> n - ac_spent a \<le> m
          then Some (a\<lparr>ac_spent := n, ac_holds := release h (ac_holds a),
                      ac_bills := ac_bills a @ [(h, n - ac_spent a)]\<rparr>)
          else None)"
| "account_do cap (AcStop None) (Some a) = (if ac_live a then Some (a\<lparr>ac_live := False\<rparr>) else None)"
| "account_do cap (AcStop (Some n)) (Some a) =
     (if ac_live a \<and> (n = ac_spent a \<or> ac_spent a < n \<and> n \<le> ac_funded a)
      then Some (a\<lparr>ac_spent := n, ac_live := False\<rparr>) else None)"
| "account_do cap AcRetire (Some a) = Some (a\<lparr>ac_live := False\<rparr>)"
| "account_do cap _ _ = None"

text \<open>Payments do not look at holds, so both together may exceed what was funded, but not twice that.\<close>

definition account_bounded :: "nat \<Rightarrow> account \<Rightarrow> bool" where
  "account_bounded cap a \<longleftrightarrow>
     0 < ac_funded a \<and> ac_funded a \<le> cap \<and> held a \<le> ac_funded a \<and>
     ac_spent a + held a \<le> 2 * ac_funded a"

lemma release_sum:
  "map_of xs h = Some m \<Longrightarrow> sum_list (map snd (release h xs)) + m = sum_list (map snd xs)"
  by (induction xs) auto

lemma account_do_bounded:
  assumes "account_do cap act x = Some d" and "\<forall>a. x = Some a \<longrightarrow> account_bounded cap a"
  shows "account_bounded cap d"
  using assms
proof (induction cap act x rule: account_do.induct)
  case (5 cap h n a)
  then obtain m where "map_of (ac_holds a) h = Some m" by (auto split: option.splits)
  with 5 release_sum [of "ac_holds a" h m] show ?case
    by (auto simp: account_bounded_def held_def split: if_splits)
qed (auto simp: account_bounded_def held_def split: if_splits)

section \<open>Channels as accounts\<close>

definition account_of :: "channel_state \<Rightarrow> account" where
  "account_of c =
     \<lparr>ac_funded = unat (cs_deposit c), ac_spent = unat (cs_cumulative c),
      ac_holds = map (\<lambda>d. (pd_delivery_id d, unat (pd_amount d))) (cs_pending_deliveries c),
      ac_bills = map (\<lambda>d. (cd_delivery_id d, unat (cd_amount d))) (cs_committed_deliveries c),
      ac_live = (\<not> closed c)\<rparr>"

lemma held_account_of [simp]: "held (account_of c) = reserved c"
  by (simp add: held_def account_of_def reserved_def comp_def)

text \<open>
  What a request asks of an account, and of which one: the amounts are those the request names.  The name of a
  reservation without one is made from the next sequence number of the channel.
\<close>

fun request_action ::
  "flight list \<Rightarrow> (string \<Rightarrow> channel_state option) \<Rightarrow> session_event \<Rightarrow> (string \<times> account_action) option" where
  "request_action fs chan (EvOpen p) =
     (case (session_id p, deposit_amount p) of
        (Ok k, Ok d) \<Rightarrow> Some (k, AcOpen (unat d))
      | _ \<Rightarrow> None)"
| "request_action fs chan (EvWrite i) =
     (if i < length fs then
        Some (flight_channel (fs ! i),
          case fs ! i of
            VoucherFlight v n \<Rightarrow> AcPay (unat n)
          | CommitFlight p n now \<Rightarrow> AcBill (cp_delivery_id p) (unat n))
      else None)"
| "request_action fs chan (EvTopUp p) =
     map_option (\<lambda>n. (tu_channel_id p, AcFund (unat n))) (parse_u64 (tu_new_deposit p))"
| "request_action fs chan (EvBegin r) =
     map_option (\<lambda>c. (dr_session_id r,
         AcHold (reservation_id r (cs_next_delivery_sequence c + 1)) (unat (dr_amount r))))
       (chan (dr_session_id r))"
| "request_action fs chan (EvClose t0 t1 p) =
     (case cl_voucher p of
        None \<Rightarrow> Some (cl_channel_id p, AcStop None)
      | Some v \<Rightarrow>
          map_option (\<lambda>n. (cl_channel_id p, AcStop (Some (unat n)))) (parse_u64 (vd_cumulative (sv_data v))))"
| "request_action fs chan (EvFinalize k) = Some (k, AcRetire)"
| "request_action fs chan (EvVoucherRead t p) = None"
| "request_action fs chan (EvCommitRead t0 t1 p) = None"

text \<open>A voucher in the air was checked against the deposit.\<close>

definition payable_flight :: "flight \<Rightarrow> channel_state \<Rightarrow> bool" where
  "payable_flight f c \<longleftrightarrow> (\<forall>v n. f = VoucherFlight v n \<longrightarrow> n \<le> cs_deposit c)"

lemma voucher_step_account:
  assumes "verify_voucher_update n sig e x (Some c) = (y, Ok d)" and "n \<le> cs_deposit c"
  shows "d = c \<or> account_do cap (AcPay (unat n)) (Some (account_of c)) = Some (account_of d)"
proof -
  from assms(1) consider "d = c" | "\<not> closed c" "cs_cumulative c < n"
    "account_of d = (account_of c)\<lparr>ac_spent := unat n\<rparr>"
    by (auto simp: verify_voucher_update_Ok account_of_def closed_def)
  then show ?thesis
  proof cases
    case 2
    with assms(2) show ?thesis by (simp add: word_less_nat_alt word_le_nat_alt) (simp add: account_of_def)
  qed simp
qed

lemma find_holds:
  "find (\<lambda>d. pd_delivery_id d = h) ds = Some p \<Longrightarrow>
   map_of (map (\<lambda>d. (pd_delivery_id d, unat (pd_amount d))) ds) h = Some (unat (pd_amount p))"
  by (induction ds) (auto split: if_splits)

lemma release_holds:
  "release h (map (\<lambda>d. (pd_delivery_id d, unat (pd_amount d))) ds) =
   map (\<lambda>d. (pd_delivery_id d, unat (pd_amount d))) (remove_delivery h ds)"
  by (induction ds) auto

lemma commit_step_account:
  assumes "process_commit_update p n now x (Some c) = (y, Ok d)"
  shows "d = c \<or> account_do cap (AcBill (cp_delivery_id p) (unat n)) (Some (account_of c)) = Some (account_of d)"
  using assms
proof (cases rule: process_commit_update_Ok)
  case (fresh st pending)
  have c: "st = c" using fresh(1) by simp
  have less: "unat (cs_cumulative c) < unat n" using fresh(7) by (simp add: c word_less_nat_alt)
  have amount: "unat (n - cs_cumulative c) = unat n - unat (cs_cumulative c)"
    using less by (simp add: unat_sub_if')
  then have "unat n - unat (cs_cumulative c) \<le> unat (pd_amount pending)"
    using fresh(8) by (simp add: c word_le_nat_alt)
  then show ?thesis
    using find_holds [OF fresh(5)] fresh(2,3) less amount
    by (simp add: account_of_def fresh(10) c closed_def release_holds)
qed auto

lemma begin_step_account:
  assumes "begin_delivery_update Debug_Build cfg r x (Some c) = (y, Ok d)" and "dr_amount r \<noteq> 0"
  shows "account_do cap (AcHold (reservation_id r (cs_next_delivery_sequence c + 1)) (unat (dr_amount r)))
    (Some (account_of c)) = Some (account_of d)"
  using assms(1)
proof (rule begin_delivery_update_Ok)
  fix st pending_total committed total sequence
  assume st: "Some c = Some st" and live: "\<not> cs_finalized st" "cs_close_requested_at st = None"
    and pending: "sum_u64 Debug_Build 0 (map pd_amount (cs_pending_deliveries st)) =
      (Ok pending_total :: (u64, store_error) result)"
    and committed: "add_u64 Debug_Build (cs_cumulative st) pending_total = (Ok committed :: (u64, store_error) result)"
    and total: "add_u64 Debug_Build committed (dr_amount r) = (Ok total :: (u64, store_error) result)"
    and fits: "total \<le> cs_deposit st"
    and next_sequence: "add_u64 Debug_Build (cs_next_delivery_sequence st) 1 = (Ok sequence :: (u64, store_error) result)"
    and unused: "reservation_id r sequence \<notin> pd_delivery_id ` set (cs_pending_deliveries st)"
      "reservation_id r sequence \<notin> cd_delivery_id ` set (cs_committed_deliveries st)"
    and d: "d = st\<lparr>cs_next_delivery_sequence := sequence,
        cs_pending_deliveries := cs_pending_deliveries st @
          [\<lparr>pd_delivery_id = reservation_id r sequence, pd_amount = dr_amount r,
            pd_sequence = sequence, pd_expires_at = reservation_expiry r\<rparr>]\<rparr>"
  have "unat total = unat (cs_cumulative c) + reserved c + unat (dr_amount r)"
    using sum_u64_Debug [OF pending] add_u64_Debug [OF committed] add_u64_Debug [OF total] st
    by (simp add: reserved_def)
  then have room: "unat (cs_cumulative c) + reserved c + unat (dr_amount r) \<le> unat (cs_deposit c)"
    using fits st by (simp add: word_le_nat_alt)
  moreover have "sequence = cs_next_delivery_sequence c + 1"
    using next_sequence st by (simp add: add_u64_def split: if_splits)
  moreover have "ac_live (account_of c)" using live st by (simp add: account_of_def closed_def)
  moreover have "0 < unat (dr_amount r)" using assms(2) by (simp add: unat_gt_0)
  moreover have "fst ` set (ac_holds (account_of c)) = pd_delivery_id ` set (cs_pending_deliveries c)"
    "fst ` set (ac_bills (account_of c)) = cd_delivery_id ` set (cs_committed_deliveries c)"
    by (simp_all add: account_of_def image_comp comp_def)
  moreover have "account_of d = (account_of c)\<lparr>ac_holds := ac_holds (account_of c) @
      [(reservation_id r sequence, unat (dr_amount r))]\<rparr>"
    using st by (simp add: account_of_def d closed_def)
  moreover have "ac_spent (account_of c) = unat (cs_cumulative c)" "ac_funded (account_of c) = unat (cs_deposit c)"
    by (simp_all add: account_of_def)
  ultimately show ?thesis using unused st by simp
qed

lemma close_step_account:
  assumes "process_close_update X vo now x (Some c) = (y, Ok d)"
  obtains "vo = None" and "account_do cap (AcStop None) (Some (account_of c)) = Some (account_of d)"
  | v n where "vo = Some v" and "parse_u64 (vd_cumulative (sv_data v)) = Some n"
    and "account_do cap (AcStop (Some (unat n))) (Some (account_of c)) = Some (account_of d)"
  using assms
proof (rule process_close_update_Ok)
  fix st
  assume "Some c = Some st" and live: "\<not> cs_finalized st" "cs_close_requested_at st = None"
    and cases': "(vo = None \<and> d = st\<lparr>cs_close_requested_at := Some now\<rparr>) \<or>
      (\<exists>voucher. vo = Some voucher \<and>
         parse_u64 (vd_cumulative (sv_data voucher)) = Some (cs_cumulative st) \<and>
         cs_highest_voucher_signature st = Some (sv_signature voucher) \<and>
         d = st\<lparr>cs_highest_voucher_expires_at :=
                   (case cs_highest_voucher_expires_at st of
                      Some t \<Rightarrow> Some t | None \<Rightarrow> Some (vd_expires_at (sv_data voucher))),
                 cs_close_requested_at := Some now\<rparr>) \<or>
      (\<exists>voucher n. vo = Some voucher \<and>
         parse_u64 (vd_cumulative (sv_data voucher)) = Some n \<and>
         cs_cumulative st < n \<and> n \<le> cs_deposit st \<and>
         verify_signature X 1 voucher (cs_authorized_signer st) = Ok () \<and>
         d = st\<lparr>cs_cumulative := n,
                 cs_highest_voucher_signature := Some (sv_signature voucher),
                 cs_highest_voucher_expires_at := Some (vd_expires_at (sv_data voucher)),
                 cs_close_requested_at := Some now\<rparr>)"
  then have st: "st = c" by simp
  show thesis
    using cases' live that
    by (elim disjE exE conjE) (auto simp: st account_of_def closed_def word_less_nat_alt word_le_nat_alt)
qed

text \<open>Every change of a channel is no change of its account, or what the request asked of it.\<close>

lemma change_account:
  assumes "channel_change Debug_Build X cfg fs e cid old d" and "old = chan cid"
    and "\<forall>f \<in> set fs. flight_channel f = cid \<longrightarrow> (\<exists>c. old = Some c \<and> payable_flight f c)"
  shows "old = Some d \<or> (\<exists>act. request_action fs chan e = Some (cid, act) \<and>
    account_do (unat (sc_max_cap cfg)) act (map_option account_of old) = Some (account_of d))"
  using assms
proof (induction rule: channel_change.induct)
  case (change_open p c)
  note facts = process_open_checks_Ok [OF change_open(1)]
  have "account_of c = \<lparr>ac_funded = unat (cs_deposit c), ac_spent = 0, ac_holds = [], ac_bills = [], ac_live = True\<rparr>"
    using facts(6-9) by (simp add: account_of_def)
  moreover have "0 < unat (cs_deposit c)" "unat (cs_deposit c) \<le> unat (sc_max_cap cfg)"
    using facts(3,4) by (simp_all add: word_less_nat_alt word_le_nat_alt)
  ultimately show ?case using facts(1,2) by simp
next
  case (change_write i c y d)
  then have payable: "payable_flight (fs ! i) c" using nth_mem [of i fs] by auto
  show ?case
  proof (cases "fs ! i")
    case (VoucherFlight v n)
    with payable have "n \<le> cs_deposit c" by (simp add: payable_flight_def)
    with VoucherFlight change_write(1,2)
      voucher_step_account [of n "sv_signature v" "vd_expires_at (sv_data v)" NoOutput c y d "unat (sc_max_cap cfg)"]
    show ?thesis by (auto simp del: account_do.simps)
  next
    case (CommitFlight p n now)
    with change_write(1,2) commit_step_account [of p n now NoOutput c y d "unat (sc_max_cap cfg)"]
    show ?thesis by (auto simp del: account_do.simps)
  qed
next
  case (change_topup p n c y d)
  then have "cs_deposit c < n" "n \<le> sc_max_cap cfg" "account_of d = (account_of c)\<lparr>ac_funded := unat n\<rparr>"
    by (auto simp: process_topup_update_Ok account_of_def closed_def)
  moreover have "ac_funded (account_of c) = unat (cs_deposit c)" by (simp add: account_of_def)
  ultimately show ?case using change_topup(2) change_topup(3) [symmetric]
    by (simp add: word_less_nat_alt word_le_nat_alt)
next
  case (change_begin r c y d)
  from change_begin(3) [symmetric] begin_step_account [OF change_begin(1,2), of "unat (sc_max_cap cfg)"]
  show ?case by (simp del: account_do.simps)
next
  case (change_close t0 t1 p c y d)
  show ?case using change_close(1)
    by (rule close_step_account [where cap = "unat (sc_max_cap cfg)"]) (simp_all del: account_do.simps)
next
  case (change_finalize cid c)
  show ?case by (simp add: account_of_def closed_def)
qed

section \<open>Runs as account histories\<close>

context session_contract
begin

lemma payable_step:
  assumes "sys_inv (\<lambda>_ _. True) payable_flight s" and "fresh_open view e s"
  shows "sys_inv (\<lambda>_ _. True) payable_flight (session_step b ops X cfg e s)"
  using assms
proof (rule sys_inv_step)
  fix f c d
  assume "payable_flight f c" "progress c d"
  then show "payable_flight f d" by (auto simp: payable_flight_def progress_def)
next
  fix f c
  assume "takes_off X e f c"
  then show "payable_flight f c" by (cases f) (auto simp: takes_off_def payable_flight_def)
qed simp

lemma step_account:
  assumes "sys_inv (\<lambda>_ _. True) payable_flight s" and "fresh_open view e s"
    and "t = session_step Debug_Build ops X cfg e s"
  shows "view (sys_store t) cid = view (sys_store s) cid \<or>
    (\<exists>act d. request_action (sys_flights s) (view (sys_store s)) e = Some (cid, act) \<and>
       view (sys_store t) cid = Some d \<and>
       account_do (unat (sc_max_cap cfg)) act (map_option account_of (view (sys_store s) cid)) = Some (account_of d))"
proof (cases "view (sys_store t) cid = view (sys_store s) cid")
  case False
  with assms(2,3) obtain d where d: "view (sys_store t) cid = Some d"
    and change: "channel_change Debug_Build X cfg (sys_flights s) e cid (view (sys_store s) cid) d"
    using session_step_refines [of e s Debug_Build X cfg cid] by auto
  have "view (sys_store s) cid = Some d \<or>
    (\<exists>act. request_action (sys_flights s) (view (sys_store s)) e = Some (cid, act) \<and>
      account_do (unat (sc_max_cap cfg)) act (map_option account_of (view (sys_store s) cid)) = Some (account_of d))"
    using change by (rule change_account) (use assms(1) in \<open>auto simp: sys_inv_def\<close>)
  with False d show ?thesis by auto
qed simp

lemma run_payable:
  assumes "reaches (session_step b ops X cfg) (fresh_open view) s t"
    and "sys_inv (\<lambda>_ _. True) payable_flight s"
  shows "sys_inv (\<lambda>_ _. True) payable_flight t"
  using assms by (rule reaches_invariant) (rule payable_step)

lemma run_bounded:
  assumes "reaches (session_step Debug_Build ops X cfg) (fresh_open view) s t"
    and "sys_inv (\<lambda>_ _. True) payable_flight s" and "view (sys_store s) = Map.empty"
  shows "\<forall>cid c. view (sys_store t) cid = Some c \<longrightarrow> account_bounded (unat (sc_max_cap cfg)) (account_of c)"
  using assms(1)
proof induction
  case reaches_refl
  with assms(3) show ?case by simp
next
  case (reaches_step t e)
  have inv: "sys_inv (\<lambda>_ _. True) payable_flight t" using run_payable [OF reaches_step(1) assms(2)] .
  show ?case
  proof (intro allI impI)
    fix cid d
    assume d: "view (sys_store (session_step Debug_Build ops X cfg e t)) cid = Some d"
    from step_account [OF inv reaches_step(2) refl, of X cfg cid] d
    show "account_bounded (unat (sc_max_cap cfg)) (account_of d)"
    proof (elim disjE exE conjE)
      fix act c
      assume "view (sys_store (session_step Debug_Build ops X cfg e t)) cid = Some c"
        and act: "account_do (unat (sc_max_cap cfg)) act (map_option account_of (view (sys_store t) cid)) =
          Some (account_of c)"
      with d have "d = c" by simp
      show ?thesis unfolding \<open>d = c\<close>
        by (rule account_do_bounded [OF act]) (use reaches_step.IH in auto)
    qed (use reaches_step.IH in auto)
  qed
qed

end

section \<open>The server's channels are prepaid accounts\<close>

lemma all_allowed_append:
  "all_allowed step allowed (es @ fs) s \<longleftrightarrow>
   all_allowed step allowed es s \<and> all_allowed step allowed fs (run_events step es s)"
  by (induction es arbitrary: s) auto

text \<open>The server after the first \<open>k\<close> events of a run.\<close>

definition after ::
  "build \<Rightarrow> externs \<Rightarrow> session_config \<Rightarrow> session_event list \<Rightarrow> nat \<Rightarrow> memory_channel_store server_system" where
  "after b X cfg es k = run_events (mem_step b X cfg) (take k es) initial_system"

lemma after_step:
  assumes "all_allowed (mem_step b X cfg) allowed es initial_system" and "k < length es"
  shows "reaches (mem_step b X cfg) allowed initial_system (after b X cfg es k)"
    and "allowed (es ! k) (after b X cfg es k)"
    and "after b X cfg es (Suc k) = mem_step b X cfg (es ! k) (after b X cfg es k)"
proof -
  have split: "es = take k es @ es ! k # drop (Suc k) es" using assms(2) by (simp add: id_take_nth_drop)
  with assms(1) have "all_allowed (mem_step b X cfg) allowed (take k es @ es ! k # drop (Suc k) es) initial_system"
    by simp
  then have "all_allowed (mem_step b X cfg) allowed (take k es) initial_system"
    and "allowed (es ! k) (after b X cfg es k)"
    unfolding all_allowed_append by (simp_all add: after_def)
  then show "reaches (mem_step b X cfg) allowed initial_system (after b X cfg es k)"
    and "allowed (es ! k) (after b X cfg es k)" by (simp_all add: after_def reaches_run)
  show "after b X cfg es (Suc k) = mem_step b X cfg (es ! k) (after b X cfg es k)"
    using assms(2) by (simp add: after_def take_Suc_conv_app_nth run_events_append)
qed

text \<open>
  C1. The session server refines the prepaid account: in a build with overflow checks, and as long as no known
  channel is opened again, a channel begins as no account, and every event of every run, through all
  interleavings, leaves the channel as it was, or is a request whose action names this channel, with the amount
  of the request, and takes its account exactly where the account machine goes.  The watermark is what was
  spent, the deposit what is funded, the pending deliveries are the holds and the committed ones the bills.
\<close>

theorem session_refines_account:
  assumes "all_allowed (mem_step Debug_Build X cfg) (fresh_open mcs_data) es initial_system"
    and "k < length es"
  shows "channel_of (after Debug_Build X cfg es 0) cid = None \<and>
    (channel_of (after Debug_Build X cfg es (Suc k)) cid = channel_of (after Debug_Build X cfg es k) cid \<or>
     (\<exists>act d.
        request_action (sys_flights (after Debug_Build X cfg es k)) (channel_of (after Debug_Build X cfg es k))
          (es ! k) = Some (cid, act) \<and>
        channel_of (after Debug_Build X cfg es (Suc k)) cid = Some d \<and>
        account_do (unat (sc_max_cap cfg)) act
          (map_option account_of (channel_of (after Debug_Build X cfg es k) cid)) = Some (account_of d)))"
proof
  show "channel_of (after Debug_Build X cfg es 0) cid = None"
    by (simp add: after_def initial_system_def memory_channel_store_new_def)
  note step = after_step [OF assms]
  have inv: "mem_sessions.sys_inv (\<lambda>_ _. True) payable_flight (after Debug_Build X cfg es k)"
    using step(1) initial_inv by (rule mem_sessions.run_payable)
  show "channel_of (after Debug_Build X cfg es (Suc k)) cid = channel_of (after Debug_Build X cfg es k) cid \<or>
     (\<exists>act d.
        request_action (sys_flights (after Debug_Build X cfg es k)) (channel_of (after Debug_Build X cfg es k))
          (es ! k) = Some (cid, act) \<and>
        channel_of (after Debug_Build X cfg es (Suc k)) cid = Some d \<and>
        account_do (unat (sc_max_cap cfg)) act
          (map_option account_of (channel_of (after Debug_Build X cfg es k) cid)) = Some (account_of d))"
    by (rule mem_sessions.step_account [OF inv step(2,3)])
qed

text \<open>The commit of a metered delivery bills its hold.\<close>

lemma metered_take: "take 3 metered_events =
   [EvOpen demo_open,
    EvBegin ((delivery_request_new ''ch'' 40)\<lparr>dr_delivery_id := Some ''d1''\<rparr>),
    EvCommitRead 100 100 \<lparr>cp_delivery_id = ''d1'', cp_voucher = demo_voucher ''ch'' 30\<rparr>]"
  by (simp add: metered_events_def)

lemma metered_in_air:
  "sys_flights (after Debug_Build demo_externs demo_config metered_events 3) =
     [CommitFlight \<lparr>cp_delivery_id = ''d1'', cp_voucher = demo_voucher ''ch'' 30\<rparr> 30 100]"
  "map_option cs_cumulative (channel_of (after Debug_Build demo_externs demo_config metered_events 3) ''ch'') = Some 0"
  unfolding after_def metered_take
  by (simp_all add: demo_run delivery_request_new_def demo_channel_def)

theorem session_refines_account_witness:
  "account_do (unat (sc_max_cap demo_config)) (AcBill ''d1'' 30)
     (map_option account_of (channel_of (after Debug_Build demo_externs demo_config metered_events 3) ''ch'')) =
   Some (account_of demo_metered)"
proof -
  let ?at = "after Debug_Build demo_externs demo_config metered_events"
  have allowed: "all_allowed (mem_step Debug_Build demo_externs demo_config) (fresh_open mcs_data) metered_events initial_system"
    by (simp add: metered_events_def demo_run delivery_request_new_def)
  have "3 < length metered_events" by (simp add: metered_events_def)
  from session_refines_account [OF allowed this, of "''ch''"]
  have "channel_of (?at (Suc 3)) ''ch'' = channel_of (?at 3) ''ch'' \<or>
     (\<exists>act d. request_action (sys_flights (?at 3)) (channel_of (?at 3)) (metered_events ! 3) = Some (''ch'', act) \<and>
        channel_of (?at (Suc 3)) ''ch'' = Some d \<and>
        account_do (unat (sc_max_cap demo_config)) act (map_option account_of (channel_of (?at 3) ''ch'')) =
          Some (account_of d))" by blast
  moreover have "metered_events ! 3 = EvWrite 0" by (simp add: metered_events_def)
  moreover have "channel_of (?at (Suc 3)) ''ch'' = Some demo_metered"
  proof -
    have "take (Suc 3) metered_events = metered_events" by (simp add: metered_events_def)
    then show ?thesis unfolding after_def metered_run by (simp add: metered_run)
  qed
  moreover from metered_in_air(2) have "channel_of (?at 3) ''ch'' \<noteq> Some demo_metered"
    by (auto simp: demo_metered_def)
  ultimately show ?thesis
    using metered_in_air(1) by (auto simp: flight_channel_def simp del: account_do.simps)
qed

text \<open>
  C23. What a server can lose to the money that vouchers and commits spend twice is bounded: in a build with
  overflow checks, and as long as no known channel is opened again, the watermark and the reservations of a
  channel together are at most twice its deposit in every run.
\<close>

theorem session_exposure_bounded:
  assumes "reaches (mem_step Debug_Build X cfg) (fresh_open mcs_data) initial_system t"
    and "channel_of t cid = Some c"
  shows "0 < cs_deposit c \<and> cs_deposit c \<le> sc_max_cap cfg \<and>
    unat (cs_cumulative c) + sum_list (map (unat \<circ> pd_amount) (cs_pending_deliveries c)) \<le>
      2 * unat (cs_deposit c)"
proof -
  have "account_bounded (unat (sc_max_cap cfg)) (account_of c)"
    using mem_sessions.run_bounded [OF assms(1) initial_inv] assms(2)
    by (simp add: initial_system_def memory_channel_store_new_def)
  then have "account_bounded (unat (sc_max_cap cfg)) (account_of c)" "held (account_of c) = reserved c" by simp_all
  then show ?thesis
    by (simp add: account_bounded_def account_of_def reserved_def word_less_nat_alt word_le_nat_alt)
qed

theorem session_exposure_bounded_witness:
  "unat (cs_cumulative demo_metered) + reserved demo_metered \<le> 2 * unat (cs_deposit demo_metered)"
  using session_exposure_bounded [OF demo_runs_fresh(2), where cid = "''ch''" and c = demo_metered]
  by (simp add: reserved_def)

end
