(* ===== verification/Axum.thy ===== *)
theory Axum
  imports Charge_Settlement
begin

text \<open>
  \<^verbatim>\<open>rust/src/server/axum.rs\<close>: the extractor that gates a route behind a payment, and the responses for
  requests that are not paid.
\<close>

section \<open>HTTP\<close>

text \<open>
  A response of the framework.  The names of a header map are in lower case; a value is the list of its
  bytes.
\<close>

record http_response =
  rs_status :: u16
  rs_headers :: "(string \<times> string) list"
  rs_body :: string

text \<open>
  The crates \<^verbatim>\<open>axum\<close> and \<^verbatim>\<open>http\<close>: which texts are header values, the text of a value, the response for a
  status and a text, and the JSON printer of \<^verbatim>\<open>serde_json\<close>.
\<close>

record http_crate =
  hc_value_ok :: "string \<Rightarrow> bool"
  hc_to_str :: "string \<Rightarrow> string option"
  hc_text_response :: "u16 \<Rightarrow> string \<Rightarrow> http_response"
  hc_json_text :: "json \<Rightarrow> (string, string) result"

definition header_get :: "(string \<times> string) list \<Rightarrow> string \<Rightarrow> string option" where
  "header_get hs name = map_of hs name"

text \<open>\<^verbatim>\<open>HeaderMap::insert\<close> replaces every value of that name.\<close>

definition header_insert :: "string \<Rightarrow> string \<Rightarrow> (string \<times> string) list \<Rightarrow> (string \<times> string) list" where
  "header_insert name value hs = filter (\<lambda>h. fst h \<noteq> name) hs @ [(name, value)]"

definition WWW_AUTHENTICATE_HEADER :: string where
  "WWW_AUTHENTICATE_HEADER = ''www-authenticate''"

definition AUTHORIZATION_HEADER :: string where
  "AUTHORIZATION_HEADER = ''authorization''"

definition PAYMENT_RECEIPT_HEADER :: string where
  "PAYMENT_RECEIPT_HEADER = ''payment-receipt''"

section \<open>Routes and rejections\<close>

text \<open>What an implementation of \<^verbatim>\<open>ChargeConfig\<close> says of its route.\<close>

record charge_route =
  ro_amount :: string
  ro_description :: "string option"

definition route_options :: "charge_route \<Rightarrow> charge_options" where
  "route_options route = charge_options_default\<lparr>co_description := ro_description route\<rparr>"

datatype payment_required = PaymentRequired payment_challenge

datatype rejection =
    Challenge payment_required
  | VerificationFailed payment_required
  | InternalError string

text \<open>The form that the derived \<^verbatim>\<open>Serialize\<close> gives a challenge.\<close>

definition payment_challenge_to_json :: "payment_challenge \<Rightarrow> json" where
  "payment_challenge_to_json c =
     JObject ([(''id'', JString (pc_id c)), (''realm'', JString (pc_realm c)),
               (''method'', JString (method_str (pc_method c))),
               (''intent'', JString (intent_str (pc_intent c))),
               (''request'', JString (raw (pc_request c)))] @
              opt_member ''expires'' (pc_expires c) @ opt_member ''description'' (pc_description c) @
              opt_member ''digest'' (pc_digest c) @ opt_member ''opaque'' (map_option raw (pc_opaque c)))"

section \<open>Responses\<close>

text \<open>Formatting a challenge does not panic; the last case is never taken.\<close>

fun payment_required_response :: "http_crate \<Rightarrow> payment_required \<Rightarrow> http_response" where
  "payment_required_response H (PaymentRequired c) =
     (case format_www_authenticate c of
        Ok www_auth \<Rightarrow>
          let body = (case hc_json_text H (payment_challenge_to_json c) of Ok t \<Rightarrow> t | _ \<Rightarrow> ''{}'');
              resp = hc_text_response H 402 body;
              hs = (if hc_value_ok H www_auth
                    then header_insert WWW_AUTHENTICATE_HEADER www_auth (rs_headers resp)
                    else rs_headers resp);
              hs = header_insert ''content-type'' ''application/json'' hs;
              hs = header_insert ''cache-control'' ''no-store'' hs
          in resp\<lparr>rs_headers := hs\<rparr>
      | Err e \<Rightarrow> hc_text_response H 500 (''Failed to format challenge: '' @ error_display e)
      | Panic \<Rightarrow> hc_text_response H 500 [])"

fun rejection_response :: "http_crate \<Rightarrow> rejection \<Rightarrow> http_response" where
  "rejection_response H (Challenge pr) = payment_required_response H pr"
| "rejection_response H (VerificationFailed pr) = payment_required_response H pr"
| "rejection_response H (InternalError msg) = hc_text_response H 500 msg"

text \<open>The response of a handler with the receipt attached.\<close>

definition with_receipt_response :: "codecs \<Rightarrow> http_crate \<Rightarrow> receipt \<Rightarrow> http_response \<Rightarrow> http_response" where
  "with_receipt_response K H r resp =
     (case format_receipt K r of
        Ok header_val \<Rightarrow>
          if hc_value_ok H header_val
          then resp\<lparr>rs_headers := header_insert PAYMENT_RECEIPT_HEADER header_val (rs_headers resp)\<rparr>
          else resp
      | _ \<Rightarrow> resp)"

section \<open>The extractor\<close>

text \<open>The credential of a request; a request without one, or with one that does not parse, has none.\<close>

definition request_credential ::
  "codecs \<Rightarrow> http_crate \<Rightarrow> (string \<times> string) list \<Rightarrow> payment_credential option" where
  "request_credential K H headers =
     (case Option.bind (header_get headers AUTHORIZATION_HEADER) (hc_to_str H) of
        None \<Rightarrow> None
      | Some s \<Rightarrow>
          if \<not> starts_with s ''Payment '' then None
          else (case parse_authorization K s of Ok c \<Rightarrow> Some c | _ \<Rightarrow> None))"

definition from_request_parts ::
  "build \<Rightarrow> externs \<Rightarrow> codecs \<Rightarrow> tx_codecs \<Rightarrow> rpc_client \<Rightarrow> ('s, json) store \<Rightarrow> http_crate \<Rightarrow> mpp \<Rightarrow> 's \<Rightarrow>
   charge_route \<Rightarrow> (string \<times> string) list \<Rightarrow> 's \<times> effect list \<times> (receipt, rejection) result" where
  "from_request_parts b X K T R ops H m s route headers =
     (case charge_with_options b X K R m (ro_amount route) (route_options route) of
        Panic \<Rightarrow> (s, [], Panic)
      | Err e \<Rightarrow> (s, [], Err (InternalError (''charge failed: '' @ error_display e)))
      | Ok challenge \<Rightarrow>
     (case request_credential K H headers of
        None \<Rightarrow> (s, [], Err (Challenge (PaymentRequired challenge)))
      | Some credential \<Rightarrow>
     (case decode_request K (pc_request challenge) of
        Panic \<Rightarrow> (s, [], Panic)
      | Err e \<Rightarrow> (s, [], Err (InternalError (''failed to decode expected request: '' @ error_display e)))
      | Ok expected \<Rightarrow>
     (case verify_credential_with_expected b X K T R ops m s credential expected of
        (s', es, Ok receipt) \<Rightarrow> (s', es, Ok receipt)
      | (s', es, Err _) \<Rightarrow> (s', es, Err (VerificationFailed (PaymentRequired challenge)))
      | (s', es, Panic) \<Rightarrow> (s', es, Panic)))))"

end
