(* ===== verification/Html.thy ===== *)
theory Html
  imports Axum Floats
begin

text \<open>
  \<^verbatim>\<open>rust/src/server/html.rs\<close>: the HTML page that asks a browser for a payment.
\<close>

section \<open>The page around it\<close>

text \<open>
  The files the build generates (the template of the page and the service worker), the JSON printer of
  \<^verbatim>\<open>serde_json\<close>, and \<^verbatim>\<open>10f64.powi(n)\<close>, whose precision the standard library does not specify.
\<close>

record html_files =
  HTML_TEMPLATE :: string
  SERVICE_WORKER_JS :: string
  html_json_text :: "json \<Rightarrow> (string, string) result"
  html_powi10 :: "int \<Rightarrow> f64"

definition SERVICE_WORKER_PARAM :: string where
  "SERVICE_WORKER_PARAM = ''__mpp_worker''"

definition DATA_ELEMENT_ID :: string where
  "DATA_ELEMENT_ID = ''__MPP_DATA__''"

definition accepts_html :: "string \<Rightarrow> bool" where
  "accepts_html accept =
     list_ex (\<lambda>part. starts_with (trim part) ''text/html'') (split_on (CHR '','') accept)"

definition is_service_worker_request :: "string \<Rightarrow> bool" where
  "is_service_worker_request query = contains_str query SERVICE_WORKER_PARAM"

definition service_worker_js :: "html_files \<Rightarrow> string" where
  "service_worker_js F = SERVICE_WORKER_JS F"

section \<open>Replacing and escaping\<close>

lemma strip_prefix_shrinks: "strip_prefix p s = Some rest \<Longrightarrow> p \<noteq> [] \<Longrightarrow> length rest < length s"
  by (auto simp: strip_prefix_Some)

text \<open>\<^verbatim>\<open>str::replace\<close>, for a text to replace that is not empty.\<close>

function replace_str :: "string \<Rightarrow> string \<Rightarrow> string \<Rightarrow> string" where
  "replace_str p r [] = []"
| "replace_str p r (c # cs) =
     (if p = [] then c # cs
      else case strip_prefix p (c # cs) of
        Some rest \<Rightarrow> r @ replace_str p r rest
      | None \<Rightarrow> c # replace_str p r cs)"
  by pat_completeness auto

termination
  by (relation "measure (\<lambda>(p, r, s). length s)") (auto dest: strip_prefix_shrinks)

definition escape_html :: "string \<Rightarrow> string" where
  "escape_html s =
     replace_str [CHR 39] ''&#x27;''
       (replace_str [CHR 34] ''&quot;''
         (replace_str ''>'' ''&gt;'' (replace_str ''<'' ''&lt;'' (replace_str ''&'' ''&amp;'' s))))"

section \<open>The amount\<close>

text \<open>Indexing a JSON value; what is missing is null.\<close>

definition json_index :: "json \<Rightarrow> string \<Rightarrow> json" where
  "json_index v key = case_option JNull id (json_get v key)"

definition page_request :: "codecs \<Rightarrow> payment_challenge \<Rightarrow> json" where
  "page_request K c = (case decode_value K (pc_request c) of Ok v \<Rightarrow> v | _ \<Rightarrow> JObject [])"

definition page_currency :: "json \<Rightarrow> string" where
  "page_currency decoded = case_option ''SOL'' id (as_str (json_index decoded ''currency''))"

definition page_decimals :: "json \<Rightarrow> u64" where
  "page_decimals decoded =
     case_option (if to_ascii_lowercase (page_currency decoded) = ''sol'' then 9 else 6) id
       (as_u64 (json_index (json_index decoded ''methodDetails'') ''decimals''))"

definition page_amount :: "html_files \<Rightarrow> json \<Rightarrow> f64" where
  "page_amount F decoded =
     (let amount_raw = case_option ''0'' id (as_str (json_index decoded ''amount'')) in
      f64_div (case_option (f64_of_u64 0) id (parse_f64 amount_raw))
        (html_powi10 F (sint (ucast (page_decimals decoded) :: 32 word))))"

definition display_amount :: "f64 \<Rightarrow> string" where
  "display_amount amount = (if f64_is_whole amount then f64_fixed 0 amount else f64_fixed 2 amount)"

definition DOLLAR_CURRENCIES :: "string list" where
  "DOLLAR_CURRENCIES =
     [''USDC'', ''USDT'', ''USDG'', ''PYUSD'', ''CASH'', USDC_MAINNET, USDC_DEVNET, USDT_MAINNET, USDG_MAINNET,
      USDG_DEVNET, PYUSD_MAINNET, PYUSD_DEVNET, CASH_MAINNET]"

text \<open>A slice that would cut a character of more than one byte panics.\<close>

definition slice_to :: "string \<Rightarrow> nat \<Rightarrow> (string, 'e) result" where
  "slice_to s k =
     (if k < length s \<and> 128 \<le> (of_char (s ! k) :: nat) \<and> (of_char (s ! k) :: nat) < 192 then Panic
      else Ok (take k s))"

definition amount_display :: "html_files \<Rightarrow> json \<Rightarrow> (string, 'e) result" where
  "amount_display F decoded =
     (let currency = page_currency decoded; shown = display_amount (page_amount F decoded) in
      if currency \<in> set DOLLAR_CURRENCIES then Ok (''$'' @ shown)
      else if to_ascii_lowercase currency = ''sol'' then Ok (shown @ '' SOL'')
      else rbind (slice_to currency (min 6 (length currency))) (\<lambda>unit. Ok (shown @ '' '' @ unit)))"

section \<open>The page\<close>

definition description_html :: "payment_challenge \<Rightarrow> string" where
  "description_html c =
     (case pc_description c of
        None \<Rightarrow> []
      | Some d \<Rightarrow>
          ''<p class='' @ [CHR 34] @ ''mppx-summary-description'' @ [CHR 34] @ ''>'' @ escape_html d @ ''</p>'')"

definition expires_html :: "payment_challenge \<Rightarrow> string" where
  "expires_html c =
     (case pc_expires c of
        None \<Rightarrow> []
      | Some e \<Rightarrow>
          let iso = escape_html e in
          ''<p class='' @ [CHR 34] @ ''mppx-summary-expires'' @ [CHR 34] @ ''>Expires at <time datetime='' @ [CHR 34] @
          iso @ [CHR 34] @ '' id='' @ [CHR 34] @ ''_exp'' @ [CHR 34] @ ''>'' @ iso @
          ''</time></p><script>document.getElementById('' @ [CHR 39] @ ''_exp'' @ [CHR 39] @
          '').textContent=new Date('' @ [CHR 39] @ iso @ [CHR 39] @ '').toLocaleString()</script>'')"

definition page_data :: "html_files \<Rightarrow> payment_challenge \<Rightarrow> string \<Rightarrow> string \<Rightarrow> string" where
  "page_data F c rpc_url network =
     (let embedded = JObject [(''challenge'', payment_challenge_to_json c), (''network'', JString network),
            (''rpcUrl'', JString rpc_url)]
      in replace_str ''<'' (CHR 92 # ''u003c'')
           (case html_json_text F embedded of Ok t \<Rightarrow> t | _ \<Rightarrow> []))"

text \<open>The places of the template.\<close>

definition AMOUNT_PLACE :: string where "AMOUNT_PLACE = ''{{AMOUNT}}''"

definition DESCRIPTION_PLACE :: string where "DESCRIPTION_PLACE = ''{{DESCRIPTION}}''"

definition EXPIRES_PLACE :: string where "EXPIRES_PLACE = ''{{EXPIRES}}''"

definition DATA_PLACE :: string where "DATA_PLACE = ''{{DATA_JSON}}''"

definition challenge_to_html ::
  "codecs \<Rightarrow> html_files \<Rightarrow> payment_challenge \<Rightarrow> string \<Rightarrow> string \<Rightarrow> (string, 'e) result" where
  "challenge_to_html K F c rpc_url network =
     rbind (amount_display F (page_request K c)) (\<lambda>amount.
       Ok (replace_str DATA_PLACE (page_data F c rpc_url network)
            (replace_str EXPIRES_PLACE (expires_html c)
              (replace_str DESCRIPTION_PLACE (description_html c)
                (replace_str AMOUNT_PLACE (escape_html amount) (HTML_TEMPLATE F))))))"

end
