(* ===== verification/Charge_Completeness.thy ===== *)
theory Charge_Completeness
  imports Client_Charge Charge_Payments
begin

text \<open>
  The server's verification seen from the client: a transaction that holds, in any order, one
  instruction for every payment and memo the server looks for, and nothing else it would refuse, is
  accepted.  The greedy searches are counted: each takes one open position for its goal.
\<close>

section \<open>Searching for goals\<close>

lemma scan_finds:
  assumes "\<And>i. i < length xs \<Longrightarrow> test (k + i) (xs ! i) = Ok (P (k + i))"
    and "i < length xs" and "P (k + i)"
  shows "\<exists>j. scan_from test k xs = Ok (Some j) \<and> P j \<and> k \<le> j \<and> j < k + length xs"
  using assms
proof (induction xs arbitrary: k i)
  case (Cons x xs)
  have first: "test k x = Ok (P k)" using Cons.prems(1) [of 0] by simp
  show ?case
  proof (cases "P k")
    case True
    with first show ?thesis by auto
  next
    case False
    with Cons.prems(2,3) obtain i' where i: "i = Suc i'" by (cases i) auto
    have "test (Suc k + j) (xs ! j) = Ok (P (Suc k + j))" if "j < length xs" for j
      using Cons.prems(1) [of "Suc j"] that by simp
    then have "\<exists>j. scan_from test (Suc k) xs = Ok (Some j) \<and> P j \<and> Suc k \<le> j \<and> j < Suc k + length xs"
      using Cons.prems(2,3) i by (intro Cons.IH [of "Suc k" i']) auto
    with first False show ?thesis by auto
  qed
qed simp

text \<open>How many positions outside \<open>M\<close> are for a goal.\<close>

definition open_count :: "'g option list \<Rightarrow> nat set \<Rightarrow> 'g \<Rightarrow> nat" where
  "open_count ks M g = card {i. i < length ks \<and> i \<notin> M \<and> ks ! i = Some g}"

lemma open_count_start: "open_count ks {} g = count (mset (List.map_filter id ks)) g"
proof -
  have "open_count ks {} g = length (filter (\<lambda>k. k = Some g) ks)"
    by (simp add: open_count_def length_filter_conv_card)
  also have "\<dots> = count (mset (List.map_filter id ks)) g"
    by (induction ks) (auto simp: map_filter_simps split: option.splits)
  finally show ?thesis .
qed

lemma open_count_pick:
  assumes "j < length ks" and "j \<notin> M" and "ks ! j = Some g"
  shows "open_count ks M h = (if h = g then Suc (open_count ks (insert j M) h)
    else open_count ks (insert j M) h)"
proof (cases "h = g")
  case True
  have "{i. i < length ks \<and> i \<notin> M \<and> ks ! i = Some g} =
      insert j {i. i < length ks \<and> i \<notin> insert j M \<and> ks ! i = Some g}"
    using assms by auto
  with True show ?thesis by (simp add: open_count_def)
next
  case False
  then have "{i. i < length ks \<and> i \<notin> M \<and> ks ! i = Some h} =
      {i. i < length ks \<and> i \<notin> insert j M \<and> ks ! i = Some h}"
    using assms by auto
  with False show ?thesis by (simp add: open_count_def)
qed

lemma open_count_other:
  assumes "\<And>i. i \<in> M \<Longrightarrow> i < length ks \<Longrightarrow> ks ! i = None"
  shows "open_count ks M g = open_count ks {} g"
proof -
  have "{i. i < length ks \<and> i \<notin> M \<and> ks ! i = Some g} = {i. i < length ks \<and> i \<notin> {} \<and> ks ! i = Some g}"
    using assms by fastforce
  then show ?thesis unfolding open_count_def by (rule arg_cong)
qed

lemma open_count_zero:
  assumes "\<And>g. open_count ks M g = 0" and "i < length ks" and "ks ! i \<noteq> None"
  shows "i \<in> M"
proof (rule ccontr)
  assume "i \<notin> M"
  with assms(2,3) obtain g where "i \<in> {i. i < length ks \<and> i \<notin> M \<and> ks ! i = Some g}" by auto
  moreover have "finite {i. i < length ks \<and> i \<notin> M \<and> ks ! i = Some g}" by simp
  ultimately have "0 < open_count ks M g" unfolding open_count_def by (auto simp: card_gt_0_iff)
  with assms(1) [of g] show False by simp
qed

text \<open>
  A search that takes an open position for its goal whenever there is one.  Goals that the search
  cannot tell apart fall into one class.
\<close>

definition finds ::
  "('g \<Rightarrow> 'c) \<Rightarrow> 'c option list \<Rightarrow> ('g \<Rightarrow> nat set \<Rightarrow> (nat set, 'e) result) \<Rightarrow> bool" where
  "finds cls ks search \<longleftrightarrow>
     (\<forall>g M. 0 < open_count ks M (cls g) \<longrightarrow>
        (\<exists>j < length ks. j \<notin> M \<and> ks ! j = Some (cls g) \<and> search g M = Ok (insert j M)))"

text \<open>What a loop of such searches leaves: the goals it had are taken off the open ones.\<close>

definition took :: "'g option list \<Rightarrow> 'g list \<Rightarrow> nat set \<Rightarrow> nat set \<Rightarrow> bool" where
  "took ks gs M M' \<longleftrightarrow>
     M \<subseteq> M' \<and> (\<forall>i \<in> M' - M. i < length ks \<and> ks ! i \<noteq> None) \<and>
     (\<forall>g. open_count ks M g = open_count ks M' g + count (mset gs) g)"

lemma took_Nil [simp]: "took ks [] M M" by (simp add: took_def)

lemma took_Cons:
  assumes "j < length ks" and "j \<notin> M" and "ks ! j = Some g" and "took ks gs (insert j M) M'"
  shows "took ks (g # gs) M M'"
  using assms open_count_pick [OF assms(1-3)] by (auto simp: took_def)

lemma took_rest:
  assumes "\<And>h. count (mset (g # gs)) h \<le> open_count ks M h"
    and "j < length ks" and "j \<notin> M" and "ks ! j = Some g"
  shows "count (mset gs) h \<le> open_count ks (insert j M) h"
  using assms(1) [of h] open_count_pick [OF assms(2-4), of h] by (auto split: if_splits)

lemma finds_next:
  assumes "finds cls ks search" and "\<And>h. count (mset (cls g # gs)) h \<le> open_count ks M h"
  obtains j where "j < length ks" and "j \<notin> M" and "ks ! j = Some (cls g)"
    and "search g M = Ok (insert j M)"
proof -
  have "0 < open_count ks M (cls g)" using assms(2) [of "cls g"] by simp
  with assms(1) that show ?thesis unfolding finds_def by blast
qed

lemma splits_found:
  assumes "finds cls ks (\<lambda>g. transfer (fst g) (snd g))"
    and "list_all2 (\<lambda>s g. split_owner X s = Ok (fst g) \<and> parse_u64 (sp_amount s) = Some (snd g)) ss gs"
    and "\<And>h. count (mset (map cls gs)) h \<le> open_count ks M h"
  shows "\<exists>M'. verify_split_transfers X transfer ss M = Ok M' \<and> took ks (map cls gs) M M'"
  using assms(2,3)
proof (induction ss gs arbitrary: M rule: list_all2_induct)
  case (Cons s ss g gs)
  have prems: "count (mset (cls g # map cls gs)) h \<le> open_count ks M h" for h
    using Cons.prems [of h] by simp
  obtain j where j: "j < length ks" "j \<notin> M" "ks ! j = Some (cls g)"
    and step: "transfer (fst g) (snd g) M = Ok (insert j M)"
    by (rule finds_next [OF assms(1) prems])
  obtain M' where "verify_split_transfers X transfer ss (insert j M) = Ok M'"
    "took ks (map cls gs) (insert j M) M'"
    using Cons.IH [OF took_rest [OF prems j]] by blast
  with step Cons.hyps(1) took_Cons [OF j] show ?case by auto
qed simp

section \<open>Memos\<close>

definition memo_search ::
  "pubkey \<Rightarrow> versioned_transaction \<Rightarrow> byte list \<Rightarrow> nat set \<Rightarrow> (nat set, verification_error) result" where
  "memo_search memo_program tx data M =
     (case scan_from (memo_test memo_program (tx_account_keys tx) data M) 0 (tx_instructions tx) of
        Ok (Some j) \<Rightarrow> Ok (insert j M)
      | _ \<Rightarrow> Panic)"

lemma memos_found:
  assumes "finds id ks (memo_search memo_program tx)"
    and "list_all (\<lambda>lm. length (snd lm) \<le> 566) memos"
    and "\<And>h. count (mset (map (\<lambda>lm. string_bytes (snd lm)) memos)) h \<le> open_count ks M h"
  shows "\<exists>M'. verify_memos memo_program tx memos M = Ok M' \<and>
    took ks (map (\<lambda>lm. string_bytes (snd lm)) memos) M M'"
  using assms(2,3)
proof (induction memos arbitrary: M)
  case (Cons lm memos)
  obtain label memo where lm: "lm = (label, memo)" by fastforce
  have prems: "count (mset (string_bytes memo # map (\<lambda>lm. string_bytes (snd lm)) memos)) h \<le> open_count ks M h" for h
    using Cons.prems(2) [of h] by (simp add: lm)
  obtain j where j: "j < length ks" "j \<notin> M" "ks ! j = Some (string_bytes memo)"
    and step: "memo_search memo_program tx (string_bytes memo) M = Ok (insert j M)"
    by (rule finds_next [OF assms(1), of "string_bytes memo", unfolded id_apply, OF prems])
  obtain M' where rest: "verify_memos memo_program tx memos (insert j M) = Ok M'"
    "took ks (map (\<lambda>lm. string_bytes (snd lm)) memos) (insert j M) M'"
    using Cons.IH [OF _ took_rest [OF prems j]] Cons.prems(1) by auto
  from step obtain i where i: "scan_from (memo_test memo_program (tx_account_keys tx) (string_bytes memo) M) 0
      (tx_instructions tx) = Ok (Some i)" and ins: "insert i M = insert j M"
    by (auto simp: memo_search_def split: result.splits option.splits)
  with Cons.prems(1) rest(1) have "verify_memos memo_program tx (lm # memos) M = Ok M'"
    by (simp add: lm not_less)
  moreover have "took ks (map (\<lambda>lm. string_bytes (snd lm)) (lm # memos)) M M'"
    using took_Cons [OF j rest(2)] by (simp add: lm)
  ultimately show ?case by blast
qed simp

section \<open>Everything together\<close>

text \<open>
  \<open>ks\<close> tells which payment each instruction makes, \<open>ms\<close> which memo it is.
\<close>

lemma verify_instructions_complete:
  assumes pay: "finds cls ks (\<lambda>g. transfer (fst g) (snd g))" and memo: "finds id ms (memo_search memo_program tx)"
    and program: "pubkey_from_str X MEMO_PROGRAM = Ok memo_program"
    and splits: "list_all2 (\<lambda>s g. split_owner X s = Ok (fst g) \<and> parse_u64 (sp_amount s) = Some (snd g))
        splits gs"
    and payments: "mset (List.map_filter id ks) = mset (map cls ((recipient, amount) # gs))"
    and memos: "mset (List.map_filter id ms) =
        mset (map (\<lambda>lm. string_bytes (snd lm)) (expected_memos (cr_external_id request) splits))"
    and short: "list_all (\<lambda>lm. length (snd lm) \<le> 566) (expected_memos (cr_external_id request) splits)"
    and len: "length ms = length ks" and apart: "\<And>i. i < length ks \<Longrightarrow> ks ! i = None \<or> ms ! i = None"
    and allowed: "\<And>M. (\<And>i. i < length ks \<Longrightarrow> ks ! i \<noteq> None \<or> ms ! i \<noteq> None \<Longrightarrow> i \<in> M) \<Longrightarrow>
        validate_instruction_allowlist X tx M mint_opt (ap_allowed_owners policy) tp fee_payer
          (ap_required_owners policy) = Ok ()"
  shows "verify_instructions X transfer tx request splits recipient amount mint_opt tp fee_payer policy = Ok ()"
proof -
  let ?em = "expected_memos (cr_external_id request) splits"
  have start: "count (mset (cls (recipient, amount) # map cls gs)) h \<le> open_count ks {} h" for h
    using payments by (simp only: open_count_start list.map)
  obtain j where j: "j < length ks" "j \<notin> {}" "ks ! j = Some (cls (recipient, amount))"
    and first: "transfer recipient amount {} = Ok {j}"
    using finds_next [OF pay start] by auto
  obtain M2 where second: "verify_split_transfers X transfer splits {j} = Ok M2" and took2: "took ks (map cls gs) {j} M2"
    using splits_found [OF pay splits took_rest [OF start j]] by blast
  note took1 = took_Cons [OF j took2]
  have in_ks: "i < length ks \<and> ks ! i \<noteq> None" if "i \<in> M2" for i
    using took1 that unfolding took_def by blast
  have memo_start: "open_count ms M2 h = count (mset (map (\<lambda>lm. string_bytes (snd lm)) ?em)) h" for h
  proof -
    have "open_count ms M2 h = open_count ms {} h"
      by (rule open_count_other) (use in_ks apart in blast)
    then show ?thesis by (simp only: open_count_start memos)
  qed
  obtain M3 where third: "verify_memos memo_program tx ?em M2 = Ok M3"
    and took3: "took ms (map (\<lambda>lm. string_bytes (snd lm)) ?em) M2 M3"
    using memos_found [OF memo short, of M2] memo_start by auto
  have "open_count ks M2 h = 0" for h
  proof -
    have "open_count ks {} h = open_count ks M2 h + count (mset (cls (recipient, amount) # map cls gs)) h"
      using took1 unfolding took_def by blast
    then show ?thesis using payments by (simp only: open_count_start list.map)
  qed
  moreover have "open_count ms M3 h = 0" for h
    using took3 memo_start [of h] by (simp add: took_def)
  moreover have "M2 \<subseteq> M3" using took3 by (simp add: took_def)
  ultimately have "validate_instruction_allowlist X tx M3 mint_opt (ap_allowed_owners policy) tp fee_payer
      (ap_required_owners policy) = Ok ()"
    using open_count_zero [of ks M2] open_count_zero [of ms M3] len
    by (intro allowed) auto
  with first second third program show ?thesis
    by (simp add: verify_instructions_def verify_memo_instructions_def expect_pubkey_def)
qed

end
