(* ===== verification/Charge_Compiled.thy ===== *)
theory Charge_Compiled
  imports Charge_Completeness
begin

text \<open>
  How the server reads the instructions a client built: compiled instructions refer to the keys of the
  message by index, and each search sees in them what the client put there.
\<close>

section \<open>Compilation\<close>

text \<open>The documented behaviour of message compilation, for one transaction.\<close>

definition compiled_as :: "pubkey list \<Rightarrow> instruction \<Rightarrow> compiled_instruction \<Rightarrow> bool" where
  "compiled_as keys ix c \<longleftrightarrow>
     unat (ci_program_id_index c) < length keys \<and> keys ! unat (ci_program_id_index c) = ix_program_id ix \<and>
     ci_data c = ix_data ix \<and>
     list_all2 (\<lambda>m a. unat a < length keys \<and> keys ! unat a = am_pubkey m) (ix_accounts ix) (ci_accounts c)"

definition faithful :: "versioned_transaction \<Rightarrow> instruction list \<Rightarrow> pubkey \<Rightarrow> bool" where
  "faithful tx ixs payer \<longleftrightarrow>
     tx_account_keys tx \<noteq> [] \<and> hd (tx_account_keys tx) = payer \<and> tx_address_table_lookups tx = None \<and>
     list_all2 (compiled_as (tx_account_keys tx)) ixs (tx_instructions tx)"

lemma faithful_length: "faithful tx ixs payer \<Longrightarrow> length (tx_instructions tx) = length ixs"
  by (auto simp: faithful_def dest: list_all2_lengthD)

lemma faithful_nth:
  "faithful tx ixs payer \<Longrightarrow> i < length ixs \<Longrightarrow>
     compiled_as (tx_account_keys tx) (ixs ! i) (tx_instructions tx ! i)"
  by (simp add: faithful_def list_all2_conv_all_nth)

lemma compiled_program:
  "compiled_as keys ix c \<Longrightarrow> key_at keys (ci_program_id_index c) msg = Ok (ix_program_id ix)"
  by (simp add: compiled_as_def key_at_def)

lemma compiled_account:
  assumes "compiled_as keys ix c" and "n < length (ix_accounts ix)"
  shows "key_at keys (ci_accounts c ! n) msg = Ok (am_pubkey (ix_accounts ix ! n))"
  using assms by (auto simp: compiled_as_def key_at_def list_all2_conv_all_nth)

lemma compiled_accounts_length: "compiled_as keys ix c \<Longrightarrow> length (ci_accounts c) = length (ix_accounts ix)"
  by (auto simp: compiled_as_def dest: list_all2_lengthD)

lemma compiled_data: "compiled_as keys ix c \<Longrightarrow> ci_data c = ix_data ix"
  by (simp add: compiled_as_def)

section \<open>Program ids\<close>

definition program_key :: "externs \<Rightarrow> string \<Rightarrow> pubkey" where
  "program_key X s = (case pubkey_from_str X s of Ok p \<Rightarrow> p | _ \<Rightarrow> Pubkey [])"

text \<open>The well-known programs parse to distinct keys, and a key prints as the text it came from.\<close>

definition programs_known :: "externs \<Rightarrow> bool" where
  "programs_known X \<longleftrightarrow>
     list_all (\<lambda>s. is_ok (pubkey_from_str X s)) PROGRAM_IDS \<and> programs_distinct X \<and>
     (\<forall>s p. pubkey_from_str X s = Ok p \<longrightarrow> pubkey_string X p = s)"

lemma program_key_parses:
  assumes "programs_known X"
  shows "pubkey_from_str X COMPUTE_BUDGET_PROGRAM = Ok (program_key X COMPUTE_BUDGET_PROGRAM)"
    and "pubkey_from_str X MEMO_PROGRAM = Ok (program_key X MEMO_PROGRAM)"
    and "pubkey_from_str X SYSTEM_PROGRAM = Ok (program_key X SYSTEM_PROGRAM)"
    and "pubkey_from_str X TOKEN_PROGRAM = Ok (program_key X TOKEN_PROGRAM)"
    and "pubkey_from_str X TOKEN_2022_PROGRAM = Ok (program_key X TOKEN_2022_PROGRAM)"
    and "pubkey_from_str X ASSOCIATED_TOKEN_PROGRAM = Ok (program_key X ASSOCIATED_TOKEN_PROGRAM)"
  using assms by (auto simp: programs_known_def PROGRAM_IDS_def program_key_def is_ok_iff)

lemma program_key_eq:
  assumes "programs_known X" and "s \<in> set PROGRAM_IDS" and "t \<in> set PROGRAM_IDS"
  shows "program_key X s = program_key X t \<longleftrightarrow> s = t"
proof
  assume eq: "program_key X s = program_key X t"
  have "pubkey_from_str X s = Ok (program_key X s)" "pubkey_from_str X t = Ok (program_key X t)"
    using assms by (auto simp: programs_known_def program_key_def is_ok_iff list_all_iff)
  with eq have "pubkey_from_str X s = pubkey_from_str X t" by simp
  with assms show "s = t" by (auto simp: programs_known_def programs_distinct_def distinct_map dest: inj_onD)
qed simp

lemma program_key_neq:
  assumes "programs_known X"
  shows "program_key X COMPUTE_BUDGET_PROGRAM \<noteq> program_key X MEMO_PROGRAM"
    and "program_key X COMPUTE_BUDGET_PROGRAM \<noteq> program_key X SYSTEM_PROGRAM"
    and "program_key X COMPUTE_BUDGET_PROGRAM \<noteq> program_key X TOKEN_PROGRAM"
    and "program_key X COMPUTE_BUDGET_PROGRAM \<noteq> program_key X TOKEN_2022_PROGRAM"
    and "program_key X COMPUTE_BUDGET_PROGRAM \<noteq> program_key X ASSOCIATED_TOKEN_PROGRAM"
    and "program_key X MEMO_PROGRAM \<noteq> program_key X SYSTEM_PROGRAM"
    and "program_key X MEMO_PROGRAM \<noteq> program_key X TOKEN_PROGRAM"
    and "program_key X MEMO_PROGRAM \<noteq> program_key X TOKEN_2022_PROGRAM"
    and "program_key X MEMO_PROGRAM \<noteq> program_key X ASSOCIATED_TOKEN_PROGRAM"
    and "program_key X SYSTEM_PROGRAM \<noteq> program_key X TOKEN_PROGRAM"
    and "program_key X SYSTEM_PROGRAM \<noteq> program_key X TOKEN_2022_PROGRAM"
    and "program_key X SYSTEM_PROGRAM \<noteq> program_key X ASSOCIATED_TOKEN_PROGRAM"
    and "program_key X TOKEN_PROGRAM \<noteq> program_key X ASSOCIATED_TOKEN_PROGRAM"
    and "program_key X TOKEN_2022_PROGRAM \<noteq> program_key X ASSOCIATED_TOKEN_PROGRAM"
  by (simp_all add: program_key_eq [OF assms] PROGRAM_IDS_def)

lemmas program_key_neqs = program_key_neq program_key_neq [symmetric]

lemma expect_program:
  assumes "pubkey_from_str X s = Ok p"
  shows "expect_pubkey X s = Ok p"
  using assms by (simp add: expect_pubkey_def)

section \<open>What the searches see\<close>

definition memo_key :: "externs \<Rightarrow> instruction \<Rightarrow> byte list option" where
  "memo_key X ix = (if ix_program_id ix = program_key X MEMO_PROGRAM then Some (ix_data ix) else None)"

lemma finds_by_test:
  assumes "\<And>g M i. i < length ks \<Longrightarrow>
      test g M i (xs ! i) = Ok (i \<notin> M \<and> ks ! i = Some (cls g))"
    and "length xs = length ks"
    and "\<And>g M j. scan_from (test g M) 0 xs = Ok (Some j) \<Longrightarrow> search g M = Ok (insert j M)"
  shows "finds cls ks search"
  unfolding finds_def
proof (intro allI impI)
  fix g M
  assume "0 < open_count ks M (cls g)"
  then have "{i. i < length ks \<and> i \<notin> M \<and> ks ! i = Some (cls g)} \<noteq> {}"
    unfolding open_count_def by (metis card.empty less_irrefl)
  then obtain i where i: "i < length xs" "i \<notin> M \<and> ks ! i = Some (cls g)"
    using assms(2) by auto
  have "\<exists>j. scan_from (test g M) 0 xs = Ok (Some j) \<and> (j \<notin> M \<and> ks ! j = Some (cls g)) \<and> 0 \<le> j \<and>
      j < 0 + length xs"
    by (rule scan_finds [of xs "test g M" 0 "\<lambda>i. i \<notin> M \<and> ks ! i = Some (cls g)" i])
      (use assms(1,2) i in simp_all)
  with assms(2,3) show "\<exists>j < length ks. j \<notin> M \<and> ks ! j = Some (cls g) \<and> search g M = Ok (insert j M)"
    by auto
qed

lemma memo_finds:
  assumes "faithful tx ixs payer"
  shows "finds id (map (memo_key X) ixs) (memo_search (program_key X MEMO_PROGRAM) tx)"
proof (rule finds_by_test [where xs = "tx_instructions tx"])
  fix g M i
  assume "i < length (map (memo_key X) ixs)"
  then have i: "i < length ixs" by simp
  note c = faithful_nth [OF assms i]
  show "memo_test (program_key X MEMO_PROGRAM) (tx_account_keys tx) g M i (tx_instructions tx ! i) =
      Ok (i \<notin> M \<and> map (memo_key X) ixs ! i = Some (id g))"
    using i by (auto simp: memo_test_def compiled_program [OF c] compiled_data [OF c] memo_key_def)
qed (use faithful_length [OF assms] in \<open>simp_all add: memo_search_def\<close>)

subsection \<open>SOL\<close>

text \<open>The layout of the System Program's transfer.\<close>

definition transfer_layout :: "externs \<Rightarrow> pubkey \<Rightarrow> pubkey \<Rightarrow> u64 \<Rightarrow> instruction" where
  "transfer_layout X source dest lamports =
     \<lparr>ix_program_id = program_key X SYSTEM_PROGRAM,
      ix_accounts = [meta_new source True, meta_new dest False],
      ix_data = u32_le 2 @ u64_le lamports\<rparr>"

definition sol_key :: "externs \<Rightarrow> instruction \<Rightarrow> (pubkey \<times> u64) option" where
  "sol_key X ix =
     (if ix_program_id ix = program_key X SYSTEM_PROGRAM then
        Some (am_pubkey (ix_accounts ix ! 1), u64_from_le (take 8 (drop 4 (ix_data ix))))
      else None)"

lemma sol_key_transfer [simp]: "sol_key X (transfer_layout X source dest lamports) = Some (dest, lamports)"
  by (simp add: sol_key_def transfer_layout_def meta_new_def)

lemma sol_finds:
  assumes known: "programs_known X" and tx: "faithful tx ixs payer"
    and shape: "\<And>ix. ix \<in> set ixs \<Longrightarrow> ix_program_id ix = program_key X SYSTEM_PROGRAM \<Longrightarrow>
        \<exists>source dest lamports. ix = transfer_layout X source dest lamports \<and> fee_payer \<noteq> Some source"
  shows "finds id (map (sol_key X) ixs)
    (\<lambda>g. verify_sol_transfer_instructions X tx fee_payer (fst g) (snd g))"
proof (rule finds_by_test [where xs = "tx_instructions tx"])
  fix g M i
  assume "i < length (map (sol_key X) ixs)"
  then have i: "i < length ixs" by simp
  note c = faithful_nth [OF tx i]
  let ?test = "sol_transfer_test (program_key X SYSTEM_PROGRAM) (tx_account_keys tx) (fst g) (snd g) fee_payer M"
  show "?test i (tx_instructions tx ! i) = Ok (i \<notin> M \<and> map (sol_key X) ixs ! i = Some (id g))"
  proof (cases "ix_program_id (ixs ! i) = program_key X SYSTEM_PROGRAM")
    case False
    with i show ?thesis by (simp add: sol_transfer_test_def compiled_program [OF c] sol_key_def)
  next
    case True
    from shape [OF nth_mem [OF i] True] obtain source dest lamports where
      ix: "ixs ! i = transfer_layout X source dest lamports" and "fee_payer \<noteq> Some source" by blast
    moreover have "key_at (tx_account_keys tx) (ci_accounts (tx_instructions tx ! i) ! 0) msg = Ok source"
      "key_at (tx_account_keys tx) (ci_accounts (tx_instructions tx ! i) ! 1) msg = Ok dest" for msg
      using compiled_account [OF c, of 0] compiled_account [OF c, of 1]
      by (simp_all add: ix transfer_layout_def meta_new_def)
    moreover have "length (ci_accounts (tx_instructions tx ! i)) = 2"
      using compiled_accounts_length [OF c] by (simp add: ix transfer_layout_def)
    ultimately show ?thesis
      using i True
      by (auto simp: sol_transfer_test_def compiled_program [OF c] compiled_data [OF c] ix prod_eq_iff)
        (auto simp: transfer_layout_def)
  qed
next
  fix g M j
  assume "scan_from (sol_transfer_test (program_key X SYSTEM_PROGRAM) (tx_account_keys tx) (fst g) (snd g)
      fee_payer M) 0 (tx_instructions tx) = Ok (Some j)"
  then show "verify_sol_transfer_instructions X tx fee_payer (fst g) (snd g) M = Ok (insert j M)"
    by (simp add: verify_sol_transfer_instructions_def expect_program [OF program_key_parses(3) [OF known]])
qed (use faithful_length [OF tx] in simp)

subsection \<open>Tokens\<close>

definition ata_address :: "externs \<Rightarrow> pubkey \<Rightarrow> pubkey \<Rightarrow> pubkey \<Rightarrow> pubkey" where
  "ata_address X owner mint token_program =
     fst (find_program_address X [pubkey_bytes owner, pubkey_bytes token_program, pubkey_bytes mint]
            (program_key X ASSOCIATED_TOKEN_PROGRAM))"

lemma get_associated_token_address_known:
  "programs_known X \<Longrightarrow> get_associated_token_address X owner mint token_program =
     Ok (ata_address X owner mint token_program)"
  by (simp add: get_associated_token_address_def ata_address_def
      expect_program [OF program_key_parses(6)])

text \<open>A transfer to a recipient's token account, as the client builds it.\<close>

definition token_layout ::
  "externs \<Rightarrow> pubkey \<Rightarrow> pubkey \<Rightarrow> byte \<Rightarrow> pubkey \<Rightarrow> pubkey \<Rightarrow> u64 \<Rightarrow> instruction" where
  "token_layout X mint token_program decimals authority recipient amount =
     transfer_checked_ix token_program (ata_address X authority mint token_program) mint
       (ata_address X recipient mint token_program) authority amount decimals"

definition token_key :: "pubkey \<Rightarrow> instruction \<Rightarrow> (pubkey \<times> u64) option" where
  "token_key token_program ix =
     (if ix_program_id ix = token_program then
        Some (am_pubkey (ix_accounts ix ! 2), u64_from_le (take 8 (drop 1 (ix_data ix))))
      else None)"

definition token_class :: "externs \<Rightarrow> pubkey \<Rightarrow> pubkey \<Rightarrow> pubkey \<times> u64 \<Rightarrow> pubkey \<times> u64" where
  "token_class X mint token_program g = (ata_address X (fst g) mint token_program, snd g)"

lemma token_key_transfer [simp]:
  "token_key token_program (token_layout X mint token_program decimals authority recipient amount) =
     Some (token_class X mint token_program (recipient, amount))"
  by (simp add: token_key_def token_layout_def transfer_checked_ix_def meta_new_def token_class_def)

lemma token_finds:
  assumes known: "programs_known X" and tx: "faithful tx ixs payer"
    and program: "token_program = program_key X TOKEN_PROGRAM \<or> token_program = program_key X TOKEN_2022_PROGRAM"
    and only: "\<And>ix. ix \<in> set ixs \<Longrightarrow>
        ix_program_id ix \<noteq> program_key X TOKEN_PROGRAM \<and> ix_program_id ix \<noteq> program_key X TOKEN_2022_PROGRAM \<or>
        (\<exists>recipient amount. ix = token_layout X mint token_program decimals authority recipient amount)"
    and decimals: "\<And>d. decimals_opt = Some d \<Longrightarrow> d = decimals"
    and other: "\<And>p. fee_payer = Some p \<Longrightarrow> authority \<noteq> p \<and>
        ata_address X authority mint token_program \<noteq> ata_address X p mint token_program"
  shows "finds (token_class X mint token_program) (map (token_key token_program) ixs)
    (\<lambda>g. verify_spl_transfer_instructions X tx mint (Some token_program) decimals_opt fee_payer (fst g) (snd g))"
proof (rule finds_by_test [where xs = "tx_instructions tx"])
  fix g M i
  assume "i < length (map (token_key token_program) ixs)"
  then have i: "i < length ixs" by simp
  let ?keys = "tx_account_keys tx" and ?c = "tx_instructions tx ! i"
  note c = faithful_nth [OF tx i]
  let ?test = "spl_transfer_test X (program_key X TOKEN_PROGRAM) (program_key X TOKEN_2022_PROGRAM)
      (program_key X ASSOCIATED_TOKEN_PROGRAM) ?keys mint (Some token_program) decimals_opt fee_payer
      (fst g) (snd g) M"
  show "?test i ?c = Ok (i \<notin> M \<and> map (token_key token_program) ixs ! i = Some (token_class X mint token_program g))"
  proof (cases "\<exists>recipient amount. ixs ! i = token_layout X mint token_program decimals authority recipient amount")
    case False
    with only [OF nth_mem [OF i]] have "ix_program_id (ixs ! i) \<noteq> program_key X TOKEN_PROGRAM"
      "ix_program_id (ixs ! i) \<noteq> program_key X TOKEN_2022_PROGRAM" by auto
    with i program show ?thesis
      by (auto simp: spl_transfer_test_def compiled_program [OF c] token_key_def)
  next
    case True
    then obtain recipient amount where
      ix: "ixs ! i = token_layout X mint token_program decimals authority recipient amount" by blast
    have keys: "key_at ?keys (ci_accounts ?c ! 0) msg = Ok (ata_address X authority mint token_program)"
      "key_at ?keys (ci_accounts ?c ! 1) msg = Ok mint"
      "key_at ?keys (ci_accounts ?c ! 2) msg = Ok (ata_address X recipient mint token_program)"
      "key_at ?keys (ci_accounts ?c ! 3) msg = Ok authority" for msg
      using compiled_account [OF c, of 0] compiled_account [OF c, of 1] compiled_account [OF c, of 2]
        compiled_account [OF c, of 3]
      by (simp_all add: ix token_layout_def transfer_checked_ix_def meta_new_def meta_readonly_def)
    have len: "length (ci_accounts ?c) = 4"
      using compiled_accounts_length [OF c] by (simp add: ix token_layout_def transfer_checked_ix_def)
    have data: "ci_data ?c = 12 # u64_le amount @ [decimals]"
      using compiled_data [OF c] by (simp add: ix token_layout_def transfer_checked_ix_def)
    have prog: "key_at ?keys (ci_program_id_index ?c) msg = Ok token_program" for msg
      using compiled_program [OF c] by (simp add: ix token_layout_def transfer_checked_ix_def)
    have dec: "(12 # u64_le amount @ [decimals]) ! 9 = decimals" by (simp add: nth_append)
    have goal: "map (token_key token_program) ixs ! i = Some (token_class X mint token_program (recipient, amount))"
      using i by (simp add: ix)
    have payer: "(case fee_payer of None \<Rightarrow> Ok ()
        | Some p \<Rightarrow> if authority = p then Err e1
            else if ata_address X authority mint token_program =
                fst (find_program_address X [pubkey_bytes p, pubkey_bytes token_program, pubkey_bytes mint]
                  (program_key X ASSOCIATED_TOKEN_PROGRAM)) then Err e2 else Ok ()) = Ok ()" for e1 e2 :: verification_error
      using other by (cases fee_payer) (auto simp: ata_address_def)
    have dec_ok: "(case decimals_opt of Some d \<Rightarrow> (12 # u64_le amount @ [decimals]) ! 9 \<noteq> d | None \<Rightarrow> False) = False"
      using decimals dec by (auto split: option.splits)
    have program': "\<not> (token_program \<noteq> program_key X TOKEN_PROGRAM \<and> token_program \<noteq> program_key X TOKEN_2022_PROGRAM)"
      using program by blast
    show ?thesis
      unfolding spl_transfer_test_def prog rbind.simps data option.case keys len goal dec_ok payer
        token_class_def fst_conv snd_conv
      using program' by (auto simp: ata_address_def)
  qed
next
  fix g M j
  assume "scan_from (spl_transfer_test X (program_key X TOKEN_PROGRAM) (program_key X TOKEN_2022_PROGRAM)
      (program_key X ASSOCIATED_TOKEN_PROGRAM) (tx_account_keys tx) mint (Some token_program) decimals_opt
      fee_payer (fst g) (snd g) M) 0 (tx_instructions tx) = Ok (Some j)"
  then show "verify_spl_transfer_instructions X tx mint (Some token_program) decimals_opt fee_payer (fst g) (snd g) M =
      Ok (insert j M)"
    by (simp add: verify_spl_transfer_instructions_def expect_program [OF program_key_parses(4) [OF known]]
        expect_program [OF program_key_parses(5) [OF known]] expect_program [OF program_key_parses(6) [OF known]])
qed (use faithful_length [OF tx] in simp)

section \<open>The allowlist\<close>

lemma collect_results_all:
  "\<forall>x \<in> set xs. is_ok (f x) \<Longrightarrow> \<exists>ys. collect_results f xs = Ok ys"
  by (induction xs) (auto simp: is_ok_iff)

lemma allowlist_accepts:
  assumes known: "programs_known X" and keys: "tx_account_keys tx = k # ks"
    and each: "\<And>i. i < length (tx_instructions tx) \<Longrightarrow>
        is_ok (check_allowed X (k # ks) M mint allowed tp (case_option k id fee_payer) i (tx_instructions tx ! i))"
    and required: "\<And>owner. owner \<in> set owners \<Longrightarrow> \<exists>i < length (tx_instructions tx).
        check_allowed X (k # ks) M mint allowed tp (case_option k id fee_payer) i (tx_instructions tx ! i) = Ok (Some owner)"
  shows "validate_instruction_allowlist X tx M mint allowed tp fee_payer owners = Ok ()"
proof -
  let ?f = "\<lambda>(index, ix). check_allowed X (k # ks) M mint allowed tp (case_option k id fee_payer) index ix"
  have "\<forall>x \<in> set (enumerate 0 (tx_instructions tx)). is_ok (?f x)"
    using each by (auto simp: in_set_enumerate_eq)
  then obtain created where created: "collect_results ?f (enumerate 0 (tx_instructions tx)) = Ok created"
    using collect_results_all by blast
  then have at: "created ! i = c" if "i < length (tx_instructions tx)" "?f (i, tx_instructions tx ! i) = Ok c" for i c
    using that by (auto simp: collect_results_Ok list_all2_conv_all_nth nth_enumerate_eq)
  have len: "length created = length (tx_instructions tx)"
    using created by (auto simp: collect_results_Ok dest: list_all2_lengthD)
  have "Some owner \<in> set created" if owner: "owner \<in> set owners" for owner
  proof -
    from required [OF owner] obtain i where "i < length (tx_instructions tx)"
      "?f (i, tx_instructions tx ! i) = Ok (Some owner)" by auto
    with at [of i "Some owner"] len show ?thesis by (metis nth_mem)
  qed
  then have none: "find (\<lambda>owner. Some owner \<notin> set created) owners = None"
    by (auto simp: find_None_iff)
  have ids: "collect_results (expect_pubkey X)
      [COMPUTE_BUDGET_PROGRAM, SYSTEM_PROGRAM, TOKEN_PROGRAM, TOKEN_2022_PROGRAM, ASSOCIATED_TOKEN_PROGRAM] =
      Ok (map (program_key X)
      [COMPUTE_BUDGET_PROGRAM, SYSTEM_PROGRAM, TOKEN_PROGRAM, TOKEN_2022_PROGRAM, ASSOCIATED_TOKEN_PROGRAM])"
    by (simp add: expect_program [OF program_key_parses(1) [OF known]] expect_program [OF program_key_parses(3) [OF known]]
        expect_program [OF program_key_parses(4) [OF known]] expect_program [OF program_key_parses(5) [OF known]]
        expect_program [OF program_key_parses(6) [OF known]])
  show ?thesis
    unfolding validate_instruction_allowlist_def ids keys rbind.simps list.case Let_def created
    by (simp add: none)
qed

text \<open>What the allowlist says of one compiled instruction, by the program it runs.\<close>

lemma check_allowed_program:
  assumes known: "programs_known X" and c: "compiled_as keys ix c"
  shows "check_allowed X keys M mint allowed tp payer i c =
    (if ix_program_id ix = program_key X COMPUTE_BUDGET_PROGRAM then
       rbind (validate_compute_budget_instruction c) (\<lambda>_. Ok None)
     else if ix_program_id ix = program_key X MEMO_PROGRAM then
       (if i \<in> M then Ok None
        else Err (invalid_payload ''Unexpected Memo Program instruction in payment transaction''))
     else if ix_program_id ix = program_key X SYSTEM_PROGRAM then
       (if i \<in> M then Ok None
        else Err (invalid_payload ''Unexpected System Program instruction in payment transaction''))
     else if ix_program_id ix = program_key X TOKEN_PROGRAM \<or> ix_program_id ix = program_key X TOKEN_2022_PROGRAM then
       (if i \<in> M then Ok None
        else Err (invalid_payload ''Unexpected Token Program instruction in payment transaction''))
     else if ix_program_id ix = program_key X ASSOCIATED_TOKEN_PROGRAM then
       rbind (validate_create_ata_idempotent_instruction X keys mint allowed tp payer c) (\<lambda>owner. Ok (Some owner))
     else Err (invalid_payload (''Unexpected program instruction in payment transaction: '' @
            pubkey_string X (ix_program_id ix))))"
  unfolding check_allowed_def expect_program [OF program_key_parses(1) [OF known]]
    expect_program [OF program_key_parses(2) [OF known]] expect_program [OF program_key_parses(3) [OF known]]
    expect_program [OF program_key_parses(4) [OF known]] expect_program [OF program_key_parses(5) [OF known]]
    expect_program [OF program_key_parses(6) [OF known]] rbind.simps compiled_program [OF c]
  by (rule refl)

definition budget_layout :: "externs \<Rightarrow> instruction \<Rightarrow> bool" where
  "budget_layout X ix \<longleftrightarrow>
     ix_program_id ix = program_key X COMPUTE_BUDGET_PROGRAM \<and> ix_accounts ix = [] \<and>
     (ix_data ix = 2 # u32_le 200000 \<or> ix_data ix = 3 # u64_le 1)"

lemma budget_allowed:
  assumes "programs_known X" and "compiled_as keys ix c" and "budget_layout X ix"
  shows "check_allowed X keys M mint allowed tp payer i c = Ok None"
proof -
  have "ci_accounts c = []" "ci_data c = ix_data ix"
    using assms(2,3) by (auto simp: compiled_as_def budget_layout_def)
  then have "validate_compute_budget_instruction c = Ok ()"
    using assms(3)
    by (auto simp: validate_compute_budget_iff budget_instruction_def budget_layout_def
        MAX_COMPUTE_UNIT_LIMIT_def MAX_COMPUTE_UNIT_PRICE_MICROLAMPORTS_def)
  with assms(3) show ?thesis
    by (simp add: check_allowed_program [OF assms(1,2)] budget_layout_def)
qed

definition creation_layout :: "externs \<Rightarrow> pubkey \<Rightarrow> pubkey \<Rightarrow> pubkey \<Rightarrow> pubkey \<Rightarrow> instruction" where
  "creation_layout X payer owner mint token_program =
     \<lparr>ix_program_id = program_key X ASSOCIATED_TOKEN_PROGRAM,
      ix_accounts =
        [meta_new payer True, meta_new (ata_address X owner mint token_program) False,
         meta_readonly owner False, meta_readonly mint False,
         meta_readonly (program_key X SYSTEM_PROGRAM) False, meta_readonly token_program False],
      ix_data = [1]\<rparr>"

lemma create_ata_known:
  "programs_known X \<Longrightarrow> create_associated_token_account_idempotent X payer owner mint token_program =
     Ok (creation_layout X payer owner mint token_program)"
  by (simp add: create_associated_token_account_idempotent_def get_associated_token_address_known
      expect_program [OF program_key_parses(6)] expect_program [OF program_key_parses(3)] creation_layout_def)

lemma creation_allowed:
  assumes known: "programs_known X" and c: "compiled_as keys (creation_layout X payer owner mint token_program) c"
    and owner: "owner \<in> set allowed"
    and program: "token_program = program_key X TOKEN_PROGRAM \<or> token_program = program_key X TOKEN_2022_PROGRAM"
  shows "check_allowed X keys M (Some mint) allowed (Some token_program) payer i c = Ok (Some owner)"
proof -
  let ?ix = "creation_layout X payer owner mint token_program"
  have keys: "account_key keys (ci_accounts c ! 0) l = Ok payer"
    "account_key keys (ci_accounts c ! 1) l = Ok (ata_address X owner mint token_program)"
    "account_key keys (ci_accounts c ! 2) l = Ok owner" "account_key keys (ci_accounts c ! 3) l = Ok mint"
    "account_key keys (ci_accounts c ! 4) l = Ok (program_key X SYSTEM_PROGRAM)"
    "account_key keys (ci_accounts c ! 5) l = Ok token_program" for l
    using compiled_account [OF c, of 0] compiled_account [OF c, of 1] compiled_account [OF c, of 2]
      compiled_account [OF c, of 3] compiled_account [OF c, of 4] compiled_account [OF c, of 5]
    by (simp_all add: account_key_def creation_layout_def meta_new_def meta_readonly_def)
  have data: "ci_data c = [1]" "length (ci_accounts c) = 6"
    using compiled_data [OF c] compiled_accounts_length [OF c] by (simp_all add: creation_layout_def)
  have prints: "pubkey_string X (program_key X s) = s" if "pubkey_from_str X s = Ok (program_key X s)" for s
    using known that by (auto simp: programs_known_def)
  have printed: "pubkey_string X (program_key X SYSTEM_PROGRAM) = SYSTEM_PROGRAM"
    "\<not> (pubkey_string X token_program \<noteq> TOKEN_PROGRAM \<and> pubkey_string X token_program \<noteq> TOKEN_2022_PROGRAM)"
    using program prints program_key_parses [OF known] by auto
  have "validate_create_ata_idempotent_instruction X keys (Some mint) allowed (Some token_program) payer c = Ok owner"
    unfolding validate_create_ata_idempotent_instruction_def ok_or_simps rbind.simps keys data
    using owner printed by (simp add: expect_program [OF program_key_parses(6) [OF known]] ata_address_def)
  then show ?thesis
    using program_key_neqs [OF known]
    by (simp add: check_allowed_program [OF known c] creation_layout_def)
qed

end
