(* ===== verification/Charge_Agreement.thy ===== *)
theory Charge_Agreement
  imports Charge_Compiled Charge_Examples
begin

text \<open>
  The client and the server agree on charges: the instructions that the client builds for a challenge
  are, however the transaction orders its keys, accepted by the verification of the server that
  issued it.  Both sides read the same payments, memos and token accounts out of the request.
\<close>

section \<open>What the client builds\<close>

text \<open>
  After two compute-budget instructions come blocks, one for the recipient and one for every split: the
  token accounts to create, the payment, and the memo if there is one.
\<close>

definition memo_layout :: "externs \<Rightarrow> string \<Rightarrow> instruction" where
  "memo_layout X m = \<lparr>ix_program_id = program_key X MEMO_PROGRAM, ix_accounts = [], ix_data = string_bytes m\<rparr>"

definition memo_layouts :: "externs \<Rightarrow> string option \<Rightarrow> instruction list" where
  "memo_layouts X memo = (case memo of None \<Rightarrow> [] | Some m \<Rightarrow> [memo_layout X m])"

type_synonym block = "pubkey list \<times> (pubkey \<times> u64) \<times> string option"

definition block_layout ::
  "externs \<Rightarrow> (pubkey \<Rightarrow> instruction) \<Rightarrow> (pubkey \<times> u64 \<Rightarrow> instruction) \<Rightarrow> block \<Rightarrow> instruction list" where
  "block_layout X creation transfer bl =
     (case bl of (owners, g, memo) \<Rightarrow> map creation owners @ transfer g # memo_layouts X memo)"

definition budget_layouts :: "externs \<Rightarrow> instruction list" where
  "budget_layouts X =
     [\<lparr>ix_program_id = program_key X COMPUTE_BUDGET_PROGRAM, ix_accounts = [], ix_data = 3 # u64_le 1\<rparr>,
      \<lparr>ix_program_id = program_key X COMPUTE_BUDGET_PROGRAM, ix_accounts = [], ix_data = 2 # u32_le 200000\<rparr>]"

definition charge_layout ::
  "externs \<Rightarrow> (pubkey \<Rightarrow> instruction) \<Rightarrow> (pubkey \<times> u64 \<Rightarrow> instruction) \<Rightarrow> block list \<Rightarrow> instruction list" where
  "charge_layout X creation transfer blocks =
     budget_layouts X @ concat (map (block_layout X creation transfer) blocks)"

definition memo_fits :: "string option \<Rightarrow> bool" where
  "memo_fits memo = (case memo of None \<Rightarrow> True | Some m \<Rightarrow> length m \<le> 566)"

lemma length_string_bytes [simp]: "length (string_bytes s) = length s"
  by (simp add: string_bytes_def)

lemma push_memo_layout:
  assumes "programs_known X" and "push_memo_instruction X memo = Ok ixs"
  shows "ixs = memo_layouts X memo" and "memo_fits memo"
  using assms program_key_parses(2) [OF assms(1)]
  by (auto simp: push_memo_instruction_def memo_layouts_def memo_layout_def memo_fits_def not_less
      split: option.splits if_splits)

text \<open>The blocks of the splits, given which token accounts a split creates.\<close>

definition split_block :: "(split \<Rightarrow> bool) \<Rightarrow> split \<Rightarrow> pubkey \<times> u64 \<Rightarrow> block" where
  "split_block creates s g = (if creates s then [fst g] else [], g, sp_memo s)"

definition split_reads :: "externs \<Rightarrow> split \<Rightarrow> pubkey \<times> u64 \<Rightarrow> bool" where
  "split_reads X s g \<longleftrightarrow> pubkey_from_str X (sp_recipient s) = Ok (fst g) \<and> parse_u64 (sp_amount s) = Some (snd g)"

lemma split_instructions_layout:
  assumes known: "programs_known X" and "split_instructions X pay ss = Ok ixs"
    and pay: "\<And>s r a t. s \<in> set ss \<Longrightarrow> pay s r a = Ok t \<Longrightarrow>
        t = (if creates s then [creation r] else []) @ [transfer (r, a)]"
  shows "\<exists>gs. list_all2 (split_reads X) ss gs \<and>
    ixs = concat (map (block_layout X creation transfer) (map2 (split_block creates) ss gs)) \<and>
    list_all (\<lambda>s. memo_fits (sp_memo s)) ss"
  using assms(2,3)
proof (induction ss arbitrary: ixs)
  case (Cons s ss)
  from Cons.prems(1) obtain r a t m rest where
    r: "pubkey_from_str X (sp_recipient s) = Ok r" and a: "parse_u64 (sp_amount s) = Some a"
    and t: "pay s r a = Ok t" and m: "push_memo_instruction X (sp_memo s) = Ok m"
    and rest: "split_instructions X pay ss = Ok rest" and ixs: "ixs = t @ m @ rest"
    by (auto simp: client_split_recipient_def client_split_amount_def)
  have "t = (if creates s then [creation r] else []) @ [transfer (r, a)]"
    using Cons.prems(2) t by simp
  moreover obtain gs where "list_all2 (split_reads X) ss gs"
    "rest = concat (map (block_layout X creation transfer) (map2 (split_block creates) ss gs))"
    "list_all (\<lambda>s. memo_fits (sp_memo s)) ss"
    using Cons.IH [OF rest] Cons.prems(2) by auto
  moreover have "split_reads X s (r, a)" using r a by (simp add: split_reads_def)
  moreover have "block_layout X creation transfer (split_block creates s (r, a)) =
      (if creates s then [creation r] else []) @ transfer (r, a) # memo_layouts X (sp_memo s)"
    by (simp add: block_layout_def split_block_def)
  ultimately show ?case
    using push_memo_layout [OF known m] ixs by (intro exI [of _ "(r, a) # gs"]) simp
qed simp

section \<open>What the server reads in it\<close>

lemma map_filter_append: "List.map_filter f (xs @ ys) = List.map_filter f xs @ List.map_filter f ys"
  by (simp add: List.map_filter_def)

lemma map_filter_none: "(\<And>x. x \<in> set xs \<Longrightarrow> f x = None) \<Longrightarrow> List.map_filter f xs = []"
  by (simp add: List.map_filter_def filter_False)

lemma map_filter_id_map: "List.map_filter id (map f xs) = List.map_filter f xs"
  by (simp add: List.map_filter_def filter_map o_def)

definition block_memo :: "block \<Rightarrow> byte list list" where
  "block_memo bl = (case snd (snd bl) of None \<Rightarrow> [] | Some m \<Rightarrow> [string_bytes m])"

text \<open>Which payment an instruction makes and which memo it is, over a layout.\<close>

definition reads_layout ::
  "externs \<Rightarrow> (instruction \<Rightarrow> 'c option) \<Rightarrow> (pubkey \<times> u64 \<Rightarrow> 'c) \<Rightarrow> (pubkey \<Rightarrow> instruction) \<Rightarrow>
   (pubkey \<times> u64 \<Rightarrow> instruction) \<Rightarrow> bool" where
  "reads_layout X pay_key cls creation transfer \<longleftrightarrow>
     (\<forall>ix. ix_program_id ix = program_key X COMPUTE_BUDGET_PROGRAM \<or>
           ix_program_id ix = program_key X MEMO_PROGRAM \<longrightarrow> pay_key ix = None) \<and>
     (\<forall>owner. pay_key (creation owner) = None \<and> memo_key X (creation owner) = None) \<and>
     (\<forall>g. pay_key (transfer g) = Some (cls g) \<and> memo_key X (transfer g) = None)"

lemma reads_layoutD:
  assumes "reads_layout X pay_key cls creation transfer"
  shows "pay_key (transfer g) = Some (cls g)" and "memo_key X (transfer g) = None"
    and "pay_key (creation owner) = None" and "memo_key X (creation owner) = None"
    and "ix_program_id ix = program_key X COMPUTE_BUDGET_PROGRAM \<Longrightarrow> pay_key ix = None"
    and "ix_program_id ix = program_key X MEMO_PROGRAM \<Longrightarrow> pay_key ix = None"
  using assms unfolding reads_layout_def by blast+

lemma block_payments:
  assumes "reads_layout X pay_key cls creation transfer"
  shows "List.map_filter pay_key (block_layout X creation transfer bl) = [cls (fst (snd bl))]"
proof -
  obtain owners g memo where bl: "bl = (owners, g, memo)" by (cases bl)
  have "List.map_filter pay_key (map creation owners) = []" "List.map_filter pay_key (memo_layouts X memo) = []"
    by (auto intro!: map_filter_none simp: reads_layoutD [OF assms] memo_layouts_def memo_layout_def
        split: option.splits)
  then show ?thesis
    by (simp add: bl block_layout_def map_filter_append map_filter_simps reads_layoutD [OF assms])
qed

lemma block_memos:
  assumes "reads_layout X pay_key cls creation transfer"
  shows "List.map_filter (memo_key X) (block_layout X creation transfer bl) = block_memo bl"
proof -
  obtain owners g memo where bl: "bl = (owners, g, memo)" by (cases bl)
  have "List.map_filter (memo_key X) (map creation owners) = []"
    by (auto intro!: map_filter_none simp: reads_layoutD [OF assms])
  moreover have "List.map_filter (memo_key X) (memo_layouts X memo) = block_memo bl"
    by (simp add: bl memo_layouts_def memo_layout_def memo_key_def block_memo_def map_filter_simps
        split: option.splits)
  ultimately show ?thesis
    by (simp add: bl block_layout_def map_filter_append map_filter_simps reads_layoutD [OF assms])
qed

lemma layout_payments:
  assumes "reads_layout X pay_key cls creation transfer"
  shows "List.map_filter pay_key (charge_layout X creation transfer blocks) = map (\<lambda>bl. cls (fst (snd bl))) blocks"
proof -
  have "List.map_filter pay_key (budget_layouts X) = []"
    by (auto intro!: map_filter_none simp: reads_layoutD [OF assms] budget_layouts_def)
  moreover have "List.map_filter pay_key (concat (map (block_layout X creation transfer) blocks)) =
      map (\<lambda>bl. cls (fst (snd bl))) blocks"
    by (induction blocks) (simp_all add: map_filter_append block_payments [OF assms] map_filter_simps)
  ultimately show ?thesis by (simp add: charge_layout_def map_filter_append)
qed

lemma layout_memos:
  assumes "programs_known X" and "reads_layout X pay_key cls creation transfer"
  shows "List.map_filter (memo_key X) (charge_layout X creation transfer blocks) = concat (map block_memo blocks)"
proof -
  have "List.map_filter (memo_key X) (budget_layouts X) = []"
    using program_key_neqs [OF assms(1)] by (auto intro!: map_filter_none simp: memo_key_def budget_layouts_def)
  moreover have "List.map_filter (memo_key X) (concat (map (block_layout X creation transfer) blocks)) =
      concat (map block_memo blocks)"
    by (induction blocks) (simp_all add: map_filter_append block_memos [OF assms(2)] map_filter_simps)
  ultimately show ?thesis by (simp add: charge_layout_def map_filter_append)
qed

section \<open>The server accepts it\<close>

lemma layout_cases:
  assumes "ix \<in> set (charge_layout X creation transfer blocks)"
  obtains (budget) "budget_layout X ix" | (memo) m where "ix = memo_layout X m"
    | (creation) bl owner where "bl \<in> set blocks" "owner \<in> set (fst bl)" "ix = creation owner"
    | (transfer) g where "ix = transfer g"
proof -
  from assms consider "ix \<in> set (budget_layouts X)"
    | bl where "bl \<in> set blocks" "ix \<in> set (block_layout X creation transfer bl)"
    by (auto simp: charge_layout_def)
  then show thesis
  proof cases
    case 1
    then show ?thesis by (intro budget) (auto simp: budget_layouts_def budget_layout_def)
  next
    case (2 bl)
    obtain owners g m where "bl = (owners, g, m)" by (cases bl)
    with 2(2) have "ix \<in> creation ` set (fst bl) \<or> ix = transfer g \<or> (\<exists>m. ix = memo_layout X m)"
      by (auto simp: block_layout_def memo_layouts_def split: option.splits)
    with 2(1) memo creation transfer show ?thesis by blast
  qed
qed

lemma block_creations:
  assumes "bl \<in> set blocks" and "owner \<in> set (fst bl)"
  shows "creation owner \<in> set (charge_layout X creation transfer blocks)"
proof -
  have "creation owner \<in> set (block_layout X creation transfer bl)"
    using assms(2) by (cases bl) (simp add: block_layout_def)
  with assms(1) show ?thesis by (auto simp: charge_layout_def)
qed

text \<open>A memo that the server does not skip is one the client writes.\<close>

definition memo_plain :: "string option \<Rightarrow> bool" where
  "memo_plain memo \<longleftrightarrow> memo_fits memo \<and> memo \<noteq> Some []"

lemma expected_memos_bytes:
  assumes "memo_plain external_id" and "list_all (\<lambda>s. memo_plain (sp_memo s)) splits"
    and "length gs = length splits"
  shows "map (\<lambda>lm. string_bytes (snd lm)) (expected_memos external_id splits) =
    concat (map block_memo (([], g, external_id) # map2 (split_block creates) splits gs))"
proof -
  have "map (\<lambda>lm. string_bytes (snd lm)) (concat (map (\<lambda>s. case sp_memo s of
          Some m \<Rightarrow> if m = [] then [] else [(''split'', m)] | None \<Rightarrow> []) splits)) =
      concat (map block_memo (map2 (split_block creates) splits gs))"
    using assms(3,2)
    by (induction gs splits rule: list_induct2)
      (auto simp: block_memo_def split_block_def memo_plain_def split: option.splits)
  then show ?thesis
    using assms(1)
    by (auto simp: expected_memos_def block_memo_def memo_plain_def split: option.splits)
qed

lemma expected_memos_short:
  assumes "memo_plain external_id" and "list_all (\<lambda>s. memo_plain (sp_memo s)) splits"
  shows "list_all (\<lambda>lm. length (snd lm) \<le> 566) (expected_memos external_id splits)"
  using assms
  by (auto simp: expected_memos_def memo_plain_def memo_fits_def list_all_iff split: option.splits)

definition payment_program :: "externs \<Rightarrow> pubkey \<Rightarrow> bool" where
  "payment_program X p \<longleftrightarrow>
     p = program_key X SYSTEM_PROGRAM \<or> p = program_key X TOKEN_PROGRAM \<or> p = program_key X TOKEN_2022_PROGRAM"

lemma taken_allowed:
  assumes known: "programs_known X" and c: "compiled_as keys ix c" and "i \<in> M"
    and "payment_program X (ix_program_id ix) \<or> ix_program_id ix = program_key X MEMO_PROGRAM"
  shows "check_allowed X keys M mint allowed tp payer i c = Ok None"
  using assms(3,4) program_key_neqs [OF known]
  by (auto simp: check_allowed_program [OF known c] payment_program_def)

lemma layout_accepted:
  fixes search :: "pubkey \<Rightarrow> u64 \<Rightarrow> nat set \<Rightarrow> (nat set, verification_error) result"
  defines "blocks creates splits gs g memo \<equiv> ([], g, memo) # map2 (split_block creates) splits gs"
  assumes known: "programs_known X"
    and tx: "faithful tx (charge_layout X creation transfer (blocks creates splits gs (recipient, amount)
              (cr_external_id request))) (case_option signer id fee_payer)"
    and reads: "reads_layout X pay_key cls creation transfer"
    and search: "finds cls (map pay_key (charge_layout X creation transfer (blocks creates splits gs
              (recipient, amount) (cr_external_id request)))) (\<lambda>g. search (fst g) (snd g))"
    and splits: "list_all2 (split_reads X) splits gs"
    and memos: "memo_plain (cr_external_id request)" "list_all (\<lambda>s. memo_plain (sp_memo s)) splits"
    and program: "\<And>g. payment_program X (ix_program_id (transfer g))"
    and creation: "\<And>keys M i c s g. (s, g) \<in> set (zip splits gs) \<Longrightarrow> creates s \<Longrightarrow> compiled_as keys (creation (fst g)) c \<Longrightarrow>
        check_allowed X keys M mint_opt (ap_allowed_owners policy) tp (case_option signer id fee_payer) i c =
          Ok (Some (fst g))"
    and required: "\<And>owner. owner \<in> set (ap_required_owners policy) \<Longrightarrow>
        \<exists>(s, g) \<in> set (zip splits gs). creates s \<and> owner = fst g"
  shows "verify_instructions X search tx request splits recipient amount mint_opt tp fee_payer policy = Ok ()"
proof -
  let ?blocks = "blocks creates splits gs (recipient, amount) (cr_external_id request)"
  let ?ixs = "charge_layout X creation transfer ?blocks"
  let ?em = "expected_memos (cr_external_id request) splits"
  obtain k ks where keys: "tx_account_keys tx = k # ks" and k: "k = case_option signer id fee_payer"
    using tx by (cases "tx_account_keys tx") (auto simp: faithful_def)
  have payer: "case_option k id fee_payer = case_option signer id fee_payer"
    by (simp add: k split: option.splits)
  note len = faithful_length [OF tx]
  have c: "compiled_as (k # ks) (?ixs ! i) (tx_instructions tx ! i)" if "i < length ?ixs" for i
    using faithful_nth [OF tx that] by (simp add: keys)
  have gs: "list_all2 (\<lambda>s g. split_owner X s = Ok (fst g) \<and> parse_u64 (sp_amount s) = Some (snd g)) splits gs"
    using splits by (rule list_all2_mono) (simp add: split_reads_def split_owner_def)
  have glen: "length gs = length splits" using splits by (simp add: list_all2_lengthD)
  have payments: "List.map_filter pay_key ?ixs = map cls ((recipient, amount) # gs)"
    using glen by (simp add: layout_payments [OF reads] blocks_def o_def split_block_def case_prod_unfold
        map_snd_zip flip: map_map [of cls snd, unfolded o_def])
  have memo_bytes: "List.map_filter (memo_key X) ?ixs = map (\<lambda>lm. string_bytes (snd lm)) ?em"
    unfolding layout_memos [OF known reads] blocks_def
    by (rule expected_memos_bytes [OF memos glen, symmetric])
  have created: "\<exists>s g. (s, g) \<in> set (zip splits gs) \<and> creates s \<and> owner = fst g"
    if "bl \<in> set ?blocks" "owner \<in> set (fst bl)" for bl owner
    using that by (fastforce simp: blocks_def split_block_def split: if_splits)
  show ?thesis
  proof (rule verify_instructions_complete [OF search memo_finds [OF tx] program_key_parses(2) [OF known] gs _ _
        expected_memos_short [OF memos]])
    fix M
    assume M: "\<And>i. i < length (map pay_key ?ixs) \<Longrightarrow>
        map pay_key ?ixs ! i \<noteq> None \<or> map (memo_key X) ?ixs ! i \<noteq> None \<Longrightarrow> i \<in> M"
    show "validate_instruction_allowlist X tx M mint_opt (ap_allowed_owners policy) tp fee_payer
        (ap_required_owners policy) = Ok ()"
    proof (rule allowlist_accepts [OF known keys], goal_cases)
      case (1 i)
      then have i: "i < length ?ixs" using len by simp
      show ?case
        using nth_mem [OF i]
      proof (cases rule: layout_cases)
        case budget
        then show ?thesis by (simp add: budget_allowed [OF known c [OF i]])
      next
        case (memo m)
        then have "i \<in> M" using M [of i] i by (simp add: memo_key_def memo_layout_def)
        then show ?thesis by (simp add: taken_allowed [OF known c [OF i]] memo memo_layout_def)
      next
        case (creation bl owner)
        with created [of bl owner] obtain s g where "(s, g) \<in> set (zip splits gs)" "creates s" "owner = fst g" by blast
        with assms(10) [of s g "k # ks" "tx_instructions tx ! i" M i] c [OF i] creation(3) show ?thesis
          by (simp add: payer)
      next
        case (transfer g)
        then have "i \<in> M" using M [of i] i by (simp add: reads_layoutD [OF reads])
        then show ?thesis using program by (simp add: taken_allowed [OF known c [OF i]] transfer)
      qed
    next
      case (2 owner)
      from required [OF 2] obtain s g where sg: "(s, g) \<in> set (zip splits gs)" "creates s" "owner = fst g" by auto
      then have "split_block creates s g \<in> set ?blocks" "owner \<in> set (fst (split_block creates s g))"
        by (force simp: blocks_def, simp add: split_block_def)
      then have "creation owner \<in> set ?ixs" by (rule block_creations)
      then obtain i where i: "i < length ?ixs" "?ixs ! i = creation owner" by (auto simp: in_set_conv_nth)
      with assms(10) [OF sg(1,2), of "k # ks" "tx_instructions tx ! i" M i] c [OF i(1)] len sg(3) show ?case
        by (intro exI [of _ i]) (simp add: payer)
    qed
  qed (auto simp: map_filter_id_map payments memo_bytes memo_key_def split: if_splits
      intro: reads_layoutD(6) [OF reads])
qed

section \<open>The two readings of a request\<close>

lemma sum_u64_Ok_any:
  assumes "sum_u64 b acc xs = (Ok s :: (u64, 'e) result)"
  shows "sum_u64 b acc xs = (Ok s :: (u64, 'f) result)"
  using assms
proof (induction xs arbitrary: acc)
  case (Cons x xs)
  then show ?case by (cases b) (auto simp: add_u64_def split: if_splits)
qed simp

lemma primary_agrees:
  assumes "client_primary_amount b (cr_amount request) splits = Ok amount"
  shows "length splits \<le> 8" and "primary_amount_of b request splits = Ok amount"
  using assms
  by (auto simp: client_primary_amount_def primary_amount_of_def not_less split: if_splits
      dest: sum_u64_Ok_any [where 'f = verification_error])

lemma fee_payer_agrees:
  assumes "client_fee_payer X md = Ok fee_payer"
    and "md_fee_payer md = Some True \<Longrightarrow> md_fee_payer_key md \<noteq> None"
    and "faithful tx ixs (case_option signer id fee_payer)"
  shows "expected_fee_payer X tx md = Ok fee_payer"
  using assms
  by (cases "tx_account_keys tx") (auto simp: client_fee_payer_def expected_fee_payer_def faithful_def
      split: if_splits option.splits)

definition required_owners :: "split list \<Rightarrow> (pubkey \<times> u64) list \<Rightarrow> pubkey list" where
  "required_owners splits gs =
     map (fst \<circ> snd) (filter (\<lambda>(s, g). sp_ata_creation_required s = Some True) (zip splits gs))"

lemma policy_agrees:
  assumes "list_all2 (split_reads X) splits gs"
  shows "expected_ata_creation_policy X splits fee_payer =
    Ok \<lparr>ap_allowed_owners = (if fee_payer \<noteq> None then required_owners splits gs else map fst gs),
        ap_required_owners = required_owners splits gs\<rparr>"
proof -
  have "collect_results (split_owner X) splits = Ok (map fst gs)"
    unfolding collect_results_Ok list_all2_map2
    using assms by (rule list_all2_mono) (simp add: split_reads_def split_owner_def)
  moreover have "map snd (filter (\<lambda>(s, owner). sp_ata_creation_required s = Some True) (zip splits (map fst gs))) =
      required_owners splits gs"
    by (simp add: required_owners_def zip_map2 filter_map o_def case_prod_unfold)
  ultimately show ?thesis by (simp add: expected_ata_creation_policy_def Let_def)
qed

lemma required_owners_iff:
  "owner \<in> set (required_owners splits gs) \<longleftrightarrow>
     (\<exists>(s, g) \<in> set (zip splits gs). sp_ata_creation_required s = Some True \<and> owner = fst g)"
  by (force simp: required_owners_def)

section \<open>What the client returned\<close>

lemma charge_instructions_Ok:
  assumes known: "programs_known X"
    and "charge_instructions b X C signer amount currency recipient md external_id = Ok (ixs, fee_payer)"
  obtains primary r payments where "client_primary_amount b amount (case_option [] id (md_splits md)) = Ok primary"
    and "pubkey_from_str X recipient = Ok r" and "client_fee_payer X md = Ok fee_payer"
    and "\<exists>s \<in> set (case_option [] id (md_splits md)). sp_ata_creation_required s = Some True \<Longrightarrow>
          resolve_stablecoin_mint currency (md_network md) = Some currency"
    and "(case resolve_stablecoin_mint currency (md_network md) of
            Some mint_str \<Rightarrow> build_spl_instructions X C signer r mint_str md primary external_id
              (case_option [] id (md_splits md)) fee_payer
          | None \<Rightarrow> build_sol_instructions X C signer r primary external_id (case_option [] id (md_splits md))) =
         Ok payments"
    and "ixs = budget_layouts X @ payments"
proof -
  have ids: "expect_pubkey X COMPUTE_BUDGET_PROGRAM = (Ok (program_key X COMPUTE_BUDGET_PROGRAM) :: (pubkey, error) result)"
    by (rule expect_program [OF program_key_parses(1) [OF known]])
  obtain primary r u payments where
    "client_primary_amount b amount (case_option [] id (md_splits md)) = Ok primary"
    "pubkey_from_str X recipient = Ok r" "client_fee_payer X md = Ok fee_payer"
    and guard: "(if \<exists>s \<in> set (case_option [] id (md_splits md)). sp_ata_creation_required s = Some True then
        (case resolve_stablecoin_mint currency (md_network md) of
           None \<Rightarrow> Err (Other ''ataCreationRequired requires an SPL token charge'')
         | Some mint_str \<Rightarrow>
             if mint_str \<noteq> currency then
               Err (Other ''ataCreationRequired requires currency to be an SPL token mint address'')
             else Ok ())
      else Ok ()) = Ok u"
    and "(case resolve_stablecoin_mint currency (md_network md) of
            Some mint_str \<Rightarrow> build_spl_instructions X C signer r mint_str md primary external_id
              (case_option [] id (md_splits md)) fee_payer
          | None \<Rightarrow> build_sol_instructions X C signer r primary external_id (case_option [] id (md_splits md))) =
         Ok payments"
    and "ixs = budget_layouts X @ payments"
    using assms(2)
    by (auto simp only: charge_instructions_def Let_def compute_unit_price_ix_def compute_unit_limit_ix_def ids
        budget_layouts_def rbind_eq_Ok map_err_eq_Ok append.simps prod.inject result.inject)
  moreover from guard have "resolve_stablecoin_mint currency (md_network md) = Some currency"
    if "\<exists>s \<in> set (case_option [] id (md_splits md)). sp_ata_creation_required s = Some True"
    using that by (simp split: option.splits if_splits)
  ultimately show thesis using that by blast
qed

section \<open>SOL\<close>

lemma sol_reads_layout:
  assumes "programs_known X"
  shows "reads_layout X (sol_key X) id (\<lambda>_. hd (budget_layouts X)) (\<lambda>g. transfer_layout X signer (fst g) (snd g))"
  using program_key_neqs [OF assms]
  by (auto simp: reads_layout_def sol_key_def memo_key_def budget_layouts_def transfer_layout_def meta_new_def)

lemma sol_instructions_layout:
  assumes known: "programs_known X" and "ck_transfer C = transfer_layout X"
    and "build_sol_instructions X C signer r primary external_id splits = Ok payments"
  obtains gs where "list_all2 (split_reads X) splits gs" and "memo_fits external_id"
    and "list_all (\<lambda>s. memo_fits (sp_memo s)) splits"
    and "budget_layouts X @ payments = charge_layout X (\<lambda>_. hd (budget_layouts X))
          (\<lambda>g. transfer_layout X signer (fst g) (snd g))
          (([], (r, primary), external_id) # map2 (split_block (\<lambda>_. False)) splits gs)"
proof -
  from assms(3) obtain memo rest where memo: "push_memo_instruction X external_id = Ok memo"
    and rest: "split_instructions X (\<lambda>s r amount. Ok [transfer_layout X signer r amount]) splits = Ok rest"
    and payments: "payments = transfer_layout X signer r primary # memo @ rest"
    by (auto simp: build_sol_instructions_def assms(2))
  obtain gs where "list_all2 (split_reads X) splits gs" "list_all (\<lambda>s. memo_fits (sp_memo s)) splits"
    "rest = concat (map (block_layout X (\<lambda>_. hd (budget_layouts X)) (\<lambda>g. transfer_layout X signer (fst g) (snd g)))
        (map2 (split_block (\<lambda>_. False)) splits gs))"
    using split_instructions_layout [OF known rest, where creates = "\<lambda>_. False"
        and transfer = "\<lambda>g. transfer_layout X signer (fst g) (snd g)"] by auto
  with push_memo_layout [OF known memo] that show thesis
    by (simp add: charge_layout_def block_layout_def payments)
qed

lemma layout_memos_plain:
  assumes "memo_fits external_id" and "external_id \<noteq> Some []"
    and "list_all (\<lambda>s. memo_fits (sp_memo s)) splits" and "list_all (\<lambda>s. sp_memo s \<noteq> Some []) splits"
  shows "memo_plain external_id" and "list_all (\<lambda>s. memo_plain (sp_memo s)) splits"
  using assms by (auto simp: memo_plain_def list_all_iff)

lemma sol_instructions_accepted:
  assumes known: "programs_known X" and law: "ck_transfer C = transfer_layout X"
    and built: "build_sol_instructions X C signer r primary (cr_external_id request) splits = Ok payments"
    and tx: "faithful tx (budget_layouts X @ payments) (case_option signer id fee_payer)"
    and memos: "cr_external_id request \<noteq> Some []" "list_all (\<lambda>s. sp_memo s \<noteq> Some []) splits"
    and payer: "fee_payer \<noteq> Some signer" and none: "list_all (\<lambda>s. sp_ata_creation_required s \<noteq> Some True) splits"
  shows "\<exists>policy. expected_ata_creation_policy X splits fee_payer = Ok policy \<and>
    verify_instructions X (verify_sol_transfer_instructions X tx fee_payer) tx request splits r primary
      None None fee_payer policy = Ok ()"
proof -
  obtain gs where gs: "list_all2 (split_reads X) splits gs"
    and fits: "memo_fits (cr_external_id request)" "list_all (\<lambda>s. memo_fits (sp_memo s)) splits"
    and ixs: "budget_layouts X @ payments = charge_layout X (\<lambda>_. hd (budget_layouts X))
          (\<lambda>g. transfer_layout X signer (fst g) (snd g))
          (([], (r, primary), cr_external_id request) # map2 (split_block (\<lambda>_. False)) splits gs)"
    by (rule sol_instructions_layout [OF known law built])
  have shape: "\<exists>source dest lamports. ix = transfer_layout X source dest lamports \<and> fee_payer \<noteq> Some source"
    if "ix \<in> set (budget_layouts X @ payments)" "ix_program_id ix = program_key X SYSTEM_PROGRAM" for ix
    using that(1) unfolding ixs
  proof (cases rule: layout_cases)
    case (creation bl owner)
    then show ?thesis using that(2) program_key_neqs [OF known] by (simp add: budget_layouts_def)
  qed (use that(2) program_key_neqs [OF known] payer in \<open>auto simp: budget_layout_def memo_layout_def\<close>)
  have req: "required_owners splits gs = []"
    using none by (auto simp: required_owners_def list_all_iff filter_empty_conv dest: set_zip_leftD)
  have "verify_instructions X (verify_sol_transfer_instructions X tx fee_payer) tx request splits r primary
      None None fee_payer p = Ok ()" if "ap_required_owners p = []" for p
    by (rule layout_accepted [OF known tx [unfolded ixs] sol_reads_layout [OF known]
          sol_finds [OF known tx, unfolded ixs, OF shape [unfolded ixs]] gs
          layout_memos_plain [OF fits(1) memos(1) fits(2) memos(2)]])
      (use that in \<open>simp_all add: payment_program_def transfer_layout_def\<close>)
  then show ?thesis by (simp add: policy_agrees [OF gs] req)
qed

section \<open>Tokens\<close>

definition token_program_key :: "externs \<Rightarrow> pubkey \<Rightarrow> bool" where
  "token_program_key X p \<longleftrightarrow> p = program_key X TOKEN_PROGRAM \<or> p = program_key X TOKEN_2022_PROGRAM"

lemma token_reads_layout:
  assumes "programs_known X" and "token_program_key X p"
  shows "reads_layout X (token_key p) (token_class X mint p) (\<lambda>owner. creation_layout X payer owner mint p)
    (\<lambda>g. token_layout X mint p decimals signer (fst g) (snd g))"
  using assms(2) program_key_neqs [OF assms(1)]
  by (auto simp: reads_layout_def token_program_key_def)
    (auto simp: token_key_def memo_key_def creation_layout_def token_layout_def transfer_checked_ix_def)

lemma add_spl_transfer_layout:
  assumes "programs_known X"
  shows "add_spl_transfer X mint p (ata_address X signer mint p) payer signer decimals owner amount create =
    Ok ((if create then [creation_layout X payer owner mint p] else []) @
        [token_layout X mint p decimals signer owner amount])"
  using assms
  by (simp add: add_spl_transfer_def get_associated_token_address_known create_ata_known token_layout_def)

text \<open>The splits whose token account the client creates.\<close>

definition client_creates :: "pubkey option \<Rightarrow> split \<Rightarrow> bool" where
  "client_creates fee_payer s \<longleftrightarrow> fee_payer = None \<or> sp_ata_creation_required s = Some True"

lemma spl_instructions_layout:
  assumes known: "programs_known X"
    and program: "resolve_token_program X C mint md = Ok p"
    and mint: "pubkey_from_str X spl = Ok mint"
    and built: "build_spl_instructions X C signer r spl md primary external_id splits fee_payer = Ok payments"
  obtains gs where "list_all2 (split_reads X) splits gs" and "memo_fits external_id"
    and "list_all (\<lambda>s. memo_fits (sp_memo s)) splits"
    and "budget_layouts X @ payments = charge_layout X
          (\<lambda>owner. creation_layout X (case_option signer id fee_payer) owner mint p)
          (\<lambda>g. token_layout X mint p (case_option 6 id (md_decimals md)) signer (fst g) (snd g))
          (([], (r, primary), external_id) # map2 (split_block (client_creates fee_payer)) splits gs)"
proof -
  let ?creation = "\<lambda>owner. creation_layout X (case_option signer id fee_payer) owner mint p"
  let ?transfer = "\<lambda>g. token_layout X mint p (case_option 6 id (md_decimals md)) signer (fst g) (snd g)"
  from built obtain memo rest where memo: "push_memo_instruction X external_id = Ok memo"
    and rest: "split_instructions X (\<lambda>s r amount. Ok ((if client_creates fee_payer s then [?creation r] else []) @
        [?transfer (r, amount)])) splits = Ok rest"
    and payments: "payments = ?transfer (r, primary) # memo @ rest"
    by (auto simp: build_spl_instructions_def mint program get_associated_token_address_known [OF known] Let_def
        add_spl_transfer_layout [OF known] client_creates_def)
  obtain gs where "list_all2 (split_reads X) splits gs" "list_all (\<lambda>s. memo_fits (sp_memo s)) splits"
    "rest = concat (map (block_layout X ?creation ?transfer) (map2 (split_block (client_creates fee_payer)) splits gs))"
    using split_instructions_layout [OF known rest, where creates = "client_creates fee_payer"
        and transfer = ?transfer and creation = ?creation] by auto
  with push_memo_layout [OF known memo] that show thesis
    by (simp add: charge_layout_def block_layout_def payments)
qed

lemma spl_instructions_accepted:
  assumes known: "programs_known X"
    and program: "resolve_token_program X C mint md = Ok p" "token_program_key X p"
    and mint: "pubkey_from_str X spl = Ok mint"
    and built: "build_spl_instructions X C signer r spl md primary (cr_external_id request) splits fee_payer = Ok payments"
    and tx: "faithful tx (budget_layouts X @ payments) (case_option signer id fee_payer)"
    and memos: "cr_external_id request \<noteq> Some []" "list_all (\<lambda>s. sp_memo s \<noteq> Some []) splits"
    and payer: "\<And>q. fee_payer = Some q \<Longrightarrow> signer \<noteq> q \<and> ata_address X signer mint p \<noteq> ata_address X q mint p"
  shows "\<exists>policy. expected_ata_creation_policy X splits fee_payer = Ok policy \<and>
    (ap_required_owners policy \<noteq> [] \<longrightarrow> (\<exists>s \<in> set splits. sp_ata_creation_required s = Some True)) \<and>
    verify_instructions X (verify_spl_transfer_instructions X tx mint (Some p) (md_decimals md) fee_payer) tx
      request splits r primary (Some mint) (Some p) fee_payer policy = Ok ()"
proof -
  let ?creation = "\<lambda>owner. creation_layout X (case_option signer id fee_payer) owner mint p"
  let ?decimals = "case_option 6 id (md_decimals md)"
  let ?transfer = "\<lambda>g. token_layout X mint p ?decimals signer (fst g) (snd g)"
  obtain gs where gs: "list_all2 (split_reads X) splits gs"
    and fits: "memo_fits (cr_external_id request)" "list_all (\<lambda>s. memo_fits (sp_memo s)) splits"
    and ixs: "budget_layouts X @ payments = charge_layout X ?creation ?transfer
          (([], (r, primary), cr_external_id request) # map2 (split_block (client_creates fee_payer)) splits gs)"
    by (rule spl_instructions_layout [OF known program(1) mint built])
  have only: "ix_program_id ix \<noteq> program_key X TOKEN_PROGRAM \<and> ix_program_id ix \<noteq> program_key X TOKEN_2022_PROGRAM \<or>
      (\<exists>recipient amount. ix = token_layout X mint p ?decimals signer recipient amount)"
    if "ix \<in> set (budget_layouts X @ payments)" for ix
    using that unfolding ixs
    by (cases rule: layout_cases)
      (use program_key_neqs [OF known] in \<open>auto simp: budget_layout_def memo_layout_def creation_layout_def\<close>)
  note tp = program(2) [unfolded token_program_key_def]
  have search: "finds (token_class X mint p) (map (token_key p) (budget_layouts X @ payments))
      (\<lambda>g. verify_spl_transfer_instructions X tx mint (Some p) (md_decimals md) fee_payer (fst g) (snd g))"
    by (rule token_finds [OF known tx tp only _ payer]) auto
  define policy where "policy = \<lparr>ap_allowed_owners =
      (if fee_payer \<noteq> None then required_owners splits gs else map fst gs),
      ap_required_owners = required_owners splits gs\<rparr>"
  have allowed: "fst g \<in> set (ap_allowed_owners policy)"
    if "(s, g) \<in> set (zip splits gs)" "client_creates fee_payer s" for s g
    using that set_zip_rightD [OF that(1)]
    by (cases fee_payer) (auto simp: policy_def client_creates_def required_owners_iff)
  have "verify_instructions X (verify_spl_transfer_instructions X tx mint (Some p) (md_decimals md) fee_payer) tx
      request splits r primary (Some mint) (Some p) fee_payer policy = Ok ()"
  proof (rule layout_accepted [OF known tx [unfolded ixs] token_reads_layout [OF known program(2)]
        search [unfolded ixs] gs layout_memos_plain [OF fits(1) memos(1) fits(2) memos(2)]])
    show "payment_program X (ix_program_id (?transfer g))" for g
      using tp by (auto simp: payment_program_def token_layout_def transfer_checked_ix_def)
    show "check_allowed X keys M (Some mint) (ap_allowed_owners policy) (Some p) (case_option signer id fee_payer) i c =
        Ok (Some (fst g))"
      if "(s, g) \<in> set (zip splits gs)" "client_creates fee_payer s" "compiled_as keys (?creation (fst g)) c"
      for keys M i c s g
      by (rule creation_allowed [OF known that(3) allowed [OF that(1,2)] tp])
    show "\<exists>(s, g) \<in> set (zip splits gs). client_creates fee_payer s \<and> owner = fst g"
      if "owner \<in> set (ap_required_owners policy)" for owner
      using that by (fastforce simp: policy_def required_owners_iff client_creates_def)
  qed
  moreover have "\<exists>s \<in> set splits. sp_ata_creation_required s = Some True" if "ap_required_owners policy \<noteq> []"
    using that by (force simp: policy_def required_owners_def filter_empty_conv dest: set_zip_leftD)
  ultimately show ?thesis by (simp add: policy_agrees [OF gs] policy_def)
qed

end
