(* ===== verification/Charge_End_To_End.thy ===== *)
theory Charge_End_To_End
  imports Charge_Agreement Charge_Issued
begin

text \<open>
  A charge from end to end: the transaction that the client builds and signs for a challenge passes the
  server's verification, and for a challenge that the server issued the client's header reaches the
  co-signature, the simulation and the broadcast.
\<close>

section \<open>The client's libraries\<close>

text \<open>
  The documented behaviour of the libraries the client calls: the System Program's transfer has its layout;
  a message of bounded size is compiled faithfully; and what \<^verbatim>\<open>bincode\<close> and \<^verbatim>\<open>base64\<close> write on one side
  they read on the other.
\<close>

definition small_message :: "instruction list \<Rightarrow> bool" where
  "small_message ixs \<longleftrightarrow> length ixs \<le> 29 \<and> list_all (\<lambda>ix. length (ix_accounts ix) \<le> 6) ixs"

definition client_crates_lawful :: "externs \<Rightarrow> client_crates \<Rightarrow> tx_codecs \<Rightarrow> bool" where
  "client_crates_lawful X C T \<longleftrightarrow>
     ck_transfer C = transfer_layout X \<and>
     (\<forall>ixs payer blockhash. small_message ixs \<longrightarrow> faithful (ck_compile C ixs payer blockhash) ixs payer) \<and>
     (\<forall>tx bytes. ck_bincode_serialize C tx = Ok bytes \<longrightarrow> bincode_legacy T bytes = Ok tx) \<and>
     (\<forall>bytes. base64_standard_decode T (ck_base64_encode C bytes) = Ok bytes)"

lemma faithful_signed [simp]: "faithful (tx\<lparr>tx_signatures := sigs\<rparr>) ixs payer = faithful tx ixs payer"
  by (simp add: faithful_def)

section \<open>The size of a charge\<close>

lemma charge_layout_length:
  assumes "list_all (\<lambda>bl. length (fst bl) \<le> 1) blocks"
  shows "length (charge_layout X creation transfer blocks) \<le> 2 + 3 * length blocks"
proof -
  have "length (concat (map (block_layout X creation transfer) blocks)) \<le> 3 * length blocks"
    using assms
    by (induction blocks) (auto simp: block_layout_def memo_layouts_def split: option.splits)
  then show ?thesis by (simp add: charge_layout_def budget_layouts_def)
qed

lemma charge_layout_small:
  assumes "length splits \<le> 8" and "\<And>owner. length (ix_accounts (creation owner)) \<le> 6"
    and "\<And>g. length (ix_accounts (transfer g)) \<le> 6"
  shows "small_message (charge_layout X creation transfer (([], g, memo) # map2 (split_block creates) splits gs))"
proof -
  let ?blocks = "([], g, memo) # map2 (split_block creates) splits gs"
  have "list_all (\<lambda>bl. length (fst bl) \<le> 1) ?blocks"
    by (auto simp: list_all_iff split_block_def)
  moreover have "length ?blocks \<le> 9" using assms(1) by simp
  ultimately have "length (charge_layout X creation transfer ?blocks) \<le> 29"
    using charge_layout_length [of ?blocks X creation transfer] by linarith
  moreover have "length (ix_accounts ix) \<le> 6" if "ix \<in> set (charge_layout X creation transfer ?blocks)" for ix
    using that
    by (cases rule: layout_cases) (use assms(2,3) in \<open>auto simp: budget_layout_def memo_layout_def\<close>)
  ultimately show ?thesis by (simp add: small_message_def list_all_iff)
qed

lemma layout_accounts [simp]:
  "length (ix_accounts (transfer_layout X s d n)) = 2"
  "length (ix_accounts (creation_layout X payer owner mint p)) = 6"
  "length (ix_accounts (token_layout X mint p decimals authority recipient a)) = 4"
  "length (ix_accounts (hd (budget_layouts X))) = 0"
  by (simp_all add: transfer_layout_def creation_layout_def token_layout_def transfer_checked_ix_def budget_layouts_def)

section \<open>The client's transaction passes\<close>

text \<open>
  What the client does not check of a challenge: a fee-paying server names its key, a token charge names
  its token program, and no memo is an empty text.
\<close>

definition challenge_usable :: "charge_request \<Rightarrow> method_details \<Rightarrow> bool" where
  "challenge_usable request md \<longleftrightarrow>
     (md_fee_payer md = Some True \<longrightarrow> md_fee_payer_key md \<noteq> None) \<and>
     (is_native_sol request \<or> md_token_program md \<noteq> None) \<and>
     cr_external_id request \<noteq> Some [] \<and>
     list_all (\<lambda>s. sp_memo s \<noteq> Some []) (case_option [] id (md_splits md))"

text \<open>The client is not the fee payer, and the two have different token accounts.\<close>

definition payer_apart :: "externs \<Rightarrow> pubkey \<Rightarrow> method_details \<Rightarrow> bool" where
  "payer_apart X signer md \<longleftrightarrow>
     (\<forall>q. client_fee_payer X md = Ok (Some q) \<longrightarrow>
        signer \<noteq> q \<and> (\<forall>mint p. ata_address X signer mint p \<noteq> ata_address X q mint p))"

lemma native_iff_no_mint:
  "is_native_sol request \<longleftrightarrow> resolve_stablecoin_mint (cr_currency request) network = None"
  by (simp add: is_native_sol_def resolve_stablecoin_mint_def Let_def)

lemma resolve_token_program_known:
  assumes "programs_known X" and "resolve_token_program X C mint md = Ok p" and "md_token_program md \<noteq> None"
  shows "token_program_key X p" and "expected_token_program X md = Ok (Some p)"
proof -
  from assms(2,3) obtain t where t: "md_token_program md = Some t" "pubkey_from_str X t = Ok p"
    "t = TOKEN_PROGRAM \<or> t = TOKEN_2022_PROGRAM"
    using assms(1) by (auto simp: resolve_token_program_def programs_known_def split: if_splits)
  then show "token_program_key X p" using program_key_parses(4,5) [OF assms(1)] by (auto simp: token_program_key_def)
  show "expected_token_program X md = Ok (Some p)" using t by (auto simp: expected_token_program_def)
qed

lemma built_instructions_small:
  fixes request :: charge_request
  assumes known: "programs_known X" and law: "ck_transfer C = transfer_layout X"
    and built: "charge_instructions b X C signer (cr_amount request) currency recipient md external_id = Ok (ixs, fee_payer)"
  shows "small_message ixs"
proof -
  let ?splits = "case_option [] id (md_splits md)"
  from charge_instructions_Ok [OF known built] obtain primary r payments where
    primary: "client_primary_amount b (cr_amount request) ?splits = Ok primary"
    and payments: "(case resolve_stablecoin_mint currency (md_network md) of
            Some mint_str \<Rightarrow> build_spl_instructions X C signer r mint_str md primary external_id ?splits fee_payer
          | None \<Rightarrow> build_sol_instructions X C signer r primary external_id ?splits) = Ok payments"
    and ixs: "ixs = budget_layouts X @ payments" by metis
  note eight = primary_agrees(1) [OF primary]
  show ?thesis
  proof (cases "resolve_stablecoin_mint currency (md_network md)")
    case None
    with payments have "build_sol_instructions X C signer r primary external_id ?splits = Ok payments" by simp
    then show ?thesis
      by (rule sol_instructions_layout [OF known law])
        (simp only: ixs, rule charge_layout_small [OF eight], simp_all)
  next
    case (Some spl)
    with payments have built: "build_spl_instructions X C signer r spl md primary external_id ?splits fee_payer = Ok payments"
      by simp
    then obtain mint p where "pubkey_from_str X spl = Ok mint" "resolve_token_program X C mint md = Ok p"
      by (auto simp: build_spl_instructions_def)
    note parsed = this
    show ?thesis
      by (rule spl_instructions_layout [OF known parsed(2,1) built])
        (simp only: ixs, rule charge_layout_small [OF eight], simp_all)
  qed
qed

lemma client_instructions_verify:
  assumes known: "programs_known X" and law: "ck_transfer C = transfer_layout X"
    and built: "charge_instructions b X C signer (cr_amount request) (cr_currency request) recipient md
          (cr_external_id request) = Ok (ixs, fee_payer)"
    and recipient: "cr_recipient request = Some recipient"
    and usable: "challenge_usable request md" and apart: "payer_apart X signer md"
    and tx: "faithful tx ixs (case_option signer id fee_payer)"
  shows "verify_versioned_transaction_pre_broadcast b X tx request md = Ok ()"
proof -
  let ?splits = "case_option [] id (md_splits md)"
  obtain primary r payments where
    primary: "client_primary_amount b (cr_amount request) ?splits = Ok primary"
    and r: "pubkey_from_str X recipient = Ok r" and fp: "client_fee_payer X md = Ok fee_payer"
    and guard: "\<exists>s \<in> set ?splits. sp_ata_creation_required s = Some True \<Longrightarrow>
          resolve_stablecoin_mint (cr_currency request) (md_network md) = Some (cr_currency request)"
    and payments: "(case resolve_stablecoin_mint (cr_currency request) (md_network md) of
            Some mint_str \<Rightarrow> build_spl_instructions X C signer r mint_str md primary (cr_external_id request)
              ?splits fee_payer
          | None \<Rightarrow> build_sol_instructions X C signer r primary (cr_external_id request) ?splits) = Ok payments"
    and ixs: "ixs = budget_layouts X @ payments"
    by (rule charge_instructions_Ok [OF known built]) blast
  note amount = primary_agrees [OF primary]
  have payer: "expected_fee_payer X tx md = Ok fee_payer"
    using usable by (intro fee_payer_agrees [OF fp _ tx]) (simp add: challenge_usable_def)
  have sponsor: "signer \<noteq> q \<and> ata_address X signer mint p \<noteq> ata_address X q mint p" if "fee_payer = Some q" for q mint p
    using apart fp that by (auto simp: payer_apart_def)
  have memos: "cr_external_id request \<noteq> Some []" "list_all (\<lambda>s. sp_memo s \<noteq> Some []) ?splits"
    using usable by (simp_all add: challenge_usable_def)
  have tables: "reject_address_lookup_tables tx = Ok ()"
    using tx by (simp add: faithful_def reject_address_lookup_tables_def)
  note start = verify_versioned_transaction_pre_broadcast_def tables Let_def amount(2) recipient r payer
  show ?thesis
  proof (cases "is_native_sol request")
    case True
    then have none: "resolve_stablecoin_mint (cr_currency request) (md_network md) = None"
      by (simp add: native_iff_no_mint [symmetric])
    have no_ata: "list_all (\<lambda>s. sp_ata_creation_required s \<noteq> Some True) ?splits"
      using guard none by (auto simp: list_all_iff)
    have built: "build_sol_instructions X C signer r primary (cr_external_id request) ?splits = Ok payments"
      using payments none by simp
    have "fee_payer \<noteq> Some signer" using sponsor by blast
    from sol_instructions_accepted [OF known law built tx [unfolded ixs] memos this no_ata]
    obtain policy where "expected_ata_creation_policy X ?splits fee_payer = Ok policy"
      "verify_instructions X (verify_sol_transfer_instructions X tx fee_payer) tx request ?splits r primary
        None None fee_payer policy = Ok ()" by blast
    with amount(1) True no_ata show ?thesis by (simp add: start list_all_iff not_less)
  next
    case False
    then obtain spl where spl: "resolve_stablecoin_mint (cr_currency request) (md_network md) = Some spl"
      by (metis native_iff_no_mint not_Some_eq)
    with payments have built: "build_spl_instructions X C signer r spl md primary (cr_external_id request)
        ?splits fee_payer = Ok payments" by simp
    then obtain mint p where mint: "pubkey_from_str X spl = Ok mint" and p: "resolve_token_program X C mint md = Ok p"
      by (auto simp: build_spl_instructions_def)
    have "md_token_program md \<noteq> None" using usable False by (simp add: challenge_usable_def)
    note program = resolve_token_program_known [OF known p this]
    from spl_instructions_accepted [OF known p program(1) mint built tx [unfolded ixs] memos sponsor]
    obtain policy where policy: "expected_ata_creation_policy X ?splits fee_payer = Ok policy"
      "ap_required_owners policy \<noteq> [] \<Longrightarrow> \<exists>s \<in> set ?splits. sp_ata_creation_required s = Some True"
      "verify_instructions X (verify_spl_transfer_instructions X tx mint (Some p) (md_decimals md) fee_payer) tx
        request ?splits r primary (Some mint) (Some p) fee_payer policy = Ok ()" by blast
    have expected: "resolve_expected_mint X (cr_currency request) (md_network md) = Ok mint"
      by (simp add: resolve_expected_mint_def spl mint)
    have "pubkey_string X mint = spl" using known mint by (auto simp: programs_known_def)
    then have required: "\<not> (ap_required_owners policy \<noteq> [] \<and> cr_currency request \<noteq> pubkey_string X mint)"
      using guard policy(2) spl by (metis option.inject)
    from amount(1) False policy(1,3) required show ?thesis by (simp add: start expected program(2) not_less)
  qed
qed

lemma client_transaction_accepted:
  assumes known: "programs_known X" and law: "client_crates_lawful X C T"
    and recipient: "cr_recipient request = Some recipient"
    and usable: "challenge_usable request md" and apart: "payer_apart X (sg_pubkey signer) md"
    and built: "build_charge_transaction_with_options b X C T signer (cr_amount request) (cr_currency request)
           recipient md (cr_external_id request) = Ok payload"
  shows "\<exists>transaction tx. payload = Transaction transaction \<and> decode_transaction T transaction = Ok tx \<and>
    verify_versioned_transaction_pre_broadcast b X tx request md = Ok ()"
proof -
  let ?payer = "case_option (sg_pubkey signer) id"
  from built obtain ixs fee_payer blockhash sigs bytes where
    ixs: "charge_instructions b X C (sg_pubkey signer) (cr_amount request) (cr_currency request) recipient md
        (cr_external_id request) = Ok (ixs, fee_payer)"
    and bytes: "ck_bincode_serialize C ((ck_compile C ixs (?payer fee_payer) blockhash)\<lparr>tx_signatures := sigs\<rparr>) = Ok bytes"
    and payload: "payload = Transaction (ck_base64_encode C bytes)"
    by (auto simp: build_charge_transaction_with_options_def Let_def split: if_splits)
  let ?tx = "(ck_compile C ixs (?payer fee_payer) blockhash)\<lparr>tx_signatures := sigs\<rparr>"
  have transfer: "ck_transfer C = transfer_layout X" using law by (simp add: client_crates_lawful_def)
  have "faithful ?tx ixs (?payer fee_payer)"
    using law built_instructions_small [OF known transfer ixs] by (simp add: client_crates_lawful_def)
  then have "verify_versioned_transaction_pre_broadcast b X ?tx request md = Ok ()"
    by (rule client_instructions_verify [OF known transfer ixs recipient usable apart])
  moreover have "decode_transaction T (ck_base64_encode C bytes) = Ok ?tx"
    using law bytes by (simp add: client_crates_lawful_def decode_transaction_def)
  ultimately show ?thesis using payload by blast
qed

text \<open>
  C12. For every challenge that names what a client cannot guess, the transaction that the client builds and
  signs is one that the server's verification accepts: it decodes on the server, and the payments, memos,
  token accounts and programs in it are those that the server looks for, in SOL and in tokens, with and
  without splits, whoever pays the fee.
\<close>

theorem client_transaction_verifies:
  assumes "programs_known X" and "client_crates_lawful X C T"
    and "cr_recipient request = Some recipient"
    and "challenge_usable request md" and "payer_apart X (sg_pubkey signer) md"
    and "build_charge_transaction_with_options b X C T signer (cr_amount request) (cr_currency request)
           recipient md (cr_external_id request) = Ok payload"
  shows "\<exists>transaction tx. payload = Transaction transaction \<and> decode_transaction T transaction = Ok tx \<and>
    verify_versioned_transaction_pre_broadcast b X tx request md = Ok ()"
  using assms by (rule client_transaction_accepted)

section \<open>From an issued challenge to the broadcast\<close>

text \<open>What a server must have set up so that the challenges it issues can be paid.\<close>

definition server_usable :: "mpp \<Rightarrow> charge_options \<Rightarrow> bool" where
  "server_usable m options \<longleftrightarrow>
     (co_fee_payer options \<or> mpp_fee_payer m \<longrightarrow> mpp_fee_payer_signer m \<noteq> None) \<and>
     co_external_id options \<noteq> Some [] \<and> list_all (\<lambda>s. sp_memo s \<noteq> Some []) (co_splits options)"

lemma issued_usable:
  "server_usable m options \<Longrightarrow> challenge_usable (issued_request X R m units options) (issued_details X R m options)"
  by (auto simp: server_usable_def challenge_usable_def issued_request_def issued_details_def
      charge_request_for_def is_native_sol_def)

lemma payload_roundtrip: "credential_payload_of_json (canonical (credential_payload_to_json p)) = Ok p"
  by (cases p)
    (simp_all add: credential_payload_to_json_def credential_payload_of_json_def struct_members_def member_str_def)

text \<open>What is left of the server's work after the transaction has been verified.\<close>

definition broadcast_phase ::
  "build \<Rightarrow> externs \<Rightarrow> tx_codecs \<Rightarrow> rpc_client \<Rightarrow> mpp \<Rightarrow> charge_request \<Rightarrow> method_details \<Rightarrow> versioned_transaction \<Rightarrow>
   effect list \<times> (string, verification_error) result" where
  "broadcast_phase b X T R m request md tx =
     effect_bind ([], check_network_blockhash (mpp_network m) (bs58_encode X (tx_recent_blockhash tx))) (\<lambda>_.
     effect_bind (cosign T m md tx) (\<lambda>tx.
     effect_bind (simulate_loop b X R tx request md 1 SIMULATION_MAX_ATTEMPTS) (\<lambda>_.
     effect_bind ([Sent tx], map_err (\<lambda>e. network_error (''Broadcast failed: '' @ e)) (rpc_send R tx))
       (\<lambda>signature. confirm_loop R signature 0 CONFIRM_ATTEMPTS))))"

text \<open>The verification of a transaction does not look at the blockhash of the challenge.\<close>

lemma verification_ignores_blockhash:
  fixes request :: charge_request and md :: method_details
  shows "verify_versioned_transaction_pre_broadcast b X tx (request\<lparr>cr_method_details := d\<rparr>) (md\<lparr>md_recent_blockhash := h\<rparr>) =
     verify_versioned_transaction_pre_broadcast b X tx request md"
  by (simp add: verify_versioned_transaction_pre_broadcast_def primary_amount_of_def is_native_sol_def
      verify_instructions_def expected_fee_payer_def expected_token_program_def cong: if_cong option.case_cong)

lemma issued_elsewhere:
  "issued_request X R' m units options = (issued_request X R m units options)
     \<lparr>cr_method_details := cr_method_details (issued_request X R' m units options)\<rparr>"
  "issued_details X R' m options = (issued_details X R m options)
     \<lparr>md_recent_blockhash := md_recent_blockhash (issued_details X R' m options)\<rparr>"
  by (simp_all add: issued_request_def charge_request_for_def issued_details_def)

lemma verify_pull_broadcasts:
  assumes "decode_transaction T transaction = Ok tx"
    and "verify_versioned_transaction_pre_broadcast b X tx request md = Ok ()"
  shows "verify_pull b X T R m transaction request md = broadcast_phase b X T R m request md tx"
  by (simp add: verify_pull_def broadcast_phase_def assms)

lemma credential_header_Ok:
  assumes "build_credential_header b X K C T signer c = Ok header"
  obtains request md recipient payload where "decode_request K (pc_request c) = Ok request"
    and "(case cr_method_details request of Some v \<Rightarrow> method_details_of_json v | None \<Rightarrow> Ok method_details_default) = Ok md"
    and "cr_recipient request = Some recipient"
    and "build_charge_transaction_with_options b X C T signer (cr_amount request) (cr_currency request)
           recipient md (cr_external_id request) = Ok payload"
    and "format_authorization K (payment_credential_new (to_echo c) (credential_payload_to_json payload)) = Ok header"
  using assms by (auto simp: build_credential_header_def)

text \<open>What the client's header holds when it reaches the server.\<close>

lemma issued_charge_credential:
  assumes known: "programs_known X" and law: "client_crates_lawful X C T" and codecs: "codecs_lawful K"
    and dec: "unat (mpp_decimals m) < 256" and usable: "server_usable m options"
    and issued: "charge_with_options b X K R m amount options = Ok c"
    and apart: "payer_apart X (sg_pubkey signer) (issued_details X R m options)"
    and built: "build_credential_header b X K C T signer c = Ok header"
    and short: "length header \<le> MAX_TOKEN_LEN + 8"
  obtains credential transaction tx units where "parse_authorization K header = Ok credential"
    and "cred_challenge credential = to_echo c"
    and "credential_payload_of_json (cred_payload credential) = Ok (Transaction transaction)"
    and "parse_units b amount (unat (ucast (mpp_decimals m) :: byte)) = Ok units"
    and "decode_request K (pc_request c) = Ok (issued_request X R m units options)"
    and "decode_transaction T transaction = Ok tx"
    and "verify_versioned_transaction_pre_broadcast b X tx (issued_request X R m units options)
      (issued_details X R m options) = Ok ()"
proof -
  from built obtain request md recipient payload where
    request: "decode_request K (pc_request c) = Ok request"
    and md: "(case cr_method_details request of Some v \<Rightarrow> method_details_of_json v | None \<Rightarrow> Ok method_details_default) = Ok md"
    and recipient: "cr_recipient request = Some recipient"
    and tx: "build_charge_transaction_with_options b X C T signer (cr_amount request) (cr_currency request)
           recipient md (cr_external_id request) = Ok payload"
    and header: "format_authorization K (payment_credential_new (to_echo c) (credential_payload_to_json payload)) = Ok header"
    by (rule credential_header_Ok)
  define credential where "credential =
    (payment_credential_new (to_echo c) (credential_payload_to_json payload))
      \<lparr>cred_payload := canonical (credential_payload_to_json payload)\<rparr>"
  have parsed: "parse_authorization K header = Ok credential"
    using parse_format_authorization [OF codecs header short]
    by (simp add: credential_def payment_credential_new_def)
  have echo: "cred_challenge credential = to_echo c" by (simp add: credential_def payment_credential_new_def)
  have payload: "credential_payload_of_json (cred_payload credential) = Ok payload"
    by (simp add: credential_def payload_roundtrip)
  obtain units where units: "parse_units b amount (unat (ucast (mpp_decimals m) :: byte)) = Ok units"
    and eq: "request = issued_request X R m units options"
    using issued_challenge_decodes [OF codecs issued] request by (metis result.inject(1))
  have "md = issued_details X R m options"
    using md by (simp add: eq issued_request_def charge_details_roundtrip [OF dec])
  with client_transaction_accepted [OF known law recipient _ _ tx] issued_usable [OF usable] apart
  obtain transaction tx where "payload = Transaction transaction" "decode_transaction T transaction = Ok tx"
    "verify_versioned_transaction_pre_broadcast b X tx request (issued_details X R m options) = Ok ()"
    by (auto simp: eq)
  with parsed echo payload units request show thesis by (intro that) (simp_all add: eq)
qed

lemma issued_charge_broadcasts:
  assumes known: "programs_known X" and law: "client_crates_lawful X C T" and codecs: "codecs_lawful K"
    and dec: "unat (mpp_decimals m) < 256" and usable: "server_usable m options"
    and issued: "charge_with_options b X K R m amount options = Ok c"
    and apart: "payer_apart X (sg_pubkey signer) (issued_details X R m options)"
    and built: "build_credential_header b X K C T signer c = Ok header"
    and short: "length header \<le> MAX_TOKEN_LEN + 8" and alive: "unexpired_at K t c"
  shows "\<exists>credential units tx. parse_authorization K header = Ok credential \<and>
    parse_units b amount (unat (ucast (mpp_decimals m) :: byte)) = Ok units \<and>
    credential_request (K\<lparr>now_utc := t\<rparr>) credential = Ok (issued_request X R m units options) \<and>
    (\<forall>R2. verify_and_settle b X (K\<lparr>now_utc := t\<rparr>) T R' m credential (issued_request X R2 m units options) =
      broadcast_phase b X T R' m (issued_request X R2 m units options) (issued_details X R2 m options) tx)"
proof -
  obtain credential transaction tx units where
    parsed: "parse_authorization K header = Ok credential" and echo: "cred_challenge credential = to_echo c"
    and payload: "credential_payload_of_json (cred_payload credential) = Ok (Transaction transaction)"
    and units: "parse_units b amount (unat (ucast (mpp_decimals m) :: byte)) = Ok units"
    and tx: "decode_transaction T transaction = Ok tx"
    and verified: "verify_versioned_transaction_pre_broadcast b X tx (issued_request X R m units options)
      (issued_details X R m options) = Ok ()"
    by (rule issued_charge_credential [OF assms(1-9)])
  have "verify_versioned_transaction_pre_broadcast b X tx (issued_request X R2 m units options)
      (issued_details X R2 m options) = Ok ()" for R2
    by (subst issued_elsewhere(1) [of X R2 m units options R], subst issued_elsewhere(2) [of X R2 m options R])
      (simp only: verification_ignores_blockhash verified)
  then have "settle b X T R' m (Transaction transaction) (issued_request X R2 m units options) (issued_details X R2 m options) =
      broadcast_phase b X T R' m (issued_request X R2 m units options) (issued_details X R2 m options) tx" for R2
    by (simp add: settle_def verify_pull_broadcasts [OF tx])
  with issued_challenge_settles [OF codecs dec issued echo alive payload] parsed units show ?thesis by auto
qed

text \<open>
  C4. A charge runs from challenge to broadcast: for a challenge issued by a server that has set up what its
  challenges need, the header that a client builds from it is parsed back by the server, carries the request
  that was issued, and passes the challenge checks, the pinned fields and the whole verification of its
  transaction; what remains is the network of the blockhash, the co-signature, the simulation, the
  broadcast and its confirmation.
\<close>

theorem issued_charge_reaches_broadcast:
  assumes "programs_known X" and "client_crates_lawful X C T" and "codecs_lawful K"
    and "unat (mpp_decimals m) < 256" and "server_usable m options"
    and "charge_with_options b X K R m amount options = Ok c"
    and "payer_apart X (sg_pubkey signer) (issued_details X R m options)"
    and "build_credential_header b X K C T signer c = Ok header"
    and "length header \<le> MAX_TOKEN_LEN + 8" and "unexpired_at K t c"
  shows "\<exists>credential units tx. parse_authorization K header = Ok credential \<and>
    credential_request (K\<lparr>now_utc := t\<rparr>) credential = Ok (issued_request X R m units options) \<and>
    verify_and_settle b X (K\<lparr>now_utc := t\<rparr>) T R' m credential (issued_request X R m units options) =
      broadcast_phase b X T R' m (issued_request X R m units options) (issued_details X R m options) tx"
  using issued_charge_broadcasts [OF assms] by blast

end
