(* ===== verification/Charge_Demo.thy ===== *)
theory Charge_Demo
  imports Charge_End_To_End
begin

text \<open>
  A concrete client for the examples: a compiler of messages, and encodings that know one transaction.
\<close>

section \<open>A compiler of messages\<close>

definition message_keys :: "pubkey \<Rightarrow> instruction list \<Rightarrow> pubkey list" where
  "message_keys payer ixs =
     payer # remdups (filter (\<lambda>k. k \<noteq> payer)
       (concat (map (\<lambda>ix. ix_program_id ix # map am_pubkey (ix_accounts ix)) ixs)))"

definition key_index :: "pubkey list \<Rightarrow> pubkey \<Rightarrow> byte" where
  "key_index keys k = of_nat (length (takeWhile (\<lambda>x. x \<noteq> k) keys))"

definition compile_message :: "instruction list \<Rightarrow> pubkey \<Rightarrow> byte list \<Rightarrow> versioned_transaction" where
  "compile_message ixs payer blockhash =
     (let keys = message_keys payer ixs in
      \<lparr>tx_signatures = map (\<lambda>_. []) keys, tx_account_keys = keys, tx_recent_blockhash = blockhash,
       tx_instructions = map (\<lambda>ix.
         \<lparr>ci_program_id_index = key_index keys (ix_program_id ix),
          ci_accounts = map (key_index keys \<circ> am_pubkey) (ix_accounts ix), ci_data = ix_data ix\<rparr>) ixs,
       tx_address_table_lookups = None\<rparr>)"

lemma key_index_at:
  assumes "k \<in> set keys" and "length keys \<le> 256"
  shows "unat (key_index keys k) < length keys" and "keys ! unat (key_index keys k) = k"
proof -
  let ?n = "length (takeWhile (\<lambda>x. x \<noteq> k) keys)"
  have less: "?n < length keys" using assms(1) by (induction keys) auto
  then have "unat (key_index keys k) = ?n"
    using assms(2) by (simp add: key_index_def unat_of_nat)
  with less nth_length_takeWhile [OF less] show "unat (key_index keys k) < length keys"
    and "keys ! unat (key_index keys k) = k" by simp_all
qed

lemma message_keys_length: "small_message ixs \<Longrightarrow> length (message_keys payer ixs) \<le> 256"
proof -
  assume small: "small_message ixs"
  have "length (concat (map (\<lambda>ix. ix_program_id ix # map am_pubkey (ix_accounts ix)) ixs)) \<le> 7 * length ixs"
    if "list_all (\<lambda>ix. length (ix_accounts ix) \<le> 6) ixs" using that by (induction ixs) auto
  with small have "length (concat (map (\<lambda>ix. ix_program_id ix # map am_pubkey (ix_accounts ix)) ixs)) \<le> 203"
    by (auto simp: small_message_def)
  moreover have "length (message_keys payer ixs) \<le>
      Suc (length (concat (map (\<lambda>ix. ix_program_id ix # map am_pubkey (ix_accounts ix)) ixs)))"
    using order_trans [OF length_remdups_leq length_filter_le] by (simp add: message_keys_def)
  ultimately show ?thesis by simp
qed

lemma message_keys_set:
  assumes "ix \<in> set ixs"
  shows "ix_program_id ix \<in> set (message_keys payer ixs)"
    and "a \<in> set (ix_accounts ix) \<Longrightarrow> am_pubkey a \<in> set (message_keys payer ixs)"
  using assms by (auto simp: message_keys_def)

lemma compile_message_faithful:
  assumes "small_message ixs"
  shows "faithful (compile_message ixs payer blockhash) ixs payer"
proof -
  let ?keys = "message_keys payer ixs"
  note at = key_index_at [OF _ message_keys_length [OF assms]]
  have "compiled_as ?keys ix \<lparr>ci_program_id_index = key_index ?keys (ix_program_id ix),
      ci_accounts = map (key_index ?keys \<circ> am_pubkey) (ix_accounts ix), ci_data = ix_data ix\<rparr>"
    if "ix \<in> set ixs" for ix
    using at [OF message_keys_set(1) [OF that]] at [OF message_keys_set(2) [OF that]]
    by (auto simp: compiled_as_def list_all2_conv_all_nth)
  then have "list_all2 (compiled_as ?keys) ixs (tx_instructions (compile_message ixs payer blockhash))"
    by (simp add: compile_message_def Let_def list_all2_map2 list_all2_same)
  then show ?thesis
    by (simp add: faithful_def compile_message_def Let_def) (simp add: message_keys_def)
qed

lemma payer_in_message: "payer \<in> set (message_keys payer ixs)"
  by (simp add: message_keys_def)

section \<open>The keys of the examples\<close>

lemma charge_pubkey_string [simp]: "pubkey_string charge_externs (key_named s) = s"
  by (simp add: pubkey_string_def charge_externs_def key_named_def string_bytes_def o_def unat_of_nat)

lemma charge_programs_known: "programs_known charge_externs"
  by (auto simp: programs_known_def charge_programs_distinct PROGRAM_IDS_def is_ok_iff split: if_splits)

lemma charge_ata [simp]:
  "ata_address charge_externs (key_named a) mint p = ata_address charge_externs (key_named b) mint p \<longleftrightarrow> a = b"
  by (simp add: ata_address_def charge_externs_def key_named_def string_bytes_inj)

section \<open>A client that knows one transaction\<close>

definition client_for :: "versioned_transaction \<Rightarrow> client_crates" where
  "client_for known =
     \<lparr>ck_transfer = transfer_layout charge_externs, ck_compile = compile_message,
      ck_bincode_serialize = (\<lambda>tx. if tx = known then Ok [1] else Err ''too long''),
      ck_base64_encode = (\<lambda>bytes. map (\<lambda>b. char_of (unat b)) bytes),
      ck_hash_from_str = (\<lambda>s. Ok (string_bytes s)),
      ck_account_owner = (\<lambda>_. Err ''unknown account''), ck_latest_blockhash = Ok []\<rparr>"

definition server_for :: "versioned_transaction \<Rightarrow> tx_codecs" where
  "server_for known =
     \<lparr>base64_standard_decode = (\<lambda>s. Ok (string_bytes s)),
      bincode_legacy = (\<lambda>bytes. if bytes = [1] then Ok known else Err ''no transaction''),
      bincode_versioned = (\<lambda>bytes. Err ''no transaction''), message_serialize = (\<lambda>tx. []),
      signature_from_str = (\<lambda>s. Ok ()), env_secret_key = None\<rparr>"

lemma client_for_lawful: "client_crates_lawful charge_externs (client_for known) (server_for known)"
proof -
  have "string_bytes (map (\<lambda>b. char_of (unat b)) bytes) = bytes" for bytes :: "byte list"
    using unat_lt [where 'a = 8] by (induction bytes) (simp_all add: string_bytes_def)
  then show ?thesis
    by (simp add: client_crates_lawful_def client_for_def server_for_def compile_message_faithful)
qed

definition wallet_named :: "string \<Rightarrow> signer" where
  "wallet_named s = \<lparr>sg_pubkey = key_named s, sg_sign = (\<lambda>_. Ok [])\<rparr>"

lemma client_for_simps [simp]:
  "ck_compile (client_for known) = compile_message"
  "ck_hash_from_str (client_for known) s = Ok (string_bytes s)"
  "ck_bincode_serialize (client_for known) known = Ok [1]"
  "ck_transfer (client_for known) = transfer_layout charge_externs"
  "sg_pubkey (wallet_named s) = key_named s" "sg_sign (wallet_named s) m = Ok []"
  by (simp_all add: client_for_def wallet_named_def)

lemma position_of:
  assumes "x \<in> set xs"
  obtains i where "position x xs = Some i" and "i < length xs"
proof -
  have "\<exists>i. position x xs = Some i \<and> i < length xs" using assms by (induction xs) auto
  with that show thesis by blast
qed

text \<open>The transaction of a client whose signature is the empty one the compiler left.\<close>

lemma client_for_builds:
  assumes ixs: "charge_instructions b charge_externs (client_for known) (key_named name) amount currency recipient md
      external_id = Ok (ixs, fee_payer)"
    and hash: "md_recent_blockhash md = Some hash"
    and known: "known = compile_message ixs (case_option (key_named name) id fee_payer) (string_bytes hash)"
    and signs: "key_named name \<in> set (message_keys (case_option (key_named name) id fee_payer) ixs)"
  shows "build_charge_transaction_with_options b charge_externs (client_for known) (server_for known)
    (wallet_named name) amount currency recipient md external_id = Ok (Transaction (ck_base64_encode (client_for known) [1]))"
proof -
  define payer where "payer = case_option (key_named name) id fee_payer"
  have compiled: "compile_message ixs payer (string_bytes hash) = known" by (simp add: known payer_def)
  have wallet: "case_option (sg_pubkey (wallet_named name)) id fee_payer = payer"
    by (cases fee_payer) (simp_all add: payer_def)
  have keys: "tx_account_keys known = message_keys payer ixs"
    "tx_signatures known = map (\<lambda>_. []) (message_keys payer ixs)"
    by (simp_all add: compiled [symmetric] compile_message_def Let_def)
  obtain i where i: "position (key_named name) (message_keys payer ixs) = Some i" "i < length (message_keys payer ixs)"
    by (rule position_of [OF signs [folded payer_def]])
  have "(tx_signatures known)[i := []] = tx_signatures known"
    using i(2) by (simp add: keys list_update_same_conv)
  then have same: "known\<lparr>tx_signatures := (tx_signatures known)[i := []]\<rparr> = known" by simp
  have "\<not> length (tx_signatures known) \<le> i" using i(2) by (simp add: keys)
  then show ?thesis
    by (simp add: build_charge_transaction_with_options_def ixs hash Let_def wallet compiled keys(1) i(1) same)
qed

section \<open>A token payment with a split\<close>

definition tip_split :: split where
  "tip_split =
     \<lparr>sp_recipient = ''vendor'', sp_amount = show_u64 100, sp_ata_creation_required = Some True,
      sp_label = None, sp_memo = Some ''tip''\<rparr>"

definition tip_request :: charge_request where
  "tip_request = demo_token_request\<lparr>cr_external_id := Some ''order''\<rparr>"

definition tip_details :: method_details where
  "tip_details =
     \<lparr>md_network = None, md_decimals = Some 6, md_token_program = Some TOKEN_PROGRAM,
      md_fee_payer = Some True, md_fee_payer_key = Some ''server'', md_splits = Some [tip_split],
      md_recent_blockhash = Some ''hash''\<rparr>"

definition tip_instructions :: "instruction list" where
  "tip_instructions =
     (let mint = key_named ''mintaddress''; p = key_named TOKEN_PROGRAM;
          pay = token_layout charge_externs mint p 6 (key_named ''payer'')
      in budget_layouts charge_externs @
         [pay (key_named ''shop'') 900, memo_layout charge_externs ''order'',
          creation_layout charge_externs (key_named ''server'') (key_named ''vendor'') mint p,
          pay (key_named ''vendor'') 100, memo_layout charge_externs ''tip''])"

lemma charge_program_key [simp]: "s \<noteq> [] \<Longrightarrow> program_key charge_externs s = key_named s"
  by (simp add: program_key_def)

lemma charge_budget:
  "compute_unit_price_ix charge_externs 1 = Ok (hd (budget_layouts charge_externs))"
  "compute_unit_limit_ix charge_externs 200000 = Ok (hd (tl (budget_layouts charge_externs)))"
  by (simp_all add: compute_unit_price_ix_def compute_unit_limit_ix_def budget_layouts_def expect_pubkey_def)

lemma charge_memo:
  "length m \<le> 566 \<Longrightarrow> push_memo_instruction charge_externs (Some m) = Ok [memo_layout charge_externs m]"
  by (simp add: push_memo_instruction_def memo_layout_def)

lemma tip_charged:
  "charge_instructions Debug_Build charge_externs C (key_named ''payer'') (cr_amount tip_request)
     (cr_currency tip_request) ''shop'' tip_details (cr_external_id tip_request) =
     Ok (tip_instructions, Some (key_named ''server''))"
proof -
  have mint: "resolve_stablecoin_mint ''mintaddress'' None = Some ''mintaddress''" by (simp add: resolve_long)
  have primary: "client_primary_amount Debug_Build (show_u64 1000) [tip_split] = Ok 900"
    by (simp add: client_primary_amount_def tip_split_def split_amounts_def map_filter_simps add_u64_def
        checked_sub_u64_def)
  have payer: "client_fee_payer charge_externs tip_details = Ok (Some (key_named ''server''))"
    by (simp add: client_fee_payer_def tip_details_def)
  have program: "resolve_token_program charge_externs C (key_named ''mintaddress'') tip_details =
      Ok (key_named TOKEN_PROGRAM)"
    by (simp add: resolve_token_program_def tip_details_def)
  have split: "client_split_recipient charge_externs tip_split = Ok (key_named ''vendor'')"
    "client_split_amount tip_split = Ok 100" "sp_ata_creation_required tip_split = Some True"
    "sp_memo tip_split = Some ''tip''"
    by (simp_all add: client_split_recipient_def client_split_amount_def tip_split_def)
  have details: "md_splits tip_details = Some [tip_split]" "md_decimals tip_details = Some 6"
    "md_network tip_details = None" "cr_currency tip_request = ''mintaddress''"
    "cr_amount tip_request = show_u64 1000" "cr_external_id tip_request = Some ''order''"
    by (simp_all add: tip_details_def tip_request_def demo_token_request_def)
  have built: "build_spl_instructions charge_externs C (key_named ''payer'') (key_named ''shop'') ''mintaddress''
      tip_details 900 (Some ''order'') [tip_split] (Some (key_named ''server'')) =
      Ok (drop 2 tip_instructions)"
    by (simp add: build_spl_instructions_def program split details charge_memo Let_def
        get_associated_token_address_known [OF charge_programs_known]
        add_spl_transfer_layout [OF charge_programs_known] tip_instructions_def budget_layouts_def)
  show ?thesis
    unfolding charge_instructions_def details
    by (simp add: Let_def mint primary payer split built charge_budget)
      (simp add: tip_instructions_def budget_layouts_def Let_def)
qed

definition tip_transaction :: versioned_transaction where
  "tip_transaction = compile_message tip_instructions (key_named ''server'') (string_bytes ''hash'')"

lemma tip_signed: "key_named ''payer'' \<in> set (message_keys (key_named ''server'') tip_instructions)"
proof -
  let ?pay = "token_layout charge_externs (key_named ''mintaddress'') (key_named TOKEN_PROGRAM) 6 (key_named ''payer'')
      (key_named ''shop'') 900"
  have "?pay \<in> set tip_instructions" by (simp add: tip_instructions_def Let_def)
  moreover have "meta_readonly (key_named ''payer'') True \<in> set (ix_accounts ?pay)"
    by (simp add: token_layout_def transfer_checked_ix_def)
  ultimately have "am_pubkey (meta_readonly (key_named ''payer'') True) \<in>
      set (message_keys (key_named ''server'') tip_instructions)"
    by (rule message_keys_set(2))
  then show ?thesis by (simp add: meta_readonly_def)
qed

theorem client_transaction_verifies_witness:
  "build_charge_transaction_with_options Debug_Build charge_externs (client_for tip_transaction)
      (server_for tip_transaction) (wallet_named ''payer'') (cr_amount tip_request) (cr_currency tip_request)
      ''shop'' tip_details (cr_external_id tip_request) =
      Ok (Transaction (ck_base64_encode (client_for tip_transaction) [1])) \<and>
   (\<exists>transaction tx. Transaction (ck_base64_encode (client_for tip_transaction) [1]) = Transaction transaction \<and>
      decode_transaction (server_for tip_transaction) transaction = Ok tx \<and>
      verify_versioned_transaction_pre_broadcast Debug_Build charge_externs tx tip_request tip_details = Ok ())"
proof -
  have hash: "md_recent_blockhash tip_details = Some ''hash''" by (simp add: tip_details_def)
  have known: "tip_transaction = compile_message tip_instructions
      (case_option (key_named ''payer'') id (Some (key_named ''server''))) (string_bytes ''hash'')"
    by (simp add: tip_transaction_def)
  have signs: "key_named ''payer'' \<in> set (message_keys
      (case_option (key_named ''payer'') id (Some (key_named ''server''))) tip_instructions)"
    using tip_signed by simp
  note built = client_for_builds [OF tip_charged hash known signs]
  have recipient: "cr_recipient tip_request = Some ''shop''" by (simp add: tip_request_def demo_token_request_def)
  have usable: "challenge_usable tip_request tip_details"
    by (simp add: challenge_usable_def tip_request_def tip_details_def tip_split_def)
  have apart: "payer_apart charge_externs (sg_pubkey (wallet_named ''payer'')) tip_details"
    by (simp add: payer_apart_def client_fee_payer_def tip_details_def)
  from built client_transaction_verifies [OF charge_programs_known client_for_lawful recipient usable apart built]
  show ?thesis by blast
qed

end
