(* ===== verification/Charge_Demo_Shop.thy ===== *)
theory Charge_Demo_Shop
  imports Charge_Demo
begin

text \<open>
  A whole charge in the small world: the shop issues a challenge, a wallet answers it, and the shop takes the
  answer to its broadcast.
\<close>

definition shop_request :: charge_request where
  "shop_request = issued_request charge_externs demo_rpc shop (show_nat 150) charge_options_default"

definition shop_details :: method_details where
  "shop_details = issued_details charge_externs demo_rpc shop charge_options_default"

definition shop_instructions :: "instruction list" where
  "shop_instructions = budget_layouts charge_externs @
     [transfer_layout charge_externs (key_named ''payer'') (key_named ''shop'') 150]"

definition shop_transaction :: versioned_transaction where
  "shop_transaction = compile_message shop_instructions (key_named ''payer'') (string_bytes ''hash'')"

definition shop_answer :: json where
  "shop_answer = credential_to_json (payment_credential_new (to_echo shop_challenge)
     (credential_payload_to_json (Transaction (ck_base64_encode (client_for shop_transaction) [1]))))"

definition till_codecs :: codecs where
  "till_codecs = shop_codecs
     \<lparr>canonical_json := (\<lambda>v. if v = shop_json then Ok ''q'' else if v = shop_answer then Ok ''c''
                             else Err ''not printable''),
      json_from_slice := (\<lambda>bytes. if bytes = string_bytes ''q'' then Ok (canonical shop_json)
                                  else if bytes = string_bytes ''c'' then Ok (canonical shop_answer)
                                  else Err ''not a value'')\<rparr>"

lemma till_codecs_lawful: "codecs_lawful till_codecs"
proof -
  have "string_bytes ''c'' \<noteq> string_bytes ''q''" by (simp add: string_bytes_inj)
  then show ?thesis
    by (auto simp: codecs_lawful_def till_codecs_def shop_codecs_def hex_decode_encode hex_encode_b64url
        hex_encode_Nil split: if_splits)
qed

lemma shop_answer_neq: "shop_answer \<noteq> shop_json"
  by (simp add: shop_answer_def shop_json_def credential_to_json_def charge_request_to_json_def)

lemma till_encodes:
  "from_typed_request till_codecs
     (charge_request_for charge_externs demo_rpc shop (show_nat 150) charge_options_default) =
     Ok (Base64UrlJson (hex_encode (string_bytes ''q'')))"
  by (simp add: from_typed_request_def shop_json_def [symmetric] base64url_encode_def till_codecs_def)
    (simp add: shop_codecs_def)

lemma till_charges:
  "charge_with_options Debug_Build charge_externs till_codecs demo_rpc shop ''1.5'' charge_options_default =
     Ok shop_challenge"
proof -
  have decimals: "unat (ucast (mpp_decimals shop) :: byte) = 2" by (simp add: shop_def)
  have "expires_minutes till_codecs 5 = (Ok ''later'' :: (string, error) result)"
    by (simp add: expires_minutes_def expires_unit_def offset_time_def in_date_range_def till_codecs_def shop_codecs_def)
  moreover have "validate_charge_options charge_externs shop charge_options_default = Ok ()"
    by (simp add: validate_charge_options_def charge_options_default_def)
  moreover have "compute_challenge_id till_codecs = compute_challenge_id shop_codecs"
    by (simp add: compute_challenge_id_def base64url_encode_def till_codecs_def fun_eq_iff)
  ultimately show ?thesis
    by (simp add: charge_with_options_def decimals shop_units till_encodes shop_challenge_def)
      (simp add: shop_def charge_options_default_def with_secret_key_full_def)
qed

lemma shop_data:
  "cr_amount shop_request = show_nat 150" "cr_currency shop_request = ''sol''"
  "cr_recipient shop_request = Some ''shop''" "cr_external_id shop_request = None"
  "cr_method_details shop_request = Some (canonical (charge_details charge_externs demo_rpc shop charge_options_default))"
  "md_splits shop_details = None" "md_fee_payer shop_details = None" "md_network shop_details = Some ''devnet''"
  "md_recent_blockhash shop_details = Some ''hash''"
  by (simp_all add: shop_request_def shop_details_def issued_request_def issued_details_def charge_request_for_def
      shop_def charge_options_default_def demo_rpc_def ok_value_def)

lemma shop_decodes: "decode_request till_codecs (pc_request shop_challenge) = Ok shop_request"
proof -
  have "cr_method_details (charge_request_for charge_externs demo_rpc shop (show_nat 150) charge_options_default) \<noteq>
      Some JNull"
    by (simp add: charge_request_for_def charge_details_def)
  from decode_from_typed_request [OF till_codecs_lawful till_encodes this] show ?thesis
    by (simp add: shop_challenge_def with_secret_key_full_def shop_request_def issued_request_def charge_request_for_def)
qed

lemma shop_paid:
  "charge_instructions Debug_Build charge_externs (client_for known) (key_named ''payer'') (cr_amount shop_request)
     (cr_currency shop_request) ''shop'' shop_details (cr_external_id shop_request) = Ok (shop_instructions, None)"
proof -
  have native: "resolve_stablecoin_mint ''sol'' n = None" for n
    by (simp add: resolve_stablecoin_mint_def) code_simp
  have "parse_u64 (show_nat 150) = Some 150" using parse_show_u64 [of 150] by (simp add: show_u64_def)
  then have primary: "client_primary_amount Debug_Build (show_nat 150) [] = Ok 150"
    by (simp add: client_primary_amount_def split_amounts_def map_filter_simps checked_sub_u64_def)
  have payer: "client_fee_payer charge_externs shop_details = Ok None"
    by (simp add: client_fee_payer_def shop_data)
  have built: "build_sol_instructions charge_externs (client_for known) (key_named ''payer'') (key_named ''shop'') 150
      None [] = Ok [transfer_layout charge_externs (key_named ''payer'') (key_named ''shop'') 150]"
    by (simp add: build_sol_instructions_def push_memo_instruction_def)
  show ?thesis
    unfolding charge_instructions_def shop_data
    by (simp add: Let_def native primary payer built charge_budget shop_instructions_def budget_layouts_def)
qed

lemma shop_signed: "key_named ''payer'' \<in> set (message_keys (key_named ''payer'') shop_instructions)"
  by (rule payer_in_message)

lemma till_answers:
  "build_credential_header Debug_Build charge_externs till_codecs (client_for shop_transaction)
     (server_for shop_transaction) (wallet_named ''payer'') shop_challenge =
     Ok (''Payment '' @ hex_encode (string_bytes ''c''))"
proof -
  have decimals: "unat (mpp_decimals shop) < 256" by (simp add: shop_def)
  have details: "method_details_of_json (canonical (charge_details charge_externs demo_rpc shop charge_options_default)) =
      Ok shop_details"
    unfolding shop_details_def by (rule charge_details_roundtrip [OF decimals])
  have known: "shop_transaction = compile_message shop_instructions
      (case_option (key_named ''payer'') id None) (string_bytes ''hash'')"
    by (simp add: shop_transaction_def)
  have signs: "key_named ''payer'' \<in> set (message_keys (case_option (key_named ''payer'') id None) shop_instructions)"
    using shop_signed by simp
  note built = client_for_builds [OF shop_paid shop_data(9) known signs]
  have "format_authorization till_codecs (payment_credential_new (to_echo shop_challenge)
      (credential_payload_to_json (Transaction (ck_base64_encode (client_for shop_transaction) [1])))) =
      Ok (''Payment '' @ hex_encode (string_bytes ''c''))"
    using shop_answer_neq
    by (simp add: format_authorization_def shop_answer_def [symmetric] base64url_encode_def till_codecs_def)
      (simp add: shop_codecs_def)
  then show ?thesis
    by (simp add: build_credential_header_def shop_decodes shop_data(3,5) details built)
qed

theorem issued_charge_reaches_broadcast_witness:
  "\<exists>credential units tx.
    parse_authorization till_codecs (''Payment '' @ hex_encode (string_bytes ''c'')) = Ok credential \<and>
    credential_request (till_codecs\<lparr>now_utc := 5\<rparr>) credential =
      Ok (issued_request charge_externs demo_rpc shop units charge_options_default) \<and>
    verify_and_settle Debug_Build charge_externs (till_codecs\<lparr>now_utc := 5\<rparr>) (server_for shop_transaction) demo_rpc
        shop credential (issued_request charge_externs demo_rpc shop units charge_options_default) =
      broadcast_phase Debug_Build charge_externs (server_for shop_transaction) demo_rpc shop
        (issued_request charge_externs demo_rpc shop units charge_options_default)
        (issued_details charge_externs demo_rpc shop charge_options_default) tx"
proof -
  have decimals: "unat (mpp_decimals shop) < 256" by (simp add: shop_def)
  have usable: "server_usable shop charge_options_default"
    by (simp add: server_usable_def charge_options_default_def shop_def)
  have apart: "payer_apart charge_externs (sg_pubkey (wallet_named ''payer''))
      (issued_details charge_externs demo_rpc shop charge_options_default)"
    unfolding shop_details_def [symmetric] by (simp add: payer_apart_def client_fee_payer_def shop_data)
  have short: "length (''Payment '' @ hex_encode (string_bytes ''c'')) \<le> MAX_TOKEN_LEN + 8"
    by (simp add: hex_encode_def string_bytes_def MAX_TOKEN_LEN_def)
  have alive: "unexpired_at till_codecs 5 shop_challenge"
    by (simp add: unexpired_at_def is_expired_def shop_challenge_def with_secret_key_full_def)
      (simp add: till_codecs_def shop_codecs_def)
  show ?thesis
    by (rule issued_charge_reaches_broadcast [OF charge_programs_known client_for_lawful till_codecs_lawful decimals
          usable till_charges apart till_answers short alive])
qed

end
