(* ===== verification/Axum_Properties.thy ===== *)
theory Axum_Properties
  imports Axum Charge_Demo_Shop
begin

text \<open>
  Properties of the payment gate: an unpaid request is answered with the challenge of its route and costs
  nothing, an admitted one has answered a challenge of this server for the price of its route and was settled,
  and a client that answers the response of the gate is admitted when the network takes its transaction.
\<close>

section \<open>The framework\<close>

text \<open>
  The documented behaviour of \<^verbatim>\<open>http\<close> and \<^verbatim>\<open>axum\<close>: visible ASCII text is a header value and reads back as
  itself, and the response for a status and a text has both, with no header but the type of its content.
\<close>

definition visible :: "string \<Rightarrow> bool" where
  "visible s = list_all (\<lambda>c. 32 \<le> (of_char c :: nat) \<and> (of_char c :: nat) < 127) s"

definition http_lawful :: "http_crate \<Rightarrow> bool" where
  "http_lawful H \<longleftrightarrow>
     (\<forall>s. visible s \<longrightarrow> hc_value_ok H s \<and> hc_to_str H s = Some s) \<and>
     (\<forall>status body. rs_status (hc_text_response H status body) = status \<and>
        rs_body (hc_text_response H status body) = body \<and>
        set (map fst (rs_headers (hc_text_response H status body))) \<subseteq> {''content-type''})"

lemma header_get_insert [simp]:
  "header_get (header_insert name v hs) key = (if key = name then Some v else header_get hs key)"
  by (induction hs) (auto simp: header_get_def header_insert_def)

lemma text_response_bare:
  assumes "http_lawful H" and "name \<noteq> ''content-type''"
  shows "header_get (rs_headers (hc_text_response H status body)) name = None"
proof -
  have "set (map fst (rs_headers (hc_text_response H status body))) \<subseteq> {''content-type''}"
    using assms(1) by (simp only: http_lawful_def)
  with assms(2) have "name \<notin> set (map fst (rs_headers (hc_text_response H status body)))" by blast
  then show ?thesis by (simp add: header_get_def map_of_eq_None_iff)
qed

lemma visible_append [simp]: "visible (s @ t) \<longleftrightarrow> visible s \<and> visible t"
  by (simp add: visible_def)

lemma visible_Nil [simp]: "visible []"
  by (simp add: visible_def)

lemma visible_b64url: "list_all is_b64url s \<Longrightarrow> visible s"
  by (auto simp: visible_def list_all_iff is_b64url_def is_ascii_lowercase_def is_ascii_uppercase_def
      digit_value_def Let_def split: if_splits)

lemma visible_escaped: "visible s \<Longrightarrow> escape_quoted_value s = Ok (concat (map escape_char s)) \<and>
    visible (concat (map escape_char s))"
proof -
  assume v: "visible s"
  then have "CHR 13 \<notin> set s" "CHR 10 \<notin> set s" by (auto simp: visible_def list_all_iff)
  moreover have "visible (concat (map escape_char s))"
    using v by (induction s) (auto simp: visible_def escape_char_def)
  ultimately show ?thesis by (simp add: escape_quoted_value_def)
qed

lemma visible_join: "\<forall>s \<in> set ss. visible s \<Longrightarrow> visible sep \<Longrightarrow> visible (join_with sep ss)"
  by (induction sep ss rule: join_with.induct) auto

text \<open>A challenge whose fields are visible text is written to a header of visible text.\<close>

lemma visible_challenge_formats:
  assumes "\<forall>(k, v) \<in> set (challenge_params c). visible k \<and> visible v"
  obtains h where "format_www_authenticate c = Ok h" and "visible h"
proof -
  have "\<exists>parts. collect_results (\<lambda>(k, v). header_param k v) ps = Ok parts \<and> (\<forall>s \<in> set parts. visible s)"
    if "\<forall>(k, v) \<in> set ps. visible k \<and> visible v" for ps
    using that
  proof (induction ps)
    case (Cons p ps)
    obtain k v where p: "p = (k, v)" by fastforce
    with Cons.prems have kv: "visible k" "visible v" by auto
    from Cons obtain parts where "collect_results (\<lambda>(k, v). header_param k v) ps = Ok parts"
      "\<forall>s \<in> set parts. visible s" by auto
    moreover have "header_param k v = Ok (k @ ''='' @ [CHR 34] @ concat (map escape_char v) @ [CHR 34])"
      using visible_escaped [OF kv(2)] by (simp add: header_param_def)
    moreover have "visible (k @ ''='' @ [CHR 34] @ concat (map escape_char v) @ [CHR 34])"
      using kv(1) visible_escaped [OF kv(2)] by (simp, simp add: visible_def)
    ultimately show ?case by (simp add: p)
  qed simp
  from this [OF assms] obtain parts where "collect_results (\<lambda>(k, v). header_param k v) (challenge_params c) = Ok parts"
    "\<forall>s \<in> set parts. visible s" by blast
  note parts = this
  have "visible '', ''" "visible (PAYMENT_SCHEME @ '' '')" by (simp_all add: visible_def PAYMENT_SCHEME_def)
  then have "visible (PAYMENT_SCHEME @ '' '' @ join_with '', '' parts)"
    using visible_join [OF parts(2), of "'', ''"] by (simp add: visible_def)
  with parts(1) show thesis by (intro that [of "PAYMENT_SCHEME @ '' '' @ join_with '', '' parts"])
    (simp_all only: format_www_authenticate_def rbind.simps)
qed

section \<open>Unpaid requests\<close>

text \<open>The id of an issued challenge is an authentication code, which is not empty.\<close>

definition hmac_nonempty :: "codecs \<Rightarrow> bool" where
  "hmac_nonempty K \<longleftrightarrow> (\<forall>key s. s \<noteq> [] \<longrightarrow> hmac_sha256 K key s \<noteq> [])"

lemma issued_challenge_read_back:
  assumes "codecs_lawful K" and "hmac_nonempty K"
    and "charge_with_options b X K R m amount options = Ok c"
    and "format_www_authenticate c = Ok h"
  shows "parse_www_authenticate K h = Ok (c\<lparr>pc_description := None\<rparr>)"
proof -
  from charge_with_options_Ok [OF assms(3)] obtain units encoded expires where
    enc: "from_typed_request K (charge_request_for X R m units options) = Ok encoded"
    and c: "c = with_secret_key_full K (mpp_secret_key m) (mpp_realm m) (method_name_new METHOD_NAME)
           (intent_name_new ''charge'') encoded (Some expires) None (co_description options) None" .
  have "\<exists>v. decode_value K encoded = Ok v"
    using enc assms(1) by (auto simp: from_typed_request_def decode_value_def lawful_decode codecs_lawful_def)
  then obtain v where v: "decode_value K (pc_request c) = Ok v"
    by (auto simp: c with_secret_key_full_def)
  have "hmac_input realm me i request e d ob \<noteq> []" for realm me i request e d ob
    by (simp add: hmac_input_def)
  then have "pc_id c \<noteq> []"
    using assms(2) by (simp add: c with_secret_key_full_def compute_challenge_id_def hmac_nonempty_def
        lawful_token(3) [OF assms(1)])
  moreover have "method_name_is_valid (method_name_new METHOD_NAME)"
    "to_ascii_lowercase (intent_str (intent_name_new ''charge'')) = intent_str (intent_name_new ''charge'')"
    by code_simp+
  ultimately show ?thesis
    by (intro parse_format_challenge [OF assms(4) _ _ _ v]) (simp_all add: c with_secret_key_full_def)
qed

lemma issued_challenge_visible:
  assumes "codecs_lawful K" and "charge_with_options b X K R m amount options = Ok c"
    and "visible (mpp_realm m)" and "case_option True visible (pc_expires c)"
  shows "\<forall>(k, v) \<in> set (challenge_params c). visible k \<and> visible v"
proof -
  from charge_with_options_Ok [OF assms(2)] obtain units encoded expires where
    enc: "from_typed_request K (charge_request_for X R m units options) = Ok encoded"
    and c: "c = with_secret_key_full K (mpp_secret_key m) (mpp_realm m) (method_name_new METHOD_NAME)
           (intent_name_new ''charge'') encoded (Some expires) None (co_description options) None" .
  have b64: "visible (b64_encode K bytes)" for bytes
    using assms(1) by (intro visible_b64url) (simp add: codecs_lawful_def)
  have "visible (raw encoded)"
    using enc b64 by (auto simp: from_typed_request_def base64url_encode_def)
  moreover have "visible (method_str (method_name_new METHOD_NAME))" "visible (intent_str (intent_name_new ''charge''))"
    by code_simp+
  moreover have "list_all visible [''id'', ''realm'', ''method'', ''intent'', ''request'', ''expires'']" by code_simp
  ultimately show ?thesis
    using assms(3,4) b64
    by (simp add: c challenge_params_def with_secret_key_full_def compute_challenge_id_def base64url_encode_def)
qed

text \<open>The response for an unpaid request on a route.\<close>

lemma challenge_response:
  assumes "codecs_lawful K" and "hmac_nonempty K" and "http_lawful H"
    and "charge_with_options b X K R m amount options = Ok c"
    and "visible (mpp_realm m)" and "case_option True visible (pc_expires c)"
  shows "\<exists>h. payment_required_response H (PaymentRequired c) = (hc_text_response H 402
        (case hc_json_text H (payment_challenge_to_json c) of Ok t \<Rightarrow> t | _ \<Rightarrow> ''{}''))
      \<lparr>rs_headers := rs_headers (payment_required_response H (PaymentRequired c))\<rparr> \<and>
    header_get (rs_headers (payment_required_response H (PaymentRequired c))) WWW_AUTHENTICATE_HEADER = Some h \<and>
    header_get (rs_headers (payment_required_response H (PaymentRequired c))) ''cache-control'' = Some ''no-store'' \<and>
    parse_www_authenticate K h = Ok (c\<lparr>pc_description := None\<rparr>)"
proof -
  from visible_challenge_formats [OF issued_challenge_visible [OF assms(1,4-6)]]
  obtain h where h: "format_www_authenticate c = Ok h" "visible h" .
  then have "hc_value_ok H h" using assms(3) by (simp add: http_lawful_def)
  with h(1) issued_challenge_read_back [OF assms(1,2,4) h(1)] show ?thesis
    by (simp add: Let_def WWW_AUTHENTICATE_HEADER_def)
qed

text \<open>
  C20. A request without a credential that can be read (no \<^verbatim>\<open>Authorization\<close> header, another scheme, a text that
  does not parse) has no effect and is answered with status 402, a header that forbids caching, and a
  header in which the client reads the challenge of the route.
\<close>

theorem unpaid_request_challenged:
  assumes "codecs_lawful K" and "hmac_nonempty K" and "http_lawful H"
    and "charge_with_options b X K R m (ro_amount route) (route_options route) = Ok c"
    and "visible (mpp_realm m)" and "case_option True visible (pc_expires c)"
    and "request_credential K H headers = None"
  shows "\<exists>rejection www.
    from_request_parts b X K T R ops H m s route headers = (s, [], Err rejection) \<and>
    rs_status (rejection_response H rejection) = 402 \<and>
    header_get (rs_headers (rejection_response H rejection)) ''cache-control'' = Some ''no-store'' \<and>
    header_get (rs_headers (rejection_response H rejection)) WWW_AUTHENTICATE_HEADER = Some www \<and>
    parse_www_authenticate K www = Ok (c\<lparr>pc_description := None\<rparr>)"
proof -
  have "from_request_parts b X K T R ops H m s route headers = (s, [], Err (Challenge (PaymentRequired c)))"
    by (simp add: from_request_parts_def assms(4,7))
  moreover from challenge_response [OF assms(1-6)] obtain body www where
    "payment_required_response H (PaymentRequired c) = (hc_text_response H 402 body)
      \<lparr>rs_headers := rs_headers (payment_required_response H (PaymentRequired c))\<rparr>"
    and www: "header_get (rs_headers (payment_required_response H (PaymentRequired c))) WWW_AUTHENTICATE_HEADER = Some www"
      "header_get (rs_headers (payment_required_response H (PaymentRequired c))) ''cache-control'' = Some ''no-store''"
      "parse_www_authenticate K www = Ok (c\<lparr>pc_description := None\<rparr>)" by blast
  then have "rs_status (payment_required_response H (PaymentRequired c)) = 402"
    using assms(3) by (metis http_lawful_def http_response.select_convs(1) http_response.surjective
        http_response.update_convs(2))
  ultimately show ?thesis using www by auto
qed

section \<open>Paid requests\<close>

lemma check_expected_Ok:
  "check_expected request expected = Ok u \<longleftrightarrow>
     cr_amount request = cr_amount expected \<and> cr_currency request = cr_currency expected \<and>
     cr_recipient request = cr_recipient expected"
  by (simp add: check_expected_def)

lemma issued_request_fields [simp]:
  "cr_amount (issued_request X R m units options) = units"
  "cr_currency (issued_request X R m units options) = mpp_currency m"
  "cr_recipient (issued_request X R m units options) = Some (mpp_recipient m)"
  by (simp_all add: issued_request_def charge_request_for_def)

lemma from_request_parts_Ok:
  assumes "from_request_parts b X K T R ops H m s route headers = (s', es, Ok r)"
  obtains c credential expected where
    "charge_with_options b X K R m (ro_amount route) (route_options route) = Ok c"
    and "request_credential K H headers = Some credential" and "decode_request K (pc_request c) = Ok expected"
    and "verify_credential_with_expected b X K T R ops m s credential expected = (s', es, Ok r)"
  using assms
  by (auto simp: from_request_parts_def split: result.splits option.splits prod.splits)

text \<open>
  C5. A request is let through to the handler of a route only for a payment of that route: its credential names
  the price of the route in base units, with the currency and the recipient of this server, and carries the
  id that this server's secret gives to the challenge it answers; its payload was settled during this
  request, as a charge of this route, and the signature of the payment was not used before and is now.
\<close>

theorem admitted_request_paid:
  assumes "codecs_lawful K" and "from_request_parts b X K T R ops H m s route headers = (s', es, Ok r)"
  shows "\<exists>credential request units payload md.
    request_credential K H headers = Some credential \<and> credential_request K credential = Ok request \<and>
    parse_units b (ro_amount route) (unat (ucast (mpp_decimals m) :: byte)) = Ok units \<and>
    cr_amount request = units \<and> cr_currency request = mpp_currency m \<and>
    cr_recipient request = Some (mpp_recipient m) \<and>
    check_challenge K m (cred_challenge credential) = Ok () \<and>
    credential_payload_of_json (cred_payload credential) = Ok payload \<and>
    request_details (issued_request X R m units (route_options route)) = Ok md \<and>
    settle b X T R m payload (issued_request X R m units (route_options route)) md = (es, Ok (rc_reference r)) \<and>
    store_put_if_absent ops s (consumed_key (rc_reference r)) (JBool True) = (s', Ok True) \<and>
    rc_challenge_id r = ce_id (cred_challenge credential)"
proof -
  from assms(2) obtain c credential expected where
    c: "charge_with_options b X K R m (ro_amount route) (route_options route) = Ok c"
    and cred: "request_credential K H headers = Some credential"
    and expected: "decode_request K (pc_request c) = Ok expected"
    and run: "verify_credential_with_expected b X K T R ops m s credential expected = (s', es, Ok r)"
    by (rule from_request_parts_Ok)
  from issued_challenge_decodes [OF assms(1) c] expected obtain units where
    units: "parse_units b (ro_amount route) (unat (ucast (mpp_decimals m) :: byte)) = Ok units"
    and eq: "expected = issued_request X R m units (route_options route)" by (metis result.inject(1))
  from run obtain request where request: "credential_request K credential = Ok request"
    and same: "check_expected request expected = Ok ()"
    and run: "verify b X K T R ops m s credential expected = (s', es, Ok r)"
    by (auto simp: verify_credential_with_expected_def split: result.splits)
  from run obtain signature where
    settled: "verify_and_settle b X K T R m credential expected = (es, Ok signature)"
    and consumed: "consume K ops s credential signature = (s', Ok r)"
    by (auto simp: verify_def Let_def split: prod.splits result.splits)
  from settled obtain payload md where "check_challenge K m (cred_challenge credential) = Ok ()"
    "credential_payload_of_json (cred_payload credential) = Ok payload" "request_details expected = Ok md"
    "settle b X T R m payload expected md = (es, Ok signature)" by (auto simp: verify_and_settle_def)
  moreover from consumed have "store_put_if_absent ops s (consumed_key signature) (JBool True) = (s', Ok True)"
    "rc_reference r = signature" "rc_challenge_id r = ce_id (cred_challenge credential)"
    by (auto simp: consume_def receipt_success_def split: prod.splits result.splits bool.splits)
  ultimately show ?thesis using cred request same units by (auto simp: eq check_expected_Ok)
qed

section \<open>The whole exchange\<close>

text \<open>How the gate answers once a payment has been verified and the network has been asked.\<close>

fun gate_answer ::
  "codecs \<Rightarrow> ('s, json) store \<Rightarrow> 's \<Rightarrow> payment_challenge \<Rightarrow> payment_credential \<Rightarrow>
   effect list \<times> (string, verification_error) result \<Rightarrow> 's \<times> effect list \<times> (receipt, rejection) result" where
  "gate_answer K ops s c credential (es, Ok signature) =
     (case consume K ops s credential signature of
        (s', Ok r) \<Rightarrow> (s', es, Ok r)
      | (s', Err _) \<Rightarrow> (s', es, Err (VerificationFailed (PaymentRequired c)))
      | (s', Panic) \<Rightarrow> (s', es, Panic))"
| "gate_answer K ops s c credential (es, Err _) = (s, es, Err (VerificationFailed (PaymentRequired c)))"
| "gate_answer K ops s c credential (es, Panic) = (s, es, Panic)"

lemma gate_verifies:
  assumes "charge_with_options b X K R m (ro_amount route) (route_options route) = Ok c"
    and "request_credential K H headers = Some credential" and "decode_request K (pc_request c) = Ok expected"
    and "credential_request K credential = Ok request" and "check_expected request expected = Ok ()"
    and "verify_and_settle b X K T R m credential expected = phase"
  shows "from_request_parts b X K T R ops H m s route headers = gate_answer K ops s c credential phase"
proof (cases phase)
  case (Pair es r)
  have "from_request_parts b X K T R ops H m s route headers =
    (case verify b X K T R ops m s credential expected of
        (s', es, Ok receipt) \<Rightarrow> (s', es, Ok receipt)
      | (s', es, Err _) \<Rightarrow> (s', es, Err (VerificationFailed (PaymentRequired c)))
      | (s', es, Panic) \<Rightarrow> (s', es, Panic))"
    by (simp add: from_request_parts_def assms(1-5) verify_credential_with_expected_def)
  also have "\<dots> = gate_answer K ops s c credential phase"
    unfolding verify_def assms(6) Pair
    by (cases r) (simp_all add: Let_def split: prod.splits result.splits)
  finally show ?thesis .
qed

text \<open>
  The credential header that a client builds from the header of the response, seen by the server of a route
  at a later time, with a fresh challenge and whatever the RPC answers by then.
\<close>

lemma charge_clock:
  "unexpired_at K t c = unexpired_at K t (c\<lparr>pc_description := None\<rparr>)"
  "build_credential_header b X K C T signer (c\<lparr>pc_description := None\<rparr>) = build_credential_header b X K C T signer c"
  by (simp_all add: unexpired_at_def is_expired_def build_credential_header_def to_echo_def)

lemma clock_change [simp]:
  "parse_authorization (K\<lparr>now_utc := t\<rparr>) = parse_authorization K" "codecs_lawful (K\<lparr>now_utc := t\<rparr>) = codecs_lawful K"
  by (simp_all add: parse_authorization_def base64url_decode_def codecs_lawful_def fun_eq_iff cong: if_cong)

lemma credential_header_visible:
  assumes "codecs_lawful K" and "build_credential_header b X K C T signer c = Ok header"
  shows "visible header" and "starts_with header ''Payment ''"
proof -
  from assms(2) obtain bytes where h: "header = ''Payment '' @ b64_encode K bytes"
    by (rule credential_header_Ok) (auto simp: format_authorization_def base64url_encode_def)
  have "visible (b64_encode K bytes)"
    using assms(1) by (intro visible_b64url) (simp add: codecs_lawful_def)
  then show "visible header" by (simp add: h visible_def)
  show "starts_with header ''Payment ''" by (simp add: h starts_with_def)
qed

text \<open>What a client finds in the response to a request without a credential.\<close>

lemma unpaid_response:
  assumes "codecs_lawful K" and "hmac_nonempty K" and "http_lawful H"
    and "from_request_parts b X K T R ops H m s route [] = (s', es, Err rejection)"
    and "header_get (rs_headers (rejection_response H rejection)) WWW_AUTHENTICATE_HEADER = Some www"
  obtains c where "charge_with_options b X K R m (ro_amount route) (route_options route) = Ok c"
    and "parse_challenge K www = Ok (c\<lparr>pc_description := None\<rparr>)"
proof -
  have bare: "header_get (rs_headers (hc_text_response H status body)) WWW_AUTHENTICATE_HEADER = None" for status body
    by (rule text_response_bare [OF assms(3)]) (simp add: WWW_AUTHENTICATE_HEADER_def)
  have "request_credential K H [] = None" by (simp add: request_credential_def header_get_def)
  with assms(4) bare assms(5) obtain c where
    c: "charge_with_options b X K R m (ro_amount route) (route_options route) = Ok c"
    and rejection: "rejection = Challenge (PaymentRequired c)"
    by (auto simp: from_request_parts_def split: result.splits)
  from assms(5) bare have "format_www_authenticate c = Ok www"
    by (auto simp: rejection Let_def WWW_AUTHENTICATE_HEADER_def split: result.splits if_splits)
  with issued_challenge_read_back [OF assms(1,2) c] c show thesis
    by (intro that) (simp_all add: parse_challenge_def)
qed

text \<open>
  C13. The exchange of the middleware, from end to end.  A client sends a request without a credential, takes the
  challenge from the header of the response, pays it and repeats the request, before the challenge expires,
  with the header it builds.  Whatever the server's RPC answers by then, the gate verifies this payment for
  the price of its route: all that is left to decide whether the request is let through is the broadcast of
  the client's transaction and whether its signature was used before.
\<close>

theorem paid_request_admitted:
  assumes "programs_known X" and "client_crates_lawful X C T" and "codecs_lawful K" and "hmac_nonempty K"
    and "http_lawful H" and "unat (mpp_decimals m) < 256" and "server_usable m (route_options route)"
    and "payer_apart X (sg_pubkey signer) (issued_details X R m (route_options route))"
    and "from_request_parts b X K T R ops H m s0 route [] = (s1, es, Err rejection)"
    and "header_get (rs_headers (rejection_response H rejection)) WWW_AUTHENTICATE_HEADER = Some www"
    and "parse_challenge K www = Ok c" and "build_credential_header b X K C T signer c = Ok header"
    and "length header \<le> MAX_TOKEN_LEN + 8" and "unexpired_at K t c"
    and "charge_with_options b X (K\<lparr>now_utc := t\<rparr>) R' m (ro_amount route) (route_options route) = Ok c'"
  shows "\<exists>credential units tx. parse_units b (ro_amount route) (unat (ucast (mpp_decimals m) :: byte)) = Ok units \<and>
    from_request_parts b X (K\<lparr>now_utc := t\<rparr>) T R' ops H m s route [(AUTHORIZATION_HEADER, header)] =
      gate_answer (K\<lparr>now_utc := t\<rparr>) ops s c' credential
        (broadcast_phase b X T R' m (issued_request X R' m units (route_options route))
          (issued_details X R' m (route_options route)) tx)"
proof -
  let ?K = "K\<lparr>now_utc := t\<rparr>" and ?o = "route_options route"
  obtain c0 where issued: "charge_with_options b X K R m (ro_amount route) ?o = Ok c0"
    and "parse_challenge K www = Ok (c0\<lparr>pc_description := None\<rparr>)"
    by (rule unpaid_response [OF assms(3-5,9,10)])
  with assms(11) have c: "c = c0\<lparr>pc_description := None\<rparr>" by simp
  have header: "build_credential_header b X K C T signer c0 = Ok header" and alive: "unexpired_at K t c0"
    using assms(12,14) by (simp_all add: c charge_clock(1) [of K t c0] charge_clock(2))
  from issued_charge_broadcasts [OF assms(1-3,6,7) issued assms(8) header assms(13) alive]
  obtain credential units tx where parsed: "parse_authorization K header = Ok credential"
    and units: "parse_units b (ro_amount route) (unat (ucast (mpp_decimals m) :: byte)) = Ok units"
    and request: "credential_request ?K credential = Ok (issued_request X R m units ?o)"
    and phase: "verify_and_settle b X ?K T R' m credential (issued_request X R' m units ?o) =
      broadcast_phase b X T R' m (issued_request X R' m units ?o) (issued_details X R' m ?o) tx" by blast
  note visible = credential_header_visible [OF assms(3) header]
  have "request_credential ?K H [(AUTHORIZATION_HEADER, header)] = Some credential"
    using assms(5) visible by (simp add: request_credential_def header_get_def http_lawful_def parsed)
  moreover have "decode_request ?K (pc_request c') = Ok (issued_request X R' m units ?o)"
    using issued_challenge_decodes [OF _ assms(15)] assms(3) units by (metis clock_change(2) result.inject(1))
  moreover have "check_expected (issued_request X R m units ?o) (issued_request X R' m units ?o) = Ok ()"
    by (simp add: check_expected_Ok)
  ultimately have "from_request_parts b X ?K T R' ops H m s route [(AUTHORIZATION_HEADER, header)] =
      gate_answer ?K ops s c' credential
        (broadcast_phase b X T R' m (issued_request X R' m units ?o) (issued_details X R' m ?o) tx)"
    using gate_verifies [OF assms(15)] request phase by metis
  with units show ?thesis by blast
qed

end
