(* ===== verification/Axum_Demo.thy ===== *)
theory Axum_Demo
  imports Axum_Properties
begin

text \<open>
  The shop behind the middleware: a route that costs 1.5, and the payment of a client.
\<close>

definition plain_http :: http_crate where
  "plain_http =
     \<lparr>hc_value_ok = (\<lambda>_. True), hc_to_str = Some,
      hc_text_response = (\<lambda>status body.
        \<lparr>rs_status = status, rs_headers = [(''content-type'', ''text/plain'')], rs_body = body\<rparr>),
      hc_json_text = (\<lambda>_. Err ''not printable'')\<rparr>"

definition shop_route :: charge_route where
  "shop_route = \<lparr>ro_amount = ''1.5'', ro_description = None\<rparr>"

definition shop_header :: string where
  "shop_header = ''Payment '' @ hex_encode (string_bytes ''c'')"

lemma plain_http_lawful: "http_lawful plain_http"
  by (simp add: http_lawful_def plain_http_def)

lemma till_nonempty: "hmac_nonempty till_codecs"
  by (simp add: hmac_nonempty_def till_codecs_def shop_codecs_def string_bytes_def)

lemma shop_route_options [simp]: "ro_amount shop_route = ''1.5''" "route_options shop_route = charge_options_default"
  by (simp_all add: shop_route_def route_options_def charge_options_default_def)

lemma shop_side:
  "unat (mpp_decimals shop) < 256" "server_usable shop (route_options shop_route)" "visible (mpp_realm shop)"
  "payer_apart charge_externs (sg_pubkey (wallet_named ''payer''))
     (issued_details charge_externs demo_rpc shop (route_options shop_route))"
  "length shop_header \<le> MAX_TOKEN_LEN + 8"
proof -
  show "unat (mpp_decimals shop) < 256" "visible (mpp_realm shop)" by (simp_all add: shop_def visible_def)
  show "server_usable shop (route_options shop_route)"
    by (simp add: server_usable_def charge_options_default_def shop_def)
  show "payer_apart charge_externs (sg_pubkey (wallet_named ''payer''))
      (issued_details charge_externs demo_rpc shop (route_options shop_route))"
    unfolding shop_route_options shop_details_def [symmetric] by (simp add: payer_apart_def client_fee_payer_def shop_data)
  show "length shop_header \<le> MAX_TOKEN_LEN + 8"
    by (simp add: shop_header_def hex_encode_def string_bytes_def MAX_TOKEN_LEN_def)
qed

lemma till_alive: "unexpired_at till_codecs 5 shop_challenge"
  by (simp add: unexpired_at_def is_expired_def shop_challenge_def with_secret_key_full_def)
    (simp add: till_codecs_def shop_codecs_def)

text \<open>Five seconds later the shop issues the same challenge.\<close>

lemma till_charges_later:
  "charge_with_options Debug_Build charge_externs (till_codecs\<lparr>now_utc := 5\<rparr>) demo_rpc shop
     (ro_amount shop_route) (route_options shop_route) = Ok shop_challenge"
proof -
  have expires: "expires_minutes (till_codecs\<lparr>now_utc := 5\<rparr>) 5 = (Ok ''later'' :: (string, error) result)"
    "expires_minutes till_codecs 5 = (Ok ''later'' :: (string, error) result)"
    by (simp_all add: expires_minutes_def expires_unit_def offset_time_def in_date_range_def till_codecs_def
        shop_codecs_def)
  have "from_typed_request (till_codecs\<lparr>now_utc := 5\<rparr>) r = from_typed_request till_codecs r" for r
    by (simp add: from_typed_request_def base64url_encode_def)
  then show ?thesis
    using till_charges by (simp add: charge_with_options_def expires with_secret_key_full_def)
qed

theorem unpaid_request_challenged_witness:
  "\<exists>rejection www.
    from_request_parts Debug_Build charge_externs till_codecs (server_for shop_transaction) demo_rpc
      (memory_store_ops demo_json_codec) plain_http shop memory_store_new shop_route
      [(AUTHORIZATION_HEADER, ''Bearer token'')] = (memory_store_new, [], Err rejection) \<and>
    rs_status (rejection_response plain_http rejection) = 402 \<and>
    header_get (rs_headers (rejection_response plain_http rejection)) ''cache-control'' = Some ''no-store'' \<and>
    header_get (rs_headers (rejection_response plain_http rejection)) WWW_AUTHENTICATE_HEADER = Some www \<and>
    parse_www_authenticate till_codecs www = Ok (shop_challenge\<lparr>pc_description := None\<rparr>)"
proof -
  have expires: "case_option True visible (pc_expires shop_challenge)"
    by (simp add: shop_challenge_def with_secret_key_full_def visible_def)
  have none: "request_credential till_codecs plain_http [(AUTHORIZATION_HEADER, ''Bearer token'')] = None"
    by (simp add: request_credential_def header_get_def plain_http_def starts_with_def)
  have issued: "charge_with_options Debug_Build charge_externs till_codecs demo_rpc shop
      (ro_amount shop_route) (route_options shop_route) = Ok shop_challenge"
    using till_charges by simp
  show ?thesis
    by (rule unpaid_request_challenged
        [OF till_codecs_lawful till_nonempty plain_http_lawful issued shop_side(3) expires none])
qed

lemma shop_answer_header:
  "build_credential_header Debug_Build charge_externs till_codecs (client_for shop_transaction)
     (server_for shop_transaction) (wallet_named ''payer'') shop_challenge = Ok shop_header"
  unfolding shop_header_def by (rule till_answers)

lemma shop_unpaid:
  "\<exists>www. from_request_parts Debug_Build charge_externs till_codecs (server_for shop_transaction) demo_rpc
      (memory_store_ops demo_json_codec) plain_http shop memory_store_new shop_route [] =
      (memory_store_new, [], Err (Challenge (PaymentRequired shop_challenge))) \<and>
    header_get (rs_headers (rejection_response plain_http (Challenge (PaymentRequired shop_challenge))))
      WWW_AUTHENTICATE_HEADER = Some www \<and>
    parse_challenge till_codecs www = Ok (shop_challenge\<lparr>pc_description := None\<rparr>)"
proof -
  have expires: "case_option True visible (pc_expires shop_challenge)"
    by (simp add: shop_challenge_def with_secret_key_full_def visible_def)
  from challenge_response [OF till_codecs_lawful till_nonempty plain_http_lawful till_charges shop_side(3) expires]
  obtain www where "header_get (rs_headers (payment_required_response plain_http (PaymentRequired shop_challenge)))
      WWW_AUTHENTICATE_HEADER = Some www"
    "parse_www_authenticate till_codecs www = Ok (shop_challenge\<lparr>pc_description := None\<rparr>)" by blast
  moreover have "request_credential till_codecs plain_http [] = None"
    by (simp add: request_credential_def header_get_def)
  ultimately show ?thesis
    by (simp add: from_request_parts_def till_charges parse_challenge_def)
qed

theorem paid_request_admitted_witness:
  "\<exists>credential units tx. parse_units Debug_Build ''1.5'' 2 = Ok units \<and>
    from_request_parts Debug_Build charge_externs (till_codecs\<lparr>now_utc := 5\<rparr>) (server_for shop_transaction) demo_rpc
      (memory_store_ops demo_json_codec) plain_http shop memory_store_new shop_route
      [(AUTHORIZATION_HEADER, shop_header)] =
      gate_answer (till_codecs\<lparr>now_utc := 5\<rparr>) (memory_store_ops demo_json_codec) memory_store_new shop_challenge
        credential
        (broadcast_phase Debug_Build charge_externs (server_for shop_transaction) demo_rpc shop
          (issued_request charge_externs demo_rpc shop units charge_options_default)
          (issued_details charge_externs demo_rpc shop charge_options_default) tx)"
proof -
  obtain www where unpaid: "from_request_parts Debug_Build charge_externs till_codecs (server_for shop_transaction)
      demo_rpc (memory_store_ops demo_json_codec) plain_http shop memory_store_new shop_route [] =
      (memory_store_new, [], Err (Challenge (PaymentRequired shop_challenge)))"
    and www: "header_get (rs_headers (rejection_response plain_http (Challenge (PaymentRequired shop_challenge))))
      WWW_AUTHENTICATE_HEADER = Some www"
    and parsed: "parse_challenge till_codecs www = Ok (shop_challenge\<lparr>pc_description := None\<rparr>)"
    using shop_unpaid by blast
  have header: "build_credential_header Debug_Build charge_externs till_codecs (client_for shop_transaction)
      (server_for shop_transaction) (wallet_named ''payer'') (shop_challenge\<lparr>pc_description := None\<rparr>) = Ok shop_header"
    and alive: "unexpired_at till_codecs 5 (shop_challenge\<lparr>pc_description := None\<rparr>)"
    using shop_answer_header till_alive charge_clock(1) [of till_codecs 5 shop_challenge] by (simp_all add: charge_clock(2))
  have decimals: "unat (ucast (mpp_decimals shop) :: byte) = 2" by (simp add: shop_def)
  from paid_request_admitted [OF charge_programs_known client_for_lawful till_codecs_lawful till_nonempty
      plain_http_lawful shop_side(1,2,4) unpaid www parsed header shop_side(5) alive till_charges_later]
  show ?thesis unfolding decimals shop_route_options .
qed

section \<open>A request let through\<close>

lemma server_for_knows:
  "decode_transaction (server_for known) transaction = Ok tx \<Longrightarrow> tx = known"
  by (auto simp: decode_transaction_def server_for_def split: if_splits)

lemma shop_broadcasts:
  "broadcast_phase Debug_Build charge_externs (server_for shop_transaction) demo_rpc shop shop_request shop_details shop_transaction =
     ([Simulated shop_transaction, Sent shop_transaction, Confirming ''sig'', Confirming ''sig''], Ok ''sig'')"
proof -
  have encoded: "bs58_encode charge_externs (string_bytes s) = s" for s
    by (simp add: charge_externs_def string_bytes_def o_def unat_of_nat)
  have "bs58_encode charge_externs (tx_recent_blockhash shop_transaction) = ''hash''"
    by (simp add: shop_transaction_def compile_message_def Let_def encoded)
  then have "check_network_blockhash (mpp_network shop) (bs58_encode charge_externs (tx_recent_blockhash shop_transaction)) =
      Ok ()"
    by (simp add: check_network_blockhash_def SURFPOOL_BLOCKHASH_PREFIX_def starts_with_def)
  moreover have "cosign (server_for shop_transaction) shop shop_details shop_transaction = ([], Ok shop_transaction)"
    by (simp add: cosign_def shop_data)
  ultimately show ?thesis
    by (simp add: broadcast_phase_def SIMULATION_MAX_ATTEMPTS_def CONFIRM_ATTEMPTS_def numeral_eq_Suc demo_rpc_def Let_def)
qed

lemma shop_admits:
  "\<exists>s' es r. from_request_parts Debug_Build charge_externs (till_codecs\<lparr>now_utc := 5\<rparr>) (server_for shop_transaction)
      demo_rpc (memory_store_ops demo_json_codec) plain_http shop memory_store_new shop_route
      [(AUTHORIZATION_HEADER, shop_header)] = (s', es, Ok r)"
proof -
  let ?K = "till_codecs\<lparr>now_utc := 5\<rparr>"
  obtain credential transaction tx units where
    parsed: "parse_authorization till_codecs shop_header = Ok credential"
    and echo: "cred_challenge credential = to_echo shop_challenge"
    and payload: "credential_payload_of_json (cred_payload credential) = Ok (Transaction transaction)"
    and units: "decode_request till_codecs (pc_request shop_challenge) =
      Ok (issued_request charge_externs demo_rpc shop units charge_options_default)"
    and tx: "decode_transaction (server_for shop_transaction) transaction = Ok tx"
    and verified: "verify_versioned_transaction_pre_broadcast Debug_Build charge_externs tx
      (issued_request charge_externs demo_rpc shop units charge_options_default)
      (issued_details charge_externs demo_rpc shop charge_options_default) = Ok ()"
    by (rule issued_charge_credential [OF charge_programs_known client_for_lawful till_codecs_lawful
          shop_side(1) shop_side(2) [unfolded shop_route_options] till_charges
          shop_side(4) [unfolded shop_route_options] shop_answer_header shop_side(5)])
  have tx_eq: "tx = shop_transaction" by (rule server_for_knows [OF tx])
  have request: "issued_request charge_externs demo_rpc shop units charge_options_default = shop_request"
    using units shop_decodes by simp
  from issued_challenge_settles [OF till_codecs_lawful shop_side(1) till_charges echo till_alive payload]
  obtain units' where units': "credential_request ?K credential =
        Ok (issued_request charge_externs demo_rpc shop units' charge_options_default)"
    and settled: "verify_and_settle Debug_Build charge_externs ?K (server_for shop_transaction) demo_rpc shop credential
        (issued_request charge_externs demo_rpc shop units' charge_options_default) =
      settle Debug_Build charge_externs (server_for shop_transaction) demo_rpc shop (Transaction transaction)
        (issued_request charge_externs demo_rpc shop units' charge_options_default)
        (issued_details charge_externs demo_rpc shop charge_options_default)" by blast
  have request': "issued_request charge_externs demo_rpc shop units' charge_options_default = shop_request"
    using units' units request by (simp add: credential_request_def echo to_echo_def)
  have phase: "verify_and_settle Debug_Build charge_externs ?K (server_for shop_transaction) demo_rpc shop credential
      shop_request = broadcast_phase Debug_Build charge_externs (server_for shop_transaction) demo_rpc shop shop_request
        shop_details shop_transaction"
    using settled verify_pull_broadcasts [OF tx verified]
    by (simp add: request request' settle_def tx_eq shop_details_def)
  have cred: "request_credential ?K plain_http [(AUTHORIZATION_HEADER, shop_header)] = Some credential"
    using credential_header_visible(2) [OF till_codecs_lawful shop_answer_header]
    by (simp add: request_credential_def header_get_def plain_http_def parsed)
  have decoded: "decode_request ?K (pc_request shop_challenge) = Ok shop_request" by (simp add: shop_decodes)
  have "credential_request ?K credential = Ok shop_request" using units' request' by simp
  from gate_verifies [OF till_charges_later cred decoded this _ phase [unfolded shop_broadcasts]]
  have "from_request_parts Debug_Build charge_externs ?K (server_for shop_transaction)
      demo_rpc (memory_store_ops demo_json_codec) plain_http shop memory_store_new shop_route
      [(AUTHORIZATION_HEADER, shop_header)] =
      gate_answer ?K (memory_store_ops demo_json_codec) memory_store_new shop_challenge credential
        ([Simulated shop_transaction, Sent shop_transaction, Confirming ''sig'', Confirming ''sig''], Ok ''sig'')"
    by (simp add: check_expected_def)
  then show ?thesis
    by (simp add: consume_def memory_store_ops_def memory_put_if_absent_def memory_store_new_def demo_json_codec_def)
qed

theorem admitted_request_paid_witness:
  "\<exists>s' es r credential request units payload md.
    from_request_parts Debug_Build charge_externs (till_codecs\<lparr>now_utc := 5\<rparr>) (server_for shop_transaction)
      demo_rpc (memory_store_ops demo_json_codec) plain_http shop memory_store_new shop_route
      [(AUTHORIZATION_HEADER, shop_header)] = (s', es, Ok r) \<and>
    request_credential (till_codecs\<lparr>now_utc := 5\<rparr>) plain_http [(AUTHORIZATION_HEADER, shop_header)] = Some credential \<and>
    credential_request (till_codecs\<lparr>now_utc := 5\<rparr>) credential = Ok request \<and>
    parse_units Debug_Build ''1.5'' 2 = Ok units \<and> cr_amount request = units \<and>
    settle Debug_Build charge_externs (server_for shop_transaction) demo_rpc shop payload
      (issued_request charge_externs demo_rpc shop units charge_options_default) md = (es, Ok (rc_reference r))"
proof -
  have decimals: "unat (ucast (mpp_decimals shop) :: byte) = 2" by (simp add: shop_def)
  have lawful: "codecs_lawful (till_codecs\<lparr>now_utc := 5\<rparr>)" by (simp add: till_codecs_lawful)
  obtain s' es r where admitted: "from_request_parts Debug_Build charge_externs (till_codecs\<lparr>now_utc := 5\<rparr>)
      (server_for shop_transaction) demo_rpc (memory_store_ops demo_json_codec) plain_http shop memory_store_new
      shop_route [(AUTHORIZATION_HEADER, shop_header)] = (s', es, Ok r)" using shop_admits by blast
  from admitted_request_paid [OF lawful admitted, unfolded decimals shop_route_options] admitted
  show ?thesis by blast
qed

end
