(* ===== verification/Html_Properties.thy ===== *)
theory Html_Properties
  imports Html Axum_Demo
begin

text \<open>
  Properties of the payment page: text that it shows cannot become markup and is what was given, the
  template is filled where its places are, and whole prices are shown exactly.
\<close>

section \<open>Escaping\<close>

lemma replace_str_char:
  "replace_str [c] r s = concat (map (\<lambda>x. if x = c then r else [x]) s)"
  by (induction "[c]" r s rule: replace_str.induct) auto

fun escape_html_char :: "char \<Rightarrow> string" where
  "escape_html_char c =
     (if c = CHR ''&'' then ''&amp;'' else if c = CHR ''<'' then ''&lt;'' else if c = CHR ''>'' then ''&gt;''
      else if c = CHR 34 then ''&quot;'' else if c = CHR 39 then ''&#x27;'' else [c])"

declare escape_html_char.simps [simp del]

text \<open>The five replacements, one after the other, are one pass over the text.\<close>

lemma escape_html_map: "escape_html s = concat (map escape_html_char s)"
proof (induction s)
  case (Cons c s)
  have "replace_str p r (x @ y) = replace_str p r x @ replace_str p r y" if "\<exists>d. p = [d]" for p r x y
    using that by (auto simp: replace_str_char)
  note split = this
  have "escape_html (c # s) = escape_html [c] @ escape_html s"
    unfolding escape_html_def using split by (metis append_Cons append_Nil)
  moreover have "escape_html [c] = escape_html_char c"
    by (simp add: escape_html_def replace_str_char escape_html_char.simps)
  ultimately show ?case using Cons by simp
qed (simp add: escape_html_def)

lemma escape_html_append: "escape_html (s @ t) = escape_html s @ escape_html t"
  by (simp add: escape_html_map)

text \<open>How a browser reads the text: the five entities stand for one character each.\<close>

fun read_entity :: "(string \<times> char) list \<Rightarrow> string \<Rightarrow> (char \<times> string) option" where
  "read_entity [] s = None"
| "read_entity ((name, c) # es) s =
     (case strip_prefix name s of Some rest \<Rightarrow> Some (c, rest) | None \<Rightarrow> read_entity es s)"

definition HTML_ENTITIES :: "(string \<times> char) list" where
  "HTML_ENTITIES =
     [(''&amp;'', CHR ''&''), (''&lt;'', CHR ''<''), (''&gt;'', CHR ''>''), (''&quot;'', CHR 34), (''&#x27;'', CHR 39)]"

lemma read_entity_shrinks:
  "list_all (\<lambda>e. fst e \<noteq> []) es \<Longrightarrow> read_entity es s = Some (c, rest) \<Longrightarrow> length rest < length s"
  by (induction es s rule: read_entity.induct) (auto dest: strip_prefix_shrinks split: option.splits)

function html_text :: "string \<Rightarrow> string" where
  "html_text [] = []"
| "html_text (c # cs) =
     (case read_entity HTML_ENTITIES (c # cs) of
        Some (d, rest) \<Rightarrow> d # html_text rest
      | None \<Rightarrow> c # html_text cs)"
  by pat_completeness auto
termination
proof (relation "measure length")
  show "(rest, c # cs) \<in> measure length"
    if "read_entity HTML_ENTITIES (c # cs) = Some e" "(d, rest) = e" for c cs e d rest
    using read_entity_shrinks [of HTML_ENTITIES "c # cs" d rest] that by (simp add: HTML_ENTITIES_def)
qed auto

lemma html_text_char: "html_text (escape_html_char c @ s) = c # html_text s"
  by (simp add: escape_html_char.simps HTML_ENTITIES_def)

lemma html_text_escaped: "html_text (escape_html s @ t) = s @ html_text t"
  by (induction s) (simp_all add: escape_html_map html_text_char)

lemma escape_html_plain:
  "set (escape_html s) \<inter> {CHR ''<'', CHR ''>'', CHR 34, CHR 39} = {}"
  by (auto simp: escape_html_map escape_html_char.simps split: if_splits)

text \<open>
  C22. Escaped text cannot become markup, in an element or in a quoted attribute, and a browser shows it as it
  was: it holds no angle bracket and no quote of either kind, and reading its entities gives the text back.
\<close>

theorem escaped_text_shown_as_given:
  "html_text (escape_html s) = s \<and> set (escape_html s) \<inter> {CHR ''<'', CHR ''>'', CHR 34, CHR 39} = {}"
  using html_text_escaped [of s "[]"] escape_html_plain by simp

section \<open>Filling the template\<close>

text \<open>A text in which no place of the template begins, whatever follows it.\<close>

fun begins_place :: "string \<Rightarrow> bool" where
  "begins_place (c # d # e # s) \<longleftrightarrow> c = CHR ''{'' \<and> d = CHR ''{'' \<and> is_ascii_uppercase e"
| "begins_place (c # d # []) \<longleftrightarrow> c = CHR ''{'' \<and> d = CHR ''{''"
| "begins_place (c # []) \<longleftrightarrow> c = CHR ''{''"
| "begins_place [] \<longleftrightarrow> False"

fun inert :: "string \<Rightarrow> bool" where
  "inert [] \<longleftrightarrow> True"
| "inert (c # s) \<longleftrightarrow> \<not> begins_place (c # s) \<and> inert s"

definition place :: "string \<Rightarrow> bool" where
  "place p \<longleftrightarrow> (\<exists>e s. p = ''{{'' @ e # s \<and> is_ascii_uppercase e)"

lemma places: "place AMOUNT_PLACE" "place DESCRIPTION_PLACE" "place EXPIRES_PLACE" "place DATA_PLACE"
  by (simp_all add: place_def AMOUNT_PLACE_def DESCRIPTION_PLACE_def EXPIRES_PLACE_def DATA_PLACE_def
      is_ascii_uppercase_def)

lemma begins_placeD:
  "begins_place (c # s) \<Longrightarrow> c = CHR ''{''" "begins_place (c # d # s) \<Longrightarrow> d = CHR ''{''"
  by (cases "c # s" rule: begins_place.cases, auto, cases s, auto)

lemma inert_append: "inert s \<Longrightarrow> inert t \<Longrightarrow> inert (s @ t)"
proof (induction s)
  case (Cons c s)
  then show ?case by (cases "c # s" rule: begins_place.cases) (auto dest: begins_placeD)
qed simp

lemma inert_braceless: "CHR ''{'' \<notin> set s \<Longrightarrow> inert s"
proof (induction s)
  case (Cons c s)
  then show ?case by (cases "c # s" rule: begins_place.cases) auto
qed simp

lemma inert_no_place: "place p \<Longrightarrow> \<not> begins_place (c # s) \<Longrightarrow> inert s \<Longrightarrow> strip_prefix p (c # s @ t) = None"
  by (cases "c # s" rule: begins_place.cases) (auto simp: place_def)

lemma replace_str_skip:
  assumes "inert s" and "place p"
  shows "replace_str p r (s @ t) = s @ replace_str p r t"
  using assms(1)
proof (induction s)
  case (Cons c s)
  then have "strip_prefix p (c # s @ t) = None" using assms(2) by (intro inert_no_place) auto
  moreover have "p \<noteq> []" using assms(2) by (auto simp: place_def)
  ultimately show ?case using Cons by simp
qed simp

lemma replace_str_here: "place p \<Longrightarrow> replace_str p r (p @ t) = r @ replace_str p r t"
  by (cases p) (auto simp: place_def)

text \<open>One place is not found in another.\<close>

lemma places_apart:
  "replace_str AMOUNT_PLACE r (DESCRIPTION_PLACE @ t) = DESCRIPTION_PLACE @ replace_str AMOUNT_PLACE r t"
  "replace_str AMOUNT_PLACE r (EXPIRES_PLACE @ t) = EXPIRES_PLACE @ replace_str AMOUNT_PLACE r t"
  "replace_str AMOUNT_PLACE r (DATA_PLACE @ t) = DATA_PLACE @ replace_str AMOUNT_PLACE r t"
  "replace_str DESCRIPTION_PLACE r (EXPIRES_PLACE @ t) = EXPIRES_PLACE @ replace_str DESCRIPTION_PLACE r t"
  "replace_str DESCRIPTION_PLACE r (DATA_PLACE @ t) = DATA_PLACE @ replace_str DESCRIPTION_PLACE r t"
  "replace_str EXPIRES_PLACE r (DATA_PLACE @ t) = DATA_PLACE @ replace_str EXPIRES_PLACE r t"
  by (simp_all add: AMOUNT_PLACE_def DESCRIPTION_PLACE_def EXPIRES_PLACE_def DATA_PLACE_def)

lemmas place_simps = replace_str_here replace_str_skip places places_apart

text \<open>A template with its four places, in this order, between texts in which no place begins.\<close>

definition template_parts :: "string \<Rightarrow> string \<Rightarrow> string \<Rightarrow> string \<Rightarrow> string \<Rightarrow> string \<Rightarrow> bool" where
  "template_parts template t0 t1 t2 t3 t4 \<longleftrightarrow>
     template = t0 @ AMOUNT_PLACE @ t1 @ DESCRIPTION_PLACE @ t2 @ EXPIRES_PLACE @ t3 @ DATA_PLACE @ t4 \<and>
     inert t0 \<and> inert t1 \<and> inert t2 \<and> inert t3 \<and> inert t4"

lemma inert_end: "inert s \<Longrightarrow> place p \<Longrightarrow> replace_str p r s = s"
  using replace_str_skip [of s p r "[]"] by simp

lemma escape_html_braceless: "CHR ''{'' \<notin> set s \<Longrightarrow> CHR ''{'' \<notin> set (escape_html s)"
  by (auto simp: escape_html_map escape_html_char.simps split: if_splits)

lemma escape_html_char_head:
  "\<exists>x t. escape_html_char c = x # t \<and> (x = CHR ''{'' \<longleftrightarrow> c = CHR ''{'') \<and>
     (is_ascii_uppercase x \<longrightarrow> is_ascii_uppercase c) \<and> CHR ''{'' \<notin> set t"
  by (auto simp: escape_html_char.simps is_ascii_uppercase_def)

lemma escape_html_Cons: "escape_html (c # s) = escape_html_char c @ escape_html s"
  by (simp add: escape_html_map)

text \<open>Escaping begins no place.\<close>

lemma begins_place_escaped: "begins_place (CHR ''{'' # escape_html s) \<Longrightarrow> begins_place (CHR ''{'' # s)"
proof -
  assume begins: "begins_place (CHR ''{'' # escape_html s)"
  show ?thesis
  proof (cases s)
    case (Cons d s')
    obtain x t where x: "escape_html_char d = x # t" "x = CHR ''{'' \<longleftrightarrow> d = CHR ''{''"
      using escape_html_char_head [of d] by blast
    with begins Cons have d: "d = CHR ''{''" by (auto simp: escape_html_Cons dest: begins_placeD(2))
    then have braces: "escape_html s = CHR ''{'' # escape_html s'"
      by (simp add: Cons escape_html_Cons escape_html_char.simps)
    show ?thesis
    proof (cases s')
      case Nil
      then show ?thesis by (simp add: Cons d)
    next
      case (Cons e r)
      obtain y u where y: "escape_html_char e = y # u" "is_ascii_uppercase y \<longrightarrow> is_ascii_uppercase e"
        using escape_html_char_head [of e] by blast
      with begins braces Cons have "is_ascii_uppercase e" by (simp add: escape_html_Cons)
      then show ?thesis by (simp add: \<open>s = d # s'\<close> d Cons)
    qed
  qed simp
qed

lemma inert_escape: "inert s \<Longrightarrow> inert (escape_html s)"
proof (induction s)
  case (Cons c s)
  then have rest: "inert (escape_html s)" and here: "\<not> begins_place (c # s)" by simp_all
  show ?case
  proof (cases "c = CHR ''{''")
    case True
    then have "escape_html (c # s) = CHR ''{'' # escape_html s"
      by (simp add: escape_html_Cons escape_html_char.simps)
    with rest here True begins_place_escaped [of s] show ?thesis by auto
  next
    case False
    then have "CHR ''{'' \<notin> set (escape_html_char c)"
      using escape_html_char_head [of c] by auto
    with rest show ?thesis by (simp add: escape_html_Cons inert_append inert_braceless)
  qed
qed (simp add: escape_html_map)

lemma markup_inert:
  assumes "case_option True inert (pc_description c)" and "case_option True inert (pc_expires c)"
  shows "inert (description_html c)" and "inert (expires_html c)"
proof -
  show "inert (description_html c)"
  proof (cases "pc_description c")
    case (Some t)
    with assms(1) have "inert (escape_html t)" by (simp add: inert_escape)
    then show ?thesis unfolding description_html_def Some option.case
      by (intro inert_append) simp_all
  qed (simp add: description_html_def)
  show "inert (expires_html c)"
  proof (cases "pc_expires c")
    case (Some t)
    with assms(2) have "inert (escape_html t)" by (simp add: inert_escape)
    then show ?thesis unfolding expires_html_def Some option.case Let_def
      by (intro inert_append) simp_all
  qed (simp add: expires_html_def)
qed

lemma fill_template:
  assumes "template_parts template t0 t1 t2 t3 t4" and "inert a" and "inert d" and "inert e"
  shows "replace_str DATA_PLACE j (replace_str EXPIRES_PLACE e (replace_str DESCRIPTION_PLACE d
      (replace_str AMOUNT_PLACE a template))) = t0 @ a @ t1 @ d @ t2 @ e @ t3 @ j @ t4"
proof -
  from assms(1) have template:
    "template = t0 @ AMOUNT_PLACE @ t1 @ DESCRIPTION_PLACE @ t2 @ EXPIRES_PLACE @ t3 @ DATA_PLACE @ t4"
    and parts: "inert t0" "inert t1" "inert t2" "inert t3" "inert t4" by (simp_all add: template_parts_def)
  have "replace_str AMOUNT_PLACE a template =
      t0 @ a @ t1 @ DESCRIPTION_PLACE @ t2 @ EXPIRES_PLACE @ t3 @ DATA_PLACE @ t4"
    unfolding template by (simp add: place_simps inert_end parts)
  then have "replace_str DESCRIPTION_PLACE d (replace_str AMOUNT_PLACE a template) =
      t0 @ a @ t1 @ d @ t2 @ EXPIRES_PLACE @ t3 @ DATA_PLACE @ t4"
    by (simp add: place_simps inert_end parts assms(2))
  then have "replace_str EXPIRES_PLACE e (replace_str DESCRIPTION_PLACE d (replace_str AMOUNT_PLACE a template)) =
      t0 @ a @ t1 @ d @ t2 @ e @ t3 @ DATA_PLACE @ t4"
    by (simp add: place_simps inert_end parts assms(2,3))
  then show ?thesis by (simp add: place_simps inert_end parts assms(2-4))
qed

lemma page_data_no_tag: "CHR ''<'' \<notin> set (page_data F c rpc_url network)"
  by (auto simp: page_data_def replace_str_char Let_def split: result.splits)

text \<open>
  C21. The page is the template with its four places filled, for amounts, descriptions and expiry texts in which
  no place of a template begins (two braces and a capital letter, or a brace at the end): the amount, the
  description and the expiry are the escaped ones, and the challenge is there as JSON.  Nothing of the challenge
  can then open or close an element: the data holds no angle bracket that opens a tag, and the texts are escaped.
\<close>

theorem payment_page_filled:
  assumes "template_parts (HTML_TEMPLATE F) t0 t1 t2 t3 t4"
    and "amount_display F (page_request K c) = (Ok amount :: (string, error) result)" and "inert amount"
    and "case_option True inert (pc_description c)" and "case_option True inert (pc_expires c)"
  shows "challenge_to_html K F c rpc_url network =
      (Ok (t0 @ escape_html amount @ t1 @ description_html c @ t2 @ expires_html c @ t3 @
           page_data F c rpc_url network @ t4) :: (string, error) result) \<and>
    CHR ''<'' \<notin> set (escape_html amount) \<and> CHR ''<'' \<notin> set (page_data F c rpc_url network)"
proof -
  note fill_template [OF assms(1) inert_escape [OF assms(3)] markup_inert [OF assms(4,5)]]
  moreover have "CHR ''<'' \<notin> set (escape_html amount)" using escape_html_plain [of amount] by auto
  moreover have "(amount_display F (page_request K c) :: (string, error) result) = Ok amount" using assms(2) by simp
  ultimately show ?thesis using page_data_no_tag by (simp add: challenge_to_html_def)
qed

text \<open>
  Without the condition on descriptions it fails: a place that a description names is filled too, with data that is
  not escaped for an element.
\<close>

lemma place_in_description_filled:
  assumes "template_parts (HTML_TEMPLATE F) t0 t1 t2 t3 t4"
    and "amount_display F (page_request K c) = (Ok amount :: (string, error) result)" and "CHR ''{'' \<notin> set amount"
    and "pc_description c = Some DATA_PLACE" and "pc_expires c = None"
  shows "challenge_to_html K F c rpc_url network =
      (Ok (t0 @ escape_html amount @ t1 @
           (''<p class='' @ [CHR 34] @ ''mppx-summary-description'' @ [CHR 34] @ ''>'' @
            page_data F c rpc_url network @ ''</p>'') @
           t2 @ t3 @ page_data F c rpc_url network @ t4) :: (string, error) result)"
proof -
  let ?open = "''<p class='' @ [CHR 34] @ ''mppx-summary-description'' @ [CHR 34] @ ''>''"
  let ?data = "page_data F c rpc_url network"
  have amount: "inert (escape_html amount)" using assms(3) by (intro inert_braceless escape_html_braceless)
  have markup: "inert ?open" "inert ''</p>''" "inert []" by (intro inert_braceless, simp)+
  from assms(1) have template:
    "HTML_TEMPLATE F = t0 @ AMOUNT_PLACE @ t1 @ DESCRIPTION_PLACE @ t2 @ EXPIRES_PLACE @ t3 @ DATA_PLACE @ t4"
    and parts: "inert t0" "inert t1" "inert t2" "inert t3" "inert t4" by (simp_all add: template_parts_def)
  have "escape_html DATA_PLACE = DATA_PLACE"
    by (simp add: DATA_PLACE_def escape_html_map escape_html_char.simps)
  then have description: "description_html c = ?open @ DATA_PLACE @ ''</p>''"
    unfolding description_html_def assms(4) by (simp only: option.case append_assoc)
  have expires: "expires_html c = []" by (simp add: expires_html_def assms(5))
  define p where "p = ?open"
  define q where "q = ''</p>''"
  note inert_parts = parts amount markup(1) [folded p_def] markup(2) [folded q_def]
  have "replace_str AMOUNT_PLACE (escape_html amount) (HTML_TEMPLATE F) =
      t0 @ escape_html amount @ t1 @ DESCRIPTION_PLACE @ t2 @ EXPIRES_PLACE @ t3 @ DATA_PLACE @ t4"
    unfolding template by (simp add: place_simps inert_end parts)
  then have "replace_str DESCRIPTION_PLACE (description_html c) (replace_str AMOUNT_PLACE (escape_html amount) (HTML_TEMPLATE F)) =
      t0 @ escape_html amount @ t1 @ p @ DATA_PLACE @ q @ t2 @ EXPIRES_PLACE @ t3 @ DATA_PLACE @ t4"
    unfolding description p_def [symmetric] q_def [symmetric] by (simp add: place_simps inert_end inert_parts)
  then have "replace_str EXPIRES_PLACE (expires_html c) (replace_str DESCRIPTION_PLACE (description_html c)
      (replace_str AMOUNT_PLACE (escape_html amount) (HTML_TEMPLATE F))) =
      t0 @ escape_html amount @ t1 @ p @ DATA_PLACE @ q @ t2 @ t3 @ DATA_PLACE @ t4"
    by (simp add: expires place_simps inert_end inert_parts)
  then have "replace_str DATA_PLACE ?data (replace_str EXPIRES_PLACE (expires_html c)
      (replace_str DESCRIPTION_PLACE (description_html c) (replace_str AMOUNT_PLACE (escape_html amount) (HTML_TEMPLATE F)))) =
      t0 @ escape_html amount @ t1 @ (p @ ?data @ q) @ t2 @ t3 @ ?data @ t4"
    by (simp add: place_simps inert_end inert_parts)
  moreover have "(amount_display F (page_request K c) :: (string, error) result) = Ok amount" using assms(2) by simp
  ultimately show ?thesis unfolding challenge_to_html_def p_def q_def by (simp only: rbind.simps append_assoc)
qed

section \<open>The price\<close>

text \<open>The request on the page is the canonical form of the one that was issued.\<close>

lemma issued_page_request:
  assumes "codecs_lawful K" and "charge_with_options b X K R m amount options = Ok c"
  obtains units where "parse_units b amount (unat (ucast (mpp_decimals m) :: byte)) = Ok units"
    and "page_request K c = canonical (charge_request_to_json (charge_request_for X R m units options))"
proof -
  from charge_with_options_Ok [OF assms(2)] obtain units encoded expires where
    units: "parse_units b amount (unat (ucast (mpp_decimals m) :: byte)) = Ok units"
    and enc: "from_typed_request K (charge_request_for X R m units options) = Ok encoded"
    and c: "c = with_secret_key_full K (mpp_secret_key m) (mpp_realm m) (method_name_new METHOD_NAME)
           (intent_name_new ''charge'') encoded (Some expires) None (co_description options) None" .
  have "decode_value K encoded = Ok (canonical (charge_request_to_json (charge_request_for X R m units options)))"
    using enc assms(1) by (auto simp: from_typed_request_def decode_value_def lawful_decode codecs_lawful_def)
  with units show thesis by (intro that) (simp_all add: page_request_def c with_secret_key_full_def)
qed

lemma json_index_canonical:
  "distinct (map fst ms) \<Longrightarrow> map_of ms key = Some v \<Longrightarrow> json_index (canonical (JObject ms)) key = canonical v"
  by (simp add: json_index_def json_get_def map_of_canonical)

lemma issued_page_fields:
  assumes "page = canonical (charge_request_to_json (charge_request_for X R m units options))"
    and "unat (mpp_decimals m) < 256"
  shows "json_index page ''amount'' = JString units" and "json_index page ''currency'' = JString (mpp_currency m)"
    and "\<exists>n. as_u64 (json_index (json_index page ''methodDetails'') ''decimals'') = Some n \<and>
      unat n = unat (mpp_decimals m)"
proof -
  let ?r = "charge_request_for X R m units options"
  let ?ms = "[(''amount'', JString (cr_amount ?r)), (''currency'', JString (cr_currency ?r))] @
      opt_member ''recipient'' (cr_recipient ?r) @ opt_member ''description'' (cr_description ?r) @
      opt_member ''externalId'' (cr_external_id ?r) @
      (case cr_method_details ?r of Some d \<Rightarrow> [(''methodDetails'', d)] | None \<Rightarrow> [])"
  have d: "distinct (map fst ?ms)" by (auto simp: opt_member_def split: option.splits)
  have page: "page = canonical (JObject ?ms)" by (simp only: assms(1) charge_request_to_json_def)
  show "json_index page ''amount'' = JString units" "json_index page ''currency'' = JString (mpp_currency m)"
    unfolding page by (subst json_index_canonical [OF d], simp, simp add: charge_request_for_def)+
  have details: "json_index page ''methodDetails'' = canonical (charge_details X R m options)"
    unfolding page
    by (rule json_index_canonical [OF d]) (simp add: charge_request_for_def opt_member_def split: option.splits)
  from charge_details_roundtrip [OF assms(2), of X R options] obtain ms where
    ms: "struct_members [''network'', ''decimals'', ''tokenProgram'', ''feePayer'', ''feePayerKey'', ''splits'',
        ''recentBlockhash''] (canonical (charge_details X R m options)) = Ok ms"
      "member_opt json_u8 ms ''decimals'' = Ok (Some (ucast (mpp_decimals m)))"
    by (auto simp: method_details_of_json_def issued_details_def)
  obtain cs where cs: "canonical (charge_details X R m options) = JObject cs" by (simp add: charge_details_def)
  with ms(1) have "ms = cs" by (simp add: struct_members_def)
  with ms(2) obtain v where v: "map_of cs ''decimals'' = Some v" "json_u8 v = Ok (ucast (mpp_decimals m))"
    by (auto simp: member_opt_def split: option.splits json.splits)
  then obtain n where n: "as_u64 v = Some n" "n < 256" "(ucast n :: byte) = ucast (mpp_decimals m)"
    by (auto simp: json_u8_def split: option.splits if_splits)
  have "unat n < 256" using n(2) by (simp add: word_less_nat_alt)
  then have "unat (ucast n :: byte) = unat n" by (simp add: unsigned_ucast_eq take_bit_nat_eq_self)
  moreover have "unat (ucast (mpp_decimals m) :: byte) = unat (mpp_decimals m)"
    using assms(2) by (simp add: unsigned_ucast_eq take_bit_nat_eq_self)
  ultimately have "unat n = unat (mpp_decimals m)" using n(3) by simp
  with v(1) n(1) show "\<exists>n. as_u64 (json_index (json_index page ''methodDetails'') ''decimals'') = Some n \<and>
      unat n = unat (mpp_decimals m)"
    by (simp add: details cs) (simp add: json_index_def json_get_def)
qed

text \<open>Powers of ten that are floating-point numbers are computed exactly.\<close>

definition powi_exact :: "html_files \<Rightarrow> bool" where
  "powi_exact F \<longleftrightarrow> list_all (\<lambda>k. f64_whole (html_powi10 F (int k)) (10 ^ k)) [0..<16]"

lemma small_powers: "list_all (\<lambda>d. sint (ucast (of_nat d :: u64) :: 32 word) = int d) [0..<16]"
  by (simp add: upt_rec)

lemma small_power: "unat (k :: u64) \<le> 15 \<Longrightarrow> sint (ucast k :: 32 word) = int (unat k)"
proof -
  assume "unat k \<le> 15"
  then have "unat k \<in> set [0..<16]" by simp
  then have "sint (ucast (of_nat (unat k) :: u64) :: 32 word) = int (unat k)"
    using small_powers unfolding list_all_iff by blast
  then show ?thesis by simp
qed

lemma page_amount_whole:
  assumes "powi_exact F" and "as_str (json_index page ''amount'') = Some (show_nat (n * 10 ^ d))"
    and "as_u64 (json_index (json_index page ''methodDetails'') ''decimals'') = Some k" and "unat k = d"
    and "d \<le> 15" and "n * 10 ^ d < 2 ^ 53"
  shows "display_amount (page_amount F page) = show_nat n"
proof -
  have "n * 1 \<le> n * 10 ^ d" by (intro mult_le_mono2) simp
  then have n: "n < 2 ^ 53" using assms(6) by linarith
  have "sint (ucast k :: 32 word) = int d"
    using small_power [of k] assms(4,5) by simp
  moreover have "f64_whole (html_powi10 F (int d)) (10 ^ d)"
    using assms(1,5) by (simp add: powi_exact_def list_all_iff)
  ultimately have pow: "f64_whole (html_powi10 F (sint (ucast k :: 32 word))) (10 ^ d)" by simp
  have "f64_whole (nearest_f64 False (n * 10 ^ d) 1) (n * 10 ^ d)"
    using nearest_whole [OF assms(6), of 1] by simp
  from f64_div_whole [OF this pow n] have "f64_whole (page_amount F page) n"
    by (simp add: page_amount_def assms(2) parse_f64_shown page_decimals_def assms(3))
  then show ?thesis using f64_whole_shown by (simp add: display_amount_def)
qed

lemma issued_price_displayed:
  assumes "codecs_lawful K" and "powi_exact F"
    and "charge_with_options b X K R m (show_nat n) options = Ok c"
    and "mpp_currency m \<in> set DOLLAR_CURRENCIES" and "unat (mpp_decimals m) \<le> 15"
    and "n * 10 ^ unat (mpp_decimals m) < 2 ^ 53"
  shows "amount_display F (page_request K c) = (Ok (''$'' @ show_nat n) :: (string, error) result)"
proof -
  let ?d = "unat (mpp_decimals m)"
  from issued_page_request [OF assms(1,3)] obtain units where
    units: "parse_units b (show_nat n) (unat (ucast (mpp_decimals m) :: byte)) = Ok units"
    and page: "page_request K c = canonical (charge_request_to_json (charge_request_for X R m units options))" .
  have small: "?d < 256" using assms(5) by simp
  have d: "unat (ucast (mpp_decimals m) :: byte) = ?d"
    using small by (simp add: unsigned_ucast_eq take_bit_nat_eq_self)
  have "n * 1 \<le> n * 10 ^ ?d" by (intro mult_le_mono2) simp
  also have "\<dots> < 2 ^ 128" using assms(6) by (rule less_trans) simp
  finally have "n < 2 ^ 128" by simp
  then have read: "parse_uint 128 (show_nat n) = Some n" by (intro parse_uint_show)
  have "(10 :: nat) ^ ?d \<le> 10 ^ 15" using assms(5) by (intro power_increasing) simp_all
  then have "(10 :: nat) ^ ?d < 2 ^ 128" by (rule le_less_trans) simp
  moreover have "n * 10 ^ ?d < 2 ^ 128" using assms(6) by (rule less_trans) simp
  moreover have "CHR ''.'' \<notin> set (show_nat n)" by (rule parse_digits_no_point [OF parse_digits_show])
  ultimately have "parse_units b (show_nat n) ?d = Ok (show_nat (n * 10 ^ ?d))"
    by (intro parse_units_whole [OF read])
  with units d have eq: "units = show_nat (n * 10 ^ ?d)" by simp
  note fields' = issued_page_fields [OF page small]
  then obtain k where "as_u64 (json_index (json_index (page_request K c) ''methodDetails'') ''decimals'') = Some k"
    "unat k = ?d" by blast
  from page_amount_whole [OF assms(2) _ this assms(5,6)] fields'(1)
  have "display_amount (page_amount F (page_request K c)) = show_nat n" by (simp add: as_str_def eq)
  moreover have "page_currency (page_request K c) = mpp_currency m"
    by (simp add: page_currency_def fields'(2) as_str_def)
  ultimately show ?thesis using assms(4) by (simp add: amount_display_def Let_def)
qed

text \<open>
  The page of a challenge shows the price of the route: a whole number of dollars, in any of the dollar
  currencies and with up to 15 decimals, is shown as that number, as long as it has less than 2^53 base
  units; the way through base units, JSON, base64url and floating-point division loses nothing.
\<close>

theorem issued_price_shown:
  assumes "codecs_lawful K" and "powi_exact F"
    and "charge_with_options b X K R m (show_nat n) options = Ok c"
    and "mpp_currency m \<in> set DOLLAR_CURRENCIES" and "unat (mpp_decimals m) \<le> 15"
    and "n * 10 ^ unat (mpp_decimals m) < 2 ^ 53"
  shows "amount_display F (page_request K c) = (Ok (''$'' @ show_nat n) :: (string, error) result)"
  using assms by (rule issued_price_displayed)

section \<open>A page\<close>

definition page_files :: html_files where
  "page_files =
     \<lparr>HTML_TEMPLATE = ''<h1>'' @ AMOUNT_PLACE @ ''</h1>'' @ DESCRIPTION_PLACE @ ''<hr>'' @ EXPIRES_PLACE @
        ''<script>'' @ DATA_PLACE @ ''</script><b>{{let}}</b>'',
      SERVICE_WORKER_JS = [], html_json_text = (\<lambda>_. Ok ''{<}''),
      html_powi10 = (\<lambda>k. nearest_f64 False (10 ^ nat k) 1)\<rparr>"

definition usd_shop :: mpp where
  "usd_shop = shop\<lparr>mpp_currency := ''USDC''\<rparr>"

definition usd_json :: json where
  "usd_json = charge_request_to_json
     (charge_request_for charge_externs demo_rpc usd_shop (show_nat 500) charge_options_default)"

definition usd_codecs :: codecs where
  "usd_codecs = shop_codecs
     \<lparr>canonical_json := (\<lambda>v. if v = usd_json then Ok ''q'' else Err ''not printable''),
      json_from_slice := (\<lambda>bytes. if bytes = string_bytes ''q'' then Ok (canonical usd_json)
                                  else Err ''not a value'')\<rparr>"

definition usd_challenge :: payment_challenge where
  "usd_challenge =
     with_secret_key_full usd_codecs ''key'' ''realm'' (method_name_new METHOD_NAME)
       (intent_name_new ''charge'') (Base64UrlJson (hex_encode (string_bytes ''q''))) (Some ''later'') None None None"

lemma usd_codecs_lawful: "codecs_lawful usd_codecs"
  by (auto simp: codecs_lawful_def usd_codecs_def shop_codecs_def hex_decode_encode hex_encode_b64url
      hex_encode_Nil split: if_splits)

lemma usd_units: "parse_units Debug_Build (show_nat 5) 2 = Ok (show_nat 500)"
proof -
  have "parse_uint 128 (show_nat 5) = Some 5" by (rule parse_uint_show) simp
  moreover have "CHR ''.'' \<notin> set (show_nat 5)" by (rule parse_digits_no_point [OF parse_digits_show])
  ultimately show ?thesis using parse_units_whole [of "show_nat 5" 5 2 Debug_Build] by simp
qed

lemma usd_charges:
  "charge_with_options Debug_Build charge_externs usd_codecs demo_rpc usd_shop (show_nat 5) charge_options_default =
     Ok usd_challenge"
proof -
  have decimals: "unat (ucast (mpp_decimals usd_shop) :: byte) = 2" by (simp add: usd_shop_def shop_def)
  have "from_typed_request usd_codecs
      (charge_request_for charge_externs demo_rpc usd_shop (show_nat 500) charge_options_default) =
      Ok (Base64UrlJson (hex_encode (string_bytes ''q'')))"
    by (simp add: from_typed_request_def usd_json_def [symmetric] base64url_encode_def usd_codecs_def)
      (simp add: shop_codecs_def)
  moreover have "expires_minutes usd_codecs 5 = (Ok ''later'' :: (string, error) result)"
    by (simp add: expires_minutes_def expires_unit_def offset_time_def in_date_range_def usd_codecs_def shop_codecs_def)
  moreover have "validate_charge_options charge_externs usd_shop charge_options_default = Ok ()"
    by (simp add: validate_charge_options_def charge_options_default_def)
  ultimately show ?thesis
    by (simp add: charge_with_options_def decimals usd_units usd_challenge_def)
      (simp add: usd_shop_def shop_def charge_options_default_def)
qed

lemma page_files_exact: "powi_exact page_files"
proof -
  have "f64_whole (html_powi10 page_files (int k)) (10 ^ k)" if "k \<in> set [0..<16]" for k
  proof -
    have "(10 :: nat) ^ k \<le> 10 ^ 15" using that by (intro power_increasing) simp_all
    also have "\<dots> < 2 ^ 53" by simp
    finally show ?thesis using nearest_whole [of "10 ^ k" 1] by (simp add: page_files_def)
  qed
  then show ?thesis by (simp only: powi_exact_def list_all_iff) blast
qed

lemma usd_side:
  "mpp_currency usd_shop \<in> set DOLLAR_CURRENCIES" "unat (mpp_decimals usd_shop) \<le> 15"
  "5 * 10 ^ unat (mpp_decimals usd_shop) < (2 :: nat) ^ 53"
  by (simp_all add: usd_shop_def shop_def DOLLAR_CURRENCIES_def)

theorem issued_price_shown_witness:
  "amount_display page_files (page_request usd_codecs usd_challenge) = (Ok (''$'' @ show_nat 5) :: (string, error) result)"
  by (rule issued_price_shown [OF usd_codecs_lawful page_files_exact usd_charges usd_side])

lemma page_files_parts:
  "template_parts (HTML_TEMPLATE page_files) ''<h1>'' ''</h1>'' ''<hr>'' ''<script>'' ''</script><b>{{let}}</b>''"
proof -
  have "list_all inert [''<h1>'', ''</h1>'', ''<hr>'', ''<script>'', ''</script><b>{{let}}</b>'']" by code_simp
  then show ?thesis by (simp add: template_parts_def page_files_def)
qed

theorem payment_page_filled_witness:
  "\<exists>page. challenge_to_html usd_codecs page_files (usd_challenge\<lparr>pc_description := Some ''<b>''\<rparr>) [] [] =
      (Ok page :: (string, error) result) \<and>
    page = ''<h1>'' @ escape_html (''$'' @ show_nat 5) @ ''</h1>'' @
      description_html (usd_challenge\<lparr>pc_description := Some ''<b>''\<rparr>) @ ''<hr>'' @
      expires_html (usd_challenge\<lparr>pc_description := Some ''<b>''\<rparr>) @ ''<script>'' @
      page_data page_files (usd_challenge\<lparr>pc_description := Some ''<b>''\<rparr>) [] [] @ ''</script><b>{{let}}</b>''"
proof -
  let ?c = "usd_challenge\<lparr>pc_description := Some ''<b>''\<rparr>"
  have "page_request usd_codecs ?c = page_request usd_codecs usd_challenge" by (simp add: page_request_def)
  then have amount: "amount_display page_files (page_request usd_codecs ?c) =
      (Ok (''$'' @ show_nat 5) :: (string, error) result)"
    using issued_price_displayed [OF usd_codecs_lawful page_files_exact usd_charges usd_side] by simp
  have five: "show_nat 5 = ''5''" by (simp add: show_nat.simps digit_char_def)
  have braces: "inert (''$'' @ show_nat 5)" "case_option True inert (pc_description ?c)"
    "case_option True inert (pc_expires ?c)"
    by (simp_all add: five usd_challenge_def with_secret_key_full_def inert_braceless)
  from payment_page_filled [OF page_files_parts amount braces, of "[]" "[]"] show ?thesis by blast
qed

end
