(* ===== verification/Program_Cpi.thy ===== *)
theory Program_Cpi
  imports Program_Builders
begin

text \<open>
  The calls of the payment-channels program from another program: the same instructions as
  \<^verbatim>\<open>Program_Instructions\<close>, made from account handles and given to the runtime, which is a parameter.
\<close>

section \<open>The runtime\<close>

text \<open>\<^verbatim>\<open>AccountInfo\<close> of the runtime, as far as the client looks at it.\<close>

record account_info =
  ai_key :: pubkey
  ai_is_signer :: bool
  ai_is_writable :: bool
  ai_data :: "byte list"

type_synonym signer_seeds = "byte list list list"

type_synonym ('w, 'e) call = "'w \<Rightarrow> 'w \<times> (unit, 'e) result"

type_synonym remaining_account = "account_info \<times> bool \<times> bool"

text \<open>\<^verbatim>\<open>solana_cpi::invoke\<close> and \<^verbatim>\<open>invoke_signed\<close> on a world; a program error is a parameter too.\<close>

record ('w, 'e) cpi_runtime =
  cpi_plain :: "instruction \<Rightarrow> account_info list \<Rightarrow> ('w, 'e) call"
  cpi_signed :: "instruction \<Rightarrow> account_info list \<Rightarrow> signer_seeds \<Rightarrow> ('w, 'e) call"

text \<open>The steps that every call ends with: the remaining accounts, their handles, and the call itself.\<close>

definition remaining_meta :: "remaining_account \<Rightarrow> account_meta" where
  "remaining_meta r =
     \<lparr>am_pubkey = ai_key (fst r), am_is_signer = fst (snd r), am_is_writable = snd (snd r)\<rparr>"

definition cpi_call ::
  "('w, 'e) cpi_runtime \<Rightarrow> instruction \<Rightarrow> account_info list \<Rightarrow> signer_seeds \<Rightarrow> ('w, 'e) call" where
  "cpi_call C ix infos signers_seeds w =
     (if signers_seeds = [] then cpi_plain C ix infos w else cpi_signed C ix infos signers_seeds w)"

section \<open>Open\<close>

record open_cpi_accounts =
  oica_payer :: account_info
  oica_payee :: account_info
  oica_mint :: account_info
  oica_authorized_signer :: account_info
  oica_channel :: account_info
  oica_payer_token_account :: account_info
  oica_channel_token_account :: account_info
  oica_token_program :: account_info
  oica_system_program :: account_info
  oica_rent :: account_info
  oica_associated_token_program :: account_info
  oica_event_authority :: account_info
  oica_self_program :: account_info

record open_cpi =
  oic_program :: account_info
  oic_payer :: account_info
  oic_payee :: account_info
  oic_mint :: account_info
  oic_authorized_signer :: account_info
  oic_channel :: account_info
  oic_payer_token_account :: account_info
  oic_channel_token_account :: account_info
  oic_token_program :: account_info
  oic_system_program :: account_info
  oic_rent :: account_info
  oic_associated_token_program :: account_info
  oic_event_authority :: account_info
  oic_self_program :: account_info
  oic_args :: open_instruction_args

definition open_cpi_new ::
  "account_info \<Rightarrow> open_cpi_accounts \<Rightarrow> open_instruction_args \<Rightarrow> open_cpi" where
  "open_cpi_new program accounts args =
     \<lparr>oic_program = program, oic_payer = oica_payer accounts, oic_payee = oica_payee accounts,
      oic_mint = oica_mint accounts, oic_authorized_signer = oica_authorized_signer accounts,
      oic_channel = oica_channel accounts, oic_payer_token_account = oica_payer_token_account accounts,
      oic_channel_token_account = oica_channel_token_account accounts,
      oic_token_program = oica_token_program accounts, oic_system_program = oica_system_program accounts,
      oic_rent = oica_rent accounts, oic_associated_token_program = oica_associated_token_program accounts,
      oic_event_authority = oica_event_authority accounts, oic_self_program = oica_self_program accounts,
      oic_args = args\<rparr>"

definition open_cpi_invoke_signed_with_remaining_accounts ::
  "('w, 'e) cpi_runtime \<Rightarrow> open_cpi \<Rightarrow> signer_seeds \<Rightarrow> remaining_account list \<Rightarrow> ('w, 'e) call" where
  "open_cpi_invoke_signed_with_remaining_accounts C self signers_seeds remaining_accounts w =
     (let accounts =
            [meta_new (ai_key (oic_payer self)) True, meta_readonly (ai_key (oic_payee self)) False,
             meta_readonly (ai_key (oic_mint self)) False,
             meta_readonly (ai_key (oic_authorized_signer self)) False,
             meta_new (ai_key (oic_channel self)) False, meta_new (ai_key (oic_payer_token_account self)) False,
             meta_new (ai_key (oic_channel_token_account self)) False,
             meta_readonly (ai_key (oic_token_program self)) False,
             meta_readonly (ai_key (oic_system_program self)) False, meta_readonly (ai_key (oic_rent self)) False,
             meta_readonly (ai_key (oic_associated_token_program self)) False,
             meta_readonly (ai_key (oic_event_authority self)) False,
             meta_readonly (ai_key (oic_self_program self)) False] @
            map remaining_meta remaining_accounts;
         infos = [oic_program self, oic_payer self, oic_payee self, oic_mint self, oic_authorized_signer self,
                  oic_channel self, oic_payer_token_account self, oic_channel_token_account self,
                  oic_token_program self, oic_system_program self, oic_rent self,
                  oic_associated_token_program self, oic_event_authority self, oic_self_program self] @
           map fst remaining_accounts
      in case write_open_instruction_args (oic_args self) of
           Ok args_bytes \<Rightarrow>
             cpi_call C \<lparr>ix_program_id = PAYMENT_CHANNELS_ID, ix_accounts = accounts,
                         ix_data = instruction_data_bytes open_instruction_data_new @ args_bytes\<rparr>
               infos signers_seeds w
         | _ \<Rightarrow> (w, Panic))"

definition open_cpi_invoke :: "('w, 'e) cpi_runtime \<Rightarrow> open_cpi \<Rightarrow> ('w, 'e) call" where
  "open_cpi_invoke C self w = open_cpi_invoke_signed_with_remaining_accounts C self [] [] w"

definition open_cpi_invoke_with_remaining_accounts ::
  "('w, 'e) cpi_runtime \<Rightarrow> open_cpi \<Rightarrow> remaining_account list \<Rightarrow> ('w, 'e) call" where
  "open_cpi_invoke_with_remaining_accounts C self remaining_accounts w =
     open_cpi_invoke_signed_with_remaining_accounts C self [] remaining_accounts w"

definition open_cpi_invoke_signed ::
  "('w, 'e) cpi_runtime \<Rightarrow> open_cpi \<Rightarrow> signer_seeds \<Rightarrow> ('w, 'e) call" where
  "open_cpi_invoke_signed C self signers_seeds w =
     open_cpi_invoke_signed_with_remaining_accounts C self signers_seeds [] w"

section \<open>Settle\<close>

record settle_cpi_accounts =
  sica_channel :: account_info
  sica_instructions_sysvar :: account_info

record settle_cpi =
  sic_program :: account_info
  sic_channel :: account_info
  sic_instructions_sysvar :: account_info
  sic_args :: settle_instruction_args

definition settle_cpi_new ::
  "account_info \<Rightarrow> settle_cpi_accounts \<Rightarrow> settle_instruction_args \<Rightarrow> settle_cpi" where
  "settle_cpi_new program accounts args =
     \<lparr>sic_program = program, sic_channel = sica_channel accounts,
      sic_instructions_sysvar = sica_instructions_sysvar accounts, sic_args = args\<rparr>"

definition settle_cpi_invoke_signed_with_remaining_accounts ::
  "('w, 'e) cpi_runtime \<Rightarrow> settle_cpi \<Rightarrow> signer_seeds \<Rightarrow> remaining_account list \<Rightarrow> ('w, 'e) call" where
  "settle_cpi_invoke_signed_with_remaining_accounts C self signers_seeds remaining_accounts w =
     (let accounts =
            [meta_new (ai_key (sic_channel self)) False,
             meta_readonly (ai_key (sic_instructions_sysvar self)) False] @
            map remaining_meta remaining_accounts;
         ix = \<lparr>ix_program_id = PAYMENT_CHANNELS_ID, ix_accounts = accounts,
               ix_data = instruction_data_bytes settle_instruction_data_new @ settle_instruction_args_bytes (sic_args self)\<rparr>;
         infos = [sic_program self, sic_channel self, sic_instructions_sysvar self] @
           map fst remaining_accounts
      in cpi_call C ix infos signers_seeds w)"

definition settle_cpi_invoke :: "('w, 'e) cpi_runtime \<Rightarrow> settle_cpi \<Rightarrow> ('w, 'e) call" where
  "settle_cpi_invoke C self w = settle_cpi_invoke_signed_with_remaining_accounts C self [] [] w"

definition settle_cpi_invoke_with_remaining_accounts ::
  "('w, 'e) cpi_runtime \<Rightarrow> settle_cpi \<Rightarrow> remaining_account list \<Rightarrow> ('w, 'e) call" where
  "settle_cpi_invoke_with_remaining_accounts C self remaining_accounts w =
     settle_cpi_invoke_signed_with_remaining_accounts C self [] remaining_accounts w"

definition settle_cpi_invoke_signed ::
  "('w, 'e) cpi_runtime \<Rightarrow> settle_cpi \<Rightarrow> signer_seeds \<Rightarrow> ('w, 'e) call" where
  "settle_cpi_invoke_signed C self signers_seeds w =
     settle_cpi_invoke_signed_with_remaining_accounts C self signers_seeds [] w"

section \<open>TopUp\<close>

record top_up_cpi_accounts =
  tica_payer :: account_info
  tica_channel :: account_info
  tica_payer_token_account :: account_info
  tica_channel_token_account :: account_info
  tica_mint :: account_info
  tica_token_program :: account_info

record top_up_cpi =
  tic_program :: account_info
  tic_payer :: account_info
  tic_channel :: account_info
  tic_payer_token_account :: account_info
  tic_channel_token_account :: account_info
  tic_mint :: account_info
  tic_token_program :: account_info
  tic_args :: top_up_instruction_args

definition top_up_cpi_new ::
  "account_info \<Rightarrow> top_up_cpi_accounts \<Rightarrow> top_up_instruction_args \<Rightarrow> top_up_cpi" where
  "top_up_cpi_new program accounts args =
     \<lparr>tic_program = program, tic_payer = tica_payer accounts, tic_channel = tica_channel accounts,
      tic_payer_token_account = tica_payer_token_account accounts,
      tic_channel_token_account = tica_channel_token_account accounts, tic_mint = tica_mint accounts,
      tic_token_program = tica_token_program accounts, tic_args = args\<rparr>"

definition top_up_cpi_invoke_signed_with_remaining_accounts ::
  "('w, 'e) cpi_runtime \<Rightarrow> top_up_cpi \<Rightarrow> signer_seeds \<Rightarrow> remaining_account list \<Rightarrow> ('w, 'e) call" where
  "top_up_cpi_invoke_signed_with_remaining_accounts C self signers_seeds remaining_accounts w =
     (let accounts =
            [meta_new (ai_key (tic_payer self)) True, meta_new (ai_key (tic_channel self)) False,
             meta_new (ai_key (tic_payer_token_account self)) False,
             meta_new (ai_key (tic_channel_token_account self)) False,
             meta_readonly (ai_key (tic_mint self)) False,
             meta_readonly (ai_key (tic_token_program self)) False] @
            map remaining_meta remaining_accounts;
         ix = \<lparr>ix_program_id = PAYMENT_CHANNELS_ID, ix_accounts = accounts,
               ix_data = instruction_data_bytes top_up_instruction_data_new @ top_up_instruction_args_bytes (tic_args self)\<rparr>;
         infos = [tic_program self, tic_payer self, tic_channel self, tic_payer_token_account self,
                  tic_channel_token_account self, tic_mint self, tic_token_program self] @
           map fst remaining_accounts
      in cpi_call C ix infos signers_seeds w)"

definition top_up_cpi_invoke :: "('w, 'e) cpi_runtime \<Rightarrow> top_up_cpi \<Rightarrow> ('w, 'e) call" where
  "top_up_cpi_invoke C self w = top_up_cpi_invoke_signed_with_remaining_accounts C self [] [] w"

definition top_up_cpi_invoke_with_remaining_accounts ::
  "('w, 'e) cpi_runtime \<Rightarrow> top_up_cpi \<Rightarrow> remaining_account list \<Rightarrow> ('w, 'e) call" where
  "top_up_cpi_invoke_with_remaining_accounts C self remaining_accounts w =
     top_up_cpi_invoke_signed_with_remaining_accounts C self [] remaining_accounts w"

definition top_up_cpi_invoke_signed ::
  "('w, 'e) cpi_runtime \<Rightarrow> top_up_cpi \<Rightarrow> signer_seeds \<Rightarrow> ('w, 'e) call" where
  "top_up_cpi_invoke_signed C self signers_seeds w =
     top_up_cpi_invoke_signed_with_remaining_accounts C self signers_seeds [] w"

section \<open>SettleAndFinalize\<close>

record settle_and_finalize_cpi_accounts =
  sfica_merchant :: account_info
  sfica_channel :: account_info
  sfica_instructions_sysvar :: account_info

record settle_and_finalize_cpi =
  sfic_program :: account_info
  sfic_merchant :: account_info
  sfic_channel :: account_info
  sfic_instructions_sysvar :: account_info
  sfic_args :: settle_and_finalize_instruction_args

definition settle_and_finalize_cpi_new ::
  "account_info \<Rightarrow> settle_and_finalize_cpi_accounts \<Rightarrow> settle_and_finalize_instruction_args \<Rightarrow> settle_and_finalize_cpi" where
  "settle_and_finalize_cpi_new program accounts args =
     \<lparr>sfic_program = program, sfic_merchant = sfica_merchant accounts,
      sfic_channel = sfica_channel accounts, sfic_instructions_sysvar = sfica_instructions_sysvar accounts,
      sfic_args = args\<rparr>"

definition settle_and_finalize_cpi_invoke_signed_with_remaining_accounts ::
  "('w, 'e) cpi_runtime \<Rightarrow> settle_and_finalize_cpi \<Rightarrow> signer_seeds \<Rightarrow> remaining_account list \<Rightarrow> ('w, 'e) call" where
  "settle_and_finalize_cpi_invoke_signed_with_remaining_accounts C self signers_seeds remaining_accounts w =
     (let accounts =
            [meta_readonly (ai_key (sfic_merchant self)) True, meta_new (ai_key (sfic_channel self)) False,
             meta_readonly (ai_key (sfic_instructions_sysvar self)) False] @
            map remaining_meta remaining_accounts;
         ix = \<lparr>ix_program_id = PAYMENT_CHANNELS_ID, ix_accounts = accounts,
               ix_data = instruction_data_bytes settle_and_finalize_instruction_data_new @ settle_and_finalize_instruction_args_bytes (sfic_args self)\<rparr>;
         infos = [sfic_program self, sfic_merchant self, sfic_channel self, sfic_instructions_sysvar self] @
           map fst remaining_accounts
      in cpi_call C ix infos signers_seeds w)"

definition settle_and_finalize_cpi_invoke ::
  "('w, 'e) cpi_runtime \<Rightarrow> settle_and_finalize_cpi \<Rightarrow> ('w, 'e) call" where
  "settle_and_finalize_cpi_invoke C self w =
     settle_and_finalize_cpi_invoke_signed_with_remaining_accounts C self [] [] w"

definition settle_and_finalize_cpi_invoke_with_remaining_accounts ::
  "('w, 'e) cpi_runtime \<Rightarrow> settle_and_finalize_cpi \<Rightarrow> remaining_account list \<Rightarrow> ('w, 'e) call" where
  "settle_and_finalize_cpi_invoke_with_remaining_accounts C self remaining_accounts w =
     settle_and_finalize_cpi_invoke_signed_with_remaining_accounts C self [] remaining_accounts w"

definition settle_and_finalize_cpi_invoke_signed ::
  "('w, 'e) cpi_runtime \<Rightarrow> settle_and_finalize_cpi \<Rightarrow> signer_seeds \<Rightarrow> ('w, 'e) call" where
  "settle_and_finalize_cpi_invoke_signed C self signers_seeds w =
     settle_and_finalize_cpi_invoke_signed_with_remaining_accounts C self signers_seeds [] w"

section \<open>RequestClose\<close>

record request_close_cpi_accounts =
  rcica_payer :: account_info
  rcica_channel :: account_info

record request_close_cpi =
  rcic_program :: account_info
  rcic_payer :: account_info
  rcic_channel :: account_info

definition request_close_cpi_new ::
  "account_info \<Rightarrow> request_close_cpi_accounts \<Rightarrow> request_close_cpi" where
  "request_close_cpi_new program accounts =
     \<lparr>rcic_program = program, rcic_payer = rcica_payer accounts,
      rcic_channel = rcica_channel accounts\<rparr>"

definition request_close_cpi_invoke_signed_with_remaining_accounts ::
  "('w, 'e) cpi_runtime \<Rightarrow> request_close_cpi \<Rightarrow> signer_seeds \<Rightarrow> remaining_account list \<Rightarrow> ('w, 'e) call" where
  "request_close_cpi_invoke_signed_with_remaining_accounts C self signers_seeds remaining_accounts w =
     (let accounts =
            [meta_readonly (ai_key (rcic_payer self)) True, meta_new (ai_key (rcic_channel self)) False] @
            map remaining_meta remaining_accounts;
         ix = \<lparr>ix_program_id = PAYMENT_CHANNELS_ID, ix_accounts = accounts,
               ix_data = instruction_data_bytes request_close_instruction_data_new\<rparr>;
         infos = [rcic_program self, rcic_payer self, rcic_channel self] @
           map fst remaining_accounts
      in cpi_call C ix infos signers_seeds w)"

definition request_close_cpi_invoke ::
  "('w, 'e) cpi_runtime \<Rightarrow> request_close_cpi \<Rightarrow> ('w, 'e) call" where
  "request_close_cpi_invoke C self w = request_close_cpi_invoke_signed_with_remaining_accounts C self [] [] w"

definition request_close_cpi_invoke_with_remaining_accounts ::
  "('w, 'e) cpi_runtime \<Rightarrow> request_close_cpi \<Rightarrow> remaining_account list \<Rightarrow> ('w, 'e) call" where
  "request_close_cpi_invoke_with_remaining_accounts C self remaining_accounts w =
     request_close_cpi_invoke_signed_with_remaining_accounts C self [] remaining_accounts w"

definition request_close_cpi_invoke_signed ::
  "('w, 'e) cpi_runtime \<Rightarrow> request_close_cpi \<Rightarrow> signer_seeds \<Rightarrow> ('w, 'e) call" where
  "request_close_cpi_invoke_signed C self signers_seeds w =
     request_close_cpi_invoke_signed_with_remaining_accounts C self signers_seeds [] w"

section \<open>Finalize\<close>

record finalize_cpi_accounts =
  fica_channel :: account_info

record finalize_cpi =
  fic_program :: account_info
  fic_channel :: account_info

definition finalize_cpi_new :: "account_info \<Rightarrow> finalize_cpi_accounts \<Rightarrow> finalize_cpi" where
  "finalize_cpi_new program accounts =
     \<lparr>fic_program = program, fic_channel = fica_channel accounts\<rparr>"

definition finalize_cpi_invoke_signed_with_remaining_accounts ::
  "('w, 'e) cpi_runtime \<Rightarrow> finalize_cpi \<Rightarrow> signer_seeds \<Rightarrow> remaining_account list \<Rightarrow> ('w, 'e) call" where
  "finalize_cpi_invoke_signed_with_remaining_accounts C self signers_seeds remaining_accounts w =
     (let accounts =
            [meta_new (ai_key (fic_channel self)) False] @
            map remaining_meta remaining_accounts;
         ix = \<lparr>ix_program_id = PAYMENT_CHANNELS_ID, ix_accounts = accounts,
               ix_data = instruction_data_bytes finalize_instruction_data_new\<rparr>;
         infos = [fic_program self, fic_channel self] @
           map fst remaining_accounts
      in cpi_call C ix infos signers_seeds w)"

definition finalize_cpi_invoke :: "('w, 'e) cpi_runtime \<Rightarrow> finalize_cpi \<Rightarrow> ('w, 'e) call" where
  "finalize_cpi_invoke C self w = finalize_cpi_invoke_signed_with_remaining_accounts C self [] [] w"

definition finalize_cpi_invoke_with_remaining_accounts ::
  "('w, 'e) cpi_runtime \<Rightarrow> finalize_cpi \<Rightarrow> remaining_account list \<Rightarrow> ('w, 'e) call" where
  "finalize_cpi_invoke_with_remaining_accounts C self remaining_accounts w =
     finalize_cpi_invoke_signed_with_remaining_accounts C self [] remaining_accounts w"

definition finalize_cpi_invoke_signed ::
  "('w, 'e) cpi_runtime \<Rightarrow> finalize_cpi \<Rightarrow> signer_seeds \<Rightarrow> ('w, 'e) call" where
  "finalize_cpi_invoke_signed C self signers_seeds w =
     finalize_cpi_invoke_signed_with_remaining_accounts C self signers_seeds [] w"

section \<open>Distribute\<close>

record distribute_cpi_accounts =
  dica_channel :: account_info
  dica_payer :: account_info
  dica_channel_token_account :: account_info
  dica_payer_token_account :: account_info
  dica_payee_token_account :: account_info
  dica_treasury_token_account :: account_info
  dica_mint :: account_info
  dica_token_program :: account_info

record distribute_cpi =
  dic_program :: account_info
  dic_channel :: account_info
  dic_payer :: account_info
  dic_channel_token_account :: account_info
  dic_payer_token_account :: account_info
  dic_payee_token_account :: account_info
  dic_treasury_token_account :: account_info
  dic_mint :: account_info
  dic_token_program :: account_info
  dic_args :: distribute_instruction_args

definition distribute_cpi_new ::
  "account_info \<Rightarrow> distribute_cpi_accounts \<Rightarrow> distribute_instruction_args \<Rightarrow> distribute_cpi" where
  "distribute_cpi_new program accounts args =
     \<lparr>dic_program = program, dic_channel = dica_channel accounts, dic_payer = dica_payer accounts,
      dic_channel_token_account = dica_channel_token_account accounts,
      dic_payer_token_account = dica_payer_token_account accounts,
      dic_payee_token_account = dica_payee_token_account accounts,
      dic_treasury_token_account = dica_treasury_token_account accounts, dic_mint = dica_mint accounts,
      dic_token_program = dica_token_program accounts, dic_args = args\<rparr>"

definition distribute_cpi_invoke_signed_with_remaining_accounts ::
  "('w, 'e) cpi_runtime \<Rightarrow> distribute_cpi \<Rightarrow> signer_seeds \<Rightarrow> remaining_account list \<Rightarrow> ('w, 'e) call" where
  "distribute_cpi_invoke_signed_with_remaining_accounts C self signers_seeds remaining_accounts w =
     (let accounts =
            [meta_new (ai_key (dic_channel self)) False, meta_new (ai_key (dic_payer self)) False,
             meta_new (ai_key (dic_channel_token_account self)) False,
             meta_new (ai_key (dic_payer_token_account self)) False,
             meta_new (ai_key (dic_payee_token_account self)) False,
             meta_new (ai_key (dic_treasury_token_account self)) False,
             meta_readonly (ai_key (dic_mint self)) False,
             meta_readonly (ai_key (dic_token_program self)) False] @
            map remaining_meta remaining_accounts;
         infos = [dic_program self, dic_channel self, dic_payer self, dic_channel_token_account self,
                  dic_payer_token_account self, dic_payee_token_account self, dic_treasury_token_account self,
                  dic_mint self, dic_token_program self] @
           map fst remaining_accounts
      in case write_distribute_instruction_args (dic_args self) of
           Ok args_bytes \<Rightarrow>
             cpi_call C \<lparr>ix_program_id = PAYMENT_CHANNELS_ID, ix_accounts = accounts,
                         ix_data = instruction_data_bytes distribute_instruction_data_new @ args_bytes\<rparr>
               infos signers_seeds w
         | _ \<Rightarrow> (w, Panic))"

definition distribute_cpi_invoke ::
  "('w, 'e) cpi_runtime \<Rightarrow> distribute_cpi \<Rightarrow> ('w, 'e) call" where
  "distribute_cpi_invoke C self w = distribute_cpi_invoke_signed_with_remaining_accounts C self [] [] w"

definition distribute_cpi_invoke_with_remaining_accounts ::
  "('w, 'e) cpi_runtime \<Rightarrow> distribute_cpi \<Rightarrow> remaining_account list \<Rightarrow> ('w, 'e) call" where
  "distribute_cpi_invoke_with_remaining_accounts C self remaining_accounts w =
     distribute_cpi_invoke_signed_with_remaining_accounts C self [] remaining_accounts w"

definition distribute_cpi_invoke_signed ::
  "('w, 'e) cpi_runtime \<Rightarrow> distribute_cpi \<Rightarrow> signer_seeds \<Rightarrow> ('w, 'e) call" where
  "distribute_cpi_invoke_signed C self signers_seeds w =
     distribute_cpi_invoke_signed_with_remaining_accounts C self signers_seeds [] w"

section \<open>WithdrawPayer\<close>

record withdraw_payer_cpi_accounts =
  wica_payer :: account_info
  wica_channel :: account_info
  wica_channel_token_account :: account_info
  wica_payer_token_account :: account_info
  wica_mint :: account_info
  wica_token_program :: account_info

record withdraw_payer_cpi =
  wic_program :: account_info
  wic_payer :: account_info
  wic_channel :: account_info
  wic_channel_token_account :: account_info
  wic_payer_token_account :: account_info
  wic_mint :: account_info
  wic_token_program :: account_info

definition withdraw_payer_cpi_new ::
  "account_info \<Rightarrow> withdraw_payer_cpi_accounts \<Rightarrow> withdraw_payer_cpi" where
  "withdraw_payer_cpi_new program accounts =
     \<lparr>wic_program = program, wic_payer = wica_payer accounts, wic_channel = wica_channel accounts,
      wic_channel_token_account = wica_channel_token_account accounts,
      wic_payer_token_account = wica_payer_token_account accounts, wic_mint = wica_mint accounts,
      wic_token_program = wica_token_program accounts\<rparr>"

definition withdraw_payer_cpi_invoke_signed_with_remaining_accounts ::
  "('w, 'e) cpi_runtime \<Rightarrow> withdraw_payer_cpi \<Rightarrow> signer_seeds \<Rightarrow> remaining_account list \<Rightarrow> ('w, 'e) call" where
  "withdraw_payer_cpi_invoke_signed_with_remaining_accounts C self signers_seeds remaining_accounts w =
     (let accounts =
            [meta_readonly (ai_key (wic_payer self)) True, meta_new (ai_key (wic_channel self)) False,
             meta_new (ai_key (wic_channel_token_account self)) False,
             meta_new (ai_key (wic_payer_token_account self)) False, meta_readonly (ai_key (wic_mint self)) False,
             meta_readonly (ai_key (wic_token_program self)) False] @
            map remaining_meta remaining_accounts;
         ix = \<lparr>ix_program_id = PAYMENT_CHANNELS_ID, ix_accounts = accounts,
               ix_data = instruction_data_bytes withdraw_payer_instruction_data_new\<rparr>;
         infos = [wic_program self, wic_payer self, wic_channel self, wic_channel_token_account self,
                  wic_payer_token_account self, wic_mint self, wic_token_program self] @
           map fst remaining_accounts
      in cpi_call C ix infos signers_seeds w)"

definition withdraw_payer_cpi_invoke ::
  "('w, 'e) cpi_runtime \<Rightarrow> withdraw_payer_cpi \<Rightarrow> ('w, 'e) call" where
  "withdraw_payer_cpi_invoke C self w = withdraw_payer_cpi_invoke_signed_with_remaining_accounts C self [] [] w"

definition withdraw_payer_cpi_invoke_with_remaining_accounts ::
  "('w, 'e) cpi_runtime \<Rightarrow> withdraw_payer_cpi \<Rightarrow> remaining_account list \<Rightarrow> ('w, 'e) call" where
  "withdraw_payer_cpi_invoke_with_remaining_accounts C self remaining_accounts w =
     withdraw_payer_cpi_invoke_signed_with_remaining_accounts C self [] remaining_accounts w"

definition withdraw_payer_cpi_invoke_signed ::
  "('w, 'e) cpi_runtime \<Rightarrow> withdraw_payer_cpi \<Rightarrow> signer_seeds \<Rightarrow> ('w, 'e) call" where
  "withdraw_payer_cpi_invoke_signed C self signers_seeds w =
     withdraw_payer_cpi_invoke_signed_with_remaining_accounts C self signers_seeds [] w"

section \<open>EmitEvent\<close>

record emit_event_cpi_accounts =
  eica_event_authority :: account_info

record emit_event_cpi =
  eic_program :: account_info
  eic_event_authority :: account_info

definition emit_event_cpi_new ::
  "account_info \<Rightarrow> emit_event_cpi_accounts \<Rightarrow> emit_event_cpi" where
  "emit_event_cpi_new program accounts =
     \<lparr>eic_program = program, eic_event_authority = eica_event_authority accounts\<rparr>"

definition emit_event_cpi_invoke_signed_with_remaining_accounts ::
  "('w, 'e) cpi_runtime \<Rightarrow> emit_event_cpi \<Rightarrow> signer_seeds \<Rightarrow> remaining_account list \<Rightarrow> ('w, 'e) call" where
  "emit_event_cpi_invoke_signed_with_remaining_accounts C self signers_seeds remaining_accounts w =
     (let accounts =
            [meta_readonly (ai_key (eic_event_authority self)) True] @
            map remaining_meta remaining_accounts;
         ix = \<lparr>ix_program_id = PAYMENT_CHANNELS_ID, ix_accounts = accounts,
               ix_data = instruction_data_bytes emit_event_instruction_data_new\<rparr>;
         infos = [eic_program self, eic_event_authority self] @
           map fst remaining_accounts
      in cpi_call C ix infos signers_seeds w)"

definition emit_event_cpi_invoke ::
  "('w, 'e) cpi_runtime \<Rightarrow> emit_event_cpi \<Rightarrow> ('w, 'e) call" where
  "emit_event_cpi_invoke C self w = emit_event_cpi_invoke_signed_with_remaining_accounts C self [] [] w"

definition emit_event_cpi_invoke_with_remaining_accounts ::
  "('w, 'e) cpi_runtime \<Rightarrow> emit_event_cpi \<Rightarrow> remaining_account list \<Rightarrow> ('w, 'e) call" where
  "emit_event_cpi_invoke_with_remaining_accounts C self remaining_accounts w =
     emit_event_cpi_invoke_signed_with_remaining_accounts C self [] remaining_accounts w"

definition emit_event_cpi_invoke_signed ::
  "('w, 'e) cpi_runtime \<Rightarrow> emit_event_cpi \<Rightarrow> signer_seeds \<Rightarrow> ('w, 'e) call" where
  "emit_event_cpi_invoke_signed C self signers_seeds w =
     emit_event_cpi_invoke_signed_with_remaining_accounts C self signers_seeds [] w"

end
