(* ===== verification/Program_Accounts.thy ===== *)
theory Program_Accounts
  imports Program_Cpi
begin

text \<open>
  The accounts of the payment-channels program (\<^verbatim>\<open>rust/payment_channels_client/src/generated/accounts\<close> and
  \<^verbatim>\<open>shared.rs\<close>): their layout, and reading them from bytes, from an account handle and over RPC.
\<close>

section \<open>Layouts\<close>

record channel_account =
  cha_discriminator :: byte
  cha_version :: byte
  cha_bump :: byte
  cha_status :: byte
  cha_salt :: u64
  cha_deposit :: u64
  cha_settled :: u64
  cha_paid_out :: u64
  cha_closure_started_at :: i64
  cha_payer_withdrawn_at :: i64
  cha_grace_period :: u32
  cha_distribution_hash :: "byte list"
  cha_payer :: pubkey
  cha_payee :: pubkey
  cha_authorized_signer :: pubkey
  cha_mint :: pubkey

definition channel_account_bytes :: "channel_account \<Rightarrow> byte list" where
  "channel_account_bytes c =
     [cha_discriminator c] @ [cha_version c] @ [cha_bump c] @ [cha_status c] @
     u64_le (cha_salt c) @ u64_le (cha_deposit c) @ u64_le (cha_settled c) @ u64_le (cha_paid_out c) @
     u64_le (cha_closure_started_at c) @ u64_le (cha_payer_withdrawn_at c) @ u32_le (cha_grace_period c) @
     cha_distribution_hash c @ pubkey_bytes (cha_payer c) @ pubkey_bytes (cha_payee c) @
     pubkey_bytes (cha_authorized_signer c) @ pubkey_bytes (cha_mint c)"

definition read_channel_account :: "byte list \<Rightarrow> (channel_account \<times> byte list, string) result" where
  "read_channel_account bs =
     rbind (read_u8 bs) (\<lambda>(discriminator, bs).
     rbind (read_u8 bs) (\<lambda>(version, bs).
     rbind (read_u8 bs) (\<lambda>(bump, bs).
     rbind (read_u8 bs) (\<lambda>(status, bs).
     rbind (read_u64 bs) (\<lambda>(salt, bs).
     rbind (read_u64 bs) (\<lambda>(deposit, bs).
     rbind (read_u64 bs) (\<lambda>(settled, bs).
     rbind (read_u64 bs) (\<lambda>(paid_out, bs).
     rbind (read_u64 bs) (\<lambda>(closure_started_at, bs).
     rbind (read_u64 bs) (\<lambda>(payer_withdrawn_at, bs).
     rbind (read_u32 bs) (\<lambda>(grace_period, bs).
     rbind (read_hash bs) (\<lambda>(distribution_hash, bs).
     rbind (read_address bs) (\<lambda>(payer, bs).
     rbind (read_address bs) (\<lambda>(payee, bs).
     rbind (read_address bs) (\<lambda>(authorized_signer, bs).
     rbind (read_address bs) (\<lambda>(mint, bs).
       Ok (\<lparr>cha_discriminator = discriminator, cha_version = version, cha_bump = bump, cha_status = status,
            cha_salt = salt, cha_deposit = deposit, cha_settled = settled, cha_paid_out = paid_out,
            cha_closure_started_at = closure_started_at, cha_payer_withdrawn_at = payer_withdrawn_at,
            cha_grace_period = grace_period, cha_distribution_hash = distribution_hash, cha_payer = payer,
            cha_payee = payee, cha_authorized_signer = authorized_signer, cha_mint = mint\<rparr>, bs)))))))))))))))))"

definition wf_channel_account :: "channel_account \<Rightarrow> bool" where
  "wf_channel_account c \<longleftrightarrow>
     length (cha_distribution_hash c) = 32 \<and> wf_pubkey (cha_payer c) \<and> wf_pubkey (cha_payee c) \<and>
     wf_pubkey (cha_authorized_signer c) \<and> wf_pubkey (cha_mint c)"

record closed_channel =
  clc_discriminator :: byte

definition closed_channel_bytes :: "closed_channel \<Rightarrow> byte list" where
  "closed_channel_bytes c = [clc_discriminator c]"

definition read_closed_channel :: "byte list \<Rightarrow> (closed_channel \<times> byte list, string) result" where
  "read_closed_channel bs =
     rbind (read_u8 bs) (\<lambda>(discriminator, bs). Ok (\<lparr>clc_discriminator = discriminator\<rparr>, bs))"

section \<open>Reading an account\<close>

text \<open>The bytes after the value are ignored.\<close>

definition decoded :: "('a \<times> byte list, string) result \<Rightarrow> ('a, string) result" where
  "decoded r = rbind r (\<lambda>(v, _). Ok v)"

definition channel_from_bytes :: "byte list \<Rightarrow> (channel_account, string) result" where
  "channel_from_bytes data = decoded (read_channel_account data)"

definition channel_try_from :: "account_info \<Rightarrow> (channel_account, string) result" where
  "channel_try_from info = decoded (read_channel_account (ai_data info))"

definition closed_channel_from_bytes :: "byte list \<Rightarrow> (closed_channel, string) result" where
  "closed_channel_from_bytes data = decoded (read_closed_channel data)"

definition closed_channel_try_from :: "account_info \<Rightarrow> (closed_channel, string) result" where
  "closed_channel_try_from info = decoded (read_closed_channel (ai_data info))"

section \<open>Reading accounts over RPC\<close>

text \<open>\<^verbatim>\<open>solana_account::Account\<close>, and what \<^verbatim>\<open>get_multiple_accounts\<close> of the RPC client answers.\<close>

record chain_account =
  ac_lamports :: u64
  ac_data :: "byte list"
  ac_owner :: pubkey
  ac_executable :: bool
  ac_rent_epoch :: u64

type_synonym get_accounts = "pubkey list \<Rightarrow> (chain_account option list, string) result"

record 'a decoded_account =
  dec_address :: pubkey
  dec_account :: chain_account
  dec_data :: 'a

datatype 'a maybe_account = Exists "'a decoded_account" | NotFound pubkey

text \<open>The loops over the addresses; an answer with fewer accounts panics at the index.\<close>

fun decode_accounts ::
  "externs \<Rightarrow> (byte list \<Rightarrow> ('a, string) result) \<Rightarrow> pubkey list \<Rightarrow> chain_account option list \<Rightarrow>
   ('a decoded_account list, string) result" where
  "decode_accounts X parse [] accounts = Ok []"
| "decode_accounts X parse (address # addresses) [] = Panic"
| "decode_accounts X parse (address # addresses) (found # accounts) =
     (case found of
        None \<Rightarrow> Err (''Account not found: '' @ pubkey_string X address)
      | Some account \<Rightarrow>
          rbind (parse (ac_data account)) (\<lambda>data.
          rbind (decode_accounts X parse addresses accounts) (\<lambda>rest.
            Ok (\<lparr>dec_address = address, dec_account = account, dec_data = data\<rparr> # rest))))"

fun decode_maybe_accounts ::
  "(byte list \<Rightarrow> ('a, string) result) \<Rightarrow> pubkey list \<Rightarrow> chain_account option list \<Rightarrow>
   ('a maybe_account list, string) result" where
  "decode_maybe_accounts parse [] accounts = Ok []"
| "decode_maybe_accounts parse (address # addresses) [] = Panic"
| "decode_maybe_accounts parse (address # addresses) (found # accounts) =
     rbind (case found of
              None \<Rightarrow> Ok (NotFound address)
            | Some account \<Rightarrow>
                rbind (parse (ac_data account)) (\<lambda>data.
                  Ok (Exists \<lparr>dec_address = address, dec_account = account, dec_data = data\<rparr>))) (\<lambda>first.
     rbind (decode_maybe_accounts parse addresses accounts) (\<lambda>rest. Ok (first # rest)))"

text \<open>\<^verbatim>\<open>accounts[0]\<close>\<close>

definition first_account :: "'a list \<Rightarrow> ('a, 'e) result" where
  "first_account accounts = (case accounts of [] \<Rightarrow> Panic | a # _ \<Rightarrow> Ok a)"

definition fetch_all_channel ::
  "externs \<Rightarrow> get_accounts \<Rightarrow> pubkey list \<Rightarrow> (channel_account decoded_account list, string) result" where
  "fetch_all_channel X rpc addresses = rbind (rpc addresses) (decode_accounts X channel_from_bytes addresses)"

definition fetch_channel ::
  "externs \<Rightarrow> get_accounts \<Rightarrow> pubkey \<Rightarrow> (channel_account decoded_account, string) result" where
  "fetch_channel X rpc address = rbind (fetch_all_channel X rpc [address]) first_account"

definition fetch_all_maybe_channel ::
  "get_accounts \<Rightarrow> pubkey list \<Rightarrow> (channel_account maybe_account list, string) result" where
  "fetch_all_maybe_channel rpc addresses =
     rbind (rpc addresses) (decode_maybe_accounts channel_from_bytes addresses)"

definition fetch_maybe_channel ::
  "get_accounts \<Rightarrow> pubkey \<Rightarrow> (channel_account maybe_account, string) result" where
  "fetch_maybe_channel rpc address = rbind (fetch_all_maybe_channel rpc [address]) first_account"

definition fetch_all_closed_channel ::
  "externs \<Rightarrow> get_accounts \<Rightarrow> pubkey list \<Rightarrow> (closed_channel decoded_account list, string) result" where
  "fetch_all_closed_channel X rpc addresses =
     rbind (rpc addresses) (decode_accounts X closed_channel_from_bytes addresses)"

definition fetch_closed_channel ::
  "externs \<Rightarrow> get_accounts \<Rightarrow> pubkey \<Rightarrow> (closed_channel decoded_account, string) result" where
  "fetch_closed_channel X rpc address = rbind (fetch_all_closed_channel X rpc [address]) first_account"

definition fetch_all_maybe_closed_channel ::
  "get_accounts \<Rightarrow> pubkey list \<Rightarrow> (closed_channel maybe_account list, string) result" where
  "fetch_all_maybe_closed_channel rpc addresses =
     rbind (rpc addresses) (decode_maybe_accounts closed_channel_from_bytes addresses)"

definition fetch_maybe_closed_channel ::
  "get_accounts \<Rightarrow> pubkey \<Rightarrow> (closed_channel maybe_account, string) result" where
  "fetch_maybe_closed_channel rpc address = rbind (fetch_all_maybe_closed_channel rpc [address]) first_account"

section \<open>What is read\<close>

interpretation channel_account: borsh_codec wf_channel_account channel_account_bytes read_channel_account
proof
  fix c rest
  assume "wf_channel_account c"
  then show "read_channel_account (channel_account_bytes c @ rest) = Ok (c, rest)"
    by (simp add: wf_channel_account_def read_channel_account_def channel_account_bytes_def reads_written
        u8.de_ser [OF TrueI, simplified] read_u8_def)
next
  fix bs c rest
  assume "read_channel_account bs = Ok (c, rest)"
  then show "wf_channel_account c \<and> bs = channel_account_bytes c @ rest"
    by (auto simp: wf_channel_account_def read_channel_account_def channel_account_bytes_def reads_iff)
qed

interpretation closed_channel: borsh_codec "\<lambda>_. True" closed_channel_bytes read_closed_channel
  by unfold_locales (auto simp: closed_channel_bytes_def read_closed_channel_def reads_iff read_u8_def
      split: list.splits)

context borsh_codec
begin

lemma decoded_Ok_iff: "decoded (de data) = Ok v \<longleftrightarrow> wf v \<and> (\<exists>rest. data = ser v @ rest)"
  by (auto simp: decoded_def de_Ok_iff)

text \<open>One value for each address, in order, read from the account that the answer has at its place.\<close>

lemma decode_accounts_Ok:
  assumes "decode_accounts X (\<lambda>data. decoded (de data)) addresses accounts = Ok vs"
  shows "map dec_address vs = addresses \<and> map (Some \<circ> dec_account) vs = take (length addresses) accounts \<and>
    list_all (\<lambda>v. wf (dec_data v) \<and> (\<exists>rest. ac_data (dec_account v) = ser (dec_data v) @ rest)) vs"
  using assms
  by (induction X "\<lambda>data. decoded (de data)" addresses accounts arbitrary: vs rule: decode_accounts.induct)
    (auto split: option.splits simp: decoded_Ok_iff)

end

text \<open>Readers of a fixed size: they fail on shorter inputs and only on those.\<close>

definition reads_size :: "(byte list \<Rightarrow> ('a \<times> byte list, string) result) \<Rightarrow> nat \<Rightarrow> bool" where
  "reads_size r k \<longleftrightarrow>
     (\<forall>bs. if k \<le> length bs then \<exists>v. r bs = Ok (v, drop k bs) else r bs = Err INPUT_TOO_SHORT)"

lemma reads_size_basic:
  "reads_size read_u8 1" "reads_size read_u32 4" "reads_size read_u64 8" "reads_size read_address 32"
  "reads_size read_hash 32"
  by (auto simp: reads_size_def read_u8_def read_u32_def read_u64_def read_address_def read_hash_def take_bytes_def
      split: list.splits)

lemma reads_size_value: "reads_size (\<lambda>bs. Ok (v, bs)) 0"
  by (simp add: reads_size_def)

lemma reads_size_bind:
  assumes "reads_size r k" and "\<And>v. reads_size (f v) m"
  shows "reads_size (\<lambda>bs. rbind (r bs) (\<lambda>(v, bs). f v bs)) (k + m)"
  unfolding reads_size_def
proof
  fix bs
  from assms(1) consider v where "k \<le> length bs" "r bs = Ok (v, drop k bs)"
    | "length bs < k" "r bs = Err INPUT_TOO_SHORT"
    unfolding reads_size_def by (metis not_le)
  then show "if k + m \<le> length bs then \<exists>v. rbind (r bs) (\<lambda>(v, bs). f v bs) = Ok (v, drop (k + m) bs)
    else rbind (r bs) (\<lambda>(v, bs). f v bs) = Err INPUT_TOO_SHORT"
  proof cases
    case (1 v)
    then have "m \<le> length (drop k bs) \<longleftrightarrow> k + m \<le> length bs" by auto
    moreover have "drop m (drop k bs) = drop (k + m) bs" by (simp add: add.commute)
    moreover have "if m \<le> length (drop k bs) then \<exists>u. f v (drop k bs) = Ok (u, drop m (drop k bs))
      else f v (drop k bs) = Err INPUT_TOO_SHORT" using assms(2) [of v] unfolding reads_size_def by (rule spec)
    ultimately show ?thesis using 1(2) by (simp add: add.commute [of k m] split: if_splits)
  next
    case 2
    then show ?thesis by simp
  qed
qed

definition CHANNEL_ACCOUNT_SIZE :: nat where
  "CHANNEL_ACCOUNT_SIZE = 216"

lemma length_channel_account_bytes:
  "wf_channel_account c \<Longrightarrow> length (channel_account_bytes c) = CHANNEL_ACCOUNT_SIZE"
  by (simp add: wf_channel_account_def channel_account_bytes_def wf_pubkey_def CHANNEL_ACCOUNT_SIZE_def)

lemma read_channel_account_size: "reads_size read_channel_account CHANNEL_ACCOUNT_SIZE"
proof -
  have "reads_size read_channel_account (1 + (1 + (1 + (1 + (8 + (8 + (8 + (8 + (8 + (8 + (4 + (32 + (32 + (32 +
      (32 + (32 + 0))))))))))))))))"
    unfolding read_channel_account_def [abs_def]
    by (intro reads_size_bind reads_size_basic reads_size_value)
  then show ?thesis by (simp add: CHANNEL_ACCOUNT_SIZE_def)
qed

end
