(* ===== verification/Program_Cpi_Builders.thy ===== *)
theory Program_Cpi_Builders
  imports Program_Cpi
begin

text \<open>
  The builders of calls from another program.  A remaining account is pushed with its two flags in the order
  writable, signer; the call reads them in the order signer, writable.
\<close>

section \<open>Open\<close>

record open_cpi_builder =
  oicb_program :: account_info
  oicb_payer :: "account_info option"
  oicb_payee :: "account_info option"
  oicb_mint :: "account_info option"
  oicb_authorized_signer :: "account_info option"
  oicb_channel :: "account_info option"
  oicb_payer_token_account :: "account_info option"
  oicb_channel_token_account :: "account_info option"
  oicb_token_program :: "account_info option"
  oicb_system_program :: "account_info option"
  oicb_rent :: "account_info option"
  oicb_associated_token_program :: "account_info option"
  oicb_event_authority :: "account_info option"
  oicb_self_program :: "account_info option"
  oicb_open_args :: "open_args option"
  oicb_remaining_accounts :: "remaining_account list"

definition open_cpi_builder_new :: "account_info \<Rightarrow> open_cpi_builder" where
  "open_cpi_builder_new program =
     \<lparr>oicb_program = program, oicb_payer = None, oicb_payee = None, oicb_mint = None,
      oicb_authorized_signer = None, oicb_channel = None, oicb_payer_token_account = None,
      oicb_channel_token_account = None, oicb_token_program = None, oicb_system_program = None, oicb_rent = None,
      oicb_associated_token_program = None, oicb_event_authority = None, oicb_self_program = None,
      oicb_open_args = None, oicb_remaining_accounts = []\<rparr>"

definition open_cpi_builder_payer ::
  "account_info \<Rightarrow> open_cpi_builder \<Rightarrow> open_cpi_builder" where
  "open_cpi_builder_payer payer self = self\<lparr>oicb_payer := Some payer\<rparr>"

definition open_cpi_builder_payee ::
  "account_info \<Rightarrow> open_cpi_builder \<Rightarrow> open_cpi_builder" where
  "open_cpi_builder_payee payee self = self\<lparr>oicb_payee := Some payee\<rparr>"

definition open_cpi_builder_mint :: "account_info \<Rightarrow> open_cpi_builder \<Rightarrow> open_cpi_builder" where
  "open_cpi_builder_mint mint self = self\<lparr>oicb_mint := Some mint\<rparr>"

definition open_cpi_builder_authorized_signer ::
  "account_info \<Rightarrow> open_cpi_builder \<Rightarrow> open_cpi_builder" where
  "open_cpi_builder_authorized_signer authorized_signer self =
     self\<lparr>oicb_authorized_signer := Some authorized_signer\<rparr>"

definition open_cpi_builder_channel ::
  "account_info \<Rightarrow> open_cpi_builder \<Rightarrow> open_cpi_builder" where
  "open_cpi_builder_channel channel self = self\<lparr>oicb_channel := Some channel\<rparr>"

definition open_cpi_builder_payer_token_account ::
  "account_info \<Rightarrow> open_cpi_builder \<Rightarrow> open_cpi_builder" where
  "open_cpi_builder_payer_token_account payer_token_account self =
     self\<lparr>oicb_payer_token_account := Some payer_token_account\<rparr>"

definition open_cpi_builder_channel_token_account ::
  "account_info \<Rightarrow> open_cpi_builder \<Rightarrow> open_cpi_builder" where
  "open_cpi_builder_channel_token_account channel_token_account self =
     self\<lparr>oicb_channel_token_account := Some channel_token_account\<rparr>"

definition open_cpi_builder_token_program ::
  "account_info \<Rightarrow> open_cpi_builder \<Rightarrow> open_cpi_builder" where
  "open_cpi_builder_token_program token_program self = self\<lparr>oicb_token_program := Some token_program\<rparr>"

definition open_cpi_builder_system_program ::
  "account_info \<Rightarrow> open_cpi_builder \<Rightarrow> open_cpi_builder" where
  "open_cpi_builder_system_program system_program self = self\<lparr>oicb_system_program := Some system_program\<rparr>"

definition open_cpi_builder_rent :: "account_info \<Rightarrow> open_cpi_builder \<Rightarrow> open_cpi_builder" where
  "open_cpi_builder_rent rent self = self\<lparr>oicb_rent := Some rent\<rparr>"

definition open_cpi_builder_associated_token_program ::
  "account_info \<Rightarrow> open_cpi_builder \<Rightarrow> open_cpi_builder" where
  "open_cpi_builder_associated_token_program associated_token_program self =
     self\<lparr>oicb_associated_token_program := Some associated_token_program\<rparr>"

definition open_cpi_builder_event_authority ::
  "account_info \<Rightarrow> open_cpi_builder \<Rightarrow> open_cpi_builder" where
  "open_cpi_builder_event_authority event_authority self =
     self\<lparr>oicb_event_authority := Some event_authority\<rparr>"

definition open_cpi_builder_self_program ::
  "account_info \<Rightarrow> open_cpi_builder \<Rightarrow> open_cpi_builder" where
  "open_cpi_builder_self_program self_program self = self\<lparr>oicb_self_program := Some self_program\<rparr>"

definition open_cpi_builder_open_args ::
  "open_args \<Rightarrow> open_cpi_builder \<Rightarrow> open_cpi_builder" where
  "open_cpi_builder_open_args open_args self = self\<lparr>oicb_open_args := Some open_args\<rparr>"

definition open_cpi_builder_add_remaining_account ::
  "account_info \<Rightarrow> bool \<Rightarrow> bool \<Rightarrow> open_cpi_builder \<Rightarrow> open_cpi_builder" where
  "open_cpi_builder_add_remaining_account account is_writable is_signer self =
     self\<lparr>oicb_remaining_accounts :=
       oicb_remaining_accounts self @ [(account, is_writable, is_signer)]\<rparr>"

definition open_cpi_builder_add_remaining_accounts ::
  "remaining_account list \<Rightarrow> open_cpi_builder \<Rightarrow> open_cpi_builder" where
  "open_cpi_builder_add_remaining_accounts accounts self =
     self\<lparr>oicb_remaining_accounts := oicb_remaining_accounts self @ accounts\<rparr>"

definition open_cpi_builder_call :: "open_cpi_builder \<Rightarrow> (open_cpi, 'e) result" where
  "open_cpi_builder_call self =
     rbind (expect_some (oicb_open_args self)) (\<lambda>open_args.
     rbind (expect_some (oicb_payer self)) (\<lambda>payer.
     rbind (expect_some (oicb_payee self)) (\<lambda>payee.
     rbind (expect_some (oicb_mint self)) (\<lambda>mint.
     rbind (expect_some (oicb_authorized_signer self)) (\<lambda>authorized_signer.
     rbind (expect_some (oicb_channel self)) (\<lambda>channel.
     rbind (expect_some (oicb_payer_token_account self)) (\<lambda>payer_token_account.
     rbind (expect_some (oicb_channel_token_account self)) (\<lambda>channel_token_account.
     rbind (expect_some (oicb_token_program self)) (\<lambda>token_program.
     rbind (expect_some (oicb_system_program self)) (\<lambda>system_program.
     rbind (expect_some (oicb_rent self)) (\<lambda>rent.
     rbind (expect_some (oicb_associated_token_program self)) (\<lambda>associated_token_program.
     rbind (expect_some (oicb_event_authority self)) (\<lambda>event_authority.
     rbind (expect_some (oicb_self_program self)) (\<lambda>self_program.
       Ok
         \<lparr>oic_program = oicb_program self, oic_payer = payer, oic_payee = payee, oic_mint = mint,
          oic_authorized_signer = authorized_signer, oic_channel = channel,
          oic_payer_token_account = payer_token_account, oic_channel_token_account = channel_token_account,
          oic_token_program = token_program, oic_system_program = system_program, oic_rent = rent,
          oic_associated_token_program = associated_token_program, oic_event_authority = event_authority,
          oic_self_program = self_program, oic_args = \<lparr>oi_open_args = open_args\<rparr>\<rparr>))))))))))))))"

definition open_cpi_builder_invoke_signed ::
  "('w, 'e) cpi_runtime \<Rightarrow> open_cpi_builder \<Rightarrow> signer_seeds \<Rightarrow> ('w, 'e) call" where
  "open_cpi_builder_invoke_signed C self signers_seeds w =
     (case open_cpi_builder_call self of
        Ok call \<Rightarrow>
          open_cpi_invoke_signed_with_remaining_accounts C call signers_seeds
            (oicb_remaining_accounts self) w
      | Err e \<Rightarrow> (w, Err e)
      | Panic \<Rightarrow> (w, Panic))"

definition open_cpi_builder_invoke ::
  "('w, 'e) cpi_runtime \<Rightarrow> open_cpi_builder \<Rightarrow> ('w, 'e) call" where
  "open_cpi_builder_invoke C self w = open_cpi_builder_invoke_signed C self [] w"

section \<open>Settle\<close>

record settle_cpi_builder =
  sicb_program :: account_info
  sicb_channel :: "account_info option"
  sicb_instructions_sysvar :: "account_info option"
  sicb_settle_args :: "settle_args option"
  sicb_remaining_accounts :: "remaining_account list"

definition settle_cpi_builder_new :: "account_info \<Rightarrow> settle_cpi_builder" where
  "settle_cpi_builder_new program =
     \<lparr>sicb_program = program, sicb_channel = None, sicb_instructions_sysvar = None,
      sicb_settle_args = None, sicb_remaining_accounts = []\<rparr>"

definition settle_cpi_builder_channel ::
  "account_info \<Rightarrow> settle_cpi_builder \<Rightarrow> settle_cpi_builder" where
  "settle_cpi_builder_channel channel self = self\<lparr>sicb_channel := Some channel\<rparr>"

definition settle_cpi_builder_instructions_sysvar ::
  "account_info \<Rightarrow> settle_cpi_builder \<Rightarrow> settle_cpi_builder" where
  "settle_cpi_builder_instructions_sysvar instructions_sysvar self =
     self\<lparr>sicb_instructions_sysvar := Some instructions_sysvar\<rparr>"

definition settle_cpi_builder_settle_args ::
  "settle_args \<Rightarrow> settle_cpi_builder \<Rightarrow> settle_cpi_builder" where
  "settle_cpi_builder_settle_args settle_args self = self\<lparr>sicb_settle_args := Some settle_args\<rparr>"

definition settle_cpi_builder_add_remaining_account ::
  "account_info \<Rightarrow> bool \<Rightarrow> bool \<Rightarrow> settle_cpi_builder \<Rightarrow> settle_cpi_builder" where
  "settle_cpi_builder_add_remaining_account account is_writable is_signer self =
     self\<lparr>sicb_remaining_accounts :=
       sicb_remaining_accounts self @ [(account, is_writable, is_signer)]\<rparr>"

definition settle_cpi_builder_add_remaining_accounts ::
  "remaining_account list \<Rightarrow> settle_cpi_builder \<Rightarrow> settle_cpi_builder" where
  "settle_cpi_builder_add_remaining_accounts accounts self =
     self\<lparr>sicb_remaining_accounts := sicb_remaining_accounts self @ accounts\<rparr>"

definition settle_cpi_builder_call :: "settle_cpi_builder \<Rightarrow> (settle_cpi, 'e) result" where
  "settle_cpi_builder_call self =
     rbind (expect_some (sicb_settle_args self)) (\<lambda>settle_args.
     rbind (expect_some (sicb_channel self)) (\<lambda>channel.
     rbind (expect_some (sicb_instructions_sysvar self)) (\<lambda>instructions_sysvar.
       Ok
         \<lparr>sic_program = sicb_program self, sic_channel = channel,
          sic_instructions_sysvar = instructions_sysvar,
          sic_args = \<lparr>si_settle_args = settle_args\<rparr>\<rparr>)))"

definition settle_cpi_builder_invoke_signed ::
  "('w, 'e) cpi_runtime \<Rightarrow> settle_cpi_builder \<Rightarrow> signer_seeds \<Rightarrow> ('w, 'e) call" where
  "settle_cpi_builder_invoke_signed C self signers_seeds w =
     (case settle_cpi_builder_call self of
        Ok call \<Rightarrow>
          settle_cpi_invoke_signed_with_remaining_accounts C call signers_seeds
            (sicb_remaining_accounts self) w
      | Err e \<Rightarrow> (w, Err e)
      | Panic \<Rightarrow> (w, Panic))"

definition settle_cpi_builder_invoke ::
  "('w, 'e) cpi_runtime \<Rightarrow> settle_cpi_builder \<Rightarrow> ('w, 'e) call" where
  "settle_cpi_builder_invoke C self w = settle_cpi_builder_invoke_signed C self [] w"

section \<open>TopUp\<close>

record top_up_cpi_builder =
  ticb_program :: account_info
  ticb_payer :: "account_info option"
  ticb_channel :: "account_info option"
  ticb_payer_token_account :: "account_info option"
  ticb_channel_token_account :: "account_info option"
  ticb_mint :: "account_info option"
  ticb_token_program :: "account_info option"
  ticb_top_up_args :: "top_up_args option"
  ticb_remaining_accounts :: "remaining_account list"

definition top_up_cpi_builder_new :: "account_info \<Rightarrow> top_up_cpi_builder" where
  "top_up_cpi_builder_new program =
     \<lparr>ticb_program = program, ticb_payer = None, ticb_channel = None, ticb_payer_token_account = None,
      ticb_channel_token_account = None, ticb_mint = None, ticb_token_program = None, ticb_top_up_args = None,
      ticb_remaining_accounts = []\<rparr>"

definition top_up_cpi_builder_payer ::
  "account_info \<Rightarrow> top_up_cpi_builder \<Rightarrow> top_up_cpi_builder" where
  "top_up_cpi_builder_payer payer self = self\<lparr>ticb_payer := Some payer\<rparr>"

definition top_up_cpi_builder_channel ::
  "account_info \<Rightarrow> top_up_cpi_builder \<Rightarrow> top_up_cpi_builder" where
  "top_up_cpi_builder_channel channel self = self\<lparr>ticb_channel := Some channel\<rparr>"

definition top_up_cpi_builder_payer_token_account ::
  "account_info \<Rightarrow> top_up_cpi_builder \<Rightarrow> top_up_cpi_builder" where
  "top_up_cpi_builder_payer_token_account payer_token_account self =
     self\<lparr>ticb_payer_token_account := Some payer_token_account\<rparr>"

definition top_up_cpi_builder_channel_token_account ::
  "account_info \<Rightarrow> top_up_cpi_builder \<Rightarrow> top_up_cpi_builder" where
  "top_up_cpi_builder_channel_token_account channel_token_account self =
     self\<lparr>ticb_channel_token_account := Some channel_token_account\<rparr>"

definition top_up_cpi_builder_mint ::
  "account_info \<Rightarrow> top_up_cpi_builder \<Rightarrow> top_up_cpi_builder" where
  "top_up_cpi_builder_mint mint self = self\<lparr>ticb_mint := Some mint\<rparr>"

definition top_up_cpi_builder_token_program ::
  "account_info \<Rightarrow> top_up_cpi_builder \<Rightarrow> top_up_cpi_builder" where
  "top_up_cpi_builder_token_program token_program self = self\<lparr>ticb_token_program := Some token_program\<rparr>"

definition top_up_cpi_builder_top_up_args ::
  "top_up_args \<Rightarrow> top_up_cpi_builder \<Rightarrow> top_up_cpi_builder" where
  "top_up_cpi_builder_top_up_args top_up_args self = self\<lparr>ticb_top_up_args := Some top_up_args\<rparr>"

definition top_up_cpi_builder_add_remaining_account ::
  "account_info \<Rightarrow> bool \<Rightarrow> bool \<Rightarrow> top_up_cpi_builder \<Rightarrow> top_up_cpi_builder" where
  "top_up_cpi_builder_add_remaining_account account is_writable is_signer self =
     self\<lparr>ticb_remaining_accounts :=
       ticb_remaining_accounts self @ [(account, is_writable, is_signer)]\<rparr>"

definition top_up_cpi_builder_add_remaining_accounts ::
  "remaining_account list \<Rightarrow> top_up_cpi_builder \<Rightarrow> top_up_cpi_builder" where
  "top_up_cpi_builder_add_remaining_accounts accounts self =
     self\<lparr>ticb_remaining_accounts := ticb_remaining_accounts self @ accounts\<rparr>"

definition top_up_cpi_builder_call :: "top_up_cpi_builder \<Rightarrow> (top_up_cpi, 'e) result" where
  "top_up_cpi_builder_call self =
     rbind (expect_some (ticb_top_up_args self)) (\<lambda>top_up_args.
     rbind (expect_some (ticb_payer self)) (\<lambda>payer.
     rbind (expect_some (ticb_channel self)) (\<lambda>channel.
     rbind (expect_some (ticb_payer_token_account self)) (\<lambda>payer_token_account.
     rbind (expect_some (ticb_channel_token_account self)) (\<lambda>channel_token_account.
     rbind (expect_some (ticb_mint self)) (\<lambda>mint.
     rbind (expect_some (ticb_token_program self)) (\<lambda>token_program.
       Ok
         \<lparr>tic_program = ticb_program self, tic_payer = payer, tic_channel = channel,
          tic_payer_token_account = payer_token_account, tic_channel_token_account = channel_token_account,
          tic_mint = mint, tic_token_program = token_program,
          tic_args = \<lparr>ti_top_up_args = top_up_args\<rparr>\<rparr>)))))))"

definition top_up_cpi_builder_invoke_signed ::
  "('w, 'e) cpi_runtime \<Rightarrow> top_up_cpi_builder \<Rightarrow> signer_seeds \<Rightarrow> ('w, 'e) call" where
  "top_up_cpi_builder_invoke_signed C self signers_seeds w =
     (case top_up_cpi_builder_call self of
        Ok call \<Rightarrow>
          top_up_cpi_invoke_signed_with_remaining_accounts C call signers_seeds
            (ticb_remaining_accounts self) w
      | Err e \<Rightarrow> (w, Err e)
      | Panic \<Rightarrow> (w, Panic))"

definition top_up_cpi_builder_invoke ::
  "('w, 'e) cpi_runtime \<Rightarrow> top_up_cpi_builder \<Rightarrow> ('w, 'e) call" where
  "top_up_cpi_builder_invoke C self w = top_up_cpi_builder_invoke_signed C self [] w"

section \<open>SettleAndFinalize\<close>

record settle_and_finalize_cpi_builder =
  sficb_program :: account_info
  sficb_merchant :: "account_info option"
  sficb_channel :: "account_info option"
  sficb_instructions_sysvar :: "account_info option"
  sficb_settle_and_finalize_args :: "settle_and_finalize_args option"
  sficb_remaining_accounts :: "remaining_account list"

definition settle_and_finalize_cpi_builder_new :: "account_info \<Rightarrow> settle_and_finalize_cpi_builder" where
  "settle_and_finalize_cpi_builder_new program =
     \<lparr>sficb_program = program, sficb_merchant = None, sficb_channel = None,
      sficb_instructions_sysvar = None, sficb_settle_and_finalize_args = None,
      sficb_remaining_accounts = []\<rparr>"

definition settle_and_finalize_cpi_builder_merchant ::
  "account_info \<Rightarrow> settle_and_finalize_cpi_builder \<Rightarrow> settle_and_finalize_cpi_builder" where
  "settle_and_finalize_cpi_builder_merchant merchant self = self\<lparr>sficb_merchant := Some merchant\<rparr>"

definition settle_and_finalize_cpi_builder_channel ::
  "account_info \<Rightarrow> settle_and_finalize_cpi_builder \<Rightarrow> settle_and_finalize_cpi_builder" where
  "settle_and_finalize_cpi_builder_channel channel self = self\<lparr>sficb_channel := Some channel\<rparr>"

definition settle_and_finalize_cpi_builder_instructions_sysvar ::
  "account_info \<Rightarrow> settle_and_finalize_cpi_builder \<Rightarrow> settle_and_finalize_cpi_builder" where
  "settle_and_finalize_cpi_builder_instructions_sysvar instructions_sysvar self =
     self\<lparr>sficb_instructions_sysvar := Some instructions_sysvar\<rparr>"

definition settle_and_finalize_cpi_builder_settle_and_finalize_args ::
  "settle_and_finalize_args \<Rightarrow> settle_and_finalize_cpi_builder \<Rightarrow> settle_and_finalize_cpi_builder" where
  "settle_and_finalize_cpi_builder_settle_and_finalize_args settle_and_finalize_args self =
     self\<lparr>sficb_settle_and_finalize_args := Some settle_and_finalize_args\<rparr>"

definition settle_and_finalize_cpi_builder_add_remaining_account ::
  "account_info \<Rightarrow> bool \<Rightarrow> bool \<Rightarrow> settle_and_finalize_cpi_builder \<Rightarrow> settle_and_finalize_cpi_builder" where
  "settle_and_finalize_cpi_builder_add_remaining_account account is_writable is_signer self =
     self\<lparr>sficb_remaining_accounts :=
       sficb_remaining_accounts self @ [(account, is_writable, is_signer)]\<rparr>"

definition settle_and_finalize_cpi_builder_add_remaining_accounts ::
  "remaining_account list \<Rightarrow> settle_and_finalize_cpi_builder \<Rightarrow> settle_and_finalize_cpi_builder" where
  "settle_and_finalize_cpi_builder_add_remaining_accounts accounts self =
     self\<lparr>sficb_remaining_accounts := sficb_remaining_accounts self @ accounts\<rparr>"

definition settle_and_finalize_cpi_builder_call ::
  "settle_and_finalize_cpi_builder \<Rightarrow> (settle_and_finalize_cpi, 'e) result" where
  "settle_and_finalize_cpi_builder_call self =
     rbind (expect_some (sficb_settle_and_finalize_args self)) (\<lambda>settle_and_finalize_args.
     rbind (expect_some (sficb_merchant self)) (\<lambda>merchant.
     rbind (expect_some (sficb_channel self)) (\<lambda>channel.
     rbind (expect_some (sficb_instructions_sysvar self)) (\<lambda>instructions_sysvar.
       Ok
         \<lparr>sfic_program = sficb_program self, sfic_merchant = merchant, sfic_channel = channel,
          sfic_instructions_sysvar = instructions_sysvar,
          sfic_args = \<lparr>sfi_settle_and_finalize_args = settle_and_finalize_args\<rparr>\<rparr>))))"

definition settle_and_finalize_cpi_builder_invoke_signed ::
  "('w, 'e) cpi_runtime \<Rightarrow> settle_and_finalize_cpi_builder \<Rightarrow> signer_seeds \<Rightarrow> ('w, 'e) call" where
  "settle_and_finalize_cpi_builder_invoke_signed C self signers_seeds w =
     (case settle_and_finalize_cpi_builder_call self of
        Ok call \<Rightarrow>
          settle_and_finalize_cpi_invoke_signed_with_remaining_accounts C call signers_seeds
            (sficb_remaining_accounts self) w
      | Err e \<Rightarrow> (w, Err e)
      | Panic \<Rightarrow> (w, Panic))"

definition settle_and_finalize_cpi_builder_invoke ::
  "('w, 'e) cpi_runtime \<Rightarrow> settle_and_finalize_cpi_builder \<Rightarrow> ('w, 'e) call" where
  "settle_and_finalize_cpi_builder_invoke C self w = settle_and_finalize_cpi_builder_invoke_signed C self [] w"

section \<open>RequestClose\<close>

record request_close_cpi_builder =
  rcicb_program :: account_info
  rcicb_payer :: "account_info option"
  rcicb_channel :: "account_info option"
  rcicb_remaining_accounts :: "remaining_account list"

definition request_close_cpi_builder_new :: "account_info \<Rightarrow> request_close_cpi_builder" where
  "request_close_cpi_builder_new program =
     \<lparr>rcicb_program = program, rcicb_payer = None, rcicb_channel = None,
      rcicb_remaining_accounts = []\<rparr>"

definition request_close_cpi_builder_payer ::
  "account_info \<Rightarrow> request_close_cpi_builder \<Rightarrow> request_close_cpi_builder" where
  "request_close_cpi_builder_payer payer self = self\<lparr>rcicb_payer := Some payer\<rparr>"

definition request_close_cpi_builder_channel ::
  "account_info \<Rightarrow> request_close_cpi_builder \<Rightarrow> request_close_cpi_builder" where
  "request_close_cpi_builder_channel channel self = self\<lparr>rcicb_channel := Some channel\<rparr>"

definition request_close_cpi_builder_add_remaining_account ::
  "account_info \<Rightarrow> bool \<Rightarrow> bool \<Rightarrow> request_close_cpi_builder \<Rightarrow> request_close_cpi_builder" where
  "request_close_cpi_builder_add_remaining_account account is_writable is_signer self =
     self\<lparr>rcicb_remaining_accounts :=
       rcicb_remaining_accounts self @ [(account, is_writable, is_signer)]\<rparr>"

definition request_close_cpi_builder_add_remaining_accounts ::
  "remaining_account list \<Rightarrow> request_close_cpi_builder \<Rightarrow> request_close_cpi_builder" where
  "request_close_cpi_builder_add_remaining_accounts accounts self =
     self\<lparr>rcicb_remaining_accounts := rcicb_remaining_accounts self @ accounts\<rparr>"

definition request_close_cpi_builder_call ::
  "request_close_cpi_builder \<Rightarrow> (request_close_cpi, 'e) result" where
  "request_close_cpi_builder_call self =
     rbind (expect_some (rcicb_payer self)) (\<lambda>payer.
     rbind (expect_some (rcicb_channel self)) (\<lambda>channel.
       Ok
         \<lparr>rcic_program = rcicb_program self, rcic_payer = payer, rcic_channel = channel\<rparr>))"

definition request_close_cpi_builder_invoke_signed ::
  "('w, 'e) cpi_runtime \<Rightarrow> request_close_cpi_builder \<Rightarrow> signer_seeds \<Rightarrow> ('w, 'e) call" where
  "request_close_cpi_builder_invoke_signed C self signers_seeds w =
     (case request_close_cpi_builder_call self of
        Ok call \<Rightarrow>
          request_close_cpi_invoke_signed_with_remaining_accounts C call signers_seeds
            (rcicb_remaining_accounts self) w
      | Err e \<Rightarrow> (w, Err e)
      | Panic \<Rightarrow> (w, Panic))"

definition request_close_cpi_builder_invoke ::
  "('w, 'e) cpi_runtime \<Rightarrow> request_close_cpi_builder \<Rightarrow> ('w, 'e) call" where
  "request_close_cpi_builder_invoke C self w = request_close_cpi_builder_invoke_signed C self [] w"

section \<open>Finalize\<close>

record finalize_cpi_builder =
  ficb_program :: account_info
  ficb_channel :: "account_info option"
  ficb_remaining_accounts :: "remaining_account list"

definition finalize_cpi_builder_new :: "account_info \<Rightarrow> finalize_cpi_builder" where
  "finalize_cpi_builder_new program =
     \<lparr>ficb_program = program, ficb_channel = None, ficb_remaining_accounts = []\<rparr>"

definition finalize_cpi_builder_channel ::
  "account_info \<Rightarrow> finalize_cpi_builder \<Rightarrow> finalize_cpi_builder" where
  "finalize_cpi_builder_channel channel self = self\<lparr>ficb_channel := Some channel\<rparr>"

definition finalize_cpi_builder_add_remaining_account ::
  "account_info \<Rightarrow> bool \<Rightarrow> bool \<Rightarrow> finalize_cpi_builder \<Rightarrow> finalize_cpi_builder" where
  "finalize_cpi_builder_add_remaining_account account is_writable is_signer self =
     self\<lparr>ficb_remaining_accounts :=
       ficb_remaining_accounts self @ [(account, is_writable, is_signer)]\<rparr>"

definition finalize_cpi_builder_add_remaining_accounts ::
  "remaining_account list \<Rightarrow> finalize_cpi_builder \<Rightarrow> finalize_cpi_builder" where
  "finalize_cpi_builder_add_remaining_accounts accounts self =
     self\<lparr>ficb_remaining_accounts := ficb_remaining_accounts self @ accounts\<rparr>"

definition finalize_cpi_builder_call :: "finalize_cpi_builder \<Rightarrow> (finalize_cpi, 'e) result" where
  "finalize_cpi_builder_call self =
     rbind (expect_some (ficb_channel self)) (\<lambda>channel.
       Ok
         \<lparr>fic_program = ficb_program self, fic_channel = channel\<rparr>)"

definition finalize_cpi_builder_invoke_signed ::
  "('w, 'e) cpi_runtime \<Rightarrow> finalize_cpi_builder \<Rightarrow> signer_seeds \<Rightarrow> ('w, 'e) call" where
  "finalize_cpi_builder_invoke_signed C self signers_seeds w =
     (case finalize_cpi_builder_call self of
        Ok call \<Rightarrow>
          finalize_cpi_invoke_signed_with_remaining_accounts C call signers_seeds
            (ficb_remaining_accounts self) w
      | Err e \<Rightarrow> (w, Err e)
      | Panic \<Rightarrow> (w, Panic))"

definition finalize_cpi_builder_invoke ::
  "('w, 'e) cpi_runtime \<Rightarrow> finalize_cpi_builder \<Rightarrow> ('w, 'e) call" where
  "finalize_cpi_builder_invoke C self w = finalize_cpi_builder_invoke_signed C self [] w"

section \<open>Distribute\<close>

record distribute_cpi_builder =
  dicb_program :: account_info
  dicb_channel :: "account_info option"
  dicb_payer :: "account_info option"
  dicb_channel_token_account :: "account_info option"
  dicb_payer_token_account :: "account_info option"
  dicb_payee_token_account :: "account_info option"
  dicb_treasury_token_account :: "account_info option"
  dicb_mint :: "account_info option"
  dicb_token_program :: "account_info option"
  dicb_distribute_args :: "distribute_args option"
  dicb_remaining_accounts :: "remaining_account list"

definition distribute_cpi_builder_new :: "account_info \<Rightarrow> distribute_cpi_builder" where
  "distribute_cpi_builder_new program =
     \<lparr>dicb_program = program, dicb_channel = None, dicb_payer = None, dicb_channel_token_account = None,
      dicb_payer_token_account = None, dicb_payee_token_account = None, dicb_treasury_token_account = None,
      dicb_mint = None, dicb_token_program = None, dicb_distribute_args = None,
      dicb_remaining_accounts = []\<rparr>"

definition distribute_cpi_builder_channel ::
  "account_info \<Rightarrow> distribute_cpi_builder \<Rightarrow> distribute_cpi_builder" where
  "distribute_cpi_builder_channel channel self = self\<lparr>dicb_channel := Some channel\<rparr>"

definition distribute_cpi_builder_payer ::
  "account_info \<Rightarrow> distribute_cpi_builder \<Rightarrow> distribute_cpi_builder" where
  "distribute_cpi_builder_payer payer self = self\<lparr>dicb_payer := Some payer\<rparr>"

definition distribute_cpi_builder_channel_token_account ::
  "account_info \<Rightarrow> distribute_cpi_builder \<Rightarrow> distribute_cpi_builder" where
  "distribute_cpi_builder_channel_token_account channel_token_account self =
     self\<lparr>dicb_channel_token_account := Some channel_token_account\<rparr>"

definition distribute_cpi_builder_payer_token_account ::
  "account_info \<Rightarrow> distribute_cpi_builder \<Rightarrow> distribute_cpi_builder" where
  "distribute_cpi_builder_payer_token_account payer_token_account self =
     self\<lparr>dicb_payer_token_account := Some payer_token_account\<rparr>"

definition distribute_cpi_builder_payee_token_account ::
  "account_info \<Rightarrow> distribute_cpi_builder \<Rightarrow> distribute_cpi_builder" where
  "distribute_cpi_builder_payee_token_account payee_token_account self =
     self\<lparr>dicb_payee_token_account := Some payee_token_account\<rparr>"

definition distribute_cpi_builder_treasury_token_account ::
  "account_info \<Rightarrow> distribute_cpi_builder \<Rightarrow> distribute_cpi_builder" where
  "distribute_cpi_builder_treasury_token_account treasury_token_account self =
     self\<lparr>dicb_treasury_token_account := Some treasury_token_account\<rparr>"

definition distribute_cpi_builder_mint ::
  "account_info \<Rightarrow> distribute_cpi_builder \<Rightarrow> distribute_cpi_builder" where
  "distribute_cpi_builder_mint mint self = self\<lparr>dicb_mint := Some mint\<rparr>"

definition distribute_cpi_builder_token_program ::
  "account_info \<Rightarrow> distribute_cpi_builder \<Rightarrow> distribute_cpi_builder" where
  "distribute_cpi_builder_token_program token_program self =
     self\<lparr>dicb_token_program := Some token_program\<rparr>"

definition distribute_cpi_builder_distribute_args ::
  "distribute_args \<Rightarrow> distribute_cpi_builder \<Rightarrow> distribute_cpi_builder" where
  "distribute_cpi_builder_distribute_args distribute_args self =
     self\<lparr>dicb_distribute_args := Some distribute_args\<rparr>"

definition distribute_cpi_builder_add_remaining_account ::
  "account_info \<Rightarrow> bool \<Rightarrow> bool \<Rightarrow> distribute_cpi_builder \<Rightarrow> distribute_cpi_builder" where
  "distribute_cpi_builder_add_remaining_account account is_writable is_signer self =
     self\<lparr>dicb_remaining_accounts :=
       dicb_remaining_accounts self @ [(account, is_writable, is_signer)]\<rparr>"

definition distribute_cpi_builder_add_remaining_accounts ::
  "remaining_account list \<Rightarrow> distribute_cpi_builder \<Rightarrow> distribute_cpi_builder" where
  "distribute_cpi_builder_add_remaining_accounts accounts self =
     self\<lparr>dicb_remaining_accounts := dicb_remaining_accounts self @ accounts\<rparr>"

definition distribute_cpi_builder_call :: "distribute_cpi_builder \<Rightarrow> (distribute_cpi, 'e) result" where
  "distribute_cpi_builder_call self =
     rbind (expect_some (dicb_distribute_args self)) (\<lambda>distribute_args.
     rbind (expect_some (dicb_channel self)) (\<lambda>channel.
     rbind (expect_some (dicb_payer self)) (\<lambda>payer.
     rbind (expect_some (dicb_channel_token_account self)) (\<lambda>channel_token_account.
     rbind (expect_some (dicb_payer_token_account self)) (\<lambda>payer_token_account.
     rbind (expect_some (dicb_payee_token_account self)) (\<lambda>payee_token_account.
     rbind (expect_some (dicb_treasury_token_account self)) (\<lambda>treasury_token_account.
     rbind (expect_some (dicb_mint self)) (\<lambda>mint.
     rbind (expect_some (dicb_token_program self)) (\<lambda>token_program.
       Ok
         \<lparr>dic_program = dicb_program self, dic_channel = channel, dic_payer = payer,
          dic_channel_token_account = channel_token_account, dic_payer_token_account = payer_token_account,
          dic_payee_token_account = payee_token_account, dic_treasury_token_account = treasury_token_account,
          dic_mint = mint, dic_token_program = token_program,
          dic_args = \<lparr>di_distribute_args = distribute_args\<rparr>\<rparr>)))))))))"

definition distribute_cpi_builder_invoke_signed ::
  "('w, 'e) cpi_runtime \<Rightarrow> distribute_cpi_builder \<Rightarrow> signer_seeds \<Rightarrow> ('w, 'e) call" where
  "distribute_cpi_builder_invoke_signed C self signers_seeds w =
     (case distribute_cpi_builder_call self of
        Ok call \<Rightarrow>
          distribute_cpi_invoke_signed_with_remaining_accounts C call signers_seeds
            (dicb_remaining_accounts self) w
      | Err e \<Rightarrow> (w, Err e)
      | Panic \<Rightarrow> (w, Panic))"

definition distribute_cpi_builder_invoke ::
  "('w, 'e) cpi_runtime \<Rightarrow> distribute_cpi_builder \<Rightarrow> ('w, 'e) call" where
  "distribute_cpi_builder_invoke C self w = distribute_cpi_builder_invoke_signed C self [] w"

section \<open>WithdrawPayer\<close>

record withdraw_payer_cpi_builder =
  wicb_program :: account_info
  wicb_payer :: "account_info option"
  wicb_channel :: "account_info option"
  wicb_channel_token_account :: "account_info option"
  wicb_payer_token_account :: "account_info option"
  wicb_mint :: "account_info option"
  wicb_token_program :: "account_info option"
  wicb_remaining_accounts :: "remaining_account list"

definition withdraw_payer_cpi_builder_new :: "account_info \<Rightarrow> withdraw_payer_cpi_builder" where
  "withdraw_payer_cpi_builder_new program =
     \<lparr>wicb_program = program, wicb_payer = None, wicb_channel = None, wicb_channel_token_account = None,
      wicb_payer_token_account = None, wicb_mint = None, wicb_token_program = None,
      wicb_remaining_accounts = []\<rparr>"

definition withdraw_payer_cpi_builder_payer ::
  "account_info \<Rightarrow> withdraw_payer_cpi_builder \<Rightarrow> withdraw_payer_cpi_builder" where
  "withdraw_payer_cpi_builder_payer payer self = self\<lparr>wicb_payer := Some payer\<rparr>"

definition withdraw_payer_cpi_builder_channel ::
  "account_info \<Rightarrow> withdraw_payer_cpi_builder \<Rightarrow> withdraw_payer_cpi_builder" where
  "withdraw_payer_cpi_builder_channel channel self = self\<lparr>wicb_channel := Some channel\<rparr>"

definition withdraw_payer_cpi_builder_channel_token_account ::
  "account_info \<Rightarrow> withdraw_payer_cpi_builder \<Rightarrow> withdraw_payer_cpi_builder" where
  "withdraw_payer_cpi_builder_channel_token_account channel_token_account self =
     self\<lparr>wicb_channel_token_account := Some channel_token_account\<rparr>"

definition withdraw_payer_cpi_builder_payer_token_account ::
  "account_info \<Rightarrow> withdraw_payer_cpi_builder \<Rightarrow> withdraw_payer_cpi_builder" where
  "withdraw_payer_cpi_builder_payer_token_account payer_token_account self =
     self\<lparr>wicb_payer_token_account := Some payer_token_account\<rparr>"

definition withdraw_payer_cpi_builder_mint ::
  "account_info \<Rightarrow> withdraw_payer_cpi_builder \<Rightarrow> withdraw_payer_cpi_builder" where
  "withdraw_payer_cpi_builder_mint mint self = self\<lparr>wicb_mint := Some mint\<rparr>"

definition withdraw_payer_cpi_builder_token_program ::
  "account_info \<Rightarrow> withdraw_payer_cpi_builder \<Rightarrow> withdraw_payer_cpi_builder" where
  "withdraw_payer_cpi_builder_token_program token_program self =
     self\<lparr>wicb_token_program := Some token_program\<rparr>"

definition withdraw_payer_cpi_builder_add_remaining_account ::
  "account_info \<Rightarrow> bool \<Rightarrow> bool \<Rightarrow> withdraw_payer_cpi_builder \<Rightarrow> withdraw_payer_cpi_builder" where
  "withdraw_payer_cpi_builder_add_remaining_account account is_writable is_signer self =
     self\<lparr>wicb_remaining_accounts :=
       wicb_remaining_accounts self @ [(account, is_writable, is_signer)]\<rparr>"

definition withdraw_payer_cpi_builder_add_remaining_accounts ::
  "remaining_account list \<Rightarrow> withdraw_payer_cpi_builder \<Rightarrow> withdraw_payer_cpi_builder" where
  "withdraw_payer_cpi_builder_add_remaining_accounts accounts self =
     self\<lparr>wicb_remaining_accounts := wicb_remaining_accounts self @ accounts\<rparr>"

definition withdraw_payer_cpi_builder_call ::
  "withdraw_payer_cpi_builder \<Rightarrow> (withdraw_payer_cpi, 'e) result" where
  "withdraw_payer_cpi_builder_call self =
     rbind (expect_some (wicb_payer self)) (\<lambda>payer.
     rbind (expect_some (wicb_channel self)) (\<lambda>channel.
     rbind (expect_some (wicb_channel_token_account self)) (\<lambda>channel_token_account.
     rbind (expect_some (wicb_payer_token_account self)) (\<lambda>payer_token_account.
     rbind (expect_some (wicb_mint self)) (\<lambda>mint.
     rbind (expect_some (wicb_token_program self)) (\<lambda>token_program.
       Ok
         \<lparr>wic_program = wicb_program self, wic_payer = payer, wic_channel = channel,
          wic_channel_token_account = channel_token_account, wic_payer_token_account = payer_token_account,
          wic_mint = mint, wic_token_program = token_program\<rparr>))))))"

definition withdraw_payer_cpi_builder_invoke_signed ::
  "('w, 'e) cpi_runtime \<Rightarrow> withdraw_payer_cpi_builder \<Rightarrow> signer_seeds \<Rightarrow> ('w, 'e) call" where
  "withdraw_payer_cpi_builder_invoke_signed C self signers_seeds w =
     (case withdraw_payer_cpi_builder_call self of
        Ok call \<Rightarrow>
          withdraw_payer_cpi_invoke_signed_with_remaining_accounts C call signers_seeds
            (wicb_remaining_accounts self) w
      | Err e \<Rightarrow> (w, Err e)
      | Panic \<Rightarrow> (w, Panic))"

definition withdraw_payer_cpi_builder_invoke ::
  "('w, 'e) cpi_runtime \<Rightarrow> withdraw_payer_cpi_builder \<Rightarrow> ('w, 'e) call" where
  "withdraw_payer_cpi_builder_invoke C self w = withdraw_payer_cpi_builder_invoke_signed C self [] w"

section \<open>EmitEvent\<close>

record emit_event_cpi_builder =
  eicb_program :: account_info
  eicb_event_authority :: "account_info option"
  eicb_remaining_accounts :: "remaining_account list"

definition emit_event_cpi_builder_new :: "account_info \<Rightarrow> emit_event_cpi_builder" where
  "emit_event_cpi_builder_new program =
     \<lparr>eicb_program = program, eicb_event_authority = None, eicb_remaining_accounts = []\<rparr>"

definition emit_event_cpi_builder_event_authority ::
  "account_info \<Rightarrow> emit_event_cpi_builder \<Rightarrow> emit_event_cpi_builder" where
  "emit_event_cpi_builder_event_authority event_authority self =
     self\<lparr>eicb_event_authority := Some event_authority\<rparr>"

definition emit_event_cpi_builder_add_remaining_account ::
  "account_info \<Rightarrow> bool \<Rightarrow> bool \<Rightarrow> emit_event_cpi_builder \<Rightarrow> emit_event_cpi_builder" where
  "emit_event_cpi_builder_add_remaining_account account is_writable is_signer self =
     self\<lparr>eicb_remaining_accounts :=
       eicb_remaining_accounts self @ [(account, is_writable, is_signer)]\<rparr>"

definition emit_event_cpi_builder_add_remaining_accounts ::
  "remaining_account list \<Rightarrow> emit_event_cpi_builder \<Rightarrow> emit_event_cpi_builder" where
  "emit_event_cpi_builder_add_remaining_accounts accounts self =
     self\<lparr>eicb_remaining_accounts := eicb_remaining_accounts self @ accounts\<rparr>"

definition emit_event_cpi_builder_call :: "emit_event_cpi_builder \<Rightarrow> (emit_event_cpi, 'e) result" where
  "emit_event_cpi_builder_call self =
     rbind (expect_some (eicb_event_authority self)) (\<lambda>event_authority.
       Ok
         \<lparr>eic_program = eicb_program self, eic_event_authority = event_authority\<rparr>)"

definition emit_event_cpi_builder_invoke_signed ::
  "('w, 'e) cpi_runtime \<Rightarrow> emit_event_cpi_builder \<Rightarrow> signer_seeds \<Rightarrow> ('w, 'e) call" where
  "emit_event_cpi_builder_invoke_signed C self signers_seeds w =
     (case emit_event_cpi_builder_call self of
        Ok call \<Rightarrow>
          emit_event_cpi_invoke_signed_with_remaining_accounts C call signers_seeds
            (eicb_remaining_accounts self) w
      | Err e \<Rightarrow> (w, Err e)
      | Panic \<Rightarrow> (w, Panic))"

definition emit_event_cpi_builder_invoke ::
  "('w, 'e) cpi_runtime \<Rightarrow> emit_event_cpi_builder \<Rightarrow> ('w, 'e) call" where
  "emit_event_cpi_builder_invoke C self w = emit_event_cpi_builder_invoke_signed C self [] w"

end
