(* ===== verification/Program_Cpi_Properties.thy ===== *)
theory Program_Cpi_Properties
  imports Program_Cpi_Builders Program_Types
begin

text \<open>
  A call from another program makes the instruction that the client constructor makes for the keys of its
  accounts, with the program and the accounts in the same order as handles; the flags of a remaining account
  arrive swapped.
\<close>

section \<open>The instruction of a call\<close>

lemma open_cpi_instruction:
  "open_cpi_invoke_signed_with_remaining_accounts C self seeds remaining w =
     (case open_instruction_with_remaining_accounts
       \<lparr>oi_payer = ai_key (oic_payer self), oi_payee = ai_key (oic_payee self),
        oi_mint = ai_key (oic_mint self), oi_authorized_signer = ai_key (oic_authorized_signer self),
        oi_channel = ai_key (oic_channel self), oi_payer_token_account = ai_key (oic_payer_token_account self),
        oi_channel_token_account = ai_key (oic_channel_token_account self),
        oi_token_program = ai_key (oic_token_program self), oi_system_program = ai_key (oic_system_program self),
        oi_rent = ai_key (oic_rent self),
        oi_associated_token_program = ai_key (oic_associated_token_program self),
        oi_event_authority = ai_key (oic_event_authority self),
        oi_self_program = ai_key (oic_self_program self)\<rparr>
       (oic_args self) (map remaining_meta remaining) :: (instruction, 'e) result of
        Ok ix \<Rightarrow> cpi_call C ix
       ([oic_program self, oic_payer self, oic_payee self, oic_mint self, oic_authorized_signer self,
         oic_channel self, oic_payer_token_account self, oic_channel_token_account self, oic_token_program self,
         oic_system_program self, oic_rent self, oic_associated_token_program self, oic_event_authority self,
         oic_self_program self] @ map fst remaining) seeds w
      | _ \<Rightarrow> (w, Panic))"
  by (cases "write_open_instruction_args (oic_args self)") 
    (simp_all add: open_cpi_invoke_signed_with_remaining_accounts_def
      open_instruction_with_remaining_accounts_def Let_def)

lemma settle_cpi_instruction:
  "settle_cpi_invoke_signed_with_remaining_accounts C self seeds remaining w =
     cpi_call C (settle_instruction_with_remaining_accounts
       \<lparr>si_channel = ai_key (sic_channel self),
        si_instructions_sysvar = ai_key (sic_instructions_sysvar self)\<rparr>
       (sic_args self) (map remaining_meta remaining))
       ([sic_program self, sic_channel self, sic_instructions_sysvar self] @ map fst remaining) seeds w"
  by (simp add: settle_cpi_invoke_signed_with_remaining_accounts_def
      settle_instruction_with_remaining_accounts_def Let_def)

lemma top_up_cpi_instruction:
  "top_up_cpi_invoke_signed_with_remaining_accounts C self seeds remaining w =
     cpi_call C (top_up_instruction_with_remaining_accounts
       \<lparr>ti_payer = ai_key (tic_payer self), ti_channel = ai_key (tic_channel self),
        ti_payer_token_account = ai_key (tic_payer_token_account self),
        ti_channel_token_account = ai_key (tic_channel_token_account self), ti_mint = ai_key (tic_mint self),
        ti_token_program = ai_key (tic_token_program self)\<rparr>
       (tic_args self) (map remaining_meta remaining))
       ([tic_program self, tic_payer self, tic_channel self, tic_payer_token_account self,
         tic_channel_token_account self, tic_mint self, tic_token_program self] @ map fst remaining) seeds w"
  by (simp add: top_up_cpi_invoke_signed_with_remaining_accounts_def
      top_up_instruction_with_remaining_accounts_def Let_def)

lemma settle_and_finalize_cpi_instruction:
  "settle_and_finalize_cpi_invoke_signed_with_remaining_accounts C self seeds remaining w =
     cpi_call C (settle_and_finalize_instruction_with_remaining_accounts
       \<lparr>sfi_merchant = ai_key (sfic_merchant self), sfi_channel = ai_key (sfic_channel self),
        sfi_instructions_sysvar = ai_key (sfic_instructions_sysvar self)\<rparr>
       (sfic_args self) (map remaining_meta remaining))
       ([sfic_program self, sfic_merchant self, sfic_channel self,
         sfic_instructions_sysvar self] @ map fst remaining) seeds w"
  by (simp add: settle_and_finalize_cpi_invoke_signed_with_remaining_accounts_def
      settle_and_finalize_instruction_with_remaining_accounts_def Let_def)

lemma request_close_cpi_instruction:
  "request_close_cpi_invoke_signed_with_remaining_accounts C self seeds remaining w =
     cpi_call C (request_close_instruction_with_remaining_accounts
       \<lparr>rci_payer = ai_key (rcic_payer self), rci_channel = ai_key (rcic_channel self)\<rparr>
       (map remaining_meta remaining))
       ([rcic_program self, rcic_payer self, rcic_channel self] @ map fst remaining) seeds w"
  by (simp add: request_close_cpi_invoke_signed_with_remaining_accounts_def
      request_close_instruction_with_remaining_accounts_def Let_def)

lemma finalize_cpi_instruction:
  "finalize_cpi_invoke_signed_with_remaining_accounts C self seeds remaining w =
     cpi_call C (finalize_instruction_with_remaining_accounts
       \<lparr>fi_channel = ai_key (fic_channel self)\<rparr>
       (map remaining_meta remaining))
       ([fic_program self, fic_channel self] @ map fst remaining) seeds w"
  by (simp add: finalize_cpi_invoke_signed_with_remaining_accounts_def
      finalize_instruction_with_remaining_accounts_def Let_def)

lemma distribute_cpi_instruction:
  "distribute_cpi_invoke_signed_with_remaining_accounts C self seeds remaining w =
     (case distribute_instruction_with_remaining_accounts
       \<lparr>di_channel = ai_key (dic_channel self), di_payer = ai_key (dic_payer self),
        di_channel_token_account = ai_key (dic_channel_token_account self),
        di_payer_token_account = ai_key (dic_payer_token_account self),
        di_payee_token_account = ai_key (dic_payee_token_account self),
        di_treasury_token_account = ai_key (dic_treasury_token_account self), di_mint = ai_key (dic_mint self),
        di_token_program = ai_key (dic_token_program self)\<rparr>
       (dic_args self) (map remaining_meta remaining) :: (instruction, 'e) result of
        Ok ix \<Rightarrow> cpi_call C ix
       ([dic_program self, dic_channel self, dic_payer self, dic_channel_token_account self,
         dic_payer_token_account self, dic_payee_token_account self, dic_treasury_token_account self,
         dic_mint self, dic_token_program self] @ map fst remaining) seeds w
      | _ \<Rightarrow> (w, Panic))"
  by (cases "write_distribute_instruction_args (dic_args self)") 
    (simp_all add: distribute_cpi_invoke_signed_with_remaining_accounts_def
      distribute_instruction_with_remaining_accounts_def Let_def)

lemma withdraw_payer_cpi_instruction:
  "withdraw_payer_cpi_invoke_signed_with_remaining_accounts C self seeds remaining w =
     cpi_call C (withdraw_payer_instruction_with_remaining_accounts
       \<lparr>wi_payer = ai_key (wic_payer self), wi_channel = ai_key (wic_channel self),
        wi_channel_token_account = ai_key (wic_channel_token_account self),
        wi_payer_token_account = ai_key (wic_payer_token_account self), wi_mint = ai_key (wic_mint self),
        wi_token_program = ai_key (wic_token_program self)\<rparr>
       (map remaining_meta remaining))
       ([wic_program self, wic_payer self, wic_channel self, wic_channel_token_account self,
         wic_payer_token_account self, wic_mint self, wic_token_program self] @ map fst remaining) seeds w"
  by (simp add: withdraw_payer_cpi_invoke_signed_with_remaining_accounts_def
      withdraw_payer_instruction_with_remaining_accounts_def Let_def)

lemma emit_event_cpi_instruction:
  "emit_event_cpi_invoke_signed_with_remaining_accounts C self seeds remaining w =
     cpi_call C (emit_event_instruction_with_remaining_accounts
       \<lparr>ei_event_authority = ai_key (eic_event_authority self)\<rparr>
       (map remaining_meta remaining))
       ([eic_program self, eic_event_authority self] @ map fst remaining) seeds w"
  by (simp add: emit_event_cpi_invoke_signed_with_remaining_accounts_def
      emit_event_instruction_with_remaining_accounts_def Let_def)

section \<open>Remaining accounts of the builder\<close>

text \<open>
  C19. The builder of a distribution from another program takes remaining accounts with the flags writable and
  signer, and the call makes of them accounts with these flags swapped: the instruction is the client's, but an
  account added as writable and not signing (as the token accounts of the recipients must be) is passed as a
  signer that is not writable.
\<close>

theorem distribute_cpi_swaps_flags:
  assumes "distribute_cpi_builder_call self = (Ok call :: (distribute_cpi, 'e) result)"
    and "length (dga_recipients (di_distribute_args (dic_args call))) < 2 ^ 32"
  shows "\<exists>ix infos.
    distribute_cpi_builder_invoke_signed (C :: ('w, 'e) cpi_runtime)
        (distribute_cpi_builder_add_remaining_account account is_writable is_signer self) seeds w =
      cpi_call C ix infos seeds w \<and>
    distribute_instruction_with_remaining_accounts
      \<lparr>di_channel = ai_key (dic_channel call), di_payer = ai_key (dic_payer call),
       di_channel_token_account = ai_key (dic_channel_token_account call),
       di_payer_token_account = ai_key (dic_payer_token_account call),
       di_payee_token_account = ai_key (dic_payee_token_account call),
       di_treasury_token_account = ai_key (dic_treasury_token_account call), di_mint = ai_key (dic_mint call),
       di_token_program = ai_key (dic_token_program call)\<rparr> (dic_args call)
      (map remaining_meta (dicb_remaining_accounts self) @
       [\<lparr>am_pubkey = ai_key account, am_is_signer = is_writable, am_is_writable = is_signer\<rparr>]) =
      (Ok ix :: (instruction, 'e) result)"
proof -
  let ?b = "distribute_cpi_builder_add_remaining_account account is_writable is_signer self"
  have "(distribute_cpi_builder_call ?b :: (distribute_cpi, 'e) result) = distribute_cpi_builder_call self"
    by (simp add: distribute_cpi_builder_call_def distribute_cpi_builder_add_remaining_account_def)
  with assms show ?thesis
    by (simp add: distribute_cpi_builder_invoke_signed_def distribute_cpi_instruction [where 'e = 'e]
        distribute_instruction_with_remaining_accounts_def write_distribute_instruction_args_def
        write_distribute_args_def write_vec_def distribute_cpi_builder_add_remaining_account_def remaining_meta_def)
      blast
qed

text \<open>A runtime that keeps the instructions, and a complete builder.\<close>

definition recorder :: "(instruction list, string) cpi_runtime" where
  "recorder = \<lparr>cpi_plain = (\<lambda>ix infos w. (w @ [ix], Ok ())), cpi_signed = (\<lambda>ix infos seeds w. (w @ [ix], Ok ()))\<rparr>"

definition handle :: "byte \<Rightarrow> account_info" where
  "handle n = \<lparr>ai_key = Pubkey (replicate 32 n), ai_is_signer = False, ai_is_writable = True, ai_data = []\<rparr>"

definition full_builder :: distribute_cpi_builder where
  "full_builder = chained (distribute_cpi_builder_new (handle 0))
     [distribute_cpi_builder_channel (handle 1), distribute_cpi_builder_payer (handle 2),
      distribute_cpi_builder_channel_token_account (handle 3), distribute_cpi_builder_payer_token_account (handle 4),
      distribute_cpi_builder_payee_token_account (handle 5),
      distribute_cpi_builder_treasury_token_account (handle 6), distribute_cpi_builder_mint (handle 7),
      distribute_cpi_builder_token_program (handle 8),
      distribute_cpi_builder_distribute_args
        \<lparr>dga_recipients = [\<lparr>den_recipient = Pubkey (replicate 32 9), den_bps = 10000\<rparr>]\<rparr>]"

theorem distribute_cpi_swaps_flags_witness:
  "\<exists>ix. distribute_cpi_builder_invoke_signed recorder
      (distribute_cpi_builder_add_remaining_account (handle 10) True False full_builder) [] [] = ([ix], Ok ()) \<and>
    last (ix_accounts ix) =
      \<lparr>am_pubkey = Pubkey (replicate 32 10), am_is_signer = True, am_is_writable = False\<rparr>"
proof -
  obtain call where call: "distribute_cpi_builder_call full_builder = (Ok call :: (distribute_cpi, string) result)"
    and "length (dga_recipients (di_distribute_args (dic_args call))) < 2 ^ 32"
    by (simp add: full_builder_def distribute_cpi_builder_call_def distribute_cpi_builder_new_def
        distribute_cpi_builder_channel_def distribute_cpi_builder_payer_def
        distribute_cpi_builder_channel_token_account_def distribute_cpi_builder_payer_token_account_def
        distribute_cpi_builder_payee_token_account_def distribute_cpi_builder_treasury_token_account_def
        distribute_cpi_builder_mint_def distribute_cpi_builder_token_program_def
        distribute_cpi_builder_distribute_args_def)
  from distribute_cpi_swaps_flags [OF this, of recorder "handle 10" True False "[]" "[]"]
  obtain ix infos where "distribute_cpi_builder_invoke_signed recorder
      (distribute_cpi_builder_add_remaining_account (handle 10) True False full_builder) [] [] =
      cpi_call recorder ix infos [] []"
    and "last (ix_accounts ix) =
      \<lparr>am_pubkey = ai_key (handle 10), am_is_signer = True, am_is_writable = False\<rparr>"
    by (auto simp: distribute_instruction_with_remaining_accounts_def)
  then show ?thesis by (simp add: cpi_call_def recorder_def handle_def)
qed

end
