(* ===== verification/Program_Errors.thy ===== *)
theory Program_Errors
  imports Borsh
begin

text \<open>
  The errors of the payment-channels program
  (\<^verbatim>\<open>rust/payment_channels_client/src/generated/errors/payment_channels.rs\<close>): their codes and messages.
\<close>

datatype program_error =
    NotImplemented
  | MissingRequiredSignature
  | InvalidChannelStatus
  | InvalidAccountDiscriminator
  | UnsupportedChannelVersion
  | InvalidChannelPayer
  | InvalidChannelPayee
  | InvalidChannelMint
  | InvalidEventAuthority
  | NotEnoughAccountKeys
  | ChannelAccountMismatch
  | InvalidChannelTokenAccount
  | InvalidChannelTokenExtensions
  | MintAccountMismatch
  | InvalidMintTokenProgram
  | MalformedMintTokenAccountData
  | MalformedMintTokenExtensions
  | PayerAccountMismatch
  | InvalidPayerTokenAccount
  | InvalidPayerTokenExtensions
  | PayeeAccountMismatch
  | InvalidPayeeTokenAccount
  | InvalidPayeeTokenExtensions
  | DepositMustBeNonZero
  | MissingEd25519Verification
  | MalformedEd25519Instruction
  | VoucherChannelMismatch
  | VoucherExpired
  | VoucherWatermarkNotMonotonic
  | VoucherOverDeposit
  | VoucherMessageMismatch
  | VoucherSignerMismatch
  | InvalidRecipientCount
  | InvalidSplitConfig
  | DistributionPartsOverflow
  | DuplicateRecipient
  | DistributionAmountOverflow
  | DistributionPreimageLengthOverflow
  | ChannelAddressMismatch
  | PayerPayeeMustDiffer
  | TopUpDepositOverflow
  | FinalizeDeadlineOverflow
  | PayerAlreadyWithdrawn
  | RefundCalculationOverflow
  | ChannelNotDistributable
  | TreasuryAccountMismatch
  | InvalidTreasuryTokenAccount
  | InvalidTreasuryTokenExtensions
  | RecipientAccountMismatch
  | InvalidRecipientTokenAccount
  | InvalidRecipientTokenExtensions
  | InvalidDistributionHash
  | NothingToDistribute
  | RecipientAccountCountMismatch
  | DistributePoolOverflow
  | DistributeBalanceCalculationOverflow
  | DistributePayerBalanceOverflow

primrec program_error_code :: "program_error \<Rightarrow> u32" where
  "program_error_code NotImplemented = 0x0"
| "program_error_code MissingRequiredSignature = 0x1"
| "program_error_code InvalidChannelStatus = 0x2"
| "program_error_code InvalidAccountDiscriminator = 0x3"
| "program_error_code UnsupportedChannelVersion = 0x4"
| "program_error_code InvalidChannelPayer = 0x5"
| "program_error_code InvalidChannelPayee = 0x6"
| "program_error_code InvalidChannelMint = 0x7"
| "program_error_code InvalidEventAuthority = 0x8"
| "program_error_code NotEnoughAccountKeys = 0x9"
| "program_error_code ChannelAccountMismatch = 0x32"
| "program_error_code InvalidChannelTokenAccount = 0x33"
| "program_error_code InvalidChannelTokenExtensions = 0x34"
| "program_error_code MintAccountMismatch = 0x35"
| "program_error_code InvalidMintTokenProgram = 0x36"
| "program_error_code MalformedMintTokenAccountData = 0x37"
| "program_error_code MalformedMintTokenExtensions = 0x38"
| "program_error_code PayerAccountMismatch = 0x39"
| "program_error_code InvalidPayerTokenAccount = 0x3A"
| "program_error_code InvalidPayerTokenExtensions = 0x3B"
| "program_error_code PayeeAccountMismatch = 0x3C"
| "program_error_code InvalidPayeeTokenAccount = 0x3D"
| "program_error_code InvalidPayeeTokenExtensions = 0x3E"
| "program_error_code DepositMustBeNonZero = 0xC8"
| "program_error_code MissingEd25519Verification = 0xE6"
| "program_error_code MalformedEd25519Instruction = 0xE7"
| "program_error_code VoucherChannelMismatch = 0xE8"
| "program_error_code VoucherExpired = 0xE9"
| "program_error_code VoucherWatermarkNotMonotonic = 0xEA"
| "program_error_code VoucherOverDeposit = 0xEB"
| "program_error_code VoucherMessageMismatch = 0xEC"
| "program_error_code VoucherSignerMismatch = 0xED"
| "program_error_code InvalidRecipientCount = 0x104"
| "program_error_code InvalidSplitConfig = 0x105"
| "program_error_code DistributionPartsOverflow = 0x106"
| "program_error_code DuplicateRecipient = 0x107"
| "program_error_code DistributionAmountOverflow = 0x108"
| "program_error_code DistributionPreimageLengthOverflow = 0x109"
| "program_error_code ChannelAddressMismatch = 0x7D0"
| "program_error_code PayerPayeeMustDiffer = 0x7D1"
| "program_error_code TopUpDepositOverflow = 0x834"
| "program_error_code FinalizeDeadlineOverflow = 0x898"
| "program_error_code PayerAlreadyWithdrawn = 0x8FC"
| "program_error_code RefundCalculationOverflow = 0x8FD"
| "program_error_code ChannelNotDistributable = 0x960"
| "program_error_code TreasuryAccountMismatch = 0x961"
| "program_error_code InvalidTreasuryTokenAccount = 0x962"
| "program_error_code InvalidTreasuryTokenExtensions = 0x963"
| "program_error_code RecipientAccountMismatch = 0x964"
| "program_error_code InvalidRecipientTokenAccount = 0x965"
| "program_error_code InvalidRecipientTokenExtensions = 0x966"
| "program_error_code InvalidDistributionHash = 0x967"
| "program_error_code NothingToDistribute = 0x968"
| "program_error_code RecipientAccountCountMismatch = 0x969"
| "program_error_code DistributePoolOverflow = 0x96A"
| "program_error_code DistributeBalanceCalculationOverflow = 0x96B"
| "program_error_code DistributePayerBalanceOverflow = 0x96C"

primrec program_error_display :: "program_error \<Rightarrow> string" where
  "program_error_display NotImplemented = ''Not implemented''"
| "program_error_display MissingRequiredSignature = ''A signature was required but not found''"
| "program_error_display InvalidChannelStatus = ''Invalid channel status''"
| "program_error_display InvalidAccountDiscriminator = ''Invalid account discriminator''"
| "program_error_display UnsupportedChannelVersion = ''Unsupported channel version''"
| "program_error_display InvalidChannelPayer = ''Account does not match channel payer''"
| "program_error_display InvalidChannelPayee = ''Account does not match channel payee''"
| "program_error_display InvalidChannelMint = ''Account does not match channel mint''"
| "program_error_display InvalidEventAuthority = ''Invalid event authority''"
| "program_error_display NotEnoughAccountKeys = ''Not enough accounts were provided''"
| "program_error_display ChannelAccountMismatch = ''Channel account does not match derived PDA''"
| "program_error_display InvalidChannelTokenAccount = ''Channel token account is not ATA(channel, mint, token_program)''"
| "program_error_display InvalidChannelTokenExtensions = ''Channel token account has invalid extensions''"
| "program_error_display MintAccountMismatch = ''Mint account does not match channel.mint''"
| "program_error_display InvalidMintTokenProgram = ''Token program must be SPL Token or Token-2022''"
| "program_error_display MalformedMintTokenAccountData = ''Token account or mint TLV trailer is malformed''"
| "program_error_display MalformedMintTokenExtensions = ''Token account or mint TLV trailer is malformed''"
| "program_error_display PayerAccountMismatch = ''Payer token account is not ATA(payer, token_program, mint)''"
| "program_error_display InvalidPayerTokenAccount = ''Payer token account is invalid''"
| "program_error_display InvalidPayerTokenExtensions = ''Payer token account has invalid extensions''"
| "program_error_display PayeeAccountMismatch = ''Payee token account is not ATA(payee, token_program, mint)''"
| "program_error_display InvalidPayeeTokenAccount = ''Payee token account is invalid''"
| "program_error_display InvalidPayeeTokenExtensions = ''Payee token account has invalid extensions''"
| "program_error_display DepositMustBeNonZero = ''Deposit must be non-zero''"
| "program_error_display MissingEd25519Verification = ''Missing Ed25519 precompile ix at current-1''"
| "program_error_display MalformedEd25519Instruction = ''Malformed Ed25519 precompile instruction''"
| "program_error_display VoucherChannelMismatch = ''Voucher channel_id does not match channel PDA''"
| "program_error_display VoucherExpired = ''Voucher expired''"
| "program_error_display VoucherWatermarkNotMonotonic = ''Voucher watermark not strictly monotonic''"
| "program_error_display VoucherOverDeposit = ''Voucher cumulative_amount exceeds channel deposit''"
| "program_error_display VoucherMessageMismatch = ''Ed25519 message does not match Borsh voucher payload''"
| "program_error_display VoucherSignerMismatch = ''Voucher signer does not match channel authorized_signer''"
| "program_error_display InvalidRecipientCount = ''num_recipients outside [0, 32]''"
| "program_error_display InvalidSplitConfig = ''Each shareBps must be non-zero and '' @ [CHR 206, CHR 163] @ ''bps must be at most 10_000''"
| "program_error_display DistributionPartsOverflow = ''num_recipients outside [0, 32]''"
| "program_error_display DuplicateRecipient = ''Distribution plan contains a duplicate recipient address''"
| "program_error_display DistributionAmountOverflow = ''num_recipients outside [0, 32]''"
| "program_error_display DistributionPreimageLengthOverflow = ''Distribution preimage length calculation overflow''"
| "program_error_display ChannelAddressMismatch = ''Derived channel account address does not match the user provided address''"
| "program_error_display PayerPayeeMustDiffer = ''Payer and payee must be different accounts''"
| "program_error_display TopUpDepositOverflow = ''Deposit must be non-zero''"
| "program_error_display FinalizeDeadlineOverflow = ''Deadline overflow on grace period''"
| "program_error_display PayerAlreadyWithdrawn = ''Payer refund has already been claimed''"
| "program_error_display RefundCalculationOverflow = ''Payer refund amount calculation underflow''"
| "program_error_display ChannelNotDistributable = ''Channel is not in OPEN or FINALIZED''"
| "program_error_display TreasuryAccountMismatch = ''Treasury token account is not ATA(TREASURY_OWNER, mint, token_program)''"
| "program_error_display InvalidTreasuryTokenAccount = ''Treasury token account is invalid''"
| "program_error_display InvalidTreasuryTokenExtensions = ''Treasury token account has invalid extensions''"
| "program_error_display RecipientAccountMismatch = ''Recipient token account is not ATA(recipient, token_program, mint)''"
| "program_error_display InvalidRecipientTokenAccount = ''Recipient token account is invalid''"
| "program_error_display InvalidRecipientTokenExtensions = ''Recipient token account has invalid extensions''"
| "program_error_display InvalidDistributionHash = ''Distribution hash mismatch''"
| "program_error_display NothingToDistribute = ''No newly settled funds to distribute''"
| "program_error_display RecipientAccountCountMismatch = ''Recipient ATA tail length does not match the committed plan's entry count''"
| "program_error_display DistributePoolOverflow = ''Distribution pool calculation underflow''"
| "program_error_display DistributeBalanceCalculationOverflow = ''Channel rent rebalance calculation underflow''"
| "program_error_display DistributePayerBalanceOverflow = ''Payer lamports overflow on rent refund''"

definition program_errors :: "program_error list" where
  "program_errors =
     [NotImplemented, MissingRequiredSignature, InvalidChannelStatus, InvalidAccountDiscriminator,
      UnsupportedChannelVersion, InvalidChannelPayer, InvalidChannelPayee, InvalidChannelMint,
      InvalidEventAuthority, NotEnoughAccountKeys, ChannelAccountMismatch, InvalidChannelTokenAccount,
      InvalidChannelTokenExtensions, MintAccountMismatch, InvalidMintTokenProgram,
      MalformedMintTokenAccountData, MalformedMintTokenExtensions, PayerAccountMismatch,
      InvalidPayerTokenAccount, InvalidPayerTokenExtensions, PayeeAccountMismatch, InvalidPayeeTokenAccount,
      InvalidPayeeTokenExtensions, DepositMustBeNonZero, MissingEd25519Verification,
      MalformedEd25519Instruction, VoucherChannelMismatch, VoucherExpired, VoucherWatermarkNotMonotonic,
      VoucherOverDeposit, VoucherMessageMismatch, VoucherSignerMismatch, InvalidRecipientCount,
      InvalidSplitConfig, DistributionPartsOverflow, DuplicateRecipient, DistributionAmountOverflow,
      DistributionPreimageLengthOverflow, ChannelAddressMismatch, PayerPayeeMustDiffer, TopUpDepositOverflow,
      FinalizeDeadlineOverflow, PayerAlreadyWithdrawn, RefundCalculationOverflow, ChannelNotDistributable,
      TreasuryAccountMismatch, InvalidTreasuryTokenAccount, InvalidTreasuryTokenExtensions,
      RecipientAccountMismatch, InvalidRecipientTokenAccount, InvalidRecipientTokenExtensions,
      InvalidDistributionHash, NothingToDistribute, RecipientAccountCountMismatch, DistributePoolOverflow,
      DistributeBalanceCalculationOverflow, DistributePayerBalanceOverflow]"

text \<open>\<^verbatim>\<open>FromPrimitive\<close>, and the conversion into the runtime's \<^verbatim>\<open>ProgramError::Custom\<close>, which is a parameter.\<close>

definition program_error_from_u64 :: "u64 \<Rightarrow> program_error option" where
  "program_error_from_u64 n = find (\<lambda>e. unat (program_error_code e) = unat n) program_errors"

definition into_program_error :: "(u32 \<Rightarrow> 'p) \<Rightarrow> program_error \<Rightarrow> 'p" where
  "into_program_error custom e = custom (program_error_code e)"

lemma program_errors_complete: "e \<in> set program_errors"
  by (cases e) (simp_all add: program_errors_def)

lemma program_error_codes_distinct: "distinct (map program_error_code program_errors)"
  by code_simp

lemma program_error_code_inj: "program_error_code e = program_error_code f \<Longrightarrow> e = f"
  using program_error_codes_distinct program_errors_complete
  by (metis distinct_map inj_on_def)

lemma program_error_of_code: "program_error_from_u64 (ucast (program_error_code e)) = Some e"
proof -
  have "unat (ucast (program_error_code e) :: u64) = unat (program_error_code e)"
    using unat_lt [of "program_error_code e"] by (simp add: unsigned_ucast_eq take_bit_nat_eq_self)
  moreover have "unat (program_error_code f) = unat (program_error_code e) \<longleftrightarrow> f = e" for f
    using program_error_code_inj by (auto simp: word_unat_eq_iff)
  moreover have "find (\<lambda>f. f = e) es = Some e" if "e \<in> set es" for es
    using that by (induction es) auto
  ultimately show ?thesis using program_errors_complete by (simp add: program_error_from_u64_def)
qed

text \<open>Two errors of the program may share a message, so it does not tell them apart.\<close>

lemma program_error_messages_shared:
  "program_error_display TopUpDepositOverflow = program_error_display DepositMustBeNonZero"
  "program_error_display DistributionAmountOverflow = program_error_display InvalidRecipientCount"
  by simp_all

end
