(* ===== verification/Program_Properties.thy ===== *)
theory Program_Properties
  imports Session_Properties Program_Accounts Program_Cpi_Properties Program_Errors
begin

text \<open>
  What the SDK and the program client put on the wire: instructions that are read back as what was asked for,
  a settlement that presents the voucher the server stored, distributions that match the commitment of the open,
  calls from other programs, and the accounts that are read.
\<close>

section \<open>What the builders make\<close>

lemma recipients_wire: "vec_bytes entry_bytes (map distribution_entry_of ds) = distribution_preimage ds"
  by (simp add: vec_bytes_def distribution_preimage_def entry_bytes_def distribution_entry_of_def
      distribution_entry_bytes_def [abs_def] comp_def)

lemma recipients_wf:
  "wf_entries (map distribution_entry_of ds) \<longleftrightarrow>
   length ds < 2 ^ 32 \<and> (\<forall>d \<in> set ds. wf_pubkey (dist_recipient d))"
  by (auto simp: wf_entries_def wf_entry_def distribution_entry_of_def)

lemmas instruction_data_defs = instruction_data_bytes_def open_instruction_data_new_def
  distribute_instruction_data_new_def settle_instruction_data_new_def top_up_instruction_data_new_def
  settle_and_finalize_instruction_data_new_def

lemma build_open_Ok:
  assumes "build_open_instruction X params = (Ok ix :: (instruction, 'e) result)"
  obtains addresses rent ata_program where
    "derive_channel_addresses X params = (Ok addresses :: (channel_addresses, 'e) result)"
    and "rent_sysvar_id X = (Ok rent :: (pubkey, 'e) result)"
    and "expect_pubkey X ASSOCIATED_TOKEN_PROGRAM = (Ok ata_program :: (pubkey, 'e) result)"
    and "length (oc_recipients params) < 2 ^ 32"
    and "ix = \<lparr>ix_program_id = oc_program_id params,
      ix_accounts =
        [meta_new (oc_payer params) True, meta_readonly (oc_payee params) False,
         meta_readonly (oc_mint params) False, meta_readonly (oc_authorized_signer params) False,
         meta_new (ca_channel addresses) False, meta_new (ca_payer_token_account addresses) False,
         meta_new (ca_channel_token_account addresses) False, meta_readonly (oc_token_program params) False,
         meta_readonly system_program_key False, meta_readonly rent False, meta_readonly ata_program False,
         meta_readonly (ca_event_authority addresses) False, meta_readonly (oc_program_id params) False],
      ix_data = 1 # open_args_bytes
        \<lparr>oga_salt = oc_salt params, oga_deposit = oc_deposit params, oga_grace_period = oc_grace_period params,
         oga_recipients = map distribution_entry_of (oc_recipients params)\<rparr>\<rparr>"
  using assms
  by (auto simp: build_open_instruction_def open_builder_defs write_open_instruction_args_def write_open_args_eq
      instruction_data_defs split: if_splits)

lemma build_distribute_Ok:
  assumes "build_distribute_instruction X channel payer payee treasury mint recipients token_program program_id =
    (Ok ix :: (instruction, 'e) result)"
  obtains channel_account payer_account payee_account treasury_account recipient_accounts where
    "collect_results (\<lambda>entry.
        rbind (find_associated_token_address X (dist_recipient entry) mint token_program)
          (\<lambda>(token_account, _). Ok (meta_new token_account False))) recipients =
      (Ok recipient_accounts :: (account_meta list, 'e) result)"
    and "length recipients < 2 ^ 32"
    and "ix = \<lparr>ix_program_id = program_id,
      ix_accounts =
        [meta_new channel False, meta_new payer False, meta_new channel_account False,
         meta_new payer_account False, meta_new payee_account False, meta_new treasury_account False,
         meta_readonly mint False, meta_readonly token_program False] @ recipient_accounts,
      ix_data = 7 # distribution_preimage recipients\<rparr>"
  using assms
  by (auto simp: build_distribute_instruction_def distribute_builder_defs write_distribute_instruction_args_def
      write_distribute_args_def write_vec_def instruction_data_defs recipients_wire split: if_splits)

lemma recipient_accounts_found:
  "collect_results (\<lambda>entry.
      rbind (find_associated_token_address X (dist_recipient entry) mint token_program)
        (\<lambda>(token_account, _). Ok (meta_new token_account False))) recipients =
    (Ok recipient_accounts :: (account_meta list, 'e) result) \<Longrightarrow>
   \<exists>accounts. recipient_accounts = map (\<lambda>a. meta_new a False) accounts \<and>
     list_all2 (\<lambda>d a. \<exists>bump. find_associated_token_address X (dist_recipient d) mint token_program =
       (Ok (a, bump) :: (pubkey \<times> byte, 'e) result)) recipients accounts"
proof (induction recipients arbitrary: recipient_accounts)
  case Nil
  then show ?case by simp
next
  case (Cons d ds)
  then obtain a bump rest where "find_associated_token_address X (dist_recipient d) mint token_program =
      (Ok (a, bump) :: (pubkey \<times> byte, 'e) result)"
    and "recipient_accounts = meta_new a False # rest"
    and "\<exists>accounts. rest = map (\<lambda>a. meta_new a False) accounts \<and>
      list_all2 (\<lambda>d a. \<exists>bump. find_associated_token_address X (dist_recipient d) mint token_program =
        (Ok (a, bump) :: (pubkey \<times> byte, 'e) result)) ds accounts" by auto
  then show ?case by (auto intro: exI [of _ "a # as" for as])
qed

lemma build_settle_and_finalize_signed:
  assumes "instructions_sysvar_id X = (Ok sysvar :: (pubkey, error) result)"
    and "build_ed25519_verify_instruction X signer signature (voucher_args_bytes voucher) = (Ok verify :: (instruction, error) result)"
    and "voucher = \<lparr>va_channel_id = channel, va_cumulative_amount = amount, va_expires_at = expires_at\<rparr>"
  shows "build_settle_and_finalize_instructions X merchant channel signer (Some signature) amount expires_at program_id =
    Ok [verify,
        \<lparr>ix_program_id = program_id,
         ix_accounts = [meta_readonly merchant True, meta_new channel False, meta_readonly sysvar False],
         ix_data = 4 # settle_and_finalize_args_bytes \<lparr>sfa_voucher = voucher, sfa_has_voucher = 1\<rparr>\<rparr>]"
  using assms
  by (simp add: build_settle_and_finalize_instructions_def voucher_message_bytes_def
      settle_and_finalize_builder_defs settle_and_finalize_instruction_args_bytes_def instruction_data_defs)

lemma expected_pubkey: "expect_pubkey X s = Ok p \<longleftrightarrow> pubkey_from_str X s = Ok p"
  by (auto simp: expect_pubkey_def split: result.splits)

section \<open>Opening and distributing\<close>

text \<open>
  C17. The open that the SDK builds says on the wire exactly what was asked for: it is a call of the configured
  program, its arguments are read back as the salt, deposit, grace period and recipients of the parameters, and
  its thirteen accounts are, in this order, the parties, the mint and the voucher signer, the derived channel with
  the token accounts of payer and channel, the token program, the System Program, the rent sysvar, the
  associated-token program, the event authority and the program itself; the payer signs, and payer, channel
  and the two token accounts are writable.
\<close>

theorem open_instruction_read_back:
  assumes "build_open_instruction X params = (Ok ix :: (instruction, error) result)"
    and "\<forall>d \<in> set (oc_recipients params). wf_pubkey (dist_recipient d)"
  shows "\<exists>addresses rent ata_program args.
    derive_channel_addresses X params = (Ok addresses :: (channel_addresses, error) result) \<and>
    pubkey_from_str X RENT_SYSVAR_ID = Ok rent \<and> pubkey_from_str X ASSOCIATED_TOKEN_PROGRAM = Ok ata_program \<and>
    ix_program_id ix = oc_program_id params \<and>
    ix_data ix = OPEN_DISCRIMINATOR # args \<and>
    read_open_args args = Ok (\<lparr>oga_salt = oc_salt params, oga_deposit = oc_deposit params,
      oga_grace_period = oc_grace_period params,
      oga_recipients = map distribution_entry_of (oc_recipients params)\<rparr>, []) \<and>
    map am_pubkey (ix_accounts ix) =
      [oc_payer params, oc_payee params, oc_mint params, oc_authorized_signer params, ca_channel addresses,
       ca_payer_token_account addresses, ca_channel_token_account addresses, oc_token_program params,
       system_program_key, rent, ata_program, ca_event_authority addresses, oc_program_id params] \<and>
    map am_is_signer (ix_accounts ix) = 
      [True, False, False, False, False, False, False, False, False, False, False, False, False] \<and>
    map am_is_writable (ix_accounts ix) =
      [True, False, False, False, True, True, True, False, False, False, False, False, False]"
  using assms(1)
proof (rule build_open_Ok)
  fix addresses rent ata_program
  assume "derive_channel_addresses X params = (Ok addresses :: (channel_addresses, error) result)"
    and "rent_sysvar_id X = (Ok rent :: (pubkey, error) result)"
    and "expect_pubkey X ASSOCIATED_TOKEN_PROGRAM = (Ok ata_program :: (pubkey, error) result)"
    and "length (oc_recipients params) < 2 ^ 32"
  moreover from this assms(2) have "wf_entries (map distribution_entry_of (oc_recipients params))"
    by (simp add: recipients_wf)
  moreover assume "ix = \<lparr>ix_program_id = oc_program_id params,
      ix_accounts =
        [meta_new (oc_payer params) True, meta_readonly (oc_payee params) False,
         meta_readonly (oc_mint params) False, meta_readonly (oc_authorized_signer params) False,
         meta_new (ca_channel addresses) False, meta_new (ca_payer_token_account addresses) False,
         meta_new (ca_channel_token_account addresses) False, meta_readonly (oc_token_program params) False,
         meta_readonly system_program_key False, meta_readonly rent False, meta_readonly ata_program False,
         meta_readonly (ca_event_authority addresses) False, meta_readonly (oc_program_id params) False],
      ix_data = 1 # open_args_bytes
        \<lparr>oga_salt = oc_salt params, oga_deposit = oc_deposit params, oga_grace_period = oc_grace_period params,
         oga_recipients = map distribution_entry_of (oc_recipients params)\<rparr>\<rparr>"
  ultimately show ?thesis
    by (simp add: OPEN_DISCRIMINATOR_def open_args.de_all meta_new_def meta_readonly_def rent_sysvar_id_def
        expected_pubkey)
qed

text \<open>
  C14. A distribution pays the recipients that the open committed to: after its discriminator it carries the very
  bytes whose hash the open fixes (the tail of the open's own arguments), and behind the eight fixed accounts it
  names the token account of each of those recipients, in order, writable and not signing.
\<close>

theorem distribution_matches_open:
  assumes "build_open_instruction X params = (Ok open_ix :: (instruction, error) result)"
    and "build_distribute_instruction X channel payer payee treasury mint (oc_recipients params) token_program
      program_id = (Ok ix :: (instruction, error) result)"
  shows "\<exists>committed accounts.
    drop 21 (ix_data open_ix) = committed \<and> blake3_hash X committed = distribution_hash X (oc_recipients params) \<and>
    ix_data ix = DISTRIBUTE_DISCRIMINATOR # committed \<and>
    drop 8 (ix_accounts ix) = map (\<lambda>a. meta_new a False) accounts \<and>
    list_all2 (\<lambda>d a. \<exists>bump. find_associated_token_address X (dist_recipient d) mint token_program =
      (Ok (a, bump) :: (pubkey \<times> byte, error) result)) (oc_recipients params) accounts"
proof -
  from assms(1) have open_data: "drop 21 (ix_data open_ix) = distribution_preimage (oc_recipients params)"
    by (rule build_open_Ok) (simp add: open_args_bytes_def recipients_wire)
  show ?thesis using assms(2)
  proof (rule build_distribute_Ok)
    fix channel_account payer_account payee_account treasury_account recipient_accounts
    assume found: "collect_results (\<lambda>entry.
        rbind (find_associated_token_address X (dist_recipient entry) mint token_program)
          (\<lambda>(token_account, _). Ok (meta_new token_account False))) (oc_recipients params) =
      (Ok recipient_accounts :: (account_meta list, error) result)"
      and ix: "ix = \<lparr>ix_program_id = program_id,
        ix_accounts =
          [meta_new channel False, meta_new payer False, meta_new channel_account False,
           meta_new payer_account False, meta_new payee_account False, meta_new treasury_account False,
           meta_readonly mint False, meta_readonly token_program False] @ recipient_accounts,
        ix_data = 7 # distribution_preimage (oc_recipients params)\<rparr>"
    from found have "\<exists>accounts. recipient_accounts = map (\<lambda>a. meta_new a False) accounts \<and>
      list_all2 (\<lambda>d a. \<exists>bump. find_associated_token_address X (dist_recipient d) mint token_program =
        (Ok (a, bump) :: (pubkey \<times> byte, error) result)) (oc_recipients params) accounts"
      by (rule recipient_accounts_found)
    with ix open_data show ?thesis
      by (auto simp: DISTRIBUTE_DISCRIMINATOR_def distribution_hash_def)
  qed
qed

section \<open>Settling a session\<close>

text \<open>
  The documented behaviour of the Ed25519 precompile on an instruction with one signature.  The data begins with
  the number of signatures and a byte of padding, then come, in two bytes each, the offset of the signature and
  the index of the instruction that holds it, the same for the key, and the offset, length and instruction of
  the message.  The index 65535 names the instruction itself.  An instruction that names bytes outside its data
  is refused.
\<close>

definition precompile_accepts :: "externs \<Rightarrow> instruction \<Rightarrow> bool" where
  "precompile_accepts X ix \<longleftrightarrow>
     pubkey_from_str X ED25519_PROGRAM_ID = Ok (ix_program_id ix) \<and>
     (let d = ix_data ix;
          signature = u16_at d 2; key = u16_at d 6; message = u16_at d 10; size = u16_at d 12 in
      16 \<le> length d \<and> d ! 0 = 1 \<and>
      u16_at d 4 = 65535 \<and> u16_at d 8 = 65535 \<and> u16_at d 14 = 65535 \<and>
      signature + 64 \<le> length d \<and> key + 32 \<le> length d \<and> message + size \<le> length d \<and>
      ed25519_verify_strict X (data_at d key 32) (data_at d message size) (data_at d signature 64))"

text \<open>Both parsers of the server read this text as the same key.\<close>

definition key_text :: "externs \<Rightarrow> string \<Rightarrow> bool" where
  "key_text X s \<longleftrightarrow> (\<exists>p. pubkey_from_str X s = Ok p \<and> bs58_decode X s = Ok (pubkey_bytes p) \<and> wf_pubkey p)"

lemma ed25519_builds:
  assumes "expect_pubkey X ED25519_PROGRAM_ID = (Ok program :: (pubkey, error) result)"
    and "length message < 2 ^ 16" and "length key = 32" and "length signature = 64"
    and "ed25519_verify_strict X key message signature"
  obtains verify where
    "build_ed25519_verify_instruction X (Pubkey key) signature message = (Ok verify :: (instruction, error) result)"
    and "precompile_accepts X verify"
proof -
  obtain verify where
    verify: "build_ed25519_verify_instruction X (Pubkey key) signature message = (Ok verify :: (instruction, error) result)"
    using assms(1,2) by (simp add: build_ed25519_verify_instruction_def Let_def)
  have "wf_pubkey (Pubkey key)" using assms(3) by (simp add: wf_pubkey_def)
  note layout = ed25519_layout [OF verify this assms(4)] and fields = ed25519_fields [OF verify this assms(4)]
  have "precompile_accepts X verify"
    using layout fields assms(1,5) by (simp add: precompile_accepts_def Let_def expected_pubkey)
  with verify show thesis by (rule that)
qed

text \<open>
  C10. What the server accepted off chain settles on chain: for every channel with payments on which no close is
  requested, in every run in which no known channel is opened again, the parameters that the server hands out for settling name a signer, a signature and an expiry with which the
  builder makes two instructions: a signature check that the precompile accepts, and a settlement whose
  arguments are read back as a voucher for this channel and exactly its watermark.
\<close>

theorem watermark_settles_on_chain:
  assumes "reaches (mem_step b X cfg) (fresh_open mcs_data) initial_system t"
    and "channel_of t cid = Some c" and "0 < cs_cumulative c" and "cs_close_requested_at c = None"
    and "key_text X cid" and "finalize_params memory_channel_ops X cfg (sys_store t) cid = Ok fp"
    and "expect_pubkey X ED25519_PROGRAM_ID = (Ok program :: (pubkey, error) result)"
    and "instructions_sysvar_id X = (Ok sysvar :: (pubkey, error) result)"
  shows "\<exists>signer text signature expires_at verify settle args.
    fp_authorized_signer fp = Some signer \<and> fp_voucher_signature fp = Some text \<and>
    bs58_decode X text = Ok signature \<and> fp_voucher_expires_at fp = Some expires_at \<and>
    fp_settled fp = cs_cumulative c \<and>
    build_settle_and_finalize_instructions X merchant (fp_channel_id fp) signer (Some signature) (fp_settled fp)
      expires_at (fp_program_id fp) = Ok [verify, settle] \<and>
    precompile_accepts X verify \<and> ix_data settle = SETTLE_AND_FINALIZE_DISCRIMINATOR # args \<and>
    read_settle_and_finalize_args args =
      Ok (\<lparr>sfa_voucher = \<lparr>va_channel_id = fp_channel_id fp, va_cumulative_amount = cs_cumulative c,
                         va_expires_at = expires_at\<rparr>,
           sfa_has_voucher = 1\<rparr>, [])"
proof -
  have "backed X cid c"
    using mem_sessions.run_backed [OF assms(1) initial_inv] assms(2) by (simp add: mem_sessions.sys_inv_def)
  with assms(3,4) obtain voucher where
    named: "vd_channel_id (sv_data voucher) = cid" "parse_u64 (vd_cumulative (sv_data voucher)) = Some (cs_cumulative c)"
    and stored: "cs_highest_voucher_signature c = Some (sv_signature voucher)"
      "cs_highest_voucher_expires_at c = Some (vd_expires_at (sv_data voucher))"
    and valid: "signature_valid X voucher (cs_authorized_signer c)"
    by (auto simp: backed_def covers_def)
  from assms(5) obtain channel where channel: "pubkey_from_str X cid = Ok channel"
    "bs58_decode X cid = Ok (pubkey_bytes channel)" "wf_pubkey channel" by (auto simp: key_text_def)
  let ?v = "\<lparr>va_channel_id = channel, va_cumulative_amount = cs_cumulative c,
    va_expires_at = vd_expires_at (sv_data voucher)\<rparr>"
  from valid named channel(1) obtain signature key where
    keys: "bs58_decode X (sv_signature voucher) = Ok signature" "length signature = 64"
      "bs58_decode X (cs_authorized_signer c) = Ok key" "length key = 32"
    and signed: "ed25519_verify_strict X key (voucher_args_bytes ?v) signature"
    by (auto simp: signature_valid_def message_bytes_def voucher_message_bytes_def parse_pubkey_def)
  from assms(6,2) channel keys stored have
    fp: "fp_channel_id fp = channel" "fp_authorized_signer fp = Some (Pubkey key)" "fp_settled fp = cs_cumulative c"
      "fp_voucher_signature fp = Some (sv_signature voucher)"
      "fp_voucher_expires_at fp = Some (vd_expires_at (sv_data voucher))"
    by (auto simp: finalize_params_def mem_sessions.read_channel_Ok session_parse_pubkey_def
        try_into_array_def wf_pubkey_def)
  have wf: "wf_voucher_args ?v" using channel(3) by (simp add: wf_voucher_args_def)
  have "length (voucher_args_bytes ?v) < 2 ^ 16" using channel(3) by (simp add: length_voucher_args_bytes)
  with assms(7) keys(2,4) signed obtain verify where
    verify: "build_ed25519_verify_instruction X (Pubkey key) signature (voucher_args_bytes ?v) =
      (Ok verify :: (instruction, error) result)" and "precompile_accepts X verify"
    using ed25519_builds by blast
  with build_settle_and_finalize_signed [OF assms(8) verify refl, of merchant "fp_program_id fp"] fp keys(1) wf
  show ?thesis
    by (auto simp: SETTLE_AND_FINALIZE_DISCRIMINATOR_def settle_and_finalize_args.de_all)
qed

section \<open>Accounts\<close>

text \<open>
  C18. Reading a channel account accepts exactly the data of at least 216 bytes, and what it answers is a
  well-formed channel (every key and the hash of 32 bytes) whose layout is the beginning of the data; what
  follows it, and the discriminator, are not looked at.
\<close>

theorem channel_account_read:
  "((\<exists>c. channel_from_bytes data = Ok c) \<longleftrightarrow> 216 \<le> length data) \<and>
   (channel_from_bytes data = Ok c \<longleftrightarrow>
      wf_channel_account c \<and> (\<exists>rest. data = channel_account_bytes c @ rest))"
proof
  show "(\<exists>c. channel_from_bytes data = Ok c) \<longleftrightarrow> 216 \<le> length data"
    using read_channel_account_size unfolding reads_size_def CHANNEL_ACCOUNT_SIZE_def
    by (fastforce simp: channel_from_bytes_def decoded_def split: if_splits)
  show "channel_from_bytes data = Ok c \<longleftrightarrow>
      wf_channel_account c \<and> (\<exists>rest. data = channel_account_bytes c @ rest)"
    unfolding channel_from_bytes_def by (rule channel_account.decoded_Ok_iff)
qed

section \<open>Examples\<close>

definition demo_params :: open_channel_params where
  "demo_params =
     \<lparr>oc_payer = Pubkey (replicate 32 2), oc_payee = Pubkey (replicate 32 3), oc_mint = Pubkey (replicate 32 4),
      oc_authorized_signer = Pubkey (replicate 32 5), oc_salt = 7, oc_deposit = 500, oc_grace_period = 900,
      oc_recipients = [\<lparr>dist_recipient = Pubkey (replicate 32 6), dist_bps = 10000\<rparr>],
      oc_token_program = Pubkey (replicate 32 8), oc_program_id = Pubkey (replicate 32 9)\<rparr>"

lemma demo_addresses:
  "find_associated_token_address demo_externs owner mint token_program = Ok (demo_key, 255)"
  "find_program_address demo_externs seeds program = (demo_key, 255)"
  "expect_pubkey demo_externs s = Ok demo_key"
  by (simp_all add: find_associated_token_address_def expect_pubkey_def demo_externs_def)

lemma demo_opens: "\<exists>ix. build_open_instruction demo_externs demo_params = (Ok ix :: (instruction, error) result)"
  by (simp add: build_open_instruction_def derive_channel_addresses_def find_channel_pda_def
      find_event_authority_pda_def rent_sysvar_id_def demo_addresses Let_def)
    (simp add: open_builder_defs demo_params_def write_open_instruction_args_def write_open_args_eq)

theorem open_instruction_read_back_witness:
  "\<exists>ix args. build_open_instruction demo_externs demo_params = (Ok ix :: (instruction, error) result) \<and>
    ix_data ix = 1 # args \<and> is_ok (read_open_args args) \<and>
    length (ix_accounts ix) = 13 \<and> am_pubkey (ix_accounts ix ! 0) = Pubkey (replicate 32 2)"
proof -
  obtain ix where ix: "build_open_instruction demo_externs demo_params = (Ok ix :: (instruction, error) result)"
    using demo_opens by blast
  have "\<forall>d \<in> set (oc_recipients demo_params). wf_pubkey (dist_recipient d)"
    by (simp add: demo_params_def wf_pubkey_def)
  from open_instruction_read_back [OF ix this] obtain args rest where
    data: "ix_data ix = 1 # args" "is_ok (read_open_args args)"
    and keys: "map am_pubkey (ix_accounts ix) = Pubkey (replicate 32 2) # rest" "length rest = 12"
    by (auto simp: demo_params_def OPEN_DISCRIMINATOR_def is_ok_iff)
  have "length (map am_pubkey (ix_accounts ix)) = 13" using keys by simp
  moreover from this have "am_pubkey (ix_accounts ix ! 0) = map am_pubkey (ix_accounts ix) ! 0"
    by (subst nth_map) simp_all
  ultimately show ?thesis using ix data keys by auto
qed

theorem distribution_matches_open_witness:
  "\<exists>open_ix ix committed. build_open_instruction demo_externs demo_params = (Ok open_ix :: (instruction, error) result) \<and>
    build_distribute_instruction demo_externs demo_key demo_key demo_key demo_key demo_key
      (oc_recipients demo_params) demo_key demo_key = (Ok ix :: (instruction, error) result) \<and>
    drop 21 (ix_data open_ix) = committed \<and> ix_data ix = 7 # committed \<and>
    drop 8 (ix_accounts ix) = [meta_new demo_key False]"
proof -
  obtain open_ix where first: "build_open_instruction demo_externs demo_params = (Ok open_ix :: (instruction, error) result)"
    using demo_opens by blast
  obtain ix where ix: "build_distribute_instruction demo_externs demo_key demo_key demo_key demo_key demo_key
      (oc_recipients demo_params) demo_key demo_key = (Ok ix :: (instruction, error) result)"
    by (simp add: build_distribute_instruction_def demo_addresses distribute_builder_defs demo_params_def
        write_distribute_instruction_args_def write_distribute_args_def write_vec_def)
  from distribution_matches_open [OF first ix] first ix show ?thesis
    by (auto simp: demo_params_def demo_addresses DISTRIBUTE_DISCRIMINATOR_def list_all2_Cons1)
qed

theorem watermark_settles_on_chain_witness:
  "\<exists>verify settle. build_settle_and_finalize_instructions demo_externs demo_key demo_key demo_key
      (Some (replicate 64 7)) 60 4102444800 demo_key = Ok [verify, settle] \<and>
    precompile_accepts demo_externs verify"
proof -
  let ?t = "\<lparr>sys_store = \<lparr>mcs_data = [''ch'' \<mapsto> demo_spent], mcs_poisoned = False\<rparr>, sys_flights = []\<rparr>"
  have is_key: "key_text demo_externs ''ch''"
    by (simp add: key_text_def demo_externs_def demo_key_def wf_pubkey_def)
  obtain fp where fp: "finalize_params memory_channel_ops demo_externs demo_config (sys_store ?t) ''ch'' = Ok fp"
    and fields: "fp_channel_id fp = demo_key" "fp_authorized_signer fp = Some demo_key"
      "fp_voucher_signature fp = Some ''sig''" "fp_voucher_expires_at fp = Some 4102444800"
      "fp_program_id fp = demo_key" "fp_settled fp = 60"
    by (simp add: demo_run finalize_params_def demo_spent_def demo_channel_def session_parse_pubkey_def
        config_program_id_def default_program_id_def demo_bs58 try_into_array_def demo_addresses demo_key_def
        demo_config_def session_config_default_def)
  have watermark: "0 < cs_cumulative demo_spent" "cs_close_requested_at demo_spent = None"
    by (simp_all add: demo_spent_def demo_channel_def)
  have sysvar: "instructions_sysvar_id demo_externs = (Ok demo_key :: (pubkey, error) result)"
    by (simp add: instructions_sysvar_id_def demo_addresses)
  have known: "channel_of ?t ''ch'' = Some demo_spent" by simp
  from watermark_settles_on_chain [OF demo_runs_fresh(1) known watermark is_key fp demo_addresses(3) sysvar,
      where merchant = demo_key]
  show ?thesis by (auto simp: fields demo_bs58)
qed

end
