(* ===== verification/Charge_Push_Properties.thy ===== *)
theory Charge_Push_Properties
  imports Charge_Server_Properties
begin

text \<open>
  What the push verification establishes about a transaction that the client sent itself: each payment of the
  charge is made by an instruction of its own, and no other instruction moves money.  The searches for a
  payment in SOL and in a token are two providers of one interface.
\<close>

section \<open>Parsed payments\<close>




section \<open>The searches\<close>





section \<open>Memos and the allowlist\<close>







section \<open>The accepted transaction\<close>








end
