(* ===== verification/Spec2Isabelle.thy ===== *)
theory Spec2Isabelle
  imports Session_Properties Session_Request_Properties Protocol_Properties Charge_Server_Properties
    Multi_Delegator Store Charge_Amounts Charge_Issued Client_Properties Http_Stream_Properties
    Client_Opens Session_Refinement Html_Properties Program_Properties Charge_Push_Properties
begin

text \<open>
  The Rust SDK of the Machine Payments Protocol on Solana (\<^verbatim>\<open>rust/src\<close>), with the instruction constructors of
  the payment-channels program that it drives (\<^verbatim>\<open>rust/payment_channels_client\<close>).

  \<^bold>\<open>The program.\<close>  A server answers a request for a paid resource with a challenge in the HTTP header
  \<^verbatim>\<open>WWW-Authenticate\<close>; the client pays and repeats the request with a credential in \<^verbatim>\<open>Authorization\<close>; the
  server checks it and adds a receipt in \<^verbatim>\<open>Payment-Receipt\<close>.  There are two intents.  A \<^emph>\<open>charge\<close> is one
  Solana transaction: in pull mode the client signs it and the server verifies, possibly co-signs as fee
  payer, simulates, broadcasts and confirms it; in push mode the client sent it already and names its signature.
  A \<^emph>\<open>session\<close> is a payment channel with a deposit: the client opens it and signs vouchers with a growing
  cumulative amount, for a request directly or for deliveries that the server had reserved and streamed; the server
  keeps the state of every channel in a channel store and settles the last voucher on chain.

  \<^bold>\<open>Shared theories.\<close>
  \<^item> \<^verbatim>\<open>Prelude\<close>: results with a third outcome for panics, builds with and without overflow checks, machine
    integers and their bytes, states reached by a sequence of events, and the collections \<^verbatim>\<open>result_simps\<close> and
    \<^verbatim>\<open>word_facts\<close>.  \<^verbatim>\<open>Rust_Strings\<close>: the string operations of the standard library and the round trip of
    decimal amounts.  \<^verbatim>\<open>Errors\<close>: \<^verbatim>\<open>error.rs\<close> and the record \<^verbatim>\<open>externs\<close> of third-party functions.
    \<^verbatim>\<open>Json\<close>: values of \<^verbatim>\<open>serde_json\<close> with their accessors.

  \<^bold>\<open>Protocol.\<close>
  \<^item> \<^verbatim>\<open>Core_Types\<close>: \<^verbatim>\<open>protocol/core/types.rs\<close>, \<^verbatim>\<open>challenge.rs\<close> and \<^verbatim>\<open>expires.rs\<close>: names, base64url JSON,
    challenges whose id is an HMAC over their fields, credentials, receipts.
  \<^item> \<^verbatim>\<open>Headers\<close>: \<^verbatim>\<open>protocol/core/headers.rs\<close>.  \<^verbatim>\<open>Header_Roundtrips\<close> and \<^verbatim>\<open>Header_Splitting\<close> hold the lemmas
    on quoting, parameters and the scanner for several challenges; \<^verbatim>\<open>Protocol_Properties\<close> concludes that what
    is formatted is read back, and what the id binds.
  \<^item> \<^verbatim>\<open>Charge_Request\<close>: \<^verbatim>\<open>protocol/intents/mod.rs\<close> and \<^verbatim>\<open>charge.rs\<close>; \<^verbatim>\<open>Charge_Amounts\<close>: what
    \<^verbatim>\<open>parse_units\<close> computes.  \<^verbatim>\<open>Solana\<close>: \<^verbatim>\<open>protocol/solana.rs\<close>.  \<^verbatim>\<open>Session_Types\<close> and \<^verbatim>\<open>Session_Json\<close>:
    \<^verbatim>\<open>protocol/intents/session.rs\<close>.
  \<^item> \<^verbatim>\<open>Payment_Channels\<close> and \<^verbatim>\<open>Channel_Instructions\<close>: \<^verbatim>\<open>program/payment_channels.rs\<close>, on top of the
    generated client; \<^verbatim>\<open>Multi_Delegator\<close>: \<^verbatim>\<open>program/multi_delegator.rs\<close>.

  \<^bold>\<open>The client of the payment-channels program\<close> (\<^verbatim>\<open>rust/payment_channels_client\<close>, generated code).
  \<^item> \<^verbatim>\<open>Borsh\<close>: readers and writers, and the contract of a codec; \<^verbatim>\<open>Program_Types\<close>: the argument types with their codecs;
    \<^verbatim>\<open>Program_Instructions\<close>, \<^verbatim>\<open>Program_Builders\<close>: the nine instructions and their builders; \<^verbatim>\<open>Program_Cpi\<close>,
    \<^verbatim>\<open>Program_Cpi_Builders\<close>: the same from another program, on a runtime that is a parameter; \<^verbatim>\<open>Program_Accounts\<close>,
    \<^verbatim>\<open>Program_Errors\<close>: accounts read from bytes, handles and RPC, and error codes.
  \<^item> \<^verbatim>\<open>Program_Cpi_Properties\<close>: a call makes the instruction of the client, with the flags of remaining accounts
    swapped.  \<^verbatim>\<open>Program_Properties\<close>: an open is read back as it was asked for, a distribution matches the commitment
    of the open, what the server holds of a session settles on chain, and which data is a channel account.

  \<^bold>\<open>Stores\<close> (\<^verbatim>\<open>store.rs\<close>).  \<^verbatim>\<open>Store\<close> is the key-value store for replay protection, \<^verbatim>\<open>Channel_Store\<close> the store
  of channel states.  A trait is a record of operations that pass the state of the store; its contract is a locale,
  interpreted on the in-memory store, which panics for ever once its mutex is poisoned.

  \<^bold>\<open>Charges.\<close>
  \<^item> \<^verbatim>\<open>Charge_Transaction\<close> (pull), \<^verbatim>\<open>Charge_Push\<close>, \<^verbatim>\<open>Verification_Errors\<close>, \<^verbatim>\<open>Charge_Server\<close> and
    \<^verbatim>\<open>Charge_Settlement\<close> model \<^verbatim>\<open>server/charge.rs\<close>; settling returns the list of its effects (signatures made,
    simulations, broadcasts, polls) beside its result.
  \<^item> \<^verbatim>\<open>Charge_Soundness\<close> and \<^verbatim>\<open>Charge_Payments\<close>: what the checks establish, once for the SOL and the token search;
    \<^verbatim>\<open>Charge_Properties\<close>: an accepted transaction pays exactly, by transfers and nothing else, and a co-signed one
    spares the server;
    \<^verbatim>\<open>Charge_Server_Properties\<close>: what is broadcast, when a credential is accepted, and that no payment is
    accepted twice; \<^verbatim>\<open>Charge_Push_Properties\<close>: a push payment pays exactly.
  \<^item> \<^verbatim>\<open>Floats\<close>: the arithmetic, parsing and printing of \<^verbatim>\<open>f64\<close>; \<^verbatim>\<open>Charge_Balances\<close>: \<^verbatim>\<open>diagnose_balances\<close>, which
    adds balances to the message of a failed simulation, and when it panics.
  \<^item> \<^verbatim>\<open>Client_Charge\<close>: \<^verbatim>\<open>client/charge.rs\<close>.  \<^verbatim>\<open>Charge_Issued\<close> (an issued challenge reaches settlement
    unchanged), \<^verbatim>\<open>Charge_Completeness\<close> (a transaction with one instruction per goal is accepted),
    \<^verbatim>\<open>Charge_Compiled\<close> (compiled instructions are read as what they were), \<^verbatim>\<open>Charge_Agreement\<close> (the layout of what
    the client builds) and \<^verbatim>\<open>Charge_End_To_End\<close> compose both sides: what the client builds is accepted.
    \<^verbatim>\<open>Charge_Examples\<close>, \<^verbatim>\<open>Charge_Demo\<close> and \<^verbatim>\<open>Charge_Demo_Shop\<close> are the concrete worlds of the witnesses.
  \<^item> \<^verbatim>\<open>Axum\<close>: \<^verbatim>\<open>server/axum.rs\<close>, the extractor that gates a route, with its responses.  \<^verbatim>\<open>Axum_Properties\<close>: an
    unpaid request gets a challenge that the client reads back, the header that the client builds for it is let
    through, and nothing is let through but a payment of this very route; \<^verbatim>\<open>Axum_Demo\<close> has the witnesses.
  \<^item> \<^verbatim>\<open>Html\<close>: \<^verbatim>\<open>server/html.rs\<close>, the payment page.  \<^verbatim>\<open>Html_Properties\<close>: escaped text is shown as given, the
    template is filled place by place when no text holds a place (and what happens when one does), and the price
    shown is the one asked for.

  \<^bold>\<open>Sessions.\<close>
  \<^item> \<^verbatim>\<open>Session_Server\<close>: \<^verbatim>\<open>server/session.rs\<close>, a definition per method; the closures given to the store are
    definitions of their own.  \<^verbatim>\<open>Session_Steps\<close>: what each closure does to one channel.  \<^verbatim>\<open>Session_Runs\<close>: the
    machine in which requests interleave, since vouchers and commits are checked on a state that may have changed
    when they are written; \<^verbatim>\<open>Session_Contracts\<close>: what each method answers when undisturbed.
    \<^verbatim>\<open>Session_Properties\<close> and \<^verbatim>\<open>Session_Request_Properties\<close> state the results on the in-memory store, and
    \<^verbatim>\<open>Session_Refinement\<close> that every channel behaves as an abstract prepaid account, which does or refuses what
    a request asks of it.  The results on runs assume that no known channel is opened again (\<^verbatim>\<open>fresh_open\<close>),
    since an open overwrites what is stored; \<^verbatim>\<open>process_open_forgets\<close> states that it does.
  \<^item> \<^verbatim>\<open>Client_Session\<close>: \<^verbatim>\<open>client/session.rs\<close> and \<^verbatim>\<open>session_consumer.rs\<close>; \<^verbatim>\<open>Client_Server\<close> and
    \<^verbatim>\<open>Client_Properties\<close>: client and server over a network that loses requests and answers.
    \<^verbatim>\<open>Client_Channels\<close>: \<^verbatim>\<open>client/payment_channels.rs\<close> and \<^verbatim>\<open>multi_delegate.rs\<close>; \<^verbatim>\<open>Client_Opens\<close>: the open the
    client sends is the one the server expects, and the session it starts can spend the deposit.
  \<^item> \<^verbatim>\<open>Http_Stream\<close>: \<^verbatim>\<open>client/http_stream.rs\<close>; \<^verbatim>\<open>Http_Stream_Properties\<close>: the chunks of a stream do not matter
    as long as each is valid UTF-8, and acknowledging a stream always ends.

  \<^bold>\<open>Interfaces.\<close>  \<^verbatim>\<open>kv_store\<close> (what the methods of \<^verbatim>\<open>Store\<close> promise) is extended by \<^verbatim>\<open>replay_store\<close>, in which replay
  protection is proved; \<^verbatim>\<open>channel_contract\<close> (what the methods of \<^verbatim>\<open>ChannelStore\<close> promise) by
  \<^verbatim>\<open>session_contract\<close>, which holds every lemma on the session server, its refinement and the client against it.
  All four are interpreted on the in-memory stores.  \<^verbatim>\<open>borsh_codec\<close> (what is written is read back, and what is read
  was written) is interpreted on every type of the program client.  \<^verbatim>\<open>payment_search\<close> is the contract between the search for
  one payment and the loops around it, interpreted on the SOL and on the token search of the code.

  \<^bold>\<open>Correspondence.\<close>  Structs are records, enums are datatypes, \<^verbatim>\<open>Result\<close> is a datatype with a panic, machine integers
  are words.  An addition that may overflow takes the build as a parameter: it panics or wraps.  A mutable
  reference or lock is state passing.  Asynchronous code is sequential up to the interleavings named above.
  Loops over lists are recursive functions; the index loops of the header parser and of the UTF-8 decoder recur on
  the rest of the text, and the reading loops of a stream on what is left to read, each with its measure.
  The retry loops have the bounds of the code (3 simulations, 30 polls).  Fuel occurs only in the reading loops of
  \<^verbatim>\<open>Http_Stream_Properties\<close>, where enough of it is shown to give the answer of the loops of the model.

  \<^bold>\<open>Code outside the repository\<close> is a parameter: base58, keys, PDA search, BLAKE3, Ed25519, the status of a
  signature and the clock (\<^verbatim>\<open>externs\<close>); base64url, HMAC, JSON text and timestamps (\<^verbatim>\<open>codecs\<close>); the decoding of
  transactions, the RPC client and the signer of the charge server; message compilation, \<^verbatim>\<open>bincode\<close> and the System
  transfer on the client (\<^verbatim>\<open>client_crates\<close>); \<^verbatim>\<open>Pubkey::new_unique\<close>;
  the header values and responses of \<^verbatim>\<open>axum\<close> and \<^verbatim>\<open>http\<close> (\<^verbatim>\<open>http_crate\<close>); the generated page template and the
  precision of \<^verbatim>\<open>powi\<close> (\<^verbatim>\<open>html_files\<close>).  Where a theorem relies on them, the documented
  behaviour is a named hypothesis: \<^verbatim>\<open>programs_distinct\<close>, \<^verbatim>\<open>client_crates_lawful\<close> (inverse encodings, and
  compilation of messages with at most 29 instructions, the most a challenge with 8 splits asks for),
  \<^verbatim>\<open>keys_lawful\<close>, \<^verbatim>\<open>http_lawful\<close> (visible text is a header value that is read back), \<^verbatim>\<open>hmac_nonempty\<close>, \<^verbatim>\<open>powi_exact\<close>
  (small powers of ten are exact) and the inverse laws of JSON text and base64url.  Each has a witness in a concrete world.

  \<^bold>\<open>Not modelled.\<close>  The generated script and template of the payment page (parameters); the anchor trait impls of
  the program client, which forward to the readers that are modelled; the command-line programs and the example,
  which read their environment and call the SDK; the SDKs in other languages.
  Of modelled files: sleeps and logging; the wording of \<^verbatim>\<open>serde\<close> errors; Unicode white space beyond ASCII;
  failures of memory allocation.
\<close>

end
